(* ===== verification/Prelude.thy ===== *)
theory Prelude
  imports Main "HOL-Library.Word"
begin

text \<open>
  Shared vocabulary of the development: bytes and Go strings, the result type of fallible
  code with its sequencing, big-endian integers, and the lemma collections the component
  theories use.

  \<^item> A Go \<^verbatim>\<open>[]byte\<close> is a \<open>byte list\<close>. The nil slice and the empty slice are the same
    list: every operation of the modelled code looks at the length only.
  \<^item> A Go or Solidity \<^verbatim>\<open>string\<close> is a \<open>string\<close> (characters are bytes); \<open>str_bytes\<close> and
    \<open>bytes_str\<close> are the conversions \<^verbatim>\<open>[]byte(s)\<close> and \<^verbatim>\<open>string(b)\<close>.
  \<^item> A fallible function returns \<open>'e + 'a\<close>: \<open>Inl\<close> is the error (or panic, or revert),
    \<open>Inr\<close> the result. \<open>bindr\<close> runs the rest of the code when there was no error.
\<close>

unbundle bit_operations_syntax

type_synonym byte = "8 word"
type_synonym address = "160 word"

named_theorems result_simps "rewrite rules for the result type"
named_theorems wire_simps "what the wire-format readers and writers compute"

subsection \<open>Results\<close>

fun bindr :: "'e + 'a \<Rightarrow> ('a \<Rightarrow> 'e + 'b) \<Rightarrow> 'e + 'b" where
  "bindr (Inl e) f = Inl e"
| "bindr (Inr x) f = f x"

declare bindr.simps [result_simps]

lemma bindr_eq_Inr [result_simps]: "bindr m f = Inr y \<longleftrightarrow> (\<exists>x. m = Inr x \<and> f x = Inr y)"
  by (cases m) auto

lemma bindr_eq_Inl [result_simps]:
  "bindr m f = Inl e \<longleftrightarrow> m = Inl e \<or> (\<exists>x. m = Inr x \<and> f x = Inl e)"
  by (cases m) auto

lemma bindr_split:
  "P (bindr m f) \<longleftrightarrow> (\<forall>e. m = Inl e \<longrightarrow> P (Inl e)) \<and> (\<forall>x. m = Inr x \<longrightarrow> P (f x))"
  by (cases m) auto

lemma bindr_assoc: "bindr (bindr m f) g = bindr m (\<lambda>x. bindr (f x) g)"
  by (cases m) auto

lemma bindr_cong [fundef_cong]:
  "m = m' \<Longrightarrow> (\<And>x. m' = Inr x \<Longrightarrow> f x = g x) \<Longrightarrow> bindr m f = bindr m' g"
  by (cases m') auto

definition require :: "bool \<Rightarrow> 'e \<Rightarrow> 'e + unit" where
  "require b e = (if b then Inr () else Inl e)"

lemma require_simps [result_simps]:
  "require b e = Inr u \<longleftrightarrow> b" "require b e = Inl e' \<longleftrightarrow> \<not> b \<and> e = e'"
  "require True e = Inr ()" "require False e = Inl e"
  by (auto simp: require_def)

subsection \<open>Strings and bytes\<close>

definition char_byte :: "char \<Rightarrow> byte" where
  "char_byte c = word_of_nat (of_char c)"

definition byte_char :: "byte \<Rightarrow> char" where
  "byte_char b = char_of (unat b)"

definition str_bytes :: "string \<Rightarrow> byte list" where
  "str_bytes s = map char_byte s"

definition bytes_str :: "byte list \<Rightarrow> string" where
  "bytes_str bs = map byte_char bs"

lemma byte_char_char_byte [simp]: "byte_char (char_byte c) = c"
proof -
  have "(of_char c :: nat) < 256" by (rule nat_of_char_less_256)
  then show ?thesis by (simp add: byte_char_def char_byte_def unat_of_nat)
qed

lemma char_byte_byte_char [simp]: "char_byte (byte_char b) = b"
proof -
  have "unat b < 256" using unsigned_less [of b] by simp
  then show ?thesis by (simp add: byte_char_def char_byte_def)
qed

lemma str_bytes_inverse [simp]: "bytes_str (str_bytes s) = s"
  by (simp add: bytes_str_def str_bytes_def map_idI)

lemma bytes_str_inverse [simp]: "str_bytes (bytes_str bs) = bs"
  by (simp add: bytes_str_def str_bytes_def map_idI)

lemma length_str_bytes [simp]: "length (str_bytes s) = length s"
  by (simp add: str_bytes_def)

lemma length_bytes_str [simp]: "length (bytes_str bs) = length bs"
  by (simp add: bytes_str_def)

lemma str_bytes_Nil_iff [simp]: "str_bytes s = [] \<longleftrightarrow> s = []" "str_bytes [] = []"
  by (simp_all add: str_bytes_def)

lemma bytes_str_Nil_iff [simp]: "bytes_str bs = [] \<longleftrightarrow> bs = []" "bytes_str [] = []"
  by (simp_all add: bytes_str_def)

lemma str_bytes_append: "str_bytes (s @ t) = str_bytes s @ str_bytes t"
  by (simp add: str_bytes_def)

lemma inj_str_bytes: "str_bytes s = str_bytes t \<longleftrightarrow> s = t"
  by (metis str_bytes_inverse)

subsection \<open>Positions in a buffer\<close>

text \<open>\<open>at d i xs\<close>: what remains of the buffer \<open>d\<close> from index \<open>i\<close> on is \<open>xs\<close>.\<close>

definition at :: "'a list \<Rightarrow> nat \<Rightarrow> 'a list \<Rightarrow> bool" where
  "at d i xs \<longleftrightarrow> i + length xs = length d \<and> drop i d = xs"

lemma at_0 [simp]: "at d 0 d"
  by (simp add: at_def)

lemma at_appendD: "at d i (xs @ ys) \<Longrightarrow> at d (i + length xs) ys"
  unfolding at_def by (metis add.assoc append_eq_conv_conj drop_drop length_append add.commute)

lemma at_ConsD: "at d i (x # ys) \<Longrightarrow> at d (Suc i) ys"
  using at_appendD [of d i "[x]" ys] by simp

lemma at_nth: "at d i (x # ys) \<Longrightarrow> i < length d \<and> d ! i = x"
  by (auto simp: at_def nth_via_drop)

lemma at_take: "at d i (xs @ ys) \<Longrightarrow> take (length xs) (drop i d) = xs"
  by (simp add: at_def)

lemma at_length: "at d i xs \<Longrightarrow> i + length xs = length d"
  by (simp add: at_def)

lemma at_end: "at d i [] \<longleftrightarrow> i = length d"
  by (auto simp: at_def)

end
