(* ===== verification/Varint.thy ===== *)
theory Varint
  imports Prelude
begin

text \<open>
  Base-128 varints as the generated Go marshalers read and write them
  (\<^verbatim>\<open>sovX\<close>, \<^verbatim>\<open>encodeVarintX\<close> and the inlined reading loops of the \<^verbatim>\<open>.pb.go\<close> files), the
  Go slice primitives the writers use, and the proof that reading inverts writing.
  The code writes backwards into a buffer of the size it computed; \<open>varint_bytes\<close> is
  the forward, list-valued specification.
\<close>

unbundle bit_operations_syntax

subsection \<open>Errors\<close>

text \<open>
  The five generated files declare their own error variables
  (\<^verbatim>\<open>ErrIntOverflowApp\<close>, \<^verbatim>\<open>ErrIntOverflowChannel\<close>, ...), so those errors carry the file.
  \<open>Panic_index\<close> is Go's run-time panic for an index or slice bound out of range;
  \<open>Out_of_fuel\<close> stands for an unmarshal loop cut off by the fuel of the model, which is
  proved never to happen.
\<close>

datatype proto_file = App_proto | Channel_proto | Connection_proto | MockClient_proto | IBFT2_proto

datatype pb_error =
    Err_IntOverflow proto_file
  | Err_UnexpectedEOF
  | Err_InvalidLength proto_file
  | Err_UnexpectedEndOfGroup proto_file
  | Err_wiretype_end_group string
  | Err_illegal_tag string int "64 word"
  | Err_wrong_wireType int string
  | Err_illegal_wireType int
  | Panic_index
  | Out_of_fuel

subsection \<open>Go slices\<close>

definition go_store :: "byte list \<Rightarrow> int \<Rightarrow> byte \<Rightarrow> pb_error + byte list" where
  "go_store d i b = (if 0 \<le> i \<and> i < int (length d) then Inr (d[nat i := b]) else Inl Panic_index)"

definition go_copy_at :: "byte list \<Rightarrow> int \<Rightarrow> byte list \<Rightarrow> pb_error + byte list" where
  "go_copy_at d i src =
     (if i < 0 \<or> int (length d) < i then Inl Panic_index
      else let n = nat i; k = min (length d - n) (length src)
           in Inr (take n d @ take k src @ drop (n + k) d))"

lemma go_store_at:
  "i < length d \<Longrightarrow> go_store d (int i) b = Inr (take i d @ [b] @ drop (Suc i) d)"
  by (simp add: go_store_def upd_conv_take_nth_drop)

lemma go_copy_at_fits:
  "n + length src \<le> length d \<Longrightarrow>
   go_copy_at d (int n) src = Inr (take n d @ src @ drop (n + length src) d)"
  by (simp add: go_copy_at_def Let_def min_absorb2)

subsection \<open>Sizes\<close>

text \<open>\<^verbatim>\<open>math/bits.Len64\<close>: the number of bits needed to represent x; 0 for 0.\<close>

lemma unat_shift_right: "unat (drop_bit n (x :: 'a :: len word)) = unat x div 2 ^ n"
  unfolding unat_drop_bit_eq by (rule drop_bit_eq_div)

function Len64 :: "64 word \<Rightarrow> nat" where
  "Len64 x = (if x = 0 then 0 else Suc (Len64 (drop_bit 1 x)))"
  by pat_completeness auto
termination
proof (relation "measure unat")
  fix x :: "64 word" assume "x \<noteq> 0"
  then have "0 < unat x" by (simp add: unat_gt_0)
  then show "(drop_bit 1 x, x) \<in> measure unat"
    unfolding in_measure unat_shift_right by (simp only: power_one_right)
qed simp

declare Len64.simps [simp del]

definition sov :: "64 word \<Rightarrow> nat" where
  "sov x = (Len64 (x OR 1) + 6) div 7"

definition soz :: "64 word \<Rightarrow> nat" where
  "soz x = sov (push_bit 1 x XOR signed_drop_bit 63 x)"

subsection \<open>Writing\<close>

lemma unat_drop_bit_7_less: "128 \<le> (v :: 64 word) \<Longrightarrow> unat (drop_bit 7 v) < unat v"
  unfolding unat_shift_right word_le_nat_alt by simp

function encodeVarint_loop :: "byte list \<Rightarrow> int \<Rightarrow> 64 word \<Rightarrow> pb_error + byte list" where
  "encodeVarint_loop d offset v =
     (if 128 \<le> v
      then bindr (go_store d offset (ucast (v AND 127 OR 128)))
             (\<lambda>d'. encodeVarint_loop d' (offset + 1) (drop_bit 7 v))
      else go_store d offset (ucast v))"
  by pat_completeness auto
termination
  by (relation "measure (\<lambda>(d, offset, v). unat v)") (auto dest: unat_drop_bit_7_less)

declare encodeVarint_loop.simps [simp del]

definition encodeVarint :: "byte list \<Rightarrow> int \<Rightarrow> 64 word \<Rightarrow> pb_error + byte list \<times> int" where
  "encodeVarint d offset v =
     (let base = offset - int (sov v)
      in bindr (encodeVarint_loop d base v) (\<lambda>d'. Inr (d', base)))"

function varint_bytes :: "64 word \<Rightarrow> byte list" where
  "varint_bytes v =
     (if 128 \<le> v then ucast (v AND 127 OR 128) # varint_bytes (drop_bit 7 v) else [ucast v])"
  by pat_completeness auto
termination
  by (relation "measure unat") (auto dest: unat_drop_bit_7_less)

declare varint_bytes.simps [simp del]

lemma varint_bytes_not_Nil [simp]: "varint_bytes v \<noteq> []"
  by (subst varint_bytes.simps) simp

lemma varint_bytes_small: "v < 128 \<Longrightarrow> varint_bytes v = [ucast v]"
  by (subst varint_bytes.simps) (simp add: not_le)

subsection \<open>The size function is the length written\<close>

lemma Len64_OR_1: "x \<noteq> 0 \<Longrightarrow> Len64 (x OR 1) = Len64 x"
proof -
  assume "x \<noteq> 0"
  moreover have "drop_bit 1 (x OR 1) = drop_bit 1 x"
    by (rule bit_eqI) (simp add: bit_simps)
  moreover have "x OR 1 \<noteq> 0" by (simp add: or_eq_0_iff)
  ultimately show ?thesis
    by (simp add: Len64.simps [of x] Len64.simps [of "x OR 1"] del: drop_bit_Suc)
qed

lemma Len64_drop: "drop_bit n x \<noteq> 0 \<Longrightarrow> Len64 x = n + Len64 (drop_bit n x)"
proof (induction n arbitrary: x)
  case 0
  then show ?case by simp
next
  case (Suc n)
  then have "drop_bit n (drop_bit 1 x) \<noteq> 0" by (simp add: drop_bit_drop_bit)
  from Suc.IH [OF this] have "Len64 (drop_bit 1 x) = n + Len64 (drop_bit (Suc n) x)"
    by (simp add: drop_bit_drop_bit)
  moreover have "x \<noteq> 0" using Suc.prems by auto
  ultimately show ?case by (simp add: Len64.simps [of x])
qed

lemma Len64_le: "unat x < 2 ^ n \<Longrightarrow> Len64 x \<le> n"
proof (induction n arbitrary: x)
  case 0
  then have "x = 0" by (simp add: unat_eq_zero)
  then show ?case by (simp add: Len64.simps)
next
  case (Suc n)
  have "unat (drop_bit 1 x) < 2 ^ n"
    unfolding unat_shift_right using Suc.prems by (simp only: power_one_right power_Suc)
  from Suc.IH [OF this] show ?case by (simp add: Len64.simps [of x])
qed

lemma take_bit_7_eq: "(v :: 64 word) < 128 \<Longrightarrow> take_bit 7 v = v"
proof -
  assume v: "v < 128"
  have "unat (take_bit 7 v) = take_bit 7 (unat v)" by (rule unsigned_take_bit_eq)
  also have "\<dots> = unat v" using v by (simp add: take_bit_nat_eq_self_iff word_less_nat_alt)
  finally show ?thesis by (simp only: word_unat_eq_iff)
qed

lemma sov_small: "v < 128 \<Longrightarrow> sov v = 1"
proof -
  assume v: "v < 128"
  have "unat (v OR 1) < 2 ^ 7"
  proof -
    from v have "take_bit 7 v = v" by (rule take_bit_7_eq)
    then have "take_bit 7 (v OR 1) = v OR 1"
      by (simp only: take_bit_or) simp
    then show ?thesis by (metis take_bit_nat_less_exp unsigned_take_bit_eq)
  qed
  then have "Len64 (v OR 1) \<le> 7" by (rule Len64_le)
  moreover have "Len64 (v OR 1) \<noteq> 0" by (simp add: Len64.simps [of "v OR 1"] or_eq_0_iff)
  ultimately show ?thesis by (simp add: sov_def)
qed

lemma drop_bit_7_nonzero: "128 \<le> (v :: 64 word) \<Longrightarrow> drop_bit 7 v \<noteq> 0"
  by (simp add: word_le_nat_alt drop_bit_eq_div unat_eq_zero [symmetric] unat_div)

lemma sov_large: "128 \<le> v \<Longrightarrow> sov v = Suc (sov (drop_bit 7 v))"
proof -
  assume v: "128 \<le> v"
  then have nz: "drop_bit 7 v \<noteq> 0" by (rule drop_bit_7_nonzero)
  from v have "v \<noteq> 0" by auto
  with nz have "Len64 (v OR 1) = 7 + Len64 (drop_bit 7 v OR 1)"
    by (simp add: Len64_OR_1 Len64_drop [of 7])
  then show ?thesis by (simp add: sov_def)
qed

lemma length_varint_bytes [simp]: "length (varint_bytes v) = sov v"
proof (induction v rule: varint_bytes.induct)
  case (1 v)
  then show ?case
    by (cases "128 \<le> v")
      (simp_all add: varint_bytes.simps [of v] sov_large [of v] sov_small [of v])
qed

lemma sov_pos: "0 < sov v"
  by (metis length_greater_0_conv length_varint_bytes varint_bytes_not_Nil)

lemma sov_le_10: "sov v \<le> 10"
proof -
  have "unat (v OR 1) < 2 ^ 64" using unsigned_less [of "v OR 1"] by simp
  then have "Len64 (v OR 1) \<le> 64" by (rule Len64_le)
  then show ?thesis by (simp add: sov_def)
qed

subsection \<open>The backward writer produces the specified bytes\<close>

lemma encodeVarint_loop_eq:
  "off + sov v \<le> length d \<Longrightarrow>
   encodeVarint_loop d (int off) v = Inr (take off d @ varint_bytes v @ drop (off + sov v) d)"
proof (induction v arbitrary: d off rule: varint_bytes.induct)
  case (1 v)
  show ?case
  proof (cases "128 \<le> v")
    case False
    then have v: "v < 128" by simp
    with "1.prems" have "off < length d" by (simp add: sov_small)
    with False v show ?thesis
      by (simp add: encodeVarint_loop.simps [of d "int off" v] varint_bytes_small sov_small
          go_store_at del: not_le)
  next
    case True
    let ?b = "ucast (v AND 127 OR 128) :: byte" and ?v' = "drop_bit 7 v"
    let ?d' = "take off d @ [?b] @ drop (Suc off) d"
    from True have sv: "sov v = Suc (sov ?v')" by (rule sov_large)
    with "1.prems" have off: "off < length d" and len: "Suc off + sov ?v' \<le> length ?d'" by simp_all
    have "encodeVarint_loop d (int off) v = encodeVarint_loop ?d' (int (Suc off)) ?v'"
      using True off
      by (simp add: encodeVarint_loop.simps [of d "int off" v] go_store_at add.commute)
    also have "\<dots> = Inr (take (Suc off) ?d' @ varint_bytes ?v' @ drop (Suc off + sov ?v') ?d')"
      by (rule "1.IH" [OF True len])
    also have "take (Suc off) ?d' = take off d @ [?b]"
      using off by (simp add: min_absorb2)
    also have "drop (Suc off + sov ?v') ?d' = drop (off + sov v) d"
      using off by (simp add: sv min_absorb2 add.commute)
    finally show ?thesis
      using True by (simp add: varint_bytes.simps [of v])
  qed
qed

lemma encodeVarint_eq:
  "sov v \<le> off \<Longrightarrow> off \<le> length d \<Longrightarrow>
   encodeVarint d (int off) v =
     Inr (take (off - sov v) d @ varint_bytes v @ drop off d, int (off - sov v))"
proof -
  assume a: "sov v \<le> off" "off \<le> length d"
  then have base: "int off - int (sov v) = int (off - sov v)" by (simp only: of_nat_diff)
  from a have "encodeVarint_loop d (int (off - sov v)) v =
      Inr (take (off - sov v) d @ varint_bytes v @ drop (off - sov v + sov v) d)"
    by (intro encodeVarint_loop_eq) simp
  then show ?thesis
    unfolding encodeVarint_def Let_def base using a by (simp only: bindr.simps le_add_diff_inverse2)
qed

subsection \<open>Reading\<close>

text \<open>
  The reading loop, inlined at every field by the generator: \<^verbatim>\<open>for shift := uint(0); ; shift
  += 7\<close>. The accumulator has the type of the field (\<^verbatim>\<open>uint64\<close> and \<^verbatim>\<open>int\<close>: \<open>64 word\<close>;
  the enums: \<open>32 word\<close>); bits shifted past its width are lost, as in Go. The last byte may
  carry bits beyond 64 that are dropped without an error.
\<close>

function read_varint ::
  "proto_file \<Rightarrow> byte list \<Rightarrow> nat \<Rightarrow> nat \<Rightarrow> 'a::len word \<Rightarrow> pb_error + 'a word \<times> nat" where
  "read_varint pf d shift i acc =
     (if 64 \<le> shift then Inl (Err_IntOverflow pf)
      else if length d \<le> i then Inl Err_UnexpectedEOF
      else let b = d ! i; acc' = acc OR push_bit shift (ucast (b AND 127))
           in if b < 128 then Inr (acc', Suc i) else read_varint pf d (shift + 7) (Suc i) acc')"
  by pat_completeness auto
termination
  by (relation "measure (\<lambda>(pf, d, shift, i, acc). 64 - shift)") auto

declare read_varint.simps [simp del]

lemma read_varint_progress:
  "read_varint pf d shift i acc = Inr (v, j) \<Longrightarrow> i < j \<and> j \<le> length d"
proof (induction pf d shift i acc rule: read_varint.induct)
  case (1 pf d shift i acc)
  show ?case
  proof (cases "64 \<le> shift \<or> length d \<le> i \<or> d ! i < 128")
    case True
    with "1.prems" show ?thesis
      by (auto simp: read_varint.simps [of pf d shift i acc] Let_def split: if_splits)
  next
    case False
    with "1.prems" have "read_varint pf d (shift + 7) (Suc i)
        (acc OR push_bit shift (ucast (d ! i AND 127))) = Inr (v, j)"
      by (simp add: read_varint.simps [of pf d shift i acc] Let_def)
    with "1.IH" False have "Suc i < j \<and> j \<le> length d" by (auto simp: not_le)
    then show ?thesis by simp
  qed
qed

lemma read_varint_error:
  "read_varint pf d shift i acc = Inl e \<Longrightarrow> e = Err_IntOverflow pf \<or> e = Err_UnexpectedEOF"
proof (induction pf d shift i acc rule: read_varint.induct)
  case (1 pf d shift i acc)
  show ?case
  proof (cases "64 \<le> shift \<or> length d \<le> i \<or> d ! i < 128")
    case True
    with "1.prems" show ?thesis
      by (auto simp: read_varint.simps [of pf d shift i acc] Let_def split: if_splits)
  next
    case False
    with "1.prems" have "read_varint pf d (shift + 7) (Suc i)
        (acc OR push_bit shift (ucast (d ! i AND 127))) = Inl e"
      by (simp add: read_varint.simps [of pf d shift i acc] Let_def)
    with "1.IH" False show ?thesis by (auto simp: not_le)
  qed
qed

text \<open>One digit of a varint and the rest, put together again.\<close>

lemma bit_127: "bit (127 :: 'a::len word) k \<longleftrightarrow> k < 7 \<and> k < LENGTH('a)"
proof -
  have "(127 :: 'a word) = mask 7" by (simp add: mask_eq_exp_minus_1)
  then show ?thesis by (simp only: bit_mask_iff) auto
qed

lemma bit_128: "bit (128 :: 'a::len word) k \<longleftrightarrow> k = 7 \<and> k < LENGTH('a)"
proof -
  have "(128 :: 'a word) = 2 ^ 7" by simp
  then show ?thesis by (simp only: bit_exp_iff) auto
qed

lemma ucast_low_digit:
  "push_bit s (ucast (ucast (v AND 127 OR 128 :: 64 word) AND (127 :: byte)) :: 'a::len word) OR
   push_bit (s + 7) (ucast (drop_bit 7 v)) = push_bit s (ucast v)"
proof (rule bit_word_eqI)
  fix n assume n: "n < LENGTH('a)"
  consider "n < s" | "s \<le> n" "n < s + 7" | "s + 7 \<le> n" by linarith
  then show "bit (push_bit s (ucast (ucast (v AND 127 OR 128) AND (127 :: byte)) :: 'a word) OR
      push_bit (s + 7) (ucast (drop_bit 7 v))) n \<longleftrightarrow> bit (push_bit s (ucast v :: 'a word)) n"
    by cases (simp_all only: bit_or_iff bit_push_bit_iff bit_and_iff bit_unsigned_iff bit_127 bit_128
        bit_drop_bit_eq possible_bit_word o_def, use n in auto)
qed

lemma continuation_byte: "\<not> (ucast (v AND 127 OR 128 :: 64 word) :: byte) < 128"
proof -
  have "(ucast (v AND 127 OR 128) :: byte) = ucast (v AND 127) OR 128"
    by (simp add: unsigned_or_eq)
  moreover have "128 \<le> (128 :: byte) OR ucast (v AND 127)" by (rule le_word_or2)
  ultimately show ?thesis by (simp only: not_less or.commute)
qed

lemma last_byte:
  assumes "(v :: 64 word) < 128"
  shows "(ucast v :: byte) < 128" "ucast ((ucast v :: byte) AND 127) = (ucast v :: 'a::len word)"
proof -
  have low: "k < 7" if "bit v k" for k
    using that take_bit_7_eq [OF assms] by (metis bit_take_bit_iff)
  then show "ucast ((ucast v :: byte) AND 127) = (ucast v :: 'a::len word)"
    by (intro bit_word_eqI)
      (simp only: bit_and_iff bit_unsigned_iff bit_127 possible_bit_word, auto dest: low)
  show "(ucast v :: byte) < 128"
    using assms by (simp add: word_less_nat_alt unsigned_ucast_eq take_bit_nat_eq_self)
qed

lemma read_varint_at:
  "at d i (varint_bytes v @ rest) \<Longrightarrow> shift < 64 \<Longrightarrow> unat v < 2 ^ (64 - shift) \<Longrightarrow>
   read_varint pf d shift i acc = Inr (acc OR push_bit shift (ucast v), i + sov v)"
proof (induction v arbitrary: i shift acc rule: varint_bytes.induct)
  case (1 v)
  show ?case
  proof (cases "128 \<le> v")
    case False
    then have v: "v < 128" by simp
    with "1.prems"(1) have "i < length d" "d ! i = ucast v"
      by (auto simp: varint_bytes_small dest: at_nth)
    with v "1.prems"(2) show ?thesis
      by (simp add: read_varint.simps [of pf d shift i acc] last_byte sov_small Let_def)
  next
    case True
    let ?b = "ucast (v AND 127 OR 128) :: byte" and ?v' = "drop_bit 7 v"
    have vb: "varint_bytes v = ?b # varint_bytes ?v'"
      using True by (simp add: varint_bytes.simps [of v])
    from "1.prems"(1) have b: "i < length d" "d ! i = ?b" and
      at': "at d (Suc i) (varint_bytes ?v' @ rest)"
      unfolding vb by (auto dest: at_nth at_ConsD)
    have "2 ^ 7 < (2 :: nat) ^ (64 - shift)"
      using True "1.prems"(3) by (simp add: word_le_nat_alt)
    then have "7 < 64 - shift" by (simp only: power_strict_increasing_iff) 
    then have shift': "shift + 7 < 64" by simp
    have "64 - shift = 7 + (64 - (shift + 7))" using shift' by simp
    with "1.prems"(3) have "unat v < 2 ^ 7 * 2 ^ (64 - (shift + 7))" by (metis power_add)
    then have v': "unat ?v' < 2 ^ (64 - (shift + 7))"
      unfolding unat_shift_right by (simp add: less_mult_imp_div_less mult.commute)
    have "read_varint pf d shift i acc =
        read_varint pf d (shift + 7) (Suc i) (acc OR push_bit shift (ucast (?b AND 127)))"
      using b "1.prems"(2) continuation_byte [of v]
      by (simp add: read_varint.simps [of pf d shift i acc] Let_def)
    also have "\<dots> = Inr ((acc OR push_bit shift (ucast (?b AND 127))) OR
        push_bit (shift + 7) (ucast ?v'), Suc i + sov ?v')"
      by (rule "1.IH" [OF True at' shift' v'])
    also have "\<dots> = Inr (acc OR push_bit shift (ucast v), i + sov v)"
      unfolding or.assoc ucast_low_digit sov_large [OF True] by simp
    finally show ?thesis .
  qed
qed

text \<open>A whole varint: what the writer wrote is read back, truncated to the field's width.\<close>

lemma read_varint_roundtrip [wire_simps]:
  "at d i (varint_bytes v @ rest) \<Longrightarrow> read_varint pf d 0 i 0 = Inr (ucast v, i + sov v)"
  using read_varint_at [of d i v rest 0 pf 0] unsigned_less [of v] by simp

end
