(* ===== verification/Proto_Writer.thy ===== *)
theory Proto_Writer
  imports Varint
begin

text \<open>
  What the generated \<^verbatim>\<open>MarshalToSizedBuffer\<close>, \<^verbatim>\<open>Marshal\<close> and \<^verbatim>\<open>MarshalTo\<close> methods are made
  of. They fill a buffer from its end: the state is the buffer and the index \<open>i\<close> that
  counts down, and each field is one writer. The specification of a writer is the list of
  bytes it puts in front of what is already written (\<open>writes\<close>), and sequencing writers
  concatenates these lists in reverse order of execution, which is field order.
\<close>

type_synonym wbuf = "byte list \<times> int"
type_synonym writer = "wbuf \<Rightarrow> pb_error + wbuf"
type_synonym sized_writer = "byte list \<Rightarrow> pb_error + int \<times> byte list"

named_theorems writes_intros "rules for what a writer writes"

subsection \<open>The writers\<close>

fun seqw :: "writer list \<Rightarrow> writer" where
  "seqw [] s = Inr s"
| "seqw (w # ws) s = bindr (w s) (seqw ws)"

definition whenw :: "bool \<Rightarrow> writer \<Rightarrow> writer" where
  "whenw c w = (if c then w else Inr)"

definition put_tag :: "byte \<Rightarrow> writer" where
  "put_tag tag = (\<lambda>(d, i). let i' = i - 1 in bindr (go_store d i' tag) (\<lambda>d'. Inr (d', i')))"

text \<open>\<^verbatim>\<open>i = encodeVarintX(dAtA, i, v); i--; dAtA[i] = tag\<close>\<close>

definition put_uint :: "byte \<Rightarrow> 64 word \<Rightarrow> writer" where
  "put_uint tag v = (\<lambda>(d, i). bindr (encodeVarint d i v) (put_tag tag))"

text \<open>
  \<^verbatim>\<open>i -= len(b); copy(dAtA[i:], b); i = encodeVarintX(dAtA, i, uint64(len(b))); i--;
  dAtA[i] = tag\<close>
\<close>

definition put_bytes :: "byte \<Rightarrow> byte list \<Rightarrow> writer" where
  "put_bytes tag bs = (\<lambda>(d, i).
     let i' = i - int (length bs)
     in bindr (go_copy_at d i' bs) (\<lambda>d'. put_uint tag (word_of_nat (length bs)) (d', i')))"

text \<open>
  \<^verbatim>\<open>size, err := x.MarshalToSizedBuffer(dAtA[:i]); i -= size; i = encodeVarintX(dAtA, i,
  uint64(size)); i--; dAtA[i] = tag\<close>, where the callee writes into the caller's array.
\<close>

definition put_msg :: "byte \<Rightarrow> sized_writer \<Rightarrow> writer" where
  "put_msg tag sw = (\<lambda>(d, i).
     if i < 0 \<or> int (length d) < i then Inl Panic_index
     else bindr (sw (take (nat i) d)) (\<lambda>(size, d'). 
       put_uint tag (word_of_int size) (d' @ drop (nat i) d, i - size)))"

text \<open>\<^verbatim>\<open>for iNdEx := len(xs) - 1; iNdEx >= 0; iNdEx--\<close>\<close>

definition put_each :: "('a \<Rightarrow> writer) \<Rightarrow> 'a list \<Rightarrow> writer" where
  "put_each w xs = seqw (map w (rev xs))"

text \<open>A nested message behind a pointer: \<^verbatim>\<open>if p != nil { ... }\<close>\<close>

definition put_ptr :: "byte \<Rightarrow> sized_writer option \<Rightarrow> writer" where
  "put_ptr tag p = (case p of None \<Rightarrow> Inr | Some sw \<Rightarrow> put_msg tag sw)"

text \<open>The frame of \<^verbatim>\<open>MarshalToSizedBuffer\<close>: start at the end, return \<^verbatim>\<open>len(dAtA) - i\<close>.\<close>

definition to_sized_buffer :: "writer list \<Rightarrow> sized_writer" where
  "to_sized_buffer ws d =
     bindr (seqw ws (d, int (length d))) (\<lambda>(d', i). Inr (int (length d) - i, d'))"

definition go_prefix :: "byte list \<Rightarrow> int \<Rightarrow> pb_error + byte list" where
  "go_prefix d n = (if n < 0 \<or> int (length d) < n then Inl Panic_index else Inr (take (nat n) d))"

definition marshal :: "nat \<Rightarrow> sized_writer \<Rightarrow> pb_error + byte list" where
  "marshal n sw = bindr (sw (replicate n 0)) (\<lambda>(k, d). go_prefix d k)"

text \<open>
  \<^verbatim>\<open>MarshalTo(dAtA)\<close> writes into \<^verbatim>\<open>dAtA[:size]\<close>; the value returned with the count is the
  caller's array afterwards. (Reslicing within a larger capacity is not modelled: a slice
  is as long as its array.)
\<close>

definition marshal_to :: "nat \<Rightarrow> sized_writer \<Rightarrow> sized_writer" where
  "marshal_to n sw d =
     bindr (go_prefix d (int n)) (\<lambda>p. bindr (sw p) (\<lambda>(k, p'). Inr (k, p' @ drop n d)))"

subsection \<open>The bytes of a field\<close>

definition enc_bytes1 :: "byte \<Rightarrow> byte list \<Rightarrow> byte list" where
  "enc_bytes1 tag bs = tag # varint_bytes (word_of_nat (length bs)) @ bs"

definition enc_bytes :: "byte \<Rightarrow> byte list \<Rightarrow> byte list" where
  "enc_bytes tag bs = (if bs = [] then [] else enc_bytes1 tag bs)"

definition enc_uint :: "byte \<Rightarrow> 64 word \<Rightarrow> byte list" where
  "enc_uint tag v = (if v = 0 then [] else tag # varint_bytes v)"

definition enc_each :: "byte \<Rightarrow> byte list list \<Rightarrow> byte list" where
  "enc_each tag bss = concat (map (enc_bytes1 tag) bss)"

definition enc_opt :: "byte \<Rightarrow> byte list option \<Rightarrow> byte list" where
  "enc_opt tag b = (case b of None \<Rightarrow> [] | Some bs \<Rightarrow> enc_bytes1 tag bs)"

definition size_bytes1 :: "nat \<Rightarrow> nat" where
  "size_bytes1 l = 1 + l + sov (word_of_nat l)"

definition size_bytes :: "nat \<Rightarrow> nat" where
  "size_bytes l = (if 0 < l then size_bytes1 l else 0)"

definition size_uint :: "64 word \<Rightarrow> nat" where
  "size_uint v = (if v \<noteq> 0 then 1 + sov v else 0)"

lemma length_enc_bytes1 [wire_simps]: "length (enc_bytes1 tag bs) = size_bytes1 (length bs)"
  by (simp add: enc_bytes1_def size_bytes1_def)

lemma length_enc_bytes [wire_simps]: "length (enc_bytes tag bs) = size_bytes (length bs)"
  by (simp add: enc_bytes_def size_bytes_def length_enc_bytes1)

lemma length_enc_uint [wire_simps]: "length (enc_uint tag v) = size_uint v"
  by (simp add: enc_uint_def size_uint_def)

lemma length_enc_each [wire_simps]:
  "length (enc_each tag bss) = sum_list (map (\<lambda>bs. size_bytes1 (length bs)) bss)"
  by (induction bss) (simp_all add: enc_each_def length_enc_bytes1)

lemma length_enc_opt [wire_simps]:
  "length (enc_opt tag b) = (case b of None \<Rightarrow> 0 | Some bs \<Rightarrow> size_bytes1 (length bs))"
  by (simp add: enc_opt_def length_enc_bytes1 split: option.split)

lemmas size_eval = size_bytes_def size_bytes1_def size_uint_def sov_small sov_large

subsection \<open>What a writer writes\<close>

definition writes :: "writer \<Rightarrow> byte list \<Rightarrow> bool" where
  "writes w bs \<longleftrightarrow> (\<forall>d n. length bs \<le> n \<and> n \<le> length d \<longrightarrow>
     w (d, int n) = Inr (take (n - length bs) d @ bs @ drop n d, int (n - length bs)))"

definition sized_writes :: "sized_writer \<Rightarrow> byte list \<Rightarrow> bool" where
  "sized_writes sw bs \<longleftrightarrow> (\<forall>d. length bs \<le> length d \<longrightarrow>
     sw d = Inr (int (length bs), take (length d - length bs) d @ bs))"

lemma writesD:
  "writes w bs \<Longrightarrow> length bs \<le> n \<Longrightarrow> n \<le> length d \<Longrightarrow>
   w (d, int n) = Inr (take (n - length bs) d @ bs @ drop n d, int (n - length bs))"
  by (simp add: writes_def)

lemma sized_writesD:
  "sized_writes sw bs \<Longrightarrow> length bs \<le> length d \<Longrightarrow>
   sw d = Inr (int (length bs), take (length d - length bs) d @ bs)"
  by (simp add: sized_writes_def)

lemma writes_eqI: "writes w bs \<Longrightarrow> bs = cs \<Longrightarrow> writes w cs"
  by simp

lemma writes_Inr: "writes Inr []"
  by (simp add: writes_def)

lemma writes_seqw_Nil [writes_intros]: "writes (seqw []) []"
  by (simp add: writes_def)

lemma writes_bind:
  assumes w: "writes w b" and v: "writes v c"
  shows "writes (\<lambda>s. bindr (w s) v) (c @ b)"
  unfolding writes_def
proof (intro allI impI)
  fix d :: "byte list" and n
  assume n: "length (c @ b) \<le> n \<and> n \<le> length d"
  let ?k = "n - length b" and ?d = "take (n - length b) d @ b @ drop n d"
  from n have 1: "w (d, int n) = Inr (?d, int ?k)" by (intro writesD [OF w]) auto
  from n have 2: "v (?d, int ?k) = Inr (take (?k - length c) ?d @ c @ drop ?k ?d, int (?k - length c))"
    by (intro writesD [OF v]) auto
  have 3: "take (n - length (c @ b)) ?d = take (n - length (c @ b)) d" "drop ?k ?d = b @ drop n d"
    using n by (simp_all add: min_def add.commute)
  have 4: "?k - length c = n - length (c @ b)" by simp
  show "bindr (w (d, int n)) v =
      Inr (take (n - length (c @ b)) d @ (c @ b) @ drop n d, int (n - length (c @ b)))"
    by (simp only: 1 2 3 4 bindr.simps append_assoc)
qed

lemma writes_seqw_Cons [writes_intros]:
  "writes w b \<Longrightarrow> writes (seqw ws) bs \<Longrightarrow> writes (seqw (w # ws)) (bs @ b)"
  using writes_bind [of w b "seqw ws" bs] by (simp add: fun_eq_iff writes_def)

lemma writes_whenw: "(c \<Longrightarrow> writes w b) \<Longrightarrow> writes (whenw c w) (if c then b else [])"
  by (simp add: whenw_def writes_Inr)

lemma writes_put_tag: "writes (put_tag tag) [tag]"
  unfolding writes_def
proof (intro allI impI)
  fix d :: "byte list" and n
  assume "length [tag] \<le> n \<and> n \<le> length d"
  then obtain k where k: "n = Suc k" "k < length d" by (cases n) auto
  then show "put_tag tag (d, int n) = Inr (take (n - length [tag]) d @ [tag] @ drop n d, int (n - length [tag]))"
    by (simp add: put_tag_def go_store_at)
qed

lemma writes_encodeVarint: "writes (\<lambda>(d, i). encodeVarint d i v) (varint_bytes v)"
  by (simp add: writes_def encodeVarint_eq del: of_nat_diff)

lemma writes_put_uint: "writes (put_uint tag v) (tag # varint_bytes v)"
  using writes_bind [OF writes_encodeVarint [of v] writes_put_tag [of tag]]
  by (simp add: put_uint_def writes_def)

lemma writes_copy: "writes (\<lambda>(d, i). let i' = i - int (length bs) in
    bindr (go_copy_at d i' bs) (\<lambda>d'. Inr (d', i'))) bs"
  unfolding writes_def
proof (intro allI impI)
  fix d :: "byte list" and n
  assume n: "length bs \<le> n \<and> n \<le> length d"
  then have i: "int n - int (length bs) = int (n - length bs)" by (simp only: of_nat_diff)
  have "go_copy_at d (int (n - length bs)) bs = Inr (take (n - length bs) d @ bs @ drop n d)"
    using go_copy_at_fits [of "n - length bs" bs d] n by (simp del: of_nat_diff)
  then show "(case (d, int n) of (d, i) \<Rightarrow> let i' = i - int (length bs) in
      bindr (go_copy_at d i' bs) (\<lambda>d'. Inr (d', i'))) =
      Inr (take (n - length bs) d @ bs @ drop n d, int (n - length bs))"
    by (simp only: i Let_def prod.case bindr.simps)
qed

lemma writes_put_bytes1: "writes (put_bytes tag bs) (enc_bytes1 tag bs)"
proof -
  have "writes (\<lambda>s. bindr ((\<lambda>(d, i). let i' = i - int (length bs) in
      bindr (go_copy_at d i' bs) (\<lambda>d'. Inr (d', i'))) s) (put_uint tag (word_of_nat (length bs))))
      ((tag # varint_bytes (word_of_nat (length bs))) @ bs)"
    by (rule writes_bind [OF writes_copy writes_put_uint])
  then show ?thesis
    by (rule back_subst [where P = "\<lambda>w. writes w _", THEN writes_eqI])
      (auto simp: put_bytes_def enc_bytes1_def Let_def bindr_assoc fun_eq_iff)
qed

lemma writes_put_msg1: "sized_writes sw bs \<Longrightarrow> writes (put_msg tag sw) (enc_bytes1 tag bs)"
  unfolding writes_def
proof (intro allI impI)
  fix d :: "byte list" and n
  assume sw: "sized_writes sw bs" and n: "length (enc_bytes1 tag bs) \<le> n \<and> n \<le> length d"
  let ?v = "word_of_nat (length bs) :: 64 word"
  let ?d = "take (n - length bs) d @ bs @ drop n d"
  from n have l: "length bs \<le> n" "n \<le> length d" and
    l': "length (tag # varint_bytes ?v) \<le> n - length bs"
    by (auto simp: enc_bytes1_def)
  from l have "sw (take n d) = Inr (int (length bs), take (n - length bs) d @ bs)"
    using sized_writesD [OF sw, of "take n d"] by (simp add: min_def)
  moreover from l have "int n - int (length bs) = int (n - length bs)" by (simp only: of_nat_diff)
  ultimately have "put_msg tag sw (d, int n) = put_uint tag ?v (?d, int (n - length bs))"
    using l by (simp add: put_msg_def del: of_nat_diff)
  also have "\<dots> = Inr (take (n - length bs - length (tag # varint_bytes ?v)) ?d @
      (tag # varint_bytes ?v) @ drop (n - length bs) ?d,
      int (n - length bs - length (tag # varint_bytes ?v)))"
    using l l' by (intro writesD [OF writes_put_uint]) auto
  also have "take (n - length bs - length (tag # varint_bytes ?v)) ?d =
      take (n - length (enc_bytes1 tag bs)) d"
    using l by (simp add: enc_bytes1_def min_def add.commute)
  also have "drop (n - length bs) ?d = bs @ drop n d" using l by (simp add: min_def)
  also have "n - length bs - length (tag # varint_bytes ?v) = n - length (enc_bytes1 tag bs)"
    by (simp add: enc_bytes1_def)
  finally show "put_msg tag sw (d, int n) = Inr (take (n - length (enc_bytes1 tag bs)) d @
      enc_bytes1 tag bs @ drop n d, int (n - length (enc_bytes1 tag bs)))"
    by (simp add: enc_bytes1_def)
qed

lemma writes_bytes [writes_intros]:
  "writes (whenw (0 < length bs) (put_bytes tag bs)) (enc_bytes tag bs)"
  by (simp add: whenw_def enc_bytes_def writes_Inr writes_put_bytes1)

lemma writes_string [writes_intros]:
  "writes (whenw (0 < length s) (put_bytes tag (str_bytes s))) (enc_bytes tag (str_bytes s))"
  using writes_bytes [of "str_bytes s" tag] by simp

lemma writes_uint [writes_intros]:
  "writes (whenw (v \<noteq> 0) (put_uint tag v)) (enc_uint tag v)"
  by (simp add: whenw_def enc_uint_def writes_Inr writes_put_uint)

text \<open>An enum is an \<^verbatim>\<open>int32\<close>, written as \<^verbatim>\<open>uint64(m.State)\<close>: sign-extended.\<close>

lemma ucast_scast_enum: "ucast (scast (s :: 32 word) :: 64 word) = s"
proof (rule bit_word_eqI)
  fix n assume "n < LENGTH(32)"
  then show "bit (ucast (scast s :: 64 word) :: 32 word) n \<longleftrightarrow> bit s n"
    by (cases "n = 31") (simp_all add: bit_unsigned_iff bit_signed_iff min_def)
qed

lemma scast_eq_0_iff: "(scast (s :: 32 word) :: 64 word) = 0 \<longleftrightarrow> s = 0"
  by (metis scast_0 ucast_scast_enum ucast_0)

lemma writes_enum [writes_intros]:
  "writes (whenw ((s :: 32 word) \<noteq> 0) (put_uint tag (scast s))) (enc_uint tag (scast s))"
  using writes_uint [of "scast s" tag] by (simp only: scast_eq_0_iff)

lemma writes_msg [writes_intros]:
  "sized_writes sw bs \<Longrightarrow> writes (put_msg tag sw) (enc_bytes1 tag bs)"
  by (rule writes_put_msg1)

lemma writes_ptr_None: "writes (put_ptr tag None) (enc_opt tag None)"
  by (simp add: put_ptr_def enc_opt_def writes_Inr)

lemma writes_ptr [writes_intros]:
  "(\<And>x. p = Some x \<Longrightarrow> sized_writes (sw x) (e x)) \<Longrightarrow>
   writes (put_ptr tag (map_option sw p)) (enc_opt tag (map_option e p))"
  by (cases p) (simp_all add: put_ptr_def enc_opt_def writes_Inr writes_put_msg1)

lemma writes_put_each:
  "(\<And>x. x \<in> set xs \<Longrightarrow> writes (w x) (enc_bytes1 tag (e x))) \<Longrightarrow>
   writes (put_each w xs) (enc_each tag (map e xs))"
proof (induction xs rule: rev_induct)
  case Nil
  show ?case using writes_seqw_Nil by (simp add: put_each_def enc_each_def del: seqw.simps)
next
  case (snoc x xs)
  then have "writes (seqw (w x # map w (rev xs))) (enc_each tag (map e xs) @ enc_bytes1 tag (e x))"
    by (intro writes_seqw_Cons) (auto simp: put_each_def)
  then show ?case by (simp add: put_each_def enc_each_def del: seqw.simps)
qed

lemma writes_each:
  "(\<And>x. x \<in> set xs \<Longrightarrow> writes (w x) (enc_bytes1 tag (e x))) \<Longrightarrow>
   writes (whenw (0 < length xs) (put_each w xs)) (enc_each tag (map e xs))"
proof (cases "xs = []")
  case True
  show ?thesis unfolding True by (simp add: whenw_def enc_each_def writes_Inr)
next
  case False
  assume "\<And>x. x \<in> set xs \<Longrightarrow> writes (w x) (enc_bytes1 tag (e x))"
  then have "writes (put_each w xs) (enc_each tag (map e xs))" by (rule writes_put_each)
  with False show ?thesis by (simp add: whenw_def)
qed

lemma writes_each_bytes [writes_intros]:
  "writes (whenw (0 < length xs) (put_each (\<lambda>x. put_bytes tag (g x)) xs)) (enc_each tag (map g xs))"
  by (rule writes_each) (rule writes_put_bytes1)

lemma writes_each_bytes_id [writes_intros]:
  "writes (whenw (0 < length xs) (put_each (\<lambda>x. put_bytes tag x) xs)) (enc_each tag xs)"
  using writes_each_bytes [of xs tag id] by simp

lemma writes_each_msg [writes_intros]:
  "(\<And>x. x \<in> set xs \<Longrightarrow> sized_writes (sw x) (e x)) \<Longrightarrow>
   writes (whenw (0 < length xs) (put_each (\<lambda>x. put_msg tag (sw x)) xs)) (enc_each tag (map e xs))"
  by (rule writes_each) (rule writes_put_msg1)

subsection \<open>The three marshalling methods\<close>

lemma to_sized_buffer_writes:
  "writes (seqw ws) bs \<Longrightarrow> bs = cs \<Longrightarrow> sized_writes (to_sized_buffer ws) cs"
  using writesD [of "seqw ws" bs] by (auto simp: sized_writes_def to_sized_buffer_def)

lemma marshal_writes: "sized_writes sw bs \<Longrightarrow> marshal (length bs) sw = Inr bs"
  using sized_writesD [of sw bs "replicate (length bs) 0"] by (simp add: marshal_def go_prefix_def)

lemma marshal_to_writes:
  "sized_writes sw bs \<Longrightarrow> length bs \<le> length d \<Longrightarrow>
   marshal_to (length bs) sw d = Inr (int (length bs), bs @ drop (length bs) d)"
  using sized_writesD [of sw bs "take (length bs) d"]
  by (simp add: marshal_to_def go_prefix_def)

lemma marshal_to_short: "length d < n \<Longrightarrow> marshal_to n sw d = Inl Panic_index"
  by (simp add: marshal_to_def go_prefix_def)

end
