(* ===== verification/Proto_Reader.thy ===== *)
theory Proto_Reader
  imports Proto_Writer
begin

text \<open>
  What the generated \<^verbatim>\<open>Unmarshal\<close> and \<^verbatim>\<open>skipX\<close> methods are made of. Every message has the
  same loop: read a tag, dispatch on the field number, skip unknown fields; the bodies of
  the cases are the readers \<open>uint_case\<close>, \<open>bytes_case\<close> and \<open>msg_case\<close>. Indices are natural
  numbers except right after an addition that can wrap, where they are Go \<^verbatim>\<open>int\<close>s
  (\<open>wrap64\<close>), as the code tests them for being negative.

  The loops carry fuel; each iteration consumes a byte, so the length of the buffer is
  enough for every slice Go can hold (\<open>go_slice\<close>: an \<^verbatim>\<open>int\<close> length), which is proved for
  every message that satisfies the interface \<open>pb_reader\<close>.
\<close>

unbundle bit_operations_syntax

definition wrap64 :: "int \<Rightarrow> int" where
  "wrap64 x = signed_take_bit 63 x"

definition go_slice :: "byte list \<Rightarrow> bool" where
  "go_slice d \<longleftrightarrow> length d < 2 ^ 63"

lemma wrap64_small: "- (2 ^ 63) \<le> x \<Longrightarrow> x < 2 ^ 63 \<Longrightarrow> wrap64 x = x"
  by (simp add: wrap64_def signed_take_bit_int_eq_self)

lemma wrap64_big: "2 ^ 63 \<le> x \<Longrightarrow> x < 2 ^ 64 \<Longrightarrow> wrap64 x < 0"
proof -
  assume x: "2 ^ 63 \<le> x" "x < 2 ^ 64"
  then have "x div 2 ^ 63 = 1" by (intro int_div_pos_eq [where r = "x - 2 ^ 63"]) simp_all
  then have "bit x 63" by (simp add: bit_iff_odd)
  moreover from x have "take_bit 64 x = x" by (simp add: take_bit_int_eq_self)
  ultimately show ?thesis
    using x by (simp add: wrap64_def signed_take_bit_eq_take_bit_minus)
qed

lemma wrap64_less: "wrap64 x < 2 ^ 63"
  unfolding wrap64_def by (rule signed_take_bit_int_less_exp)

lemma wrap64_sum:
  "0 \<le> x \<Longrightarrow> x < 2 ^ 64 \<Longrightarrow> wrap64 x < 0 \<or> wrap64 x = x"
  using wrap64_small [of x] wrap64_big [of x] by (cases "x < 2 ^ 63") auto

subsection \<open>Length-delimited data\<close>

definition read_slice :: "proto_file \<Rightarrow> byte list \<Rightarrow> nat \<Rightarrow> pb_error + byte list \<times> nat" where
  "read_slice pf d i =
     bindr (read_varint pf d 0 i (0 :: 64 word)) (\<lambda>(n, i').
       if sint n < 0 then Inl (Err_InvalidLength pf)
       else let postIndex = wrap64 (int i' + sint n)
            in if postIndex < 0 then Inl (Err_InvalidLength pf)
               else if int (length d) < postIndex then Inl Err_UnexpectedEOF
               else Inr (take (nat postIndex - i') (drop i' d), nat postIndex))"

subsection \<open>Skipping an unknown field\<close>

function skip_varint :: "proto_file \<Rightarrow> byte list \<Rightarrow> nat \<Rightarrow> nat \<Rightarrow> pb_error + nat" where
  "skip_varint pf d shift i =
     (if 64 \<le> shift then Inl (Err_IntOverflow pf)
      else if length d \<le> i then Inl Err_UnexpectedEOF
      else if d ! i < 128 then Inr (Suc i)
      else skip_varint pf d (shift + 7) (Suc i))"
  by pat_completeness auto
termination
  by (relation "measure (\<lambda>(pf, d, shift, i). 64 - shift)") auto

declare skip_varint.simps [simp del]

definition skip_value :: "proto_file \<Rightarrow> byte list \<Rightarrow> nat \<Rightarrow> nat \<Rightarrow> int \<Rightarrow> pb_error + int \<times> nat" where
  "skip_value pf d i depth wireType =
     (if wireType = 0 then bindr (skip_varint pf d 0 i) (\<lambda>j. Inr (int j, depth))
      else if wireType = 1 then Inr (wrap64 (int i + 8), depth)
      else if wireType = 2 then
        bindr (read_varint pf d 0 i (0 :: 64 word)) (\<lambda>(n, j).
          if sint n < 0 then Inl (Err_InvalidLength pf) else Inr (wrap64 (int j + sint n), depth))
      else if wireType = 3 then Inr (int i, depth + 1)
      else if wireType = 4 then
        (if depth = 0 then Inl (Err_UnexpectedEndOfGroup pf) else Inr (int i, depth - 1))
      else if wireType = 5 then Inr (wrap64 (int i + 4), depth)
      else Inl (Err_illegal_wireType wireType))"

fun skip_loop :: "proto_file \<Rightarrow> byte list \<Rightarrow> nat \<Rightarrow> nat \<Rightarrow> nat \<Rightarrow> pb_error + int" where
  "skip_loop pf d fuel i depth =
     (if length d \<le> i then Inl Err_UnexpectedEOF
      else case fuel of
        0 \<Rightarrow> Inl Out_of_fuel
      | Suc k \<Rightarrow>
          bindr (read_varint pf d 0 i (0 :: 64 word)) (\<lambda>(wire, i1).
            bindr (skip_value pf d i1 depth (uint (wire AND 7))) (\<lambda>(j, depth').
              if j < 0 then Inl (Err_InvalidLength pf)
              else if depth' = 0 then Inr j
              else skip_loop pf d k (nat j) depth')))"

declare skip_loop.simps [simp del]

definition skip_field :: "proto_file \<Rightarrow> byte list \<Rightarrow> pb_error + int" where
  "skip_field pf d = skip_loop pf d (length d) 0 0"

subsection \<open>The cases of the field switch\<close>

type_synonym 'm field_case = "int \<Rightarrow> byte list \<Rightarrow> nat \<Rightarrow> 'm \<Rightarrow> pb_error + 'm \<times> nat"

definition uint_case :: "proto_file \<Rightarrow> string \<Rightarrow> ('a::len word \<Rightarrow> 'm \<Rightarrow> 'm) \<Rightarrow> 'm field_case" where
  "uint_case pf field upd wireType d i m =
     (if wireType \<noteq> 0 then Inl (Err_wrong_wireType wireType field)
      else bindr (read_varint pf d 0 i 0) (\<lambda>(v, j). Inr (upd v m, j)))"

definition msg_case ::
  "proto_file \<Rightarrow> string \<Rightarrow> (byte list \<Rightarrow> 'm \<Rightarrow> pb_error + 'm) \<Rightarrow> 'm field_case" where
  "msg_case pf field upd wireType d i m =
     (if wireType \<noteq> 2 then Inl (Err_wrong_wireType wireType field)
      else bindr (read_slice pf d i) (\<lambda>(bs, j). bindr (upd bs m) (\<lambda>m'. Inr (m', j))))"

definition bytes_case :: "proto_file \<Rightarrow> string \<Rightarrow> (byte list \<Rightarrow> 'm \<Rightarrow> 'm) \<Rightarrow> 'm field_case" where
  "bytes_case pf field upd = msg_case pf field (\<lambda>bs m. Inr (upd bs m))"

definition string_case :: "proto_file \<Rightarrow> string \<Rightarrow> (string \<Rightarrow> 'm \<Rightarrow> 'm) \<Rightarrow> 'm field_case" where
  "string_case pf field upd = bytes_case pf field (\<lambda>bs. upd (bytes_str bs))"

text \<open>
  A nested message is unmarshalled by its own \<^verbatim>\<open>Unmarshal\<close> into the field (\<open>sub_case\<close>),
  into the allocated or already present target of a pointer (\<open>ptr_case\<close>), or into a new
  element at the end of a slice (\<open>sub_list_case\<close>).
\<close>

definition sub_case :: "proto_file \<Rightarrow> string \<Rightarrow> (byte list \<Rightarrow> 'a \<Rightarrow> pb_error + 'a) \<Rightarrow>
    ('m \<Rightarrow> 'a) \<Rightarrow> ('a \<Rightarrow> 'm \<Rightarrow> 'm) \<Rightarrow> 'm field_case" where
  "sub_case pf field U get upd =
     msg_case pf field (\<lambda>bs m. bindr (U bs (get m)) (\<lambda>x. Inr (upd x m)))"

definition ptr_case :: "proto_file \<Rightarrow> string \<Rightarrow> (byte list \<Rightarrow> 'a \<Rightarrow> pb_error + 'a) \<Rightarrow> 'a \<Rightarrow>
    ('m \<Rightarrow> 'a option) \<Rightarrow> ('a option \<Rightarrow> 'm \<Rightarrow> 'm) \<Rightarrow> 'm field_case" where
  "ptr_case pf field U new get upd =
     msg_case pf field (\<lambda>bs m. bindr (U bs (case get m of None \<Rightarrow> new | Some x \<Rightarrow> x))
       (\<lambda>x. Inr (upd (Some x) m)))"

definition sub_list_case :: "proto_file \<Rightarrow> string \<Rightarrow> (byte list \<Rightarrow> 'a \<Rightarrow> pb_error + 'a) \<Rightarrow> 'a \<Rightarrow>
    ('m \<Rightarrow> 'a list) \<Rightarrow> ('a list \<Rightarrow> 'm \<Rightarrow> 'm) \<Rightarrow> 'm field_case" where
  "sub_list_case pf field U new get upd =
     msg_case pf field (\<lambda>bs m. bindr (U bs new) (\<lambda>x. Inr (upd (get m @ [x]) m)))"

definition bytes_list_case ::
  "proto_file \<Rightarrow> string \<Rightarrow> ('m \<Rightarrow> byte list list) \<Rightarrow> (byte list list \<Rightarrow> 'm \<Rightarrow> 'm) \<Rightarrow> 'm field_case" where
  "bytes_list_case pf field get upd = bytes_case pf field (\<lambda>bs m. upd (get m @ [bs]) m)"

definition string_list_case ::
  "proto_file \<Rightarrow> string \<Rightarrow> ('m \<Rightarrow> string list) \<Rightarrow> (string list \<Rightarrow> 'm \<Rightarrow> 'm) \<Rightarrow> 'm field_case" where
  "string_list_case pf field get upd = string_case pf field (\<lambda>s m. upd (get m @ [s]) m)"

subsection \<open>The loop\<close>

fun unmarshal_loop ::
  "proto_file \<Rightarrow> string \<Rightarrow> (int \<Rightarrow> 'm field_case option) \<Rightarrow> nat \<Rightarrow> byte list \<Rightarrow> nat \<Rightarrow> 'm \<Rightarrow> pb_error + 'm"
where
  "unmarshal_loop pf name fields fuel d i m =
     (if length d \<le> i then (if length d < i then Inl Err_UnexpectedEOF else Inr m)
      else case fuel of
        0 \<Rightarrow> Inl Out_of_fuel
      | Suc k \<Rightarrow>
          bindr (read_varint pf d 0 i (0 :: 64 word)) (\<lambda>(wire, i1).
            let fieldNum = sint (ucast (drop_bit 3 wire) :: 32 word); wireType = uint (wire AND 7)
            in if wireType = 4 then Inl (Err_wiretype_end_group name)
               else if fieldNum \<le> 0 then Inl (Err_illegal_tag name fieldNum wire)
               else case fields fieldNum of
                 Some f \<Rightarrow> bindr (f wireType d i1 m) (\<lambda>(m', j). unmarshal_loop pf name fields k d j m')
               | None \<Rightarrow>
                   bindr (skip_field pf (drop i d)) (\<lambda>skippy.
                     let j = wrap64 (int i + skippy)
                     in if skippy < 0 \<or> j < 0 then Inl (Err_InvalidLength pf)
                        else if int (length d) < j then Inl Err_UnexpectedEOF
                        else unmarshal_loop pf name fields k d (nat j) m)))"

declare unmarshal_loop.simps [simp del]

definition unmarshal ::
  "proto_file \<Rightarrow> string \<Rightarrow> (int \<Rightarrow> 'm field_case option) \<Rightarrow> byte list \<Rightarrow> 'm \<Rightarrow> pb_error + 'm" where
  "unmarshal pf name fields d m = unmarshal_loop pf name fields (length d) d 0 m"

subsection \<open>Progress of the readers\<close>

lemma sint_bounds: "- (2 ^ 63) \<le> sint (n :: 64 word)" "sint (n :: 64 word) < 2 ^ 63"
  using sint_ge [of n] sint_lt [of n] by simp_all

lemma read_slice_progress:
  assumes "read_slice pf d i = Inr (bs, j)" and "go_slice d"
  shows "i < j" "j \<le> length d" "length bs \<le> length d"
proof -
  from assms(1) obtain n i' where r: "read_varint pf d 0 i (0 :: 64 word) = Inr (n, i')"
    and n: "0 \<le> sint n" and p: "0 \<le> wrap64 (int i' + sint n)" "wrap64 (int i' + sint n) \<le> int (length d)"
    and j: "j = nat (wrap64 (int i' + sint n))" and bs: "bs = take (j - i') (drop i' d)"
    by (auto simp: read_slice_def bindr_eq_Inr Let_def split: if_splits)
  from r have i': "i < i'" "i' \<le> length d" by (auto dest: read_varint_progress)
  have "int i' + sint n < 2 ^ 64"
    using assms(2) i' sint_bounds [of n] by (simp add: go_slice_def)
  with n p have "wrap64 (int i' + sint n) = int i' + sint n"
    using wrap64_sum [of "int i' + sint n"] by auto
  with i' n p j show "i < j" "j \<le> length d" by simp_all
  show "length bs \<le> length d" by (simp add: bs)
qed

lemma read_slice_error: "read_slice pf d i \<noteq> Inl Out_of_fuel"
  using read_varint_error [of pf d 0 i "0 :: 64 word" Out_of_fuel]
  by (auto simp: read_slice_def bindr_eq_Inl Let_def split: if_splits)

lemma sint_of_nat: "l < 2 ^ 63 \<Longrightarrow> sint (word_of_nat l :: 64 word) = int l"
  by (simp add: signed_of_nat signed_take_bit_int_eq_self)

lemma read_slice_at:
  assumes "at d i (varint_bytes (word_of_nat (length bs)) @ bs @ rest)" and "go_slice d"
  shows "read_slice pf d i = Inr (bs, i + sov (word_of_nat (length bs)) + length bs)"
proof -
  let ?v = "word_of_nat (length bs) :: 64 word" and ?i = "i + sov (word_of_nat (length bs))"
  from assms(1) have at': "at d ?i (bs @ rest)" by (auto dest: at_appendD)
  then have l: "?i + length bs \<le> length d" by (auto dest: at_length)
  with assms(2) have b: "?i + length bs < 2 ^ 63" by (simp add: go_slice_def)
  then have "sint ?v = int (length bs)" by (intro sint_of_nat) simp
  moreover from b have "wrap64 (int ?i + int (length bs)) = int ?i + int (length bs)"
    by (intro wrap64_small) simp_all
  moreover have "read_varint pf d 0 i 0 = Inr (?v, ?i)"
    using read_varint_roundtrip [OF assms(1), of pf, where 'a = 64] by (simp only: ucast_id)
  moreover have "take (length bs) (drop ?i d) = bs" using at' by (simp add: at_def)
  ultimately show ?thesis
    using l by (simp add: read_slice_def Let_def nat_add_distrib)
qed

lemma skip_varint_progress: "skip_varint pf d shift i = Inr j \<Longrightarrow> i < j \<and> j \<le> length d"
proof (induction pf d shift i rule: skip_varint.induct)
  case (1 pf d shift i)
  from "1.prems" consider "j = Suc i" "i < length d" | "\<not> 64 \<le> shift" "\<not> length d \<le> i" "\<not> d ! i < 128"
      "skip_varint pf d (shift + 7) (Suc i) = Inr j"
    by (auto simp: skip_varint.simps [of pf d shift i] split: if_splits)
  then show ?case by cases (auto dest: "1.IH")
qed

lemma skip_varint_error: "skip_varint pf d shift i \<noteq> Inl Out_of_fuel"
proof (induction pf d shift i rule: skip_varint.induct)
  case (1 pf d shift i)
  then show ?case by (auto simp: skip_varint.simps [of pf d shift i])
qed

lemma skip_varint_at:
  "at d i (varint_bytes v @ rest) \<Longrightarrow> shift < 64 \<Longrightarrow> unat v < 2 ^ (64 - shift) \<Longrightarrow>
   skip_varint pf d shift i = Inr (i + sov v)"
proof -
  have eq: "skip_varint pf d shift i = bindr (read_varint pf d shift i (acc :: 64 word)) (\<lambda>(v, j). Inr j)" for acc
  proof (induction pf d shift i arbitrary: acc rule: skip_varint.induct)
    case (1 pf d shift i)
    then show ?case
      by (simp add: skip_varint.simps [of pf d shift i] read_varint.simps [of pf d shift i] Let_def)
  qed
  assume "at d i (varint_bytes v @ rest)" "shift < 64" "unat v < 2 ^ (64 - shift)"
  then show ?thesis
    unfolding eq [of 0] by (simp add: read_varint_at)
qed

lemma skip_value_progress:
  assumes "skip_value pf d i depth wt = Inr (j, depth')" and "go_slice d" and "i \<le> length d"
  shows "j < 0 \<or> int i \<le> j" "j < 2 ^ 63"
proof -
  have w: "wrap64 (int k + x) < 0"
    if "\<not> int i \<le> wrap64 (int k + x)" "i \<le> k" "k \<le> length d" "0 \<le> x" "x < 2 ^ 63" for k x
    using wrap64_sum [of "int k + x"] that assms(2) by (auto simp: go_slice_def)
  from assms(1) show "j < 0 \<or> int i \<le> j"
    using assms(3)
    by (auto simp: skip_value_def result_simps split: if_splits
        dest!: read_varint_progress skip_varint_progress intro!: w simp: not_less sint_bounds [simplified])
  from assms show "j < 2 ^ 63"
    by (auto simp: skip_value_def result_simps go_slice_def wrap64_less [simplified] split: if_splits
        dest!: read_varint_progress skip_varint_progress)
qed

lemma skip_value_error: "skip_value pf d i depth wt \<noteq> Inl Out_of_fuel"
  using read_varint_error [of pf d 0 i "0 :: 64 word" Out_of_fuel]
  by (auto simp: skip_value_def result_simps skip_varint_error split: if_splits)

lemma skip_loop_progress:
  "length d \<le> fuel + i \<Longrightarrow> go_slice d \<Longrightarrow>
   skip_loop pf d fuel i depth \<noteq> Inl Out_of_fuel \<and>
   (\<forall>j. skip_loop pf d fuel i depth = Inr j \<longrightarrow> int i < j \<and> j < 2 ^ 63)"
proof (induction fuel arbitrary: i depth)
  case 0
  then show ?case by (simp add: skip_loop.simps [of pf d 0])
next
  case (Suc k)
  have "skip_loop pf d k (nat j) depth' \<noteq> Inl Out_of_fuel \<and>
      (\<forall>l. skip_loop pf d k (nat j) depth' = Inr l \<longrightarrow> int i < l \<and> l < 2 ^ 63) \<and>
      int i < j \<and> j < 2 ^ 63"
    if r: "read_varint pf d 0 i (0 :: 64 word) = Inr (wire, i1)"
      and v: "skip_value pf d i1 depth (uint (wire AND 7)) = Inr (j, depth')" and j: "\<not> j < 0"
    for wire i1 j depth'
  proof -
    from r have i1: "i < i1" "i1 \<le> length d" by (auto dest: read_varint_progress)
    with skip_value_progress [OF v] Suc.prems(2) j have ij: "int i < j" "j < 2 ^ 63" by auto
    with Suc.prems(1) have "length d \<le> k + nat j" by simp
    from Suc.IH [OF this Suc.prems(2), of depth'] ij show ?thesis by auto
  qed
  then show ?case
    using Suc.prems read_varint_error [of pf d 0 i "0 :: 64 word" Out_of_fuel]
    by (auto simp: skip_loop.simps [of pf d "Suc k"] result_simps skip_value_error
        split: if_splits)
qed

lemma skip_field_progress:
  "go_slice d \<Longrightarrow> skip_field pf d = Inr j \<Longrightarrow> 0 < j \<and> j < 2 ^ 63"
  "go_slice d \<Longrightarrow> skip_field pf d \<noteq> Inl Out_of_fuel"
  using skip_loop_progress [of d "length d" 0 pf 0] by (auto simp: skip_field_def)

subsection \<open>Interface: the field switch of a message\<close>

text \<open>
  What the loop relies on: a case never runs out of fuel and never moves the index
  backwards or past the end.
\<close>

definition fuel_ok :: "pb_error + 'a \<Rightarrow> bool" where
  "fuel_ok r \<longleftrightarrow> r \<noteq> Inl Out_of_fuel"

lemma fuel_ok_Inr [intro, simp]: "fuel_ok (Inr x)"
  by (simp add: fuel_ok_def)

lemma fuel_ok_Inl [simp]: "fuel_ok (Inl e) \<longleftrightarrow> e \<noteq> Out_of_fuel"
  by (simp add: fuel_ok_def)

lemma fuel_ok_bindr: "fuel_ok m \<Longrightarrow> (\<And>x. m = Inr x \<Longrightarrow> fuel_ok (f x)) \<Longrightarrow> fuel_ok (bindr m f)"
  by (cases m) auto

lemma fuel_ok_readers [intro, simp]:
  "fuel_ok (read_varint pf d shift i acc)" "fuel_ok (read_slice pf d i)"
  "go_slice d \<Longrightarrow> fuel_ok (skip_field pf d)"
  by (auto simp: fuel_ok_def read_slice_error skip_field_progress dest: read_varint_error)

definition good_case :: "'m field_case \<Rightarrow> bool" where
  "good_case f \<longleftrightarrow> (\<forall>wt d i m. go_slice d \<longrightarrow> i \<le> length d \<longrightarrow>
     fuel_ok (f wt d i m) \<and>
     (\<forall>m' j. f wt d i m = Inr (m', j) \<longrightarrow> i \<le> j \<and> j \<le> length d))"

lemma good_uint_case [intro]: "good_case (uint_case pf field upd)"
  unfolding good_case_def
  by (auto simp: uint_case_def result_simps dest: read_varint_progress intro!: fuel_ok_bindr
      split: if_splits)

lemma good_msg_case [intro]:
  assumes "\<And>bs m. go_slice bs \<Longrightarrow> fuel_ok (upd bs m)"
  shows "good_case (msg_case pf field upd)"
proof -
  have "fuel_ok (upd bs m)" if "read_slice pf d i = Inr (bs, j)" "go_slice d" for d i bs j m
    using that read_slice_progress(3) [of pf d i bs j] by (intro assms) (simp add: go_slice_def)
  then show ?thesis
    unfolding good_case_def
    by (auto simp: msg_case_def result_simps dest: read_slice_progress intro!: fuel_ok_bindr
        split: if_splits)
qed

lemma good_bytes_case [intro]: "good_case (bytes_case pf field upd)"
  unfolding bytes_case_def by (rule good_msg_case) simp

lemma good_string_case [intro]: "good_case (string_case pf field upd)"
  unfolding string_case_def by (rule good_bytes_case)

lemma good_sub_case [intro]:
  "(\<And>bs x. go_slice bs \<Longrightarrow> fuel_ok (U bs x)) \<Longrightarrow> good_case (sub_case pf field U get upd)"
  unfolding sub_case_def by (rule good_msg_case) (auto intro: fuel_ok_bindr)

lemma good_ptr_case [intro]:
  "(\<And>bs x. go_slice bs \<Longrightarrow> fuel_ok (U bs x)) \<Longrightarrow> good_case (ptr_case pf field U new get upd)"
  unfolding ptr_case_def by (rule good_msg_case) (auto intro: fuel_ok_bindr)

lemma good_sub_list_case [intro]:
  "(\<And>bs x. go_slice bs \<Longrightarrow> fuel_ok (U bs x)) \<Longrightarrow> good_case (sub_list_case pf field U new get upd)"
  unfolding sub_list_case_def by (rule good_msg_case) (auto intro: fuel_ok_bindr)

lemma good_bytes_list_case [intro]: "good_case (bytes_list_case pf field get upd)"
  unfolding bytes_list_case_def by (rule good_bytes_case)

lemma good_string_list_case [intro]: "good_case (string_list_case pf field get upd)"
  unfolding string_list_case_def by (rule good_string_case)

definition unmarshal_from ::
  "proto_file \<Rightarrow> string \<Rightarrow> (int \<Rightarrow> 'm field_case option) \<Rightarrow> byte list \<Rightarrow> nat \<Rightarrow> 'm \<Rightarrow> pb_error + 'm"
where
  "unmarshal_from pf name fields d i m = unmarshal_loop pf name fields (length d - i) d i m"

lemma unmarshal_from_end: "unmarshal_from pf name fields d (length d) m = Inr m"
  by (simp add: unmarshal_from_def unmarshal_loop.simps)

text \<open>The tag bytes of the fields: number and wire type.\<close>

lemma ucast_byte_64: "ucast (ucast (b :: byte) :: 64 word) = b"
  by (rule bit_word_eqI) (simp add: bit_unsigned_iff)

definition is_tag :: "byte \<Rightarrow> int \<Rightarrow> int \<Rightarrow> bool" where
  "is_tag tag fn wt \<longleftrightarrow> tag < 128 \<and> 0 < fn \<and>
     sint (ucast (drop_bit 3 (ucast tag :: 64 word)) :: 32 word) = fn \<and>
     uint ((ucast tag :: 64 word) AND 7) = wt"

lemma good_case_index:
  "good_case f \<Longrightarrow> go_slice d \<Longrightarrow> i \<le> length d \<Longrightarrow> f wt d i m = Inr (m', j) \<Longrightarrow> i \<le> j \<and> j \<le> length d"
  unfolding good_case_def by blast

lemma good_case_fuel: "good_case f \<Longrightarrow> go_slice d \<Longrightarrow> i \<le> length d \<Longrightarrow> fuel_ok (f wt d i m)"
  unfolding good_case_def by blast

locale pb_reader =
  fixes pf :: proto_file and name :: string and fields :: "int \<Rightarrow> 'm field_case option"
  assumes good: "fields fn = Some f \<Longrightarrow> good_case f"
begin

text \<open>The index after one iteration: strictly further on.\<close>

lemma case_index:
  assumes "read_varint pf d 0 i (0 :: 64 word) = Inr (wire, i1)" and "fields fn = Some f"
    and "f wt d i1 m = Inr (m', j)" and "go_slice d"
  shows "i < j" "j \<le> length d"
  using read_varint_progress [OF assms(1)] good_case_index [OF good [OF assms(2)] assms(4) _ assms(3)]
  by auto

lemma skip_index:
  assumes "skip_field pf (drop i d) = Inr n" and "go_slice d" and "i < length d"
    and "\<not> wrap64 (int i + n) < 0" and "\<not> n < 0" and "\<not> int (length d) < wrap64 (int i + n)"
  shows "i < nat (wrap64 (int i + n))"
proof -
  have "0 < n \<and> n < 2 ^ 63"
    using assms(1,2) by (intro skip_field_progress(1) [of "drop i d" pf]) (simp_all add: go_slice_def)
  moreover from this have "wrap64 (int i + n) < 0 \<or> wrap64 (int i + n) = int i + n"
    using assms(2,3) by (intro wrap64_sum) (simp_all add: go_slice_def)
  ultimately show ?thesis using assms(4) by (auto simp: zless_nat_conj)
qed

lemma case_enough:
  "read_varint pf d 0 i (0 :: 64 word) = Inr (wire, i1) \<Longrightarrow> fields fn = Some f \<Longrightarrow>
   f wt d i1 m = Inr (m', j) \<Longrightarrow> go_slice d \<Longrightarrow> length d \<le> Suc (k + i) \<Longrightarrow> length d \<le> k + j"
  by (drule (3) case_index(1)) simp

lemma skip_enough:
  "skip_field pf (drop i d) = Inr n \<Longrightarrow> go_slice d \<Longrightarrow> \<not> length d \<le> i \<Longrightarrow>
   \<not> wrap64 (int i + n) < 0 \<Longrightarrow> \<not> n < 0 \<Longrightarrow> \<not> int (length d) < wrap64 (int i + n) \<Longrightarrow>
   length d \<le> Suc (k + i) \<Longrightarrow> length d \<le> k + nat (wrap64 (int i + n))"
  by (drule (1) skip_index) simp_all

lemma loop_stable:
  "length d \<le> k + i \<Longrightarrow> length d \<le> k' + i \<Longrightarrow> go_slice d \<Longrightarrow>
   unmarshal_loop pf name fields k d i m = unmarshal_loop pf name fields k' d i m"
proof (induction k arbitrary: i m k')
  case 0
  then show ?case by (simp add: unmarshal_loop.simps)
next
  case (Suc k)
  show ?case
  proof (cases "length d \<le> i")
    case True
    then show ?thesis by (simp add: unmarshal_loop.simps)
  next
    case False
    with Suc.prems obtain l where k': "k' = Suc l" by (cases k') auto
    show ?thesis
      unfolding k' unmarshal_loop.simps [of pf name fields "Suc _"] nat.case Let_def
      using False Suc.prems
      by (auto simp: k' split: option.split prod.split intro!: bindr_cong Suc.IH)
        ((rule skip_enough case_enough; assumption)+)
  qed
qed

lemma loop_terminates:
  "length d \<le> k + i \<Longrightarrow> go_slice d \<Longrightarrow> fuel_ok (unmarshal_loop pf name fields k d i m)"
proof (induction k arbitrary: i m)
  case 0
  then show ?case by (auto simp: unmarshal_loop.simps)
next
  case (Suc k)
  have sub: "go_slice (drop i d)" using Suc.prems by (simp add: go_slice_def)
  show ?case
  proof (cases "length d \<le> i")
    case True
    then show ?thesis by (auto simp: unmarshal_loop.simps)
  next
    case False
    show ?thesis
      unfolding unmarshal_loop.simps [of pf name fields "Suc _"] nat.case Let_def
      using False Suc.prems sub
      by (auto split: option.split prod.split intro!: fuel_ok_bindr Suc.IH)
        ((rule skip_enough case_enough; assumption) |
          (rule good_case_fuel [OF good], assumption, assumption, simp add: read_varint_progress))+
  qed
qed

lemma unmarshal_terminates: "go_slice d \<Longrightarrow> fuel_ok (unmarshal pf name fields d m)"
  unfolding unmarshal_def by (rule loop_terminates) simp_all

text \<open>One iteration of the loop, on a tag of a single byte.\<close>

lemma read_tag:
  assumes "at d i (tag # xs)" and "is_tag tag fn wt"
  shows "read_varint pf d 0 i (0 :: 64 word) = Inr (ucast tag, Suc i)"
proof -
  have t: "(ucast tag :: 64 word) < 128"
    using assms(2) by (simp add: is_tag_def word_less_nat_alt unsigned_ucast_eq take_bit_nat_eq_self)
  then have "varint_bytes (ucast tag) = [tag]" by (simp add: varint_bytes_small ucast_byte_64)
  with assms(1) have "at d i (varint_bytes (ucast tag) @ xs)" by simp
  from read_varint_roundtrip [OF this, of pf, where 'a = 64] t show ?thesis by (simp add: sov_small)
qed

lemma from_case:
  assumes "at d i (tag # xs)" and "is_tag tag fn wt" and "wt \<noteq> 4" and "fields fn = Some f"
    and "f wt d (Suc i) m = Inr (m', j)" and "go_slice d"
  shows "unmarshal_from pf name fields d i m = unmarshal_from pf name fields d j m'"
proof -
  from assms(1) have "i < length d" by (auto dest: at_nth)
  then obtain k where k: "length d - i = Suc k" and k': "length d \<le> Suc (k + i)"
    by (cases "length d - i") auto
  have r: "read_varint pf d 0 i (0 :: 64 word) = Inr (ucast tag, Suc i)"
    by (rule read_tag) fact+
  have "length d \<le> k + j" by (rule case_enough) fact+
  then have "unmarshal_loop pf name fields k d j m' = unmarshal_from pf name fields d j m'"
    unfolding unmarshal_from_def by (rule loop_stable) (use assms(6) in auto)
  moreover have "sint (ucast (drop_bit 3 (ucast tag :: 64 word)) :: 32 word) = fn"
      "uint ((ucast tag :: 64 word) AND 7) = wt" "\<not> fn \<le> 0"
    using assms(2) by (simp_all only: is_tag_def) auto
  ultimately show ?thesis
    using \<open>i < length d\<close> assms(3-5)
    unfolding unmarshal_from_def [of _ _ _ d i] k unmarshal_loop.simps [of pf name fields "Suc k"]
    by (simp only: r) (simp add: Let_def)
qed

lemma from_skip:
  assumes "at d i (tag # xs)" and "is_tag tag fn wt" and "wt \<noteq> 4" and "fields fn = None"
    and "skip_field pf (drop i d) = Inr (int n)" and "i + n \<le> length d" and "go_slice d"
  shows "unmarshal_from pf name fields d i m = unmarshal_from pf name fields d (i + n) m"
proof -
  from assms(1) have "i < length d" by (auto dest: at_nth)
  then obtain k where k: "length d - i = Suc k" and k': "length d \<le> Suc (k + i)"
    by (cases "length d - i") auto
  have r: "read_varint pf d 0 i (0 :: 64 word) = Inr (ucast tag, Suc i)"
    by (rule read_tag) fact+
  have w: "wrap64 (int i + int n) = int (i + n)"
    using assms(6,7) wrap64_small [of "int (i + n)"] by (simp add: go_slice_def)
  then have w': "\<not> wrap64 (int i + int n) < 0" "\<not> int (length d) < wrap64 (int i + int n)"
      "nat (wrap64 (int i + int n)) = i + n"
    using assms(6) by (simp_all only: w nat_int)
  have "length d \<le> k + (i + n)"
    using skip_enough [OF assms(5,7) _ _ _ _ k'] \<open>i < length d\<close> assms(6) by (simp add: w)
  then have "unmarshal_loop pf name fields k d (i + n) m = unmarshal_from pf name fields d (i + n) m"
    unfolding unmarshal_from_def by (rule loop_stable) (use assms(7) in auto)
  moreover have "sint (ucast (drop_bit 3 (ucast tag :: 64 word)) :: 32 word) = fn"
      "uint ((ucast tag :: 64 word) AND 7) = wt" "\<not> fn \<le> 0"
    using assms(2) by (simp_all only: is_tag_def) auto
  ultimately show ?thesis
    using \<open>i < length d\<close> assms(3-6)
    unfolding unmarshal_from_def [of _ _ _ d i] k unmarshal_loop.simps [of pf name fields "Suc k"]
    by (simp only: r) (simp add: Let_def w')
qed

end

end
