(* ===== verification/Proto_Codec.thy ===== *)
theory Proto_Codec
  imports Proto_Reader
begin

text \<open>
  The contract of a generated message type, as an interface: \<open>pb_codec\<close> relates the
  methods \<^verbatim>\<open>Size\<close>, \<^verbatim>\<open>MarshalToSizedBuffer\<close> and the field switch of \<^verbatim>\<open>Unmarshal\<close> to one
  forward encoding \<open>enc\<close>. Everything a client of a message relies on (marshalling
  succeeds and never indexes out of range, unmarshalling inverts it, equal encodings mean
  equal messages, unknown fields are ignored) is proved here once and interpreted for
  every message.

  \<open>parses\<close> is the reading counterpart of \<open>writes\<close>: wherever the bytes stand in a buffer,
  the loop consumes exactly them and turns one message into the other.
\<close>

definition parses ::
  "proto_file \<Rightarrow> string \<Rightarrow> (int \<Rightarrow> 'm field_case option) \<Rightarrow> byte list \<Rightarrow> 'm \<Rightarrow> 'm \<Rightarrow> bool" where
  "parses pf name fields xs m m' \<longleftrightarrow> (\<forall>d i rest. go_slice d \<longrightarrow> at d i (xs @ rest) \<longrightarrow>
     unmarshal_from pf name fields d i m = unmarshal_from pf name fields d (i + length xs) m')"

lemma parsesI:
  "(\<And>d i rest. go_slice d \<Longrightarrow> at d i (xs @ rest) \<Longrightarrow>
     unmarshal_from pf name fields d i m = unmarshal_from pf name fields d (i + length xs) m') \<Longrightarrow>
   parses pf name fields xs m m'"
  by (simp add: parses_def)

lemma parsesD:
  "parses pf name fields xs m m' \<Longrightarrow> go_slice d \<Longrightarrow> at d i (xs @ rest) \<Longrightarrow>
   unmarshal_from pf name fields d i m = unmarshal_from pf name fields d (i + length xs) m'"
  unfolding parses_def by blast

lemma parses_Nil: "parses pf name fields [] m m"
  by (simp add: parses_def)

lemma parses_append:
  assumes "parses pf name fields xs m m'" and "parses pf name fields ys m' m''"
  shows "parses pf name fields (xs @ ys) m m''"
proof (rule parsesI)
  fix d i rest
  assume d: "go_slice d" and a: "at d i ((xs @ ys) @ rest)"
  then have "unmarshal_from pf name fields d i m = unmarshal_from pf name fields d (i + length xs) m'"
    by (intro parsesD [OF assms(1)]) simp_all
  also have "\<dots> = unmarshal_from pf name fields d (i + length xs + length ys) m''"
    using at_appendD [of d i xs "ys @ rest"] a by (intro parsesD [OF assms(2) d]) simp
  finally show "unmarshal_from pf name fields d i m =
      unmarshal_from pf name fields d (i + length (xs @ ys)) m''"
    by (simp add: add.assoc)
qed

lemma parses_eq: "parses pf name fields xs m m' \<Longrightarrow> m' = m'' \<Longrightarrow> parses pf name fields xs m m''"
  by simp

lemma parses_concat:
  "(\<And>x m. x \<in> set xs \<Longrightarrow> parses pf name fields (e x) m (g x m)) \<Longrightarrow>
   parses pf name fields (concat (map e xs)) m (fold g xs m)"
proof (induction xs arbitrary: m)
  case Nil
  show ?case by (simp add: parses_Nil)
next
  case (Cons x xs)
  have "parses pf name fields (e x) m (g x m)" by (rule Cons.prems) simp
  moreover have "parses pf name fields (concat (map e xs)) (g x m) (fold g xs (g x m))"
    by (rule Cons.IH) (rule Cons.prems, simp)
  ultimately show ?case using parses_append by simp
qed

lemma parses_unmarshal:
  "parses pf name fields xs m m' \<Longrightarrow> go_slice xs \<Longrightarrow> unmarshal pf name fields xs m = Inr m'"
  using parsesD [of pf name fields xs m m' xs 0 "[]"] unmarshal_from_end [of pf name fields xs m']
  by (simp add: unmarshal_def unmarshal_from_def [of _ _ _ xs 0])

context pb_reader
begin

lemma parses_msg1:
  assumes f: "fields fn = Some (msg_case pf field upd)" and t: "is_tag tag fn 2"
    and upd: "go_slice bs \<Longrightarrow> upd bs m = Inr m'"
  shows "parses pf name fields (enc_bytes1 tag bs) m m'"
proof (rule parsesI)
  fix d i rest
  let ?v = "word_of_nat (length bs) :: 64 word"
  assume d: "go_slice d" and a: "at d i (enc_bytes1 tag bs @ rest)"
  then have a': "at d i (tag # varint_bytes ?v @ bs @ rest)" by (simp add: enc_bytes1_def)
  then have "go_slice bs" using d by (auto simp: go_slice_def dest!: at_length)
  moreover have "read_slice pf d (Suc i) = Inr (bs, Suc i + sov ?v + length bs)"
    using at_ConsD [OF a'] d by (rule read_slice_at)
  ultimately have "msg_case pf field upd 2 d (Suc i) m = Inr (m', Suc i + sov ?v + length bs)"
    using upd by (simp add: msg_case_def)
  with a' t f d show "unmarshal_from pf name fields d i m =
      unmarshal_from pf name fields d (i + length (enc_bytes1 tag bs)) m'"
    using from_case [of d i tag _ fn 2 _ m m' "i + length (enc_bytes1 tag bs)"]
    by (simp add: enc_bytes1_def add.assoc)
qed

lemma parses_bytes1:
  "fields fn = Some (bytes_case pf field upd) \<Longrightarrow> is_tag tag fn 2 \<Longrightarrow>
   parses pf name fields (enc_bytes1 tag bs) m (upd bs m)"
  unfolding bytes_case_def by (rule parses_msg1) auto

lemma parses_bytes:
  "fields fn = Some (bytes_case pf field upd) \<Longrightarrow> is_tag tag fn 2 \<Longrightarrow> upd [] m = m \<Longrightarrow>
   parses pf name fields (enc_bytes tag bs) m (upd bs m)"
  by (auto simp: enc_bytes_def parses_Nil intro: parses_bytes1)

lemma parses_string:
  "fields fn = Some (string_case pf field upd) \<Longrightarrow> is_tag tag fn 2 \<Longrightarrow> upd [] m = m \<Longrightarrow>
   parses pf name fields (enc_bytes tag (str_bytes s)) m (upd s m)"
  using parses_bytes [of fn field "\<lambda>bs. upd (bytes_str bs)" tag m "str_bytes s"]
  by (simp add: string_case_def)

lemma parses_uint:
  assumes f: "fields fn = Some (uint_case pf field upd)" and t: "is_tag tag fn 0"
    and upd: "upd 0 m = m"
  shows "parses pf name fields (enc_uint tag v) m (upd (ucast v) m)"
proof (cases "v = 0")
  case True
  with upd show ?thesis by (simp add: enc_uint_def parses_Nil)
next
  case False
  show ?thesis
  proof (rule parsesI)
    fix d i rest
    assume d: "go_slice d" and a: "at d i (enc_uint tag v @ rest)"
    with False have a': "at d i (tag # varint_bytes v @ rest)" by (simp add: enc_uint_def)
    have "uint_case pf field upd 0 d (Suc i) m = Inr (upd (ucast v) m, Suc i + sov v)"
      by (simp add: uint_case_def read_varint_roundtrip [OF at_ConsD [OF a']])
    with a' t f d False show "unmarshal_from pf name fields d i m =
        unmarshal_from pf name fields d (i + length (enc_uint tag v)) (upd (ucast v) m)"
      using from_case [of d i tag _ fn 0 _ m "upd (ucast v) m" "i + length (enc_uint tag v)"]
      by (simp add: enc_uint_def)
  qed
qed

lemma parses_uint64:
  "fields fn = Some (uint_case pf field (upd :: 64 word \<Rightarrow> 'm \<Rightarrow> 'm)) \<Longrightarrow> is_tag tag fn 0 \<Longrightarrow> upd 0 m = m \<Longrightarrow>
   parses pf name fields (enc_uint tag v) m (upd v m)"
  using parses_uint [of fn field upd tag m v] by simp

lemma parses_enum:
  "fields fn = Some (uint_case pf field (upd :: 32 word \<Rightarrow> 'm \<Rightarrow> 'm)) \<Longrightarrow> is_tag tag fn 0 \<Longrightarrow> upd 0 m = m \<Longrightarrow>
   parses pf name fields (enc_uint tag (scast s)) m (upd s m)"
  using parses_uint [of fn field upd tag m "scast s"] by (simp add: ucast_scast_enum)

lemma parses_sub:
  "fields fn = Some (sub_case pf field U get upd) \<Longrightarrow> is_tag tag fn 2 \<Longrightarrow>
   (go_slice (e x) \<Longrightarrow> U (e x) (get m) = Inr x) \<Longrightarrow>
   parses pf name fields (enc_bytes1 tag (e x)) m (upd x m)"
  unfolding sub_case_def by (rule parses_msg1) (assumption+, simp)

lemma parses_ptr:
  assumes "fields fn = Some (ptr_case pf field U new get upd)" and "is_tag tag fn 2"
    and "\<And>x. go_slice (e x) \<Longrightarrow> U (e x) new = Inr x" and "get m = None" and "upd None m = m"
  shows "parses pf name fields (enc_opt tag (map_option e p)) m (upd p m)"
proof (cases p)
  case None
  with assms(5) show ?thesis by (simp add: enc_opt_def parses_Nil)
next
  case (Some x)
  have "parses pf name fields (enc_bytes1 tag (e x)) m (upd (Some x) m)"
    using assms(1,2) unfolding ptr_case_def
    by (rule parses_msg1) (simp add: assms(3,4))
  with Some show ?thesis by (simp add: enc_opt_def)
qed

text \<open>A slice field is a lens on the message; appending one by one appends the list.\<close>

lemma fold_snoc:
  assumes "\<And>l m. get (upd l m) = l" and "\<And>l l' m. upd l (upd l' m) = upd l m"
    and "upd (get m) m = m"
  shows "fold (\<lambda>x m. upd (get m @ [x]) m) xs m = upd (get m @ xs) m"
proof -
  have "fold (\<lambda>x m. upd (get m @ [x]) m) xs (upd ys m) = upd (ys @ xs) m" for ys
    by (induction xs arbitrary: ys) (simp_all add: assms(1,2))
  from this [of "get m"] show ?thesis by (simp only: assms(3))
qed

lemma parses_bytes_list:
  assumes "fields fn = Some (bytes_list_case pf field get upd)" and "is_tag tag fn 2"
    and "\<And>l m. get (upd l m) = l" and "\<And>l l' m. upd l (upd l' m) = upd l m" and "upd [] m = m"
  shows "parses pf name fields (enc_each tag bss) m (upd bss m)"
proof -
  have "get m = []" by (metis assms(3,5))
  with fold_snoc [OF assms(3,4), of m bss] assms(5)
  have "fold (\<lambda>x m. upd (get m @ [x]) m) bss m = upd bss m" by simp
  moreover have "parses pf name fields (enc_each tag bss) m (fold (\<lambda>x m. upd (get m @ [x]) m) bss m)"
    unfolding enc_each_def
    by (rule parses_concat, rule parses_bytes1) (use assms in \<open>simp_all add: bytes_list_case_def\<close>)
  ultimately show ?thesis by simp
qed

lemma parses_string_list:
  assumes "fields fn = Some (string_list_case pf field get upd)" and "is_tag tag fn 2"
    and "\<And>l m. get (upd l m) = l" and "\<And>l l' m. upd l (upd l' m) = upd l m" and "upd [] m = m"
  shows "parses pf name fields (enc_each tag (map str_bytes ss)) m (upd ss m)"
proof -
  have "get m = []" by (metis assms(3,5))
  with fold_snoc [OF assms(3,4), of m ss] assms(5)
  have "fold (\<lambda>x m. upd (get m @ [x]) m) ss m = upd ss m" by simp
  moreover have "parses pf name fields (enc_bytes1 tag (str_bytes s)) m (upd (get m @ [s]) m)" for s m
    using parses_bytes1 [of fn field "\<lambda>bs m. upd (get m @ [bytes_str bs]) m" tag "str_bytes s" m] assms
    by (simp add: string_list_case_def string_case_def)
  then have "parses pf name fields (enc_each tag (map str_bytes ss)) m (fold (\<lambda>x m. upd (get m @ [x]) m) ss m)"
    unfolding enc_each_def map_map o_def by (rule parses_concat)
  ultimately show ?thesis by simp
qed

lemma parses_sub_list:
  assumes "fields fn = Some (sub_list_case pf field U new get upd)" and "is_tag tag fn 2"
    and "\<And>x. go_slice (e x) \<Longrightarrow> U (e x) new = Inr x"
    and "\<And>l m. get (upd l m) = l" and "\<And>l l' m. upd l (upd l' m) = upd l m" and "upd [] m = m"
  shows "parses pf name fields (enc_each tag (map e xs)) m (upd xs m)"
proof -
  have "get m = []" by (metis assms(4,6))
  with fold_snoc [OF assms(4,5), of m xs] assms(6)
  have "fold (\<lambda>x m. upd (get m @ [x]) m) xs m = upd xs m" by simp
  moreover have "parses pf name fields (enc_bytes1 tag (e x)) m (upd (get m @ [x]) m)" for x m
    using assms(1,2) unfolding sub_list_case_def
    by (rule parses_msg1) (simp add: assms(3))
  then have "parses pf name fields (enc_each tag (map e xs)) m (fold (\<lambda>x m. upd (get m @ [x]) m) xs m)"
    unfolding enc_each_def map_map o_def by (rule parses_concat)
  ultimately show ?thesis by simp
qed

subsection \<open>Unknown fields\<close>

lemma skip_uint:
  assumes "at d i (tag # varint_bytes v @ rest)" and "is_tag tag fn 0" and "go_slice d"
  shows "skip_field pf (drop i d) = Inr (int (Suc (sov v)))"
proof -
  let ?d = "tag # varint_bytes v @ rest"
  have d: "drop i d = ?d" using assms(1) by (simp add: at_def)
  have r: "read_varint pf ?d 0 0 (0 :: 64 word) = Inr (ucast tag, Suc 0)"
    by (rule read_tag [OF at_0 assms(2)])
  have a: "at ?d (Suc 0) (varint_bytes v @ rest)" by (simp add: at_def)
  have "skip_varint pf ?d 0 (Suc 0) = Inr (Suc 0 + sov v)"
    by (rule skip_varint_at [OF a]) (use unsigned_less [of v] in simp_all)
  then show ?thesis
    using assms(2)
    by (simp add: d skip_field_def skip_loop.simps [of pf ?d] r skip_value_def is_tag_def)
qed

lemma parses_unknown_uint:
  assumes "fields fn = None" and "is_tag tag fn 0"
  shows "parses pf name fields (tag # varint_bytes v) m m"
proof (rule parsesI)
  fix d i rest
  assume d: "go_slice d" and "at d i ((tag # varint_bytes v) @ rest)"
  then have a: "at d i (tag # varint_bytes v @ rest)" by simp
  have "skip_field pf (drop i d) = Inr (int (Suc (sov v)))" by (rule skip_uint) fact+
  from from_skip [OF a assms(2) _ assms(1) this _ d]
  show "unmarshal_from pf name fields d i m =
      unmarshal_from pf name fields d (i + length (tag # varint_bytes v)) m"
    using at_length [OF a] by simp
qed

lemma parses_unknown_bytes:
  assumes "fields fn = None" and "is_tag tag fn 2"
  shows "parses pf name fields (enc_bytes1 tag bs) m m"
proof (rule parsesI)
  fix d i rest
  let ?v = "word_of_nat (length bs) :: 64 word" and ?xs = "varint_bytes (word_of_nat (length bs)) @ bs @ rest"
  assume d: "go_slice d" and "at d i (enc_bytes1 tag bs @ rest)"
  then have a: "at d i (tag # ?xs)" by (simp add: enc_bytes1_def)
  then have dr: "drop i d = tag # ?xs" by (simp add: at_def)
  have r: "read_varint pf (tag # ?xs) 0 0 (0 :: 64 word) = Inr (ucast tag, Suc 0)"
    by (rule read_tag [OF at_0 assms(2)])
  have "at (tag # ?xs) (Suc 0) ?xs" by (simp add: at_def)
  then have r': "read_varint pf (tag # ?xs) 0 (Suc 0) (0 :: 64 word) = Inr (?v, Suc 0 + sov ?v)"
    using read_varint_roundtrip [where 'a = 64] by fastforce
  have l: "Suc (sov ?v + length bs) < 2 ^ 63" "i + Suc (sov ?v + length bs) \<le> length d"
    using at_length [OF a] d by (simp_all add: go_slice_def)
  then have s: "sint ?v = int (length bs)" by (intro sint_of_nat) simp
  have w: "wrap64 (1 + int (sov ?v) + int (length bs)) = 1 + int (sov ?v) + int (length bs)"
    using l(1) by (intro wrap64_small) simp_all
  have "skip_field pf (drop i d) = Inr (int (Suc (sov ?v + length bs)))"
    unfolding dr using assms(2)
    by (simp add: skip_field_def skip_loop.simps [of pf "tag # ?xs"] r r' skip_value_def is_tag_def s w)
  from from_skip [OF a assms(2) _ assms(1) this l(2) d]
  show "unmarshal_from pf name fields d i m =
      unmarshal_from pf name fields d (i + length (enc_bytes1 tag bs)) m"
    by (simp add: enc_bytes1_def)
qed

end

subsection \<open>Interface: a message type\<close>

locale pb_codec = pb_reader pf name fields
  for pf :: proto_file and name :: string and fields :: "int \<Rightarrow> 'm field_case option" +
  fixes enc :: "'m \<Rightarrow> byte list" and sz :: "'m \<Rightarrow> nat" and sw :: "'m \<Rightarrow> sized_writer" and new :: 'm
  assumes size_enc: "sz m = length (enc m)"
    and writes_enc: "sized_writes (sw m) (enc m)"
    and parses_enc: "parses pf name fields (enc m) new m"
begin

lemma marshal_enc: "marshal (sz m) (sw m) = Inr (enc m)"
  unfolding size_enc by (rule marshal_writes) (rule writes_enc)

lemma marshal_to_enc:
  "length (enc m) \<le> length d \<Longrightarrow>
   marshal_to (sz m) (sw m) d = Inr (int (sz m), enc m @ drop (sz m) d)"
  unfolding size_enc by (rule marshal_to_writes [OF writes_enc])

lemma unmarshal_enc: "go_slice (enc m) \<Longrightarrow> unmarshal pf name fields (enc m) new = Inr m"
  by (rule parses_unmarshal) (rule parses_enc)

lemma roundtrip:
  "sz m < 2 ^ 63 \<Longrightarrow> bindr (marshal (sz m) (sw m)) (\<lambda>bs. unmarshal pf name fields bs new) = Inr m"
  unfolding marshal_enc bindr.simps by (rule unmarshal_enc) (simp add: go_slice_def size_enc)

lemma enc_inject: "sz m < 2 ^ 63 \<Longrightarrow> enc m = enc m' \<longleftrightarrow> m = m'"
  unfolding size_enc by (metis go_slice_def unmarshal_enc sum.inject(2))

lemma marshal_inject:
  "sz m < 2 ^ 63 \<Longrightarrow> marshal (sz m) (sw m) = marshal (sz m') (sw m') \<longleftrightarrow> m = m'"
  using enc_inject [of m m'] by (simp add: marshal_enc)

lemma unmarshal_unknown:
  assumes "parses pf name fields extra m m" and "length (enc m @ extra) < 2 ^ 63"
  shows "unmarshal pf name fields (enc m @ extra) new = Inr m"
  using parses_append [OF parses_enc assms(1)] assms(2)
  by (intro parses_unmarshal) (auto simp: go_slice_def)

end

end
