(* ===== verification/App_PB.thy ===== *)
theory App_PB
  imports Proto_Codec
begin

text \<open>
  \<^verbatim>\<open>pkg/ibc/app/App.pb.go\<close>: the ICS-20 packet payload \<^verbatim>\<open>FungibleTokenPacketData\<close> and its
  generated methods. For every message of the generated files: the record is the struct,
  \<open>_new\<close> its zero value (\<^verbatim>\<open>Reset\<close>), \<open>_Size\<close>, \<open>_MarshalToSizedBuffer\<close>, \<open>_Marshal\<close>,
  \<open>_MarshalTo\<close> and \<open>_Unmarshal\<close> the methods (the last on a receiver, which it merges into),
  \<open>_fields\<close> the switch on the field number inside \<^verbatim>\<open>Unmarshal\<close>, and \<open>_enc\<close> the specification: the
  fields in ascending order, default values left out.
\<close>

subsection \<open>The helpers of the file\<close>

definition sovApp :: "64 word \<Rightarrow> nat" where
  "sovApp = sov"

definition sozApp :: "64 word \<Rightarrow> nat" where
  "sozApp = soz"

definition encodeVarintApp :: "byte list \<Rightarrow> int \<Rightarrow> 64 word \<Rightarrow> pb_error + byte list \<times> int" where
  "encodeVarintApp = encodeVarint"

definition skipApp :: "byte list \<Rightarrow> pb_error + int" where
  "skipApp = skip_field App_proto"

subsection \<open>\<^verbatim>\<open>FungibleTokenPacketData\<close>\<close>

record FungibleTokenPacketData =
  ftpd_Denom :: string
  ftpd_Amount :: "64 word"
  ftpd_Sender :: "byte list"
  ftpd_Receiver :: "byte list"

definition FungibleTokenPacketData_new :: FungibleTokenPacketData where
  "FungibleTokenPacketData_new =
     \<lparr>ftpd_Denom = '''', ftpd_Amount = 0, ftpd_Sender = [], ftpd_Receiver = []\<rparr>"

definition FungibleTokenPacketData_Size :: "FungibleTokenPacketData \<Rightarrow> nat" where
  "FungibleTokenPacketData_Size m =
     size_bytes (length (ftpd_Denom m)) + size_uint (ftpd_Amount m) +
     size_bytes (length (ftpd_Sender m)) + size_bytes (length (ftpd_Receiver m))"

definition FungibleTokenPacketData_MarshalToSizedBuffer :: "FungibleTokenPacketData \<Rightarrow> sized_writer" where
  "FungibleTokenPacketData_MarshalToSizedBuffer m = to_sized_buffer
     [whenw (0 < length (ftpd_Receiver m)) (put_bytes 0x22 (ftpd_Receiver m)),
      whenw (0 < length (ftpd_Sender m)) (put_bytes 0x1a (ftpd_Sender m)),
      whenw (ftpd_Amount m \<noteq> 0) (put_uint 0x10 (ftpd_Amount m)),
      whenw (0 < length (ftpd_Denom m)) (put_bytes 0xa (str_bytes (ftpd_Denom m)))]"

definition FungibleTokenPacketData_Marshal :: "FungibleTokenPacketData \<Rightarrow> pb_error + byte list" where
  "FungibleTokenPacketData_Marshal m = marshal (FungibleTokenPacketData_Size m) (FungibleTokenPacketData_MarshalToSizedBuffer m)"

definition FungibleTokenPacketData_MarshalTo :: "FungibleTokenPacketData \<Rightarrow> sized_writer" where
  "FungibleTokenPacketData_MarshalTo m = marshal_to (FungibleTokenPacketData_Size m) (FungibleTokenPacketData_MarshalToSizedBuffer m)"

definition FungibleTokenPacketData_case_Denom :: "FungibleTokenPacketData field_case" where
  "FungibleTokenPacketData_case_Denom = string_case App_proto ''Denom'' (\<lambda>s m. m\<lparr>ftpd_Denom := s\<rparr>)"

definition FungibleTokenPacketData_case_Amount :: "FungibleTokenPacketData field_case" where
  "FungibleTokenPacketData_case_Amount = uint_case App_proto ''Amount'' (\<lambda>v m. m\<lparr>ftpd_Amount := v\<rparr>)"

definition FungibleTokenPacketData_case_Sender :: "FungibleTokenPacketData field_case" where
  "FungibleTokenPacketData_case_Sender = bytes_case App_proto ''Sender'' (\<lambda>b m. m\<lparr>ftpd_Sender := b\<rparr>)"

definition FungibleTokenPacketData_case_Receiver :: "FungibleTokenPacketData field_case" where
  "FungibleTokenPacketData_case_Receiver = bytes_case App_proto ''Receiver'' (\<lambda>b m. m\<lparr>ftpd_Receiver := b\<rparr>)"

definition FungibleTokenPacketData_fields :: "int \<Rightarrow> FungibleTokenPacketData field_case option" where
  "FungibleTokenPacketData_fields fieldNum =
     (if fieldNum = 1 then Some FungibleTokenPacketData_case_Denom
      else if fieldNum = 2 then Some FungibleTokenPacketData_case_Amount
      else if fieldNum = 3 then Some FungibleTokenPacketData_case_Sender
      else if fieldNum = 4 then Some FungibleTokenPacketData_case_Receiver
      else None)"

definition FungibleTokenPacketData_Unmarshal :: "byte list \<Rightarrow> FungibleTokenPacketData \<Rightarrow> pb_error + FungibleTokenPacketData" where
  "FungibleTokenPacketData_Unmarshal = unmarshal App_proto ''FungibleTokenPacketData'' FungibleTokenPacketData_fields"

definition FungibleTokenPacketData_enc :: "FungibleTokenPacketData \<Rightarrow> byte list" where
  "FungibleTokenPacketData_enc m =
     enc_bytes 0xa (str_bytes (ftpd_Denom m)) @ enc_uint 0x10 (ftpd_Amount m) @
     enc_bytes 0x1a (ftpd_Sender m) @ enc_bytes 0x22 (ftpd_Receiver m)"

lemmas FungibleTokenPacketData_switch = FungibleTokenPacketData_fields_def
  FungibleTokenPacketData_case_Denom_def FungibleTokenPacketData_case_Amount_def
  FungibleTokenPacketData_case_Sender_def FungibleTokenPacketData_case_Receiver_def

interpretation ftpd: pb_reader App_proto "''FungibleTokenPacketData''" FungibleTokenPacketData_fields
  by unfold_locales (auto simp: FungibleTokenPacketData_switch split: if_splits)

lemma FungibleTokenPacketData_fuel: "go_slice bs \<Longrightarrow> fuel_ok (FungibleTokenPacketData_Unmarshal bs m)"
  unfolding FungibleTokenPacketData_Unmarshal_def by (rule ftpd.unmarshal_terminates)

lemmas ftpd_reads =
  ftpd.parses_string [of 1 "''Denom''" "\<lambda>v m. m\<lparr>ftpd_Denom := v\<rparr>" "0xa"]
  ftpd.parses_uint64 [of 2 "''Amount''" "\<lambda>v m. m\<lparr>ftpd_Amount := v\<rparr>" "0x10"]
  ftpd.parses_bytes [of 3 "''Sender''" "\<lambda>v m. m\<lparr>ftpd_Sender := v\<rparr>" "0x1a"]
  ftpd.parses_bytes [of 4 "''Receiver''" "\<lambda>v m. m\<lparr>ftpd_Receiver := v\<rparr>" "0x22"]

lemma FungibleTokenPacketData_parses:
  "parses App_proto ''FungibleTokenPacketData'' FungibleTokenPacketData_fields (FungibleTokenPacketData_enc m) FungibleTokenPacketData_new m"
  unfolding FungibleTokenPacketData_enc_def FungibleTokenPacketData_new_def
  by (rule parses_eq, (rule parses_append ftpd_reads
      | simp add: FungibleTokenPacketData_switch is_tag_def)+)

lemma FungibleTokenPacketData_writes: "sized_writes (FungibleTokenPacketData_MarshalToSizedBuffer m) (FungibleTokenPacketData_enc m)"
  unfolding FungibleTokenPacketData_MarshalToSizedBuffer_def
  by (rule to_sized_buffer_writes, (rule writes_intros)+, simp add: FungibleTokenPacketData_enc_def)

interpretation ftpd_codec: pb_codec App_proto "''FungibleTokenPacketData''" FungibleTokenPacketData_fields
    FungibleTokenPacketData_enc FungibleTokenPacketData_Size FungibleTokenPacketData_MarshalToSizedBuffer FungibleTokenPacketData_new
  by (unfold_locales, simp add: FungibleTokenPacketData_Size_def FungibleTokenPacketData_enc_def wire_simps,
      rule FungibleTokenPacketData_writes, rule FungibleTokenPacketData_parses)

lemma FungibleTokenPacketData_Unmarshal_enc: "go_slice (FungibleTokenPacketData_enc m) \<Longrightarrow> FungibleTokenPacketData_Unmarshal (FungibleTokenPacketData_enc m) FungibleTokenPacketData_new = Inr m"
  unfolding FungibleTokenPacketData_Unmarshal_def by (rule ftpd_codec.unmarshal_enc)

lemma FungibleTokenPacketData_Marshal_enc: "FungibleTokenPacketData_Marshal m = Inr (FungibleTokenPacketData_enc m)"
  unfolding FungibleTokenPacketData_Marshal_def by (rule ftpd_codec.marshal_enc)

subsection \<open>Properties\<close>

text \<open>
  \<^verbatim>\<open>MarshalTo\<close> writes the encoding at the front of the buffer, leaves what follows as it
  was and returns \<^verbatim>\<open>Size()\<close>; it panics exactly when the buffer is shorter than that.
\<close>

theorem FungibleTokenPacketData_MarshalTo_frame:
  "FungibleTokenPacketData_MarshalTo m d =
     (if length d < FungibleTokenPacketData_Size m then Inl Panic_index
      else bindr (FungibleTokenPacketData_Marshal m) (\<lambda>bs.
        Inr (int (FungibleTokenPacketData_Size m), bs @ drop (FungibleTokenPacketData_Size m) d)))"
  using ftpd_codec.marshal_to_enc [of m d] ftpd_codec.size_enc [of m]
  by (simp add: FungibleTokenPacketData_MarshalTo_def marshal_to_short FungibleTokenPacketData_Marshal_enc)

text \<open>
  Forward compatibility: a length-delimited field with a number the message does not
  have, appended to an encoding, is skipped and changes nothing.
\<close>

theorem FungibleTokenPacketData_Unmarshal_unknown:
  assumes "FungibleTokenPacketData_Marshal m = Inr bs" and "is_tag tag fn 2" and "4 < fn"
    and "length (bs @ enc_bytes1 tag extra) < 2 ^ 63"
  shows "FungibleTokenPacketData_Unmarshal (bs @ enc_bytes1 tag extra) FungibleTokenPacketData_new = Inr m"
proof -
  have "FungibleTokenPacketData_fields fn = None"
    using assms(3) by (simp add: FungibleTokenPacketData_fields_def)
  then have "parses App_proto ''FungibleTokenPacketData'' FungibleTokenPacketData_fields
      (enc_bytes1 tag extra) m m"
    using assms(2) by (rule ftpd.parses_unknown_bytes)
  from ftpd_codec.unmarshal_unknown [OF this] assms(1,4) show ?thesis
    by (simp add: FungibleTokenPacketData_Unmarshal_def FungibleTokenPacketData_Marshal_enc)
qed

lemma FungibleTokenPacketData_Unmarshal_unknown_witness:
  "FungibleTokenPacketData_Unmarshal [16, 7, 42, 2, 1, 2] FungibleTokenPacketData_new =
   Inr (FungibleTokenPacketData_new\<lparr>ftpd_Amount := 7\<rparr>)"
proof -
  let ?m = "FungibleTokenPacketData_new\<lparr>ftpd_Amount := 7\<rparr>"
  have "FungibleTokenPacketData_Marshal ?m = Inr [16, 7]"
    by (simp add: FungibleTokenPacketData_Marshal_enc FungibleTokenPacketData_enc_def
        FungibleTokenPacketData_new_def enc_uint_def enc_bytes_def varint_bytes.simps)
  moreover have "is_tag 42 5 2" by (simp add: is_tag_def)
  moreover have "enc_bytes1 42 [1, 2] = [42, 2, 1, 2]" by (simp add: enc_bytes1_def varint_bytes.simps)
  ultimately show ?thesis
    using FungibleTokenPacketData_Unmarshal_unknown [of ?m "[16, 7]" 42 5 "[1, 2]"] by simp
qed

end
