(* ===== verification/Contract_Types.thy ===== *)
theory Contract_Types
  imports Prelude
begin

text \<open>
  The structs the IBC contracts exchange with their callers: the Solidity structs of
  \<^verbatim>\<open>contracts/core/types/Connection.sol\<close> and \<^verbatim>\<open>Channel.sol\<close> and, field by field, the Go structs
  of the bindings \<^verbatim>\<open>pkg/contract/ibchost\<close> and \<^verbatim>\<open>ibchandler\<close>. A Solidity enum crosses the ABI
  as a \<^verbatim>\<open>uint8\<close>.
\<close>

record VersionData =
  vd_Identifier :: string
  vd_Features :: "string list"

record MerklePrefixData =
  mpd_KeyPrefix :: "byte list"

record CounterpartyData =
  cd_ClientId :: string
  cd_ConnectionId :: string
  cd_Prefix :: MerklePrefixData

record ConnectionEndData =
  ced_ClientId :: string
  ced_Versions :: "VersionData list"
  ced_State :: "8 word"
  ced_Counterparty :: CounterpartyData
  ced_DelayPeriod :: "64 word"

record ChannelCounterpartyData =
  ccd_PortId :: string
  ccd_ChannelId :: string

record ChannelData =
  chd_State :: "8 word"
  chd_Ordering :: "8 word"
  chd_Counterparty :: ChannelCounterpartyData
  chd_ConnectionHops :: "string list"
  chd_Version :: string

record HeightData =
  hd_RevisionNumber :: "64 word"
  hd_RevisionHeight :: "64 word"

record PacketData =
  pd_Sequence :: "64 word"
  pd_SourcePort :: string
  pd_SourceChannel :: string
  pd_DestinationPort :: string
  pd_DestinationChannel :: string
  pd_Data :: "byte list"
  pd_TimeoutHeight :: HeightData
  pd_TimeoutTimestamp :: "64 word"

end
