(* ===== verification/Big_Endian.thy ===== *)
theory Big_Endian
  imports Prelude
begin

text \<open>
  Big-endian integers in byte strings: \<open>be_bytes k n\<close> are the \<open>k\<close> bytes of \<open>n\<close> (of
  \<^verbatim>\<open>encoding/binary\<close>'s \<^verbatim>\<open>PutUint64\<close>, of \<^verbatim>\<open>math/big\<close>'s \<^verbatim>\<open>Bytes\<close> and of Solidity's \<^verbatim>\<open>bytes32\<close>), and
  \<open>be_val\<close> is \<^verbatim>\<open>SetBytes\<close>.
\<close>

primrec be_bytes :: "nat \<Rightarrow> nat \<Rightarrow> byte list" where
  "be_bytes 0 n = []"
| "be_bytes (Suc k) n = be_bytes k (n div 256) @ [word_of_nat n]"

definition be_val :: "byte list \<Rightarrow> nat" where
  "be_val bs = foldl (\<lambda>a b. 256 * a + unat b) 0 bs"

lemma length_be_bytes [simp]: "length (be_bytes k n) = k"
  by (induction k arbitrary: n) simp_all

lemma be_val_Nil [simp]: "be_val [] = 0"
  by (simp add: be_val_def)

lemma be_val_snoc [simp]: "be_val (bs @ [b]) = 256 * be_val bs + unat b"
  by (simp add: be_val_def)

lemma unat_byte_of_nat: "unat (word_of_nat n :: byte) = n mod 256"
  by (simp add: unsigned_of_nat take_bit_eq_mod)

lemma unat_byte_less: "unat (b :: byte) < 256"
  using unsigned_less [of b] by simp

lemma be_val_be_bytes: "be_val (be_bytes k n) = n mod 256 ^ k"
proof (induction k arbitrary: n)
  case 0
  then show ?case by simp
next
  case (Suc k)
  have "n mod (256 * 256 ^ k) = 256 * (n div 256 mod 256 ^ k) + n mod 256"
    by (rule mod_mult2_eq)
  with Suc show ?case by (simp add: unat_byte_of_nat)
qed

lemma be_bytes_be_val: "be_bytes (length bs) (be_val bs) = bs"
proof (induction bs rule: rev_induct)
  case Nil
  then show ?case by simp
next
  case (snoc b bs)
  have "unat b < 256" by (rule unat_byte_less)
  then have "(256 * be_val bs + unat b) div 256 = be_val bs" by simp
  moreover have "word_of_nat (256 * be_val bs + unat b) = b"
    unfolding word_unat_eq_iff unat_byte_of_nat using \<open>unat b < 256\<close> by simp
  ultimately show ?case using snoc by simp
qed

lemma be_val_less: "be_val bs < 256 ^ length bs"
  by (metis be_bytes_be_val be_val_be_bytes mod_less_divisor zero_less_numeral zero_less_power)

lemma be_bytes_inject: "m < 256 ^ k \<Longrightarrow> n < 256 ^ k \<Longrightarrow> be_bytes k m = be_bytes k n \<longleftrightarrow> m = n"
  by (metis be_val_be_bytes mod_less)

definition be64 :: "64 word \<Rightarrow> byte list" where
  "be64 w = be_bytes 8 (unat w)"

lemma length_be64 [simp]: "length (be64 w) = 8"
  by (simp add: be64_def)

lemma be64_inject [simp]: "be64 v = be64 w \<longleftrightarrow> v = w"
proof -
  have "unat u < 256 ^ 8" for u :: "64 word" using unsigned_less [of u] by simp
  from be_bytes_inject [OF this this] show ?thesis
    unfolding be64_def by (simp only: word_unat_eq_iff)
qed

end
