(* ===== verification/Decimal.thy ===== *)
theory Decimal
  imports Prelude
begin

text \<open>
  Decimal numerals and separators in strings, as Go's standard library treats them:
  \<^verbatim>\<open>fmt\<close>'s \<^verbatim>\<open>%v\<close> of an unsigned integer (also Solidity's \<^verbatim>\<open>uint2str\<close>), \<^verbatim>\<open>strconv.Atoi\<close> and
  \<^verbatim>\<open>strings.Split\<close> with a separator of one byte.
\<close>

subsection \<open>Digits\<close>

definition digit :: "nat \<Rightarrow> char" where
  "digit d = char_of (48 + d)"

definition digit_val :: "char \<Rightarrow> nat option" where
  "digit_val c = (let n = of_char c in if 48 \<le> n \<and> n < 58 then Some (n - 48) else None)"

lemma digit_val_digit [simp]: "d < 10 \<Longrightarrow> digit_val (digit d) = Some d"
  by (simp add: digit_val_def digit_def Let_def)

lemma digit_val_eq_Some: "digit_val c = Some d \<longleftrightarrow> d < 10 \<and> c = digit d"
  by (auto simp: digit_val_def digit_def Let_def)

text \<open>Decimal representation, most significant digit first, no leading zeros.\<close>

fun dec :: "nat \<Rightarrow> string" where
  "dec n = (if n < 10 then [digit n] else dec (n div 10) @ [digit (n mod 10)])"

declare dec.simps [simp del]

lemma dec_not_Nil [simp]: "dec n \<noteq> []"
  by (simp add: dec.simps)

lemma dec_digits: "c \<in> set (dec n) \<Longrightarrow> \<exists>d < 10. c = digit d"
proof (induction n rule: dec.induct)
  case (1 n)
  then show ?case
    by (cases "n < 10") (auto simp: dec.simps [of n] intro: exI [of _ "n mod 10"])
qed

lemma digit_neq: "d < 10 \<Longrightarrow> of_char c < (48 :: nat) \<or> 58 \<le> (of_char c :: nat) \<Longrightarrow> digit d \<noteq> c"
  by (auto simp: digit_def)

lemma dec_no_sep: "of_char c < (48 :: nat) \<or> 58 \<le> (of_char c :: nat) \<Longrightarrow> c \<notin> set (dec n)"
  by (metis dec_digits digit_neq)

lemma hd_dec: "of_char c < (48 :: nat) \<or> 58 \<le> (of_char c :: nat) \<Longrightarrow> hd (dec n) \<noteq> c"
  by (metis dec_no_sep dec_not_Nil hd_in_set)

subsection \<open>\<^verbatim>\<open>strconv.Atoi\<close>\<close>

datatype num_error = ErrSyntax | ErrRange

text \<open>The digit loop of \<^verbatim>\<open>strconv.ParseUint\<close> at base 10 and 64 bits.\<close>

fun parse_uint_loop :: "string \<Rightarrow> nat \<Rightarrow> num_error + nat" where
  "parse_uint_loop [] n = Inr n"
| "parse_uint_loop (c # cs) n =
     (case digit_val c of
        None \<Rightarrow> Inl ErrSyntax
      | Some d \<Rightarrow> if 2 ^ 64 \<le> n * 10 + d then Inl ErrRange else parse_uint_loop cs (n * 10 + d))"

definition ParseUint :: "string \<Rightarrow> num_error + nat" where
  "ParseUint s = (if s = [] then Inl ErrSyntax else parse_uint_loop s 0)"

definition Atoi :: "string \<Rightarrow> num_error + int" where
  "Atoi s =
     (let neg = (s \<noteq> [] \<and> hd s = CHR ''-''); t = (if s \<noteq> [] \<and> hd s \<in> {CHR ''-'', CHR ''+''} then tl s else s)
      in bindr (ParseUint t) (\<lambda>un.
           if \<not> neg \<and> 2 ^ 63 \<le> un \<or> neg \<and> 2 ^ 63 < un then Inl ErrRange
           else Inr (if neg then - int un else int un)))"

lemma parse_uint_loop_append:
  "parse_uint_loop (xs @ ys) n = bindr (parse_uint_loop xs n) (parse_uint_loop ys)"
  by (induction xs arbitrary: n) (auto split: option.split)

lemma parse_uint_loop_dec: "n < 2 ^ 64 \<Longrightarrow> parse_uint_loop (dec n) 0 = Inr n"
proof (induction n rule: dec.induct)
  case (1 n)
  show ?case
  proof (cases "n < 10")
    case True
    then show ?thesis by (simp add: dec.simps [of n])
  next
    case False
    with 1 have "parse_uint_loop (dec (n div 10)) 0 = Inr (n div 10)" by simp
    with False "1.prems" show ?thesis
      by (simp add: dec.simps [of n] parse_uint_loop_append)
  qed
qed

theorem Atoi_dec: "n < 2 ^ 63 \<Longrightarrow> Atoi (dec n) = Inr (int n)"
  using hd_dec [of "CHR ''-''" n] hd_dec [of "CHR ''+''" n]
  by (simp add: Atoi_def Let_def ParseUint_def parse_uint_loop_dec)

lemma dec_inject: "dec m = dec n \<longleftrightarrow> m = n"
proof
  have val: "foldl (\<lambda>a c. a * 10 + the (digit_val c)) 0 (dec k) = k" for k
  proof (induction k rule: dec.induct)
    case (1 k)
    then show ?case by (cases "k < 10") (simp_all add: dec.simps [of k])
  qed
  show "dec m = dec n \<Longrightarrow> m = n" by (metis val)
qed simp

subsection \<open>\<^verbatim>\<open>strings.Split\<close>\<close>

fun split_on :: "char \<Rightarrow> string \<Rightarrow> string list" where
  "split_on sep [] = [[]]"
| "split_on sep (c # cs) =
     (if c = sep then [] # split_on sep cs
      else case split_on sep cs of [] \<Rightarrow> [[c]] | x # xs \<Rightarrow> (c # x) # xs)"

lemma split_on_plain: "sep \<notin> set s \<Longrightarrow> split_on sep s = [s]"
  by (induction s) auto

lemma split_on_sep: "sep \<notin> set s \<Longrightarrow> split_on sep (s @ sep # t) = s # split_on sep t"
  by (induction s) auto

end
