(* ===== verification/Sol_Base.thy ===== *)
theory Sol_Base
  imports Contract_Types Big_Endian Decimal
begin

text \<open>
  What the contract theories share: how a call fails, what a call sees of its
  environment, and the storage accessors.

  A message call returns \<open>sol_error + 'a\<close>. A failing call has no effect: its state changes
  are rolled back, so an error carries no state. \<open>Revert msg\<close> is \<^verbatim>\<open>require\<close> or \<^verbatim>\<open>revert\<close> with its
  reason (empty when none is given), \<open>Invalid\<close> an assertion such as an index out of bounds,
  \<open>Out_of_gas\<close> a loop that does not end.

  \<^verbatim>\<open>keccak256\<close> is the hash of the EVM, a parameter; its inputs and outputs are byte lists. A
  \<^verbatim>\<open>bytes32\<close> is a list of 32 bytes and \<open>zero32\<close> its default.
\<close>

datatype sol_error = Revert string | Invalid | Out_of_gas

record env =
  keccak256 :: "byte list \<Rightarrow> byte list"
  msg_sender :: address
  block_number :: nat
  block_timestamp :: nat

definition zero32 :: "byte list" where
  "zero32 = replicate 32 0"

text \<open>A callee that reverts with its reason makes the caller revert with the same reason.\<close>

definition bubble :: "string + 'a \<Rightarrow> sol_error + 'a" where
  "bubble r = (case r of Inl msg \<Rightarrow> Inl (Revert msg) | Inr x \<Rightarrow> Inr x)"

lemma bubble_simps [result_simps]: "bubble r = Inr x \<longleftrightarrow> r = Inr x" "bubble (Inr x) = Inr x"
  by (auto simp: bubble_def split: sum.splits)

text \<open>\<^verbatim>\<open>xs[i]\<close> on a memory array: an index out of bounds executes an invalid opcode.\<close>

definition sol_index :: "'a list \<Rightarrow> nat \<Rightarrow> sol_error + 'a" where
  "sol_index xs i = (if i < length xs then Inr (xs ! i) else Inl Invalid)"

lemma sol_index_simps [result_simps]: "sol_index xs i = Inr x \<longleftrightarrow> i < length xs \<and> x = xs ! i"
  by (auto simp: sol_index_def)

subsection \<open>Storage accessors\<close>

text \<open>
  A fallible setter and a getter of the storage, by key. The mappings of the contracts are
  used through such pairs; the laws are the ones a mapping has.
\<close>

fun put_all :: "('k \<Rightarrow> 'v \<Rightarrow> 's \<Rightarrow> 'e + 's) \<Rightarrow> ('k \<times> 'v) list \<Rightarrow> 's \<Rightarrow> 'e + 's" where
  "put_all put [] s = Inr s"
| "put_all put (w # ws) s = bindr (put (fst w) (snd w) s) (put_all put ws)"

locale accessor =
  fixes put :: "'k \<Rightarrow> 'v \<Rightarrow> 's \<Rightarrow> 'e + 's" and get :: "'k \<Rightarrow> 's \<Rightarrow> 'v"
  assumes get_same: "put k v s = Inr s' \<Longrightarrow> get k s' = v"
    and get_other: "put k v s = Inr s' \<Longrightarrow> k' \<noteq> k \<Longrightarrow> get k' s' = get k' s"
begin

lemma get_put: "put k v s = Inr s' \<Longrightarrow> get k' s' = (if k' = k then v else get k' s)"
  using get_same get_other by auto

text \<open>After a sequence of writes that all succeed, a key holds the last value written to it.\<close>

lemma get_put_all: "put_all put ws s = Inr s' \<Longrightarrow>
    get k s' = (case map_of (rev ws) k of None \<Rightarrow> get k s | Some v \<Rightarrow> v)"
proof (induction ws arbitrary: s)
  case (Cons w ws)
  then obtain s1 where 1: "put (fst w) (snd w) s = Inr s1" and 2: "put_all put ws s1 = Inr s'"
    by (auto simp: result_simps)
  show ?case unfolding Cons.IH [OF 2]
    by (cases w) (auto simp: get_put [OF 1] map_add_def split: option.splits)
qed simp

lemma get_put_all_untouched: "put_all put ws s = Inr s' \<Longrightarrow> k \<notin> fst ` set ws \<Longrightarrow> get k s' = get k s"
  using get_put_all by (force split: option.splits dest: map_of_SomeD)

end

end
