(* ===== verification/IBC_Identifier.thy ===== *)
theory IBC_Identifier
  imports Sol_Base
begin

text \<open>
  \<^verbatim>\<open>contracts/core/IBCIdentifier.sol\<close>: the keys under which the host commits to its state, the
  storage slots of those keys (the ones the relayer asks proofs for) and the capability
  paths. \<^verbatim>\<open>abi.encodePacked\<close> concatenates: a \<^verbatim>\<open>uint8\<close> is one byte, a \<^verbatim>\<open>uint64\<close> eight bytes big
  endian, a \<^verbatim>\<open>uint256\<close> thirty-two, a string its bytes.
\<close>

subsection \<open>Commitment keys\<close>

definition clientCommitmentKey :: "'z env_scheme \<Rightarrow> string \<Rightarrow> byte list" where
  "clientCommitmentKey E clientId = keccak256 E ([0] @ str_bytes clientId)"

definition consensusCommitmentKey :: "'z env_scheme \<Rightarrow> string \<Rightarrow> 64 word \<Rightarrow> byte list" where
  "consensusCommitmentKey E clientId height =
     keccak256 E ([1] @ str_bytes clientId @ str_bytes ''/'' @ be64 height)"

definition connectionCommitmentKey :: "'z env_scheme \<Rightarrow> string \<Rightarrow> byte list" where
  "connectionCommitmentKey E connectionId = keccak256 E ([2] @ str_bytes connectionId)"

definition channelCommitmentKey :: "'z env_scheme \<Rightarrow> string \<Rightarrow> string \<Rightarrow> byte list" where
  "channelCommitmentKey E portId channelId =
     keccak256 E ([3] @ str_bytes portId @ str_bytes ''/'' @ str_bytes channelId)"

definition packetCommitmentKey :: "'z env_scheme \<Rightarrow> string \<Rightarrow> string \<Rightarrow> 64 word \<Rightarrow> byte list" where
  "packetCommitmentKey E portId channelId sequence =
     keccak256 E ([4] @ str_bytes portId @ str_bytes ''/'' @ str_bytes channelId @ str_bytes ''/'' @ be64 sequence)"

definition packetAcknowledgementCommitmentKey ::
  "'z env_scheme \<Rightarrow> string \<Rightarrow> string \<Rightarrow> 64 word \<Rightarrow> byte list"
where
  "packetAcknowledgementCommitmentKey E portId channelId sequence =
     keccak256 E ([5] @ str_bytes portId @ str_bytes ''/'' @ str_bytes channelId @ str_bytes ''/'' @ be64 sequence)"

subsection \<open>Slots\<close>

text \<open>\<^verbatim>\<open>commitmentSlot\<close> is the position 0 of the mapping \<^verbatim>\<open>commitments\<close>, as a \<^verbatim>\<open>uint256\<close>.\<close>

definition commitmentSlot :: "byte list" where
  "commitmentSlot = be_bytes 32 0"

definition clientStateCommitmentSlot :: "'z env_scheme \<Rightarrow> string \<Rightarrow> byte list" where
  "clientStateCommitmentSlot E clientId = keccak256 E (clientCommitmentKey E clientId @ commitmentSlot)"

definition consensusStateCommitmentSlot :: "'z env_scheme \<Rightarrow> string \<Rightarrow> 64 word \<Rightarrow> byte list" where
  "consensusStateCommitmentSlot E clientId height =
     keccak256 E (consensusCommitmentKey E clientId height @ commitmentSlot)"

definition connectionCommitmentSlot :: "'z env_scheme \<Rightarrow> string \<Rightarrow> byte list" where
  "connectionCommitmentSlot E connectionId = keccak256 E (connectionCommitmentKey E connectionId @ commitmentSlot)"

definition channelCommitmentSlot :: "'z env_scheme \<Rightarrow> string \<Rightarrow> string \<Rightarrow> byte list" where
  "channelCommitmentSlot E portId channelId =
     keccak256 E (channelCommitmentKey E portId channelId @ commitmentSlot)"

definition packetCommitmentSlot :: "'z env_scheme \<Rightarrow> string \<Rightarrow> string \<Rightarrow> 64 word \<Rightarrow> byte list" where
  "packetCommitmentSlot E portId channelId sequence =
     keccak256 E (packetCommitmentKey E portId channelId sequence @ commitmentSlot)"

definition packetAcknowledgementCommitmentSlot ::
  "'z env_scheme \<Rightarrow> string \<Rightarrow> string \<Rightarrow> 64 word \<Rightarrow> byte list"
where
  "packetAcknowledgementCommitmentSlot E portId channelId sequence =
     keccak256 E (packetAcknowledgementCommitmentKey E portId channelId sequence @ commitmentSlot)"

subsection \<open>Capability paths\<close>

definition portCapabilityPath :: "string \<Rightarrow> byte list" where
  "portCapabilityPath portId = str_bytes portId"

definition channelCapabilityPath :: "string \<Rightarrow> string \<Rightarrow> byte list" where
  "channelCapabilityPath portId channelId = str_bytes portId @ str_bytes ''/'' @ str_bytes channelId"

subsection \<open>The paths behind the keys\<close>

text \<open>
  One datatype for what the host commits to, and the preimage hashed for it. The preimages
  of two paths differ as soon as the channel identifiers contain no slash: a slash in a
  port is harmless because the last one separates.
\<close>

datatype path =
  Client_path string
| Consensus_path string "64 word"
| Connection_path string
| Channel_path string string
| Packet_path string string "64 word"
| Ack_path string string "64 word"

fun path_bytes :: "path \<Rightarrow> byte list" where
  "path_bytes (Client_path i) = [0] @ str_bytes i"
| "path_bytes (Consensus_path i n) = [1] @ str_bytes i @ str_bytes ''/'' @ be64 n"
| "path_bytes (Connection_path i) = [2] @ str_bytes i"
| "path_bytes (Channel_path p c) = [3] @ str_bytes p @ str_bytes ''/'' @ str_bytes c"
| "path_bytes (Packet_path p c n) = [4] @ str_bytes p @ str_bytes ''/'' @ str_bytes c @ str_bytes ''/'' @ be64 n"
| "path_bytes (Ack_path p c n) = [5] @ str_bytes p @ str_bytes ''/'' @ str_bytes c @ str_bytes ''/'' @ be64 n"

fun path_ok :: "path \<Rightarrow> bool" where
  "path_ok (Channel_path p c) = (CHR ''/'' \<notin> set c)"
| "path_ok (Packet_path p c n) = (CHR ''/'' \<notin> set c)"
| "path_ok (Ack_path p c n) = (CHR ''/'' \<notin> set c)"
| "path_ok _ = True"

definition path_key :: "'z env_scheme \<Rightarrow> path \<Rightarrow> byte list" where
  "path_key E p = keccak256 E (path_bytes p)"

lemma path_key_simps:
  "clientCommitmentKey E i = path_key E (Client_path i)"
  "consensusCommitmentKey E i n = path_key E (Consensus_path i n)"
  "connectionCommitmentKey E i = path_key E (Connection_path i)"
  "channelCommitmentKey E p c = path_key E (Channel_path p c)"
  "packetCommitmentKey E p c n = path_key E (Packet_path p c n)"
  "packetAcknowledgementCommitmentKey E p c n = path_key E (Ack_path p c n)"
  by (simp_all add: path_key_def clientCommitmentKey_def consensusCommitmentKey_def
      connectionCommitmentKey_def channelCommitmentKey_def packetCommitmentKey_def
      packetAcknowledgementCommitmentKey_def)

text \<open>A string is split at its last slash in one way only, whatever fixed-size tail follows.\<close>

lemma last_slash:
  assumes "p @ ''/'' @ c = p' @ ''/'' @ c'" and "CHR ''/'' \<notin> set c" and "CHR ''/'' \<notin> set c'"
  shows "p = p' \<and> c = c'"
proof -
  have *: "takeWhile (\<lambda>x. x \<noteq> CHR ''/'') (rev (q @ ''/'' @ d)) = rev d \<and>
      dropWhile (\<lambda>x. x \<noteq> CHR ''/'') (rev (q @ ''/'' @ d)) = CHR ''/'' # rev q" if "CHR ''/'' \<notin> set d" for q d
    using that by (induction d rule: rev_induct) auto
  from *[OF assms(2), of p] *[OF assms(3), of p'] show ?thesis unfolding assms(1) by auto
qed

lemma path_bytes_slash:
  "str_bytes p @ str_bytes ''/'' @ str_bytes c = str_bytes p' @ str_bytes ''/'' @ str_bytes c' \<Longrightarrow>
   CHR ''/'' \<notin> set c \<Longrightarrow> CHR ''/'' \<notin> set c' \<Longrightarrow> p = p' \<and> c = c'"
  unfolding str_bytes_append [symmetric] inj_str_bytes by (rule last_slash)

lemma path_bytes_tail: "xs @ be64 m = ys @ be64 n \<longleftrightarrow> xs = ys \<and> m = n"
  by simp

lemma path_bytes_packet:
  assumes "str_bytes p @ str_bytes ''/'' @ str_bytes c @ str_bytes ''/'' @ be64 m =
      str_bytes p' @ str_bytes ''/'' @ str_bytes c' @ str_bytes ''/'' @ be64 n"
    and "CHR ''/'' \<notin> set c" "CHR ''/'' \<notin> set c'"
  shows "p = p' \<and> c = c' \<and> m = n"
proof -
  have "(str_bytes p @ str_bytes ''/'' @ str_bytes c @ str_bytes ''/'') @ be64 m =
      (str_bytes p' @ str_bytes ''/'' @ str_bytes c' @ str_bytes ''/'') @ be64 n"
    using assms(1) by (simp only: append_assoc)
  then have "(str_bytes p @ str_bytes ''/'' @ str_bytes c) @ str_bytes ''/'' =
      (str_bytes p' @ str_bytes ''/'' @ str_bytes c') @ str_bytes ''/''" and n: "m = n"
    unfolding path_bytes_tail by simp_all
  then have "str_bytes p @ str_bytes ''/'' @ str_bytes c = str_bytes p' @ str_bytes ''/'' @ str_bytes c'"
    by (simp only: append_same_eq)
  with n show ?thesis using path_bytes_slash [of p c p' c'] assms(2,3) by blast
qed

lemma path_bytes_consensus:
  assumes "str_bytes i @ str_bytes ''/'' @ be64 m = str_bytes j @ str_bytes ''/'' @ be64 n"
  shows "i = j \<and> m = n"
proof -
  have "(str_bytes i @ str_bytes ''/'') @ be64 m = (str_bytes j @ str_bytes ''/'') @ be64 n"
    using assms by (simp only: append_assoc)
  then show ?thesis unfolding path_bytes_tail by (simp add: inj_str_bytes)
qed

lemma path_bytes_inject:
  assumes "path_ok p" and "path_ok q" and "path_bytes p = path_bytes q"
  shows "p = q"
  using assms
  by (cases p; cases q)
    (auto simp: inj_str_bytes dest: path_bytes_slash path_bytes_packet path_bytes_consensus)

end
