(* ===== verification/Sha256.thy ===== *)
theory Sha256
  imports Big_Endian
begin

text \<open>
  SHA-256 (\<^verbatim>\<open>crypto/sha256\<close> of Go's standard library and the precompile behind Solidity's
  \<^verbatim>\<open>sha256\<close>), following FIPS 180-4: padding, message schedule, compression. It is
  executable; \<^verbatim>\<open>Sha256_Vector\<close> evaluates a test vector of the standard.
\<close>

unbundle bit_operations_syntax

subsection \<open>Padding and blocks\<close>

definition sha256_pad :: "byte list \<Rightarrow> byte list" where
  "sha256_pad m = m @ [0x80] @ replicate ((119 - length m mod 64) mod 64) 0 @ be64 (word_of_nat (8 * length m))"

fun be_words :: "byte list \<Rightarrow> 32 word list" where
  "be_words (a # b # c # d # bs) =
     (push_bit 24 (ucast a) OR push_bit 16 (ucast b) OR push_bit 8 (ucast c) OR ucast d) # be_words bs"
| "be_words _ = []"

definition word_be :: "32 word \<Rightarrow> byte list" where
  "word_be w = [ucast (drop_bit 24 w), ucast (drop_bit 16 w), ucast (drop_bit 8 w), ucast w]"

fun sha256_blocks :: "nat \<Rightarrow> 32 word list \<Rightarrow> 32 word list list" where
  "sha256_blocks 0 ws = []"
| "sha256_blocks (Suc n) ws = take 16 ws # sha256_blocks n (drop 16 ws)"

subsection \<open>Compression\<close>

definition sha256_K :: "32 word list" where
  "sha256_K = [
    1116352408, 1899447441, 3049323471, 3921009573, 961987163, 1508970993, 2453635748, 2870763221,
    3624381080, 310598401, 607225278, 1426881987, 1925078388, 2162078206, 2614888103, 3248222580,
    3835390401, 4022224774, 264347078, 604807628, 770255983, 1249150122, 1555081692, 1996064986,
    2554220882, 2821834349, 2952996808, 3210313671, 3336571891, 3584528711, 113926993, 338241895,
    666307205, 773529912, 1294757372, 1396182291, 1695183700, 1986661051, 2177026350, 2456956037,
    2730485921, 2820302411, 3259730800, 3345764771, 3516065817, 3600352804, 4094571909, 275423344,
    430227734, 506948616, 659060556, 883997877, 958139571, 1322822218, 1537002063, 1747873779,
    1955562222, 2024104815, 2227730452, 2361852424, 2428436474, 2756734187, 3204031479, 3329325298]"

definition sha256_init :: "32 word list" where
  "sha256_init = [1779033703, 3144134277, 1013904242, 2773480762, 1359893119, 2600822924, 528734635, 1541459225]"

text \<open>The schedule keeps the last sixteen words, the newest last, and yields one per round.\<close>

definition schedule_next :: "32 word list \<Rightarrow> 32 word" where
  "schedule_next w =
     (let x = w ! 1; y = w ! 14;
          s0 = word_rotr 7 x XOR word_rotr 18 x XOR drop_bit 3 x;
          s1 = word_rotr 17 y XOR word_rotr 19 y XOR drop_bit 10 y
      in w ! 0 + s0 + w ! 9 + s1)"

definition sha256_round :: "32 word \<Rightarrow> 32 word \<Rightarrow> 32 word list \<Rightarrow> 32 word list" where
  "sha256_round k w s =
     (case s of [a, b, c, d, e, f, g, h] \<Rightarrow>
        (let s1 = word_rotr 6 e XOR word_rotr 11 e XOR word_rotr 25 e;
             ch = (e AND f) XOR (NOT e AND g);
             t1 = h + s1 + ch + k + w;
             s0 = word_rotr 2 a XOR word_rotr 13 a XOR word_rotr 22 a;
             maj = (a AND b) XOR (a AND c) XOR (b AND c)
         in [t1 + s0 + maj, a, b, c, d + t1, e, f, g])
      | _ \<Rightarrow> s)"

fun sha256_rounds :: "32 word list \<Rightarrow> 32 word list \<Rightarrow> 32 word list \<Rightarrow> 32 word list" where
  "sha256_rounds [] w s = s"
| "sha256_rounds (k # ks) w s = sha256_rounds ks (tl w @ [schedule_next w]) (sha256_round k (hd w) s)"

definition sha256_block :: "32 word list \<Rightarrow> 32 word list \<Rightarrow> 32 word list" where
  "sha256_block s block = map2 (+) s (sha256_rounds sha256_K block s)"

definition sha256 :: "byte list \<Rightarrow> byte list" where
  "sha256 m =
     (let p = sha256_pad m
      in concat (map word_be (foldl sha256_block sha256_init (sha256_blocks (length p div 64) (be_words p)))))"

subsection \<open>The digest has 32 bytes\<close>

lemma length_sha256_round: "length (sha256_round k w s) = length s"
  by (simp add: sha256_round_def Let_def split: list.split)

lemma length_sha256_rounds: "length (sha256_rounds ks w s) = length s"
  by (induction ks w s rule: sha256_rounds.induct) (simp_all add: length_sha256_round)

lemma length_sha256_fold: "length (foldl sha256_block s bs) = length s"
  by (induction bs arbitrary: s) (simp_all add: sha256_block_def length_sha256_rounds)

lemma length_sha256 [simp]: "length (sha256 m) = 32"
proof -
  have "length (concat (map word_be ws)) = 4 * length ws" for ws
    by (induction ws) (simp_all add: word_be_def)
  then show ?thesis
    by (simp add: sha256_def Let_def length_sha256_fold sha256_init_def)
qed

end
