(* ===== verification/Channel_PB.thy ===== *)
theory Channel_PB
  imports Proto_Codec
begin

text \<open>
  \<^verbatim>\<open>pkg/ibc/channel/Channel.pb.go\<close>: channel ends, packets, packet states and heights, and
  their generated methods (named as in \<^verbatim>\<open>App_PB\<close>). An enum is an \<^verbatim>\<open>int32\<close>. The switch cases
  of the larger messages are definitions of their own, \<open>_case_\<close> followed by the field.
\<close>

subsection \<open>The helpers of the file\<close>

definition sovChannel :: "64 word \<Rightarrow> nat" where
  "sovChannel = sov"

definition sozChannel :: "64 word \<Rightarrow> nat" where
  "sozChannel = soz"

definition encodeVarintChannel :: "byte list \<Rightarrow> int \<Rightarrow> 64 word \<Rightarrow> pb_error + byte list \<times> int" where
  "encodeVarintChannel = encodeVarint"

definition skipChannel :: "byte list \<Rightarrow> pb_error + int" where
  "skipChannel = skip_field Channel_proto"

subsection \<open>Enumerations\<close>

type_synonym Channel_State = "32 word"

definition Channel_State_UNINITIALIZED :: Channel_State where
  "Channel_State_UNINITIALIZED = 0"

definition Channel_State_INIT :: Channel_State where
  "Channel_State_INIT = 1"

definition Channel_State_TRYOPEN :: Channel_State where
  "Channel_State_TRYOPEN = 2"

definition Channel_State_OPEN :: Channel_State where
  "Channel_State_OPEN = 3"

definition Channel_State_CLOSED :: Channel_State where
  "Channel_State_CLOSED = 4"

type_synonym Channel_Order = "32 word"

definition Channel_Order_NONE :: Channel_Order where
  "Channel_Order_NONE = 0"

definition Channel_Order_UNORDERED :: Channel_Order where
  "Channel_Order_UNORDERED = 1"

definition Channel_Order_ORDERED :: Channel_Order where
  "Channel_Order_ORDERED = 2"

subsection \<open>\<^verbatim>\<open>Channel_Counterparty\<close>\<close>

record Channel_Counterparty =
  cpty_PortId :: string
  cpty_ChannelId :: string

definition Channel_Counterparty_new :: Channel_Counterparty where
  "Channel_Counterparty_new =
     \<lparr>cpty_PortId = '''', cpty_ChannelId = ''''\<rparr>"

definition Channel_Counterparty_Size :: "Channel_Counterparty \<Rightarrow> nat" where
  "Channel_Counterparty_Size m =
     size_bytes (length (cpty_PortId m)) + size_bytes (length (cpty_ChannelId m))"

definition Channel_Counterparty_MarshalToSizedBuffer :: "Channel_Counterparty \<Rightarrow> sized_writer" where
  "Channel_Counterparty_MarshalToSizedBuffer m = to_sized_buffer
     [whenw (0 < length (cpty_ChannelId m)) (put_bytes 0x12 (str_bytes (cpty_ChannelId m))),
      whenw (0 < length (cpty_PortId m)) (put_bytes 0xa (str_bytes (cpty_PortId m)))]"

definition Channel_Counterparty_Marshal :: "Channel_Counterparty \<Rightarrow> pb_error + byte list" where
  "Channel_Counterparty_Marshal m = marshal (Channel_Counterparty_Size m) (Channel_Counterparty_MarshalToSizedBuffer m)"

definition Channel_Counterparty_MarshalTo :: "Channel_Counterparty \<Rightarrow> sized_writer" where
  "Channel_Counterparty_MarshalTo m = marshal_to (Channel_Counterparty_Size m) (Channel_Counterparty_MarshalToSizedBuffer m)"

definition Channel_Counterparty_fields :: "int \<Rightarrow> Channel_Counterparty field_case option" where
  "Channel_Counterparty_fields fieldNum =
     (if fieldNum = 1 then Some (string_case Channel_proto ''PortId'' (\<lambda>s m. m\<lparr>cpty_PortId := s\<rparr>))
      else if fieldNum = 2 then Some (string_case Channel_proto ''ChannelId'' (\<lambda>s m. m\<lparr>cpty_ChannelId := s\<rparr>))
      else None)"

definition Channel_Counterparty_Unmarshal :: "byte list \<Rightarrow> Channel_Counterparty \<Rightarrow> pb_error + Channel_Counterparty" where
  "Channel_Counterparty_Unmarshal = unmarshal Channel_proto ''Counterparty'' Channel_Counterparty_fields"

definition Channel_Counterparty_enc :: "Channel_Counterparty \<Rightarrow> byte list" where
  "Channel_Counterparty_enc m =
     enc_bytes 0xa (str_bytes (cpty_PortId m)) @
     enc_bytes 0x12 (str_bytes (cpty_ChannelId m))"

interpretation cpty: pb_reader Channel_proto "''Counterparty''" Channel_Counterparty_fields
  by unfold_locales (auto simp: Channel_Counterparty_fields_def split: if_splits)

lemma Channel_Counterparty_fuel: "go_slice bs \<Longrightarrow> fuel_ok (Channel_Counterparty_Unmarshal bs m)"
  unfolding Channel_Counterparty_Unmarshal_def by (rule cpty.unmarshal_terminates)

lemmas cpty_reads =
  cpty.parses_string [of 1 "''PortId''" "\<lambda>v m. m\<lparr>cpty_PortId := v\<rparr>" "0xa"]
  cpty.parses_string [of 2 "''ChannelId''" "\<lambda>v m. m\<lparr>cpty_ChannelId := v\<rparr>" "0x12"]

lemma Channel_Counterparty_parses:
  "parses Channel_proto ''Counterparty'' Channel_Counterparty_fields (Channel_Counterparty_enc m) Channel_Counterparty_new m"
  unfolding Channel_Counterparty_enc_def Channel_Counterparty_new_def
  by (rule parses_eq, (rule parses_append cpty_reads
      | simp add: Channel_Counterparty_fields_def is_tag_def)+)

lemma Channel_Counterparty_writes: "sized_writes (Channel_Counterparty_MarshalToSizedBuffer m) (Channel_Counterparty_enc m)"
  unfolding Channel_Counterparty_MarshalToSizedBuffer_def
  by (rule to_sized_buffer_writes, (rule writes_intros)+, simp add: Channel_Counterparty_enc_def)

interpretation cpty_codec: pb_codec Channel_proto "''Counterparty''" Channel_Counterparty_fields
    Channel_Counterparty_enc Channel_Counterparty_Size Channel_Counterparty_MarshalToSizedBuffer Channel_Counterparty_new
  by (unfold_locales, simp add: Channel_Counterparty_Size_def Channel_Counterparty_enc_def wire_simps,
      rule Channel_Counterparty_writes, rule Channel_Counterparty_parses)

lemma Channel_Counterparty_Unmarshal_enc: "go_slice (Channel_Counterparty_enc m) \<Longrightarrow> Channel_Counterparty_Unmarshal (Channel_Counterparty_enc m) Channel_Counterparty_new = Inr m"
  unfolding Channel_Counterparty_Unmarshal_def by (rule cpty_codec.unmarshal_enc)

lemma Channel_Counterparty_Marshal_enc: "Channel_Counterparty_Marshal m = Inr (Channel_Counterparty_enc m)"
  unfolding Channel_Counterparty_Marshal_def by (rule cpty_codec.marshal_enc)

subsection \<open>\<^verbatim>\<open>Channel\<close>\<close>

record Channel =
  chan_State :: Channel_State
  chan_Ordering :: Channel_Order
  chan_Counterparty :: Channel_Counterparty
  chan_ConnectionHops :: "string list"
  chan_Version :: string

definition Channel_new :: Channel where
  "Channel_new =
     \<lparr>chan_State = 0, chan_Ordering = 0, chan_Counterparty = Channel_Counterparty_new,
       chan_ConnectionHops = [], chan_Version = ''''\<rparr>"

definition Channel_Size :: "Channel \<Rightarrow> nat" where
  "Channel_Size m =
     size_uint (scast (chan_State m)) + size_uint (scast (chan_Ordering m)) +
     size_bytes1 (Channel_Counterparty_Size (chan_Counterparty m)) +
     (\<Sum>s\<leftarrow>chan_ConnectionHops m. size_bytes1 (length s)) +
     size_bytes (length (chan_Version m))"

definition Channel_MarshalToSizedBuffer :: "Channel \<Rightarrow> sized_writer" where
  "Channel_MarshalToSizedBuffer m = to_sized_buffer
     [whenw (0 < length (chan_Version m)) (put_bytes 0x2a (str_bytes (chan_Version m))),
      whenw (0 < length (chan_ConnectionHops m)) (put_each (\<lambda>s. put_bytes 0x22 (str_bytes s)) (chan_ConnectionHops m)),
      put_msg 0x1a (Channel_Counterparty_MarshalToSizedBuffer (chan_Counterparty m)),
      whenw (chan_Ordering m \<noteq> 0) (put_uint 0x10 (scast (chan_Ordering m))),
      whenw (chan_State m \<noteq> 0) (put_uint 0x8 (scast (chan_State m)))]"

definition Channel_Marshal :: "Channel \<Rightarrow> pb_error + byte list" where
  "Channel_Marshal m = marshal (Channel_Size m) (Channel_MarshalToSizedBuffer m)"

definition Channel_MarshalTo :: "Channel \<Rightarrow> sized_writer" where
  "Channel_MarshalTo m = marshal_to (Channel_Size m) (Channel_MarshalToSizedBuffer m)"

definition Channel_case_State :: "Channel field_case" where
  "Channel_case_State = uint_case Channel_proto ''State'' (\<lambda>v m. m\<lparr>chan_State := v\<rparr>)"

definition Channel_case_Ordering :: "Channel field_case" where
  "Channel_case_Ordering = uint_case Channel_proto ''Ordering'' (\<lambda>v m. m\<lparr>chan_Ordering := v\<rparr>)"

definition Channel_case_Counterparty :: "Channel field_case" where
  "Channel_case_Counterparty = sub_case Channel_proto ''Counterparty'' Channel_Counterparty_Unmarshal chan_Counterparty (\<lambda>x m. m\<lparr>chan_Counterparty := x\<rparr>)"

definition Channel_case_ConnectionHops :: "Channel field_case" where
  "Channel_case_ConnectionHops = string_list_case Channel_proto ''ConnectionHops'' chan_ConnectionHops (\<lambda>ss m. m\<lparr>chan_ConnectionHops := ss\<rparr>)"

definition Channel_case_Version :: "Channel field_case" where
  "Channel_case_Version = string_case Channel_proto ''Version'' (\<lambda>s m. m\<lparr>chan_Version := s\<rparr>)"

definition Channel_fields :: "int \<Rightarrow> Channel field_case option" where
  "Channel_fields fieldNum =
     (if fieldNum = 1 then Some Channel_case_State
      else if fieldNum = 2 then Some Channel_case_Ordering
      else if fieldNum = 3 then Some Channel_case_Counterparty
      else if fieldNum = 4 then Some Channel_case_ConnectionHops
      else if fieldNum = 5 then Some Channel_case_Version
      else None)"

definition Channel_Unmarshal :: "byte list \<Rightarrow> Channel \<Rightarrow> pb_error + Channel" where
  "Channel_Unmarshal = unmarshal Channel_proto ''Channel'' Channel_fields"

definition Channel_enc :: "Channel \<Rightarrow> byte list" where
  "Channel_enc m =
     enc_uint 0x8 (scast (chan_State m)) @ enc_uint 0x10 (scast (chan_Ordering m)) @
     enc_bytes1 0x1a (Channel_Counterparty_enc (chan_Counterparty m)) @
     enc_each 0x22 (map str_bytes (chan_ConnectionHops m)) @
     enc_bytes 0x2a (str_bytes (chan_Version m))"

lemmas Channel_switch = Channel_fields_def
  Channel_case_State_def Channel_case_Ordering_def Channel_case_Counterparty_def
  Channel_case_ConnectionHops_def Channel_case_Version_def

interpretation chan: pb_reader Channel_proto "''Channel''" Channel_fields
  by unfold_locales (auto simp: Channel_switch Channel_Counterparty_fuel split: if_splits)

lemma Channel_fuel: "go_slice bs \<Longrightarrow> fuel_ok (Channel_Unmarshal bs m)"
  unfolding Channel_Unmarshal_def by (rule chan.unmarshal_terminates)

lemmas chan_reads =
  chan.parses_enum [of 1 "''State''" "\<lambda>v m. m\<lparr>chan_State := v\<rparr>" "0x8"]
  chan.parses_enum [of 2 "''Ordering''" "\<lambda>v m. m\<lparr>chan_Ordering := v\<rparr>" "0x10"]
  chan.parses_sub [of 3 "''Counterparty''" Channel_Counterparty_Unmarshal chan_Counterparty "\<lambda>x m. m\<lparr>chan_Counterparty := x\<rparr>" "0x1a" Channel_Counterparty_enc]
  chan.parses_string_list [of 4 "''ConnectionHops''" chan_ConnectionHops "\<lambda>l m. m\<lparr>chan_ConnectionHops := l\<rparr>" "0x22"]
  chan.parses_string [of 5 "''Version''" "\<lambda>v m. m\<lparr>chan_Version := v\<rparr>" "0x2a"]

lemma Channel_parses:
  "parses Channel_proto ''Channel'' Channel_fields (Channel_enc m) Channel_new m"
  unfolding Channel_enc_def Channel_new_def
  by (rule parses_eq, (rule parses_append chan_reads
      | simp add: Channel_switch is_tag_def Channel_Counterparty_Unmarshal_enc)+)

lemma Channel_writes: "sized_writes (Channel_MarshalToSizedBuffer m) (Channel_enc m)"
  unfolding Channel_MarshalToSizedBuffer_def
  by (rule to_sized_buffer_writes, (rule writes_intros Channel_Counterparty_writes)+, simp add: Channel_enc_def)

interpretation chan_codec: pb_codec Channel_proto "''Channel''" Channel_fields
    Channel_enc Channel_Size Channel_MarshalToSizedBuffer Channel_new
  by (unfold_locales, simp add: Channel_Size_def Channel_enc_def wire_simps cpty_codec.size_enc comp_def,
      rule Channel_writes, rule Channel_parses)

lemma Channel_Unmarshal_enc: "go_slice (Channel_enc m) \<Longrightarrow> Channel_Unmarshal (Channel_enc m) Channel_new = Inr m"
  unfolding Channel_Unmarshal_def by (rule chan_codec.unmarshal_enc)

lemma Channel_Marshal_enc: "Channel_Marshal m = Inr (Channel_enc m)"
  unfolding Channel_Marshal_def by (rule chan_codec.marshal_enc)

subsection \<open>\<^verbatim>\<open>Channel_IdentifiedChannel\<close>\<close>

record Channel_IdentifiedChannel =
  ich_State :: Channel_State
  ich_Ordering :: Channel_Order
  ich_Counterparty :: Channel_Counterparty
  ich_ConnectionHops :: "string list"
  ich_Version :: string
  ich_PortId :: string
  ich_ChannelId :: string

definition Channel_IdentifiedChannel_new :: Channel_IdentifiedChannel where
  "Channel_IdentifiedChannel_new =
     \<lparr>ich_State = 0, ich_Ordering = 0, ich_Counterparty = Channel_Counterparty_new,
       ich_ConnectionHops = [], ich_Version = '''', ich_PortId = '''', ich_ChannelId = ''''\<rparr>"

definition Channel_IdentifiedChannel_Size :: "Channel_IdentifiedChannel \<Rightarrow> nat" where
  "Channel_IdentifiedChannel_Size m =
     size_uint (scast (ich_State m)) + size_uint (scast (ich_Ordering m)) +
     size_bytes1 (Channel_Counterparty_Size (ich_Counterparty m)) +
     (\<Sum>s\<leftarrow>ich_ConnectionHops m. size_bytes1 (length s)) +
     size_bytes (length (ich_Version m)) + size_bytes (length (ich_PortId m)) +
     size_bytes (length (ich_ChannelId m))"

definition Channel_IdentifiedChannel_MarshalToSizedBuffer :: "Channel_IdentifiedChannel \<Rightarrow> sized_writer" where
  "Channel_IdentifiedChannel_MarshalToSizedBuffer m = to_sized_buffer
     [whenw (0 < length (ich_ChannelId m)) (put_bytes 0x3a (str_bytes (ich_ChannelId m))),
      whenw (0 < length (ich_PortId m)) (put_bytes 0x32 (str_bytes (ich_PortId m))),
      whenw (0 < length (ich_Version m)) (put_bytes 0x2a (str_bytes (ich_Version m))),
      whenw (0 < length (ich_ConnectionHops m)) (put_each (\<lambda>s. put_bytes 0x22 (str_bytes s)) (ich_ConnectionHops m)),
      put_msg 0x1a (Channel_Counterparty_MarshalToSizedBuffer (ich_Counterparty m)),
      whenw (ich_Ordering m \<noteq> 0) (put_uint 0x10 (scast (ich_Ordering m))),
      whenw (ich_State m \<noteq> 0) (put_uint 0x8 (scast (ich_State m)))]"

definition Channel_IdentifiedChannel_Marshal :: "Channel_IdentifiedChannel \<Rightarrow> pb_error + byte list" where
  "Channel_IdentifiedChannel_Marshal m = marshal (Channel_IdentifiedChannel_Size m) (Channel_IdentifiedChannel_MarshalToSizedBuffer m)"

definition Channel_IdentifiedChannel_MarshalTo :: "Channel_IdentifiedChannel \<Rightarrow> sized_writer" where
  "Channel_IdentifiedChannel_MarshalTo m = marshal_to (Channel_IdentifiedChannel_Size m) (Channel_IdentifiedChannel_MarshalToSizedBuffer m)"

definition Channel_IdentifiedChannel_case_State :: "Channel_IdentifiedChannel field_case" where
  "Channel_IdentifiedChannel_case_State = uint_case Channel_proto ''State'' (\<lambda>v m. m\<lparr>ich_State := v\<rparr>)"

definition Channel_IdentifiedChannel_case_Ordering :: "Channel_IdentifiedChannel field_case" where
  "Channel_IdentifiedChannel_case_Ordering = uint_case Channel_proto ''Ordering'' (\<lambda>v m. m\<lparr>ich_Ordering := v\<rparr>)"

definition Channel_IdentifiedChannel_case_Counterparty :: "Channel_IdentifiedChannel field_case" where
  "Channel_IdentifiedChannel_case_Counterparty = sub_case Channel_proto ''Counterparty'' Channel_Counterparty_Unmarshal ich_Counterparty (\<lambda>x m. m\<lparr>ich_Counterparty := x\<rparr>)"

definition Channel_IdentifiedChannel_case_ConnectionHops :: "Channel_IdentifiedChannel field_case" where
  "Channel_IdentifiedChannel_case_ConnectionHops = string_list_case Channel_proto ''ConnectionHops'' ich_ConnectionHops (\<lambda>ss m. m\<lparr>ich_ConnectionHops := ss\<rparr>)"

definition Channel_IdentifiedChannel_case_Version :: "Channel_IdentifiedChannel field_case" where
  "Channel_IdentifiedChannel_case_Version = string_case Channel_proto ''Version'' (\<lambda>s m. m\<lparr>ich_Version := s\<rparr>)"

definition Channel_IdentifiedChannel_case_PortId :: "Channel_IdentifiedChannel field_case" where
  "Channel_IdentifiedChannel_case_PortId = string_case Channel_proto ''PortId'' (\<lambda>s m. m\<lparr>ich_PortId := s\<rparr>)"

definition Channel_IdentifiedChannel_case_ChannelId :: "Channel_IdentifiedChannel field_case" where
  "Channel_IdentifiedChannel_case_ChannelId = string_case Channel_proto ''ChannelId'' (\<lambda>s m. m\<lparr>ich_ChannelId := s\<rparr>)"

definition Channel_IdentifiedChannel_fields :: "int \<Rightarrow> Channel_IdentifiedChannel field_case option" where
  "Channel_IdentifiedChannel_fields fieldNum =
     (if fieldNum = 1 then Some Channel_IdentifiedChannel_case_State
      else if fieldNum = 2 then Some Channel_IdentifiedChannel_case_Ordering
      else if fieldNum = 3 then Some Channel_IdentifiedChannel_case_Counterparty
      else if fieldNum = 4 then Some Channel_IdentifiedChannel_case_ConnectionHops
      else if fieldNum = 5 then Some Channel_IdentifiedChannel_case_Version
      else if fieldNum = 6 then Some Channel_IdentifiedChannel_case_PortId
      else if fieldNum = 7 then Some Channel_IdentifiedChannel_case_ChannelId
      else None)"

definition Channel_IdentifiedChannel_Unmarshal :: "byte list \<Rightarrow> Channel_IdentifiedChannel \<Rightarrow> pb_error + Channel_IdentifiedChannel" where
  "Channel_IdentifiedChannel_Unmarshal = unmarshal Channel_proto ''IdentifiedChannel'' Channel_IdentifiedChannel_fields"

definition Channel_IdentifiedChannel_enc :: "Channel_IdentifiedChannel \<Rightarrow> byte list" where
  "Channel_IdentifiedChannel_enc m =
     enc_uint 0x8 (scast (ich_State m)) @ enc_uint 0x10 (scast (ich_Ordering m)) @
     enc_bytes1 0x1a (Channel_Counterparty_enc (ich_Counterparty m)) @
     enc_each 0x22 (map str_bytes (ich_ConnectionHops m)) @
     enc_bytes 0x2a (str_bytes (ich_Version m)) @
     enc_bytes 0x32 (str_bytes (ich_PortId m)) @
     enc_bytes 0x3a (str_bytes (ich_ChannelId m))"

lemmas Channel_IdentifiedChannel_switch = Channel_IdentifiedChannel_fields_def
  Channel_IdentifiedChannel_case_State_def Channel_IdentifiedChannel_case_Ordering_def
  Channel_IdentifiedChannel_case_Counterparty_def
  Channel_IdentifiedChannel_case_ConnectionHops_def
  Channel_IdentifiedChannel_case_Version_def Channel_IdentifiedChannel_case_PortId_def
  Channel_IdentifiedChannel_case_ChannelId_def

interpretation ich: pb_reader Channel_proto "''IdentifiedChannel''" Channel_IdentifiedChannel_fields
  by unfold_locales (auto simp: Channel_IdentifiedChannel_switch Channel_Counterparty_fuel split: if_splits)

lemma Channel_IdentifiedChannel_fuel: "go_slice bs \<Longrightarrow> fuel_ok (Channel_IdentifiedChannel_Unmarshal bs m)"
  unfolding Channel_IdentifiedChannel_Unmarshal_def by (rule ich.unmarshal_terminates)

lemmas ich_reads =
  ich.parses_enum [of 1 "''State''" "\<lambda>v m. m\<lparr>ich_State := v\<rparr>" "0x8"]
  ich.parses_enum [of 2 "''Ordering''" "\<lambda>v m. m\<lparr>ich_Ordering := v\<rparr>" "0x10"]
  ich.parses_sub [of 3 "''Counterparty''" Channel_Counterparty_Unmarshal ich_Counterparty "\<lambda>x m. m\<lparr>ich_Counterparty := x\<rparr>" "0x1a" Channel_Counterparty_enc]
  ich.parses_string_list [of 4 "''ConnectionHops''" ich_ConnectionHops "\<lambda>l m. m\<lparr>ich_ConnectionHops := l\<rparr>" "0x22"]
  ich.parses_string [of 5 "''Version''" "\<lambda>v m. m\<lparr>ich_Version := v\<rparr>" "0x2a"]
  ich.parses_string [of 6 "''PortId''" "\<lambda>v m. m\<lparr>ich_PortId := v\<rparr>" "0x32"]
  ich.parses_string [of 7 "''ChannelId''" "\<lambda>v m. m\<lparr>ich_ChannelId := v\<rparr>" "0x3a"]

lemma Channel_IdentifiedChannel_parses:
  "parses Channel_proto ''IdentifiedChannel'' Channel_IdentifiedChannel_fields (Channel_IdentifiedChannel_enc m) Channel_IdentifiedChannel_new m"
  unfolding Channel_IdentifiedChannel_enc_def Channel_IdentifiedChannel_new_def
  by (rule parses_eq, (rule parses_append ich_reads
      | simp add: Channel_IdentifiedChannel_switch is_tag_def Channel_Counterparty_Unmarshal_enc)+)

lemma Channel_IdentifiedChannel_writes: "sized_writes (Channel_IdentifiedChannel_MarshalToSizedBuffer m) (Channel_IdentifiedChannel_enc m)"
  unfolding Channel_IdentifiedChannel_MarshalToSizedBuffer_def
  by (rule to_sized_buffer_writes, (rule writes_intros Channel_Counterparty_writes)+, simp add: Channel_IdentifiedChannel_enc_def)

interpretation ich_codec: pb_codec Channel_proto "''IdentifiedChannel''" Channel_IdentifiedChannel_fields
    Channel_IdentifiedChannel_enc Channel_IdentifiedChannel_Size Channel_IdentifiedChannel_MarshalToSizedBuffer Channel_IdentifiedChannel_new
  by (unfold_locales, simp add: Channel_IdentifiedChannel_Size_def Channel_IdentifiedChannel_enc_def wire_simps cpty_codec.size_enc comp_def,
      rule Channel_IdentifiedChannel_writes, rule Channel_IdentifiedChannel_parses)

lemma Channel_IdentifiedChannel_Unmarshal_enc: "go_slice (Channel_IdentifiedChannel_enc m) \<Longrightarrow> Channel_IdentifiedChannel_Unmarshal (Channel_IdentifiedChannel_enc m) Channel_IdentifiedChannel_new = Inr m"
  unfolding Channel_IdentifiedChannel_Unmarshal_def by (rule ich_codec.unmarshal_enc)

lemma Channel_IdentifiedChannel_Marshal_enc: "Channel_IdentifiedChannel_Marshal m = Inr (Channel_IdentifiedChannel_enc m)"
  unfolding Channel_IdentifiedChannel_Marshal_def by (rule ich_codec.marshal_enc)

subsection \<open>\<^verbatim>\<open>Height\<close>\<close>

record Height =
  ht_RevisionNumber :: "64 word"
  ht_RevisionHeight :: "64 word"

definition Height_new :: Height where
  "Height_new =
     \<lparr>ht_RevisionNumber = 0, ht_RevisionHeight = 0\<rparr>"

definition Height_Size :: "Height \<Rightarrow> nat" where
  "Height_Size m =
     size_uint (ht_RevisionNumber m) + size_uint (ht_RevisionHeight m)"

definition Height_MarshalToSizedBuffer :: "Height \<Rightarrow> sized_writer" where
  "Height_MarshalToSizedBuffer m = to_sized_buffer
     [whenw (ht_RevisionHeight m \<noteq> 0) (put_uint 0x10 (ht_RevisionHeight m)),
      whenw (ht_RevisionNumber m \<noteq> 0) (put_uint 0x8 (ht_RevisionNumber m))]"

definition Height_Marshal :: "Height \<Rightarrow> pb_error + byte list" where
  "Height_Marshal m = marshal (Height_Size m) (Height_MarshalToSizedBuffer m)"

definition Height_MarshalTo :: "Height \<Rightarrow> sized_writer" where
  "Height_MarshalTo m = marshal_to (Height_Size m) (Height_MarshalToSizedBuffer m)"

definition Height_fields :: "int \<Rightarrow> Height field_case option" where
  "Height_fields fieldNum =
     (if fieldNum = 1 then Some (uint_case Channel_proto ''RevisionNumber'' (\<lambda>v m. m\<lparr>ht_RevisionNumber := v\<rparr>))
      else if fieldNum = 2 then Some (uint_case Channel_proto ''RevisionHeight'' (\<lambda>v m. m\<lparr>ht_RevisionHeight := v\<rparr>))
      else None)"

definition Height_Unmarshal :: "byte list \<Rightarrow> Height \<Rightarrow> pb_error + Height" where
  "Height_Unmarshal = unmarshal Channel_proto ''Height'' Height_fields"

definition Height_enc :: "Height \<Rightarrow> byte list" where
  "Height_enc m =
     enc_uint 0x8 (ht_RevisionNumber m) @ enc_uint 0x10 (ht_RevisionHeight m)"

interpretation ht: pb_reader Channel_proto "''Height''" Height_fields
  by unfold_locales (auto simp: Height_fields_def split: if_splits)

lemma Height_fuel: "go_slice bs \<Longrightarrow> fuel_ok (Height_Unmarshal bs m)"
  unfolding Height_Unmarshal_def by (rule ht.unmarshal_terminates)

lemmas ht_reads =
  ht.parses_uint64 [of 1 "''RevisionNumber''" "\<lambda>v m. m\<lparr>ht_RevisionNumber := v\<rparr>" "0x8"]
  ht.parses_uint64 [of 2 "''RevisionHeight''" "\<lambda>v m. m\<lparr>ht_RevisionHeight := v\<rparr>" "0x10"]

lemma Height_parses:
  "parses Channel_proto ''Height'' Height_fields (Height_enc m) Height_new m"
  unfolding Height_enc_def Height_new_def
  by (rule parses_eq, (rule parses_append ht_reads
      | simp add: Height_fields_def is_tag_def)+)

lemma Height_writes: "sized_writes (Height_MarshalToSizedBuffer m) (Height_enc m)"
  unfolding Height_MarshalToSizedBuffer_def
  by (rule to_sized_buffer_writes, (rule writes_intros)+, simp add: Height_enc_def)

interpretation ht_codec: pb_codec Channel_proto "''Height''" Height_fields
    Height_enc Height_Size Height_MarshalToSizedBuffer Height_new
  by (unfold_locales, simp add: Height_Size_def Height_enc_def wire_simps,
      rule Height_writes, rule Height_parses)

lemma Height_Unmarshal_enc: "go_slice (Height_enc m) \<Longrightarrow> Height_Unmarshal (Height_enc m) Height_new = Inr m"
  unfolding Height_Unmarshal_def by (rule ht_codec.unmarshal_enc)

lemma Height_Marshal_enc: "Height_Marshal m = Inr (Height_enc m)"
  unfolding Height_Marshal_def by (rule ht_codec.marshal_enc)

subsection \<open>\<^verbatim>\<open>Packet\<close>\<close>

record Packet =
  pkt_Sequence :: "64 word"
  pkt_SourcePort :: string
  pkt_SourceChannel :: string
  pkt_DestinationPort :: string
  pkt_DestinationChannel :: string
  pkt_Data :: "byte list"
  pkt_TimeoutHeight :: Height
  pkt_TimeoutTimestamp :: "64 word"

definition Packet_new :: Packet where
  "Packet_new =
     \<lparr>pkt_Sequence = 0, pkt_SourcePort = '''', pkt_SourceChannel = '''',
       pkt_DestinationPort = '''', pkt_DestinationChannel = '''', pkt_Data = [],
       pkt_TimeoutHeight = Height_new, pkt_TimeoutTimestamp = 0\<rparr>"

definition Packet_Size :: "Packet \<Rightarrow> nat" where
  "Packet_Size m =
     size_uint (pkt_Sequence m) + size_bytes (length (pkt_SourcePort m)) +
     size_bytes (length (pkt_SourceChannel m)) +
     size_bytes (length (pkt_DestinationPort m)) +
     size_bytes (length (pkt_DestinationChannel m)) + size_bytes (length (pkt_Data m)) +
     size_bytes1 (Height_Size (pkt_TimeoutHeight m)) + size_uint (pkt_TimeoutTimestamp m)"

definition Packet_MarshalToSizedBuffer :: "Packet \<Rightarrow> sized_writer" where
  "Packet_MarshalToSizedBuffer m = to_sized_buffer
     [whenw (pkt_TimeoutTimestamp m \<noteq> 0) (put_uint 0x40 (pkt_TimeoutTimestamp m)),
      put_msg 0x3a (Height_MarshalToSizedBuffer (pkt_TimeoutHeight m)),
      whenw (0 < length (pkt_Data m)) (put_bytes 0x32 (pkt_Data m)),
      whenw (0 < length (pkt_DestinationChannel m)) (put_bytes 0x2a (str_bytes (pkt_DestinationChannel m))),
      whenw (0 < length (pkt_DestinationPort m)) (put_bytes 0x22 (str_bytes (pkt_DestinationPort m))),
      whenw (0 < length (pkt_SourceChannel m)) (put_bytes 0x1a (str_bytes (pkt_SourceChannel m))),
      whenw (0 < length (pkt_SourcePort m)) (put_bytes 0x12 (str_bytes (pkt_SourcePort m))),
      whenw (pkt_Sequence m \<noteq> 0) (put_uint 0x8 (pkt_Sequence m))]"

definition Packet_Marshal :: "Packet \<Rightarrow> pb_error + byte list" where
  "Packet_Marshal m = marshal (Packet_Size m) (Packet_MarshalToSizedBuffer m)"

definition Packet_MarshalTo :: "Packet \<Rightarrow> sized_writer" where
  "Packet_MarshalTo m = marshal_to (Packet_Size m) (Packet_MarshalToSizedBuffer m)"

definition Packet_case_Sequence :: "Packet field_case" where
  "Packet_case_Sequence = uint_case Channel_proto ''Sequence'' (\<lambda>v m. m\<lparr>pkt_Sequence := v\<rparr>)"

definition Packet_case_SourcePort :: "Packet field_case" where
  "Packet_case_SourcePort = string_case Channel_proto ''SourcePort'' (\<lambda>s m. m\<lparr>pkt_SourcePort := s\<rparr>)"

definition Packet_case_SourceChannel :: "Packet field_case" where
  "Packet_case_SourceChannel = string_case Channel_proto ''SourceChannel'' (\<lambda>s m. m\<lparr>pkt_SourceChannel := s\<rparr>)"

definition Packet_case_DestinationPort :: "Packet field_case" where
  "Packet_case_DestinationPort = string_case Channel_proto ''DestinationPort'' (\<lambda>s m. m\<lparr>pkt_DestinationPort := s\<rparr>)"

definition Packet_case_DestinationChannel :: "Packet field_case" where
  "Packet_case_DestinationChannel = string_case Channel_proto ''DestinationChannel'' (\<lambda>s m. m\<lparr>pkt_DestinationChannel := s\<rparr>)"

definition Packet_case_Data :: "Packet field_case" where
  "Packet_case_Data = bytes_case Channel_proto ''Data'' (\<lambda>b m. m\<lparr>pkt_Data := b\<rparr>)"

definition Packet_case_TimeoutHeight :: "Packet field_case" where
  "Packet_case_TimeoutHeight = sub_case Channel_proto ''TimeoutHeight'' Height_Unmarshal pkt_TimeoutHeight (\<lambda>x m. m\<lparr>pkt_TimeoutHeight := x\<rparr>)"

definition Packet_case_TimeoutTimestamp :: "Packet field_case" where
  "Packet_case_TimeoutTimestamp = uint_case Channel_proto ''TimeoutTimestamp'' (\<lambda>v m. m\<lparr>pkt_TimeoutTimestamp := v\<rparr>)"

definition Packet_fields :: "int \<Rightarrow> Packet field_case option" where
  "Packet_fields fieldNum =
     (if fieldNum = 1 then Some Packet_case_Sequence
      else if fieldNum = 2 then Some Packet_case_SourcePort
      else if fieldNum = 3 then Some Packet_case_SourceChannel
      else if fieldNum = 4 then Some Packet_case_DestinationPort
      else if fieldNum = 5 then Some Packet_case_DestinationChannel
      else if fieldNum = 6 then Some Packet_case_Data
      else if fieldNum = 7 then Some Packet_case_TimeoutHeight
      else if fieldNum = 8 then Some Packet_case_TimeoutTimestamp
      else None)"

definition Packet_Unmarshal :: "byte list \<Rightarrow> Packet \<Rightarrow> pb_error + Packet" where
  "Packet_Unmarshal = unmarshal Channel_proto ''Packet'' Packet_fields"

definition Packet_enc :: "Packet \<Rightarrow> byte list" where
  "Packet_enc m =
     enc_uint 0x8 (pkt_Sequence m) @ enc_bytes 0x12 (str_bytes (pkt_SourcePort m)) @
     enc_bytes 0x1a (str_bytes (pkt_SourceChannel m)) @
     enc_bytes 0x22 (str_bytes (pkt_DestinationPort m)) @
     enc_bytes 0x2a (str_bytes (pkt_DestinationChannel m)) @ enc_bytes 0x32 (pkt_Data m) @
     enc_bytes1 0x3a (Height_enc (pkt_TimeoutHeight m)) @
     enc_uint 0x40 (pkt_TimeoutTimestamp m)"

lemmas Packet_switch = Packet_fields_def
  Packet_case_Sequence_def Packet_case_SourcePort_def Packet_case_SourceChannel_def
  Packet_case_DestinationPort_def Packet_case_DestinationChannel_def Packet_case_Data_def
  Packet_case_TimeoutHeight_def Packet_case_TimeoutTimestamp_def

interpretation pkt: pb_reader Channel_proto "''Packet''" Packet_fields
  by unfold_locales (auto simp: Packet_switch Height_fuel split: if_splits)

lemma Packet_fuel: "go_slice bs \<Longrightarrow> fuel_ok (Packet_Unmarshal bs m)"
  unfolding Packet_Unmarshal_def by (rule pkt.unmarshal_terminates)

lemmas pkt_reads =
  pkt.parses_uint64 [of 1 "''Sequence''" "\<lambda>v m. m\<lparr>pkt_Sequence := v\<rparr>" "0x8"]
  pkt.parses_string [of 2 "''SourcePort''" "\<lambda>v m. m\<lparr>pkt_SourcePort := v\<rparr>" "0x12"]
  pkt.parses_string [of 3 "''SourceChannel''" "\<lambda>v m. m\<lparr>pkt_SourceChannel := v\<rparr>" "0x1a"]
  pkt.parses_string [of 4 "''DestinationPort''" "\<lambda>v m. m\<lparr>pkt_DestinationPort := v\<rparr>" "0x22"]
  pkt.parses_string [of 5 "''DestinationChannel''" "\<lambda>v m. m\<lparr>pkt_DestinationChannel := v\<rparr>" "0x2a"]
  pkt.parses_bytes [of 6 "''Data''" "\<lambda>v m. m\<lparr>pkt_Data := v\<rparr>" "0x32"]
  pkt.parses_sub [of 7 "''TimeoutHeight''" Height_Unmarshal pkt_TimeoutHeight "\<lambda>x m. m\<lparr>pkt_TimeoutHeight := x\<rparr>" "0x3a" Height_enc]
  pkt.parses_uint64 [of 8 "''TimeoutTimestamp''" "\<lambda>v m. m\<lparr>pkt_TimeoutTimestamp := v\<rparr>" "0x40"]

lemma Packet_parses:
  "parses Channel_proto ''Packet'' Packet_fields (Packet_enc m) Packet_new m"
  unfolding Packet_enc_def Packet_new_def
  by (rule parses_eq, (rule parses_append pkt_reads
      | simp add: Packet_switch is_tag_def Height_Unmarshal_enc)+)

lemma Packet_writes: "sized_writes (Packet_MarshalToSizedBuffer m) (Packet_enc m)"
  unfolding Packet_MarshalToSizedBuffer_def
  by (rule to_sized_buffer_writes, (rule writes_intros Height_writes)+, simp add: Packet_enc_def)

interpretation pkt_codec: pb_codec Channel_proto "''Packet''" Packet_fields
    Packet_enc Packet_Size Packet_MarshalToSizedBuffer Packet_new
  by (unfold_locales, simp add: Packet_Size_def Packet_enc_def wire_simps ht_codec.size_enc,
      rule Packet_writes, rule Packet_parses)

lemma Packet_Unmarshal_enc: "go_slice (Packet_enc m) \<Longrightarrow> Packet_Unmarshal (Packet_enc m) Packet_new = Inr m"
  unfolding Packet_Unmarshal_def by (rule pkt_codec.unmarshal_enc)

lemma Packet_Marshal_enc: "Packet_Marshal m = Inr (Packet_enc m)"
  unfolding Packet_Marshal_def by (rule pkt_codec.marshal_enc)

subsection \<open>\<^verbatim>\<open>PacketState\<close>\<close>

record PacketState =
  pst_PortId :: string
  pst_ChannelId :: string
  pst_Sequence :: "64 word"
  pst_Data :: "byte list"

definition PacketState_new :: PacketState where
  "PacketState_new =
     \<lparr>pst_PortId = '''', pst_ChannelId = '''', pst_Sequence = 0, pst_Data = []\<rparr>"

definition PacketState_Size :: "PacketState \<Rightarrow> nat" where
  "PacketState_Size m =
     size_bytes (length (pst_PortId m)) + size_bytes (length (pst_ChannelId m)) +
     size_uint (pst_Sequence m) + size_bytes (length (pst_Data m))"

definition PacketState_MarshalToSizedBuffer :: "PacketState \<Rightarrow> sized_writer" where
  "PacketState_MarshalToSizedBuffer m = to_sized_buffer
     [whenw (0 < length (pst_Data m)) (put_bytes 0x22 (pst_Data m)),
      whenw (pst_Sequence m \<noteq> 0) (put_uint 0x18 (pst_Sequence m)),
      whenw (0 < length (pst_ChannelId m)) (put_bytes 0x12 (str_bytes (pst_ChannelId m))),
      whenw (0 < length (pst_PortId m)) (put_bytes 0xa (str_bytes (pst_PortId m)))]"

definition PacketState_Marshal :: "PacketState \<Rightarrow> pb_error + byte list" where
  "PacketState_Marshal m = marshal (PacketState_Size m) (PacketState_MarshalToSizedBuffer m)"

definition PacketState_MarshalTo :: "PacketState \<Rightarrow> sized_writer" where
  "PacketState_MarshalTo m = marshal_to (PacketState_Size m) (PacketState_MarshalToSizedBuffer m)"

definition PacketState_case_PortId :: "PacketState field_case" where
  "PacketState_case_PortId = string_case Channel_proto ''PortId'' (\<lambda>s m. m\<lparr>pst_PortId := s\<rparr>)"

definition PacketState_case_ChannelId :: "PacketState field_case" where
  "PacketState_case_ChannelId = string_case Channel_proto ''ChannelId'' (\<lambda>s m. m\<lparr>pst_ChannelId := s\<rparr>)"

definition PacketState_case_Sequence :: "PacketState field_case" where
  "PacketState_case_Sequence = uint_case Channel_proto ''Sequence'' (\<lambda>v m. m\<lparr>pst_Sequence := v\<rparr>)"

definition PacketState_case_Data :: "PacketState field_case" where
  "PacketState_case_Data = bytes_case Channel_proto ''Data'' (\<lambda>b m. m\<lparr>pst_Data := b\<rparr>)"

definition PacketState_fields :: "int \<Rightarrow> PacketState field_case option" where
  "PacketState_fields fieldNum =
     (if fieldNum = 1 then Some PacketState_case_PortId
      else if fieldNum = 2 then Some PacketState_case_ChannelId
      else if fieldNum = 3 then Some PacketState_case_Sequence
      else if fieldNum = 4 then Some PacketState_case_Data
      else None)"

definition PacketState_Unmarshal :: "byte list \<Rightarrow> PacketState \<Rightarrow> pb_error + PacketState" where
  "PacketState_Unmarshal = unmarshal Channel_proto ''PacketState'' PacketState_fields"

definition PacketState_enc :: "PacketState \<Rightarrow> byte list" where
  "PacketState_enc m =
     enc_bytes 0xa (str_bytes (pst_PortId m)) @
     enc_bytes 0x12 (str_bytes (pst_ChannelId m)) @ enc_uint 0x18 (pst_Sequence m) @
     enc_bytes 0x22 (pst_Data m)"

lemmas PacketState_switch = PacketState_fields_def
  PacketState_case_PortId_def PacketState_case_ChannelId_def PacketState_case_Sequence_def
  PacketState_case_Data_def

interpretation pst: pb_reader Channel_proto "''PacketState''" PacketState_fields
  by unfold_locales (auto simp: PacketState_switch split: if_splits)

lemma PacketState_fuel: "go_slice bs \<Longrightarrow> fuel_ok (PacketState_Unmarshal bs m)"
  unfolding PacketState_Unmarshal_def by (rule pst.unmarshal_terminates)

lemmas pst_reads =
  pst.parses_string [of 1 "''PortId''" "\<lambda>v m. m\<lparr>pst_PortId := v\<rparr>" "0xa"]
  pst.parses_string [of 2 "''ChannelId''" "\<lambda>v m. m\<lparr>pst_ChannelId := v\<rparr>" "0x12"]
  pst.parses_uint64 [of 3 "''Sequence''" "\<lambda>v m. m\<lparr>pst_Sequence := v\<rparr>" "0x18"]
  pst.parses_bytes [of 4 "''Data''" "\<lambda>v m. m\<lparr>pst_Data := v\<rparr>" "0x22"]

lemma PacketState_parses:
  "parses Channel_proto ''PacketState'' PacketState_fields (PacketState_enc m) PacketState_new m"
  unfolding PacketState_enc_def PacketState_new_def
  by (rule parses_eq, (rule parses_append pst_reads
      | simp add: PacketState_switch is_tag_def)+)

lemma PacketState_writes: "sized_writes (PacketState_MarshalToSizedBuffer m) (PacketState_enc m)"
  unfolding PacketState_MarshalToSizedBuffer_def
  by (rule to_sized_buffer_writes, (rule writes_intros)+, simp add: PacketState_enc_def)

interpretation pst_codec: pb_codec Channel_proto "''PacketState''" PacketState_fields
    PacketState_enc PacketState_Size PacketState_MarshalToSizedBuffer PacketState_new
  by (unfold_locales, simp add: PacketState_Size_def PacketState_enc_def wire_simps,
      rule PacketState_writes, rule PacketState_parses)

lemma PacketState_Unmarshal_enc: "go_slice (PacketState_enc m) \<Longrightarrow> PacketState_Unmarshal (PacketState_enc m) PacketState_new = Inr m"
  unfolding PacketState_Unmarshal_def by (rule pst_codec.unmarshal_enc)

lemma PacketState_Marshal_enc: "PacketState_Marshal m = Inr (PacketState_enc m)"
  unfolding PacketState_Marshal_def by (rule pst_codec.marshal_enc)

subsection \<open>Properties\<close>

text \<open>
  Unmarshalling inverts marshalling for packets: as long as the encoding fits a Go
  slice, \<^verbatim>\<open>Marshal\<close> succeeds and \<^verbatim>\<open>Unmarshal\<close> of its bytes into a zero packet returns the
  packet, all eight fields included.
\<close>

theorem Packet_roundtrip:
  assumes "Packet_Size p < 2 ^ 63"
  shows "bindr (Packet_Marshal p) (\<lambda>bs. Packet_Unmarshal bs Packet_new) = Inr p"
  unfolding Packet_Marshal_def Packet_Unmarshal_def by (rule pkt_codec.roundtrip) fact

definition example_packet :: Packet where
  "example_packet = Packet_new\<lparr>pkt_Sequence := 300, pkt_SourcePort := ''transfer''\<rparr>"

lemma Packet_roundtrip_witness:
  "Packet_Marshal example_packet =
     Inr [8, 172, 2, 18, 8, 116, 114, 97, 110, 115, 102, 101, 114, 58, 0] \<and>
   bindr (Packet_Marshal example_packet) (\<lambda>bs. Packet_Unmarshal bs Packet_new) = Inr example_packet"
proof
  show "Packet_Marshal example_packet =
      Inr [8, 172, 2, 18, 8, 116, 114, 97, 110, 115, 102, 101, 114, 58, 0]"
    by (simp add: Packet_Marshal_enc Packet_enc_def example_packet_def Packet_new_def enc_uint_def
        enc_bytes_def enc_bytes1_def Height_enc_def Height_new_def varint_bytes.simps
        str_bytes_def char_byte_def)
  have "Packet_Size example_packet < 2 ^ 63"
    by (simp add: Packet_Size_def example_packet_def Packet_new_def Height_Size_def Height_new_def size_eval)
  then show "bindr (Packet_Marshal example_packet) (\<lambda>bs. Packet_Unmarshal bs Packet_new) = Inr example_packet"
    by (rule Packet_roundtrip)
qed

text \<open>
  \<^verbatim>\<open>Channel.Marshal\<close> is injective: two channel ends with the same encoding (that fits a
  slice) are the same channel end, so that a commitment to the encoding commits to the
  channel.
\<close>

theorem Channel_Marshal_inject:
  assumes "Channel_Size c < 2 ^ 63"
  shows "Channel_Marshal c = Channel_Marshal c' \<longleftrightarrow> c = c'"
  unfolding Channel_Marshal_def by (rule chan_codec.marshal_inject) fact

lemma Channel_Marshal_inject_witness:
  "Channel_Marshal (Channel_new\<lparr>chan_State := Channel_State_OPEN\<rparr>) \<noteq> Channel_Marshal Channel_new"
proof -
  have "Channel_Size (Channel_new\<lparr>chan_State := Channel_State_OPEN\<rparr>) < 2 ^ 63"
    by (simp add: Channel_Size_def Channel_new_def Channel_Counterparty_Size_def
        Channel_Counterparty_new_def Channel_State_OPEN_def size_eval)
  from Channel_Marshal_inject [OF this, of Channel_new] show ?thesis
    by (simp add: Channel_new_def Channel_State_OPEN_def)
qed

text \<open>
  The backward varint writer and the inlined reading loop agree. Writing \<^verbatim>\<open>v\<close> before
  offset \<^verbatim>\<open>off\<close> of a buffer with room for it returns the offset where it starts and keeps
  the length of the buffer and all bytes outside; reading from there returns \<^verbatim>\<open>v\<close> and stops at
  \<^verbatim>\<open>off\<close>. At most ten bytes are used.
\<close>

theorem encodeVarintChannel_read:
  assumes "off \<le> length d" and "sovChannel v \<le> off"
  shows "\<exists>d'. encodeVarintChannel d (int off) v = Inr (d', int (off - sovChannel v)) \<and>
      length d' = length d \<and> take (off - sovChannel v) d' = take (off - sovChannel v) d \<and>
      drop off d' = drop off d \<and>
      read_varint Channel_proto d' 0 (off - sovChannel v) 0 = Inr (v, off) \<and>
      1 \<le> sovChannel v \<and> sovChannel v \<le> 10"
proof -
  let ?n = "off - sov v"
  let ?d = "take ?n d @ varint_bytes v @ drop off d"
  from assms have l: "off \<le> length d" "sov v \<le> off" by (simp_all add: sovChannel_def)
  then have "encodeVarintChannel d (int off) v = Inr (?d, int ?n)"
    by (simp add: encodeVarintChannel_def encodeVarint_eq del: of_nat_diff)
  moreover from l have "at ?d ?n (varint_bytes v @ drop off d)" by (simp add: at_def)
  then have "read_varint Channel_proto ?d 0 ?n (0 :: 64 word) = Inr (v, off)"
    using read_varint_roundtrip [where 'a = 64, of ?d ?n v "drop off d" Channel_proto] l by simp
  ultimately show ?thesis
    using l sov_pos [of v] sov_le_10 [of v] by (intro exI [of _ ?d]) (simp add: sovChannel_def)
qed

lemma encodeVarintChannel_read_witness:
  "\<exists>d'. encodeVarintChannel [0, 0, 0, 9] 3 300 = Inr (d', 1) \<and> take 1 d' = [0] \<and> drop 3 d' = [9] \<and>
     read_varint Channel_proto d' 0 1 (0 :: 64 word) = Inr (300, 3)"
proof -
  have "sovChannel 300 = 2" by (simp add: sovChannel_def size_eval)
  then show ?thesis using encodeVarintChannel_read [of 3 "[0, 0, 0, 9]" 300] by auto
qed

end
