(* ===== verification/Connection_PB.thy ===== *)
theory Connection_PB
  imports Proto_Codec
begin

text \<open>
  \<^verbatim>\<open>pkg/ibc/connection/Connection.pb.go\<close>: connection ends, their counterparties, versions
  and Merkle prefixes. A pointer field is an option (nil is \<open>None\<close>); the elements of the
  slice of pointers \<^verbatim>\<open>Versions\<close> are taken to be non-nil, as every producer of the
  repository makes them.
\<close>

subsection \<open>The helpers of the file\<close>

definition sovConnection :: "64 word \<Rightarrow> nat" where
  "sovConnection = sov"

definition sozConnection :: "64 word \<Rightarrow> nat" where
  "sozConnection = soz"

definition encodeVarintConnection :: "byte list \<Rightarrow> int \<Rightarrow> 64 word \<Rightarrow> pb_error + byte list \<times> int" where
  "encodeVarintConnection = encodeVarint"

definition skipConnection :: "byte list \<Rightarrow> pb_error + int" where
  "skipConnection = skip_field Connection_proto"

subsection \<open>Enumerations\<close>

type_synonym ConnectionEnd_State = "32 word"

definition ConnectionEnd_STATE_UNINITIALIZED_UNSPECIFIED :: ConnectionEnd_State where
  "ConnectionEnd_STATE_UNINITIALIZED_UNSPECIFIED = 0"

definition ConnectionEnd_STATE_INIT :: ConnectionEnd_State where
  "ConnectionEnd_STATE_INIT = 1"

definition ConnectionEnd_STATE_TRYOPEN :: ConnectionEnd_State where
  "ConnectionEnd_STATE_TRYOPEN = 2"

definition ConnectionEnd_STATE_OPEN :: ConnectionEnd_State where
  "ConnectionEnd_STATE_OPEN = 3"

subsection \<open>\<^verbatim>\<open>MerklePrefix\<close>\<close>

record MerklePrefix =
  mpx_KeyPrefix :: "byte list"

definition MerklePrefix_new :: MerklePrefix where
  "MerklePrefix_new =
     \<lparr>mpx_KeyPrefix = []\<rparr>"

definition MerklePrefix_Size :: "MerklePrefix \<Rightarrow> nat" where
  "MerklePrefix_Size m =
     size_bytes (length (mpx_KeyPrefix m))"

definition MerklePrefix_MarshalToSizedBuffer :: "MerklePrefix \<Rightarrow> sized_writer" where
  "MerklePrefix_MarshalToSizedBuffer m = to_sized_buffer
     [whenw (0 < length (mpx_KeyPrefix m)) (put_bytes 0xa (mpx_KeyPrefix m))]"

definition MerklePrefix_Marshal :: "MerklePrefix \<Rightarrow> pb_error + byte list" where
  "MerklePrefix_Marshal m = marshal (MerklePrefix_Size m) (MerklePrefix_MarshalToSizedBuffer m)"

definition MerklePrefix_MarshalTo :: "MerklePrefix \<Rightarrow> sized_writer" where
  "MerklePrefix_MarshalTo m = marshal_to (MerklePrefix_Size m) (MerklePrefix_MarshalToSizedBuffer m)"

definition MerklePrefix_fields :: "int \<Rightarrow> MerklePrefix field_case option" where
  "MerklePrefix_fields fieldNum =
     (if fieldNum = 1 then Some (bytes_case Connection_proto ''KeyPrefix'' (\<lambda>b m. m\<lparr>mpx_KeyPrefix := b\<rparr>))
      else None)"

definition MerklePrefix_Unmarshal :: "byte list \<Rightarrow> MerklePrefix \<Rightarrow> pb_error + MerklePrefix" where
  "MerklePrefix_Unmarshal = unmarshal Connection_proto ''MerklePrefix'' MerklePrefix_fields"

definition MerklePrefix_enc :: "MerklePrefix \<Rightarrow> byte list" where
  "MerklePrefix_enc m =
     enc_bytes 0xa (mpx_KeyPrefix m)"

interpretation mpx: pb_reader Connection_proto "''MerklePrefix''" MerklePrefix_fields
  by unfold_locales (auto simp: MerklePrefix_fields_def split: if_splits)

lemma MerklePrefix_fuel: "go_slice bs \<Longrightarrow> fuel_ok (MerklePrefix_Unmarshal bs m)"
  unfolding MerklePrefix_Unmarshal_def by (rule mpx.unmarshal_terminates)

lemmas mpx_reads =
  mpx.parses_bytes [of 1 "''KeyPrefix''" "\<lambda>v m. m\<lparr>mpx_KeyPrefix := v\<rparr>" "0xa"]

lemma MerklePrefix_parses:
  "parses Connection_proto ''MerklePrefix'' MerklePrefix_fields (MerklePrefix_enc m) MerklePrefix_new m"
  unfolding MerklePrefix_enc_def MerklePrefix_new_def
  by (rule parses_eq, (rule parses_append mpx_reads
      | simp add: MerklePrefix_fields_def is_tag_def)+)

lemma MerklePrefix_writes: "sized_writes (MerklePrefix_MarshalToSizedBuffer m) (MerklePrefix_enc m)"
  unfolding MerklePrefix_MarshalToSizedBuffer_def
  by (rule to_sized_buffer_writes, (rule writes_intros)+, simp add: MerklePrefix_enc_def)

interpretation mpx_codec: pb_codec Connection_proto "''MerklePrefix''" MerklePrefix_fields
    MerklePrefix_enc MerklePrefix_Size MerklePrefix_MarshalToSizedBuffer MerklePrefix_new
  by (unfold_locales, simp add: MerklePrefix_Size_def MerklePrefix_enc_def wire_simps,
      rule MerklePrefix_writes, rule MerklePrefix_parses)

lemma MerklePrefix_Unmarshal_enc: "go_slice (MerklePrefix_enc m) \<Longrightarrow> MerklePrefix_Unmarshal (MerklePrefix_enc m) MerklePrefix_new = Inr m"
  unfolding MerklePrefix_Unmarshal_def by (rule mpx_codec.unmarshal_enc)

lemma MerklePrefix_Marshal_enc: "MerklePrefix_Marshal m = Inr (MerklePrefix_enc m)"
  unfolding MerklePrefix_Marshal_def by (rule mpx_codec.marshal_enc)

subsection \<open>\<^verbatim>\<open>Version\<close>\<close>

record Version =
  ver_Identifier :: string
  ver_Features :: "string list"

definition Version_new :: Version where
  "Version_new =
     \<lparr>ver_Identifier = '''', ver_Features = []\<rparr>"

definition Version_Size :: "Version \<Rightarrow> nat" where
  "Version_Size m =
     size_bytes (length (ver_Identifier m)) +
     (\<Sum>s\<leftarrow>ver_Features m. size_bytes1 (length s))"

definition Version_MarshalToSizedBuffer :: "Version \<Rightarrow> sized_writer" where
  "Version_MarshalToSizedBuffer m = to_sized_buffer
     [whenw (0 < length (ver_Features m)) (put_each (\<lambda>s. put_bytes 0x12 (str_bytes s)) (ver_Features m)),
      whenw (0 < length (ver_Identifier m)) (put_bytes 0xa (str_bytes (ver_Identifier m)))]"

definition Version_Marshal :: "Version \<Rightarrow> pb_error + byte list" where
  "Version_Marshal m = marshal (Version_Size m) (Version_MarshalToSizedBuffer m)"

definition Version_MarshalTo :: "Version \<Rightarrow> sized_writer" where
  "Version_MarshalTo m = marshal_to (Version_Size m) (Version_MarshalToSizedBuffer m)"

definition Version_fields :: "int \<Rightarrow> Version field_case option" where
  "Version_fields fieldNum =
     (if fieldNum = 1 then Some (string_case Connection_proto ''Identifier'' (\<lambda>s m. m\<lparr>ver_Identifier := s\<rparr>))
      else if fieldNum = 2 then Some (string_list_case Connection_proto ''Features'' ver_Features (\<lambda>ss m. m\<lparr>ver_Features := ss\<rparr>))
      else None)"

definition Version_Unmarshal :: "byte list \<Rightarrow> Version \<Rightarrow> pb_error + Version" where
  "Version_Unmarshal = unmarshal Connection_proto ''Version'' Version_fields"

definition Version_enc :: "Version \<Rightarrow> byte list" where
  "Version_enc m =
     enc_bytes 0xa (str_bytes (ver_Identifier m)) @
     enc_each 0x12 (map str_bytes (ver_Features m))"

interpretation ver: pb_reader Connection_proto "''Version''" Version_fields
  by unfold_locales (auto simp: Version_fields_def split: if_splits)

lemma Version_fuel: "go_slice bs \<Longrightarrow> fuel_ok (Version_Unmarshal bs m)"
  unfolding Version_Unmarshal_def by (rule ver.unmarshal_terminates)

lemmas ver_reads =
  ver.parses_string [of 1 "''Identifier''" "\<lambda>v m. m\<lparr>ver_Identifier := v\<rparr>" "0xa"]
  ver.parses_string_list [of 2 "''Features''" ver_Features "\<lambda>l m. m\<lparr>ver_Features := l\<rparr>" "0x12"]

lemma Version_parses:
  "parses Connection_proto ''Version'' Version_fields (Version_enc m) Version_new m"
  unfolding Version_enc_def Version_new_def
  by (rule parses_eq, (rule parses_append ver_reads
      | simp add: Version_fields_def is_tag_def)+)

lemma Version_writes: "sized_writes (Version_MarshalToSizedBuffer m) (Version_enc m)"
  unfolding Version_MarshalToSizedBuffer_def
  by (rule to_sized_buffer_writes, (rule writes_intros)+, simp add: Version_enc_def)

interpretation ver_codec: pb_codec Connection_proto "''Version''" Version_fields
    Version_enc Version_Size Version_MarshalToSizedBuffer Version_new
  by (unfold_locales, simp add: Version_Size_def Version_enc_def wire_simps comp_def,
      rule Version_writes, rule Version_parses)

lemma Version_Unmarshal_enc: "go_slice (Version_enc m) \<Longrightarrow> Version_Unmarshal (Version_enc m) Version_new = Inr m"
  unfolding Version_Unmarshal_def by (rule ver_codec.unmarshal_enc)

lemma Version_Marshal_enc: "Version_Marshal m = Inr (Version_enc m)"
  unfolding Version_Marshal_def by (rule ver_codec.marshal_enc)

subsection \<open>\<^verbatim>\<open>Counterparty\<close>\<close>

record Counterparty =
  ccp_ClientId :: string
  ccp_ConnectionId :: string
  ccp_Prefix :: "MerklePrefix option"

definition Counterparty_new :: Counterparty where
  "Counterparty_new =
     \<lparr>ccp_ClientId = '''', ccp_ConnectionId = '''', ccp_Prefix = None\<rparr>"

definition Counterparty_Size :: "Counterparty \<Rightarrow> nat" where
  "Counterparty_Size m =
     size_bytes (length (ccp_ClientId m)) + size_bytes (length (ccp_ConnectionId m)) +
     (case ccp_Prefix m of None \<Rightarrow> 0 | Some x \<Rightarrow> size_bytes1 (MerklePrefix_Size x))"

definition Counterparty_MarshalToSizedBuffer :: "Counterparty \<Rightarrow> sized_writer" where
  "Counterparty_MarshalToSizedBuffer m = to_sized_buffer
     [put_ptr 0x1a (map_option MerklePrefix_MarshalToSizedBuffer (ccp_Prefix m)),
      whenw (0 < length (ccp_ConnectionId m)) (put_bytes 0x12 (str_bytes (ccp_ConnectionId m))),
      whenw (0 < length (ccp_ClientId m)) (put_bytes 0xa (str_bytes (ccp_ClientId m)))]"

definition Counterparty_Marshal :: "Counterparty \<Rightarrow> pb_error + byte list" where
  "Counterparty_Marshal m = marshal (Counterparty_Size m) (Counterparty_MarshalToSizedBuffer m)"

definition Counterparty_MarshalTo :: "Counterparty \<Rightarrow> sized_writer" where
  "Counterparty_MarshalTo m = marshal_to (Counterparty_Size m) (Counterparty_MarshalToSizedBuffer m)"

definition Counterparty_fields :: "int \<Rightarrow> Counterparty field_case option" where
  "Counterparty_fields fieldNum =
     (if fieldNum = 1 then Some (string_case Connection_proto ''ClientId'' (\<lambda>s m. m\<lparr>ccp_ClientId := s\<rparr>))
      else if fieldNum = 2 then Some (string_case Connection_proto ''ConnectionId'' (\<lambda>s m. m\<lparr>ccp_ConnectionId := s\<rparr>))
      else if fieldNum = 3 then Some (ptr_case Connection_proto ''Prefix'' MerklePrefix_Unmarshal MerklePrefix_new ccp_Prefix (\<lambda>x m. m\<lparr>ccp_Prefix := x\<rparr>))
      else None)"

definition Counterparty_Unmarshal :: "byte list \<Rightarrow> Counterparty \<Rightarrow> pb_error + Counterparty" where
  "Counterparty_Unmarshal = unmarshal Connection_proto ''Counterparty'' Counterparty_fields"

definition Counterparty_enc :: "Counterparty \<Rightarrow> byte list" where
  "Counterparty_enc m =
     enc_bytes 0xa (str_bytes (ccp_ClientId m)) @
     enc_bytes 0x12 (str_bytes (ccp_ConnectionId m)) @
     enc_opt 0x1a (map_option MerklePrefix_enc (ccp_Prefix m))"

interpretation ccp: pb_reader Connection_proto "''Counterparty''" Counterparty_fields
  by unfold_locales (auto simp: Counterparty_fields_def MerklePrefix_fuel split: if_splits)

lemma Counterparty_fuel: "go_slice bs \<Longrightarrow> fuel_ok (Counterparty_Unmarshal bs m)"
  unfolding Counterparty_Unmarshal_def by (rule ccp.unmarshal_terminates)

lemmas ccp_reads =
  ccp.parses_string [of 1 "''ClientId''" "\<lambda>v m. m\<lparr>ccp_ClientId := v\<rparr>" "0xa"]
  ccp.parses_string [of 2 "''ConnectionId''" "\<lambda>v m. m\<lparr>ccp_ConnectionId := v\<rparr>" "0x12"]
  ccp.parses_ptr [of 3 "''Prefix''" MerklePrefix_Unmarshal MerklePrefix_new ccp_Prefix "\<lambda>x m. m\<lparr>ccp_Prefix := x\<rparr>" "0x1a" MerklePrefix_enc]

lemma Counterparty_parses:
  "parses Connection_proto ''Counterparty'' Counterparty_fields (Counterparty_enc m) Counterparty_new m"
  unfolding Counterparty_enc_def Counterparty_new_def
  by (rule parses_eq, (rule parses_append ccp_reads
      | simp add: Counterparty_fields_def is_tag_def MerklePrefix_Unmarshal_enc)+)

lemma Counterparty_writes: "sized_writes (Counterparty_MarshalToSizedBuffer m) (Counterparty_enc m)"
  unfolding Counterparty_MarshalToSizedBuffer_def
  by (rule to_sized_buffer_writes, (rule writes_intros MerklePrefix_writes)+, simp add: Counterparty_enc_def)

interpretation ccp_codec: pb_codec Connection_proto "''Counterparty''" Counterparty_fields
    Counterparty_enc Counterparty_Size Counterparty_MarshalToSizedBuffer Counterparty_new
  by (unfold_locales, simp add: Counterparty_Size_def Counterparty_enc_def wire_simps mpx_codec.size_enc split: option.split,
      rule Counterparty_writes, rule Counterparty_parses)

lemma Counterparty_Unmarshal_enc: "go_slice (Counterparty_enc m) \<Longrightarrow> Counterparty_Unmarshal (Counterparty_enc m) Counterparty_new = Inr m"
  unfolding Counterparty_Unmarshal_def by (rule ccp_codec.unmarshal_enc)

lemma Counterparty_Marshal_enc: "Counterparty_Marshal m = Inr (Counterparty_enc m)"
  unfolding Counterparty_Marshal_def by (rule ccp_codec.marshal_enc)

subsection \<open>\<^verbatim>\<open>ConnectionEnd\<close>\<close>

record ConnectionEnd =
  cend_ClientId :: string
  cend_Versions :: "Version list"
  cend_State :: ConnectionEnd_State
  cend_Counterparty :: "Counterparty option"
  cend_DelayPeriod :: "64 word"

definition ConnectionEnd_new :: ConnectionEnd where
  "ConnectionEnd_new =
     \<lparr>cend_ClientId = '''', cend_Versions = [], cend_State = 0, cend_Counterparty = None,
       cend_DelayPeriod = 0\<rparr>"

definition ConnectionEnd_Size :: "ConnectionEnd \<Rightarrow> nat" where
  "ConnectionEnd_Size m =
     size_bytes (length (cend_ClientId m)) +
     (\<Sum>x\<leftarrow>cend_Versions m. size_bytes1 (Version_Size x)) +
     size_uint (scast (cend_State m)) +
     (case cend_Counterparty m of None \<Rightarrow> 0 | Some x \<Rightarrow> size_bytes1 (Counterparty_Size x)) +
     size_uint (cend_DelayPeriod m)"

definition ConnectionEnd_MarshalToSizedBuffer :: "ConnectionEnd \<Rightarrow> sized_writer" where
  "ConnectionEnd_MarshalToSizedBuffer m = to_sized_buffer
     [whenw (cend_DelayPeriod m \<noteq> 0) (put_uint 0x28 (cend_DelayPeriod m)),
      put_ptr 0x22 (map_option Counterparty_MarshalToSizedBuffer (cend_Counterparty m)),
      whenw (cend_State m \<noteq> 0) (put_uint 0x18 (scast (cend_State m))),
      whenw (0 < length (cend_Versions m)) (put_each (\<lambda>x. put_msg 0x12 (Version_MarshalToSizedBuffer x)) (cend_Versions m)),
      whenw (0 < length (cend_ClientId m)) (put_bytes 0xa (str_bytes (cend_ClientId m)))]"

definition ConnectionEnd_Marshal :: "ConnectionEnd \<Rightarrow> pb_error + byte list" where
  "ConnectionEnd_Marshal m = marshal (ConnectionEnd_Size m) (ConnectionEnd_MarshalToSizedBuffer m)"

definition ConnectionEnd_MarshalTo :: "ConnectionEnd \<Rightarrow> sized_writer" where
  "ConnectionEnd_MarshalTo m = marshal_to (ConnectionEnd_Size m) (ConnectionEnd_MarshalToSizedBuffer m)"

definition ConnectionEnd_case_ClientId :: "ConnectionEnd field_case" where
  "ConnectionEnd_case_ClientId = string_case Connection_proto ''ClientId'' (\<lambda>s m. m\<lparr>cend_ClientId := s\<rparr>)"

definition ConnectionEnd_case_Versions :: "ConnectionEnd field_case" where
  "ConnectionEnd_case_Versions = sub_list_case Connection_proto ''Versions'' Version_Unmarshal Version_new cend_Versions (\<lambda>xs m. m\<lparr>cend_Versions := xs\<rparr>)"

definition ConnectionEnd_case_State :: "ConnectionEnd field_case" where
  "ConnectionEnd_case_State = uint_case Connection_proto ''State'' (\<lambda>v m. m\<lparr>cend_State := v\<rparr>)"

definition ConnectionEnd_case_Counterparty :: "ConnectionEnd field_case" where
  "ConnectionEnd_case_Counterparty = ptr_case Connection_proto ''Counterparty'' Counterparty_Unmarshal Counterparty_new cend_Counterparty (\<lambda>x m. m\<lparr>cend_Counterparty := x\<rparr>)"

definition ConnectionEnd_case_DelayPeriod :: "ConnectionEnd field_case" where
  "ConnectionEnd_case_DelayPeriod = uint_case Connection_proto ''DelayPeriod'' (\<lambda>v m. m\<lparr>cend_DelayPeriod := v\<rparr>)"

definition ConnectionEnd_fields :: "int \<Rightarrow> ConnectionEnd field_case option" where
  "ConnectionEnd_fields fieldNum =
     (if fieldNum = 1 then Some ConnectionEnd_case_ClientId
      else if fieldNum = 2 then Some ConnectionEnd_case_Versions
      else if fieldNum = 3 then Some ConnectionEnd_case_State
      else if fieldNum = 4 then Some ConnectionEnd_case_Counterparty
      else if fieldNum = 5 then Some ConnectionEnd_case_DelayPeriod
      else None)"

definition ConnectionEnd_Unmarshal :: "byte list \<Rightarrow> ConnectionEnd \<Rightarrow> pb_error + ConnectionEnd" where
  "ConnectionEnd_Unmarshal = unmarshal Connection_proto ''ConnectionEnd'' ConnectionEnd_fields"

definition ConnectionEnd_enc :: "ConnectionEnd \<Rightarrow> byte list" where
  "ConnectionEnd_enc m =
     enc_bytes 0xa (str_bytes (cend_ClientId m)) @
     enc_each 0x12 (map Version_enc (cend_Versions m)) @
     enc_uint 0x18 (scast (cend_State m)) @
     enc_opt 0x22 (map_option Counterparty_enc (cend_Counterparty m)) @
     enc_uint 0x28 (cend_DelayPeriod m)"

lemmas ConnectionEnd_switch = ConnectionEnd_fields_def
  ConnectionEnd_case_ClientId_def ConnectionEnd_case_Versions_def
  ConnectionEnd_case_State_def ConnectionEnd_case_Counterparty_def
  ConnectionEnd_case_DelayPeriod_def

interpretation cend: pb_reader Connection_proto "''ConnectionEnd''" ConnectionEnd_fields
  by unfold_locales (auto simp: ConnectionEnd_switch Counterparty_fuel Version_fuel split: if_splits)

lemma ConnectionEnd_fuel: "go_slice bs \<Longrightarrow> fuel_ok (ConnectionEnd_Unmarshal bs m)"
  unfolding ConnectionEnd_Unmarshal_def by (rule cend.unmarshal_terminates)

lemmas cend_reads =
  cend.parses_string [of 1 "''ClientId''" "\<lambda>v m. m\<lparr>cend_ClientId := v\<rparr>" "0xa"]
  cend.parses_sub_list [of 2 "''Versions''" Version_Unmarshal Version_new cend_Versions "\<lambda>xs m. m\<lparr>cend_Versions := xs\<rparr>" "0x12" Version_enc]
  cend.parses_enum [of 3 "''State''" "\<lambda>v m. m\<lparr>cend_State := v\<rparr>" "0x18"]
  cend.parses_ptr [of 4 "''Counterparty''" Counterparty_Unmarshal Counterparty_new cend_Counterparty "\<lambda>x m. m\<lparr>cend_Counterparty := x\<rparr>" "0x22" Counterparty_enc]
  cend.parses_uint64 [of 5 "''DelayPeriod''" "\<lambda>v m. m\<lparr>cend_DelayPeriod := v\<rparr>" "0x28"]

lemma ConnectionEnd_parses:
  "parses Connection_proto ''ConnectionEnd'' ConnectionEnd_fields (ConnectionEnd_enc m) ConnectionEnd_new m"
  unfolding ConnectionEnd_enc_def ConnectionEnd_new_def
  by (rule parses_eq, (rule parses_append cend_reads
      | simp add: ConnectionEnd_switch is_tag_def Counterparty_Unmarshal_enc Version_Unmarshal_enc)+)

lemma ConnectionEnd_writes: "sized_writes (ConnectionEnd_MarshalToSizedBuffer m) (ConnectionEnd_enc m)"
  unfolding ConnectionEnd_MarshalToSizedBuffer_def
  by (rule to_sized_buffer_writes, (rule writes_intros Counterparty_writes Version_writes)+, simp add: ConnectionEnd_enc_def)

interpretation cend_codec: pb_codec Connection_proto "''ConnectionEnd''" ConnectionEnd_fields
    ConnectionEnd_enc ConnectionEnd_Size ConnectionEnd_MarshalToSizedBuffer ConnectionEnd_new
  by (unfold_locales, simp add: ConnectionEnd_Size_def ConnectionEnd_enc_def wire_simps ccp_codec.size_enc ver_codec.size_enc comp_def split: option.split,
      rule ConnectionEnd_writes, rule ConnectionEnd_parses)

lemma ConnectionEnd_Unmarshal_enc: "go_slice (ConnectionEnd_enc m) \<Longrightarrow> ConnectionEnd_Unmarshal (ConnectionEnd_enc m) ConnectionEnd_new = Inr m"
  unfolding ConnectionEnd_Unmarshal_def by (rule cend_codec.unmarshal_enc)

lemma ConnectionEnd_Marshal_enc: "ConnectionEnd_Marshal m = Inr (ConnectionEnd_enc m)"
  unfolding ConnectionEnd_Marshal_def by (rule cend_codec.marshal_enc)

subsection \<open>Properties\<close>

text \<open>
  C36: unmarshalling inverts marshalling for connection ends, with their repeated nested
  versions and the optional counterparty and prefix behind pointers.
\<close>

theorem ConnectionEnd_roundtrip:
  assumes "ConnectionEnd_Size c < 2 ^ 63"
  shows "bindr (ConnectionEnd_Marshal c) (\<lambda>bs. ConnectionEnd_Unmarshal bs ConnectionEnd_new) = Inr c"
  unfolding ConnectionEnd_Marshal_def ConnectionEnd_Unmarshal_def by (rule cend_codec.roundtrip) fact

definition example_connection :: ConnectionEnd where
  "example_connection = ConnectionEnd_new
     \<lparr>cend_Versions := [\<lparr>ver_Identifier = ''1'', ver_Features = [''A'', '''']\<rparr>],
      cend_Counterparty := Some (Counterparty_new\<lparr>ccp_Prefix := Some MerklePrefix_new\<rparr>)\<rparr>"

lemma ConnectionEnd_roundtrip_witness:
  "bindr (ConnectionEnd_Marshal example_connection) (\<lambda>bs. ConnectionEnd_Unmarshal bs ConnectionEnd_new) =
   Inr example_connection"
  by (rule ConnectionEnd_roundtrip)
    (simp add: example_connection_def ConnectionEnd_new_def ConnectionEnd_Size_def Version_Size_def
      Counterparty_Size_def Counterparty_new_def MerklePrefix_Size_def MerklePrefix_new_def size_eval)

text \<open>
  C37: \<^verbatim>\<open>Unmarshal\<close> returns on every input: whatever bytes a slice holds and whatever receiver it
  merges into, the loop (and the loops of the nested messages and of \<^verbatim>\<open>skipConnection\<close>) comes
  to a result or to one of the errors of the code within as many iterations as the slice
  has bytes.
\<close>

theorem ConnectionEnd_Unmarshal_returns:
  assumes "length d < 2 ^ 63"
  shows "ConnectionEnd_Unmarshal d c \<noteq> Inl Out_of_fuel"
  using ConnectionEnd_fuel [of d c] assms by (simp add: go_slice_def fuel_ok_def)

lemma ConnectionEnd_Unmarshal_returns_witness:
  "ConnectionEnd_Unmarshal [255, 255, 3] ConnectionEnd_new \<noteq> Inl Out_of_fuel"
  by (rule ConnectionEnd_Unmarshal_returns) simp

end
