(* ===== verification/Testing_Types.thy ===== *)
theory Testing_Types
  imports Contract_Types Sha256 Channel_PB Connection_PB
begin

text \<open>
  \<^verbatim>\<open>pkg/testing/types.go\<close>: how the relayer turns contract data into protobuf messages, the
  packet and acknowledgement commitments, and the \<^verbatim>\<open>google.protobuf.Any\<close> wrapping of client
  messages; and \<^verbatim>\<open>NewPacket\<close> of \<^verbatim>\<open>pkg/ibc/channel/types.go\<close>.

  The message type \<^verbatim>\<open>types.Any\<close>, with its \<^verbatim>\<open>Marshal\<close> and \<^verbatim>\<open>Unmarshal\<close>, belongs to the
  third-party package \<^verbatim>\<open>gogo/protobuf/types\<close>: the record \<open>any_lib\<close> is a parameter.
\<close>

subsection \<open>Conversions\<close>

definition VersionData_to_Version :: "VersionData \<Rightarrow> Version" where
  "VersionData_to_Version v = \<lparr>ver_Identifier = vd_Identifier v, ver_Features = vd_Features v\<rparr>"

fun append_versions :: "VersionData list \<Rightarrow> ConnectionEnd \<Rightarrow> ConnectionEnd" where
  "append_versions [] connpb = connpb"
| "append_versions (v # vs) connpb =
     append_versions vs (connpb\<lparr>cend_Versions := cend_Versions connpb @ [VersionData_to_Version v]\<rparr>)"

definition connectionEndToPB :: "ConnectionEndData \<Rightarrow> ConnectionEnd" where
  "connectionEndToPB conn = append_versions (ced_Versions conn)
     \<lparr>cend_ClientId = ced_ClientId conn,
      cend_Versions = [],
      cend_State = ucast (ced_State conn),
      cend_Counterparty = Some
        \<lparr>ccp_ClientId = cd_ClientId (ced_Counterparty conn),
         ccp_ConnectionId = cd_ConnectionId (ced_Counterparty conn),
         ccp_Prefix = Some \<lparr>mpx_KeyPrefix = mpd_KeyPrefix (cd_Prefix (ced_Counterparty conn))\<rparr>\<rparr>,
      cend_DelayPeriod = ced_DelayPeriod conn\<rparr>"

definition channelToPB :: "ChannelData \<Rightarrow> Channel" where
  "channelToPB ch =
     \<lparr>chan_State = ucast (chd_State ch),
      chan_Ordering = ucast (chd_Ordering ch),
      chan_Counterparty = \<lparr>cpty_PortId = ccd_PortId (chd_Counterparty ch),
                           cpty_ChannelId = ccd_ChannelId (chd_Counterparty ch)\<rparr>,
      chan_ConnectionHops = chd_ConnectionHops ch,
      chan_Version = chd_Version ch\<rparr>"

lemma append_versions_eq:
  "append_versions vs c = c\<lparr>cend_Versions := cend_Versions c @ map VersionData_to_Version vs\<rparr>"
  by (induction vs arbitrary: c) simp_all

lemma connectionEndToPB_Versions:
  "cend_Versions (connectionEndToPB conn) = map VersionData_to_Version (ced_Versions conn)"
  by (simp add: connectionEndToPB_def append_versions_eq)

definition NewPacket ::
  "byte list \<Rightarrow> 64 word \<Rightarrow> string \<Rightarrow> string \<Rightarrow> string \<Rightarrow> string \<Rightarrow> Height \<Rightarrow> 64 word \<Rightarrow> Packet" where
  "NewPacket data sequence sourcePort sourceChannel destinationPort destinationChannel
     timeoutHeight timeoutTimestamp =
     \<lparr>pkt_Sequence = sequence, pkt_SourcePort = sourcePort, pkt_SourceChannel = sourceChannel,
      pkt_DestinationPort = destinationPort, pkt_DestinationChannel = destinationChannel,
      pkt_Data = data, pkt_TimeoutHeight = timeoutHeight, pkt_TimeoutTimestamp = timeoutTimestamp\<rparr>"

subsection \<open>Commitments\<close>

text \<open>\<^verbatim>\<open>binary.BigEndian.PutUint64\<close>\<close>

definition uint64ToBigEndian :: "64 word \<Rightarrow> byte list" where
  "uint64ToBigEndian i = be64 i"

definition commitPacket :: "Packet \<Rightarrow> byte list" where
  "commitPacket packet =
     (let timeoutHeight = pkt_TimeoutHeight packet;
          buf = uint64ToBigEndian (pkt_TimeoutTimestamp packet);
          buf = buf @ uint64ToBigEndian (ht_RevisionNumber timeoutHeight);
          buf = buf @ uint64ToBigEndian (ht_RevisionHeight timeoutHeight);
          buf = buf @ sha256 (pkt_Data packet)
      in sha256 buf)"

definition commitAcknowledgement :: "byte list \<Rightarrow> byte list" where
  "commitAcknowledgement data = sha256 data"

subsection \<open>\<^verbatim>\<open>Any\<close>\<close>

record Any =
  any_TypeUrl :: string
  any_Value :: "byte list"

datatype 'e any_error = Err_proto 'e | Err_expected_type string string

text \<open>
  A message type as \<^verbatim>\<open>gogo/protobuf/proto\<close> sees it: its registered name, \<^verbatim>\<open>proto.Marshal\<close> and
  \<^verbatim>\<open>proto.Unmarshal\<close>, which resets the target first.
\<close>

record 'm message_type =
  mt_Name :: string
  mt_Marshal :: "'m \<Rightarrow> pb_error + byte list"
  mt_Unmarshal :: "byte list \<Rightarrow> pb_error + 'm"

type_synonym any_lib = "Any message_type"

definition proto_call :: "'e + 'a \<Rightarrow> 'e any_error + 'a" where
  "proto_call r = (case r of Inl e \<Rightarrow> Inl (Err_proto e) | Inr x \<Rightarrow> Inr x)"

definition PackAny :: "'m message_type \<Rightarrow> 'm \<Rightarrow> pb_error any_error + Any" where
  "PackAny mt msg =
     bindr (proto_call (mt_Marshal mt msg)) (\<lambda>bz.
       Inr \<lparr>any_TypeUrl = ''/'' @ mt_Name mt, any_Value = bz\<rparr>)"

definition UnpackAny :: "any_lib \<Rightarrow> byte list \<Rightarrow> pb_error any_error + Any" where
  "UnpackAny lib bz = proto_call (mt_Unmarshal lib bz)"

definition MarshalWithAny :: "any_lib \<Rightarrow> 'm message_type \<Rightarrow> 'm \<Rightarrow> pb_error any_error + byte list" where
  "MarshalWithAny lib mt msg =
     bindr (PackAny mt msg) (\<lambda>any. proto_call (mt_Marshal lib any))"

definition UnmarshalWithAny :: "any_lib \<Rightarrow> 'm message_type \<Rightarrow> byte list \<Rightarrow> pb_error any_error + 'm" where
  "UnmarshalWithAny lib mt bz =
     bindr (UnpackAny lib bz) (\<lambda>any.
       let t = ''/'' @ mt_Name mt
       in if any_TypeUrl any \<noteq> t then Inl (Err_expected_type t (any_TypeUrl any))
          else proto_call (mt_Unmarshal mt (any_Value any)))"

subsection \<open>Wrapping and unwrapping\<close>

text \<open>
  The interface of a message type that can travel inside an \<^verbatim>\<open>Any\<close>: unmarshalling inverts
  marshalling on slices. (\<open>codec_ok\<close> also states the documented behaviour of the \<^verbatim>\<open>Any\<close>
  codec itself, where it is a hypothesis.)
\<close>

definition codec_ok :: "'m message_type \<Rightarrow> bool" where
  "codec_ok mt \<longleftrightarrow> (\<forall>m bs. mt_Marshal mt m = Inr bs \<longrightarrow> go_slice bs \<longrightarrow> mt_Unmarshal mt bs = Inr m)"

lemma codec_okD: "codec_ok mt \<Longrightarrow> mt_Marshal mt m = Inr bs \<Longrightarrow> go_slice bs \<Longrightarrow> mt_Unmarshal mt bs = Inr m"
  unfolding codec_ok_def by blast

locale message =
  fixes mt :: "'m message_type"
  assumes codec: "codec_ok mt"
begin

lemma UnmarshalWithAny_MarshalWithAny:
  assumes "codec_ok lib" and "MarshalWithAny lib mt m = Inr bz" and "go_slice bz"
    and "mt_Marshal mt m = Inr bs" and "go_slice bs"
  shows "UnmarshalWithAny lib mt bz = Inr m"
proof -
  have "mt_Marshal lib \<lparr>any_TypeUrl = ''/'' @ mt_Name mt, any_Value = bs\<rparr> = Inr bz"
    using assms(2,4)
    by (auto simp: MarshalWithAny_def PackAny_def proto_call_def split: sum.splits)
  with assms(1,3) have "mt_Unmarshal lib bz = Inr \<lparr>any_TypeUrl = ''/'' @ mt_Name mt, any_Value = bs\<rparr>"
    by (metis codec_okD)
  with codec_okD [OF codec assms(4,5)] show ?thesis
    by (simp add: UnmarshalWithAny_def UnpackAny_def proto_call_def)
qed

lemma UnmarshalWithAny_other:
  assumes "codec_ok lib" and "MarshalWithAny lib mt m = Inr bz" and "go_slice bz"
    and "mt_Name mt' \<noteq> mt_Name mt"
  shows "UnmarshalWithAny lib mt' bz = Inl (Err_expected_type (''/'' @ mt_Name mt') (''/'' @ mt_Name mt))"
proof -
  obtain bs where "mt_Marshal lib \<lparr>any_TypeUrl = ''/'' @ mt_Name mt, any_Value = bs\<rparr> = Inr bz"
    using assms(2) by (auto simp: MarshalWithAny_def PackAny_def proto_call_def split: sum.splits)
  with assms(1,3) have "mt_Unmarshal lib bz = Inr \<lparr>any_TypeUrl = ''/'' @ mt_Name mt, any_Value = bs\<rparr>"
    by (metis codec_okD)
  with assms(4) show ?thesis
    by (simp add: UnmarshalWithAny_def UnpackAny_def proto_call_def)
qed

end

subsection \<open>Properties\<close>

text \<open>The 56 bytes that are hashed.\<close>

definition commit_preimage :: "Packet \<Rightarrow> byte list" where
  "commit_preimage p = be64 (pkt_TimeoutTimestamp p) @ be64 (ht_RevisionNumber (pkt_TimeoutHeight p)) @
     be64 (ht_RevisionHeight (pkt_TimeoutHeight p)) @ sha256 (pkt_Data p)"

lemma commitPacket_preimage: "commitPacket p = sha256 (commit_preimage p)"
  by (simp add: commitPacket_def commit_preimage_def Let_def uint64ToBigEndian_def)

text \<open>
  What a packet commitment binds. Barring a SHA-256 collision on the strings at hand,
  two packets have the same commitment exactly when their data, timeout height and timeout
  timestamp agree; ports, channels and sequence are not part of it.
\<close>

theorem commitPacket_binds:
  assumes "sha256 (pkt_Data p) = sha256 (pkt_Data q) \<Longrightarrow> pkt_Data p = pkt_Data q"
    and "sha256 (commit_preimage p) = sha256 (commit_preimage q) \<Longrightarrow> commit_preimage p = commit_preimage q"
  shows "commitPacket p = commitPacket q \<longleftrightarrow>
    pkt_Data p = pkt_Data q \<and> pkt_TimeoutHeight p = pkt_TimeoutHeight q \<and>
    pkt_TimeoutTimestamp p = pkt_TimeoutTimestamp q"
proof
  assume "commitPacket p = commitPacket q"
  then have "commit_preimage p = commit_preimage q"
    unfolding commitPacket_preimage by (rule assms(2))
  then have e: "pkt_TimeoutTimestamp p = pkt_TimeoutTimestamp q"
      "ht_RevisionNumber (pkt_TimeoutHeight p) = ht_RevisionNumber (pkt_TimeoutHeight q)"
      "ht_RevisionHeight (pkt_TimeoutHeight p) = ht_RevisionHeight (pkt_TimeoutHeight q)"
      "sha256 (pkt_Data p) = sha256 (pkt_Data q)"
    by (simp_all add: commit_preimage_def)
  from e(2,3) have "pkt_TimeoutHeight p = pkt_TimeoutHeight q" by (rule Height.equality) simp
  with e(1) assms(1) [OF e(4)] show "pkt_Data p = pkt_Data q \<and> pkt_TimeoutHeight p = pkt_TimeoutHeight q \<and>
      pkt_TimeoutTimestamp p = pkt_TimeoutTimestamp q" by blast
qed (simp add: commitPacket_preimage commit_preimage_def)

lemma commitPacket_binds_witness:
  "commitPacket (example_packet\<lparr>pkt_Sequence := 1\<rparr>) = commitPacket (example_packet\<lparr>pkt_Sequence := 2\<rparr>)"
  using commitPacket_binds [of "example_packet\<lparr>pkt_Sequence := 1\<rparr>" "example_packet\<lparr>pkt_Sequence := 2\<rparr>"]
  by (simp add: commit_preimage_def)

end
