(* ===== verification/Sol_Proto.thy ===== *)
theory Sol_Proto
  imports Testing_Types
begin

text \<open>
  The protobuf encoders of the contracts: \<^verbatim>\<open>ProtoBufRuntime.sol\<close> and the \<^verbatim>\<open>encode\<close> functions
  of \<^verbatim>\<open>Connection.sol\<close> and \<^verbatim>\<open>Channel.sol\<close> under \<^verbatim>\<open>contracts/core/types\<close>. They append at a
  pointer into a buffer of \<^verbatim>\<open>_estimate(r)\<close> bytes, without any bounds check; the definitions
  here give the bytes appended, and the estimate is proved large enough. A failing enum
  conversion reverts (\<open>Inl\<close> with the revert reason). A length or integer is a \<^verbatim>\<open>uint256\<close>
  there, a natural number here.

  The main result relates the two languages: what the contract encodes is what the Go
  relayer marshals.
\<close>

unbundle bit_operations_syntax

subsection \<open>\<^verbatim>\<open>ProtoBufRuntime\<close>\<close>

fun sol_encode_varint :: "nat \<Rightarrow> byte list" where
  "sol_encode_varint x =
     (if 0 < x div 128 then word_of_nat (128 + x mod 128) # sol_encode_varint (x div 128)
      else [word_of_nat (x mod 128)])"

declare sol_encode_varint.simps [simp del]

definition sol_encode_key :: "nat \<Rightarrow> nat \<Rightarrow> byte list" where
  "sol_encode_key x wt = sol_encode_varint ((x * 8) OR (wt mod 8))"

definition sol_encode_bytes :: "byte list \<Rightarrow> byte list" where
  "sol_encode_bytes xs = sol_encode_varint (length xs) @ xs"

definition sol_encode_string :: "string \<Rightarrow> byte list" where
  "sol_encode_string s = sol_encode_bytes (str_bytes s)"

definition sol_encode_uint64 :: "64 word \<Rightarrow> byte list" where
  "sol_encode_uint64 x = sol_encode_varint (unat x)"

definition sol_encode_enum :: "32 word \<Rightarrow> byte list" where
  "sol_encode_enum x = sol_encode_uint64 (scast x)"

text \<open>\<^verbatim>\<open>_encode_nested\<close> of every library: the length of the temporary array, then the array.\<close>

definition sol_encode_nested :: "byte list \<Rightarrow> byte list" where
  "sol_encode_nested tmp = sol_encode_varint (length tmp) @ tmp"

fun sol_sz_varint :: "nat \<Rightarrow> nat" where
  "sol_sz_varint i = (if 0 < i div 128 then Suc (sol_sz_varint (i div 128)) else 1)"

declare sol_sz_varint.simps [simp del]

definition sol_sz_lendelim :: "nat \<Rightarrow> nat" where
  "sol_sz_lendelim i = i + sol_sz_varint i"

subsection \<open>\<^verbatim>\<open>Connection.sol\<close>\<close>

definition ConnectionEnd_encode_State :: "8 word \<Rightarrow> string + 32 word" where
  "ConnectionEnd_encode_State x = (if x < 4 then Inr (ucast x) else Inl [])"

definition MerklePrefix_encode :: "MerklePrefixData \<Rightarrow> byte list" where
  "MerklePrefix_encode r =
     (if length (mpd_KeyPrefix r) \<noteq> 0 then sol_encode_key 1 2 @ sol_encode_bytes (mpd_KeyPrefix r) else [])"

definition Counterparty_encode :: "CounterpartyData \<Rightarrow> byte list" where
  "Counterparty_encode r =
     (if length (cd_ClientId r) \<noteq> 0 then sol_encode_key 1 2 @ sol_encode_string (cd_ClientId r) else []) @
     (if length (cd_ConnectionId r) \<noteq> 0 then sol_encode_key 2 2 @ sol_encode_string (cd_ConnectionId r) else []) @
     sol_encode_key 3 2 @ sol_encode_nested (MerklePrefix_encode (cd_Prefix r))"

definition Version_encode :: "VersionData \<Rightarrow> byte list" where
  "Version_encode r =
     (if length (vd_Identifier r) \<noteq> 0 then sol_encode_key 1 2 @ sol_encode_string (vd_Identifier r) else []) @
     (if length (vd_Features r) \<noteq> 0
      then concat (map (\<lambda>f. sol_encode_key 2 2 @ sol_encode_string f) (vd_Features r)) else [])"

definition ConnectionEnd_encode :: "ConnectionEndData \<Rightarrow> string + byte list" where
  "ConnectionEnd_encode r =
     bindr (ConnectionEnd_encode_State (ced_State r)) (\<lambda>enum_state. Inr (
       (if length (ced_ClientId r) \<noteq> 0 then sol_encode_key 1 2 @ sol_encode_string (ced_ClientId r) else []) @
       (if length (ced_Versions r) \<noteq> 0
        then concat (map (\<lambda>v. sol_encode_key 2 2 @ sol_encode_nested (Version_encode v)) (ced_Versions r)) else []) @
       (if ced_State r \<noteq> 0 then sol_encode_key 3 0 @ sol_encode_enum enum_state else []) @
       sol_encode_key 4 2 @ sol_encode_nested (Counterparty_encode (ced_Counterparty r)) @
       (if ced_DelayPeriod r \<noteq> 0 then sol_encode_key 5 0 @ sol_encode_uint64 (ced_DelayPeriod r) else [])))"

subsection \<open>\<^verbatim>\<open>Channel.sol\<close>\<close>

definition Channel_encode_State :: "8 word \<Rightarrow> string + 32 word" where
  "Channel_encode_State x = (if x < 5 then Inr (ucast x) else Inl [])"

definition Channel_encode_Order :: "8 word \<Rightarrow> string + 32 word" where
  "Channel_encode_Order x = (if x < 3 then Inr (ucast x) else Inl [])"

definition ChannelCounterparty_encode :: "ChannelCounterpartyData \<Rightarrow> byte list" where
  "ChannelCounterparty_encode r =
     (if length (ccd_PortId r) \<noteq> 0 then sol_encode_key 1 2 @ sol_encode_string (ccd_PortId r) else []) @
     (if length (ccd_ChannelId r) \<noteq> 0 then sol_encode_key 2 2 @ sol_encode_string (ccd_ChannelId r) else [])"

definition Channel_encode :: "ChannelData \<Rightarrow> string + byte list" where
  "Channel_encode r =
     bindr (Channel_encode_State (chd_State r)) (\<lambda>enum_state.
     bindr (Channel_encode_Order (chd_Ordering r)) (\<lambda>enum_ordering. Inr (
       (if chd_State r \<noteq> 0 then sol_encode_key 1 0 @ sol_encode_enum enum_state else []) @
       (if chd_Ordering r \<noteq> 0 then sol_encode_key 2 0 @ sol_encode_enum enum_ordering else []) @
       sol_encode_key 3 2 @ sol_encode_nested (ChannelCounterparty_encode (chd_Counterparty r)) @
       (if length (chd_ConnectionHops r) \<noteq> 0
        then concat (map (\<lambda>h. sol_encode_key 4 2 @ sol_encode_string h) (chd_ConnectionHops r)) else []) @
       (if length (chd_Version r) \<noteq> 0 then sol_encode_key 5 2 @ sol_encode_string (chd_Version r) else []))))"

subsection \<open>Estimates\<close>

definition MerklePrefix_estimate :: "MerklePrefixData \<Rightarrow> nat" where
  "MerklePrefix_estimate r = 1 + sol_sz_lendelim (length (mpd_KeyPrefix r))"

definition Counterparty_estimate :: "CounterpartyData \<Rightarrow> nat" where
  "Counterparty_estimate r =
     1 + sol_sz_lendelim (length (cd_ClientId r)) + (1 + sol_sz_lendelim (length (cd_ConnectionId r))) +
     (1 + sol_sz_lendelim (MerklePrefix_estimate (cd_Prefix r)))"

definition Version_estimate :: "VersionData \<Rightarrow> nat" where
  "Version_estimate r =
     1 + sol_sz_lendelim (length (vd_Identifier r)) +
     (\<Sum>f\<leftarrow>vd_Features r. 1 + sol_sz_lendelim (length f))"

definition ConnectionEnd_estimate :: "ConnectionEndData \<Rightarrow> nat" where
  "ConnectionEnd_estimate r =
     1 + sol_sz_lendelim (length (ced_ClientId r)) +
     (\<Sum>v\<leftarrow>ced_Versions r. 1 + sol_sz_lendelim (Version_estimate v)) +
     (1 + sol_sz_varint (unat (ced_State r))) +
     (1 + sol_sz_lendelim (Counterparty_estimate (ced_Counterparty r))) +
     (1 + sol_sz_varint (unat (ced_DelayPeriod r)))"

definition ChannelCounterparty_estimate :: "ChannelCounterpartyData \<Rightarrow> nat" where
  "ChannelCounterparty_estimate r =
     1 + sol_sz_lendelim (length (ccd_PortId r)) + (1 + sol_sz_lendelim (length (ccd_ChannelId r)))"

definition Channel_estimate :: "ChannelData \<Rightarrow> nat" where
  "Channel_estimate r =
     1 + sol_sz_varint (unat (chd_State r)) + (1 + sol_sz_varint (unat (chd_Ordering r))) +
     (1 + sol_sz_lendelim (ChannelCounterparty_estimate (chd_Counterparty r))) +
     (\<Sum>h\<leftarrow>chd_ConnectionHops r. 1 + sol_sz_lendelim (length h)) +
     (1 + sol_sz_lendelim (length (chd_Version r)))"

subsection \<open>The varints of the two languages\<close>

lemma low_seven_bits: "(v :: 64 word) AND 127 = take_bit 7 v"
proof -
  have m: "(127 :: 64 word) = mask 7" by (simp add: mask_eq_exp_minus_1)
  show ?thesis unfolding m by (simp only: take_bit_eq_mask)
qed

lemma unat_low_seven_bits: "unat ((v :: 64 word) AND 127) = unat v mod 128"
  unfolding low_seven_bits by (simp only: unsigned_take_bit_eq) (simp add: take_bit_eq_mod)

lemma continuation_byte_nat:
  "ucast ((v :: 64 word) AND 127 OR 128) = (word_of_nat (128 + unat v mod 128) :: byte)"
proof -
  have "v AND 127 OR 128 = (v AND 127) + 128"
    by (rule disjunctive_add_eq_or [symmetric])
      (rule bit_word_eqI, simp only: bit_and_iff bit_127 bit_128, auto)
  then have "unat (v AND 127 OR 128) = 128 + unat v mod 128"
    using unat_low_seven_bits [of v] by (simp add: unat_plus_if')
  moreover have "ucast (v AND 127 OR 128) = (word_of_nat (unat (v AND 127 OR 128)) :: byte)" by simp
  ultimately show ?thesis by (simp only:)
qed

lemma sol_encode_varint_word: "sol_encode_varint (unat (v :: 64 word)) = varint_bytes v"
proof (induction v rule: varint_bytes.induct)
  case (1 v)
  have d: "unat v div 128 = unat (drop_bit 7 v)" by (simp add: unat_shift_right)
  show ?case
  proof (cases "128 \<le> v")
    case True
    then have "0 < unat v div 128" by (simp add: word_le_nat_alt div_greater_zero_iff)
    then have "sol_encode_varint (unat v) =
        word_of_nat (128 + unat v mod 128) # sol_encode_varint (unat (drop_bit 7 v))"
      by (simp only: sol_encode_varint.simps [of "unat v"] d if_True)
    with 1 True show ?thesis
      by (simp only: varint_bytes.simps [of v] continuation_byte_nat if_True)
  next
    case False
    then have "unat v < 128" by (simp add: word_le_nat_alt)
    then show ?thesis
      using False by (simp add: sol_encode_varint.simps [of "unat v"] varint_bytes.simps [of v])
  qed
qed

lemma sol_encode_varint_nat: "n < 2 ^ 64 \<Longrightarrow> sol_encode_varint n = varint_bytes (word_of_nat n)"
  using sol_encode_varint_word [of "word_of_nat n"]
  by (simp add: unsigned_of_nat take_bit_nat_eq_self)

text \<open>The fields of a message.\<close>

lemma sol_keys:
  "sol_encode_key 1 2 = [0xa]" "sol_encode_key 2 2 = [0x12]" "sol_encode_key 3 2 = [0x1a]"
  "sol_encode_key 4 2 = [0x22]" "sol_encode_key 5 2 = [0x2a]"
  "sol_encode_key 1 0 = [0x8]" "sol_encode_key 2 0 = [0x10]" "sol_encode_key 3 0 = [0x18]"
  "sol_encode_key 5 0 = [0x28]"
  by (simp_all add: sol_encode_key_def sol_encode_varint.simps)

lemma sol_bytes1: "length bs < 2 ^ 64 \<Longrightarrow> tag # sol_encode_bytes bs = enc_bytes1 tag bs"
  by (simp add: sol_encode_bytes_def enc_bytes1_def sol_encode_varint_nat)

lemma sol_nested1: "length bs < 2 ^ 64 \<Longrightarrow> tag # sol_encode_nested bs = enc_bytes1 tag bs"
  using sol_bytes1 by (simp add: sol_encode_nested_def sol_encode_bytes_def)

lemma sol_bytes:
  "length bs < 2 ^ 64 \<Longrightarrow> (if length bs \<noteq> 0 then tag # sol_encode_bytes bs else []) = enc_bytes tag bs"
  by (simp add: enc_bytes_def sol_bytes1)

lemma sol_string:
  "length s < 2 ^ 64 \<Longrightarrow>
   (if length s \<noteq> 0 then tag # sol_encode_string s else []) = enc_bytes tag (str_bytes s)"
  using sol_bytes [of "str_bytes s" tag]
  by (cases "s = []") (simp_all add: sol_encode_string_def enc_bytes_def)

lemma sol_uint: "(if v \<noteq> 0 then tag # sol_encode_uint64 v else []) = enc_uint tag v"
  by (simp add: enc_uint_def sol_encode_uint64_def sol_encode_varint_word)

lemma sol_enum:
  "(if s \<noteq> 0 then tag # sol_encode_enum (ucast (s :: 8 word)) else []) = enc_uint tag (scast (ucast s :: 32 word))"
proof -
  have "(ucast s :: 32 word) = 0 \<longleftrightarrow> s = 0"
    using unat_byte_less [of s]
    by (simp add: word_unat_eq_iff unsigned_ucast_eq take_bit_nat_eq_self)
  then show ?thesis
    using sol_uint [of "scast (ucast s :: 32 word)" tag]
    by (simp only: sol_encode_enum_def scast_eq_0_iff)
qed

lemma sol_each:
  assumes "\<And>x. x \<in> set xs \<Longrightarrow> tag # f x = enc_bytes1 tag (e x)"
  shows "(if length xs \<noteq> 0 then concat (map (\<lambda>x. [tag] @ f x) xs) else []) = enc_each tag (map e xs)"
proof -
  have "map (\<lambda>x. [tag] @ f x) xs = map (\<lambda>x. enc_bytes1 tag (e x)) xs"
    using assms by (intro map_cong) simp_all
  then have "concat (map (\<lambda>x. [tag] @ f x) xs) = enc_each tag (map e xs)"
    by (simp only: enc_each_def map_map comp_def)
  then show ?thesis by (cases "xs = []") (simp_all add: enc_each_def)
qed

subsection \<open>The messages of the two languages\<close>

lemma length_fields:
  "length bs \<le> length (enc_bytes tag bs)" "length bs \<le> length (enc_bytes1 tag bs)"
  by (simp_all add: enc_bytes_def enc_bytes1_def)

lemma length_each: "x \<in> set xs \<Longrightarrow> length x \<le> length (enc_each tag xs)"
proof -
  assume "x \<in> set xs"
  then have "size_bytes1 (length x) \<le> length (enc_each tag xs)"
    unfolding length_enc_each by (intro member_le_sum_list) simp_all
  then show ?thesis by (simp add: size_bytes1_def)
qed

definition CounterpartyData_to_PB :: "CounterpartyData \<Rightarrow> Counterparty" where
  "CounterpartyData_to_PB c =
     \<lparr>ccp_ClientId = cd_ClientId c, ccp_ConnectionId = cd_ConnectionId c,
      ccp_Prefix = Some \<lparr>mpx_KeyPrefix = mpd_KeyPrefix (cd_Prefix c)\<rparr>\<rparr>"

lemma MerklePrefix_encode_enc:
  "length (mpd_KeyPrefix p) < 2 ^ 64 \<Longrightarrow>
   MerklePrefix_encode p = MerklePrefix_enc \<lparr>mpx_KeyPrefix = mpd_KeyPrefix p\<rparr>"
  unfolding MerklePrefix_encode_def sol_keys
  by (simp only: append_Cons append_Nil sol_bytes) (simp add: MerklePrefix_enc_def)

lemma Counterparty_encode_enc:
  assumes "length (Counterparty_enc (CounterpartyData_to_PB c)) < 2 ^ 64"
  shows "Counterparty_encode c = Counterparty_enc (CounterpartyData_to_PB c)"
proof -
  let ?m = "MerklePrefix_enc \<lparr>mpx_KeyPrefix = mpd_KeyPrefix (cd_Prefix c)\<rparr>"
  have e: "Counterparty_enc (CounterpartyData_to_PB c) =
      enc_bytes 0xa (str_bytes (cd_ClientId c)) @ enc_bytes 0x12 (str_bytes (cd_ConnectionId c)) @
      enc_bytes1 0x1a ?m"
    by (simp add: Counterparty_enc_def CounterpartyData_to_PB_def enc_opt_def)
  have "length (cd_ClientId c) < 2 ^ 64" "length (cd_ConnectionId c) < 2 ^ 64" "length ?m < 2 ^ 64"
    using assms length_fields(1) [of "str_bytes (cd_ClientId c)" "0xa"]
      length_fields(1) [of "str_bytes (cd_ConnectionId c)" "0x12"] length_fields(2) [of ?m "0x1a"]
    by (simp_all add: e)
  moreover from this have "length (mpd_KeyPrefix (cd_Prefix c)) < 2 ^ 64"
    using length_fields(1) [of "mpd_KeyPrefix (cd_Prefix c)" "0xa"] by (simp add: MerklePrefix_enc_def)
  ultimately show ?thesis
    unfolding Counterparty_encode_def sol_keys e
    by (simp only: append_Cons append_Nil sol_string sol_nested1 MerklePrefix_encode_enc)
qed

lemma Version_encode_enc:
  assumes "length (Version_enc (VersionData_to_Version v)) < 2 ^ 64"
  shows "Version_encode v = Version_enc (VersionData_to_Version v)"
proof -
  have e: "Version_enc (VersionData_to_Version v) =
      enc_bytes 0xa (str_bytes (vd_Identifier v)) @ enc_each 0x12 (map str_bytes (vd_Features v))"
    by (simp add: Version_enc_def VersionData_to_Version_def)
  have "length (vd_Identifier v) < 2 ^ 64"
    using assms length_fields(1) [of "str_bytes (vd_Identifier v)" "0xa"] by (simp add: e)
  moreover have "length f < 2 ^ 64" if "f \<in> set (vd_Features v)" for f
    using assms length_each [of "str_bytes f" "map str_bytes (vd_Features v)" "0x12"] that by (simp add: e)
  then have "(if length (vd_Features v) \<noteq> 0
      then concat (map (\<lambda>f. [0x12] @ sol_encode_string f) (vd_Features v)) else []) =
      enc_each 0x12 (map str_bytes (vd_Features v))"
    by (intro sol_each) (simp add: sol_encode_string_def sol_bytes1)
  ultimately show ?thesis
    unfolding Version_encode_def sol_keys e by (simp only: append_Cons append_Nil sol_string)
qed

lemma connectionEndToPB_enc:
  "ConnectionEnd_enc (connectionEndToPB c) =
     enc_bytes 0xa (str_bytes (ced_ClientId c)) @
     enc_each 0x12 (map (\<lambda>v. Version_enc (VersionData_to_Version v)) (ced_Versions c)) @
     enc_uint 0x18 (scast (ucast (ced_State c) :: 32 word)) @
     enc_bytes1 0x22 (Counterparty_enc (CounterpartyData_to_PB (ced_Counterparty c))) @
     enc_uint 0x28 (ced_DelayPeriod c)"
  by (simp add: ConnectionEnd_enc_def connectionEndToPB_def append_versions_eq CounterpartyData_to_PB_def
      enc_opt_def comp_def)

lemma ConnectionEnd_encode_enc:
  assumes "length (ConnectionEnd_enc (connectionEndToPB c)) < 2 ^ 64" and "ced_State c < 4"
  shows "ConnectionEnd_encode c = Inr (ConnectionEnd_enc (connectionEndToPB c))"
proof -
  let ?C = "Counterparty_enc (CounterpartyData_to_PB (ced_Counterparty c))"
  let ?V = "\<lambda>v. Version_enc (VersionData_to_Version v)"
  note e = connectionEndToPB_enc [of c]
  have b: "length (ced_ClientId c) < 2 ^ 64" "length ?C < 2 ^ 64"
    using assms length_fields(1) [of "str_bytes (ced_ClientId c)" "0xa"] length_fields(2) [of ?C "0x22"]
    by (simp_all add: e)
  have "length (?V v) < 2 ^ 64" if "v \<in> set (ced_Versions c)" for v
    using assms length_each [of "?V v" "map ?V (ced_Versions c)" "0x12"] that by (simp add: e)
  then have "(if length (ced_Versions c) \<noteq> 0
      then concat (map (\<lambda>v. [0x12] @ sol_encode_nested (Version_encode v)) (ced_Versions c)) else []) =
      enc_each 0x12 (map ?V (ced_Versions c))"
    by (intro sol_each) (simp add: sol_nested1 Version_encode_enc)
  moreover have "[0x22] @ sol_encode_nested (Counterparty_encode (ced_Counterparty c)) @ t = enc_bytes1 0x22 ?C @ t" for t
    using sol_nested1 [OF b(2), of "0x22"] Counterparty_encode_enc [OF b(2)]
    by (simp only: append_assoc [symmetric] append_Cons append_Nil)
  ultimately show ?thesis
    using assms(2) b(1)
    unfolding ConnectionEnd_encode_def sol_keys e ConnectionEnd_encode_State_def
    by (simp only: if_True bindr.simps append_Cons append_Nil sol_string sol_enum sol_uint)
qed

lemma Channel_encode_enc:
  assumes "length (Channel_enc (channelToPB c)) < 2 ^ 64" and "chd_State c < 5" and "chd_Ordering c < 3"
  shows "Channel_encode c = Inr (Channel_enc (channelToPB c))"
proof -
  let ?P = "\<lparr>cpty_PortId = ccd_PortId (chd_Counterparty c), cpty_ChannelId = ccd_ChannelId (chd_Counterparty c)\<rparr>"
  have e: "Channel_enc (channelToPB c) =
      enc_uint 0x8 (scast (ucast (chd_State c) :: 32 word)) @
      enc_uint 0x10 (scast (ucast (chd_Ordering c) :: 32 word)) @
      enc_bytes1 0x1a (Channel_Counterparty_enc ?P) @
      enc_each 0x22 (map str_bytes (chd_ConnectionHops c)) @
      enc_bytes 0x2a (str_bytes (chd_Version c))"
    by (simp add: Channel_enc_def channelToPB_def)
  have b: "length (Channel_Counterparty_enc ?P) < 2 ^ 64" "length (chd_Version c) < 2 ^ 64"
    using assms(1) length_fields(1) [of "str_bytes (chd_Version c)" "0x2a"]
      length_fields(2) [of "Channel_Counterparty_enc ?P" "0x1a"]
    by (simp_all add: e)
  have "length (ccd_PortId (chd_Counterparty c)) < 2 ^ 64" "length (ccd_ChannelId (chd_Counterparty c)) < 2 ^ 64"
    using b(1) length_fields(1) [of "str_bytes (ccd_PortId (chd_Counterparty c))" "0xa"]
      length_fields(1) [of "str_bytes (ccd_ChannelId (chd_Counterparty c))" "0x12"]
    by (simp_all add: Channel_Counterparty_enc_def)
  then have P: "ChannelCounterparty_encode (chd_Counterparty c) = Channel_Counterparty_enc ?P"
    unfolding ChannelCounterparty_encode_def sol_keys
    by (simp only: append_Cons append_Nil sol_string) (simp add: Channel_Counterparty_enc_def)
  have "length h < 2 ^ 64" if "h \<in> set (chd_ConnectionHops c)" for h
    using assms(1) length_each [of "str_bytes h" "map str_bytes (chd_ConnectionHops c)" "0x22"] that
    by (simp add: e)
  then have "(if length (chd_ConnectionHops c) \<noteq> 0
      then concat (map (\<lambda>h. [0x22] @ sol_encode_string h) (chd_ConnectionHops c)) else []) =
      enc_each 0x22 (map str_bytes (chd_ConnectionHops c))"
    by (intro sol_each) (simp add: sol_encode_string_def sol_bytes1)
  moreover have "[0x1a] @ sol_encode_nested (ChannelCounterparty_encode (chd_Counterparty c)) @ t =
      enc_bytes1 0x1a (Channel_Counterparty_enc ?P) @ t" for t
    using sol_nested1 [OF b(1), of "0x1a"]
    by (simp only: P append_assoc [symmetric] append_Cons append_Nil)
  ultimately show ?thesis
    using assms(2,3) b(2)
    unfolding Channel_encode_def sol_keys e Channel_encode_State_def Channel_encode_Order_def
    by (simp only: if_True bindr.simps append_Cons append_Nil sol_string sol_enum sol_uint)
qed

subsection \<open>The estimates are large enough\<close>

lemma sol_sz_varint_length: "length (sol_encode_varint n) = sol_sz_varint n"
proof (induction n rule: sol_encode_varint.induct)
  case (1 n)
  then show ?case by (simp add: sol_encode_varint.simps [of n] sol_sz_varint.simps [of n])
qed

lemma sol_sz_varint_mono: "m \<le> n \<Longrightarrow> sol_sz_varint m \<le> sol_sz_varint n"
proof (induction n arbitrary: m rule: sol_sz_varint.induct)
  case (1 n)
  show ?case
  proof (cases "0 < m div 128")
    case True
    moreover from "1.prems" have le: "m div 128 \<le> n div 128" by (rule div_le_mono)
    ultimately have n: "0 < n div 128" by simp
    from "1.IH" [OF n le] True n show ?thesis
      by (simp only: sol_sz_varint.simps [of m] sol_sz_varint.simps [of n] if_True Suc_le_mono)
  next
    case False
    then show ?thesis by (simp add: sol_sz_varint.simps [of m] sol_sz_varint.simps [of n])
  qed
qed

lemma sol_sz_lendelim_mono: "m \<le> n \<Longrightarrow> m + sol_sz_varint m \<le> sol_sz_lendelim n"
  using sol_sz_varint_mono [of m n] by (simp add: sol_sz_lendelim_def)

lemma estimate_fields:
  "length (if length bs \<noteq> 0 then tag # sol_encode_bytes bs else []) \<le> 1 + sol_sz_lendelim (length bs)"
  "length (if length s \<noteq> 0 then tag # sol_encode_string s else []) \<le> 1 + sol_sz_lendelim (length s)"
  "length (if v \<noteq> 0 then tag # sol_encode_uint64 v else []) \<le> 1 + sol_sz_varint (unat v)"
  by (simp_all add: sol_encode_bytes_def sol_encode_string_def sol_encode_uint64_def sol_sz_lendelim_def
      sol_sz_varint_length)

lemma scast_ucast_byte: "(scast (ucast (s :: 8 word) :: 32 word) :: 64 word) = ucast s"
  by (rule bit_word_eqI) (simp add: bit_signed_iff bit_unsigned_iff min_def, auto dest: bit_imp_le_length)

lemma estimate_enum:
  "length (if s \<noteq> 0 then tag # sol_encode_enum (ucast (s :: 8 word)) else []) \<le> 1 + sol_sz_varint (unat s)"
proof -
  have "unat (ucast s :: 64 word) = unat s"
    using unat_byte_less [of s] by (simp add: unsigned_ucast_eq take_bit_nat_eq_self)
  then show ?thesis
    by (simp add: sol_encode_enum_def sol_encode_uint64_def scast_ucast_byte sol_sz_varint_length)
qed

lemma estimate_nested:
  "length bs \<le> n \<Longrightarrow> length (tag # sol_encode_nested bs) \<le> 1 + sol_sz_lendelim n"
  using sol_sz_lendelim_mono [of "length bs" n] by (simp add: sol_encode_nested_def sol_sz_varint_length)

lemma estimate_each:
  assumes "\<And>x. x \<in> set xs \<Longrightarrow> length ([tag] @ f x) \<le> g x"
  shows "length (if length xs \<noteq> 0 then concat (map (\<lambda>x. [tag] @ f x) xs) else []) \<le> (\<Sum>x\<leftarrow>xs. g x)"
proof -
  have "length (concat (map (\<lambda>x. [tag] @ f x) xs)) \<le> (\<Sum>x\<leftarrow>xs. g x)"
    using assms
  proof (induction xs)
    case (Cons x xs)
    then have "length ([tag] @ f x) \<le> g x" "length (concat (map (\<lambda>x. [tag] @ f x) xs)) \<le> (\<Sum>x\<leftarrow>xs. g x)"
      by (simp_all del: append_Cons)
    then show ?case by simp
  qed simp
  then show ?thesis by (cases "xs = []") simp_all
qed

lemma MerklePrefix_estimate_enough: "length (MerklePrefix_encode p) \<le> MerklePrefix_estimate p"
  unfolding MerklePrefix_encode_def MerklePrefix_estimate_def sol_keys append_Cons append_Nil
  by (rule estimate_fields)

lemma Counterparty_estimate_enough: "length (Counterparty_encode c) \<le> Counterparty_estimate c"
proof -
  note f = estimate_fields(2) [of "cd_ClientId c" "0xa"] estimate_fields(2) [of "cd_ConnectionId c" "0x12"]
    estimate_nested [OF MerklePrefix_estimate_enough [of "cd_Prefix c"], of "0x1a"]
  show ?thesis
    unfolding Counterparty_encode_def Counterparty_estimate_def sol_keys append_Cons append_Nil length_append
    using f by linarith
qed

lemma Version_estimate_enough: "length (Version_encode v) \<le> Version_estimate v"
proof -
  have "length (if length (vd_Features v) \<noteq> 0
      then concat (map (\<lambda>f. [0x12] @ sol_encode_string f) (vd_Features v)) else []) \<le>
      (\<Sum>f\<leftarrow>vd_Features v. 1 + sol_sz_lendelim (length f))"
    by (rule estimate_each)
      (simp add: sol_encode_string_def sol_encode_bytes_def sol_sz_lendelim_def sol_sz_varint_length)
  with estimate_fields(2) [of "vd_Identifier v" "0xa"] show ?thesis
    unfolding Version_encode_def Version_estimate_def sol_keys append_Cons append_Nil length_append
    by linarith
qed

lemma ConnectionEnd_estimate_enough:
  assumes "ConnectionEnd_encode c = Inr bs"
  shows "length bs \<le> ConnectionEnd_estimate c"
proof -
  have "length (if length (ced_Versions c) \<noteq> 0
      then concat (map (\<lambda>v. [0x12] @ sol_encode_nested (Version_encode v)) (ced_Versions c)) else []) \<le>
      (\<Sum>v\<leftarrow>ced_Versions c. 1 + sol_sz_lendelim (Version_estimate v))"
    using estimate_nested [OF Version_estimate_enough] by (intro estimate_each) simp
  moreover have lt: "ced_State c < 4"
    using assms by (auto simp: ConnectionEnd_encode_def ConnectionEnd_encode_State_def result_simps split: if_splits)
  then have "bs =
      (if length (ced_ClientId c) \<noteq> 0 then 0xa # sol_encode_string (ced_ClientId c) else []) @
      (if length (ced_Versions c) \<noteq> 0
       then concat (map (\<lambda>v. [0x12] @ sol_encode_nested (Version_encode v)) (ced_Versions c)) else []) @
      (if ced_State c \<noteq> 0 then 0x18 # sol_encode_enum (ucast (ced_State c)) else []) @
      (0x22 # sol_encode_nested (Counterparty_encode (ced_Counterparty c))) @
      (if ced_DelayPeriod c \<noteq> 0 then 0x28 # sol_encode_uint64 (ced_DelayPeriod c) else [])"
    using assms unfolding ConnectionEnd_encode_def ConnectionEnd_encode_State_def if_P [OF lt] bindr.simps sol_keys
    by (simp only: sum.inject append_Cons append_Nil)
  ultimately show ?thesis
    using estimate_fields(2) [of "ced_ClientId c" "0xa"] estimate_enum [of "ced_State c" "0x18"]
      estimate_nested [OF Counterparty_estimate_enough [of "ced_Counterparty c"], of "0x22"]
      estimate_fields(3) [of "ced_DelayPeriod c" "0x28"]
    by (simp only: length_append ConnectionEnd_estimate_def)
qed

lemma ChannelCounterparty_estimate_enough:
  "length (ChannelCounterparty_encode c) \<le> ChannelCounterparty_estimate c"
  using estimate_fields(2) [of "ccd_PortId c" "0xa"] estimate_fields(2) [of "ccd_ChannelId c" "0x12"]
  unfolding ChannelCounterparty_encode_def ChannelCounterparty_estimate_def sol_keys append_Cons append_Nil
    length_append
  by linarith

lemma Channel_estimate_enough:
  assumes "Channel_encode c = Inr bs"
  shows "length bs \<le> Channel_estimate c"
proof -
  have "length (if length (chd_ConnectionHops c) \<noteq> 0
      then concat (map (\<lambda>h. [0x22] @ sol_encode_string h) (chd_ConnectionHops c)) else []) \<le>
      (\<Sum>h\<leftarrow>chd_ConnectionHops c. 1 + sol_sz_lendelim (length h))"
    by (rule estimate_each)
      (simp add: sol_encode_string_def sol_encode_bytes_def sol_sz_lendelim_def sol_sz_varint_length)
  moreover have lt: "chd_State c < 5" "chd_Ordering c < 3"
    using assms by (auto simp: Channel_encode_def Channel_encode_State_def Channel_encode_Order_def
        result_simps split: if_splits)
  then have "bs =
      (if chd_State c \<noteq> 0 then 0x8 # sol_encode_enum (ucast (chd_State c)) else []) @
      (if chd_Ordering c \<noteq> 0 then 0x10 # sol_encode_enum (ucast (chd_Ordering c)) else []) @
      (0x1a # sol_encode_nested (ChannelCounterparty_encode (chd_Counterparty c))) @
      (if length (chd_ConnectionHops c) \<noteq> 0
       then concat (map (\<lambda>h. [0x22] @ sol_encode_string h) (chd_ConnectionHops c)) else []) @
      (if length (chd_Version c) \<noteq> 0 then 0x2a # sol_encode_string (chd_Version c) else [])"
    using assms unfolding Channel_encode_def Channel_encode_State_def Channel_encode_Order_def
      if_P [OF lt(1)] if_P [OF lt(2)] bindr.simps sol_keys
    by (simp only: sum.inject append_Cons append_Nil)
  ultimately show ?thesis
    using estimate_enum [of "chd_State c" "0x8"] estimate_enum [of "chd_Ordering c" "0x10"]
      estimate_nested [OF ChannelCounterparty_estimate_enough [of "chd_Counterparty c"], of "0x1a"]
      estimate_fields(2) [of "chd_Version c" "0x2a"]
    by (simp only: length_append Channel_estimate_def)
qed

subsection \<open>Properties\<close>

text \<open>
  C31: the contract and the relayer encode a connection end to the same bytes: for every
  connection in a state of the enum (whose encoding fits a Go slice) \<^verbatim>\<open>ConnectionEnd.encode\<close>
  does not revert, stays within the buffer \<^verbatim>\<open>_estimate\<close> reserves, and gives what
  \<^verbatim>\<open>proto.Marshal(connectionEndToPB(conn))\<close> gives. So the SHA-256 the relayer submits as a
  proof to the mock client is the hash the contract computes.
\<close>

theorem ConnectionEnd_encode_Marshal:
  assumes "ced_State c < 4" and "ConnectionEnd_Size (connectionEndToPB c) < 2 ^ 63"
  shows "\<exists>bs. ConnectionEnd_encode c = Inr bs \<and> ConnectionEnd_Marshal (connectionEndToPB c) = Inr bs \<and>
    length bs \<le> ConnectionEnd_estimate c"
proof -
  have "length (ConnectionEnd_enc (connectionEndToPB c)) < 2 ^ 64"
    using assms(2) by (simp add: cend_codec.size_enc)
  then have "ConnectionEnd_encode c = Inr (ConnectionEnd_enc (connectionEndToPB c))"
    using assms(1) by (rule ConnectionEnd_encode_enc)
  with ConnectionEnd_estimate_enough [OF this] show ?thesis
    by (simp add: ConnectionEnd_Marshal_enc)
qed

definition example_conn_data :: ConnectionEndData where
  "example_conn_data =
     \<lparr>ced_ClientId = ''c'', ced_Versions = [\<lparr>vd_Identifier = ''1'', vd_Features = []\<rparr>], ced_State = 3,
      ced_Counterparty = \<lparr>cd_ClientId = [], cd_ConnectionId = [], cd_Prefix = \<lparr>mpd_KeyPrefix = [105]\<rparr>\<rparr>,
      ced_DelayPeriod = 0\<rparr>"

lemma ConnectionEnd_encode_Marshal_witness:
  "ConnectionEnd_encode example_conn_data =
     Inr [10, 1, 99, 18, 3, 10, 1, 49, 24, 3, 34, 5, 26, 3, 10, 1, 105] \<and>
   ConnectionEnd_Marshal (connectionEndToPB example_conn_data) =
     Inr [10, 1, 99, 18, 3, 10, 1, 49, 24, 3, 34, 5, 26, 3, 10, 1, 105]"
proof -
  have "ced_State example_conn_data < 4" by (simp add: example_conn_data_def)
  moreover have "ConnectionEnd_Size (connectionEndToPB example_conn_data) < 2 ^ 63"
    by (simp add: example_conn_data_def connectionEndToPB_def VersionData_to_Version_def ConnectionEnd_Size_def
        Version_Size_def Counterparty_Size_def MerklePrefix_Size_def size_eval)
  ultimately obtain bs where "ConnectionEnd_encode example_conn_data = Inr bs"
      "ConnectionEnd_Marshal (connectionEndToPB example_conn_data) = Inr bs"
    using ConnectionEnd_encode_Marshal by blast
  moreover have "ConnectionEnd_Marshal (connectionEndToPB example_conn_data) =
      Inr [10, 1, 99, 18, 3, 10, 1, 49, 24, 3, 34, 5, 26, 3, 10, 1, 105]"
    by (simp add: ConnectionEnd_Marshal_enc connectionEndToPB_enc example_conn_data_def Version_enc_def
        Counterparty_enc_def MerklePrefix_enc_def CounterpartyData_to_PB_def VersionData_to_Version_def
        enc_bytes_def enc_bytes1_def enc_each_def enc_opt_def enc_uint_def varint_bytes.simps word_le_nat_alt
        str_bytes_def char_byte_def)
  ultimately show ?thesis by simp
qed

text \<open>
  The same for channel ends: \<^verbatim>\<open>Channel.encode\<close> in the contract and
  \<^verbatim>\<open>proto.Marshal(channelToPB(ch))\<close> in the relayer.
\<close>

theorem Channel_encode_Marshal:
  assumes "chd_State c < 5" and "chd_Ordering c < 3" and "Channel_Size (channelToPB c) < 2 ^ 63"
  shows "\<exists>bs. Channel_encode c = Inr bs \<and> Channel_Marshal (channelToPB c) = Inr bs \<and>
    length bs \<le> Channel_estimate c"
proof -
  have "length (Channel_enc (channelToPB c)) < 2 ^ 64"
    using assms(3) by (simp add: chan_codec.size_enc)
  then have "Channel_encode c = Inr (Channel_enc (channelToPB c))"
    using assms(1,2) by (rule Channel_encode_enc)
  with Channel_estimate_enough [OF this] show ?thesis
    by (simp add: Channel_Marshal_enc)
qed

definition example_chan_data :: ChannelData where
  "example_chan_data =
     \<lparr>chd_State = 1, chd_Ordering = 1, chd_Counterparty = \<lparr>ccd_PortId = ''p'', ccd_ChannelId = []\<rparr>,
      chd_ConnectionHops = [''c''], chd_Version = ''v''\<rparr>"

lemma Channel_encode_Marshal_witness:
  "Channel_encode example_chan_data =
     Inr [8, 1, 16, 1, 26, 3, 10, 1, 112, 34, 1, 99, 42, 1, 118] \<and>
   Channel_Marshal (channelToPB example_chan_data) =
     Inr [8, 1, 16, 1, 26, 3, 10, 1, 112, 34, 1, 99, 42, 1, 118]"
proof -
  have "chd_State example_chan_data < 5" "chd_Ordering example_chan_data < 3"
    by (simp_all add: example_chan_data_def)
  moreover have "Channel_Size (channelToPB example_chan_data) < 2 ^ 63"
    by (simp add: example_chan_data_def channelToPB_def Channel_Size_def Channel_Counterparty_Size_def size_eval)
  ultimately obtain bs where "Channel_encode example_chan_data = Inr bs"
      "Channel_Marshal (channelToPB example_chan_data) = Inr bs"
    using Channel_encode_Marshal by blast
  moreover have "Channel_Marshal (channelToPB example_chan_data) =
      Inr [8, 1, 16, 1, 26, 3, 10, 1, 112, 34, 1, 99, 42, 1, 118]"
    by (simp add: Channel_Marshal_enc channelToPB_def example_chan_data_def Channel_enc_def
        Channel_Counterparty_enc_def enc_bytes_def enc_bytes1_def enc_each_def enc_uint_def
        varint_bytes.simps word_le_nat_alt str_bytes_def char_byte_def)
  ultimately show ?thesis by simp
qed

end
