(* ===== verification/IBC_Host.thy ===== *)
theory IBC_Host
  imports IBC_Identifier Sol_Proto
begin

text \<open>
  \<^verbatim>\<open>contracts/core/IBCHost.sol\<close>: the storage of the IBC store and its accessors. Every mapping
  is a total function with the default of its type outside the keys written. A call takes
  the environment (whose sender the access check looks at), the arguments and the storage;
  one that changes storage returns the storage it leaves, or fails.

  The theory also holds the identifier generators with the decimal printer \<^verbatim>\<open>uint2str\<close>, and the
  frame facts of the setters.
\<close>

subsection \<open>Storage\<close>

datatype host_event =
  GeneratedClientIdentifier string
| GeneratedConnectionIdentifier string
| GeneratedChannelIdentifier string

record host =
  commitments :: "byte list \<Rightarrow> byte list"
  clientRegistry :: "string \<Rightarrow> address"
  clientTypes :: "string \<Rightarrow> string"
  clientStates :: "string \<Rightarrow> byte list"
  consensusStates :: "string \<Rightarrow> 64 word \<Rightarrow> byte list"
  connections :: "string \<Rightarrow> ConnectionEndData"
  channels :: "string \<Rightarrow> string \<Rightarrow> ChannelData"
  nextSequenceSends :: "string \<Rightarrow> string \<Rightarrow> 64 word"
  nextSequenceRecvs :: "string \<Rightarrow> string \<Rightarrow> 64 word"
  nextSequenceAcks :: "string \<Rightarrow> string \<Rightarrow> 64 word"
  packetReceipts :: "string \<Rightarrow> string \<Rightarrow> 64 word \<Rightarrow> bool"
  capabilities :: "byte list \<Rightarrow> address list"
  nextClientSequence :: "64 word"
  nextConnectionSequence :: "64 word"
  nextChannelSequence :: "64 word"
  events :: "host_event list"
  host_owner :: address
  ibcModule :: address

definition CounterpartyData_zero :: CounterpartyData where
  "CounterpartyData_zero = \<lparr>cd_ClientId = [], cd_ConnectionId = [], cd_Prefix = \<lparr>mpd_KeyPrefix = []\<rparr>\<rparr>"

definition ConnectionEndData_zero :: ConnectionEndData where
  "ConnectionEndData_zero = \<lparr>ced_ClientId = [], ced_Versions = [], ced_State = 0,
     ced_Counterparty = CounterpartyData_zero, ced_DelayPeriod = 0\<rparr>"

definition ChannelData_zero :: ChannelData where
  "ChannelData_zero = \<lparr>chd_State = 0, chd_Ordering = 0,
     chd_Counterparty = \<lparr>ccd_PortId = [], ccd_ChannelId = []\<rparr>, chd_ConnectionHops = [], chd_Version = []\<rparr>"

text \<open>The constructor: zeroed storage, owned by the deployer.\<close>

definition host_constructor :: "'z env_scheme \<Rightarrow> host" where
  "host_constructor E =
     \<lparr>commitments = (\<lambda>_. zero32), clientRegistry = (\<lambda>_. 0), clientTypes = (\<lambda>_. []),
      clientStates = (\<lambda>_. []), consensusStates = (\<lambda>_ _. []), connections = (\<lambda>_. ConnectionEndData_zero),
      channels = (\<lambda>_ _. ChannelData_zero), nextSequenceSends = (\<lambda>_ _. 0), nextSequenceRecvs = (\<lambda>_ _. 0),
      nextSequenceAcks = (\<lambda>_ _. 0), packetReceipts = (\<lambda>_ _ _. False), capabilities = (\<lambda>_. []),
      nextClientSequence = 0, nextConnectionSequence = 0, nextChannelSequence = 0, events = [],
      host_owner = msg_sender E, ibcModule = 0\<rparr>"

subsection \<open>Access\<close>

definition setIBCModule :: "'z env_scheme \<Rightarrow> address \<Rightarrow> host \<Rightarrow> sol_error + host" where
  "setIBCModule E m h =
     bindr (require (msg_sender E = host_owner h) (Revert [])) (\<lambda>_. Inr (h\<lparr>ibcModule := m\<rparr>))"

definition onlyIBCModule :: "'z env_scheme \<Rightarrow> host \<Rightarrow> sol_error + unit" where
  "onlyIBCModule E h = require (msg_sender E = ibcModule h) (Revert [])"

subsection \<open>Clients\<close>

definition setClientImpl :: "'z env_scheme \<Rightarrow> string \<Rightarrow> address \<Rightarrow> host \<Rightarrow> sol_error + host" where
  "setClientImpl E clientType clientImpl h =
     bindr (onlyIBCModule E h) (\<lambda>_.
     bindr (require (clientRegistry h clientType = 0) (Revert ''clientImpl already exists'')) (\<lambda>_.
     Inr (h\<lparr>clientRegistry := (clientRegistry h)(clientType := clientImpl)\<rparr>)))"

definition getClientImpl :: "string \<Rightarrow> host \<Rightarrow> address \<times> bool" where
  "getClientImpl clientType h = (clientRegistry h clientType, clientRegistry h clientType \<noteq> 0)"

definition setClientType :: "'z env_scheme \<Rightarrow> string \<Rightarrow> string \<Rightarrow> host \<Rightarrow> sol_error + host" where
  "setClientType E clientId clientType h =
     bindr (onlyIBCModule E h) (\<lambda>_.
     bindr (require (length (clientTypes h clientId) = 0) (Revert ''clientId already exists'')) (\<lambda>_.
     bindr (require (0 < length clientType) (Revert ''clientType must not be empty string'')) (\<lambda>_.
     Inr (h\<lparr>clientTypes := (clientTypes h)(clientId := clientType)\<rparr>))))"

definition getClientType :: "string \<Rightarrow> host \<Rightarrow> string" where
  "getClientType clientId h = clientTypes h clientId"

definition setClientState :: "'z env_scheme \<Rightarrow> string \<Rightarrow> byte list \<Rightarrow> host \<Rightarrow> sol_error + host" where
  "setClientState E clientId clientStateBytes h =
     bindr (onlyIBCModule E h) (\<lambda>_.
     Inr (h\<lparr>clientStates := (clientStates h)(clientId := clientStateBytes),
            commitments := (commitments h)(clientCommitmentKey E clientId := keccak256 E clientStateBytes)\<rparr>))"

definition getClientState :: "string \<Rightarrow> host \<Rightarrow> byte list \<times> bool" where
  "getClientState clientId h = (clientStates h clientId, 0 < length (clientStates h clientId))"

definition setConsensusState ::
  "'z env_scheme \<Rightarrow> string \<Rightarrow> 64 word \<Rightarrow> byte list \<Rightarrow> host \<Rightarrow> sol_error + host"
where
  "setConsensusState E clientId height consensusStateBytes h =
     bindr (onlyIBCModule E h) (\<lambda>_.
     Inr (h\<lparr>consensusStates :=
              (consensusStates h)(clientId := (consensusStates h clientId)(height := consensusStateBytes)),
            commitments :=
              (commitments h)(consensusCommitmentKey E clientId height := keccak256 E consensusStateBytes)\<rparr>))"

definition getConsensusState :: "string \<Rightarrow> 64 word \<Rightarrow> host \<Rightarrow> byte list \<times> bool" where
  "getConsensusState clientId height h =
     (consensusStates h clientId height, 0 < length (consensusStates h clientId height))"

subsection \<open>Connections and channels\<close>

text \<open>
  The loop of \<^verbatim>\<open>setConnection\<close> that pushes the versions counts in a \<^verbatim>\<open>uint8\<close>. The fuel is the
  gas of the call: 256 iterations suffice exactly when the loop ends at all, because the
  counter is back at 0 after that many (\<open>push_versions_small\<close>, \<open>push_versions_large\<close> below).
\<close>

fun push_versions :: "nat \<Rightarrow> 8 word \<Rightarrow> VersionData list \<Rightarrow> VersionData list \<Rightarrow> sol_error + VersionData list" where
  "push_versions 0 i vs acc = Inl Out_of_gas"
| "push_versions (Suc fuel) i vs acc =
     (if unat i < length vs then push_versions fuel (i + 1) vs (acc @ [vs ! unat i]) else Inr acc)"

definition setConnection :: "'z env_scheme \<Rightarrow> string \<Rightarrow> ConnectionEndData \<Rightarrow> host \<Rightarrow> sol_error + host" where
  "setConnection E connectionId connection h =
     bindr (onlyIBCModule E h) (\<lambda>_.
     bindr (push_versions 257 0 (ced_Versions connection) []) (\<lambda>versions.
     bindr (bubble (ConnectionEnd_encode connection)) (\<lambda>bz.
     Inr (h\<lparr>connections := (connections h)(connectionId :=
              \<lparr>ced_ClientId = ced_ClientId connection, ced_Versions = versions,
               ced_State = ced_State connection, ced_Counterparty = ced_Counterparty connection,
               ced_DelayPeriod = ced_DelayPeriod connection\<rparr>),
            commitments := (commitments h)(connectionCommitmentKey E connectionId := keccak256 E bz)\<rparr>))))"

definition getConnection :: "string \<Rightarrow> host \<Rightarrow> ConnectionEndData \<times> bool" where
  "getConnection connectionId h = (connections h connectionId, ced_State (connections h connectionId) \<noteq> 0)"

definition setChannel :: "'z env_scheme \<Rightarrow> string \<Rightarrow> string \<Rightarrow> ChannelData \<Rightarrow> host \<Rightarrow> sol_error + host" where
  "setChannel E portId channelId channel h =
     bindr (onlyIBCModule E h) (\<lambda>_.
     bindr (bubble (Channel_encode channel)) (\<lambda>bz.
     Inr (h\<lparr>channels := (channels h)(portId := (channels h portId)(channelId := channel)),
            commitments := (commitments h)(channelCommitmentKey E portId channelId := keccak256 E bz)\<rparr>)))"

definition getChannel :: "string \<Rightarrow> string \<Rightarrow> host \<Rightarrow> ChannelData \<times> bool" where
  "getChannel portId channelId h = (channels h portId channelId, chd_State (channels h portId channelId) \<noteq> 0)"

subsection \<open>Packets\<close>

definition setNextSequenceSend ::
  "'z env_scheme \<Rightarrow> string \<Rightarrow> string \<Rightarrow> 64 word \<Rightarrow> host \<Rightarrow> sol_error + host"
where
  "setNextSequenceSend E portId channelId sequence h =
     bindr (onlyIBCModule E h) (\<lambda>_.
     Inr (h\<lparr>nextSequenceSends :=
       (nextSequenceSends h)(portId := (nextSequenceSends h portId)(channelId := sequence))\<rparr>))"

definition getNextSequenceSend :: "string \<Rightarrow> string \<Rightarrow> host \<Rightarrow> 64 word" where
  "getNextSequenceSend portId channelId h = nextSequenceSends h portId channelId"

definition setNextSequenceRecv ::
  "'z env_scheme \<Rightarrow> string \<Rightarrow> string \<Rightarrow> 64 word \<Rightarrow> host \<Rightarrow> sol_error + host"
where
  "setNextSequenceRecv E portId channelId sequence h =
     bindr (onlyIBCModule E h) (\<lambda>_.
     Inr (h\<lparr>nextSequenceRecvs :=
       (nextSequenceRecvs h)(portId := (nextSequenceRecvs h portId)(channelId := sequence))\<rparr>))"

definition getNextSequenceRecv :: "string \<Rightarrow> string \<Rightarrow> host \<Rightarrow> 64 word" where
  "getNextSequenceRecv portId channelId h = nextSequenceRecvs h portId channelId"

definition setNextSequenceAck ::
  "'z env_scheme \<Rightarrow> string \<Rightarrow> string \<Rightarrow> 64 word \<Rightarrow> host \<Rightarrow> sol_error + host"
where
  "setNextSequenceAck E portId channelId sequence h =
     bindr (onlyIBCModule E h) (\<lambda>_.
     Inr (h\<lparr>nextSequenceAcks :=
       (nextSequenceAcks h)(portId := (nextSequenceAcks h portId)(channelId := sequence))\<rparr>))"

definition getNextSequenceAck :: "string \<Rightarrow> string \<Rightarrow> host \<Rightarrow> 64 word" where
  "getNextSequenceAck portId channelId h = nextSequenceAcks h portId channelId"

definition makePacketCommitment :: "PacketData \<Rightarrow> byte list" where
  "makePacketCommitment packet =
     sha256 (be64 (pd_TimeoutTimestamp packet) @ be64 (hd_RevisionNumber (pd_TimeoutHeight packet)) @
       be64 (hd_RevisionHeight (pd_TimeoutHeight packet)) @ sha256 (pd_Data packet))"

definition setPacketCommitment ::
  "'z env_scheme \<Rightarrow> string \<Rightarrow> string \<Rightarrow> 64 word \<Rightarrow> PacketData \<Rightarrow> host \<Rightarrow> sol_error + host"
where
  "setPacketCommitment E portId channelId sequence packet h =
     bindr (onlyIBCModule E h) (\<lambda>_.
     Inr (h\<lparr>commitments := (commitments h)
       (packetCommitmentKey E portId channelId sequence := makePacketCommitment packet)\<rparr>))"

definition deletePacketCommitment ::
  "'z env_scheme \<Rightarrow> string \<Rightarrow> string \<Rightarrow> 64 word \<Rightarrow> host \<Rightarrow> sol_error + host"
where
  "deletePacketCommitment E portId channelId sequence h =
     bindr (onlyIBCModule E h) (\<lambda>_.
     Inr (h\<lparr>commitments := (commitments h)(packetCommitmentKey E portId channelId sequence := zero32)\<rparr>))"

definition getPacketCommitment ::
  "'z env_scheme \<Rightarrow> string \<Rightarrow> string \<Rightarrow> 64 word \<Rightarrow> host \<Rightarrow> byte list \<times> bool"
where
  "getPacketCommitment E portId channelId sequence h =
     (let commitment = commitments h (packetCommitmentKey E portId channelId sequence)
      in (commitment, commitment \<noteq> zero32))"

definition makePacketAcknowledgementCommitment :: "byte list \<Rightarrow> byte list" where
  "makePacketAcknowledgementCommitment acknowledgement = sha256 acknowledgement"

definition setPacketAcknowledgementCommitment ::
  "'z env_scheme \<Rightarrow> string \<Rightarrow> string \<Rightarrow> 64 word \<Rightarrow> byte list \<Rightarrow> host \<Rightarrow> sol_error + host"
where
  "setPacketAcknowledgementCommitment E portId channelId sequence acknowledgement h =
     bindr (onlyIBCModule E h) (\<lambda>_.
     Inr (h\<lparr>commitments := (commitments h)(packetAcknowledgementCommitmentKey E portId channelId sequence :=
       makePacketAcknowledgementCommitment acknowledgement)\<rparr>))"

definition getPacketAcknowledgementCommitment ::
  "'z env_scheme \<Rightarrow> string \<Rightarrow> string \<Rightarrow> 64 word \<Rightarrow> host \<Rightarrow> byte list \<times> bool"
where
  "getPacketAcknowledgementCommitment E portId channelId sequence h =
     (let commitment = commitments h (packetAcknowledgementCommitmentKey E portId channelId sequence)
      in (commitment, commitment \<noteq> zero32))"

definition setPacketReceipt ::
  "'z env_scheme \<Rightarrow> string \<Rightarrow> string \<Rightarrow> 64 word \<Rightarrow> host \<Rightarrow> sol_error + host"
where
  "setPacketReceipt E portId channelId sequence h =
     bindr (onlyIBCModule E h) (\<lambda>_.
     Inr (h\<lparr>packetReceipts := (packetReceipts h)(portId := (packetReceipts h portId)
       (channelId := (packetReceipts h portId channelId)(sequence := True)))\<rparr>))"

definition hasPacketReceipt :: "string \<Rightarrow> string \<Rightarrow> 64 word \<Rightarrow> host \<Rightarrow> bool" where
  "hasPacketReceipt portId channelId sequence h = packetReceipts h portId channelId sequence"

subsection \<open>Capabilities\<close>

text \<open>
  The loops over the owners of a name count in a \<^verbatim>\<open>uint32\<close>; an array of \<open>2^32\<close> owners, where
  the counter would wrap, cannot be filled with one storage write per transaction of a block
  chain's lifetime, and the loops are written as what they decide.
\<close>

definition claimCapability :: "'z env_scheme \<Rightarrow> byte list \<Rightarrow> address \<Rightarrow> host \<Rightarrow> sol_error + host" where
  "claimCapability E name addr h =
     bindr (onlyIBCModule E h) (\<lambda>_.
     bindr (require (\<forall>a \<in> set (capabilities h name). a \<noteq> addr) (Revert [])) (\<lambda>_.
     Inr (h\<lparr>capabilities := (capabilities h)(name := capabilities h name @ [addr])\<rparr>)))"

definition authenticateCapability :: "'z env_scheme \<Rightarrow> byte list \<Rightarrow> address \<Rightarrow> host \<Rightarrow> sol_error + bool" where
  "authenticateCapability E name addr h =
     bindr (onlyIBCModule E h) (\<lambda>_. Inr (\<exists>a \<in> set (capabilities h name). a = addr))"

definition getModuleOwner :: "byte list \<Rightarrow> host \<Rightarrow> address \<times> bool" where
  "getModuleOwner name h =
     (if length (capabilities h name) = 0 then (0, False) else (capabilities h name ! 0, True))"

subsection \<open>Identifiers\<close>

function uint2str_len :: "64 word \<Rightarrow> 64 word \<Rightarrow> 64 word" where
  "uint2str_len j len = (if j \<noteq> 0 then uint2str_len (j div 10) (len + 1) else len)"
  by pat_completeness auto
termination
proof (relation "measure (\<lambda>(j, len). unat j)")
  fix j len :: "64 word" assume "j \<noteq> 0"
  then have "0 < unat j" by (simp add: unat_gt_0)
  then show "((j div 10, len + 1), (j, len)) \<in> measure (\<lambda>(j, len). unat j)" by (simp add: unat_div)
qed simp

function uint2str_fill :: "64 word \<Rightarrow> 64 word \<Rightarrow> byte list \<Rightarrow> sol_error + byte list" where
  "uint2str_fill i k bstr =
     (if i \<noteq> 0 then
        let k' = k - 1;
            temp = 48 + (ucast (i - i div 10 * 10) :: 8 word)
        in if unat k' < length bstr then uint2str_fill (i div 10) k' (bstr[unat k' := temp])
           else Inl Invalid
      else Inr bstr)"
  by pat_completeness auto
termination
proof (relation "measure (\<lambda>(i, k, bstr). unat i)")
  fix i k k' :: "64 word" and bstr :: "byte list" and temp assume "i \<noteq> 0"
  then have "0 < unat i" by (simp add: unat_gt_0)
  then show "((i div 10, k', bstr[unat k' := temp]), (i, k, bstr)) \<in> measure (\<lambda>(i, k, bstr). unat i)"
    by (simp add: unat_div)
qed simp

declare uint2str_len.simps [simp del] uint2str_fill.simps [simp del]

definition uint2str :: "64 word \<Rightarrow> sol_error + string" where
  "uint2str i =
     (if i = 0 then Inr ''0''
      else let len = uint2str_len i 0
           in bindr (uint2str_fill i len (replicate (unat len) 0)) (\<lambda>bstr. Inr (bytes_str bstr)))"

definition generateClientIdentifier :: "'z env_scheme \<Rightarrow> string \<Rightarrow> host \<Rightarrow> sol_error + string \<times> host" where
  "generateClientIdentifier E clientType h =
     bindr (onlyIBCModule E h) (\<lambda>_.
     bindr (uint2str (nextClientSequence h)) (\<lambda>s.
     let identifier = clientType @ ''-'' @ s
     in Inr (identifier, h\<lparr>nextClientSequence := nextClientSequence h + 1,
          events := events h @ [GeneratedClientIdentifier identifier]\<rparr>)))"

definition generateConnectionIdentifier :: "'z env_scheme \<Rightarrow> host \<Rightarrow> sol_error + string \<times> host" where
  "generateConnectionIdentifier E h =
     bindr (onlyIBCModule E h) (\<lambda>_.
     bindr (uint2str (nextConnectionSequence h)) (\<lambda>s.
     let identifier = ''connection-'' @ s
     in Inr (identifier, h\<lparr>nextConnectionSequence := nextConnectionSequence h + 1,
          events := events h @ [GeneratedConnectionIdentifier identifier]\<rparr>)))"

definition generateChannelIdentifier :: "'z env_scheme \<Rightarrow> host \<Rightarrow> sol_error + string \<times> host" where
  "generateChannelIdentifier E h =
     bindr (onlyIBCModule E h) (\<lambda>_.
     bindr (uint2str (nextChannelSequence h)) (\<lambda>s.
     let identifier = ''channel-'' @ s
     in Inr (identifier, h\<lparr>nextChannelSequence := nextChannelSequence h + 1,
          events := events h @ [GeneratedChannelIdentifier identifier]\<rparr>)))"

subsection \<open>The decimal printer\<close>

fun digits :: "nat \<Rightarrow> string" where
  "digits n = (if n = 0 then [] else dec n)"

declare digits.simps [simp del]

lemma digits_0 [simp]: "digits 0 = []"
  by (simp add: digits.simps)

lemma digits_step: "0 < n \<Longrightarrow> digits n = digits (n div 10) @ [digit (n mod 10)]"
  by (subst (1 2) digits.simps) (auto simp: dec.simps [of n])

lemma length_digits: "n < 10 ^ k \<Longrightarrow> length (digits n) \<le> k"
proof (induction k arbitrary: n)
  case (Suc k)
  then have "n div 10 < 10 ^ k" by (simp add: div_less_iff_less_mult)
  with Suc.IH [of "n div 10"] show ?case by (cases "n = 0") (simp_all add: digits_step)
qed simp

lemma length_digits_word: "length (digits (unat (i :: 64 word))) \<le> 20"
proof -
  have "unat i < 10 ^ 20" using unsigned_less [of i, where ?'a = nat] by simp
  then show ?thesis by (rule length_digits)
qed

lemma unat_ten: "unat ((j :: 64 word) div 10) = unat j div 10" "unat (j mod 10) = unat j mod 10"
proof -
  have "unat (10 :: 64 word) = 10" by simp
  then show "unat (j div 10) = unat j div 10" "unat (j mod 10) = unat j mod 10"
    by (simp_all only: unat_div unat_mod)
qed

lemma uint2str_len_eq: "uint2str_len j len = len + word_of_nat (length (digits (unat j)))"
proof (induction j len rule: uint2str_len.induct)
  case (1 j len)
  show ?case
  proof (cases "j = 0")
    case False
    then have "0 < unat j" by (simp add: unat_gt_0)
    with 1 False show ?thesis
      by (subst uint2str_len.simps) (simp add: digits_step unat_ten add.commute add.left_commute)
  qed (simp add: uint2str_len.simps)
qed

lemma unat_word_of_nat_small: "n < 2 ^ 64 \<Longrightarrow> unat (word_of_nat n :: 64 word) = n"
  by (simp add: unat_of_nat take_bit_nat_eq_self)

lemma digit_word: "48 + (ucast ((i :: 64 word) - i div 10 * 10) :: 8 word) = char_byte (digit (unat i mod 10))"
proof -
  have "i - i div 10 * 10 = i mod 10" by (simp add: minus_div_mult_eq_mod)
  moreover have "(ucast w :: 8 word) = word_of_nat (unat w)" for w :: "64 word" by simp
  ultimately have "48 + (ucast (i - i div 10 * 10) :: 8 word) = word_of_nat (48 + unat i mod 10)"
    by (simp only: unat_ten of_nat_add) simp
  moreover have "of_char (digit (unat i mod 10)) = 48 + unat i mod 10"
    by (simp add: digit_def)
  ultimately show ?thesis by (simp only: char_byte_def)
qed

lemma uint2str_fill_eq:
  "length (digits (unat i)) \<le> length bstr \<Longrightarrow> length bstr < 2 ^ 64 \<Longrightarrow>
   uint2str_fill i (word_of_nat (length (digits (unat i)))) bstr =
     Inr (str_bytes (digits (unat i)) @ drop (length (digits (unat i))) bstr)"
proof (induction i "word_of_nat (length (digits (unat i))) :: 64 word" bstr rule: uint2str_fill.induct)
  case (1 i bstr)
  show ?case
  proof (cases "i = 0")
    case True
    then show ?thesis by (simp add: uint2str_fill.simps str_bytes_def)
  next
    case False
    then have "0 < unat i" by (simp add: unat_gt_0)
    then have d: "digits (unat i) = digits (unat (i div 10)) @ [digit (unat i mod 10)]"
      by (simp add: digits_step unat_ten)
    let ?m = "length (digits (unat (i div 10)))"
    have k: "word_of_nat (length (digits (unat i))) - 1 = (word_of_nat ?m :: 64 word)"
      by (simp add: d)
    have m: "?m < length bstr" using 1(2) by (simp add: d)
    then have u: "unat (word_of_nat ?m :: 64 word) = ?m" using 1(3) by (simp add: unat_word_of_nat_small)
    let ?b = "bstr[?m := char_byte (digit (unat i mod 10))]"
    have "uint2str_fill (i div 10) (word_of_nat ?m) ?b = Inr (str_bytes (digits (unat (i div 10))) @ drop ?m ?b)"
      using 1(1) [OF False _ refl] 1(3) m by (simp add: k u digit_word)
    moreover have "drop ?m ?b = char_byte (digit (unat i mod 10)) # drop (Suc ?m) bstr"
      using m by (simp add: drop_update_swap Cons_nth_drop_Suc [symmetric])
    ultimately show ?thesis
      using False m by (subst uint2str_fill.simps) (simp add: Let_def k u digit_word d str_bytes_def)
  qed
qed

text \<open>The printer never fails and writes the decimal representation.\<close>

lemma uint2str_dec: "uint2str i = Inr (dec (unat i))"
proof (cases "i = 0")
  case False
  then have "0 < unat i" by (simp add: unat_gt_0)
  then have d: "digits (unat i) = dec (unat i)" by (simp add: digits.simps)
  have l: "length (digits (unat i)) \<le> 20" by (rule length_digits_word)
  then have u: "unat (word_of_nat (length (digits (unat i))) :: 64 word) = length (digits (unat i))"
    by (intro unat_word_of_nat_small) simp
  have "uint2str_fill i (word_of_nat (length (digits (unat i)))) (replicate (length (digits (unat i))) 0) =
      Inr (str_bytes (digits (unat i)))"
    using uint2str_fill_eq [of i "replicate (length (digits (unat i))) 0"] l by simp
  with False show ?thesis
    using u unfolding d by (simp add: uint2str_def uint2str_len_eq d Let_def)
next
  case True
  moreover have "CHR ''0'' = digit 0" by code_simp
  ultimately show ?thesis by (simp add: uint2str_def dec.simps)
qed

subsection \<open>What the calls do\<close>

lemma onlyIBCModule_Inr [result_simps]: "onlyIBCModule E h = Inr u \<longleftrightarrow> msg_sender E = ibcModule h"
  by (simp add: onlyIBCModule_def result_simps)

text \<open>The uint8 loop copies up to 255 versions and never ends on more, whatever the gas.\<close>

lemma push_versions_small:
  "length vs \<le> 255 \<Longrightarrow> unat i \<le> length vs \<Longrightarrow> length vs - unat i < fuel \<Longrightarrow>
   push_versions fuel i vs acc = Inr (acc @ drop (unat i) vs)"
proof (induction fuel arbitrary: i acc)
  case (Suc fuel)
  show ?case
  proof (cases "unat i < length vs")
    case True
    then have "unat (i + 1) = Suc (unat i)" using Suc.prems(1) by (simp add: unat_word_ariths)
    with True Suc show ?thesis by (simp add: Cons_nth_drop_Suc [symmetric])
  qed (use Suc in simp)
qed simp

lemma push_versions_large: "255 < length vs \<Longrightarrow> push_versions fuel i vs acc = Inl Out_of_gas"
proof (induction fuel arbitrary: i acc)
  case (Suc fuel)
  have "unat i < 256" using unsigned_less [of i, where ?'a = nat] by simp
  with Suc show ?case by simp
qed simp

lemma push_versions_Inr: "push_versions 257 0 vs [] = Inr vs' \<longleftrightarrow> length vs \<le> 255 \<and> vs' = vs"
  using push_versions_small [of vs 0 257 "[]"] push_versions_large [of vs 257 0 "[]"]
  by (cases "length vs \<le> 255") auto

lemma setConnection_Inr [result_simps]:
  "setConnection E c conn h = Inr h' \<longleftrightarrow>
     msg_sender E = ibcModule h \<and> length (ced_Versions conn) \<le> 255 \<and>
     (\<exists>bz. ConnectionEnd_encode conn = Inr bz \<and>
       h' = h\<lparr>connections := (connections h)(c := conn),
              commitments := (commitments h)(connectionCommitmentKey E c := keccak256 E bz)\<rparr>)"
  by (cases conn) (auto simp: setConnection_def result_simps push_versions_Inr)

lemma setChannel_Inr [result_simps]:
  "setChannel E p c ch h = Inr h' \<longleftrightarrow>
     msg_sender E = ibcModule h \<and>
     (\<exists>bz. Channel_encode ch = Inr bz \<and>
       h' = h\<lparr>channels := (channels h)(p := (channels h p)(c := ch)),
              commitments := (commitments h)(channelCommitmentKey E p c := keccak256 E bz)\<rparr>)"
  by (auto simp: setChannel_def result_simps)

text \<open>The identifiers generated, by counter.\<close>

definition client_id :: "string \<Rightarrow> nat \<Rightarrow> string" where
  "client_id clientType k = clientType @ ''-'' @ dec k"

definition conn_id :: "nat \<Rightarrow> string" where
  "conn_id k = ''connection-'' @ dec k"

definition chan_id :: "nat \<Rightarrow> string" where
  "chan_id k = ''channel-'' @ dec k"

lemma id_inject [simp]: "conn_id j = conn_id k \<longleftrightarrow> j = k" "chan_id j = chan_id k \<longleftrightarrow> j = k"
  by (simp_all add: conn_id_def chan_id_def dec_inject)

lemma chan_id_no_slash: "CHR ''/'' \<notin> set (chan_id k)"
  using dec_no_sep [of "CHR ''/''" k] by (auto simp: chan_id_def)

lemma generate_Inr [result_simps]:
  "generateClientIdentifier E t h = Inr (i, h') \<longleftrightarrow>
     msg_sender E = ibcModule h \<and> i = client_id t (unat (nextClientSequence h)) \<and>
     h' = h\<lparr>nextClientSequence := nextClientSequence h + 1, events := events h @ [GeneratedClientIdentifier i]\<rparr>"
  "generateConnectionIdentifier E h = Inr (i, h') \<longleftrightarrow>
     msg_sender E = ibcModule h \<and> i = conn_id (unat (nextConnectionSequence h)) \<and>
     h' = h\<lparr>nextConnectionSequence := nextConnectionSequence h + 1,
            events := events h @ [GeneratedConnectionIdentifier i]\<rparr>"
  "generateChannelIdentifier E h = Inr (i, h') \<longleftrightarrow>
     msg_sender E = ibcModule h \<and> i = chan_id (unat (nextChannelSequence h)) \<and>
     h' = h\<lparr>nextChannelSequence := nextChannelSequence h + 1, events := events h @ [GeneratedChannelIdentifier i]\<rparr>"
  by (auto simp: generateClientIdentifier_def generateConnectionIdentifier_def generateChannelIdentifier_def
      result_simps uint2str_dec Let_def client_id_def conn_id_def chan_id_def)

text \<open>The remaining setters succeed exactly for the IBC module (and their own checks).\<close>

lemma setters_Inr [result_simps]:
  "setClientImpl E t a h = Inr h' \<longleftrightarrow> msg_sender E = ibcModule h \<and> clientRegistry h t = 0 \<and>
     h' = h\<lparr>clientRegistry := (clientRegistry h)(t := a)\<rparr>"
  "setClientType E i t h = Inr h' \<longleftrightarrow> msg_sender E = ibcModule h \<and> clientTypes h i = [] \<and> t \<noteq> [] \<and>
     h' = h\<lparr>clientTypes := (clientTypes h)(i := t)\<rparr>"
  "setClientState E i bs h = Inr h' \<longleftrightarrow> msg_sender E = ibcModule h \<and>
     h' = h\<lparr>clientStates := (clientStates h)(i := bs),
            commitments := (commitments h)(clientCommitmentKey E i := keccak256 E bs)\<rparr>"
  "setConsensusState E i n bs h = Inr h' \<longleftrightarrow> msg_sender E = ibcModule h \<and>
     h' = h\<lparr>consensusStates := (consensusStates h)(i := (consensusStates h i)(n := bs)),
            commitments := (commitments h)(consensusCommitmentKey E i n := keccak256 E bs)\<rparr>"
  "setNextSequenceSend E p c n h = Inr h' \<longleftrightarrow> msg_sender E = ibcModule h \<and>
     h' = h\<lparr>nextSequenceSends := (nextSequenceSends h)(p := (nextSequenceSends h p)(c := n))\<rparr>"
  "setNextSequenceRecv E p c n h = Inr h' \<longleftrightarrow> msg_sender E = ibcModule h \<and>
     h' = h\<lparr>nextSequenceRecvs := (nextSequenceRecvs h)(p := (nextSequenceRecvs h p)(c := n))\<rparr>"
  "setNextSequenceAck E p c n h = Inr h' \<longleftrightarrow> msg_sender E = ibcModule h \<and>
     h' = h\<lparr>nextSequenceAcks := (nextSequenceAcks h)(p := (nextSequenceAcks h p)(c := n))\<rparr>"
  "setPacketCommitment E p c n pkt h = Inr h' \<longleftrightarrow> msg_sender E = ibcModule h \<and>
     h' = h\<lparr>commitments := (commitments h)(packetCommitmentKey E p c n := makePacketCommitment pkt)\<rparr>"
  "deletePacketCommitment E p c n h = Inr h' \<longleftrightarrow> msg_sender E = ibcModule h \<and>
     h' = h\<lparr>commitments := (commitments h)(packetCommitmentKey E p c n := zero32)\<rparr>"
  "setPacketAcknowledgementCommitment E p c n ack h = Inr h' \<longleftrightarrow> msg_sender E = ibcModule h \<and>
     h' = h\<lparr>commitments := (commitments h)(packetAcknowledgementCommitmentKey E p c n :=
       makePacketAcknowledgementCommitment ack)\<rparr>"
  "setPacketReceipt E p c n h = Inr h' \<longleftrightarrow> msg_sender E = ibcModule h \<and>
     h' = h\<lparr>packetReceipts := (packetReceipts h)(p := (packetReceipts h p)
       (c := (packetReceipts h p c)(n := True)))\<rparr>"
  "claimCapability E name a h = Inr h' \<longleftrightarrow> msg_sender E = ibcModule h \<and> a \<notin> set (capabilities h name) \<and>
     h' = h\<lparr>capabilities := (capabilities h)(name := capabilities h name @ [a])\<rparr>"
  by (auto simp: setClientImpl_def setClientType_def setClientState_def setConsensusState_def
      setNextSequenceSend_def setNextSequenceRecv_def setNextSequenceAck_def setPacketCommitment_def
      deletePacketCommitment_def setPacketAcknowledgementCommitment_def setPacketReceipt_def
      claimCapability_def result_simps)

subsection \<open>The accessors of the code\<close>

interpretation client_state: accessor "setClientState E" "\<lambda>i h. fst (getClientState i h)"
  by unfold_locales (auto simp: result_simps getClientState_def)

interpretation consensus_state:
  accessor "\<lambda>(i, n). setConsensusState E i n" "\<lambda>(i, n) h. fst (getConsensusState i n h)"
  by unfold_locales (auto simp: result_simps getConsensusState_def split: if_splits)

interpretation connection: accessor "setConnection E" "\<lambda>c h. fst (getConnection c h)"
  by unfold_locales (auto simp: result_simps getConnection_def)

interpretation channel: accessor "\<lambda>(p, c). setChannel E p c" "\<lambda>(p, c) h. fst (getChannel p c h)"
  by unfold_locales (auto simp: result_simps getChannel_def split: if_splits)

interpretation seq_send:
  accessor "\<lambda>(p, c). setNextSequenceSend E p c" "\<lambda>(p, c). getNextSequenceSend p c"
  by unfold_locales (auto simp: result_simps getNextSequenceSend_def split: if_splits)

interpretation seq_recv:
  accessor "\<lambda>(p, c). setNextSequenceRecv E p c" "\<lambda>(p, c). getNextSequenceRecv p c"
  by unfold_locales (auto simp: result_simps getNextSequenceRecv_def split: if_splits)

interpretation seq_ack:
  accessor "\<lambda>(p, c). setNextSequenceAck E p c" "\<lambda>(p, c). getNextSequenceAck p c"
  by unfold_locales (auto simp: result_simps getNextSequenceAck_def split: if_splits)

end
