(* ===== verification/IBC_Msgs.thy ===== *)
theory IBC_Msgs
  imports Contract_Types
begin

text \<open>
  The datagrams of \<^verbatim>\<open>contracts/core/IBCMsgs.sol\<close>, the arguments of the handler's entry points;
  field by field also the Go structs \<^verbatim>\<open>IBCMsgsMsg...\<close> of the binding \<^verbatim>\<open>pkg/contract/ibchandler\<close>,
  which the relayer fills.
\<close>

record MsgCreateClient =
  mcc_clientType :: string
  mcc_height :: "64 word"
  mcc_clientStateBytes :: "byte list"
  mcc_consensusStateBytes :: "byte list"

record MsgUpdateClient =
  muc_clientId :: string
  muc_header :: "byte list"

record MsgConnectionOpenInit =
  mci_clientId :: string
  mci_counterparty :: CounterpartyData
  mci_delayPeriod :: "64 word"

record MsgConnectionOpenTry =
  mct_previousConnectionId :: string
  mct_counterparty :: CounterpartyData
  mct_delayPeriod :: "64 word"
  mct_clientId :: string
  mct_clientStateBytes :: "byte list"
  mct_counterpartyVersions :: "VersionData list"
  mct_proofInit :: "byte list"
  mct_proofClient :: "byte list"
  mct_proofConsensus :: "byte list"
  mct_proofHeight :: "64 word"
  mct_consensusHeight :: "64 word"

record MsgConnectionOpenAck =
  mca_connectionId :: string
  mca_clientStateBytes :: "byte list"
  mca_version :: VersionData
  mca_counterpartyConnectionID :: string
  mca_proofTry :: "byte list"
  mca_proofClient :: "byte list"
  mca_proofConsensus :: "byte list"
  mca_proofHeight :: "64 word"
  mca_consensusHeight :: "64 word"

record MsgConnectionOpenConfirm =
  mco_connectionId :: string
  mco_proofAck :: "byte list"
  mco_proofHeight :: "64 word"

record MsgChannelOpenInit =
  mhi_portId :: string
  mhi_channel :: ChannelData

record MsgChannelOpenTry =
  mht_portId :: string
  mht_previousChannelId :: string
  mht_channel :: ChannelData
  mht_counterpartyVersion :: string
  mht_proofInit :: "byte list"
  mht_proofHeight :: "64 word"

record MsgChannelOpenAck =
  mha_portId :: string
  mha_channelId :: string
  mha_counterpartyVersion :: string
  mha_counterpartyChannelId :: string
  mha_proofTry :: "byte list"
  mha_proofHeight :: "64 word"

record MsgChannelOpenConfirm =
  mho_portId :: string
  mho_channelId :: string
  mho_proofAck :: "byte list"
  mho_proofHeight :: "64 word"

record MsgPacketRecv =
  mpr_packet :: PacketData
  mpr_proof :: "byte list"
  mpr_proofHeight :: "64 word"

record MsgPacketAcknowledgement =
  mpa_packet :: PacketData
  mpa_acknowledgement :: "byte list"
  mpa_proof :: "byte list"
  mpa_proofHeight :: "64 word"

end
