(* ===== verification/IBC_Client.thy ===== *)
theory IBC_Client
  imports IBC_Host IBC_Msgs
begin

text \<open>
  \<^verbatim>\<open>contracts/core/IClient.sol\<close> and \<^verbatim>\<open>IBCClient.sol\<close>: the interface of a light client contract
  and the client operations of the handler. A light client only has view functions, so it
  reads the host and returns; it is found by the address registered for its type. A call to
  an address without code reverts.

  The library functions run in the context of the contract that calls them: in their
  environment \<open>msg_sender\<close> is what the host sees, the handler's address.
\<close>

record iclient =
  ic_getTimestampAtHeight :: "host \<Rightarrow> string \<Rightarrow> 64 word \<Rightarrow> sol_error + 64 word \<times> bool"
  ic_getLatestHeight :: "host \<Rightarrow> string \<Rightarrow> sol_error + 64 word \<times> bool"
  ic_checkHeaderAndUpdateState ::
    "host \<Rightarrow> string \<Rightarrow> byte list \<Rightarrow> byte list \<Rightarrow> sol_error + byte list \<times> byte list \<times> 64 word"
  ic_verifyClientState ::
    "host \<Rightarrow> string \<Rightarrow> 64 word \<Rightarrow> byte list \<Rightarrow> string \<Rightarrow> byte list \<Rightarrow> byte list \<Rightarrow> sol_error + bool"
  ic_verifyClientConsensusState ::
    "host \<Rightarrow> string \<Rightarrow> 64 word \<Rightarrow> string \<Rightarrow> 64 word \<Rightarrow> byte list \<Rightarrow> byte list \<Rightarrow> byte list \<Rightarrow> sol_error + bool"
  ic_verifyConnectionState ::
    "host \<Rightarrow> string \<Rightarrow> 64 word \<Rightarrow> byte list \<Rightarrow> byte list \<Rightarrow> string \<Rightarrow> byte list \<Rightarrow> sol_error + bool"
  ic_verifyChannelState ::
    "host \<Rightarrow> string \<Rightarrow> 64 word \<Rightarrow> byte list \<Rightarrow> byte list \<Rightarrow> string \<Rightarrow> string \<Rightarrow> byte list \<Rightarrow> sol_error + bool"
  ic_verifyPacketCommitment ::
    "host \<Rightarrow> string \<Rightarrow> 64 word \<Rightarrow> byte list \<Rightarrow> byte list \<Rightarrow> string \<Rightarrow> string \<Rightarrow> 64 word \<Rightarrow> byte list \<Rightarrow> sol_error + bool"
  ic_verifyPacketAcknowledgement ::
    "host \<Rightarrow> string \<Rightarrow> 64 word \<Rightarrow> byte list \<Rightarrow> byte list \<Rightarrow> string \<Rightarrow> string \<Rightarrow> 64 word \<Rightarrow> byte list \<Rightarrow> sol_error + bool"

record cenv = env +
  iclients :: "address \<Rightarrow> iclient option"

definition client_at :: "'z cenv_scheme \<Rightarrow> address \<Rightarrow> sol_error + iclient" where
  "client_at E addr = (case iclients E addr of None \<Rightarrow> Inl (Revert []) | Some c \<Rightarrow> Inr c)"

subsection \<open>\<^verbatim>\<open>IBCClient\<close>\<close>

definition getClientByType :: "string \<Rightarrow> host \<Rightarrow> address \<times> bool" where
  "getClientByType clientType h =
     (let (addr, found) = getClientImpl clientType h in if \<not> found then (0, False) else (addr, True))"

definition getClient :: "'z cenv_scheme \<Rightarrow> string \<Rightarrow> host \<Rightarrow> sol_error + iclient" where
  "getClient E clientId h =
     (let (clientImpl, found) = getClientByType (getClientType clientId h) h
      in bindr (require found (Revert ''clientImpl not found'')) (\<lambda>_. client_at E clientImpl))"

definition createClient :: "'z cenv_scheme \<Rightarrow> MsgCreateClient \<Rightarrow> host \<Rightarrow> sol_error + host" where
  "createClient E m h =
     bindr (onlyIBCModule E h) (\<lambda>_.
     bindr (require (snd (getClientByType (mcc_clientType m) h)) (Revert ''unregistered client type'')) (\<lambda>_.
     bindr (generateClientIdentifier E (mcc_clientType m) h) (\<lambda>(clientId, h).
     bindr (setClientType E clientId (mcc_clientType m) h) (\<lambda>h.
     bindr (setClientState E clientId (mcc_clientStateBytes m) h) (\<lambda>h.
     setConsensusState E clientId (mcc_height m) (mcc_consensusStateBytes m) h)))))"

definition updateClient :: "'z cenv_scheme \<Rightarrow> MsgUpdateClient \<Rightarrow> host \<Rightarrow> sol_error + host" where
  "updateClient E m h =
     bindr (onlyIBCModule E h) (\<lambda>_.
     let (clientStateBytes, found) = getClientState (muc_clientId m) h in
     bindr (require found (Revert ''clientState not found'')) (\<lambda>_.
     bindr (getClient E (muc_clientId m) h) (\<lambda>client.
     bindr (ic_checkHeaderAndUpdateState client h (muc_clientId m) clientStateBytes (muc_header m))
       (\<lambda>(clientStateBytes, consensusStateBytes, height).
     bindr (setClientState E (muc_clientId m) clientStateBytes h) (\<lambda>h.
     setConsensusState E (muc_clientId m) height consensusStateBytes h)))))"

definition validateSelfClient :: "byte list \<Rightarrow> bool" where
  "validateSelfClient clientStateBytes = True"

definition registerClient :: "'z env_scheme \<Rightarrow> string \<Rightarrow> address \<Rightarrow> host \<Rightarrow> sol_error + host" where
  "registerClient E clientType client h =
     bindr (onlyIBCModule E h) (\<lambda>_. setClientImpl E clientType client h)"

lemma client_at_Inr [result_simps]: "client_at E a = Inr c \<longleftrightarrow> iclients E a = Some c"
  by (auto simp: client_at_def split: option.splits)

lemma getClient_Inr [result_simps]:
  "getClient E i h = Inr c \<longleftrightarrow>
     clientRegistry h (clientTypes h i) \<noteq> 0 \<and> iclients E (clientRegistry h (clientTypes h i)) = Some c"
  by (auto simp: getClient_def getClientByType_def getClientImpl_def getClientType_def result_simps)

text \<open>What a successful client operation changed.\<close>

lemma createClient_Inr [result_simps]:
  "createClient E m h = Inr h' \<longleftrightarrow>
     msg_sender E = ibcModule h \<and> clientRegistry h (mcc_clientType m) \<noteq> 0 \<and> mcc_clientType m \<noteq> [] \<and>
     (let i = client_id (mcc_clientType m) (unat (nextClientSequence h)) in
      clientTypes h i = [] \<and>
      h' = h\<lparr>nextClientSequence := nextClientSequence h + 1, events := events h @ [GeneratedClientIdentifier i],
             clientTypes := (clientTypes h)(i := mcc_clientType m),
             clientStates := (clientStates h)(i := mcc_clientStateBytes m),
             consensusStates := (consensusStates h)(i := (consensusStates h i)(mcc_height m := mcc_consensusStateBytes m)),
             commitments := (commitments h)(clientCommitmentKey E i := keccak256 E (mcc_clientStateBytes m),
               consensusCommitmentKey E i (mcc_height m) := keccak256 E (mcc_consensusStateBytes m))\<rparr>)"
  by (auto simp: createClient_def getClientByType_def getClientImpl_def result_simps Let_def)

lemma updateClient_Inr:
  "updateClient E m h = Inr h' \<longleftrightarrow>
     msg_sender E = ibcModule h \<and> clientStates h (muc_clientId m) \<noteq> [] \<and>
     (\<exists>c cs cons n. getClient E (muc_clientId m) h = Inr c \<and>
       ic_checkHeaderAndUpdateState c h (muc_clientId m) (clientStates h (muc_clientId m)) (muc_header m) =
         Inr (cs, cons, n) \<and>
       h' = h\<lparr>clientStates := (clientStates h)(muc_clientId m := cs),
              consensusStates := (consensusStates h)(muc_clientId m := (consensusStates h (muc_clientId m))(n := cons)),
              commitments := (commitments h)(clientCommitmentKey E (muc_clientId m) := keccak256 E cs,
                consensusCommitmentKey E (muc_clientId m) n := keccak256 E cons)\<rparr>)"
  by (auto simp: updateClient_def getClientState_def result_simps Let_def)

end
