(* ===== verification/IBC_Connection.thy ===== *)
theory IBC_Connection
  imports IBC_Client
begin

text \<open>
  \<^verbatim>\<open>contracts/core/IBCConnection.sol\<close>: the connection handshake of the handler and the
  verification calls that go through a connection's light client. A connection state is a
  \<^verbatim>\<open>uint8\<close>: 0 uninitialised, 1 INIT, 2 TRYOPEN, 3 OPEN.
\<close>

definition commitmentPrefix :: string where
  "commitmentPrefix = ''ibc''"

abbreviation STATE_UNINITIALIZED :: "8 word" where "STATE_UNINITIALIZED \<equiv> 0"
abbreviation STATE_INIT :: "8 word" where "STATE_INIT \<equiv> 1"
abbreviation STATE_TRYOPEN :: "8 word" where "STATE_TRYOPEN \<equiv> 2"
abbreviation STATE_OPEN :: "8 word" where "STATE_OPEN \<equiv> 3"

subsection \<open>Versions\<close>

definition getVersions :: "VersionData list" where
  "getVersions = [\<lparr>vd_Identifier = ''1'', vd_Features = [''ORDER_ORDERED'', ''ORDER_UNORDERED'']\<rparr>]"

definition isSupportedVersion :: "VersionData \<Rightarrow> bool" where
  "isSupportedVersion proposedVersion = True"

definition isEqualVersion :: "'z env_scheme \<Rightarrow> VersionData \<Rightarrow> VersionData \<Rightarrow> bool" where
  "isEqualVersion E a b = (keccak256 E (Version_encode a) = keccak256 E (Version_encode b))"

definition makeVersionArray :: "VersionData \<Rightarrow> VersionData list" where
  "makeVersionArray version = [version]"

subsection \<open>Verification\<close>

abbreviation conn_prefix :: "ConnectionEndData \<Rightarrow> byte list" where
  "conn_prefix connection \<equiv> mpd_KeyPrefix (cd_Prefix (ced_Counterparty connection))"

definition verifyConnectionState ::
  "'z cenv_scheme \<Rightarrow> host \<Rightarrow> ConnectionEndData \<Rightarrow> 64 word \<Rightarrow> byte list \<Rightarrow> string \<Rightarrow> ConnectionEndData \<Rightarrow> sol_error + bool"
where
  "verifyConnectionState E h connection height prf connectionId counterpartyConnection =
     bindr (getClient E (ced_ClientId connection) h) (\<lambda>client.
     bindr (bubble (ConnectionEnd_encode counterpartyConnection)) (\<lambda>bz.
     ic_verifyConnectionState client h (ced_ClientId connection) height (conn_prefix connection) prf
       connectionId bz))"

definition verifyClientState ::
  "'z cenv_scheme \<Rightarrow> host \<Rightarrow> ConnectionEndData \<Rightarrow> 64 word \<Rightarrow> byte list \<Rightarrow> byte list \<Rightarrow> sol_error + bool"
where
  "verifyClientState E h connection height prf clientStateBytes =
     bindr (getClient E (ced_ClientId connection) h) (\<lambda>client.
     ic_verifyClientState client h (ced_ClientId connection) height (conn_prefix connection)
       (cd_ClientId (ced_Counterparty connection)) prf clientStateBytes)"

definition verifyClientConsensusStateWithConnection ::
  "'z cenv_scheme \<Rightarrow> host \<Rightarrow> ConnectionEndData \<Rightarrow> 64 word \<Rightarrow> 64 word \<Rightarrow> byte list \<Rightarrow> byte list \<Rightarrow> sol_error + bool"
where
  "verifyClientConsensusStateWithConnection E h connection height consensusHeight prf consensusStateBytes =
     bindr (getClient E (ced_ClientId connection) h) (\<lambda>client.
     ic_verifyClientConsensusState client h (ced_ClientId connection) height
       (cd_ClientId (ced_Counterparty connection)) consensusHeight (conn_prefix connection) prf
       consensusStateBytes)"

definition verifyChannelState ::
  "'z cenv_scheme \<Rightarrow> host \<Rightarrow> ConnectionEndData \<Rightarrow> 64 word \<Rightarrow> byte list \<Rightarrow> string \<Rightarrow> string \<Rightarrow> byte list \<Rightarrow> sol_error + bool"
where
  "verifyChannelState E h connection height prf portId channelId channelBytes =
     bindr (getClient E (ced_ClientId connection) h) (\<lambda>client.
     ic_verifyChannelState client h (ced_ClientId connection) height (conn_prefix connection) prf
       portId channelId channelBytes)"

definition verifyPacketCommitment ::
  "'z cenv_scheme \<Rightarrow> host \<Rightarrow> ConnectionEndData \<Rightarrow> 64 word \<Rightarrow> byte list \<Rightarrow> string \<Rightarrow> string \<Rightarrow> 64 word \<Rightarrow>
   byte list \<Rightarrow> sol_error + bool"
where
  "verifyPacketCommitment E h connection height prf portId channelId sequence commitmentBytes =
     bindr (getClient E (ced_ClientId connection) h) (\<lambda>client.
     ic_verifyPacketCommitment client h (ced_ClientId connection) height (conn_prefix connection) prf
       portId channelId sequence commitmentBytes)"

definition verifyPacketAcknowledgement ::
  "'z cenv_scheme \<Rightarrow> host \<Rightarrow> ConnectionEndData \<Rightarrow> 64 word \<Rightarrow> byte list \<Rightarrow> string \<Rightarrow> string \<Rightarrow> 64 word \<Rightarrow>
   byte list \<Rightarrow> sol_error + bool"
where
  "verifyPacketAcknowledgement E h connection height prf portId channelId sequence acknowledgement =
     bindr (getClient E (ced_ClientId connection) h) (\<lambda>client.
     ic_verifyPacketAcknowledgement client h (ced_ClientId connection) height (conn_prefix connection) prf
       portId channelId sequence acknowledgement)"

text \<open>\<^verbatim>\<open>require(f(...), msg)\<close> where the call itself may revert.\<close>

definition require_call :: "sol_error + bool \<Rightarrow> string \<Rightarrow> sol_error + unit" where
  "require_call r msg = bindr r (\<lambda>b. require b (Revert msg))"

lemma require_call_Inr [result_simps]: "require_call r msg = Inr u \<longleftrightarrow> r = Inr True"
  by (auto simp: require_call_def result_simps)

subsection \<open>The handshake\<close>

definition connectionOpenInit ::
  "'z cenv_scheme \<Rightarrow> MsgConnectionOpenInit \<Rightarrow> host \<Rightarrow> sol_error + string \<times> host"
where
  "connectionOpenInit E m h =
     bindr (onlyIBCModule E h) (\<lambda>_.
     let connection =
       \<lparr>ced_ClientId = mci_clientId m, ced_Versions = getVersions, ced_State = STATE_INIT,
        ced_Counterparty = mci_counterparty m, ced_DelayPeriod = mci_delayPeriod m\<rparr> in
     bindr (generateConnectionIdentifier E h) (\<lambda>(connectionId, h).
     bindr (setConnection E connectionId connection h) (\<lambda>h. Inr (connectionId, h))))"

definition connectionOpenTry ::
  "'z cenv_scheme \<Rightarrow> MsgConnectionOpenTry \<Rightarrow> host \<Rightarrow> sol_error + string \<times> host"
where
  "connectionOpenTry E m h =
     bindr (onlyIBCModule E h) (\<lambda>_.
     bindr (require (validateSelfClient (mct_clientStateBytes m))
       (Revert ''failed to validate self client state'')) (\<lambda>_.
     bindr (require (0 < length (mct_counterpartyVersions m))
       (Revert ''counterpartyVersions length must be greater than 0'')) (\<lambda>_.
     let connection =
           \<lparr>ced_ClientId = mct_clientId m, ced_Versions = getVersions, ced_State = STATE_TRYOPEN,
            ced_Counterparty = mct_counterparty m, ced_DelayPeriod = mct_delayPeriod m\<rparr>;
         expectedConnection =
           \<lparr>ced_ClientId = cd_ClientId (mct_counterparty m), ced_Versions = mct_counterpartyVersions m,
            ced_State = STATE_INIT,
            ced_Counterparty = \<lparr>cd_ClientId = mct_clientId m, cd_ConnectionId = [],
              cd_Prefix = \<lparr>mpd_KeyPrefix = str_bytes commitmentPrefix\<rparr>\<rparr>,
            ced_DelayPeriod = mct_delayPeriod m\<rparr> in
     bindr (require_call (verifyConnectionState E h connection (mct_proofHeight m) (mct_proofInit m)
         (cd_ConnectionId (mct_counterparty m)) expectedConnection) ''failed to verify connection state'') (\<lambda>_.
     bindr (require_call (verifyClientState E h connection (mct_proofHeight m) (mct_proofClient m)
         (mct_clientStateBytes m)) ''failed to verify clientState'') (\<lambda>_.
     bindr (generateConnectionIdentifier E h) (\<lambda>(connectionId, h).
     bindr (setConnection E connectionId connection h) (\<lambda>h. Inr (connectionId, h))))))))"

definition connectionOpenAck ::
  "'z cenv_scheme \<Rightarrow> MsgConnectionOpenAck \<Rightarrow> host \<Rightarrow> sol_error + host"
where
  "connectionOpenAck E m h =
     bindr (onlyIBCModule E h) (\<lambda>_.
     let (connection, found) = getConnection (mca_connectionId m) h in
     bindr (require found (Revert ''connection not found'')) (\<lambda>_.
     bindr (if ced_State connection \<noteq> STATE_INIT \<and> ced_State connection \<noteq> STATE_TRYOPEN
            then Inl (Revert ''connection state is not INIT or TRYOPEN'')
            else if ced_State connection = STATE_INIT \<and> \<not> isSupportedVersion (mca_version m)
            then Inl (Revert ''connection state is in INIT but the provided version is not supported'')
            else if ced_State connection = STATE_TRYOPEN \<and>
                (length (ced_Versions connection) \<noteq> 1 \<or>
                 \<not> isEqualVersion E (ced_Versions connection ! 0) (mca_version m))
            then Inl (Revert ''connection state is in TRYOPEN but the provided version is not set in the previous connection versions'')
            else Inr ()) (\<lambda>_.
     bindr (require (validateSelfClient (mca_clientStateBytes m))
       (Revert ''failed to validate self client state'')) (\<lambda>_.
     let expectedCounterparty =
           \<lparr>cd_ClientId = ced_ClientId connection, cd_ConnectionId = mca_connectionId m,
            cd_Prefix = \<lparr>mpd_KeyPrefix = str_bytes commitmentPrefix\<rparr>\<rparr>;
         expectedConnection =
           \<lparr>ced_ClientId = cd_ClientId (ced_Counterparty connection),
            ced_Versions = makeVersionArray (mca_version m), ced_State = STATE_TRYOPEN,
            ced_Counterparty = expectedCounterparty, ced_DelayPeriod = ced_DelayPeriod connection\<rparr> in
     bindr (require_call (verifyConnectionState E h connection (mca_proofHeight m) (mca_proofTry m)
         (mca_counterpartyConnectionID m) expectedConnection) ''failed to verify connection state'') (\<lambda>_.
     bindr (require_call (verifyClientState E h connection (mca_proofHeight m) (mca_proofClient m)
         (mca_clientStateBytes m)) ''failed to verify clientState'') (\<lambda>_.
     setConnection E (mca_connectionId m)
       (connection\<lparr>ced_State := STATE_OPEN, ced_Versions := ced_Versions expectedConnection,
          ced_Counterparty := (ced_Counterparty connection)\<lparr>cd_ConnectionId := mca_counterpartyConnectionID m\<rparr>\<rparr>)
       h))))))"

definition connectionOpenConfirm ::
  "'z cenv_scheme \<Rightarrow> MsgConnectionOpenConfirm \<Rightarrow> host \<Rightarrow> sol_error + host"
where
  "connectionOpenConfirm E m h =
     bindr (onlyIBCModule E h) (\<lambda>_.
     let (connection, found) = getConnection (mco_connectionId m) h in
     bindr (require found (Revert ''connection not found'')) (\<lambda>_.
     bindr (require (ced_State connection = STATE_TRYOPEN) (Revert ''connection state is not TRYOPEN'')) (\<lambda>_.
     let expectedCounterparty =
           \<lparr>cd_ClientId = ced_ClientId connection, cd_ConnectionId = mco_connectionId m,
            cd_Prefix = \<lparr>mpd_KeyPrefix = str_bytes commitmentPrefix\<rparr>\<rparr>;
         expectedConnection =
           \<lparr>ced_ClientId = cd_ClientId (ced_Counterparty connection),
            ced_Versions = ced_Versions connection, ced_State = STATE_OPEN,
            ced_Counterparty = expectedCounterparty, ced_DelayPeriod = ced_DelayPeriod connection\<rparr> in
     bindr (require_call (verifyConnectionState E h connection (mco_proofHeight m) (mco_proofAck m)
         (cd_ConnectionId (ced_Counterparty connection)) expectedConnection) ''failed to verify connection state'') (\<lambda>_.
     setConnection E (mco_connectionId m) (connection\<lparr>ced_State := STATE_OPEN\<rparr>) h))))"

end
