(* ===== verification/IBC_Channel.thy ===== *)
theory IBC_Channel
  imports IBC_Connection
begin

text \<open>
  \<^verbatim>\<open>contracts/core/IBCChannel.sol\<close>: the channel handshake and the packet life cycle. A channel
  state is 1 INIT, 2 TRYOPEN, 3 OPEN, 4 CLOSED (nothing here closes a channel); an ordering is
  1 UNORDERED, 2 ORDERED. \<^verbatim>\<open>toSlice().equals\<close> compares the contents of two strings.
\<close>

abbreviation ORDER_UNORDERED :: "8 word" where "ORDER_UNORDERED \<equiv> 1"
abbreviation ORDER_ORDERED :: "8 word" where "ORDER_ORDERED \<equiv> 2"

text \<open>The sign U+2260 that the revert reasons of the sequence checks contain, in UTF-8.\<close>

definition not_equal_sign :: string where
  "not_equal_sign = bytes_str [0xe2, 0x89, 0xa0]"

definition getCounterpartyHops :: "ChannelData \<Rightarrow> host \<Rightarrow> sol_error + string list" where
  "getCounterpartyHops channel h =
     bindr (require (length (chd_ConnectionHops channel) = 1) (Revert ''connection_hops length must be 1'')) (\<lambda>_.
     let (connection, found) = getConnection (chd_ConnectionHops channel ! 0) h in
     bindr (require found (Revert ''connection not found'')) (\<lambda>_.
     Inr [cd_ConnectionId (ced_Counterparty connection)]))"

text \<open>The connection a channel runs over, its first hop.\<close>

definition channel_connection :: "ChannelData \<Rightarrow> host \<Rightarrow> sol_error + ConnectionEndData" where
  "channel_connection channel h =
     bindr (sol_index (chd_ConnectionHops channel) 0) (\<lambda>hop.
     let (connection, found) = getConnection hop h in
     bindr (require found (Revert ''connection not found'')) (\<lambda>_. Inr connection))"

text \<open>The tail of both opening steps: a fresh identifier, the channel, the three sequences at 1.\<close>

definition new_channel :: "'z cenv_scheme \<Rightarrow> string \<Rightarrow> ChannelData \<Rightarrow> host \<Rightarrow> sol_error + string \<times> host" where
  "new_channel E portId channel h =
     bindr (generateChannelIdentifier E h) (\<lambda>(channelId, h).
     bindr (setChannel E portId channelId channel h) (\<lambda>h.
     bindr (setNextSequenceSend E portId channelId 1 h) (\<lambda>h.
     bindr (setNextSequenceRecv E portId channelId 1 h) (\<lambda>h.
     bindr (setNextSequenceAck E portId channelId 1 h) (\<lambda>h.
     Inr (channelId, h))))))"

definition channelOpenInit ::
  "'z cenv_scheme \<Rightarrow> MsgChannelOpenInit \<Rightarrow> host \<Rightarrow> sol_error + string \<times> host"
where
  "channelOpenInit E m h =
     bindr (onlyIBCModule E h) (\<lambda>_.
     let channel = mhi_channel m in
     bindr (require (length (chd_ConnectionHops channel) = 1) (Revert ''connection_hops length must be 1'')) (\<lambda>_.
     bindr (channel_connection channel h) (\<lambda>connection.
     bindr (require (length (ced_Versions connection) = 1)
       (Revert ''single version must be negotiated on connection before opening channel'')) (\<lambda>_.
     bindr (require (chd_State channel = STATE_INIT) (Revert ''channel state must STATE_INIT'')) (\<lambda>_.
     new_channel E (mhi_portId m) channel h)))))"

definition channelOpenTry ::
  "'z cenv_scheme \<Rightarrow> MsgChannelOpenTry \<Rightarrow> host \<Rightarrow> sol_error + string \<times> host"
where
  "channelOpenTry E m h =
     bindr (onlyIBCModule E h) (\<lambda>_.
     let channel = mht_channel m in
     bindr (require (length (chd_ConnectionHops channel) = 1) (Revert ''connection_hops length must be 1'')) (\<lambda>_.
     bindr (channel_connection channel h) (\<lambda>connection.
     bindr (require (length (ced_Versions connection) = 1)
       (Revert ''single version must be negotiated on connection before opening channel'')) (\<lambda>_.
     bindr (require (chd_State channel = STATE_TRYOPEN) (Revert ''channel state must be STATE_TRYOPEN'')) (\<lambda>_.
     bindr (getCounterpartyHops channel h) (\<lambda>hops.
     let expectedChannel =
       \<lparr>chd_State = STATE_INIT, chd_Ordering = chd_Ordering channel,
        chd_Counterparty = \<lparr>ccd_PortId = mht_portId m, ccd_ChannelId = []\<rparr>,
        chd_ConnectionHops = hops, chd_Version = mht_counterpartyVersion m\<rparr> in
     bindr (bubble (Channel_encode expectedChannel)) (\<lambda>bz.
     bindr (require_call (verifyChannelState E h connection (mht_proofHeight m) (mht_proofInit m)
         (ccd_PortId (chd_Counterparty channel)) (ccd_ChannelId (chd_Counterparty channel)) bz)
       ''failed to verify channel state'') (\<lambda>_.
     new_channel E (mht_portId m) channel h))))))))"

definition channelOpenAck :: "'z cenv_scheme \<Rightarrow> MsgChannelOpenAck \<Rightarrow> host \<Rightarrow> sol_error + host" where
  "channelOpenAck E m h =
     bindr (onlyIBCModule E h) (\<lambda>_.
     let (channel, found) = getChannel (mha_portId m) (mha_channelId m) h in
     bindr (require found (Revert ''channel not found'')) (\<lambda>_.
     bindr (require (chd_State channel = STATE_INIT \<or> chd_State channel = STATE_TRYOPEN)
       (Revert ''invalid channel state'')) (\<lambda>_.
     bindr (channel_connection channel h) (\<lambda>connection.
     bindr (require (ced_State connection = STATE_OPEN) (Revert ''connection state is not OPEN'')) (\<lambda>_.
     bindr (getCounterpartyHops channel h) (\<lambda>hops.
     let expectedChannel =
       \<lparr>chd_State = STATE_TRYOPEN, chd_Ordering = chd_Ordering channel,
        chd_Counterparty = \<lparr>ccd_PortId = mha_portId m, ccd_ChannelId = mha_channelId m\<rparr>,
        chd_ConnectionHops = hops, chd_Version = mha_counterpartyVersion m\<rparr> in
     bindr (bubble (Channel_encode expectedChannel)) (\<lambda>bz.
     bindr (require_call (verifyChannelState E h connection (mha_proofHeight m) (mha_proofTry m)
         (ccd_PortId (chd_Counterparty channel)) (mha_counterpartyChannelId m) bz)
       ''failed to verify channel state'') (\<lambda>_.
     setChannel E (mha_portId m) (mha_channelId m)
       (channel\<lparr>chd_State := STATE_OPEN, chd_Version := mha_counterpartyVersion m,
          chd_Counterparty := (chd_Counterparty channel)\<lparr>ccd_ChannelId := mha_counterpartyChannelId m\<rparr>\<rparr>)
       h))))))))"

definition channelOpenConfirm :: "'z cenv_scheme \<Rightarrow> MsgChannelOpenConfirm \<Rightarrow> host \<Rightarrow> sol_error + host" where
  "channelOpenConfirm E m h =
     bindr (onlyIBCModule E h) (\<lambda>_.
     let (channel, found) = getChannel (mho_portId m) (mho_channelId m) h in
     bindr (require found (Revert ''channel not found'')) (\<lambda>_.
     bindr (require (chd_State channel = STATE_TRYOPEN) (Revert ''channel state is not TRYOPEN'')) (\<lambda>_.
     bindr (channel_connection channel h) (\<lambda>connection.
     bindr (require (ced_State connection = STATE_OPEN) (Revert ''connection state is not OPEN'')) (\<lambda>_.
     bindr (getCounterpartyHops channel h) (\<lambda>hops.
     let expectedChannel =
       \<lparr>chd_State = STATE_OPEN, chd_Ordering = chd_Ordering channel,
        chd_Counterparty = \<lparr>ccd_PortId = mho_portId m, ccd_ChannelId = mho_channelId m\<rparr>,
        chd_ConnectionHops = hops, chd_Version = chd_Version channel\<rparr> in
     bindr (bubble (Channel_encode expectedChannel)) (\<lambda>bz.
     bindr (require_call (verifyChannelState E h connection (mho_proofHeight m) (mho_proofAck m)
         (ccd_PortId (chd_Counterparty channel)) (ccd_ChannelId (chd_Counterparty channel)) bz)
       ''failed to verify channel state'') (\<lambda>_.
     setChannel E (mho_portId m) (mho_channelId m) (channel\<lparr>chd_State := STATE_OPEN\<rparr>) h))))))))"

subsection \<open>Packets\<close>

definition sendPacket :: "'z cenv_scheme \<Rightarrow> PacketData \<Rightarrow> host \<Rightarrow> sol_error + host" where
  "sendPacket E packet h =
     bindr (onlyIBCModule E h) (\<lambda>_.
     let (channel, found) = getChannel (pd_SourcePort packet) (pd_SourceChannel packet) h in
     bindr (require found (Revert ''channel not found'')) (\<lambda>_.
     bindr (require (chd_State channel = STATE_OPEN) (Revert ''channel state must be OPEN'')) (\<lambda>_.
     bindr (require (pd_DestinationPort packet = ccd_PortId (chd_Counterparty channel))
       (Revert ''packet destination port doesn't match the counterparty's port'')) (\<lambda>_.
     bindr (require (pd_DestinationChannel packet = ccd_ChannelId (chd_Counterparty channel))
       (Revert ''packet destination channel doesn't match the counterparty's channel'')) (\<lambda>_.
     bindr (channel_connection channel h) (\<lambda>connection.
     bindr (getClient E (ced_ClientId connection) h) (\<lambda>client.
     bindr (ic_getLatestHeight client h (ced_ClientId connection)) (\<lambda>(latestHeight, _).
     bindr (require (hd_RevisionHeight (pd_TimeoutHeight packet) = 0 \<or>
         latestHeight < hd_RevisionHeight (pd_TimeoutHeight packet))
       (Revert ''receiving chain block height >= packet timeout height'')) (\<lambda>_.
     bindr (ic_getTimestampAtHeight client h (ced_ClientId connection) latestHeight) (\<lambda>(latestTimestamp, found).
     bindr (require found (Revert ''consensusState not found'')) (\<lambda>_.
     bindr (require (pd_TimeoutTimestamp packet = 0 \<or> latestTimestamp < pd_TimeoutTimestamp packet)
       (Revert ''receiving chain block timestamp >= packet timeout timestamp'')) (\<lambda>_.
     let nextSequenceSend = getNextSequenceSend (pd_SourcePort packet) (pd_SourceChannel packet) h in
     bindr (require (0 < nextSequenceSend) (Revert ''sequenceSend not found'')) (\<lambda>_.
     bindr (require (pd_Sequence packet = nextSequenceSend)
       (Revert (''packet sequence '' @ not_equal_sign @ '' next send sequence''))) (\<lambda>_.
     bindr (setNextSequenceSend E (pd_SourcePort packet) (pd_SourceChannel packet) (nextSequenceSend + 1) h) (\<lambda>h.
     setPacketCommitment E (pd_SourcePort packet) (pd_SourceChannel packet) (pd_Sequence packet) packet
       h)))))))))))))))"

definition recvPacket :: "'z cenv_scheme \<Rightarrow> MsgPacketRecv \<Rightarrow> host \<Rightarrow> sol_error + host" where
  "recvPacket E m h =
     bindr (onlyIBCModule E h) (\<lambda>_.
     let packet = mpr_packet m;
         (channel, found) = getChannel (pd_DestinationPort packet) (pd_DestinationChannel packet) h in
     bindr (require found (Revert ''channel not found'')) (\<lambda>_.
     bindr (require (chd_State channel = STATE_OPEN) (Revert ''channel state must be OPEN'')) (\<lambda>_.
     bindr (require (pd_SourcePort packet = ccd_PortId (chd_Counterparty channel))
       (Revert ''packet source port doesn't match the counterparty's port'')) (\<lambda>_.
     bindr (require (pd_SourceChannel packet = ccd_ChannelId (chd_Counterparty channel))
       (Revert ''packet source channel doesn't match the counterparty's channel'')) (\<lambda>_.
     bindr (channel_connection channel h) (\<lambda>connection.
     bindr (require (ced_State connection = STATE_OPEN) (Revert ''connection state is not OPEN'')) (\<lambda>_.
     bindr (require (hd_RevisionHeight (pd_TimeoutHeight packet) = 0 \<or>
         block_number E < unat (hd_RevisionHeight (pd_TimeoutHeight packet)))
       (Revert ''block height >= packet timeout height'')) (\<lambda>_.
     bindr (require (pd_TimeoutTimestamp packet = 0 \<or> block_timestamp E < unat (pd_TimeoutTimestamp packet))
       (Revert ''block timestamp >= packet timeout timestamp'')) (\<lambda>_.
     let commitment = makePacketCommitment packet in
     bindr (require_call (verifyPacketCommitment E h connection (mpr_proofHeight m) (mpr_proof m)
         (pd_SourcePort packet) (pd_SourceChannel packet) (pd_Sequence packet) commitment)
       ''failed to verify packet commitment'') (\<lambda>_.
     if chd_Ordering channel = ORDER_UNORDERED then
       bindr (require (\<not> hasPacketReceipt (pd_DestinationPort packet) (pd_DestinationChannel packet)
           (pd_Sequence packet) h) (Revert ''packet sequence already has been received'')) (\<lambda>_.
       setPacketReceipt E (pd_DestinationPort packet) (pd_DestinationChannel packet) (pd_Sequence packet) h)
     else if chd_Ordering channel = ORDER_ORDERED then
       let nextSequenceRecv = getNextSequenceRecv (pd_DestinationPort packet) (pd_DestinationChannel packet) h in
       bindr (require (0 < nextSequenceRecv \<and> nextSequenceRecv = pd_Sequence packet)
         (Revert (''packet sequence '' @ not_equal_sign @ '' next receive sequence''))) (\<lambda>_.
       setNextSequenceRecv E (pd_DestinationPort packet) (pd_DestinationChannel packet) (nextSequenceRecv + 1) h)
     else Inl (Revert ''unknown ordering type'')))))))))))"

definition writeAcknowledgement ::
  "'z cenv_scheme \<Rightarrow> string \<Rightarrow> string \<Rightarrow> 64 word \<Rightarrow> byte list \<Rightarrow> host \<Rightarrow> sol_error + host"
where
  "writeAcknowledgement E destinationPortId destinationChannel sequence acknowledgement h =
     bindr (onlyIBCModule E h) (\<lambda>_.
     let (channel, found) = getChannel destinationPortId destinationChannel h in
     bindr (require found (Revert ''channel not found'')) (\<lambda>_.
     bindr (require (chd_State channel = STATE_OPEN) (Revert ''channel state must be OPEN'')) (\<lambda>_.
     let (ackHash, found) = getPacketAcknowledgementCommitment E destinationPortId destinationChannel sequence h in
     bindr (require (\<not> found) (Revert ''acknowledgement for packet already exists'')) (\<lambda>_.
     bindr (require (0 < length acknowledgement) (Revert ''acknowledgement cannot be empty'')) (\<lambda>_.
     setPacketAcknowledgementCommitment E destinationPortId destinationChannel sequence acknowledgement h)))))"

definition acknowledgePacket :: "'z cenv_scheme \<Rightarrow> MsgPacketAcknowledgement \<Rightarrow> host \<Rightarrow> sol_error + host" where
  "acknowledgePacket E m h =
     bindr (onlyIBCModule E h) (\<lambda>_.
     let packet = mpa_packet m;
         (channel, found) = getChannel (pd_SourcePort packet) (pd_SourceChannel packet) h in
     bindr (require found (Revert ''channel not found'')) (\<lambda>_.
     bindr (require (chd_State channel = STATE_OPEN) (Revert ''channel state must be OPEN'')) (\<lambda>_.
     bindr (require (pd_DestinationPort packet = ccd_PortId (chd_Counterparty channel))
       (Revert ''packet destination port doesn't match the counterparty's port'')) (\<lambda>_.
     bindr (require (pd_DestinationChannel packet = ccd_ChannelId (chd_Counterparty channel))
       (Revert ''packet destination channel doesn't match the counterparty's channel'')) (\<lambda>_.
     bindr (channel_connection channel h) (\<lambda>connection.
     bindr (require (ced_State connection = STATE_OPEN) (Revert ''connection state is not OPEN'')) (\<lambda>_.
     let (commitment, found) =
       getPacketCommitment E (pd_SourcePort packet) (pd_SourceChannel packet) (pd_Sequence packet) h in
     bindr (require found (Revert ''packet commitment not found'')) (\<lambda>_.
     bindr (require (commitment = makePacketCommitment packet) (Revert ''commitment bytes are not equal'')) (\<lambda>_.
     bindr (require_call (verifyPacketAcknowledgement E h connection (mpa_proofHeight m) (mpa_proof m)
         (pd_DestinationPort packet) (pd_DestinationChannel packet) (pd_Sequence packet) (mpa_acknowledgement m))
       ''failed to verify packet acknowledgement commitment'') (\<lambda>_.
     bindr (if chd_Ordering channel = ORDER_ORDERED then
         let nextSequenceAck = getNextSequenceAck (pd_SourcePort packet) (pd_SourceChannel packet) h in
         bindr (require (nextSequenceAck = 0) (Revert ''sequence ack not found'')) (\<lambda>_.
         bindr (require (pd_Sequence packet = nextSequenceAck)
           (Revert (''packet sequence '' @ not_equal_sign @ '' next ack sequence''))) (\<lambda>_.
         setNextSequenceAck E (pd_SourcePort packet) (pd_SourceChannel packet) (nextSequenceAck + 1) h))
       else Inr h) (\<lambda>h.
     deletePacketCommitment E (pd_SourcePort packet) (pd_SourceChannel packet) (pd_Sequence packet) h)))))))))))"

end
