(* ===== verification/IBC_Steps.thy ===== *)
theory IBC_Steps
  imports IBC_Channel
begin

text \<open>
  The host as a state machine. \<open>host_step\<close> is the concrete relation: one successful operation
  of \<^verbatim>\<open>IBCClient\<close>, \<^verbatim>\<open>IBCConnection\<close>, \<^verbatim>\<open>IBCChannel\<close> or of the host's own registry, in any
  environment (sender, block, light clients), with any arguments. \<open>host_effect\<close> is the
  abstract specification: what such an operation may do to the storage. The refinement
  \<open>host_step_effect\<close> connects them, and the invariants are proved on the effects.
\<close>

subsection \<open>Operations\<close>

inductive host_step :: "(byte list \<Rightarrow> byte list) \<Rightarrow> host \<Rightarrow> host \<Rightarrow> bool" for K where
  step_register: "keccak256 (E :: cenv) = K \<Longrightarrow> registerClient E t a h = Inr h' \<Longrightarrow> host_step K h h'"
| step_create: "keccak256 (E :: cenv) = K \<Longrightarrow> createClient E mcc h = Inr h' \<Longrightarrow> host_step K h h'"
| step_update: "keccak256 (E :: cenv) = K \<Longrightarrow> updateClient E muc h = Inr h' \<Longrightarrow> host_step K h h'"
| step_conn_init: "keccak256 (E :: cenv) = K \<Longrightarrow> connectionOpenInit E mci h = Inr (i, h') \<Longrightarrow> host_step K h h'"
| step_conn_try: "keccak256 (E :: cenv) = K \<Longrightarrow> connectionOpenTry E mct h = Inr (i, h') \<Longrightarrow> host_step K h h'"
| step_conn_ack: "keccak256 (E :: cenv) = K \<Longrightarrow> connectionOpenAck E mca h = Inr h' \<Longrightarrow> host_step K h h'"
| step_conn_confirm: "keccak256 (E :: cenv) = K \<Longrightarrow> connectionOpenConfirm E mco h = Inr h' \<Longrightarrow> host_step K h h'"
| step_chan_init: "keccak256 (E :: cenv) = K \<Longrightarrow> channelOpenInit E mhi h = Inr (i, h') \<Longrightarrow> host_step K h h'"
| step_chan_try: "keccak256 (E :: cenv) = K \<Longrightarrow> channelOpenTry E mht h = Inr (i, h') \<Longrightarrow> host_step K h h'"
| step_chan_ack: "keccak256 (E :: cenv) = K \<Longrightarrow> channelOpenAck E mha h = Inr h' \<Longrightarrow> host_step K h h'"
| step_chan_confirm: "keccak256 (E :: cenv) = K \<Longrightarrow> channelOpenConfirm E mho h = Inr h' \<Longrightarrow> host_step K h h'"
| step_send: "keccak256 (E :: cenv) = K \<Longrightarrow> sendPacket E pkt h = Inr h' \<Longrightarrow> host_step K h h'"
| step_recv: "keccak256 (E :: cenv) = K \<Longrightarrow> recvPacket E mpr h = Inr h' \<Longrightarrow> host_step K h h'"
| step_write_ack: "keccak256 (E :: cenv) = K \<Longrightarrow> writeAcknowledgement E p c n ack h = Inr h' \<Longrightarrow> host_step K h h'"
| step_ack: "keccak256 (E :: cenv) = K \<Longrightarrow> acknowledgePacket E mpa h = Inr h' \<Longrightarrow> host_step K h h'"
| step_claim: "keccak256 (E :: cenv) = K \<Longrightarrow> claimCapability E name a h = Inr h' \<Longrightarrow> host_step K h h'"
| step_module: "keccak256 (E :: cenv) = K \<Longrightarrow> setIBCModule E a h = Inr h' \<Longrightarrow> host_step K h h'"

subsection \<open>Effects\<close>

definition pkey :: "(byte list \<Rightarrow> byte list) \<Rightarrow> path \<Rightarrow> byte list" where
  "pkey K p = K (path_bytes p)"

lemma path_key_pkey: "path_key E p = pkey (keccak256 E) p"
  by (simp add: path_key_def pkey_def)

text \<open>A connection (a channel) end is opened: from INIT or TRYOPEN, keeping what was agreed on.\<close>

definition conn_opens :: "ConnectionEndData \<Rightarrow> ConnectionEndData \<Rightarrow> bool" where
  "conn_opens c c' \<longleftrightarrow> ced_State c \<in> {STATE_INIT, STATE_TRYOPEN} \<and> ced_State c' = STATE_OPEN \<and>
     ced_ClientId c' = ced_ClientId c \<and> ced_DelayPeriod c' = ced_DelayPeriod c \<and>
     length (ced_Versions c') \<le> 255 \<and>
     cd_ClientId (ced_Counterparty c') = cd_ClientId (ced_Counterparty c) \<and>
     cd_Prefix (ced_Counterparty c') = cd_Prefix (ced_Counterparty c)"

definition chan_opens :: "ChannelData \<Rightarrow> ChannelData \<Rightarrow> bool" where
  "chan_opens c c' \<longleftrightarrow> chd_State c \<in> {STATE_INIT, STATE_TRYOPEN} \<and> chd_State c' = STATE_OPEN \<and>
     chd_Ordering c' = chd_Ordering c \<and> chd_ConnectionHops c' = chd_ConnectionHops c \<and>
     ccd_PortId (chd_Counterparty c') = ccd_PortId (chd_Counterparty c)"

abbreviation set_commitment :: "(byte list \<Rightarrow> byte list) \<Rightarrow> path \<Rightarrow> byte list \<Rightarrow> host \<Rightarrow> host" where
  "set_commitment K p v h \<equiv> h\<lparr>commitments := (commitments h)(pkey K p := v)\<rparr>"

inductive host_effect :: "(byte list \<Rightarrow> byte list) \<Rightarrow> host \<Rightarrow> host \<Rightarrow> bool" for K where
  eff_register: "clientRegistry h t = 0 \<Longrightarrow>
    host_effect K h (h\<lparr>clientRegistry := (clientRegistry h)(t := a)\<rparr>)"
| eff_create: "i = client_id t (unat (nextClientSequence h)) \<Longrightarrow> clientRegistry h t \<noteq> 0 \<Longrightarrow> t \<noteq> [] \<Longrightarrow>
    clientTypes h i = [] \<Longrightarrow>
    host_effect K h (h\<lparr>nextClientSequence := nextClientSequence h + 1,
      events := events h @ [GeneratedClientIdentifier i],
      clientTypes := (clientTypes h)(i := t), clientStates := (clientStates h)(i := cs),
      consensusStates := (consensusStates h)(i := (consensusStates h i)(n := cons)),
      commitments := (commitments h)(pkey K (Client_path i) := K cs, pkey K (Consensus_path i n) := K cons)\<rparr>)"
| eff_update: "clientStates h i \<noteq> [] \<Longrightarrow>
    host_effect K h (h\<lparr>clientStates := (clientStates h)(i := cs),
      consensusStates := (consensusStates h)(i := (consensusStates h i)(n := cons)),
      commitments := (commitments h)(pkey K (Client_path i) := K cs, pkey K (Consensus_path i n) := K cons)\<rparr>)"
| eff_conn_new: "i = conn_id (unat (nextConnectionSequence h)) \<Longrightarrow>
    ced_State conn \<in> {STATE_INIT, STATE_TRYOPEN} \<Longrightarrow> ced_Versions conn = getVersions \<Longrightarrow>
    ConnectionEnd_encode conn = Inr bz \<Longrightarrow>
    host_effect K h (h\<lparr>nextConnectionSequence := nextConnectionSequence h + 1,
      events := events h @ [GeneratedConnectionIdentifier i],
      connections := (connections h)(i := conn),
      commitments := (commitments h)(pkey K (Connection_path i) := K bz)\<rparr>)"
| eff_conn_open: "conn_opens (connections h i) conn \<Longrightarrow> ConnectionEnd_encode conn = Inr bz \<Longrightarrow>
    host_effect K h (h\<lparr>connections := (connections h)(i := conn),
      commitments := (commitments h)(pkey K (Connection_path i) := K bz)\<rparr>)"
| eff_chan_new: "c = chan_id (unat (nextChannelSequence h)) \<Longrightarrow>
    chd_State ch \<in> {STATE_INIT, STATE_TRYOPEN} \<Longrightarrow> chd_ConnectionHops ch = [hop] \<Longrightarrow>
    ced_State (connections h hop) \<noteq> 0 \<Longrightarrow> Channel_encode ch = Inr bz \<Longrightarrow>
    host_effect K h (h\<lparr>nextChannelSequence := nextChannelSequence h + 1,
      events := events h @ [GeneratedChannelIdentifier c],
      channels := (channels h)(p := (channels h p)(c := ch)),
      commitments := (commitments h)(pkey K (Channel_path p c) := K bz),
      nextSequenceSends := (nextSequenceSends h)(p := (nextSequenceSends h p)(c := 1)),
      nextSequenceRecvs := (nextSequenceRecvs h)(p := (nextSequenceRecvs h p)(c := 1)),
      nextSequenceAcks := (nextSequenceAcks h)(p := (nextSequenceAcks h p)(c := 1))\<rparr>)"
| eff_chan_open: "chan_opens (channels h p c) ch \<Longrightarrow> Channel_encode ch = Inr bz \<Longrightarrow>
    host_effect K h (h\<lparr>channels := (channels h)(p := (channels h p)(c := ch)),
      commitments := (commitments h)(pkey K (Channel_path p c) := K bz)\<rparr>)"
| eff_send: "chd_State (channels h p c) = STATE_OPEN \<Longrightarrow> 0 < nextSequenceSends h p c \<Longrightarrow>
    host_effect K h (h\<lparr>nextSequenceSends := (nextSequenceSends h)(p := (nextSequenceSends h p)
        (c := nextSequenceSends h p c + 1)),
      commitments := (commitments h)(pkey K (Packet_path p c (nextSequenceSends h p c)) := makePacketCommitment pkt)\<rparr>)"
| eff_recv_unordered: "chd_State (channels h p c) = STATE_OPEN \<Longrightarrow>
    chd_Ordering (channels h p c) = ORDER_UNORDERED \<Longrightarrow> \<not> packetReceipts h p c n \<Longrightarrow>
    host_effect K h (h\<lparr>packetReceipts := (packetReceipts h)(p := (packetReceipts h p)
      (c := (packetReceipts h p c)(n := True)))\<rparr>)"
| eff_recv_ordered: "chd_State (channels h p c) = STATE_OPEN \<Longrightarrow>
    chd_Ordering (channels h p c) = ORDER_ORDERED \<Longrightarrow> 0 < nextSequenceRecvs h p c \<Longrightarrow>
    host_effect K h (h\<lparr>nextSequenceRecvs := (nextSequenceRecvs h)(p := (nextSequenceRecvs h p)
      (c := nextSequenceRecvs h p c + 1))\<rparr>)"
| eff_write_ack: "chd_State (channels h p c) = STATE_OPEN \<Longrightarrow>
    commitments h (pkey K (Ack_path p c n)) = zero32 \<Longrightarrow>
    host_effect K h (set_commitment K (Ack_path p c n) (sha256 ack) h)"
| eff_ack: "chd_State (channels h p c) = STATE_OPEN \<Longrightarrow> chd_Ordering (channels h p c) \<noteq> ORDER_ORDERED \<Longrightarrow>
    commitments h (pkey K (Packet_path p c n)) \<noteq> zero32 \<Longrightarrow>
    host_effect K h (set_commitment K (Packet_path p c n) zero32 h)"
| eff_ack_ordered: "chd_State (channels h p c) = STATE_OPEN \<Longrightarrow> chd_Ordering (channels h p c) = ORDER_ORDERED \<Longrightarrow>
    nextSequenceAcks h p c = 0 \<Longrightarrow>
    host_effect K h (h\<lparr>nextSequenceAcks := (nextSequenceAcks h)(p := (nextSequenceAcks h p)(c := 1)),
      commitments := (commitments h)(pkey K (Packet_path p c 0) := zero32)\<rparr>)"
| eff_claim: "a \<notin> set (capabilities h name) \<Longrightarrow>
    host_effect K h (h\<lparr>capabilities := (capabilities h)(name := capabilities h name @ [a])\<rparr>)"
| eff_module: "host_effect K h (h\<lparr>ibcModule := a\<rparr>)"

subsection \<open>The refinement\<close>

lemma registerClient_effect: "registerClient E t a h = Inr h' \<Longrightarrow> host_effect (keccak256 E) h h'"
  by (auto simp: registerClient_def result_simps intro: eff_register)

lemma createClient_effect: "createClient E m h = Inr h' \<Longrightarrow> host_effect (keccak256 E) h h'"
  unfolding createClient_Inr Let_def path_key_simps path_key_pkey
  by (elim conjE) (simp only:, rule eff_create, simp_all)

lemma updateClient_effect: "updateClient E m h = Inr h' \<Longrightarrow> host_effect (keccak256 E) h h'"
  unfolding updateClient_Inr path_key_simps path_key_pkey
  by (elim conjE exE) (simp only:, rule eff_update, simp_all)

lemma connectionOpenInit_effect:
  assumes "connectionOpenInit E m h = Inr (i, h')"
  shows "host_effect (keccak256 E) h h'"
proof -
  let ?c = "\<lparr>ced_ClientId = mci_clientId m, ced_Versions = getVersions, ced_State = STATE_INIT,
    ced_Counterparty = mci_counterparty m, ced_DelayPeriod = mci_delayPeriod m\<rparr>"
  from assms obtain bz where "ConnectionEnd_encode ?c = Inr bz"
    and "i = conn_id (unat (nextConnectionSequence h))"
    and "h' = h\<lparr>nextConnectionSequence := nextConnectionSequence h + 1,
      events := events h @ [GeneratedConnectionIdentifier i], connections := (connections h)(i := ?c),
      commitments := (commitments h)(pkey (keccak256 E) (Connection_path i) := keccak256 E bz)\<rparr>"
    by (auto simp: connectionOpenInit_def result_simps path_key_simps path_key_pkey)
  then show ?thesis by (auto intro!: eff_conn_new)
qed

lemma connectionOpenTry_effect:
  assumes "connectionOpenTry E m h = Inr (i, h')"
  shows "host_effect (keccak256 E) h h'"
proof -
  let ?c = "\<lparr>ced_ClientId = mct_clientId m, ced_Versions = getVersions, ced_State = STATE_TRYOPEN,
    ced_Counterparty = mct_counterparty m, ced_DelayPeriod = mct_delayPeriod m\<rparr>"
  from assms obtain bz where "ConnectionEnd_encode ?c = Inr bz"
    and "i = conn_id (unat (nextConnectionSequence h))"
    and "h' = h\<lparr>nextConnectionSequence := nextConnectionSequence h + 1,
      events := events h @ [GeneratedConnectionIdentifier i], connections := (connections h)(i := ?c),
      commitments := (commitments h)(pkey (keccak256 E) (Connection_path i) := keccak256 E bz)\<rparr>"
    by (auto simp: connectionOpenTry_def result_simps path_key_simps path_key_pkey Let_def)
  then show ?thesis by (auto intro!: eff_conn_new)
qed

lemma connectionOpenAck_effect:
  assumes "connectionOpenAck E m h = Inr h'"
  shows "host_effect (keccak256 E) h h'"
proof -
  let ?o = "connections h (mca_connectionId m)"
  let ?c = "?o\<lparr>ced_State := STATE_OPEN, ced_Versions := [mca_version m],
    ced_Counterparty := (ced_Counterparty ?o)\<lparr>cd_ConnectionId := mca_counterpartyConnectionID m\<rparr>\<rparr>"
  from assms obtain bz where "ced_State ?o \<in> {STATE_INIT, STATE_TRYOPEN}" and "ConnectionEnd_encode ?c = Inr bz"
    and "h' = h\<lparr>connections := (connections h)(mca_connectionId m := ?c),
      commitments := (commitments h)(pkey (keccak256 E) (Connection_path (mca_connectionId m)) := keccak256 E bz)\<rparr>"
    by (auto simp: connectionOpenAck_def getConnection_def makeVersionArray_def result_simps path_key_simps
        path_key_pkey Let_def split: if_splits)
  then show ?thesis by (auto intro!: eff_conn_open simp: conn_opens_def)
qed

lemma connectionOpenConfirm_effect:
  assumes "connectionOpenConfirm E m h = Inr h'"
  shows "host_effect (keccak256 E) h h'"
proof -
  let ?o = "connections h (mco_connectionId m)"
  let ?c = "?o\<lparr>ced_State := STATE_OPEN\<rparr>"
  from assms obtain bz where "ced_State ?o = STATE_TRYOPEN" and "length (ced_Versions ?o) \<le> 255"
    and "ConnectionEnd_encode ?c = Inr bz"
    and "h' = h\<lparr>connections := (connections h)(mco_connectionId m := ?c),
      commitments := (commitments h)(pkey (keccak256 E) (Connection_path (mco_connectionId m)) := keccak256 E bz)\<rparr>"
    by (auto simp: connectionOpenConfirm_def getConnection_def result_simps path_key_simps path_key_pkey Let_def)
  then show ?thesis by (auto intro!: eff_conn_open simp: conn_opens_def)
qed

lemma channel_connection_Inr [result_simps]:
  "channel_connection ch h = Inr conn \<longleftrightarrow>
     (\<exists>hop hops. chd_ConnectionHops ch = hop # hops \<and> conn = connections h hop \<and> ced_State conn \<noteq> 0)"
  by (cases "chd_ConnectionHops ch")
    (auto simp: channel_connection_def getConnection_def result_simps Let_def sol_index_def)

lemma new_channel_effect:
  assumes "new_channel E p ch h = Inr (c, h')" and "length (chd_ConnectionHops ch) = 1"
    and "channel_connection ch h = Inr conn" and "chd_State ch \<in> {STATE_INIT, STATE_TRYOPEN}"
  shows "host_effect (keccak256 E) h h'"
proof -
  from assms obtain bz hop where "Channel_encode ch = Inr bz" and "chd_ConnectionHops ch = [hop]"
    and "ced_State (connections h hop) \<noteq> 0"
    and "c = chan_id (unat (nextChannelSequence h))"
    and "h' = h\<lparr>nextChannelSequence := nextChannelSequence h + 1,
      events := events h @ [GeneratedChannelIdentifier c],
      channels := (channels h)(p := (channels h p)(c := ch)),
      commitments := (commitments h)(pkey (keccak256 E) (Channel_path p c) := keccak256 E bz),
      nextSequenceSends := (nextSequenceSends h)(p := (nextSequenceSends h p)(c := 1)),
      nextSequenceRecvs := (nextSequenceRecvs h)(p := (nextSequenceRecvs h p)(c := 1)),
      nextSequenceAcks := (nextSequenceAcks h)(p := (nextSequenceAcks h p)(c := 1))\<rparr>"
    by (auto simp: new_channel_def result_simps path_key_simps path_key_pkey)
  with assms(4) show ?thesis by (auto intro!: eff_chan_new)
qed

lemma channelOpenInit_effect: "channelOpenInit E m h = Inr (c, h') \<Longrightarrow> host_effect (keccak256 E) h h'"
  unfolding channelOpenInit_def Let_def bindr_eq_Inr require_simps
  by (elim exE conjE, rule new_channel_effect) auto

lemma channelOpenTry_effect: "channelOpenTry E m h = Inr (c, h') \<Longrightarrow> host_effect (keccak256 E) h h'"
  unfolding channelOpenTry_def Let_def bindr_eq_Inr require_simps
  by (elim exE conjE, rule new_channel_effect) auto

lemma setChannel_effect:
  "setChannel E p c ch h = Inr h' \<Longrightarrow> chan_opens (channels h p c) ch \<Longrightarrow> host_effect (keccak256 E) h h'"
  unfolding setChannel_Inr path_key_simps path_key_pkey
  by (elim conjE exE) (simp only:, rule eff_chan_open, simp_all)

lemma channelOpenAck_effect: "channelOpenAck E m h = Inr h' \<Longrightarrow> host_effect (keccak256 E) h h'"
  unfolding channelOpenAck_def getChannel_def Let_def prod.case bindr_eq_Inr require_simps
  by (elim exE conjE, erule setChannel_effect) (auto simp: chan_opens_def)

lemma channelOpenConfirm_effect: "channelOpenConfirm E m h = Inr h' \<Longrightarrow> host_effect (keccak256 E) h h'"
  unfolding channelOpenConfirm_def getChannel_def Let_def prod.case bindr_eq_Inr require_simps
  by (elim exE conjE, erule setChannel_effect) (auto simp: chan_opens_def)

text \<open>What the packet operations require and change.\<close>

lemma sendPacket_Inr:
  assumes "sendPacket E pkt h = Inr h'"
  defines "p \<equiv> pd_SourcePort pkt" and "c \<equiv> pd_SourceChannel pkt"
  shows "msg_sender E = ibcModule h" "chd_State (channels h p c) = STATE_OPEN"
    "pd_DestinationPort pkt = ccd_PortId (chd_Counterparty (channels h p c))"
    "pd_DestinationChannel pkt = ccd_ChannelId (chd_Counterparty (channels h p c))"
    "0 < nextSequenceSends h p c" "pd_Sequence pkt = nextSequenceSends h p c"
    "h' = h\<lparr>nextSequenceSends := (nextSequenceSends h)(p := (nextSequenceSends h p)(c := nextSequenceSends h p c + 1)),
       commitments := (commitments h)(pkey (keccak256 E) (Packet_path p c (nextSequenceSends h p c)) :=
         makePacketCommitment pkt)\<rparr>"
  using assms(1) unfolding p_def c_def sendPacket_def getChannel_def getNextSequenceSend_def Let_def prod.case
    bindr_eq_Inr require_simps path_key_simps path_key_pkey onlyIBCModule_Inr setters_Inr split_paired_Ex
  by (elim exE conjE, simp)+

lemma sendPacket_effect:
  assumes "sendPacket E pkt h = Inr h'"
  shows "host_effect (keccak256 E) h h'"
  unfolding sendPacket_Inr(7) [OF assms] using sendPacket_Inr(2,5) [OF assms] by (rule eff_send)

lemma recvPacket_Inr:
  assumes "recvPacket E m h = Inr h'"
  defines "p \<equiv> pd_DestinationPort (mpr_packet m)" and "c \<equiv> pd_DestinationChannel (mpr_packet m)"
    and "n \<equiv> pd_Sequence (mpr_packet m)"
  shows "msg_sender E = ibcModule h" "chd_State (channels h p c) = STATE_OPEN"
    "chd_Ordering (channels h p c) = ORDER_UNORDERED \<and> \<not> packetReceipts h p c n \<and>
       h' = h\<lparr>packetReceipts := (packetReceipts h)(p := (packetReceipts h p)(c := (packetReceipts h p c)(n := True)))\<rparr> \<or>
     chd_Ordering (channels h p c) = ORDER_ORDERED \<and> 0 < nextSequenceRecvs h p c \<and> n = nextSequenceRecvs h p c \<and>
       h' = h\<lparr>nextSequenceRecvs := (nextSequenceRecvs h)(p := (nextSequenceRecvs h p)(c := nextSequenceRecvs h p c + 1))\<rparr>"
  using assms(1) unfolding p_def c_def n_def recvPacket_def getChannel_def getNextSequenceRecv_def
    hasPacketReceipt_def Let_def prod.case bindr_eq_Inr require_simps onlyIBCModule_Inr
  by (elim exE conjE, auto simp: result_simps split: if_splits)+

lemma recvPacket_effect:
  assumes "recvPacket E m h = Inr h'"
  shows "host_effect (keccak256 E) h h'"
  using recvPacket_Inr(3) [OF assms]
  by (elim disjE conjE)
    (simp only:, rule eff_recv_unordered eff_recv_ordered, rule recvPacket_Inr(2) [OF assms], assumption+)+

lemma writeAcknowledgement_Inr [result_simps]:
  "writeAcknowledgement E p c n ack h = Inr h' \<longleftrightarrow>
     msg_sender E = ibcModule h \<and> chd_State (channels h p c) = STATE_OPEN \<and> ack \<noteq> [] \<and>
     commitments h (pkey (keccak256 E) (Ack_path p c n)) = zero32 \<and>
     h' = set_commitment (keccak256 E) (Ack_path p c n) (sha256 ack) h"
  by (auto simp: writeAcknowledgement_def getChannel_def getPacketAcknowledgementCommitment_def
      makePacketAcknowledgementCommitment_def path_key_simps path_key_pkey result_simps Let_def)

lemma writeAcknowledgement_effect:
  "writeAcknowledgement E p c n ack h = Inr h' \<Longrightarrow> host_effect (keccak256 E) h h'"
  unfolding writeAcknowledgement_Inr by (elim conjE) (simp only:, rule eff_write_ack, simp_all)

lemma acknowledgePacket_Inr:
  assumes "acknowledgePacket E m h = Inr h'"
  defines "p \<equiv> pd_SourcePort (mpa_packet m)" and "c \<equiv> pd_SourceChannel (mpa_packet m)"
    and "n \<equiv> pd_Sequence (mpa_packet m)"
  shows "msg_sender E = ibcModule h" "chd_State (channels h p c) = STATE_OPEN"
    "commitments h (pkey (keccak256 E) (Packet_path p c n)) = makePacketCommitment (mpa_packet m)"
    "commitments h (pkey (keccak256 E) (Packet_path p c n)) \<noteq> zero32"
    "chd_Ordering (channels h p c) \<noteq> ORDER_ORDERED \<and>
       h' = set_commitment (keccak256 E) (Packet_path p c n) zero32 h \<or>
     chd_Ordering (channels h p c) = ORDER_ORDERED \<and> nextSequenceAcks h p c = 0 \<and> n = 0 \<and>
       h' = h\<lparr>nextSequenceAcks := (nextSequenceAcks h)(p := (nextSequenceAcks h p)(c := 1)),
          commitments := (commitments h)(pkey (keccak256 E) (Packet_path p c 0) := zero32)\<rparr>"
  using assms(1) unfolding p_def c_def n_def acknowledgePacket_def getChannel_def getNextSequenceAck_def
    getPacketCommitment_def Let_def prod.case bindr_eq_Inr require_simps onlyIBCModule_Inr path_key_simps
    path_key_pkey
  by (elim exE conjE, auto simp: result_simps path_key_simps path_key_pkey split: if_splits)+

lemma acknowledgePacket_effect:
  assumes "acknowledgePacket E m h = Inr h'"
  shows "host_effect (keccak256 E) h h'"
  using acknowledgePacket_Inr(5) [OF assms]
proof (elim disjE conjE)
  assume "h' = set_commitment (keccak256 E) (Packet_path (pd_SourcePort (mpa_packet m))
      (pd_SourceChannel (mpa_packet m)) (pd_Sequence (mpa_packet m))) zero32 h"
    and "chd_Ordering (channels h (pd_SourcePort (mpa_packet m)) (pd_SourceChannel (mpa_packet m))) \<noteq> ORDER_ORDERED"
  then show ?thesis using acknowledgePacket_Inr(2,4) [OF assms] by (simp add: eff_ack)
next
  assume "h' = h\<lparr>nextSequenceAcks := (nextSequenceAcks h)(pd_SourcePort (mpa_packet m) :=
        (nextSequenceAcks h (pd_SourcePort (mpa_packet m)))(pd_SourceChannel (mpa_packet m) := 1)),
      commitments := (commitments h)(pkey (keccak256 E) (Packet_path (pd_SourcePort (mpa_packet m))
        (pd_SourceChannel (mpa_packet m)) 0) := zero32)\<rparr>"
    and "chd_Ordering (channels h (pd_SourcePort (mpa_packet m)) (pd_SourceChannel (mpa_packet m))) = ORDER_ORDERED"
    and "nextSequenceAcks h (pd_SourcePort (mpa_packet m)) (pd_SourceChannel (mpa_packet m)) = 0"
  then show ?thesis using acknowledgePacket_Inr(2) [OF assms] by (simp add: eff_ack_ordered)
qed

lemma claim_module_effect:
  "claimCapability E name a h = Inr h' \<Longrightarrow> host_effect (keccak256 E) h h'"
  "setIBCModule E a h = Inr h' \<Longrightarrow> host_effect (keccak256 E) h h'"
  by (auto simp: result_simps setIBCModule_def intro: eff_claim eff_module)

lemmas operation_effects =
  registerClient_effect createClient_effect updateClient_effect connectionOpenInit_effect
  connectionOpenTry_effect connectionOpenAck_effect connectionOpenConfirm_effect channelOpenInit_effect
  channelOpenTry_effect channelOpenAck_effect channelOpenConfirm_effect sendPacket_effect recvPacket_effect
  writeAcknowledgement_effect acknowledgePacket_effect claim_module_effect

lemma host_step_effects: "host_step K h h' \<Longrightarrow> host_effect K h h'"
  by (erule host_step.cases) (blast dest: operation_effects)+

end
