(* ===== verification/IBC_Invariants.thy ===== *)
theory IBC_Invariants
  imports IBC_Steps
begin

text \<open>
  Invariants of the reachable hosts, for every history of fewer than \<open>2^64\<close> operations (the
  counters are 64-bit words and start again after that many): identifiers are fresh, ends
  only move forward, sequences only grow, and every commitment is the hash of what is stored.
\<close>

inductive reach :: "(byte list \<Rightarrow> byte list) \<Rightarrow> nat \<Rightarrow> host \<Rightarrow> bool" for K where
  reach_init: "reach K 0 (host_constructor (E :: cenv))"
| reach_step: "reach K n h \<Longrightarrow> host_step K h h' \<Longrightarrow> reach K (Suc n) h'"

subsection \<open>Identifiers and sequences\<close>

definition counters_inv :: "nat \<Rightarrow> host \<Rightarrow> bool" where
  "counters_inv n h \<longleftrightarrow> unat (nextConnectionSequence h) \<le> n \<and> unat (nextChannelSequence h) \<le> n \<and>
     unat (nextClientSequence h) \<le> n \<and>
     (\<forall>p c. unat (nextSequenceSends h p c) \<le> n \<and> unat (nextSequenceRecvs h p c) \<le> n)"

definition conn_inv :: "host \<Rightarrow> bool" where
  "conn_inv h \<longleftrightarrow> (\<forall>i. ced_State (connections h i) \<noteq> 0 \<longrightarrow>
     (\<exists>k < unat (nextConnectionSequence h). i = conn_id k))"

definition chan_inv :: "host \<Rightarrow> bool" where
  "chan_inv h \<longleftrightarrow> (\<forall>p c. chd_State (channels h p c) \<noteq> 0 \<longrightarrow>
     (\<exists>k < unat (nextChannelSequence h). c = chan_id k) \<and>
     nextSequenceAcks h p c = 1 \<and> 0 < nextSequenceSends h p c \<and> 0 < nextSequenceRecvs h p c \<and>
     (\<exists>hop. chd_ConnectionHops (channels h p c) = [hop]))"

definition seq_inv :: "host \<Rightarrow> bool" where
  "seq_inv h \<longleftrightarrow> (\<forall>p c. chd_State (channels h p c) = 0 \<longrightarrow> nextSequenceSends h p c = 0)"

text \<open>A counter bounded by the number of operations does not wrap.\<close>

lemma word_suc: "unat (w :: 64 word) \<le> n \<Longrightarrow> Suc n < 2 ^ 64 \<Longrightarrow> unat (w + 1) = Suc (unat w)"
  by (simp add: unat_word_ariths)

lemma word_suc_pos: "unat (w :: 64 word) \<le> n \<Longrightarrow> Suc n < 2 ^ 64 \<Longrightarrow> 0 < w + 1"
  by (simp only: word_less_nat_alt word_suc) simp

lemma opens_exists:
  "conn_opens c c' \<Longrightarrow> ced_State c \<noteq> 0 \<and> ced_State c' \<noteq> 0"
  "chan_opens ch ch' \<Longrightarrow> chd_State ch \<noteq> 0 \<and> chd_State ch' \<noteq> 0 \<and> chd_ConnectionHops ch' = chd_ConnectionHops ch"
  by (auto simp: conn_opens_def chan_opens_def)

lemma counters_effect:
  assumes "host_effect K h h'" and "counters_inv n h" and "Suc n < 2 ^ 64"
  shows "counters_inv (Suc n) h'"
  using assms(1,2) by cases (auto simp: counters_inv_def le_SucI word_suc [OF _ assms(3)])

lemma conn_effect:
  assumes "host_effect K h h'" and "conn_inv h" and "counters_inv n h" and "Suc n < 2 ^ 64"
  shows "conn_inv h'"
proof -
  have w: "unat (nextConnectionSequence h + 1) = Suc (unat (nextConnectionSequence h))"
    using assms(3) by (intro word_suc [OF _ assms(4)]) (simp add: counters_inv_def)
  show ?thesis
    using assms(1,2)
    by cases (auto simp: conn_inv_def w less_Suc_eq dest!: opens_exists split: if_splits)
qed

lemma chan_effect:
  assumes "host_effect K h h'" and "chan_inv h" and "counters_inv n h" and "Suc n < 2 ^ 64"
  shows "chan_inv h'"
proof -
  have c: "unat (nextChannelSequence h + 1) = Suc (unat (nextChannelSequence h))"
    using assms(3) by (intro word_suc [OF _ assms(4)]) (simp add: counters_inv_def)
  have s: "0 < nextSequenceSends h p c + 1" "0 < nextSequenceRecvs h p c + 1" for p c
    using assms(3) by (auto intro!: word_suc_pos [OF _ assms(4)] simp: counters_inv_def)
  show ?thesis
    using assms(1,2)
    by cases (auto simp: chan_inv_def c s less_Suc_eq dest!: opens_exists split: if_splits)
qed

lemma seq_effect: "host_effect K h h' \<Longrightarrow> seq_inv h \<Longrightarrow> seq_inv h'"
  by (erule host_effect.cases) (auto simp: seq_inv_def dest!: opens_exists split: if_splits)

lemma reach_inv:
  "reach K n h \<Longrightarrow> n < 2 ^ 64 \<Longrightarrow> counters_inv n h \<and> conn_inv h \<and> chan_inv h \<and> seq_inv h"
proof (induction rule: reach.induct)
  case (reach_init E)
  show ?case
    by (simp add: counters_inv_def conn_inv_def chan_inv_def seq_inv_def host_constructor_def
        ConnectionEndData_zero_def ChannelData_zero_def)
next
  case (reach_step n h h')
  then have "host_effect K h h'" and "counters_inv n h" and "conn_inv h" and "chan_inv h" and "seq_inv h"
    by (simp_all add: host_step_effects)
  with reach_step.prems show ?case using counters_effect conn_effect chan_effect seq_effect by blast
qed

subsection \<open>Ends move forward, counters and receipts only grow\<close>

definition evolves :: "host \<Rightarrow> host \<Rightarrow> bool" where
  "evolves h h' \<longleftrightarrow>
     (\<forall>i. ced_State (connections h i) \<noteq> 0 \<longrightarrow>
       connections h' i = connections h i \<or> conn_opens (connections h i) (connections h' i)) \<and>
     (\<forall>p c. chd_State (channels h p c) \<noteq> 0 \<longrightarrow>
       (channels h' p c = channels h p c \<or> chan_opens (channels h p c) (channels h' p c)) \<and>
       nextSequenceSends h p c \<le> nextSequenceSends h' p c \<and>
       nextSequenceRecvs h p c \<le> nextSequenceRecvs h' p c) \<and>
     (\<forall>p c n. packetReceipts h p c n \<longrightarrow> packetReceipts h' p c n)"

lemma evolves_refl: "evolves h h"
  by (simp add: evolves_def)

lemma conn_opens_trans: "conn_opens a b \<Longrightarrow> conn_opens b c \<Longrightarrow> False"
  by (auto simp: conn_opens_def)

lemma chan_opens_trans: "chan_opens a b \<Longrightarrow> chan_opens b c \<Longrightarrow> False"
  by (auto simp: chan_opens_def)

lemma evolves_trans:
  assumes 1: "evolves a b" and 2: "evolves b c"
  shows "evolves a c"
proof -
  have "connections c i = connections a i \<or> conn_opens (connections a i) (connections c i)"
    if "ced_State (connections a i) \<noteq> 0" for i
    using that 1 2 opens_exists(1) conn_opens_trans unfolding evolves_def by metis
  moreover have "(channels c p k = channels a p k \<or> chan_opens (channels a p k) (channels c p k)) \<and>
      nextSequenceSends a p k \<le> nextSequenceSends c p k \<and> nextSequenceRecvs a p k \<le> nextSequenceRecvs c p k"
    if "chd_State (channels a p k) \<noteq> 0" for p k
  proof -
    from that 1 have b: "channels b p k = channels a p k \<or> chan_opens (channels a p k) (channels b p k)"
      "nextSequenceSends a p k \<le> nextSequenceSends b p k" "nextSequenceRecvs a p k \<le> nextSequenceRecvs b p k"
      by (auto simp: evolves_def)
    then have "chd_State (channels b p k) \<noteq> 0" using that opens_exists(2) by metis
    with 2 have c: "channels c p k = channels b p k \<or> chan_opens (channels b p k) (channels c p k)"
      "nextSequenceSends b p k \<le> nextSequenceSends c p k" "nextSequenceRecvs b p k \<le> nextSequenceRecvs c p k"
      by (auto simp: evolves_def)
    from b(1) c(1) have "channels c p k = channels a p k \<or> chan_opens (channels a p k) (channels c p k)"
      using chan_opens_trans by metis
    with b(2,3) c(2,3) show ?thesis using order_trans by blast
  qed
  moreover have "packetReceipts c p k n" if "packetReceipts a p k n" for p k n
    using that 1 2 by (simp add: evolves_def)
  ultimately show ?thesis by (simp add: evolves_def)
qed

lemma word_le_suc: "unat (w :: 64 word) \<le> n \<Longrightarrow> Suc n < 2 ^ 64 \<Longrightarrow> w \<le> w + 1"
  by (simp add: word_le_nat_alt word_suc)

text \<open>A fresh identifier names no existing end.\<close>

lemma fresh_conn: "conn_inv h \<Longrightarrow> ced_State (connections h (conn_id (unat (nextConnectionSequence h)))) = 0"
  unfolding conn_inv_def by (metis id_inject(1) less_irrefl)

lemma fresh_chan: "chan_inv h \<Longrightarrow> chd_State (channels h p (chan_id (unat (nextChannelSequence h)))) = 0"
  unfolding chan_inv_def by (metis id_inject(2) less_irrefl)

lemma effect_evolves:
  assumes "host_effect K h h'" and "conn_inv h" and "chan_inv h" and "counters_inv n h" and "Suc n < 2 ^ 64"
  shows "evolves h h'"
proof -
  have s: "nextSequenceSends h p c \<le> nextSequenceSends h p c + 1"
    "nextSequenceRecvs h p c \<le> nextSequenceRecvs h p c + 1" for p c
    using assms(4) by (auto intro!: word_le_suc [OF _ assms(5)] simp: counters_inv_def)
  note [simp] = fresh_conn [OF assms(2)] fresh_chan [OF assms(3)]
  show ?thesis
    using assms(1) by cases (auto simp: evolves_def s split: if_splits)
qed

lemma reach_effect:
  assumes "reach K n h" and "host_step K h h'" and "Suc n < 2 ^ 64"
  shows "host_effect K h h'" "conn_inv h" "chan_inv h" "counters_inv n h" "evolves h h'" "seq_inv h"
proof -
  show e: "host_effect K h h'" by (rule host_step_effects) (rule assms(2))
  from assms(3) reach_inv [OF assms(1)] have "counters_inv n h \<and> conn_inv h \<and> chan_inv h \<and> seq_inv h" by simp
  then show i: "conn_inv h" "chan_inv h" "counters_inv n h" and "seq_inv h" by simp_all
  show "evolves h h'" using e i assms(3) by (rule effect_evolves)
qed

lemma reach_relpow: "reach K n h \<Longrightarrow> (host_step K ^^ k) h h' \<Longrightarrow> reach K (n + k) h'"
  by (induction k arbitrary: h') (auto intro: reach_step)

lemma steps_evolve:
  "reach K n h \<Longrightarrow> (host_step K ^^ k) h h' \<Longrightarrow> n + k < 2 ^ 64 \<Longrightarrow> evolves h h'"
proof (induction k arbitrary: h')
  case 0
  then show ?case by (simp add: evolves_refl)
next
  case (Suc k)
  then obtain h1 where 1: "(host_step K ^^ k) h h1" and 2: "host_step K h1 h'" by auto
  from Suc.IH [OF Suc.prems(1) 1] Suc.prems(3) have "evolves h h1" by simp
  moreover have "evolves h1 h'"
    using reach_effect(5) [OF reach_relpow [OF Suc.prems(1) 1] 2] Suc.prems(3) by simp
  ultimately show ?case by (rule evolves_trans)
qed

subsection \<open>The commitments are those of the state\<close>

text \<open>The idealisation of the hash: the keys of different paths differ.\<close>

definition keys_distinct :: "(byte list \<Rightarrow> byte list) \<Rightarrow> bool" where
  "keys_distinct K \<longleftrightarrow> (\<forall>p q. path_ok p \<longrightarrow> path_ok q \<longrightarrow> pkey K p = pkey K q \<longrightarrow> p = q)"

lemma keys_distinct_inj: "inj_on K (path_bytes ` {p. path_ok p}) \<Longrightarrow> keys_distinct K"
  unfolding keys_distinct_def pkey_def by (auto dest!: inj_onD intro: path_bytes_inject)

lemma pkey_eq: "keys_distinct K \<Longrightarrow> path_ok p \<Longrightarrow> path_ok q \<Longrightarrow> pkey K p = pkey K q \<longleftrightarrow> p = q"
  by (auto simp: keys_distinct_def)

definition committed_conn :: "(byte list \<Rightarrow> byte list) \<Rightarrow> host \<Rightarrow> bool" where
  "committed_conn K h \<longleftrightarrow> (\<forall>i. ced_State (connections h i) \<noteq> 0 \<longrightarrow>
     (\<exists>bz. ConnectionEnd_encode (connections h i) = Inr bz \<and> commitments h (pkey K (Connection_path i)) = K bz))"

definition committed_chan :: "(byte list \<Rightarrow> byte list) \<Rightarrow> host \<Rightarrow> bool" where
  "committed_chan K h \<longleftrightarrow> (\<forall>p c. chd_State (channels h p c) \<noteq> 0 \<longrightarrow>
     (\<exists>bz. Channel_encode (channels h p c) = Inr bz \<and> commitments h (pkey K (Channel_path p c)) = K bz))"

definition committed_client :: "(byte list \<Rightarrow> byte list) \<Rightarrow> host \<Rightarrow> bool" where
  "committed_client K h \<longleftrightarrow>
     (\<forall>i. clientStates h i \<noteq> [] \<longrightarrow> commitments h (pkey K (Client_path i)) = K (clientStates h i)) \<and>
     (\<forall>i n. consensusStates h i n \<noteq> [] \<longrightarrow>
       commitments h (pkey K (Consensus_path i n)) = K (consensusStates h i n))"

text \<open>A packet is committed to only once its sequence has been used.\<close>

definition committed_packets :: "(byte list \<Rightarrow> byte list) \<Rightarrow> host \<Rightarrow> bool" where
  "committed_packets K h \<longleftrightarrow> (\<forall>p c n. CHR ''/'' \<notin> set c \<longrightarrow>
     commitments h (pkey K (Packet_path p c n)) \<noteq> zero32 \<longrightarrow> n < nextSequenceSends h p c)"

lemma chan_ok: "chan_inv h \<Longrightarrow> chd_State (channels h p c) \<noteq> 0 \<Longrightarrow> CHR ''/'' \<notin> set c"
  using chan_id_no_slash unfolding chan_inv_def by metis

lemma chan_ok_open: "chan_inv h \<Longrightarrow> chd_State (channels h p c) = STATE_OPEN \<Longrightarrow> CHR ''/'' \<notin> set c"
  by (rule chan_ok [of h p]) simp_all

lemma committed_effect:
  assumes "host_effect K h h'" and k: "keys_distinct K" and c: "chan_inv h"
  shows "committed_conn K h \<Longrightarrow> committed_conn K h'"
    and "committed_chan K h \<Longrightarrow> committed_chan K h'"
    and "committed_client K h \<Longrightarrow> committed_client K h'"
proof -
  note ok = chan_ok [OF c] chan_ok_open [OF c] chan_id_no_slash
  show "committed_conn K h \<Longrightarrow> committed_conn K h'"
    using assms(1) by cases (auto simp: committed_conn_def pkey_eq [OF k] ok dest!: opens_exists)
  show "committed_client K h \<Longrightarrow> committed_client K h'"
    using assms(1) by cases (auto simp: committed_client_def pkey_eq [OF k] ok dest!: opens_exists)
  show "committed_chan K h \<Longrightarrow> committed_chan K h'"
    using assms(1) by cases (auto simp: committed_chan_def pkey_eq [OF k] ok dest!: opens_exists)
qed

lemma committed_packets_effect:
  assumes "host_effect K h h'" and k: "keys_distinct K" and c: "chan_inv h"
    and q: "seq_inv h" and n: "counters_inv n h" "Suc n < 2 ^ 64" and p: "committed_packets K h"
  shows "committed_packets K h'"
    and "CHR ''/'' \<notin> set ch \<Longrightarrow> s < nextSequenceSends h po ch \<Longrightarrow>
      commitments h (pkey K (Packet_path po ch s)) = zero32 \<Longrightarrow>
      commitments h' (pkey K (Packet_path po ch s)) = zero32"
proof -
  note ok = chan_ok [OF c] chan_ok_open [OF c] chan_id_no_slash
  have s: "m < nextSequenceSends h p c \<Longrightarrow> m < nextSequenceSends h p c + 1"
    "nextSequenceSends h p c < nextSequenceSends h p c + 1" for m p c
    using n word_suc [OF _ n(2)] word_le_suc [OF _ n(2)]
    by (auto simp: counters_inv_def word_less_nat_alt less_SucI)
  have new: "nextSequenceSends h p (chan_id (unat (nextChannelSequence h))) = 0" for p
    using q fresh_chan [OF c] by (simp add: seq_inv_def)
  then have none: "commitments h (pkey K (Packet_path p (chan_id (unat (nextChannelSequence h))) m)) = zero32" for p m
    using p chan_id_no_slash by (fastforce simp: committed_packets_def)
  show "committed_packets K h'"
    using assms(1) p by cases (auto simp: committed_packets_def pkey_eq [OF k] ok s new none dest!: opens_exists)
  show "CHR ''/'' \<notin> set ch \<Longrightarrow> s < nextSequenceSends h po ch \<Longrightarrow>
      commitments h (pkey K (Packet_path po ch s)) = zero32 \<Longrightarrow>
      commitments h' (pkey K (Packet_path po ch s)) = zero32"
    using assms(1) by cases (auto simp: pkey_eq [OF k] ok dest!: opens_exists)
qed

end
