(* ===== verification/IBC_Run.thy ===== *)
theory IBC_Run
  imports IBC_Invariants
begin

text \<open>
  A concrete history of the host, for the witnesses of the state-machine properties: a client
  type is registered, a client created, a connection and a channel opened, a packet sent or
  received. The light client of the example accepts every proof, the hash is the identity
  (which keeps the keys of different paths apart).
\<close>

lemma encode_Inr:
  "ced_State c < 4 \<Longrightarrow> ConnectionEnd_encode c = Inr (projr (ConnectionEnd_encode c))"
  "chd_State ch < 5 \<Longrightarrow> chd_Ordering ch < 3 \<Longrightarrow> Channel_encode ch = Inr (projr (Channel_encode ch))"
  by (simp_all add: ConnectionEnd_encode_def ConnectionEnd_encode_State_def Channel_encode_def
      Channel_encode_State_def Channel_encode_Order_def)

lemma encode_projr [result_simps]:
  "ced_State c < 4 \<Longrightarrow> ConnectionEnd_encode c = Inr bz \<longleftrightarrow> bz = projr (ConnectionEnd_encode c)"
  "chd_State ch < 5 \<Longrightarrow> chd_Ordering ch < 3 \<Longrightarrow> Channel_encode ch = Inr bz \<longleftrightarrow> bz = projr (Channel_encode ch)"
  using encode_Inr by fastforce+

definition accept_all :: iclient where
  "accept_all =
     \<lparr>ic_getTimestampAtHeight = (\<lambda>_ _ _. Inr (5, True)), ic_getLatestHeight = (\<lambda>_ _. Inr (5, True)),
      ic_checkHeaderAndUpdateState = (\<lambda>_ _ _ _. Inr ([1], [2], 7)),
      ic_verifyClientState = (\<lambda>_ _ _ _ _ _ _. Inr True),
      ic_verifyClientConsensusState = (\<lambda>_ _ _ _ _ _ _ _. Inr True),
      ic_verifyConnectionState = (\<lambda>_ _ _ _ _ _ _. Inr True),
      ic_verifyChannelState = (\<lambda>_ _ _ _ _ _ _ _. Inr True),
      ic_verifyPacketCommitment = (\<lambda>_ _ _ _ _ _ _ _ _. Inr True),
      ic_verifyPacketAcknowledgement = (\<lambda>_ _ _ _ _ _ _ _ _. Inr True)\<rparr>"

definition run_env :: cenv where
  "run_env = \<lparr>keccak256 = (\<lambda>x. x), msg_sender = 1, block_number = 10, block_timestamp = 10,
     iclients = (\<lambda>_. Some accept_all)\<rparr>"

definition run_client :: MsgCreateClient where
  "run_client = \<lparr>mcc_clientType = ''t'', mcc_height = 5, mcc_clientStateBytes = [1], mcc_consensusStateBytes = [2]\<rparr>"

definition run_conn :: "8 word \<Rightarrow> string \<Rightarrow> ConnectionEndData" where
  "run_conn st i =
     \<lparr>ced_ClientId = client_id ''t'' 0, ced_Versions = getVersions, ced_State = st,
      ced_Counterparty = \<lparr>cd_ClientId = ''u'', cd_ConnectionId = i, cd_Prefix = \<lparr>mpd_KeyPrefix = []\<rparr>\<rparr>,
      ced_DelayPeriod = 0\<rparr>"

definition run_chan :: "8 word \<Rightarrow> 8 word \<Rightarrow> string \<Rightarrow> ChannelData" where
  "run_chan ord st i =
     \<lparr>chd_State = st, chd_Ordering = ord, chd_Counterparty = \<lparr>ccd_PortId = ''q'', ccd_ChannelId = i\<rparr>,
      chd_ConnectionHops = [conn_id 0], chd_Version = ''v''\<rparr>"

definition run_packet :: PacketData where
  "run_packet =
     \<lparr>pd_Sequence = 1, pd_SourcePort = ''p'', pd_SourceChannel = chan_id 0, pd_DestinationPort = ''q'',
      pd_DestinationChannel = ''d'', pd_Data = [], pd_TimeoutHeight = \<lparr>hd_RevisionNumber = 0, hd_RevisionHeight = 0\<rparr>,
      pd_TimeoutTimestamp = 0\<rparr>"

definition run0 :: host where "run0 = (host_constructor run_env)\<lparr>ibcModule := 1\<rparr>"

definition run1 :: host where "run1 = run0\<lparr>clientRegistry := (clientRegistry run0)(''t'' := 9)\<rparr>"

definition run2 :: host where
  "run2 = run1\<lparr>nextClientSequence := 1, events := [GeneratedClientIdentifier (client_id ''t'' 0)],
     clientTypes := (\<lambda>_. [])(client_id ''t'' 0 := ''t''), clientStates := (\<lambda>_. [])(client_id ''t'' 0 := [1]),
     consensusStates := (\<lambda>_ _. [])(client_id ''t'' 0 := (\<lambda>_. [])(5 := [2])),
     commitments := (\<lambda>_. zero32)(pkey (\<lambda>x. x) (Client_path (client_id ''t'' 0)) := [1],
       pkey (\<lambda>x. x) (Consensus_path (client_id ''t'' 0) 5) := [2])\<rparr>"

definition put_conn :: "ConnectionEndData \<Rightarrow> host \<Rightarrow> host" where
  "put_conn c h = h\<lparr>connections := (connections h)(conn_id 0 := c),
     commitments := (commitments h)(pkey (\<lambda>x. x) (Connection_path (conn_id 0)) := projr (ConnectionEnd_encode c))\<rparr>"

definition put_chan :: "ChannelData \<Rightarrow> host \<Rightarrow> host" where
  "put_chan c h = h\<lparr>channels := (channels h)(''p'' := (channels h ''p'')(chan_id 0 := c)),
     commitments := (commitments h)(pkey (\<lambda>x. x) (Channel_path ''p'' (chan_id 0)) := projr (Channel_encode c))\<rparr>"

definition run3 :: host where
  "run3 = put_conn (run_conn 1 []) (run2\<lparr>nextConnectionSequence := 1,
     events := events run2 @ [GeneratedConnectionIdentifier (conn_id 0)]\<rparr>)"

definition run4 :: host where "run4 = put_conn (run_conn 3 ''c'') run3"

definition run5 :: "8 word \<Rightarrow> host" where
  "run5 ord = put_chan (run_chan ord 1 []) (run4\<lparr>nextChannelSequence := 1,
     events := events run4 @ [GeneratedChannelIdentifier (chan_id 0)],
     nextSequenceSends := (\<lambda>_ _. 0)(''p'' := (\<lambda>_. 0)(chan_id 0 := 1)),
     nextSequenceRecvs := (\<lambda>_ _. 0)(''p'' := (\<lambda>_. 0)(chan_id 0 := 1)),
     nextSequenceAcks := (\<lambda>_ _. 0)(''p'' := (\<lambda>_. 0)(chan_id 0 := 1))\<rparr>)"

definition run6 :: "8 word \<Rightarrow> host" where "run6 ord = put_chan (run_chan ord 3 ''d'') (run5 ord)"

definition run_sent :: "8 word \<Rightarrow> host" where
  "run_sent ord = (run6 ord)\<lparr>nextSequenceSends := (\<lambda>_ _. 0)(''p'' := (\<lambda>_. 0)(chan_id 0 := 2)),
     commitments := (commitments (run6 ord))(pkey (\<lambda>x. x) (Packet_path ''p'' (chan_id 0) 1) := makePacketCommitment run_packet)\<rparr>"

lemmas run_simps = path_key_simps path_key_pkey getClient_Inr put_conn_def put_chan_def
  run0_def run1_def run2_def run3_def run4_def run5_def run6_def host_constructor_def
  run_env_def run_client_def run_conn_def run_chan_def accept_all_def result_simps Let_def

lemma run_create: "createClient run_env run_client run1 = Inr run2"
  by (simp add: run_simps)

lemma run_conn_init:
  "connectionOpenInit run_env \<lparr>mci_clientId = client_id ''t'' 0,
     mci_counterparty = \<lparr>cd_ClientId = ''u'', cd_ConnectionId = [], cd_Prefix = \<lparr>mpd_KeyPrefix = []\<rparr>\<rparr>,
     mci_delayPeriod = 0\<rparr> run2 = Inr (conn_id 0, run3)"
  by (simp add: connectionOpenInit_def run_simps getVersions_def)


lemma run_conn_ack:
  "connectionOpenAck run_env \<lparr>mca_connectionId = conn_id 0, mca_clientStateBytes = [], mca_version = hd getVersions,
     mca_counterpartyConnectionID = ''c'', mca_proofTry = [], mca_proofClient = [], mca_proofConsensus = [],
     mca_proofHeight = 5, mca_consensusHeight = 5\<rparr> run3 = Inr run4"
  by (simp add: connectionOpenAck_def run_simps getConnection_def getVersions_def makeVersionArray_def
      isSupportedVersion_def validateSelfClient_def verifyConnectionState_def verifyClientState_def)

lemma run_chan_init:
  "ord < 3 \<Longrightarrow> channelOpenInit run_env \<lparr>mhi_portId = ''p'', mhi_channel = run_chan ord 1 []\<rparr> run4 =
     Inr (chan_id 0, run5 ord)"
  by (simp add: channelOpenInit_def run_simps new_channel_def channel_connection_def getConnection_def getVersions_def)

lemma run_chan_ack:
  "ord < 3 \<Longrightarrow> channelOpenAck run_env \<lparr>mha_portId = ''p'', mha_channelId = chan_id 0, mha_counterpartyVersion = ''v'',
     mha_counterpartyChannelId = ''d'', mha_proofTry = [], mha_proofHeight = 5\<rparr> (run5 ord) = Inr (run6 ord)"
  by (simp add: channelOpenAck_def run_simps channel_connection_def getConnection_def getVersions_def
      getCounterpartyHops_def getChannel_def verifyChannelState_def)


lemma run6_fields:
  "ibcModule (run6 ord) = 1" "channels (run6 ord) ''p'' (chan_id 0) = run_chan ord 3 ''d''"
  "connections (run6 ord) (conn_id 0) = run_conn 3 ''c''" "clientRegistry (run6 ord) ''t'' = 9"
  "clientTypes (run6 ord) (client_id ''t'' 0) = ''t''"
  "nextSequenceSends (run6 ord) = (\<lambda>_ _. 0)(''p'' := (\<lambda>_. 0)(chan_id 0 := 1))"
  "nextSequenceRecvs (run6 ord) ''p'' (chan_id 0) = 1" "nextSequenceAcks (run6 ord) ''p'' (chan_id 0) = 1"
  "packetReceipts (run6 ord) = (\<lambda>_ _ _. False)"
  by (simp_all add: put_conn_def put_chan_def run0_def run1_def run2_def run3_def run4_def run5_def run6_def
      host_constructor_def)

lemmas run6_simps = run6_fields path_key_simps path_key_pkey getClient_Inr channel_connection_def getConnection_def
  getChannel_def run_packet_def run_env_def run_conn_def run_chan_def accept_all_def result_simps Let_def

lemma run_send: "sendPacket run_env run_packet (run6 ord) = Inr (run_sent ord)"
  by (simp add: sendPacket_def run6_simps run_sent_def getNextSequenceSend_def exI [of _ True])

definition run_recv :: MsgPacketRecv where
  "run_recv = \<lparr>mpr_packet = \<lparr>pd_Sequence = 1, pd_SourcePort = ''q'', pd_SourceChannel = ''d'',
     pd_DestinationPort = ''p'', pd_DestinationChannel = chan_id 0, pd_Data = [],
     pd_TimeoutHeight = \<lparr>hd_RevisionNumber = 0, hd_RevisionHeight = 0\<rparr>, pd_TimeoutTimestamp = 0\<rparr>,
     mpr_proof = [], mpr_proofHeight = 5\<rparr>"

definition run_received :: host where
  "run_received = (run6 1)\<lparr>packetReceipts := (\<lambda>_ _ _. False)(''p'' := (\<lambda>_ _. False)(chan_id 0 := (\<lambda>_. False)(1 := True)))\<rparr>"

lemma run_recv: "recvPacket run_env run_recv (run6 1) = Inr run_received"
  by (simp add: recvPacket_def run6_simps run_recv_def run_received_def hasPacketReceipt_def verifyPacketCommitment_def)

lemma keys_distinct_run: "keys_distinct (\<lambda>x. x)"
  by (rule keys_distinct_inj) (rule inj_on_id2)

lemma run_reach0: "reach (\<lambda>x. x) 1 run0"
proof -
  have "setIBCModule run_env 1 (host_constructor run_env) = Inr run0"
    by (simp add: setIBCModule_def run0_def host_constructor_def run_env_def result_simps)
  then have "host_step (\<lambda>x. x) (host_constructor run_env) run0"
    by (intro step_module [of run_env]) (simp add: run_env_def)
  then show ?thesis using reach_step [OF reach_init] by simp
qed

lemma run_steps:
  "host_step (\<lambda>x. x) run0 run1" "host_step (\<lambda>x. x) run1 run2" "host_step (\<lambda>x. x) run2 run3"
  "host_step (\<lambda>x. x) run3 run4" "ord < 3 \<Longrightarrow> host_step (\<lambda>x. x) run4 (run5 ord)"
  "ord < 3 \<Longrightarrow> host_step (\<lambda>x. x) (run5 ord) (run6 ord)" "host_step (\<lambda>x. x) (run6 ord) (run_sent ord)"
  "host_step (\<lambda>x. x) (run6 1) run_received"
proof -
  have k: "keccak256 run_env = (\<lambda>x. x)" by (simp add: run_env_def)
  have "registerClient run_env ''t'' 9 run0 = Inr run1"
    by (simp add: registerClient_def run_simps)
  with k show "host_step (\<lambda>x. x) run0 run1" by (rule step_register)
  show "host_step (\<lambda>x. x) run1 run2" using k run_create by (rule step_create)
  show "host_step (\<lambda>x. x) run2 run3" using k run_conn_init by (rule step_conn_init)
  show "host_step (\<lambda>x. x) run3 run4" using k run_conn_ack by (rule step_conn_ack)
  show "host_step (\<lambda>x. x) run4 (run5 ord)" if "ord < 3" using k run_chan_init [OF that] by (rule step_chan_init)
  show "host_step (\<lambda>x. x) (run5 ord) (run6 ord)" if "ord < 3" using k run_chan_ack [OF that] by (rule step_chan_ack)
  show "host_step (\<lambda>x. x) (run6 ord) (run_sent ord)" using k run_send by (rule step_send)
  show "host_step (\<lambda>x. x) (run6 1) run_received" using k run_recv by (rule step_recv)
qed

lemma run_reach:
  "reach (\<lambda>x. x) 3 run2" "reach (\<lambda>x. x) 4 run3" "reach (\<lambda>x. x) 5 run4"
  "ord < 3 \<Longrightarrow> reach (\<lambda>x. x) 7 (run6 ord)"
proof -
  have 1: "reach (\<lambda>x. x) 2 run1" using reach_step [OF run_reach0 run_steps(1)] by (simp add: numeral_2_eq_2)
  show 2: "reach (\<lambda>x. x) 3 run2" using reach_step [OF 1 run_steps(2)] by simp
  show 3: "reach (\<lambda>x. x) 4 run3" using reach_step [OF 2 run_steps(3)] by simp
  show 4: "reach (\<lambda>x. x) 5 run4" using reach_step [OF 3 run_steps(4)] by simp
  show "reach (\<lambda>x. x) 7 (run6 ord)" if "ord < 3"
    using reach_step [OF reach_step [OF 4 run_steps(5) [OF that]] run_steps(6) [OF that]] by simp
qed

end
