(* ===== verification/Sha256_Vector.thy ===== *)
theory Sha256_Vector
  imports Sha256 Big_Endian
begin

text \<open>The executable SHA-256 on a test vector of FIPS 180-4: the three bytes of \<^verbatim>\<open>abc\<close>.\<close>

lemma sha256_abc:
  "sha256 [0x61, 0x62, 0x63] =
   [186, 120, 22, 191, 143, 1, 207, 234, 65, 65, 64, 222, 93, 174, 34, 35,
    176, 3, 97, 163, 150, 23, 122, 156, 180, 16, 255, 97, 242, 0, 21, 173]"
  by code_simp

text \<open>
  The empty message, and the message a packet without data or timeouts is committed to: its
  three timeout words and the hash of the empty data.
\<close>

lemma sha256_empty:
  "sha256 [] =
   [227, 176, 196, 66, 152, 252, 28, 20, 154, 251, 244, 200, 153, 111, 185, 36,
    39, 174, 65, 228, 100, 155, 147, 76, 164, 149, 153, 27, 120, 82, 184, 85]"
  by code_simp

lemma sha256_empty_packet: "hd (sha256 (be64 0 @ be64 0 @ be64 0 @ sha256 [])) \<noteq> 0"
proof -
  have b: "be64 0 = replicate 8 0" by code_simp
  show ?thesis unfolding sha256_empty b by code_simp
qed

end
