(* ===== verification/IBC_Properties.thy ===== *)
theory IBC_Properties
  imports IBC_Run Sha256_Vector
begin

text \<open>
  What the invariants give for the host contract: the refinement of the abstract
  specification, the commitments, the life cycle of ends and packets. Each property comes
  with a witness on the run of \<^verbatim>\<open>IBC_Run\<close>.
\<close>

section \<open>Refinement\<close>

text \<open>
  C19: every successful operation of the IBC client, connection and channel libraries and of the
  host's registry, called by anyone with any arguments, in any block and against any light
  clients, changes the storage of the host only in one of the ways the abstract specification
  \<open>host_effect\<close> lists, under the condition listed with it: a new end under the next identifier,
  an end opened, a sequence increased by one, a commitment written or deleted.
\<close>

theorem host_step_refines: "host_step K h h' \<Longrightarrow> host_effect K h h'"
  by (rule host_step_effects)

lemma host_step_refines_witness:
  "host_effect (\<lambda>x. x) (run6 1) (run_sent 1) \<and> nextSequenceSends (run_sent 1) ''p'' (chan_id 0) = 2"
  using host_step_refines [OF run_steps(7)] by (simp add: run_sent_def)

section \<open>Invariants of reachable hosts\<close>

lemma reach_committed:
  assumes "keys_distinct K"
  shows "reach K n h \<Longrightarrow> n < 2 ^ 64 \<Longrightarrow>
    committed_conn K h \<and> committed_chan K h \<and> committed_client K h \<and> committed_packets K h"
proof (induction rule: reach.induct)
  case (reach_init E)
  show ?case
    by (simp add: committed_conn_def committed_chan_def committed_client_def committed_packets_def
        host_constructor_def ConnectionEndData_zero_def ChannelData_zero_def)
next
  case (reach_step n h h')
  note e = reach_effect [OF reach_step.hyps reach_step.prems]
  from reach_step.IH reach_step.prems
  have "committed_conn K h" "committed_chan K h" "committed_client K h" "committed_packets K h" by simp_all
  then show ?case
    using committed_effect [OF e(1) assms e(3)]
      committed_packets_effect(1) [OF e(1) assms e(3,6,4) reach_step.prems] by blast
qed

text \<open>
  C18: in every host reached by fewer than \<open>2^64\<close> operations, the commitment under the path of a
  stored connection end, channel end, client state and consensus state is the hash of the
  encoding of what is stored, so a proof of the commitment is a proof of the state; and there
  is a packet commitment only below the next sequence to send. The hash is assumed to keep the
  keys of different paths apart.
\<close>

theorem reach_commitments:
  assumes "keys_distinct K" and "reach K n h" and "n < 2 ^ 64"
  shows "committed_conn K h \<and> committed_chan K h \<and> committed_client K h \<and> committed_packets K h"
  using assms by (rule reach_committed)

lemma reach_commitments_witness:
  "\<exists>bz. Channel_encode (run_chan 1 3 ''d'') = Inr bz \<and>
     commitments (run6 1) (pkey (\<lambda>x. x) (Channel_path ''p'' (chan_id 0))) = bz"
proof -
  have "committed_chan (\<lambda>x. x) (run6 1)"
    using reach_commitments [OF keys_distinct_run run_reach(4)] by simp
  moreover have "channels (run6 1) ''p'' (chan_id 0) = run_chan 1 3 ''d''" "chd_State (run_chan 1 3 ''d'') \<noteq> 0"
    by (simp_all add: run6_fields run_chan_def)
  ultimately show ?thesis unfolding committed_chan_def by metis
qed

section \<open>The life cycle of ends\<close>

text \<open>
  C20: a connection end never disappears and never goes back. After any number of further
  operations (fewer than \<open>2^64\<close> in all) it is unchanged, or it has been opened, once, from
  INIT or TRYOPEN, with the same client, counterparty client, prefix and delay period; an
  open connection never changes again.
\<close>

theorem connection_life_cycle:
  assumes "reach K n h" and "(host_step K ^^ k) h h'" and "n + k < 2 ^ 64"
    and "ced_State (connections h i) \<noteq> 0"
  shows "connections h' i = connections h i \<or>
    ced_State (connections h i) \<in> {STATE_INIT, STATE_TRYOPEN} \<and> ced_State (connections h' i) = STATE_OPEN \<and>
    ced_ClientId (connections h' i) = ced_ClientId (connections h i) \<and>
    ced_DelayPeriod (connections h' i) = ced_DelayPeriod (connections h i) \<and>
    cd_ClientId (ced_Counterparty (connections h' i)) = cd_ClientId (ced_Counterparty (connections h i)) \<and>
    cd_Prefix (ced_Counterparty (connections h' i)) = cd_Prefix (ced_Counterparty (connections h i))"
  using steps_evolve [OF assms(1-3)] assms(4) unfolding evolves_def conn_opens_def by meson

lemma connection_life_cycle_witness:
  "(host_step (\<lambda>x. x) ^^ 1) run3 run4 \<and> connections run4 (conn_id 0) \<noteq> connections run3 (conn_id 0) \<and>
   ced_State (connections run4 (conn_id 0)) = STATE_OPEN"
proof -
  have s: "(host_step (\<lambda>x. x) ^^ 1) run3 run4" using run_steps(4) by (simp add: eq_OO)
  have c: "connections run3 (conn_id 0) = run_conn 1 []" "connections run4 (conn_id 0) = run_conn 3 ''c''"
    by (simp_all add: run3_def run4_def put_conn_def)
  with connection_life_cycle [OF run_reach(2) s, of "conn_id 0"] s show ?thesis
    by (simp add: run_conn_def)
qed



section \<open>Packets\<close>

text \<open>What an operation and all that follows leave of a channel that was open.\<close>

lemma later_channel:
  assumes "reach K n h" and "host_step K h h1" and "(host_step K ^^ k) h1 h2" and "Suc n + k < 2 ^ 64"
    and "chd_State (channels h1 p c) \<noteq> 0"
  shows "chd_Ordering (channels h2 p c) = chd_Ordering (channels h1 p c)"
    and "nextSequenceSends h1 p c \<le> nextSequenceSends h2 p c"
    and "nextSequenceRecvs h1 p c \<le> nextSequenceRecvs h2 p c"
    and "packetReceipts h1 p c m \<Longrightarrow> packetReceipts h2 p c m"
proof -
  note e = steps_evolve [OF reach_step [OF assms(1,2)] assms(3,4), unfolded evolves_def]
  from e assms(5) have "channels h2 p c = channels h1 p c \<or> chan_opens (channels h1 p c) (channels h2 p c)"
    by blast
  then show "chd_Ordering (channels h2 p c) = chd_Ordering (channels h1 p c)"
    by (auto simp: chan_opens_def)
  from e assms(5) show "nextSequenceSends h1 p c \<le> nextSequenceSends h2 p c"
    and "nextSequenceRecvs h1 p c \<le> nextSequenceRecvs h2 p c"
    and "packetReceipts h1 p c m \<Longrightarrow> packetReceipts h2 p c m" by blast+
qed

lemma counter_next:
  assumes "reach K n h" and "Suc n < 2 ^ 64"
  shows "unat (nextSequenceRecvs h p c + 1) = Suc (unat (nextSequenceRecvs h p c))"
    and "unat (nextSequenceSends h p c + 1) = Suc (unat (nextSequenceSends h p c))"
  using reach_inv [OF assms(1)] assms(2) word_suc [OF _ assms(2)] by (simp_all add: counters_inv_def)

text \<open>
  C16: no packet is received twice. Once \<^verbatim>\<open>recvPacket\<close> has succeeded for a sequence on a channel,
  it fails for that sequence on that channel after any further operations (fewer than \<open>2^64\<close>
  in all), from any sender, in any block, with any packet contents and proofs.
\<close>

theorem recvPacket_once:
  assumes "reach K n h" and "keccak256 (E :: cenv) = K" and "recvPacket E m h = Inr h1"
    and "(host_step K ^^ k) h1 h2" and "Suc n + k < 2 ^ 64"
    and "pd_DestinationPort (mpr_packet m') = pd_DestinationPort (mpr_packet m)"
    and "pd_DestinationChannel (mpr_packet m') = pd_DestinationChannel (mpr_packet m)"
    and "pd_Sequence (mpr_packet m') = pd_Sequence (mpr_packet m)"
  shows "\<exists>e. recvPacket E' m' h2 = Inl e"
proof (cases "recvPacket E' m' h2")
  case (Inr h3)
  let ?p = "pd_DestinationPort (mpr_packet m)" and ?c = "pd_DestinationChannel (mpr_packet m)"
    and ?n = "pd_Sequence (mpr_packet m)"
  have step: "host_step K h h1" using assms(2,3) by (rule step_recv)
  note r = recvPacket_Inr(3) [OF assms(3)] and r' = recvPacket_Inr(3) [OF Inr, unfolded assms(6-8)]
  have "chd_State (channels h1 ?p ?c) \<noteq> 0" using r recvPacket_Inr(2) [OF assms(3)] by auto
  note l = later_channel [OF assms(1) step assms(4,5) this]
  have "Suc n < 2 ^ 64" using assms(5) by simp
  from counter_next(1) [OF assms(1) this] have "\<not> nextSequenceRecvs h ?p ?c + 1 \<le> nextSequenceRecvs h ?p ?c"
    by (simp add: word_le_nat_alt)
  with r r' l(1,3) l(4) [of ?n] have False by auto
  then show ?thesis ..
qed simp

lemma recvPacket_once_witness:
  "recvPacket run_env run_recv (run6 1) = Inr run_received \<and> (\<exists>e. recvPacket run_env run_recv run_received = Inl e)"
proof -
  have "(host_step (\<lambda>x. x) ^^ 0) run_received run_received" by simp
  from recvPacket_once [OF run_reach(4) _ run_recv this, of run_recv run_env] run_recv show ?thesis
    by (simp add: run_env_def)
qed

text \<open>
  The packets sent on a channel carry strictly increasing sequences, the first of which is
  the host's counter; each is committed to under its own sequence and the counter moves on.
\<close>

theorem sendPacket_increasing:
  assumes "reach K n h" and "keccak256 (E :: cenv) = K" and "sendPacket E pkt h = Inr h1"
    and "(host_step K ^^ k) h1 h2" and "Suc n + k < 2 ^ 64" and "sendPacket E' pkt' h2 = Inr h3"
    and "pd_SourcePort pkt' = pd_SourcePort pkt" and "pd_SourceChannel pkt' = pd_SourceChannel pkt"
  shows "pd_Sequence pkt = nextSequenceSends h (pd_SourcePort pkt) (pd_SourceChannel pkt) \<and>
    pd_Sequence pkt < pd_Sequence pkt' \<and>
    commitments h1 (pkey K (Packet_path (pd_SourcePort pkt) (pd_SourceChannel pkt) (pd_Sequence pkt))) =
      makePacketCommitment pkt"
proof -
  let ?p = "pd_SourcePort pkt" and ?c = "pd_SourceChannel pkt"
  have step: "host_step K h h1" using assms(2,3) by (rule step_send)
  note s = sendPacket_Inr [OF assms(3)] and s' = sendPacket_Inr [OF assms(6), unfolded assms(7,8)]
  have "chd_State (channels h1 ?p ?c) \<noteq> 0" using s(2) by (simp add: s(7))
  note l = later_channel(2) [OF assms(1) step assms(4,5) this]
  have "Suc n < 2 ^ 64" using assms(5) by simp
  from counter_next(2) [OF assms(1) this] have "nextSequenceSends h ?p ?c < nextSequenceSends h1 ?p ?c"
    by (simp add: s(7) word_less_nat_alt)
  with l s(6) s'(6) show ?thesis by (simp add: s(7) assms(2) [symmetric])
qed

lemma run_send_again:
  "\<exists>h. sendPacket run_env (run_packet\<lparr>pd_Sequence := 2\<rparr>) (run_sent 1) = Inr h"
  by (simp add: sendPacket_def run6_simps run_sent_def getNextSequenceSend_def exI [of _ True])

lemma sendPacket_increasing_witness:
  "commitments (run_sent 1) (pkey (\<lambda>x. x) (Packet_path ''p'' (chan_id 0) 1)) = makePacketCommitment run_packet"
proof -
  obtain h where h: "sendPacket run_env (run_packet\<lparr>pd_Sequence := 2\<rparr>) (run_sent 1) = Inr h"
    using run_send_again by blast
  have "(host_step (\<lambda>x. x) ^^ 0) (run_sent 1) (run_sent 1)" by simp
  from sendPacket_increasing [OF run_reach(4) _ run_send this _ h] show ?thesis
    by (simp add: run_env_def run_packet_def)
qed

text \<open>
  C22: on an ordered channel of a reachable host no packet can be acknowledged: \<^verbatim>\<open>acknowledgePacket\<close>
  fails whatever the packet, the proof and the environment, because it requires the next
  sequence to acknowledge to be 0 while the handshake has set it to 1.
\<close>

theorem acknowledgePacket_ordered_fails:
  assumes "reach K n h" and "n < 2 ^ 64"
    and "chd_Ordering (channels h (pd_SourcePort (mpa_packet m)) (pd_SourceChannel (mpa_packet m))) = ORDER_ORDERED"
  shows "\<exists>e. acknowledgePacket E m h = Inl e"
proof (cases "acknowledgePacket E m h")
  case (Inr h')
  have "chan_inv h" using reach_inv assms(1,2) by blast
  with acknowledgePacket_Inr(2,5) [OF Inr] assms(3) have False by (auto simp: chan_inv_def)
  then show ?thesis ..
qed simp

definition run_ack :: MsgPacketAcknowledgement where
  "run_ack = \<lparr>mpa_packet = run_packet, mpa_acknowledgement = [1], mpa_proof = [], mpa_proofHeight = 5\<rparr>"

lemma acknowledgePacket_ordered_fails_witness:
  "sendPacket run_env run_packet (run6 2) = Inr (run_sent 2) \<and>
   (\<exists>e. acknowledgePacket run_env run_ack (run_sent 2) = Inl e)"
proof -
  have "reach (\<lambda>x. x) 8 (run_sent 2)"
    using reach_step [OF run_reach(4) run_steps(7), of 2] by simp
  with acknowledgePacket_ordered_fails [of "\<lambda>x. x" 8 "run_sent 2" run_ack run_env] show ?thesis
    using run_send [of 2] by (simp add: run_ack_def run_packet_def run_sent_def run6_fields run_chan_def)
qed

text \<open>A deleted packet commitment stays deleted.\<close>

lemma packet_gone:
  assumes "keys_distinct K" and "CHR ''/'' \<notin> set c"
  shows "reach K n h \<Longrightarrow> (host_step K ^^ k) h h' \<Longrightarrow> n + k < 2 ^ 64 \<Longrightarrow>
    m < nextSequenceSends h p c \<Longrightarrow> chd_State (channels h p c) \<noteq> 0 \<Longrightarrow>
    commitments h (pkey K (Packet_path p c m)) = zero32 \<Longrightarrow>
    commitments h' (pkey K (Packet_path p c m)) = zero32"
proof (induction k arbitrary: h')
  case (Suc k)
  then obtain h1 where 1: "(host_step K ^^ k) h h1" and 2: "host_step K h1 h'" by auto
  from Suc.prems(3) have n: "n + k < 2 ^ 64" "Suc (n + k) < 2 ^ 64" by simp_all
  have r: "reach K (n + k) h1" using Suc.prems(1) 1 by (rule reach_relpow)
  note e = reach_effect [OF r 2 n(2)]
  have "m < nextSequenceSends h1 p c"
    using steps_evolve [OF Suc.prems(1) 1 n(1)] Suc.prems(4,5) less_le_trans unfolding evolves_def by blast
  moreover have "commitments h1 (pkey K (Packet_path p c m)) = zero32"
    using Suc.IH [OF Suc.prems(1) 1 n(1) Suc.prems(4-6)] .
  ultimately show ?case
    using committed_packets_effect(2) [OF e(1) assms(1) e(3,6,4) n(2) _ assms(2)]
      reach_committed [OF assms(1) r n(1)] by blast
qed simp

text \<open>
  C17: a packet is acknowledged at most once. Once \<^verbatim>\<open>acknowledgePacket\<close> has succeeded for a
  sequence on a channel, its commitment is gone for good and every later acknowledgement for
  that sequence on that channel fails, whatever its packet, proof and environment.
\<close>

theorem acknowledgePacket_once:
  assumes "keys_distinct K" and "reach K n h" and "keccak256 (E :: cenv) = K" and "acknowledgePacket E m h = Inr h1"
    and "(host_step K ^^ k) h1 h2" and "Suc n + k < 2 ^ 64" and "keccak256 E' = K"
    and "pd_SourcePort (mpa_packet m') = pd_SourcePort (mpa_packet m)"
    and "pd_SourceChannel (mpa_packet m') = pd_SourceChannel (mpa_packet m)"
    and "pd_Sequence (mpa_packet m') = pd_Sequence (mpa_packet m)"
  shows "\<exists>e. acknowledgePacket E' m' h2 = Inl e"
proof (cases "acknowledgePacket E' m' h2")
  case (Inr h3)
  let ?p = "pd_SourcePort (mpa_packet m)" and ?c = "pd_SourceChannel (mpa_packet m)"
    and ?n = "pd_Sequence (mpa_packet m)"
  have n: "n < 2 ^ 64" using assms(6) by simp
  have i: "chan_inv h" "committed_packets K h"
    using reach_inv [OF assms(2) n] reach_committed [OF assms(1,2) n] by simp_all
  note a = acknowledgePacket_Inr [OF assms(4), unfolded assms(3)]
    and a' = acknowledgePacket_Inr [OF Inr, unfolded assms(7-10)]
  have h1: "h1 = set_commitment K (Packet_path ?p ?c ?n) zero32 h"
    using a(2,5) i(1) by (auto simp: chan_inv_def)
  have c: "CHR ''/'' \<notin> set ?c" using i(1) a(2) by (rule chan_ok_open)
  have "reach K (Suc n) h1" using assms(2) step_ack [OF assms(3,4)] by (rule reach_step)
  moreover have "?n < nextSequenceSends h ?p ?c" using i(2) c a(4) by (simp add: committed_packets_def)
  ultimately have "commitments h2 (pkey K (Packet_path ?p ?c ?n)) = zero32"
    using packet_gone [OF assms(1) c _ assms(5,6), of ?n ?p] a(2) by (simp add: h1)
  with a'(4) show ?thesis by simp
qed simp

lemma run_commitment: "makePacketCommitment run_packet \<noteq> zero32"
proof -
  have "hd (makePacketCommitment run_packet) \<noteq> 0"
    using sha256_empty_packet by (simp only: makePacketCommitment_def run_packet_def PacketData.simps HeightData.simps
        not_False_eq_True)
  then show ?thesis by (auto simp: zero32_def numeral_eq_Suc)
qed

lemma run_acknowledge: "\<exists>h. acknowledgePacket run_env run_ack (run_sent 1) = Inr h"
  using run_commitment
  by (simp add: acknowledgePacket_def run6_simps run_sent_def run_ack_def getPacketCommitment_def
      verifyPacketAcknowledgement_def)

lemma acknowledgePacket_once_witness:
  "\<exists>h. acknowledgePacket run_env run_ack (run_sent 1) = Inr h \<and>
     (\<exists>e. acknowledgePacket run_env run_ack h = Inl e)"
proof -
  obtain h where h: "acknowledgePacket run_env run_ack (run_sent 1) = Inr h"
    using run_acknowledge by blast
  have "reach (\<lambda>x. x) 8 (run_sent 1)"
    using reach_step [OF run_reach(4) run_steps(7), of 1] by simp
  moreover have "(host_step (\<lambda>x. x) ^^ 0) h h" by simp
  ultimately have "\<exists>e. acknowledgePacket run_env run_ack h = Inl e"
    using acknowledgePacket_once [OF keys_distinct_run _ _ h, of 8 0 h run_env run_ack]
    by (simp add: run_env_def)
  with h show ?thesis by blast
qed

section \<open>Access\<close>

text \<open>
  C30: an operation on the host whose caller (as the host sees it) is not the IBC module fails
  and names no reason, before it looks at anything else; the IBC module is changed by the
  owner only.
\<close>

theorem host_unauthorised:
  assumes "msg_sender E \<noteq> ibcModule h"
  shows "registerClient E t a h = Inl (Revert []) \<and> createClient E mcc h = Inl (Revert []) \<and>
    updateClient E muc h = Inl (Revert []) \<and> connectionOpenInit E mci h = Inl (Revert []) \<and>
    connectionOpenTry E mct h = Inl (Revert []) \<and> connectionOpenAck E mca h = Inl (Revert []) \<and>
    connectionOpenConfirm E mco h = Inl (Revert []) \<and> channelOpenInit E mhi h = Inl (Revert []) \<and>
    channelOpenTry E mht h = Inl (Revert []) \<and> channelOpenAck E mha h = Inl (Revert []) \<and>
    channelOpenConfirm E mho h = Inl (Revert []) \<and> sendPacket E pkt h = Inl (Revert []) \<and>
    recvPacket E mpr h = Inl (Revert []) \<and> writeAcknowledgement E p c n ack h = Inl (Revert []) \<and>
    acknowledgePacket E mpa h = Inl (Revert []) \<and> claimCapability E name a h = Inl (Revert []) \<and>
    (msg_sender E \<noteq> host_owner h \<longrightarrow> setIBCModule E a h = Inl (Revert []))"
proof -
  have "onlyIBCModule E h = Inl (Revert [])" using assms by (simp add: onlyIBCModule_def require_def)
  then show ?thesis
    by (simp add: registerClient_def createClient_def updateClient_def connectionOpenInit_def connectionOpenTry_def
        connectionOpenAck_def connectionOpenConfirm_def channelOpenInit_def channelOpenTry_def channelOpenAck_def
        channelOpenConfirm_def sendPacket_def recvPacket_def writeAcknowledgement_def acknowledgePacket_def
        claimCapability_def setIBCModule_def require_def)
qed

lemma host_unauthorised_witness:
  "sendPacket (run_env\<lparr>msg_sender := 7\<rparr>) run_packet (run6 1) = Inl (Revert [])"
  using host_unauthorised [of "run_env\<lparr>msg_sender := 7\<rparr>" "run6 1"] by (simp add: run6_fields)

end
