(* ===== verification/Go_Bind.thy ===== *)
theory Go_Bind
  imports IBC_Msgs
begin

text \<open>
  What the generated contract bindings under \<^verbatim>\<open>pkg/contract\<close> have in common. A binding is a thin
  layer over \<^verbatim>\<open>bind.BoundContract\<close> of go-ethereum: it names the contract method, passes the
  arguments as \<^verbatim>\<open>interface{}\<close> values and converts what comes back. The generator writes the same
  code for every contract; the six binding theories instantiate the definitions of this one.

  \<^item> \<open>iface\<close> is the Go type \<^verbatim>\<open>interface{}\<close> restricted to the types the bindings put into it:
    the constructor is the dynamic type, a type assertion to another type panics.
  \<^item> \<open>bound_contract\<close> is the library object, a parameter: its methods, over the world \<open>'w\<close> the
    node sees, with the call, transaction and filter options, errors, transactions and logs
    of the library as type variables. A transaction changes the world.
  \<^item> A Go function that returns a value and an error has the result \<open>'e go_fail + 'a\<close>; the
    zero values that accompany an error are not kept.
\<close>

datatype iface =
  I_bool bool
| I_string string
| I_bytes "byte list"
| I_bytes32 "byte list"
| I_uint8 "8 word"
| I_uint64 "64 word"
| I_big int
| I_address address
| I_strings "string list"
| I_ChannelCounterpartyData ChannelCounterpartyData
| I_ChannelData ChannelData
| I_ConnectionEndData ConnectionEndData
| I_PacketData PacketData
| I_MsgCreateClient MsgCreateClient
| I_MsgUpdateClient MsgUpdateClient
| I_MsgConnectionOpenInit MsgConnectionOpenInit
| I_MsgConnectionOpenTry MsgConnectionOpenTry
| I_MsgConnectionOpenAck MsgConnectionOpenAck
| I_MsgConnectionOpenConfirm MsgConnectionOpenConfirm
| I_MsgChannelOpenInit MsgChannelOpenInit
| I_MsgChannelOpenTry MsgChannelOpenTry
| I_MsgChannelOpenAck MsgChannelOpenAck
| I_MsgChannelOpenConfirm MsgChannelOpenConfirm
| I_MsgPacketRecv MsgPacketRecv
| I_MsgPacketAcknowledgement MsgPacketAcknowledgement

datatype 'e go_fail = Go_err 'e | Go_panics

text \<open>
  The channels of a log filter, seen by the reader: what its \<^verbatim>\<open>select\<close> receives next. A
  \<open>Log\<close> comes from the log channel, \<open>Sub_err\<close> from \<^verbatim>\<open>sub.Err()\<close> (\<open>None\<close> is the nil of a channel that
  was closed because the subscription is complete).
\<close>

datatype ('l, 'e) feed = Log 'l | Sub_err "'e option"

record ('w, 'co, 'to, 'fo, 'wo, 'e, 'tx, 'l) bound_contract =
  bc_Call :: "'co \<Rightarrow> string \<Rightarrow> iface list \<Rightarrow> 'w \<Rightarrow> 'e + iface list"
  bc_Transact :: "'to \<Rightarrow> string \<Rightarrow> iface list \<Rightarrow> 'w \<Rightarrow> ('e + 'tx) \<times> 'w"
  bc_Transfer :: "'to \<Rightarrow> 'w \<Rightarrow> ('e + 'tx) \<times> 'w"
  bc_FilterLogs :: "'fo \<Rightarrow> string \<Rightarrow> iface list list \<Rightarrow> 'w \<Rightarrow> 'e + ('l, 'e) feed list"
  bc_WatchLogs :: "'wo \<Rightarrow> string \<Rightarrow> iface list list \<Rightarrow> 'w \<Rightarrow> 'e + unit"
  bc_UnpackLog :: "string \<Rightarrow> 'l \<Rightarrow> 'e + iface list"
  bc_mismatch :: 'e
  bc_Unsubscribe :: "('l, 'e) feed list \<Rightarrow> ('l, 'e) feed list"
  bc_ConvertType :: "iface \<Rightarrow> iface option"

text \<open>
  \<^verbatim>\<open>abi.ConvertType(v, new(T))\<close> converts a value the ABI decoder produced to the binding's type;
  the target type is recovered from the type assertion that follows, so the parameter
  \<open>bc_ConvertType\<close> maps the decoder's value to the value of the binding's type (\<open>None\<close>: it
  panics).
\<close>

fun go_lift :: "'e + 'a \<Rightarrow> 'e go_fail + 'a" where
  "go_lift (Inl e) = Inl (Go_err e)"
| "go_lift (Inr x) = Inr x"

lemma go_lift_Inr [result_simps]: "go_lift r = Inr x \<longleftrightarrow> r = Inr x"
  by (cases r) auto

subsection \<open>Type assertions\<close>

fun as_bool :: "iface \<Rightarrow> bool option" where
  "as_bool (I_bool x) = Some x" | "as_bool _ = None"

fun as_string :: "iface \<Rightarrow> string option" where
  "as_string (I_string x) = Some x" | "as_string _ = None"

fun as_bytes :: "iface \<Rightarrow> byte list option" where
  "as_bytes (I_bytes x) = Some x" | "as_bytes _ = None"

fun as_bytes32 :: "iface \<Rightarrow> byte list option" where
  "as_bytes32 (I_bytes32 x) = Some x" | "as_bytes32 _ = None"

fun as_uint8 :: "iface \<Rightarrow> 8 word option" where
  "as_uint8 (I_uint8 x) = Some x" | "as_uint8 _ = None"

fun as_uint64 :: "iface \<Rightarrow> 64 word option" where
  "as_uint64 (I_uint64 x) = Some x" | "as_uint64 _ = None"

fun as_big :: "iface \<Rightarrow> int option" where
  "as_big (I_big x) = Some x" | "as_big _ = None"

fun as_address :: "iface \<Rightarrow> address option" where
  "as_address (I_address x) = Some x" | "as_address _ = None"

fun as_ChannelData :: "iface \<Rightarrow> ChannelData option" where
  "as_ChannelData (I_ChannelData x) = Some x" | "as_ChannelData _ = None"

fun as_ConnectionEndData :: "iface \<Rightarrow> ConnectionEndData option" where
  "as_ConnectionEndData (I_ConnectionEndData x) = Some x" | "as_ConnectionEndData _ = None"

fun as_PacketData :: "iface \<Rightarrow> PacketData option" where
  "as_PacketData (I_PacketData x) = Some x" | "as_PacketData _ = None"

subsection \<open>Calls\<close>

text \<open>\<^verbatim>\<open>err := contract.Call(opts, &out, method, args...); if err != nil { return ..., err }\<close>\<close>

definition contract_call ::
  "('w, 'co, 'to, 'fo, 'wo, 'e, 'tx, 'l) bound_contract \<Rightarrow> 'co \<Rightarrow> string \<Rightarrow> iface list \<Rightarrow> 'w \<Rightarrow> 'e go_fail + iface list"
where
  "contract_call c opts method args w = go_lift (bc_Call c opts method args w)"

text \<open>\<^verbatim>\<open>*abi.ConvertType(out[i], new(T)).(*T)\<close>\<close>

definition out_at ::
  "('w, 'co, 'to, 'fo, 'wo, 'e, 'tx, 'l) bound_contract \<Rightarrow> (iface \<Rightarrow> 'a option) \<Rightarrow> iface list \<Rightarrow> nat \<Rightarrow> 'e go_fail + 'a"
where
  "out_at c as out i =
     (if i < length out then
        case bc_ConvertType c (out ! i) of
          None \<Rightarrow> Inl Go_panics
        | Some v \<Rightarrow> (case as v of None \<Rightarrow> Inl Go_panics | Some x \<Rightarrow> Inr x)
      else Inl Go_panics)"

definition contract_transact ::
  "('w, 'co, 'to, 'fo, 'wo, 'e, 'tx, 'l) bound_contract \<Rightarrow> 'to \<Rightarrow> string \<Rightarrow> iface list \<Rightarrow> 'w \<Rightarrow> ('e + 'tx) \<times> 'w"
where
  "contract_transact c opts method args w = bc_Transact c opts method args w"

subsection \<open>The types of a binding\<close>

text \<open>
  Every binding has the same ten types: the caller, transactor and filterer (each wraps the
  bound contract), the binding that embeds the three, the sessions that store options next
  to one of them, and the raw variants.
\<close>

record 'c binding_part =
  contract :: 'c

record 'c binding =
  Caller :: "'c binding_part"
  Transactor :: "'c binding_part"
  Filterer :: "'c binding_part"

record ('c, 'co, 'to) binding_session =
  session_Contract :: "'c binding"
  session_CallOpts :: 'co
  session_TransactOpts :: 'to

record ('c, 'co) caller_session =
  caller_Contract :: "'c binding_part"
  caller_CallOpts :: 'co

record ('c, 'to) transactor_session =
  transactor_Contract :: "'c binding_part"
  transactor_TransactOpts :: 'to

record 'c binding_raw =
  raw_Contract :: "'c binding"

record 'c part_raw =
  raw_part :: "'c binding_part"

text \<open>
  \<^verbatim>\<open>abi.JSON\<close> and \<^verbatim>\<open>bind.NewBoundContract\<close>: the parsed interface, the address and the three
  backends (nil where the binding needs none) give a bound contract.
\<close>

record ('abi, 'b, 'c, 'e) bind_lib =
  abi_JSON :: "string \<Rightarrow> 'e + 'abi"
  NewBoundContract :: "address \<Rightarrow> 'abi \<Rightarrow> 'b option \<Rightarrow> 'b option \<Rightarrow> 'b option \<Rightarrow> 'c"

definition bind_contract ::
  "('abi, 'b, 'c, 'e) bind_lib \<Rightarrow> string \<Rightarrow> address \<Rightarrow> 'b option \<Rightarrow> 'b option \<Rightarrow> 'b option \<Rightarrow> 'e + 'c"
where
  "bind_contract L abi_text addr caller transactor filterer =
     bindr (abi_JSON L abi_text) (\<lambda>parsed. Inr (NewBoundContract L addr parsed caller transactor filterer))"

subsection \<open>Event iterators\<close>

record ('ev, 'l, 'e) event_iterator =
  it_Event :: "'ev option"
  it_event :: string
  it_feed :: "('l, 'e) feed list"
  it_done :: bool
  it_fail :: "'e option"

text \<open>
  \<^verbatim>\<open>UnpackLog(event, name, log)\<close> and \<^verbatim>\<open>event.Raw = log\<close>: the library decodes the fields of the log
  (\<open>bc_UnpackLog\<close>), \<open>fill\<close> puts them and the raw log into the event struct of the binding. Fields
  that do not fit the struct are an error of the library (\<open>bc_mismatch\<close>).
\<close>

definition unpack_event ::
  "('w, 'co, 'to, 'fo, 'wo, 'e, 'tx, 'l) bound_contract \<Rightarrow> string \<Rightarrow> (iface list \<Rightarrow> 'l \<Rightarrow> 'ev option) \<Rightarrow> 'l \<Rightarrow> 'e + 'ev"
where
  "unpack_event c name fill l =
     bindr (bc_UnpackLog c name l) (\<lambda>fields.
     case fill fields l of None \<Rightarrow> Inl (bc_mismatch c) | Some ev \<Rightarrow> Inr ev)"

text \<open>
  The body shared by the two receiving cases of \<^verbatim>\<open>Next\<close>. When unpacking fails, the fresh event has
  whatever fields the library had filled in; \<open>Next\<close> returns false and the model keeps \<open>None\<close>.
\<close>

definition receive_log ::
  "('w, 'co, 'to, 'fo, 'wo, 'e, 'tx, 'l) bound_contract \<Rightarrow> (iface list \<Rightarrow> 'l \<Rightarrow> 'ev option) \<Rightarrow> 'l \<Rightarrow>
   ('ev, 'l, 'e) event_iterator \<Rightarrow> bool \<times> ('ev, 'l, 'e) event_iterator"
where
  "receive_log c fill l it =
     (case unpack_event c (it_event it) fill l of
        Inl e \<Rightarrow> (False, it\<lparr>it_Event := None, it_fail := Some e\<rparr>)
      | Inr ev \<Rightarrow> (True, it\<lparr>it_Event := Some ev\<rparr>))"

text \<open>
  \<^verbatim>\<open>Next\<close>. A failed iterator stops; a completed one takes a log that is available or stops; one in
  progress waits for a log or for the subscription to end. The recursive call after the end
  of the subscription is to a completed or failed iterator, so it is written out once.
  \<open>None\<close> means that the call waits forever.
\<close>

definition next_done ::
  "('w, 'co, 'to, 'fo, 'wo, 'e, 'tx, 'l) bound_contract \<Rightarrow> (iface list \<Rightarrow> 'l \<Rightarrow> 'ev option) \<Rightarrow>
   ('ev, 'l, 'e) event_iterator \<Rightarrow> bool \<times> ('ev, 'l, 'e) event_iterator"
where
  "next_done c fill it =
     (if it_fail it \<noteq> None then (False, it)
      else case it_feed it of
        Log l # fs \<Rightarrow> receive_log c fill l (it\<lparr>it_feed := fs\<rparr>)
      | _ \<Rightarrow> (False, it))"

definition iterator_Next ::
  "('w, 'co, 'to, 'fo, 'wo, 'e, 'tx, 'l) bound_contract \<Rightarrow> (iface list \<Rightarrow> 'l \<Rightarrow> 'ev option) \<Rightarrow>
   ('ev, 'l, 'e) event_iterator \<Rightarrow> (bool \<times> ('ev, 'l, 'e) event_iterator) option"
where
  "iterator_Next c fill it =
     (if it_fail it \<noteq> None then Some (False, it)
      else if it_done it then Some (next_done c fill it)
      else case it_feed it of
        [] \<Rightarrow> None
      | Log l # fs \<Rightarrow> Some (receive_log c fill l (it\<lparr>it_feed := fs\<rparr>))
      | Sub_err e # fs \<Rightarrow>
          Some (next_done c fill (it\<lparr>it_feed := fs, it_done := True, it_fail := e\<rparr>)))"

definition iterator_Error :: "('ev, 'l, 'e) event_iterator \<Rightarrow> 'e option" where
  "iterator_Error it = it_fail it"

text \<open>
  \<^verbatim>\<open>Close\<close> unsubscribes and returns nil. What a later select still receives is up to the library
  (\<open>bc_Unsubscribe\<close>): the subscription's error channel is closed, logs may be left in the buffer.
\<close>

definition iterator_Close ::
  "('w, 'co, 'to, 'fo, 'wo, 'e, 'tx, 'l) bound_contract \<Rightarrow> ('ev, 'l, 'e) event_iterator \<Rightarrow>
   'e option \<times> ('ev, 'l, 'e) event_iterator"
where
  "iterator_Close c it = (None, it\<lparr>it_feed := bc_Unsubscribe c (it_feed it)\<rparr>)"

definition filter_logs ::
  "('w, 'co, 'to, 'fo, 'wo, 'e, 'tx, 'l) bound_contract \<Rightarrow> 'fo \<Rightarrow> string \<Rightarrow> iface list list \<Rightarrow> 'w \<Rightarrow>
   'e + ('ev, 'l, 'e) event_iterator"
where
  "filter_logs c opts name rules w =
     bindr (bc_FilterLogs c opts name rules w) (\<lambda>feed.
     Inr \<lparr>it_Event = None, it_event = name, it_feed = feed, it_done = False, it_fail = None\<rparr>)"

subsection \<open>Watching\<close>

text \<open>
  The goroutine of a \<^verbatim>\<open>Watch\<close> function. Its inputs, in the order its selects take them: a log,
  the end of the subscription, the caller's quit; after a log was unpacked the event is
  offered to the sink, which accepts it (\<open>W_sink\<close>) or is overtaken by one of the others. An
  input that no case of the current select waits for (a log while an event is offered, an
  acceptance when none is) blocks the run. The run gives the events delivered and, once the
  goroutine has returned, its result (\<open>None\<close> inside \<open>Some\<close> is the nil error).
\<close>

datatype ('l, 'e) watch_input = W_log 'l | W_sub_err "'e option" | W_quit | W_sink

fun watch_loop ::
  "('l \<Rightarrow> 'e + 'ev) \<Rightarrow> ('l, 'e) watch_input list \<Rightarrow> 'ev option \<Rightarrow> 'ev list \<times> 'e option option"
where
  "watch_loop unpack [] pending = ([], None)"
| "watch_loop unpack (W_sub_err e # is) pending = ([], Some (e))"
| "watch_loop unpack (W_quit # is) pending = ([], Some None)"
| "watch_loop unpack (W_log l # is) None =
     (case unpack l of Inl e \<Rightarrow> ([], Some (Some e)) | Inr ev \<Rightarrow> watch_loop unpack is (Some ev))"
| "watch_loop unpack (W_log l # is) (Some ev) = ([], None)"
| "watch_loop unpack (W_sink # is) None = ([], None)"
| "watch_loop unpack (W_sink # is) (Some ev) =
     (let (evs, r) = watch_loop unpack is None in (ev # evs, r))"

definition watch_logs ::
  "('w, 'co, 'to, 'fo, 'wo, 'e, 'tx, 'l) bound_contract \<Rightarrow> 'wo \<Rightarrow> string \<Rightarrow> (iface list \<Rightarrow> 'l \<Rightarrow> 'ev option) \<Rightarrow>
   iface list list \<Rightarrow> 'w \<Rightarrow> 'e + (('l, 'e) watch_input list \<Rightarrow> 'ev list \<times> 'e option option)"
where
  "watch_logs c opts name fill rules w =
     bindr (bc_WatchLogs c opts name rules w) (\<lambda>_.
     Inr (\<lambda>inputs. watch_loop (unpack_event c name fill) inputs None))"

end
