(* ===== verification/Ibchost_Go.thy ===== *)
theory Ibchost_Go
  imports Go_Bind
begin

text \<open>
  The binding \<^verbatim>\<open>pkg/contract/ibchost\<close> of the store contract \<^verbatim>\<open>IBCHost\<close> (getters, setters and the identifier events): one
  definition for every type and function of the file, over the shared definitions of
  \<^verbatim>\<open>Go_Bind\<close>. The ABI text the file holds as a constant is an argument of the constructors.
\<close>

subsection \<open>Types\<close>

type_synonym 'c Ibchost = "'c binding"

type_synonym 'c IbchostCaller = "'c binding_part"

type_synonym 'c IbchostTransactor = "'c binding_part"

type_synonym 'c IbchostFilterer = "'c binding_part"

type_synonym ('c, 'co, 'to) IbchostSession = "('c, 'co, 'to) binding_session"

type_synonym ('c, 'co) IbchostCallerSession = "('c, 'co) caller_session"

type_synonym ('c, 'to) IbchostTransactorSession = "('c, 'to) transactor_session"

type_synonym 'c IbchostRaw = "'c binding_raw"

type_synonym 'c IbchostCallerRaw = "'c part_raw"

type_synonym 'c IbchostTransactorRaw = "'c part_raw"

subsection \<open>Constructors\<close>

definition bindIbchost ::
  "('abi, 'b, 'c, 'e) bind_lib \<Rightarrow> string \<Rightarrow> address \<Rightarrow> 'b option \<Rightarrow> 'b option \<Rightarrow> 'b option \<Rightarrow> 'e + 'c"
where
  "bindIbchost L abi_text addr caller transactor filterer =
     bind_contract L abi_text addr caller transactor filterer"

definition NewIbchost ::
  "('abi, 'b, 'c, 'e) bind_lib \<Rightarrow> string \<Rightarrow> address \<Rightarrow> 'b \<Rightarrow> 'e + 'c Ibchost"
where
  "NewIbchost L abi_text addr backend =
     bindr (bindIbchost L abi_text addr (Some backend) (Some backend) (Some backend)) (\<lambda>c.
     Inr \<lparr>Caller = \<lparr>contract = c\<rparr>, Transactor = \<lparr>contract = c\<rparr>, Filterer = \<lparr>contract = c\<rparr>\<rparr>)"

definition NewIbchostCaller ::
  "('abi, 'b, 'c, 'e) bind_lib \<Rightarrow> string \<Rightarrow> address \<Rightarrow> 'b \<Rightarrow> 'e + 'c IbchostCaller"
where
  "NewIbchostCaller L abi_text addr caller =
     bindr (bindIbchost L abi_text addr (Some caller) None None) (\<lambda>c. Inr \<lparr>contract = c\<rparr>)"

definition NewIbchostTransactor ::
  "('abi, 'b, 'c, 'e) bind_lib \<Rightarrow> string \<Rightarrow> address \<Rightarrow> 'b \<Rightarrow> 'e + 'c IbchostTransactor"
where
  "NewIbchostTransactor L abi_text addr transactor =
     bindr (bindIbchost L abi_text addr None (Some transactor) None) (\<lambda>c. Inr \<lparr>contract = c\<rparr>)"

definition NewIbchostFilterer ::
  "('abi, 'b, 'c, 'e) bind_lib \<Rightarrow> string \<Rightarrow> address \<Rightarrow> 'b \<Rightarrow> 'e + 'c IbchostFilterer"
where
  "NewIbchostFilterer L abi_text addr filterer =
     bindr (bindIbchost L abi_text addr None None (Some filterer)) (\<lambda>c. Inr \<lparr>contract = c\<rparr>)"

subsection \<open>Raw calls and transactions\<close>

definition IbchostRaw_Call ::
  "('w, 'co, 'to, 'fo, 'wo, 'e, 'tx, 'l) bound_contract IbchostRaw \<Rightarrow> 'co \<Rightarrow> string \<Rightarrow> iface list \<Rightarrow> 'w \<Rightarrow> 'e + iface list"
where
  "IbchostRaw_Call C opts method params w =
     bc_Call (contract (Caller (raw_Contract C))) opts method params w"

definition IbchostRaw_Transfer ::
  "('w, 'co, 'to, 'fo, 'wo, 'e, 'tx, 'l) bound_contract IbchostRaw \<Rightarrow> 'to \<Rightarrow> 'w \<Rightarrow> ('e + 'tx) \<times> 'w"
where
  "IbchostRaw_Transfer C opts w =
     bc_Transfer (contract (Transactor (raw_Contract C))) opts w"

definition IbchostRaw_Transact ::
  "('w, 'co, 'to, 'fo, 'wo, 'e, 'tx, 'l) bound_contract IbchostRaw \<Rightarrow> 'to \<Rightarrow> string \<Rightarrow> iface list \<Rightarrow> 'w \<Rightarrow> ('e + 'tx) \<times> 'w"
where
  "IbchostRaw_Transact C opts method params w =
     contract_transact (contract (Transactor (raw_Contract C))) opts method params w"

definition IbchostCallerRaw_Call ::
  "('w, 'co, 'to, 'fo, 'wo, 'e, 'tx, 'l) bound_contract IbchostCallerRaw \<Rightarrow> 'co \<Rightarrow> string \<Rightarrow> iface list \<Rightarrow> 'w \<Rightarrow> 'e + iface list"
where
  "IbchostCallerRaw_Call C opts method params w =
     bc_Call (contract (raw_part C)) opts method params w"

definition IbchostTransactorRaw_Transfer ::
  "('w, 'co, 'to, 'fo, 'wo, 'e, 'tx, 'l) bound_contract IbchostTransactorRaw \<Rightarrow> 'to \<Rightarrow> 'w \<Rightarrow> ('e + 'tx) \<times> 'w"
where
  "IbchostTransactorRaw_Transfer C opts w =
     bc_Transfer (contract (raw_part C)) opts w"

definition IbchostTransactorRaw_Transact ::
  "('w, 'co, 'to, 'fo, 'wo, 'e, 'tx, 'l) bound_contract IbchostTransactorRaw \<Rightarrow> 'to \<Rightarrow> string \<Rightarrow> iface list \<Rightarrow> 'w \<Rightarrow> ('e + 'tx) \<times> 'w"
where
  "IbchostTransactorRaw_Transact C opts method params w =
     contract_transact (contract (raw_part C)) opts method params w"

subsection \<open>Calls\<close>

definition IbchostCaller_AuthenticateCapability ::
  "('w, 'co, 'to, 'fo, 'wo, 'e, 'tx, 'l) bound_contract IbchostCaller \<Rightarrow> 'co \<Rightarrow> byte list \<Rightarrow> address \<Rightarrow> 'w \<Rightarrow> 'e go_fail + bool"
where
  "IbchostCaller_AuthenticateCapability C opts nm addr w =
     bindr (contract_call (contract C) opts ''authenticateCapability'' [I_bytes nm, I_address addr] w) (\<lambda>out.
     out_at (contract C) as_bool out 0)"

definition IbchostCaller_GetChannel ::
  "('w, 'co, 'to, 'fo, 'wo, 'e, 'tx, 'l) bound_contract IbchostCaller \<Rightarrow> 'co \<Rightarrow> string \<Rightarrow> string \<Rightarrow> 'w \<Rightarrow> 'e go_fail + (ChannelData \<times> bool)"
where
  "IbchostCaller_GetChannel C opts portId channelId w =
     bindr (contract_call (contract C) opts ''getChannel'' [I_string portId, I_string channelId] w) (\<lambda>out.
     bindr (out_at (contract C) as_ChannelData out 0) (\<lambda>out0.
     bindr (out_at (contract C) as_bool out 1) (\<lambda>out1. Inr (out0, out1))))"

definition IbchostCaller_GetClientImpl ::
  "('w, 'co, 'to, 'fo, 'wo, 'e, 'tx, 'l) bound_contract IbchostCaller \<Rightarrow> 'co \<Rightarrow> string \<Rightarrow> 'w \<Rightarrow> 'e go_fail + (address \<times> bool)"
where
  "IbchostCaller_GetClientImpl C opts clientType w =
     bindr (contract_call (contract C) opts ''getClientImpl'' [I_string clientType] w) (\<lambda>out.
     bindr (out_at (contract C) as_address out 0) (\<lambda>out0.
     bindr (out_at (contract C) as_bool out 1) (\<lambda>out1. Inr (out0, out1))))"

definition IbchostCaller_GetClientState ::
  "('w, 'co, 'to, 'fo, 'wo, 'e, 'tx, 'l) bound_contract IbchostCaller \<Rightarrow> 'co \<Rightarrow> string \<Rightarrow> 'w \<Rightarrow> 'e go_fail + (byte list \<times> bool)"
where
  "IbchostCaller_GetClientState C opts clientId w =
     bindr (contract_call (contract C) opts ''getClientState'' [I_string clientId] w) (\<lambda>out.
     bindr (out_at (contract C) as_bytes out 0) (\<lambda>out0.
     bindr (out_at (contract C) as_bool out 1) (\<lambda>out1. Inr (out0, out1))))"

definition IbchostCaller_GetClientType ::
  "('w, 'co, 'to, 'fo, 'wo, 'e, 'tx, 'l) bound_contract IbchostCaller \<Rightarrow> 'co \<Rightarrow> string \<Rightarrow> 'w \<Rightarrow> 'e go_fail + string"
where
  "IbchostCaller_GetClientType C opts clientId w =
     bindr (contract_call (contract C) opts ''getClientType'' [I_string clientId] w) (\<lambda>out.
     out_at (contract C) as_string out 0)"

definition IbchostCaller_GetConnection ::
  "('w, 'co, 'to, 'fo, 'wo, 'e, 'tx, 'l) bound_contract IbchostCaller \<Rightarrow> 'co \<Rightarrow> string \<Rightarrow> 'w \<Rightarrow> 'e go_fail + (ConnectionEndData \<times> bool)"
where
  "IbchostCaller_GetConnection C opts connectionId w =
     bindr (contract_call (contract C) opts ''getConnection'' [I_string connectionId] w) (\<lambda>out.
     bindr (out_at (contract C) as_ConnectionEndData out 0) (\<lambda>out0.
     bindr (out_at (contract C) as_bool out 1) (\<lambda>out1. Inr (out0, out1))))"

definition IbchostCaller_GetConsensusState ::
  "('w, 'co, 'to, 'fo, 'wo, 'e, 'tx, 'l) bound_contract IbchostCaller \<Rightarrow> 'co \<Rightarrow> string \<Rightarrow> 64 word \<Rightarrow> 'w \<Rightarrow> 'e go_fail + (byte list \<times> bool)"
where
  "IbchostCaller_GetConsensusState C opts clientId height w =
     bindr (contract_call (contract C) opts ''getConsensusState'' [I_string clientId, I_uint64 height] w) (\<lambda>out.
     bindr (out_at (contract C) as_bytes out 0) (\<lambda>out0.
     bindr (out_at (contract C) as_bool out 1) (\<lambda>out1. Inr (out0, out1))))"

definition IbchostCaller_GetModuleOwner ::
  "('w, 'co, 'to, 'fo, 'wo, 'e, 'tx, 'l) bound_contract IbchostCaller \<Rightarrow> 'co \<Rightarrow> byte list \<Rightarrow> 'w \<Rightarrow> 'e go_fail + (address \<times> bool)"
where
  "IbchostCaller_GetModuleOwner C opts nm w =
     bindr (contract_call (contract C) opts ''getModuleOwner'' [I_bytes nm] w) (\<lambda>out.
     bindr (out_at (contract C) as_address out 0) (\<lambda>out0.
     bindr (out_at (contract C) as_bool out 1) (\<lambda>out1. Inr (out0, out1))))"

definition IbchostCaller_GetNextSequenceAck ::
  "('w, 'co, 'to, 'fo, 'wo, 'e, 'tx, 'l) bound_contract IbchostCaller \<Rightarrow> 'co \<Rightarrow> string \<Rightarrow> string \<Rightarrow> 'w \<Rightarrow> 'e go_fail + 64 word"
where
  "IbchostCaller_GetNextSequenceAck C opts portId channelId w =
     bindr (contract_call (contract C) opts ''getNextSequenceAck'' [I_string portId, I_string channelId] w) (\<lambda>out.
     out_at (contract C) as_uint64 out 0)"

definition IbchostCaller_GetNextSequenceRecv ::
  "('w, 'co, 'to, 'fo, 'wo, 'e, 'tx, 'l) bound_contract IbchostCaller \<Rightarrow> 'co \<Rightarrow> string \<Rightarrow> string \<Rightarrow> 'w \<Rightarrow> 'e go_fail + 64 word"
where
  "IbchostCaller_GetNextSequenceRecv C opts portId channelId w =
     bindr (contract_call (contract C) opts ''getNextSequenceRecv'' [I_string portId, I_string channelId] w) (\<lambda>out.
     out_at (contract C) as_uint64 out 0)"

definition IbchostCaller_GetNextSequenceSend ::
  "('w, 'co, 'to, 'fo, 'wo, 'e, 'tx, 'l) bound_contract IbchostCaller \<Rightarrow> 'co \<Rightarrow> string \<Rightarrow> string \<Rightarrow> 'w \<Rightarrow> 'e go_fail + 64 word"
where
  "IbchostCaller_GetNextSequenceSend C opts portId channelId w =
     bindr (contract_call (contract C) opts ''getNextSequenceSend'' [I_string portId, I_string channelId] w) (\<lambda>out.
     out_at (contract C) as_uint64 out 0)"

definition IbchostCaller_GetPacketAcknowledgementCommitment ::
  "('w, 'co, 'to, 'fo, 'wo, 'e, 'tx, 'l) bound_contract IbchostCaller \<Rightarrow> 'co \<Rightarrow> string \<Rightarrow> string \<Rightarrow> 64 word \<Rightarrow> 'w \<Rightarrow> 'e go_fail + (byte list \<times> bool)"
where
  "IbchostCaller_GetPacketAcknowledgementCommitment C opts portId channelId sequence w =
     bindr (contract_call (contract C) opts ''getPacketAcknowledgementCommitment'' [I_string portId, I_string channelId, I_uint64 sequence] w) (\<lambda>out.
     bindr (out_at (contract C) as_bytes32 out 0) (\<lambda>out0.
     bindr (out_at (contract C) as_bool out 1) (\<lambda>out1. Inr (out0, out1))))"

definition IbchostCaller_GetPacketCommitment ::
  "('w, 'co, 'to, 'fo, 'wo, 'e, 'tx, 'l) bound_contract IbchostCaller \<Rightarrow> 'co \<Rightarrow> string \<Rightarrow> string \<Rightarrow> 64 word \<Rightarrow> 'w \<Rightarrow> 'e go_fail + (byte list \<times> bool)"
where
  "IbchostCaller_GetPacketCommitment C opts portId channelId sequence w =
     bindr (contract_call (contract C) opts ''getPacketCommitment'' [I_string portId, I_string channelId, I_uint64 sequence] w) (\<lambda>out.
     bindr (out_at (contract C) as_bytes32 out 0) (\<lambda>out0.
     bindr (out_at (contract C) as_bool out 1) (\<lambda>out1. Inr (out0, out1))))"

definition IbchostCaller_HasPacketReceipt ::
  "('w, 'co, 'to, 'fo, 'wo, 'e, 'tx, 'l) bound_contract IbchostCaller \<Rightarrow> 'co \<Rightarrow> string \<Rightarrow> string \<Rightarrow> 64 word \<Rightarrow> 'w \<Rightarrow> 'e go_fail + bool"
where
  "IbchostCaller_HasPacketReceipt C opts portId channelId sequence w =
     bindr (contract_call (contract C) opts ''hasPacketReceipt'' [I_string portId, I_string channelId, I_uint64 sequence] w) (\<lambda>out.
     out_at (contract C) as_bool out 0)"

definition IbchostCaller_MakePacketAcknowledgementCommitment ::
  "('w, 'co, 'to, 'fo, 'wo, 'e, 'tx, 'l) bound_contract IbchostCaller \<Rightarrow> 'co \<Rightarrow> byte list \<Rightarrow> 'w \<Rightarrow> 'e go_fail + byte list"
where
  "IbchostCaller_MakePacketAcknowledgementCommitment C opts acknowledgement w =
     bindr (contract_call (contract C) opts ''makePacketAcknowledgementCommitment'' [I_bytes acknowledgement] w) (\<lambda>out.
     out_at (contract C) as_bytes32 out 0)"

definition IbchostCaller_MakePacketCommitment ::
  "('w, 'co, 'to, 'fo, 'wo, 'e, 'tx, 'l) bound_contract IbchostCaller \<Rightarrow> 'co \<Rightarrow> PacketData \<Rightarrow> 'w \<Rightarrow> 'e go_fail + byte list"
where
  "IbchostCaller_MakePacketCommitment C opts packet w =
     bindr (contract_call (contract C) opts ''makePacketCommitment'' [I_PacketData packet] w) (\<lambda>out.
     out_at (contract C) as_bytes32 out 0)"

definition IbchostCaller_OnlyIBCModule ::
  "('w, 'co, 'to, 'fo, 'wo, 'e, 'tx, 'l) bound_contract IbchostCaller \<Rightarrow> 'co \<Rightarrow> 'w \<Rightarrow> 'e go_fail + unit"
where
  "IbchostCaller_OnlyIBCModule C opts w =
     bindr (contract_call (contract C) opts ''onlyIBCModule'' [] w) (\<lambda>out.
     Inr ())"

subsection \<open>Transactions\<close>

definition IbchostTransactor_ClaimCapability ::
  "('w, 'co, 'to, 'fo, 'wo, 'e, 'tx, 'l) bound_contract IbchostTransactor \<Rightarrow> 'to \<Rightarrow> byte list \<Rightarrow> address \<Rightarrow> 'w \<Rightarrow> ('e + 'tx) \<times> 'w"
where
  "IbchostTransactor_ClaimCapability T opts nm addr w =
     contract_transact (contract T) opts ''claimCapability'' [I_bytes nm, I_address addr] w"

definition IbchostTransactor_DeletePacketCommitment ::
  "('w, 'co, 'to, 'fo, 'wo, 'e, 'tx, 'l) bound_contract IbchostTransactor \<Rightarrow> 'to \<Rightarrow> string \<Rightarrow> string \<Rightarrow> 64 word \<Rightarrow> 'w \<Rightarrow> ('e + 'tx) \<times> 'w"
where
  "IbchostTransactor_DeletePacketCommitment T opts portId channelId sequence w =
     contract_transact (contract T) opts ''deletePacketCommitment'' [I_string portId, I_string channelId, I_uint64 sequence] w"

definition IbchostTransactor_GenerateChannelIdentifier ::
  "('w, 'co, 'to, 'fo, 'wo, 'e, 'tx, 'l) bound_contract IbchostTransactor \<Rightarrow> 'to \<Rightarrow> 'w \<Rightarrow> ('e + 'tx) \<times> 'w"
where
  "IbchostTransactor_GenerateChannelIdentifier T opts w =
     contract_transact (contract T) opts ''generateChannelIdentifier'' [] w"

definition IbchostTransactor_GenerateClientIdentifier ::
  "('w, 'co, 'to, 'fo, 'wo, 'e, 'tx, 'l) bound_contract IbchostTransactor \<Rightarrow> 'to \<Rightarrow> string \<Rightarrow> 'w \<Rightarrow> ('e + 'tx) \<times> 'w"
where
  "IbchostTransactor_GenerateClientIdentifier T opts clientType w =
     contract_transact (contract T) opts ''generateClientIdentifier'' [I_string clientType] w"

definition IbchostTransactor_GenerateConnectionIdentifier ::
  "('w, 'co, 'to, 'fo, 'wo, 'e, 'tx, 'l) bound_contract IbchostTransactor \<Rightarrow> 'to \<Rightarrow> 'w \<Rightarrow> ('e + 'tx) \<times> 'w"
where
  "IbchostTransactor_GenerateConnectionIdentifier T opts w =
     contract_transact (contract T) opts ''generateConnectionIdentifier'' [] w"

definition IbchostTransactor_SetChannel ::
  "('w, 'co, 'to, 'fo, 'wo, 'e, 'tx, 'l) bound_contract IbchostTransactor \<Rightarrow> 'to \<Rightarrow> string \<Rightarrow> string \<Rightarrow> ChannelData \<Rightarrow> 'w \<Rightarrow> ('e + 'tx) \<times> 'w"
where
  "IbchostTransactor_SetChannel T opts portId channelId chan w =
     contract_transact (contract T) opts ''setChannel'' [I_string portId, I_string channelId, I_ChannelData chan] w"

definition IbchostTransactor_SetClientImpl ::
  "('w, 'co, 'to, 'fo, 'wo, 'e, 'tx, 'l) bound_contract IbchostTransactor \<Rightarrow> 'to \<Rightarrow> string \<Rightarrow> address \<Rightarrow> 'w \<Rightarrow> ('e + 'tx) \<times> 'w"
where
  "IbchostTransactor_SetClientImpl T opts clientType clientImpl w =
     contract_transact (contract T) opts ''setClientImpl'' [I_string clientType, I_address clientImpl] w"

definition IbchostTransactor_SetClientState ::
  "('w, 'co, 'to, 'fo, 'wo, 'e, 'tx, 'l) bound_contract IbchostTransactor \<Rightarrow> 'to \<Rightarrow> string \<Rightarrow> byte list \<Rightarrow> 'w \<Rightarrow> ('e + 'tx) \<times> 'w"
where
  "IbchostTransactor_SetClientState T opts clientId clientStateBytes w =
     contract_transact (contract T) opts ''setClientState'' [I_string clientId, I_bytes clientStateBytes] w"

definition IbchostTransactor_SetClientType ::
  "('w, 'co, 'to, 'fo, 'wo, 'e, 'tx, 'l) bound_contract IbchostTransactor \<Rightarrow> 'to \<Rightarrow> string \<Rightarrow> string \<Rightarrow> 'w \<Rightarrow> ('e + 'tx) \<times> 'w"
where
  "IbchostTransactor_SetClientType T opts clientId clientType w =
     contract_transact (contract T) opts ''setClientType'' [I_string clientId, I_string clientType] w"

definition IbchostTransactor_SetConnection ::
  "('w, 'co, 'to, 'fo, 'wo, 'e, 'tx, 'l) bound_contract IbchostTransactor \<Rightarrow> 'to \<Rightarrow> string \<Rightarrow> ConnectionEndData \<Rightarrow> 'w \<Rightarrow> ('e + 'tx) \<times> 'w"
where
  "IbchostTransactor_SetConnection T opts connectionId conn w =
     contract_transact (contract T) opts ''setConnection'' [I_string connectionId, I_ConnectionEndData conn] w"

definition IbchostTransactor_SetConsensusState ::
  "('w, 'co, 'to, 'fo, 'wo, 'e, 'tx, 'l) bound_contract IbchostTransactor \<Rightarrow> 'to \<Rightarrow> string \<Rightarrow> 64 word \<Rightarrow> byte list \<Rightarrow> 'w \<Rightarrow> ('e + 'tx) \<times> 'w"
where
  "IbchostTransactor_SetConsensusState T opts clientId height consensusStateBytes w =
     contract_transact (contract T) opts ''setConsensusState'' [I_string clientId, I_uint64 height, I_bytes consensusStateBytes] w"

definition IbchostTransactor_SetIBCModule ::
  "('w, 'co, 'to, 'fo, 'wo, 'e, 'tx, 'l) bound_contract IbchostTransactor \<Rightarrow> 'to \<Rightarrow> address \<Rightarrow> 'w \<Rightarrow> ('e + 'tx) \<times> 'w"
where
  "IbchostTransactor_SetIBCModule T opts ibcModule w =
     contract_transact (contract T) opts ''setIBCModule'' [I_address ibcModule] w"

definition IbchostTransactor_SetNextSequenceAck ::
  "('w, 'co, 'to, 'fo, 'wo, 'e, 'tx, 'l) bound_contract IbchostTransactor \<Rightarrow> 'to \<Rightarrow> string \<Rightarrow> string \<Rightarrow> 64 word \<Rightarrow> 'w \<Rightarrow> ('e + 'tx) \<times> 'w"
where
  "IbchostTransactor_SetNextSequenceAck T opts portId channelId sequence w =
     contract_transact (contract T) opts ''setNextSequenceAck'' [I_string portId, I_string channelId, I_uint64 sequence] w"

definition IbchostTransactor_SetNextSequenceRecv ::
  "('w, 'co, 'to, 'fo, 'wo, 'e, 'tx, 'l) bound_contract IbchostTransactor \<Rightarrow> 'to \<Rightarrow> string \<Rightarrow> string \<Rightarrow> 64 word \<Rightarrow> 'w \<Rightarrow> ('e + 'tx) \<times> 'w"
where
  "IbchostTransactor_SetNextSequenceRecv T opts portId channelId sequence w =
     contract_transact (contract T) opts ''setNextSequenceRecv'' [I_string portId, I_string channelId, I_uint64 sequence] w"

definition IbchostTransactor_SetNextSequenceSend ::
  "('w, 'co, 'to, 'fo, 'wo, 'e, 'tx, 'l) bound_contract IbchostTransactor \<Rightarrow> 'to \<Rightarrow> string \<Rightarrow> string \<Rightarrow> 64 word \<Rightarrow> 'w \<Rightarrow> ('e + 'tx) \<times> 'w"
where
  "IbchostTransactor_SetNextSequenceSend T opts portId channelId sequence w =
     contract_transact (contract T) opts ''setNextSequenceSend'' [I_string portId, I_string channelId, I_uint64 sequence] w"

definition IbchostTransactor_SetPacketAcknowledgementCommitment ::
  "('w, 'co, 'to, 'fo, 'wo, 'e, 'tx, 'l) bound_contract IbchostTransactor \<Rightarrow> 'to \<Rightarrow> string \<Rightarrow> string \<Rightarrow> 64 word \<Rightarrow> byte list \<Rightarrow> 'w \<Rightarrow> ('e + 'tx) \<times> 'w"
where
  "IbchostTransactor_SetPacketAcknowledgementCommitment T opts portId channelId sequence acknowledgement w =
     contract_transact (contract T) opts ''setPacketAcknowledgementCommitment'' [I_string portId, I_string channelId, I_uint64 sequence, I_bytes acknowledgement] w"

definition IbchostTransactor_SetPacketCommitment ::
  "('w, 'co, 'to, 'fo, 'wo, 'e, 'tx, 'l) bound_contract IbchostTransactor \<Rightarrow> 'to \<Rightarrow> string \<Rightarrow> string \<Rightarrow> 64 word \<Rightarrow> PacketData \<Rightarrow> 'w \<Rightarrow> ('e + 'tx) \<times> 'w"
where
  "IbchostTransactor_SetPacketCommitment T opts portId channelId sequence packet w =
     contract_transact (contract T) opts ''setPacketCommitment'' [I_string portId, I_string channelId, I_uint64 sequence, I_PacketData packet] w"

definition IbchostTransactor_SetPacketReceipt ::
  "('w, 'co, 'to, 'fo, 'wo, 'e, 'tx, 'l) bound_contract IbchostTransactor \<Rightarrow> 'to \<Rightarrow> string \<Rightarrow> string \<Rightarrow> 64 word \<Rightarrow> 'w \<Rightarrow> ('e + 'tx) \<times> 'w"
where
  "IbchostTransactor_SetPacketReceipt T opts portId channelId sequence w =
     contract_transact (contract T) opts ''setPacketReceipt'' [I_string portId, I_string channelId, I_uint64 sequence] w"

subsection \<open>Sessions\<close>

definition IbchostSession_AuthenticateCapability ::
  "(('w, 'co, 'to, 'fo, 'wo, 'e, 'tx, 'l) bound_contract, 'co, 'to) IbchostSession \<Rightarrow> byte list \<Rightarrow> address \<Rightarrow> 'w \<Rightarrow> 'e go_fail + bool"
where
  "IbchostSession_AuthenticateCapability S nm addr w =
     IbchostCaller_AuthenticateCapability (Caller (session_Contract S)) (session_CallOpts S) nm addr w"

definition IbchostCallerSession_AuthenticateCapability ::
  "(('w, 'co, 'to, 'fo, 'wo, 'e, 'tx, 'l) bound_contract, 'co) IbchostCallerSession \<Rightarrow> byte list \<Rightarrow> address \<Rightarrow> 'w \<Rightarrow> 'e go_fail + bool"
where
  "IbchostCallerSession_AuthenticateCapability S nm addr w =
     IbchostCaller_AuthenticateCapability (caller_Contract S) (caller_CallOpts S) nm addr w"

definition IbchostSession_GetChannel ::
  "(('w, 'co, 'to, 'fo, 'wo, 'e, 'tx, 'l) bound_contract, 'co, 'to) IbchostSession \<Rightarrow> string \<Rightarrow> string \<Rightarrow> 'w \<Rightarrow> 'e go_fail + (ChannelData \<times> bool)"
where
  "IbchostSession_GetChannel S portId channelId w =
     IbchostCaller_GetChannel (Caller (session_Contract S)) (session_CallOpts S) portId channelId w"

definition IbchostCallerSession_GetChannel ::
  "(('w, 'co, 'to, 'fo, 'wo, 'e, 'tx, 'l) bound_contract, 'co) IbchostCallerSession \<Rightarrow> string \<Rightarrow> string \<Rightarrow> 'w \<Rightarrow> 'e go_fail + (ChannelData \<times> bool)"
where
  "IbchostCallerSession_GetChannel S portId channelId w =
     IbchostCaller_GetChannel (caller_Contract S) (caller_CallOpts S) portId channelId w"

definition IbchostSession_GetClientImpl ::
  "(('w, 'co, 'to, 'fo, 'wo, 'e, 'tx, 'l) bound_contract, 'co, 'to) IbchostSession \<Rightarrow> string \<Rightarrow> 'w \<Rightarrow> 'e go_fail + (address \<times> bool)"
where
  "IbchostSession_GetClientImpl S clientType w =
     IbchostCaller_GetClientImpl (Caller (session_Contract S)) (session_CallOpts S) clientType w"

definition IbchostCallerSession_GetClientImpl ::
  "(('w, 'co, 'to, 'fo, 'wo, 'e, 'tx, 'l) bound_contract, 'co) IbchostCallerSession \<Rightarrow> string \<Rightarrow> 'w \<Rightarrow> 'e go_fail + (address \<times> bool)"
where
  "IbchostCallerSession_GetClientImpl S clientType w =
     IbchostCaller_GetClientImpl (caller_Contract S) (caller_CallOpts S) clientType w"

definition IbchostSession_GetClientState ::
  "(('w, 'co, 'to, 'fo, 'wo, 'e, 'tx, 'l) bound_contract, 'co, 'to) IbchostSession \<Rightarrow> string \<Rightarrow> 'w \<Rightarrow> 'e go_fail + (byte list \<times> bool)"
where
  "IbchostSession_GetClientState S clientId w =
     IbchostCaller_GetClientState (Caller (session_Contract S)) (session_CallOpts S) clientId w"

definition IbchostCallerSession_GetClientState ::
  "(('w, 'co, 'to, 'fo, 'wo, 'e, 'tx, 'l) bound_contract, 'co) IbchostCallerSession \<Rightarrow> string \<Rightarrow> 'w \<Rightarrow> 'e go_fail + (byte list \<times> bool)"
where
  "IbchostCallerSession_GetClientState S clientId w =
     IbchostCaller_GetClientState (caller_Contract S) (caller_CallOpts S) clientId w"

definition IbchostSession_GetClientType ::
  "(('w, 'co, 'to, 'fo, 'wo, 'e, 'tx, 'l) bound_contract, 'co, 'to) IbchostSession \<Rightarrow> string \<Rightarrow> 'w \<Rightarrow> 'e go_fail + string"
where
  "IbchostSession_GetClientType S clientId w =
     IbchostCaller_GetClientType (Caller (session_Contract S)) (session_CallOpts S) clientId w"

definition IbchostCallerSession_GetClientType ::
  "(('w, 'co, 'to, 'fo, 'wo, 'e, 'tx, 'l) bound_contract, 'co) IbchostCallerSession \<Rightarrow> string \<Rightarrow> 'w \<Rightarrow> 'e go_fail + string"
where
  "IbchostCallerSession_GetClientType S clientId w =
     IbchostCaller_GetClientType (caller_Contract S) (caller_CallOpts S) clientId w"

definition IbchostSession_GetConnection ::
  "(('w, 'co, 'to, 'fo, 'wo, 'e, 'tx, 'l) bound_contract, 'co, 'to) IbchostSession \<Rightarrow> string \<Rightarrow> 'w \<Rightarrow> 'e go_fail + (ConnectionEndData \<times> bool)"
where
  "IbchostSession_GetConnection S connectionId w =
     IbchostCaller_GetConnection (Caller (session_Contract S)) (session_CallOpts S) connectionId w"

definition IbchostCallerSession_GetConnection ::
  "(('w, 'co, 'to, 'fo, 'wo, 'e, 'tx, 'l) bound_contract, 'co) IbchostCallerSession \<Rightarrow> string \<Rightarrow> 'w \<Rightarrow> 'e go_fail + (ConnectionEndData \<times> bool)"
where
  "IbchostCallerSession_GetConnection S connectionId w =
     IbchostCaller_GetConnection (caller_Contract S) (caller_CallOpts S) connectionId w"

definition IbchostSession_GetConsensusState ::
  "(('w, 'co, 'to, 'fo, 'wo, 'e, 'tx, 'l) bound_contract, 'co, 'to) IbchostSession \<Rightarrow> string \<Rightarrow> 64 word \<Rightarrow> 'w \<Rightarrow> 'e go_fail + (byte list \<times> bool)"
where
  "IbchostSession_GetConsensusState S clientId height w =
     IbchostCaller_GetConsensusState (Caller (session_Contract S)) (session_CallOpts S) clientId height w"

definition IbchostCallerSession_GetConsensusState ::
  "(('w, 'co, 'to, 'fo, 'wo, 'e, 'tx, 'l) bound_contract, 'co) IbchostCallerSession \<Rightarrow> string \<Rightarrow> 64 word \<Rightarrow> 'w \<Rightarrow> 'e go_fail + (byte list \<times> bool)"
where
  "IbchostCallerSession_GetConsensusState S clientId height w =
     IbchostCaller_GetConsensusState (caller_Contract S) (caller_CallOpts S) clientId height w"

definition IbchostSession_GetModuleOwner ::
  "(('w, 'co, 'to, 'fo, 'wo, 'e, 'tx, 'l) bound_contract, 'co, 'to) IbchostSession \<Rightarrow> byte list \<Rightarrow> 'w \<Rightarrow> 'e go_fail + (address \<times> bool)"
where
  "IbchostSession_GetModuleOwner S nm w =
     IbchostCaller_GetModuleOwner (Caller (session_Contract S)) (session_CallOpts S) nm w"

definition IbchostCallerSession_GetModuleOwner ::
  "(('w, 'co, 'to, 'fo, 'wo, 'e, 'tx, 'l) bound_contract, 'co) IbchostCallerSession \<Rightarrow> byte list \<Rightarrow> 'w \<Rightarrow> 'e go_fail + (address \<times> bool)"
where
  "IbchostCallerSession_GetModuleOwner S nm w =
     IbchostCaller_GetModuleOwner (caller_Contract S) (caller_CallOpts S) nm w"

definition IbchostSession_GetNextSequenceAck ::
  "(('w, 'co, 'to, 'fo, 'wo, 'e, 'tx, 'l) bound_contract, 'co, 'to) IbchostSession \<Rightarrow> string \<Rightarrow> string \<Rightarrow> 'w \<Rightarrow> 'e go_fail + 64 word"
where
  "IbchostSession_GetNextSequenceAck S portId channelId w =
     IbchostCaller_GetNextSequenceAck (Caller (session_Contract S)) (session_CallOpts S) portId channelId w"

definition IbchostCallerSession_GetNextSequenceAck ::
  "(('w, 'co, 'to, 'fo, 'wo, 'e, 'tx, 'l) bound_contract, 'co) IbchostCallerSession \<Rightarrow> string \<Rightarrow> string \<Rightarrow> 'w \<Rightarrow> 'e go_fail + 64 word"
where
  "IbchostCallerSession_GetNextSequenceAck S portId channelId w =
     IbchostCaller_GetNextSequenceAck (caller_Contract S) (caller_CallOpts S) portId channelId w"

definition IbchostSession_GetNextSequenceRecv ::
  "(('w, 'co, 'to, 'fo, 'wo, 'e, 'tx, 'l) bound_contract, 'co, 'to) IbchostSession \<Rightarrow> string \<Rightarrow> string \<Rightarrow> 'w \<Rightarrow> 'e go_fail + 64 word"
where
  "IbchostSession_GetNextSequenceRecv S portId channelId w =
     IbchostCaller_GetNextSequenceRecv (Caller (session_Contract S)) (session_CallOpts S) portId channelId w"

definition IbchostCallerSession_GetNextSequenceRecv ::
  "(('w, 'co, 'to, 'fo, 'wo, 'e, 'tx, 'l) bound_contract, 'co) IbchostCallerSession \<Rightarrow> string \<Rightarrow> string \<Rightarrow> 'w \<Rightarrow> 'e go_fail + 64 word"
where
  "IbchostCallerSession_GetNextSequenceRecv S portId channelId w =
     IbchostCaller_GetNextSequenceRecv (caller_Contract S) (caller_CallOpts S) portId channelId w"

definition IbchostSession_GetNextSequenceSend ::
  "(('w, 'co, 'to, 'fo, 'wo, 'e, 'tx, 'l) bound_contract, 'co, 'to) IbchostSession \<Rightarrow> string \<Rightarrow> string \<Rightarrow> 'w \<Rightarrow> 'e go_fail + 64 word"
where
  "IbchostSession_GetNextSequenceSend S portId channelId w =
     IbchostCaller_GetNextSequenceSend (Caller (session_Contract S)) (session_CallOpts S) portId channelId w"

definition IbchostCallerSession_GetNextSequenceSend ::
  "(('w, 'co, 'to, 'fo, 'wo, 'e, 'tx, 'l) bound_contract, 'co) IbchostCallerSession \<Rightarrow> string \<Rightarrow> string \<Rightarrow> 'w \<Rightarrow> 'e go_fail + 64 word"
where
  "IbchostCallerSession_GetNextSequenceSend S portId channelId w =
     IbchostCaller_GetNextSequenceSend (caller_Contract S) (caller_CallOpts S) portId channelId w"

definition IbchostSession_GetPacketAcknowledgementCommitment ::
  "(('w, 'co, 'to, 'fo, 'wo, 'e, 'tx, 'l) bound_contract, 'co, 'to) IbchostSession \<Rightarrow> string \<Rightarrow> string \<Rightarrow> 64 word \<Rightarrow> 'w \<Rightarrow> 'e go_fail + (byte list \<times> bool)"
where
  "IbchostSession_GetPacketAcknowledgementCommitment S portId channelId sequence w =
     IbchostCaller_GetPacketAcknowledgementCommitment (Caller (session_Contract S)) (session_CallOpts S) portId channelId sequence w"

definition IbchostCallerSession_GetPacketAcknowledgementCommitment ::
  "(('w, 'co, 'to, 'fo, 'wo, 'e, 'tx, 'l) bound_contract, 'co) IbchostCallerSession \<Rightarrow> string \<Rightarrow> string \<Rightarrow> 64 word \<Rightarrow> 'w \<Rightarrow> 'e go_fail + (byte list \<times> bool)"
where
  "IbchostCallerSession_GetPacketAcknowledgementCommitment S portId channelId sequence w =
     IbchostCaller_GetPacketAcknowledgementCommitment (caller_Contract S) (caller_CallOpts S) portId channelId sequence w"

definition IbchostSession_GetPacketCommitment ::
  "(('w, 'co, 'to, 'fo, 'wo, 'e, 'tx, 'l) bound_contract, 'co, 'to) IbchostSession \<Rightarrow> string \<Rightarrow> string \<Rightarrow> 64 word \<Rightarrow> 'w \<Rightarrow> 'e go_fail + (byte list \<times> bool)"
where
  "IbchostSession_GetPacketCommitment S portId channelId sequence w =
     IbchostCaller_GetPacketCommitment (Caller (session_Contract S)) (session_CallOpts S) portId channelId sequence w"

definition IbchostCallerSession_GetPacketCommitment ::
  "(('w, 'co, 'to, 'fo, 'wo, 'e, 'tx, 'l) bound_contract, 'co) IbchostCallerSession \<Rightarrow> string \<Rightarrow> string \<Rightarrow> 64 word \<Rightarrow> 'w \<Rightarrow> 'e go_fail + (byte list \<times> bool)"
where
  "IbchostCallerSession_GetPacketCommitment S portId channelId sequence w =
     IbchostCaller_GetPacketCommitment (caller_Contract S) (caller_CallOpts S) portId channelId sequence w"

definition IbchostSession_HasPacketReceipt ::
  "(('w, 'co, 'to, 'fo, 'wo, 'e, 'tx, 'l) bound_contract, 'co, 'to) IbchostSession \<Rightarrow> string \<Rightarrow> string \<Rightarrow> 64 word \<Rightarrow> 'w \<Rightarrow> 'e go_fail + bool"
where
  "IbchostSession_HasPacketReceipt S portId channelId sequence w =
     IbchostCaller_HasPacketReceipt (Caller (session_Contract S)) (session_CallOpts S) portId channelId sequence w"

definition IbchostCallerSession_HasPacketReceipt ::
  "(('w, 'co, 'to, 'fo, 'wo, 'e, 'tx, 'l) bound_contract, 'co) IbchostCallerSession \<Rightarrow> string \<Rightarrow> string \<Rightarrow> 64 word \<Rightarrow> 'w \<Rightarrow> 'e go_fail + bool"
where
  "IbchostCallerSession_HasPacketReceipt S portId channelId sequence w =
     IbchostCaller_HasPacketReceipt (caller_Contract S) (caller_CallOpts S) portId channelId sequence w"

definition IbchostSession_MakePacketAcknowledgementCommitment ::
  "(('w, 'co, 'to, 'fo, 'wo, 'e, 'tx, 'l) bound_contract, 'co, 'to) IbchostSession \<Rightarrow> byte list \<Rightarrow> 'w \<Rightarrow> 'e go_fail + byte list"
where
  "IbchostSession_MakePacketAcknowledgementCommitment S acknowledgement w =
     IbchostCaller_MakePacketAcknowledgementCommitment (Caller (session_Contract S)) (session_CallOpts S) acknowledgement w"

definition IbchostCallerSession_MakePacketAcknowledgementCommitment ::
  "(('w, 'co, 'to, 'fo, 'wo, 'e, 'tx, 'l) bound_contract, 'co) IbchostCallerSession \<Rightarrow> byte list \<Rightarrow> 'w \<Rightarrow> 'e go_fail + byte list"
where
  "IbchostCallerSession_MakePacketAcknowledgementCommitment S acknowledgement w =
     IbchostCaller_MakePacketAcknowledgementCommitment (caller_Contract S) (caller_CallOpts S) acknowledgement w"

definition IbchostSession_MakePacketCommitment ::
  "(('w, 'co, 'to, 'fo, 'wo, 'e, 'tx, 'l) bound_contract, 'co, 'to) IbchostSession \<Rightarrow> PacketData \<Rightarrow> 'w \<Rightarrow> 'e go_fail + byte list"
where
  "IbchostSession_MakePacketCommitment S packet w =
     IbchostCaller_MakePacketCommitment (Caller (session_Contract S)) (session_CallOpts S) packet w"

definition IbchostCallerSession_MakePacketCommitment ::
  "(('w, 'co, 'to, 'fo, 'wo, 'e, 'tx, 'l) bound_contract, 'co) IbchostCallerSession \<Rightarrow> PacketData \<Rightarrow> 'w \<Rightarrow> 'e go_fail + byte list"
where
  "IbchostCallerSession_MakePacketCommitment S packet w =
     IbchostCaller_MakePacketCommitment (caller_Contract S) (caller_CallOpts S) packet w"

definition IbchostSession_OnlyIBCModule ::
  "(('w, 'co, 'to, 'fo, 'wo, 'e, 'tx, 'l) bound_contract, 'co, 'to) IbchostSession \<Rightarrow> 'w \<Rightarrow> 'e go_fail + unit"
where
  "IbchostSession_OnlyIBCModule S w =
     IbchostCaller_OnlyIBCModule (Caller (session_Contract S)) (session_CallOpts S) w"

definition IbchostCallerSession_OnlyIBCModule ::
  "(('w, 'co, 'to, 'fo, 'wo, 'e, 'tx, 'l) bound_contract, 'co) IbchostCallerSession \<Rightarrow> 'w \<Rightarrow> 'e go_fail + unit"
where
  "IbchostCallerSession_OnlyIBCModule S w =
     IbchostCaller_OnlyIBCModule (caller_Contract S) (caller_CallOpts S) w"

definition IbchostSession_ClaimCapability ::
  "(('w, 'co, 'to, 'fo, 'wo, 'e, 'tx, 'l) bound_contract, 'co, 'to) IbchostSession \<Rightarrow> byte list \<Rightarrow> address \<Rightarrow> 'w \<Rightarrow> ('e + 'tx) \<times> 'w"
where
  "IbchostSession_ClaimCapability S nm addr w =
     IbchostTransactor_ClaimCapability (Transactor (session_Contract S)) (session_TransactOpts S) nm addr w"

definition IbchostTransactorSession_ClaimCapability ::
  "(('w, 'co, 'to, 'fo, 'wo, 'e, 'tx, 'l) bound_contract, 'to) IbchostTransactorSession \<Rightarrow> byte list \<Rightarrow> address \<Rightarrow> 'w \<Rightarrow> ('e + 'tx) \<times> 'w"
where
  "IbchostTransactorSession_ClaimCapability S nm addr w =
     IbchostTransactor_ClaimCapability (transactor_Contract S) (transactor_TransactOpts S) nm addr w"

definition IbchostSession_DeletePacketCommitment ::
  "(('w, 'co, 'to, 'fo, 'wo, 'e, 'tx, 'l) bound_contract, 'co, 'to) IbchostSession \<Rightarrow> string \<Rightarrow> string \<Rightarrow> 64 word \<Rightarrow> 'w \<Rightarrow> ('e + 'tx) \<times> 'w"
where
  "IbchostSession_DeletePacketCommitment S portId channelId sequence w =
     IbchostTransactor_DeletePacketCommitment (Transactor (session_Contract S)) (session_TransactOpts S) portId channelId sequence w"

definition IbchostTransactorSession_DeletePacketCommitment ::
  "(('w, 'co, 'to, 'fo, 'wo, 'e, 'tx, 'l) bound_contract, 'to) IbchostTransactorSession \<Rightarrow> string \<Rightarrow> string \<Rightarrow> 64 word \<Rightarrow> 'w \<Rightarrow> ('e + 'tx) \<times> 'w"
where
  "IbchostTransactorSession_DeletePacketCommitment S portId channelId sequence w =
     IbchostTransactor_DeletePacketCommitment (transactor_Contract S) (transactor_TransactOpts S) portId channelId sequence w"

definition IbchostSession_GenerateChannelIdentifier ::
  "(('w, 'co, 'to, 'fo, 'wo, 'e, 'tx, 'l) bound_contract, 'co, 'to) IbchostSession \<Rightarrow> 'w \<Rightarrow> ('e + 'tx) \<times> 'w"
where
  "IbchostSession_GenerateChannelIdentifier S w =
     IbchostTransactor_GenerateChannelIdentifier (Transactor (session_Contract S)) (session_TransactOpts S) w"

definition IbchostTransactorSession_GenerateChannelIdentifier ::
  "(('w, 'co, 'to, 'fo, 'wo, 'e, 'tx, 'l) bound_contract, 'to) IbchostTransactorSession \<Rightarrow> 'w \<Rightarrow> ('e + 'tx) \<times> 'w"
where
  "IbchostTransactorSession_GenerateChannelIdentifier S w =
     IbchostTransactor_GenerateChannelIdentifier (transactor_Contract S) (transactor_TransactOpts S) w"

definition IbchostSession_GenerateClientIdentifier ::
  "(('w, 'co, 'to, 'fo, 'wo, 'e, 'tx, 'l) bound_contract, 'co, 'to) IbchostSession \<Rightarrow> string \<Rightarrow> 'w \<Rightarrow> ('e + 'tx) \<times> 'w"
where
  "IbchostSession_GenerateClientIdentifier S clientType w =
     IbchostTransactor_GenerateClientIdentifier (Transactor (session_Contract S)) (session_TransactOpts S) clientType w"

definition IbchostTransactorSession_GenerateClientIdentifier ::
  "(('w, 'co, 'to, 'fo, 'wo, 'e, 'tx, 'l) bound_contract, 'to) IbchostTransactorSession \<Rightarrow> string \<Rightarrow> 'w \<Rightarrow> ('e + 'tx) \<times> 'w"
where
  "IbchostTransactorSession_GenerateClientIdentifier S clientType w =
     IbchostTransactor_GenerateClientIdentifier (transactor_Contract S) (transactor_TransactOpts S) clientType w"

definition IbchostSession_GenerateConnectionIdentifier ::
  "(('w, 'co, 'to, 'fo, 'wo, 'e, 'tx, 'l) bound_contract, 'co, 'to) IbchostSession \<Rightarrow> 'w \<Rightarrow> ('e + 'tx) \<times> 'w"
where
  "IbchostSession_GenerateConnectionIdentifier S w =
     IbchostTransactor_GenerateConnectionIdentifier (Transactor (session_Contract S)) (session_TransactOpts S) w"

definition IbchostTransactorSession_GenerateConnectionIdentifier ::
  "(('w, 'co, 'to, 'fo, 'wo, 'e, 'tx, 'l) bound_contract, 'to) IbchostTransactorSession \<Rightarrow> 'w \<Rightarrow> ('e + 'tx) \<times> 'w"
where
  "IbchostTransactorSession_GenerateConnectionIdentifier S w =
     IbchostTransactor_GenerateConnectionIdentifier (transactor_Contract S) (transactor_TransactOpts S) w"

definition IbchostSession_SetChannel ::
  "(('w, 'co, 'to, 'fo, 'wo, 'e, 'tx, 'l) bound_contract, 'co, 'to) IbchostSession \<Rightarrow> string \<Rightarrow> string \<Rightarrow> ChannelData \<Rightarrow> 'w \<Rightarrow> ('e + 'tx) \<times> 'w"
where
  "IbchostSession_SetChannel S portId channelId chan w =
     IbchostTransactor_SetChannel (Transactor (session_Contract S)) (session_TransactOpts S) portId channelId chan w"

definition IbchostTransactorSession_SetChannel ::
  "(('w, 'co, 'to, 'fo, 'wo, 'e, 'tx, 'l) bound_contract, 'to) IbchostTransactorSession \<Rightarrow> string \<Rightarrow> string \<Rightarrow> ChannelData \<Rightarrow> 'w \<Rightarrow> ('e + 'tx) \<times> 'w"
where
  "IbchostTransactorSession_SetChannel S portId channelId chan w =
     IbchostTransactor_SetChannel (transactor_Contract S) (transactor_TransactOpts S) portId channelId chan w"

definition IbchostSession_SetClientImpl ::
  "(('w, 'co, 'to, 'fo, 'wo, 'e, 'tx, 'l) bound_contract, 'co, 'to) IbchostSession \<Rightarrow> string \<Rightarrow> address \<Rightarrow> 'w \<Rightarrow> ('e + 'tx) \<times> 'w"
where
  "IbchostSession_SetClientImpl S clientType clientImpl w =
     IbchostTransactor_SetClientImpl (Transactor (session_Contract S)) (session_TransactOpts S) clientType clientImpl w"

definition IbchostTransactorSession_SetClientImpl ::
  "(('w, 'co, 'to, 'fo, 'wo, 'e, 'tx, 'l) bound_contract, 'to) IbchostTransactorSession \<Rightarrow> string \<Rightarrow> address \<Rightarrow> 'w \<Rightarrow> ('e + 'tx) \<times> 'w"
where
  "IbchostTransactorSession_SetClientImpl S clientType clientImpl w =
     IbchostTransactor_SetClientImpl (transactor_Contract S) (transactor_TransactOpts S) clientType clientImpl w"

definition IbchostSession_SetClientState ::
  "(('w, 'co, 'to, 'fo, 'wo, 'e, 'tx, 'l) bound_contract, 'co, 'to) IbchostSession \<Rightarrow> string \<Rightarrow> byte list \<Rightarrow> 'w \<Rightarrow> ('e + 'tx) \<times> 'w"
where
  "IbchostSession_SetClientState S clientId clientStateBytes w =
     IbchostTransactor_SetClientState (Transactor (session_Contract S)) (session_TransactOpts S) clientId clientStateBytes w"

definition IbchostTransactorSession_SetClientState ::
  "(('w, 'co, 'to, 'fo, 'wo, 'e, 'tx, 'l) bound_contract, 'to) IbchostTransactorSession \<Rightarrow> string \<Rightarrow> byte list \<Rightarrow> 'w \<Rightarrow> ('e + 'tx) \<times> 'w"
where
  "IbchostTransactorSession_SetClientState S clientId clientStateBytes w =
     IbchostTransactor_SetClientState (transactor_Contract S) (transactor_TransactOpts S) clientId clientStateBytes w"

definition IbchostSession_SetClientType ::
  "(('w, 'co, 'to, 'fo, 'wo, 'e, 'tx, 'l) bound_contract, 'co, 'to) IbchostSession \<Rightarrow> string \<Rightarrow> string \<Rightarrow> 'w \<Rightarrow> ('e + 'tx) \<times> 'w"
where
  "IbchostSession_SetClientType S clientId clientType w =
     IbchostTransactor_SetClientType (Transactor (session_Contract S)) (session_TransactOpts S) clientId clientType w"

definition IbchostTransactorSession_SetClientType ::
  "(('w, 'co, 'to, 'fo, 'wo, 'e, 'tx, 'l) bound_contract, 'to) IbchostTransactorSession \<Rightarrow> string \<Rightarrow> string \<Rightarrow> 'w \<Rightarrow> ('e + 'tx) \<times> 'w"
where
  "IbchostTransactorSession_SetClientType S clientId clientType w =
     IbchostTransactor_SetClientType (transactor_Contract S) (transactor_TransactOpts S) clientId clientType w"

definition IbchostSession_SetConnection ::
  "(('w, 'co, 'to, 'fo, 'wo, 'e, 'tx, 'l) bound_contract, 'co, 'to) IbchostSession \<Rightarrow> string \<Rightarrow> ConnectionEndData \<Rightarrow> 'w \<Rightarrow> ('e + 'tx) \<times> 'w"
where
  "IbchostSession_SetConnection S connectionId conn w =
     IbchostTransactor_SetConnection (Transactor (session_Contract S)) (session_TransactOpts S) connectionId conn w"

definition IbchostTransactorSession_SetConnection ::
  "(('w, 'co, 'to, 'fo, 'wo, 'e, 'tx, 'l) bound_contract, 'to) IbchostTransactorSession \<Rightarrow> string \<Rightarrow> ConnectionEndData \<Rightarrow> 'w \<Rightarrow> ('e + 'tx) \<times> 'w"
where
  "IbchostTransactorSession_SetConnection S connectionId conn w =
     IbchostTransactor_SetConnection (transactor_Contract S) (transactor_TransactOpts S) connectionId conn w"

definition IbchostSession_SetConsensusState ::
  "(('w, 'co, 'to, 'fo, 'wo, 'e, 'tx, 'l) bound_contract, 'co, 'to) IbchostSession \<Rightarrow> string \<Rightarrow> 64 word \<Rightarrow> byte list \<Rightarrow> 'w \<Rightarrow> ('e + 'tx) \<times> 'w"
where
  "IbchostSession_SetConsensusState S clientId height consensusStateBytes w =
     IbchostTransactor_SetConsensusState (Transactor (session_Contract S)) (session_TransactOpts S) clientId height consensusStateBytes w"

definition IbchostTransactorSession_SetConsensusState ::
  "(('w, 'co, 'to, 'fo, 'wo, 'e, 'tx, 'l) bound_contract, 'to) IbchostTransactorSession \<Rightarrow> string \<Rightarrow> 64 word \<Rightarrow> byte list \<Rightarrow> 'w \<Rightarrow> ('e + 'tx) \<times> 'w"
where
  "IbchostTransactorSession_SetConsensusState S clientId height consensusStateBytes w =
     IbchostTransactor_SetConsensusState (transactor_Contract S) (transactor_TransactOpts S) clientId height consensusStateBytes w"

definition IbchostSession_SetIBCModule ::
  "(('w, 'co, 'to, 'fo, 'wo, 'e, 'tx, 'l) bound_contract, 'co, 'to) IbchostSession \<Rightarrow> address \<Rightarrow> 'w \<Rightarrow> ('e + 'tx) \<times> 'w"
where
  "IbchostSession_SetIBCModule S ibcModule w =
     IbchostTransactor_SetIBCModule (Transactor (session_Contract S)) (session_TransactOpts S) ibcModule w"

definition IbchostTransactorSession_SetIBCModule ::
  "(('w, 'co, 'to, 'fo, 'wo, 'e, 'tx, 'l) bound_contract, 'to) IbchostTransactorSession \<Rightarrow> address \<Rightarrow> 'w \<Rightarrow> ('e + 'tx) \<times> 'w"
where
  "IbchostTransactorSession_SetIBCModule S ibcModule w =
     IbchostTransactor_SetIBCModule (transactor_Contract S) (transactor_TransactOpts S) ibcModule w"

definition IbchostSession_SetNextSequenceAck ::
  "(('w, 'co, 'to, 'fo, 'wo, 'e, 'tx, 'l) bound_contract, 'co, 'to) IbchostSession \<Rightarrow> string \<Rightarrow> string \<Rightarrow> 64 word \<Rightarrow> 'w \<Rightarrow> ('e + 'tx) \<times> 'w"
where
  "IbchostSession_SetNextSequenceAck S portId channelId sequence w =
     IbchostTransactor_SetNextSequenceAck (Transactor (session_Contract S)) (session_TransactOpts S) portId channelId sequence w"

definition IbchostTransactorSession_SetNextSequenceAck ::
  "(('w, 'co, 'to, 'fo, 'wo, 'e, 'tx, 'l) bound_contract, 'to) IbchostTransactorSession \<Rightarrow> string \<Rightarrow> string \<Rightarrow> 64 word \<Rightarrow> 'w \<Rightarrow> ('e + 'tx) \<times> 'w"
where
  "IbchostTransactorSession_SetNextSequenceAck S portId channelId sequence w =
     IbchostTransactor_SetNextSequenceAck (transactor_Contract S) (transactor_TransactOpts S) portId channelId sequence w"

definition IbchostSession_SetNextSequenceRecv ::
  "(('w, 'co, 'to, 'fo, 'wo, 'e, 'tx, 'l) bound_contract, 'co, 'to) IbchostSession \<Rightarrow> string \<Rightarrow> string \<Rightarrow> 64 word \<Rightarrow> 'w \<Rightarrow> ('e + 'tx) \<times> 'w"
where
  "IbchostSession_SetNextSequenceRecv S portId channelId sequence w =
     IbchostTransactor_SetNextSequenceRecv (Transactor (session_Contract S)) (session_TransactOpts S) portId channelId sequence w"

definition IbchostTransactorSession_SetNextSequenceRecv ::
  "(('w, 'co, 'to, 'fo, 'wo, 'e, 'tx, 'l) bound_contract, 'to) IbchostTransactorSession \<Rightarrow> string \<Rightarrow> string \<Rightarrow> 64 word \<Rightarrow> 'w \<Rightarrow> ('e + 'tx) \<times> 'w"
where
  "IbchostTransactorSession_SetNextSequenceRecv S portId channelId sequence w =
     IbchostTransactor_SetNextSequenceRecv (transactor_Contract S) (transactor_TransactOpts S) portId channelId sequence w"

definition IbchostSession_SetNextSequenceSend ::
  "(('w, 'co, 'to, 'fo, 'wo, 'e, 'tx, 'l) bound_contract, 'co, 'to) IbchostSession \<Rightarrow> string \<Rightarrow> string \<Rightarrow> 64 word \<Rightarrow> 'w \<Rightarrow> ('e + 'tx) \<times> 'w"
where
  "IbchostSession_SetNextSequenceSend S portId channelId sequence w =
     IbchostTransactor_SetNextSequenceSend (Transactor (session_Contract S)) (session_TransactOpts S) portId channelId sequence w"

definition IbchostTransactorSession_SetNextSequenceSend ::
  "(('w, 'co, 'to, 'fo, 'wo, 'e, 'tx, 'l) bound_contract, 'to) IbchostTransactorSession \<Rightarrow> string \<Rightarrow> string \<Rightarrow> 64 word \<Rightarrow> 'w \<Rightarrow> ('e + 'tx) \<times> 'w"
where
  "IbchostTransactorSession_SetNextSequenceSend S portId channelId sequence w =
     IbchostTransactor_SetNextSequenceSend (transactor_Contract S) (transactor_TransactOpts S) portId channelId sequence w"

definition IbchostSession_SetPacketAcknowledgementCommitment ::
  "(('w, 'co, 'to, 'fo, 'wo, 'e, 'tx, 'l) bound_contract, 'co, 'to) IbchostSession \<Rightarrow> string \<Rightarrow> string \<Rightarrow> 64 word \<Rightarrow> byte list \<Rightarrow> 'w \<Rightarrow> ('e + 'tx) \<times> 'w"
where
  "IbchostSession_SetPacketAcknowledgementCommitment S portId channelId sequence acknowledgement w =
     IbchostTransactor_SetPacketAcknowledgementCommitment (Transactor (session_Contract S)) (session_TransactOpts S) portId channelId sequence acknowledgement w"

definition IbchostTransactorSession_SetPacketAcknowledgementCommitment ::
  "(('w, 'co, 'to, 'fo, 'wo, 'e, 'tx, 'l) bound_contract, 'to) IbchostTransactorSession \<Rightarrow> string \<Rightarrow> string \<Rightarrow> 64 word \<Rightarrow> byte list \<Rightarrow> 'w \<Rightarrow> ('e + 'tx) \<times> 'w"
where
  "IbchostTransactorSession_SetPacketAcknowledgementCommitment S portId channelId sequence acknowledgement w =
     IbchostTransactor_SetPacketAcknowledgementCommitment (transactor_Contract S) (transactor_TransactOpts S) portId channelId sequence acknowledgement w"

definition IbchostSession_SetPacketCommitment ::
  "(('w, 'co, 'to, 'fo, 'wo, 'e, 'tx, 'l) bound_contract, 'co, 'to) IbchostSession \<Rightarrow> string \<Rightarrow> string \<Rightarrow> 64 word \<Rightarrow> PacketData \<Rightarrow> 'w \<Rightarrow> ('e + 'tx) \<times> 'w"
where
  "IbchostSession_SetPacketCommitment S portId channelId sequence packet w =
     IbchostTransactor_SetPacketCommitment (Transactor (session_Contract S)) (session_TransactOpts S) portId channelId sequence packet w"

definition IbchostTransactorSession_SetPacketCommitment ::
  "(('w, 'co, 'to, 'fo, 'wo, 'e, 'tx, 'l) bound_contract, 'to) IbchostTransactorSession \<Rightarrow> string \<Rightarrow> string \<Rightarrow> 64 word \<Rightarrow> PacketData \<Rightarrow> 'w \<Rightarrow> ('e + 'tx) \<times> 'w"
where
  "IbchostTransactorSession_SetPacketCommitment S portId channelId sequence packet w =
     IbchostTransactor_SetPacketCommitment (transactor_Contract S) (transactor_TransactOpts S) portId channelId sequence packet w"

definition IbchostSession_SetPacketReceipt ::
  "(('w, 'co, 'to, 'fo, 'wo, 'e, 'tx, 'l) bound_contract, 'co, 'to) IbchostSession \<Rightarrow> string \<Rightarrow> string \<Rightarrow> 64 word \<Rightarrow> 'w \<Rightarrow> ('e + 'tx) \<times> 'w"
where
  "IbchostSession_SetPacketReceipt S portId channelId sequence w =
     IbchostTransactor_SetPacketReceipt (Transactor (session_Contract S)) (session_TransactOpts S) portId channelId sequence w"

definition IbchostTransactorSession_SetPacketReceipt ::
  "(('w, 'co, 'to, 'fo, 'wo, 'e, 'tx, 'l) bound_contract, 'to) IbchostTransactorSession \<Rightarrow> string \<Rightarrow> string \<Rightarrow> 64 word \<Rightarrow> 'w \<Rightarrow> ('e + 'tx) \<times> 'w"
where
  "IbchostTransactorSession_SetPacketReceipt S portId channelId sequence w =
     IbchostTransactor_SetPacketReceipt (transactor_Contract S) (transactor_TransactOpts S) portId channelId sequence w"

subsection \<open>Event GeneratedChannelIdentifier\<close>

record 'l IbchostGeneratedChannelIdentifier =
  IbchostGeneratedChannelIdentifier_Arg0 :: "string"
  IbchostGeneratedChannelIdentifier_Raw :: 'l

definition IbchostGeneratedChannelIdentifier_fill :: "iface list \<Rightarrow> 'l \<Rightarrow> 'l IbchostGeneratedChannelIdentifier option" where
  "IbchostGeneratedChannelIdentifier_fill vs log =
     (case vs of
        [v0] \<Rightarrow> Option.bind (as_string v0) (\<lambda>x0.
          Some \<lparr>IbchostGeneratedChannelIdentifier_Arg0 = x0, IbchostGeneratedChannelIdentifier_Raw = log\<rparr>)
      | _ \<Rightarrow> None)"

type_synonym ('l, 'e) IbchostGeneratedChannelIdentifierIterator = "('l IbchostGeneratedChannelIdentifier, 'l, 'e) event_iterator"

definition IbchostGeneratedChannelIdentifierIterator_Next ::
  "('w, 'co, 'to, 'fo, 'wo, 'e, 'tx, 'l) bound_contract \<Rightarrow> ('l, 'e) IbchostGeneratedChannelIdentifierIterator \<Rightarrow> (bool \<times> ('l, 'e) IbchostGeneratedChannelIdentifierIterator) option"
where
  "IbchostGeneratedChannelIdentifierIterator_Next c it =
     iterator_Next c IbchostGeneratedChannelIdentifier_fill it"

definition IbchostGeneratedChannelIdentifierIterator_Error ::
  "('l, 'e) IbchostGeneratedChannelIdentifierIterator \<Rightarrow> 'e option"
where
  "IbchostGeneratedChannelIdentifierIterator_Error it =
     iterator_Error it"

definition IbchostGeneratedChannelIdentifierIterator_Close ::
  "('w, 'co, 'to, 'fo, 'wo, 'e, 'tx, 'l) bound_contract \<Rightarrow> ('l, 'e) IbchostGeneratedChannelIdentifierIterator \<Rightarrow> 'e option \<times> ('l, 'e) IbchostGeneratedChannelIdentifierIterator"
where
  "IbchostGeneratedChannelIdentifierIterator_Close c it =
     iterator_Close c it"

definition IbchostFilterer_FilterGeneratedChannelIdentifier ::
  "('w, 'co, 'to, 'fo, 'wo, 'e, 'tx, 'l) bound_contract IbchostFilterer \<Rightarrow> 'fo \<Rightarrow> 'w \<Rightarrow> 'e + ('l, 'e) IbchostGeneratedChannelIdentifierIterator"
where
  "IbchostFilterer_FilterGeneratedChannelIdentifier F opts w =
     filter_logs (contract F) opts ''GeneratedChannelIdentifier'' [] w"

definition IbchostFilterer_WatchGeneratedChannelIdentifier ::
  "('w, 'co, 'to, 'fo, 'wo, 'e, 'tx, 'l) bound_contract IbchostFilterer \<Rightarrow> 'wo \<Rightarrow> 'w \<Rightarrow>
   'e + (('l, 'e) watch_input list \<Rightarrow> 'l IbchostGeneratedChannelIdentifier list \<times> 'e option option)"
where
  "IbchostFilterer_WatchGeneratedChannelIdentifier F opts w =
     watch_logs (contract F) opts ''GeneratedChannelIdentifier'' IbchostGeneratedChannelIdentifier_fill [] w"

definition IbchostFilterer_ParseGeneratedChannelIdentifier ::
  "('w, 'co, 'to, 'fo, 'wo, 'e, 'tx, 'l) bound_contract IbchostFilterer \<Rightarrow> 'l \<Rightarrow> 'e + 'l IbchostGeneratedChannelIdentifier"
where
  "IbchostFilterer_ParseGeneratedChannelIdentifier F log =
     unpack_event (contract F) ''GeneratedChannelIdentifier'' IbchostGeneratedChannelIdentifier_fill log"

subsection \<open>Event GeneratedClientIdentifier\<close>

record 'l IbchostGeneratedClientIdentifier =
  IbchostGeneratedClientIdentifier_Arg0 :: "string"
  IbchostGeneratedClientIdentifier_Raw :: 'l

definition IbchostGeneratedClientIdentifier_fill :: "iface list \<Rightarrow> 'l \<Rightarrow> 'l IbchostGeneratedClientIdentifier option" where
  "IbchostGeneratedClientIdentifier_fill vs log =
     (case vs of
        [v0] \<Rightarrow> Option.bind (as_string v0) (\<lambda>x0.
          Some \<lparr>IbchostGeneratedClientIdentifier_Arg0 = x0, IbchostGeneratedClientIdentifier_Raw = log\<rparr>)
      | _ \<Rightarrow> None)"

type_synonym ('l, 'e) IbchostGeneratedClientIdentifierIterator = "('l IbchostGeneratedClientIdentifier, 'l, 'e) event_iterator"

definition IbchostGeneratedClientIdentifierIterator_Next ::
  "('w, 'co, 'to, 'fo, 'wo, 'e, 'tx, 'l) bound_contract \<Rightarrow> ('l, 'e) IbchostGeneratedClientIdentifierIterator \<Rightarrow> (bool \<times> ('l, 'e) IbchostGeneratedClientIdentifierIterator) option"
where
  "IbchostGeneratedClientIdentifierIterator_Next c it =
     iterator_Next c IbchostGeneratedClientIdentifier_fill it"

definition IbchostGeneratedClientIdentifierIterator_Error ::
  "('l, 'e) IbchostGeneratedClientIdentifierIterator \<Rightarrow> 'e option"
where
  "IbchostGeneratedClientIdentifierIterator_Error it =
     iterator_Error it"

definition IbchostGeneratedClientIdentifierIterator_Close ::
  "('w, 'co, 'to, 'fo, 'wo, 'e, 'tx, 'l) bound_contract \<Rightarrow> ('l, 'e) IbchostGeneratedClientIdentifierIterator \<Rightarrow> 'e option \<times> ('l, 'e) IbchostGeneratedClientIdentifierIterator"
where
  "IbchostGeneratedClientIdentifierIterator_Close c it =
     iterator_Close c it"

definition IbchostFilterer_FilterGeneratedClientIdentifier ::
  "('w, 'co, 'to, 'fo, 'wo, 'e, 'tx, 'l) bound_contract IbchostFilterer \<Rightarrow> 'fo \<Rightarrow> 'w \<Rightarrow> 'e + ('l, 'e) IbchostGeneratedClientIdentifierIterator"
where
  "IbchostFilterer_FilterGeneratedClientIdentifier F opts w =
     filter_logs (contract F) opts ''GeneratedClientIdentifier'' [] w"

definition IbchostFilterer_WatchGeneratedClientIdentifier ::
  "('w, 'co, 'to, 'fo, 'wo, 'e, 'tx, 'l) bound_contract IbchostFilterer \<Rightarrow> 'wo \<Rightarrow> 'w \<Rightarrow>
   'e + (('l, 'e) watch_input list \<Rightarrow> 'l IbchostGeneratedClientIdentifier list \<times> 'e option option)"
where
  "IbchostFilterer_WatchGeneratedClientIdentifier F opts w =
     watch_logs (contract F) opts ''GeneratedClientIdentifier'' IbchostGeneratedClientIdentifier_fill [] w"

definition IbchostFilterer_ParseGeneratedClientIdentifier ::
  "('w, 'co, 'to, 'fo, 'wo, 'e, 'tx, 'l) bound_contract IbchostFilterer \<Rightarrow> 'l \<Rightarrow> 'e + 'l IbchostGeneratedClientIdentifier"
where
  "IbchostFilterer_ParseGeneratedClientIdentifier F log =
     unpack_event (contract F) ''GeneratedClientIdentifier'' IbchostGeneratedClientIdentifier_fill log"

subsection \<open>Event GeneratedConnectionIdentifier\<close>

record 'l IbchostGeneratedConnectionIdentifier =
  IbchostGeneratedConnectionIdentifier_Arg0 :: "string"
  IbchostGeneratedConnectionIdentifier_Raw :: 'l

definition IbchostGeneratedConnectionIdentifier_fill :: "iface list \<Rightarrow> 'l \<Rightarrow> 'l IbchostGeneratedConnectionIdentifier option" where
  "IbchostGeneratedConnectionIdentifier_fill vs log =
     (case vs of
        [v0] \<Rightarrow> Option.bind (as_string v0) (\<lambda>x0.
          Some \<lparr>IbchostGeneratedConnectionIdentifier_Arg0 = x0, IbchostGeneratedConnectionIdentifier_Raw = log\<rparr>)
      | _ \<Rightarrow> None)"

type_synonym ('l, 'e) IbchostGeneratedConnectionIdentifierIterator = "('l IbchostGeneratedConnectionIdentifier, 'l, 'e) event_iterator"

definition IbchostGeneratedConnectionIdentifierIterator_Next ::
  "('w, 'co, 'to, 'fo, 'wo, 'e, 'tx, 'l) bound_contract \<Rightarrow> ('l, 'e) IbchostGeneratedConnectionIdentifierIterator \<Rightarrow> (bool \<times> ('l, 'e) IbchostGeneratedConnectionIdentifierIterator) option"
where
  "IbchostGeneratedConnectionIdentifierIterator_Next c it =
     iterator_Next c IbchostGeneratedConnectionIdentifier_fill it"

definition IbchostGeneratedConnectionIdentifierIterator_Error ::
  "('l, 'e) IbchostGeneratedConnectionIdentifierIterator \<Rightarrow> 'e option"
where
  "IbchostGeneratedConnectionIdentifierIterator_Error it =
     iterator_Error it"

definition IbchostGeneratedConnectionIdentifierIterator_Close ::
  "('w, 'co, 'to, 'fo, 'wo, 'e, 'tx, 'l) bound_contract \<Rightarrow> ('l, 'e) IbchostGeneratedConnectionIdentifierIterator \<Rightarrow> 'e option \<times> ('l, 'e) IbchostGeneratedConnectionIdentifierIterator"
where
  "IbchostGeneratedConnectionIdentifierIterator_Close c it =
     iterator_Close c it"

definition IbchostFilterer_FilterGeneratedConnectionIdentifier ::
  "('w, 'co, 'to, 'fo, 'wo, 'e, 'tx, 'l) bound_contract IbchostFilterer \<Rightarrow> 'fo \<Rightarrow> 'w \<Rightarrow> 'e + ('l, 'e) IbchostGeneratedConnectionIdentifierIterator"
where
  "IbchostFilterer_FilterGeneratedConnectionIdentifier F opts w =
     filter_logs (contract F) opts ''GeneratedConnectionIdentifier'' [] w"

definition IbchostFilterer_WatchGeneratedConnectionIdentifier ::
  "('w, 'co, 'to, 'fo, 'wo, 'e, 'tx, 'l) bound_contract IbchostFilterer \<Rightarrow> 'wo \<Rightarrow> 'w \<Rightarrow>
   'e + (('l, 'e) watch_input list \<Rightarrow> 'l IbchostGeneratedConnectionIdentifier list \<times> 'e option option)"
where
  "IbchostFilterer_WatchGeneratedConnectionIdentifier F opts w =
     watch_logs (contract F) opts ''GeneratedConnectionIdentifier'' IbchostGeneratedConnectionIdentifier_fill [] w"

definition IbchostFilterer_ParseGeneratedConnectionIdentifier ::
  "('w, 'co, 'to, 'fo, 'wo, 'e, 'tx, 'l) bound_contract IbchostFilterer \<Rightarrow> 'l \<Rightarrow> 'e + 'l IbchostGeneratedConnectionIdentifier"
where
  "IbchostFilterer_ParseGeneratedConnectionIdentifier F log =
     unpack_event (contract F) ''GeneratedConnectionIdentifier'' IbchostGeneratedConnectionIdentifier_fill log"

end
