(* ===== verification/Ibcidentifier_Go.thy ===== *)
theory Ibcidentifier_Go
  imports Go_Bind
begin

text \<open>
  The binding \<^verbatim>\<open>pkg/contract/ibcidentifier\<close> of the path and slot library \<^verbatim>\<open>IBCIdentifier\<close>: one
  definition for every type and function of the file, over the shared definitions of
  \<^verbatim>\<open>Go_Bind\<close>. The ABI text the file holds as a constant is an argument of the constructors.
\<close>

subsection \<open>Types\<close>

type_synonym 'c Ibcidentifier = "'c binding"

type_synonym 'c IbcidentifierCaller = "'c binding_part"

type_synonym 'c IbcidentifierTransactor = "'c binding_part"

type_synonym 'c IbcidentifierFilterer = "'c binding_part"

type_synonym ('c, 'co, 'to) IbcidentifierSession = "('c, 'co, 'to) binding_session"

type_synonym ('c, 'co) IbcidentifierCallerSession = "('c, 'co) caller_session"

type_synonym ('c, 'to) IbcidentifierTransactorSession = "('c, 'to) transactor_session"

type_synonym 'c IbcidentifierRaw = "'c binding_raw"

type_synonym 'c IbcidentifierCallerRaw = "'c part_raw"

type_synonym 'c IbcidentifierTransactorRaw = "'c part_raw"

subsection \<open>Constructors\<close>

definition bindIbcidentifier ::
  "('abi, 'b, 'c, 'e) bind_lib \<Rightarrow> string \<Rightarrow> address \<Rightarrow> 'b option \<Rightarrow> 'b option \<Rightarrow> 'b option \<Rightarrow> 'e + 'c"
where
  "bindIbcidentifier L abi_text addr caller transactor filterer =
     bind_contract L abi_text addr caller transactor filterer"

definition NewIbcidentifier ::
  "('abi, 'b, 'c, 'e) bind_lib \<Rightarrow> string \<Rightarrow> address \<Rightarrow> 'b \<Rightarrow> 'e + 'c Ibcidentifier"
where
  "NewIbcidentifier L abi_text addr backend =
     bindr (bindIbcidentifier L abi_text addr (Some backend) (Some backend) (Some backend)) (\<lambda>c.
     Inr \<lparr>Caller = \<lparr>contract = c\<rparr>, Transactor = \<lparr>contract = c\<rparr>, Filterer = \<lparr>contract = c\<rparr>\<rparr>)"

definition NewIbcidentifierCaller ::
  "('abi, 'b, 'c, 'e) bind_lib \<Rightarrow> string \<Rightarrow> address \<Rightarrow> 'b \<Rightarrow> 'e + 'c IbcidentifierCaller"
where
  "NewIbcidentifierCaller L abi_text addr caller =
     bindr (bindIbcidentifier L abi_text addr (Some caller) None None) (\<lambda>c. Inr \<lparr>contract = c\<rparr>)"

definition NewIbcidentifierTransactor ::
  "('abi, 'b, 'c, 'e) bind_lib \<Rightarrow> string \<Rightarrow> address \<Rightarrow> 'b \<Rightarrow> 'e + 'c IbcidentifierTransactor"
where
  "NewIbcidentifierTransactor L abi_text addr transactor =
     bindr (bindIbcidentifier L abi_text addr None (Some transactor) None) (\<lambda>c. Inr \<lparr>contract = c\<rparr>)"

definition NewIbcidentifierFilterer ::
  "('abi, 'b, 'c, 'e) bind_lib \<Rightarrow> string \<Rightarrow> address \<Rightarrow> 'b \<Rightarrow> 'e + 'c IbcidentifierFilterer"
where
  "NewIbcidentifierFilterer L abi_text addr filterer =
     bindr (bindIbcidentifier L abi_text addr None None (Some filterer)) (\<lambda>c. Inr \<lparr>contract = c\<rparr>)"

subsection \<open>Raw calls and transactions\<close>

definition IbcidentifierRaw_Call ::
  "('w, 'co, 'to, 'fo, 'wo, 'e, 'tx, 'l) bound_contract IbcidentifierRaw \<Rightarrow> 'co \<Rightarrow> string \<Rightarrow> iface list \<Rightarrow> 'w \<Rightarrow> 'e + iface list"
where
  "IbcidentifierRaw_Call C opts method params w =
     bc_Call (contract (Caller (raw_Contract C))) opts method params w"

definition IbcidentifierRaw_Transfer ::
  "('w, 'co, 'to, 'fo, 'wo, 'e, 'tx, 'l) bound_contract IbcidentifierRaw \<Rightarrow> 'to \<Rightarrow> 'w \<Rightarrow> ('e + 'tx) \<times> 'w"
where
  "IbcidentifierRaw_Transfer C opts w =
     bc_Transfer (contract (Transactor (raw_Contract C))) opts w"

definition IbcidentifierRaw_Transact ::
  "('w, 'co, 'to, 'fo, 'wo, 'e, 'tx, 'l) bound_contract IbcidentifierRaw \<Rightarrow> 'to \<Rightarrow> string \<Rightarrow> iface list \<Rightarrow> 'w \<Rightarrow> ('e + 'tx) \<times> 'w"
where
  "IbcidentifierRaw_Transact C opts method params w =
     contract_transact (contract (Transactor (raw_Contract C))) opts method params w"

definition IbcidentifierCallerRaw_Call ::
  "('w, 'co, 'to, 'fo, 'wo, 'e, 'tx, 'l) bound_contract IbcidentifierCallerRaw \<Rightarrow> 'co \<Rightarrow> string \<Rightarrow> iface list \<Rightarrow> 'w \<Rightarrow> 'e + iface list"
where
  "IbcidentifierCallerRaw_Call C opts method params w =
     bc_Call (contract (raw_part C)) opts method params w"

definition IbcidentifierTransactorRaw_Transfer ::
  "('w, 'co, 'to, 'fo, 'wo, 'e, 'tx, 'l) bound_contract IbcidentifierTransactorRaw \<Rightarrow> 'to \<Rightarrow> 'w \<Rightarrow> ('e + 'tx) \<times> 'w"
where
  "IbcidentifierTransactorRaw_Transfer C opts w =
     bc_Transfer (contract (raw_part C)) opts w"

definition IbcidentifierTransactorRaw_Transact ::
  "('w, 'co, 'to, 'fo, 'wo, 'e, 'tx, 'l) bound_contract IbcidentifierTransactorRaw \<Rightarrow> 'to \<Rightarrow> string \<Rightarrow> iface list \<Rightarrow> 'w \<Rightarrow> ('e + 'tx) \<times> 'w"
where
  "IbcidentifierTransactorRaw_Transact C opts method params w =
     contract_transact (contract (raw_part C)) opts method params w"

subsection \<open>Calls\<close>

definition IbcidentifierCaller_ChannelCapabilityPath ::
  "('w, 'co, 'to, 'fo, 'wo, 'e, 'tx, 'l) bound_contract IbcidentifierCaller \<Rightarrow> 'co \<Rightarrow> string \<Rightarrow> string \<Rightarrow> 'w \<Rightarrow> 'e go_fail + byte list"
where
  "IbcidentifierCaller_ChannelCapabilityPath C opts portId channelId w =
     bindr (contract_call (contract C) opts ''channelCapabilityPath'' [I_string portId, I_string channelId] w) (\<lambda>out.
     out_at (contract C) as_bytes out 0)"

definition IbcidentifierCaller_ChannelCommitmentKey ::
  "('w, 'co, 'to, 'fo, 'wo, 'e, 'tx, 'l) bound_contract IbcidentifierCaller \<Rightarrow> 'co \<Rightarrow> string \<Rightarrow> string \<Rightarrow> 'w \<Rightarrow> 'e go_fail + byte list"
where
  "IbcidentifierCaller_ChannelCommitmentKey C opts portId channelId w =
     bindr (contract_call (contract C) opts ''channelCommitmentKey'' [I_string portId, I_string channelId] w) (\<lambda>out.
     out_at (contract C) as_bytes32 out 0)"

definition IbcidentifierCaller_ChannelCommitmentSlot ::
  "('w, 'co, 'to, 'fo, 'wo, 'e, 'tx, 'l) bound_contract IbcidentifierCaller \<Rightarrow> 'co \<Rightarrow> string \<Rightarrow> string \<Rightarrow> 'w \<Rightarrow> 'e go_fail + byte list"
where
  "IbcidentifierCaller_ChannelCommitmentSlot C opts portId channelId w =
     bindr (contract_call (contract C) opts ''channelCommitmentSlot'' [I_string portId, I_string channelId] w) (\<lambda>out.
     out_at (contract C) as_bytes32 out 0)"

definition IbcidentifierCaller_ClientCommitmentKey ::
  "('w, 'co, 'to, 'fo, 'wo, 'e, 'tx, 'l) bound_contract IbcidentifierCaller \<Rightarrow> 'co \<Rightarrow> string \<Rightarrow> 'w \<Rightarrow> 'e go_fail + byte list"
where
  "IbcidentifierCaller_ClientCommitmentKey C opts clientId w =
     bindr (contract_call (contract C) opts ''clientCommitmentKey'' [I_string clientId] w) (\<lambda>out.
     out_at (contract C) as_bytes32 out 0)"

definition IbcidentifierCaller_ClientStateCommitmentSlot ::
  "('w, 'co, 'to, 'fo, 'wo, 'e, 'tx, 'l) bound_contract IbcidentifierCaller \<Rightarrow> 'co \<Rightarrow> string \<Rightarrow> 'w \<Rightarrow> 'e go_fail + byte list"
where
  "IbcidentifierCaller_ClientStateCommitmentSlot C opts clientId w =
     bindr (contract_call (contract C) opts ''clientStateCommitmentSlot'' [I_string clientId] w) (\<lambda>out.
     out_at (contract C) as_bytes32 out 0)"

definition IbcidentifierCaller_ConnectionCommitmentKey ::
  "('w, 'co, 'to, 'fo, 'wo, 'e, 'tx, 'l) bound_contract IbcidentifierCaller \<Rightarrow> 'co \<Rightarrow> string \<Rightarrow> 'w \<Rightarrow> 'e go_fail + byte list"
where
  "IbcidentifierCaller_ConnectionCommitmentKey C opts connectionId w =
     bindr (contract_call (contract C) opts ''connectionCommitmentKey'' [I_string connectionId] w) (\<lambda>out.
     out_at (contract C) as_bytes32 out 0)"

definition IbcidentifierCaller_ConnectionCommitmentSlot ::
  "('w, 'co, 'to, 'fo, 'wo, 'e, 'tx, 'l) bound_contract IbcidentifierCaller \<Rightarrow> 'co \<Rightarrow> string \<Rightarrow> 'w \<Rightarrow> 'e go_fail + byte list"
where
  "IbcidentifierCaller_ConnectionCommitmentSlot C opts connectionId w =
     bindr (contract_call (contract C) opts ''connectionCommitmentSlot'' [I_string connectionId] w) (\<lambda>out.
     out_at (contract C) as_bytes32 out 0)"

definition IbcidentifierCaller_ConsensusCommitmentKey ::
  "('w, 'co, 'to, 'fo, 'wo, 'e, 'tx, 'l) bound_contract IbcidentifierCaller \<Rightarrow> 'co \<Rightarrow> string \<Rightarrow> 64 word \<Rightarrow> 'w \<Rightarrow> 'e go_fail + byte list"
where
  "IbcidentifierCaller_ConsensusCommitmentKey C opts clientId height w =
     bindr (contract_call (contract C) opts ''consensusCommitmentKey'' [I_string clientId, I_uint64 height] w) (\<lambda>out.
     out_at (contract C) as_bytes32 out 0)"

definition IbcidentifierCaller_ConsensusStateCommitmentSlot ::
  "('w, 'co, 'to, 'fo, 'wo, 'e, 'tx, 'l) bound_contract IbcidentifierCaller \<Rightarrow> 'co \<Rightarrow> string \<Rightarrow> 64 word \<Rightarrow> 'w \<Rightarrow> 'e go_fail + byte list"
where
  "IbcidentifierCaller_ConsensusStateCommitmentSlot C opts clientId height w =
     bindr (contract_call (contract C) opts ''consensusStateCommitmentSlot'' [I_string clientId, I_uint64 height] w) (\<lambda>out.
     out_at (contract C) as_bytes32 out 0)"

definition IbcidentifierCaller_PacketAcknowledgementCommitmentKey ::
  "('w, 'co, 'to, 'fo, 'wo, 'e, 'tx, 'l) bound_contract IbcidentifierCaller \<Rightarrow> 'co \<Rightarrow> string \<Rightarrow> string \<Rightarrow> 64 word \<Rightarrow> 'w \<Rightarrow> 'e go_fail + byte list"
where
  "IbcidentifierCaller_PacketAcknowledgementCommitmentKey C opts portId channelId sequence w =
     bindr (contract_call (contract C) opts ''packetAcknowledgementCommitmentKey'' [I_string portId, I_string channelId, I_uint64 sequence] w) (\<lambda>out.
     out_at (contract C) as_bytes32 out 0)"

definition IbcidentifierCaller_PacketAcknowledgementCommitmentSlot ::
  "('w, 'co, 'to, 'fo, 'wo, 'e, 'tx, 'l) bound_contract IbcidentifierCaller \<Rightarrow> 'co \<Rightarrow> string \<Rightarrow> string \<Rightarrow> 64 word \<Rightarrow> 'w \<Rightarrow> 'e go_fail + byte list"
where
  "IbcidentifierCaller_PacketAcknowledgementCommitmentSlot C opts portId channelId sequence w =
     bindr (contract_call (contract C) opts ''packetAcknowledgementCommitmentSlot'' [I_string portId, I_string channelId, I_uint64 sequence] w) (\<lambda>out.
     out_at (contract C) as_bytes32 out 0)"

definition IbcidentifierCaller_PacketCommitmentKey ::
  "('w, 'co, 'to, 'fo, 'wo, 'e, 'tx, 'l) bound_contract IbcidentifierCaller \<Rightarrow> 'co \<Rightarrow> string \<Rightarrow> string \<Rightarrow> 64 word \<Rightarrow> 'w \<Rightarrow> 'e go_fail + byte list"
where
  "IbcidentifierCaller_PacketCommitmentKey C opts portId channelId sequence w =
     bindr (contract_call (contract C) opts ''packetCommitmentKey'' [I_string portId, I_string channelId, I_uint64 sequence] w) (\<lambda>out.
     out_at (contract C) as_bytes32 out 0)"

definition IbcidentifierCaller_PacketCommitmentSlot ::
  "('w, 'co, 'to, 'fo, 'wo, 'e, 'tx, 'l) bound_contract IbcidentifierCaller \<Rightarrow> 'co \<Rightarrow> string \<Rightarrow> string \<Rightarrow> 64 word \<Rightarrow> 'w \<Rightarrow> 'e go_fail + byte list"
where
  "IbcidentifierCaller_PacketCommitmentSlot C opts portId channelId sequence w =
     bindr (contract_call (contract C) opts ''packetCommitmentSlot'' [I_string portId, I_string channelId, I_uint64 sequence] w) (\<lambda>out.
     out_at (contract C) as_bytes32 out 0)"

definition IbcidentifierCaller_PortCapabilityPath ::
  "('w, 'co, 'to, 'fo, 'wo, 'e, 'tx, 'l) bound_contract IbcidentifierCaller \<Rightarrow> 'co \<Rightarrow> string \<Rightarrow> 'w \<Rightarrow> 'e go_fail + byte list"
where
  "IbcidentifierCaller_PortCapabilityPath C opts portId w =
     bindr (contract_call (contract C) opts ''portCapabilityPath'' [I_string portId] w) (\<lambda>out.
     out_at (contract C) as_bytes out 0)"

subsection \<open>Sessions\<close>

definition IbcidentifierSession_ChannelCapabilityPath ::
  "(('w, 'co, 'to, 'fo, 'wo, 'e, 'tx, 'l) bound_contract, 'co, 'to) IbcidentifierSession \<Rightarrow> string \<Rightarrow> string \<Rightarrow> 'w \<Rightarrow> 'e go_fail + byte list"
where
  "IbcidentifierSession_ChannelCapabilityPath S portId channelId w =
     IbcidentifierCaller_ChannelCapabilityPath (Caller (session_Contract S)) (session_CallOpts S) portId channelId w"

definition IbcidentifierCallerSession_ChannelCapabilityPath ::
  "(('w, 'co, 'to, 'fo, 'wo, 'e, 'tx, 'l) bound_contract, 'co) IbcidentifierCallerSession \<Rightarrow> string \<Rightarrow> string \<Rightarrow> 'w \<Rightarrow> 'e go_fail + byte list"
where
  "IbcidentifierCallerSession_ChannelCapabilityPath S portId channelId w =
     IbcidentifierCaller_ChannelCapabilityPath (caller_Contract S) (caller_CallOpts S) portId channelId w"

definition IbcidentifierSession_ChannelCommitmentKey ::
  "(('w, 'co, 'to, 'fo, 'wo, 'e, 'tx, 'l) bound_contract, 'co, 'to) IbcidentifierSession \<Rightarrow> string \<Rightarrow> string \<Rightarrow> 'w \<Rightarrow> 'e go_fail + byte list"
where
  "IbcidentifierSession_ChannelCommitmentKey S portId channelId w =
     IbcidentifierCaller_ChannelCommitmentKey (Caller (session_Contract S)) (session_CallOpts S) portId channelId w"

definition IbcidentifierCallerSession_ChannelCommitmentKey ::
  "(('w, 'co, 'to, 'fo, 'wo, 'e, 'tx, 'l) bound_contract, 'co) IbcidentifierCallerSession \<Rightarrow> string \<Rightarrow> string \<Rightarrow> 'w \<Rightarrow> 'e go_fail + byte list"
where
  "IbcidentifierCallerSession_ChannelCommitmentKey S portId channelId w =
     IbcidentifierCaller_ChannelCommitmentKey (caller_Contract S) (caller_CallOpts S) portId channelId w"

definition IbcidentifierSession_ChannelCommitmentSlot ::
  "(('w, 'co, 'to, 'fo, 'wo, 'e, 'tx, 'l) bound_contract, 'co, 'to) IbcidentifierSession \<Rightarrow> string \<Rightarrow> string \<Rightarrow> 'w \<Rightarrow> 'e go_fail + byte list"
where
  "IbcidentifierSession_ChannelCommitmentSlot S portId channelId w =
     IbcidentifierCaller_ChannelCommitmentSlot (Caller (session_Contract S)) (session_CallOpts S) portId channelId w"

definition IbcidentifierCallerSession_ChannelCommitmentSlot ::
  "(('w, 'co, 'to, 'fo, 'wo, 'e, 'tx, 'l) bound_contract, 'co) IbcidentifierCallerSession \<Rightarrow> string \<Rightarrow> string \<Rightarrow> 'w \<Rightarrow> 'e go_fail + byte list"
where
  "IbcidentifierCallerSession_ChannelCommitmentSlot S portId channelId w =
     IbcidentifierCaller_ChannelCommitmentSlot (caller_Contract S) (caller_CallOpts S) portId channelId w"

definition IbcidentifierSession_ClientCommitmentKey ::
  "(('w, 'co, 'to, 'fo, 'wo, 'e, 'tx, 'l) bound_contract, 'co, 'to) IbcidentifierSession \<Rightarrow> string \<Rightarrow> 'w \<Rightarrow> 'e go_fail + byte list"
where
  "IbcidentifierSession_ClientCommitmentKey S clientId w =
     IbcidentifierCaller_ClientCommitmentKey (Caller (session_Contract S)) (session_CallOpts S) clientId w"

definition IbcidentifierCallerSession_ClientCommitmentKey ::
  "(('w, 'co, 'to, 'fo, 'wo, 'e, 'tx, 'l) bound_contract, 'co) IbcidentifierCallerSession \<Rightarrow> string \<Rightarrow> 'w \<Rightarrow> 'e go_fail + byte list"
where
  "IbcidentifierCallerSession_ClientCommitmentKey S clientId w =
     IbcidentifierCaller_ClientCommitmentKey (caller_Contract S) (caller_CallOpts S) clientId w"

definition IbcidentifierSession_ClientStateCommitmentSlot ::
  "(('w, 'co, 'to, 'fo, 'wo, 'e, 'tx, 'l) bound_contract, 'co, 'to) IbcidentifierSession \<Rightarrow> string \<Rightarrow> 'w \<Rightarrow> 'e go_fail + byte list"
where
  "IbcidentifierSession_ClientStateCommitmentSlot S clientId w =
     IbcidentifierCaller_ClientStateCommitmentSlot (Caller (session_Contract S)) (session_CallOpts S) clientId w"

definition IbcidentifierCallerSession_ClientStateCommitmentSlot ::
  "(('w, 'co, 'to, 'fo, 'wo, 'e, 'tx, 'l) bound_contract, 'co) IbcidentifierCallerSession \<Rightarrow> string \<Rightarrow> 'w \<Rightarrow> 'e go_fail + byte list"
where
  "IbcidentifierCallerSession_ClientStateCommitmentSlot S clientId w =
     IbcidentifierCaller_ClientStateCommitmentSlot (caller_Contract S) (caller_CallOpts S) clientId w"

definition IbcidentifierSession_ConnectionCommitmentKey ::
  "(('w, 'co, 'to, 'fo, 'wo, 'e, 'tx, 'l) bound_contract, 'co, 'to) IbcidentifierSession \<Rightarrow> string \<Rightarrow> 'w \<Rightarrow> 'e go_fail + byte list"
where
  "IbcidentifierSession_ConnectionCommitmentKey S connectionId w =
     IbcidentifierCaller_ConnectionCommitmentKey (Caller (session_Contract S)) (session_CallOpts S) connectionId w"

definition IbcidentifierCallerSession_ConnectionCommitmentKey ::
  "(('w, 'co, 'to, 'fo, 'wo, 'e, 'tx, 'l) bound_contract, 'co) IbcidentifierCallerSession \<Rightarrow> string \<Rightarrow> 'w \<Rightarrow> 'e go_fail + byte list"
where
  "IbcidentifierCallerSession_ConnectionCommitmentKey S connectionId w =
     IbcidentifierCaller_ConnectionCommitmentKey (caller_Contract S) (caller_CallOpts S) connectionId w"

definition IbcidentifierSession_ConnectionCommitmentSlot ::
  "(('w, 'co, 'to, 'fo, 'wo, 'e, 'tx, 'l) bound_contract, 'co, 'to) IbcidentifierSession \<Rightarrow> string \<Rightarrow> 'w \<Rightarrow> 'e go_fail + byte list"
where
  "IbcidentifierSession_ConnectionCommitmentSlot S connectionId w =
     IbcidentifierCaller_ConnectionCommitmentSlot (Caller (session_Contract S)) (session_CallOpts S) connectionId w"

definition IbcidentifierCallerSession_ConnectionCommitmentSlot ::
  "(('w, 'co, 'to, 'fo, 'wo, 'e, 'tx, 'l) bound_contract, 'co) IbcidentifierCallerSession \<Rightarrow> string \<Rightarrow> 'w \<Rightarrow> 'e go_fail + byte list"
where
  "IbcidentifierCallerSession_ConnectionCommitmentSlot S connectionId w =
     IbcidentifierCaller_ConnectionCommitmentSlot (caller_Contract S) (caller_CallOpts S) connectionId w"

definition IbcidentifierSession_ConsensusCommitmentKey ::
  "(('w, 'co, 'to, 'fo, 'wo, 'e, 'tx, 'l) bound_contract, 'co, 'to) IbcidentifierSession \<Rightarrow> string \<Rightarrow> 64 word \<Rightarrow> 'w \<Rightarrow> 'e go_fail + byte list"
where
  "IbcidentifierSession_ConsensusCommitmentKey S clientId height w =
     IbcidentifierCaller_ConsensusCommitmentKey (Caller (session_Contract S)) (session_CallOpts S) clientId height w"

definition IbcidentifierCallerSession_ConsensusCommitmentKey ::
  "(('w, 'co, 'to, 'fo, 'wo, 'e, 'tx, 'l) bound_contract, 'co) IbcidentifierCallerSession \<Rightarrow> string \<Rightarrow> 64 word \<Rightarrow> 'w \<Rightarrow> 'e go_fail + byte list"
where
  "IbcidentifierCallerSession_ConsensusCommitmentKey S clientId height w =
     IbcidentifierCaller_ConsensusCommitmentKey (caller_Contract S) (caller_CallOpts S) clientId height w"

definition IbcidentifierSession_ConsensusStateCommitmentSlot ::
  "(('w, 'co, 'to, 'fo, 'wo, 'e, 'tx, 'l) bound_contract, 'co, 'to) IbcidentifierSession \<Rightarrow> string \<Rightarrow> 64 word \<Rightarrow> 'w \<Rightarrow> 'e go_fail + byte list"
where
  "IbcidentifierSession_ConsensusStateCommitmentSlot S clientId height w =
     IbcidentifierCaller_ConsensusStateCommitmentSlot (Caller (session_Contract S)) (session_CallOpts S) clientId height w"

definition IbcidentifierCallerSession_ConsensusStateCommitmentSlot ::
  "(('w, 'co, 'to, 'fo, 'wo, 'e, 'tx, 'l) bound_contract, 'co) IbcidentifierCallerSession \<Rightarrow> string \<Rightarrow> 64 word \<Rightarrow> 'w \<Rightarrow> 'e go_fail + byte list"
where
  "IbcidentifierCallerSession_ConsensusStateCommitmentSlot S clientId height w =
     IbcidentifierCaller_ConsensusStateCommitmentSlot (caller_Contract S) (caller_CallOpts S) clientId height w"

definition IbcidentifierSession_PacketAcknowledgementCommitmentKey ::
  "(('w, 'co, 'to, 'fo, 'wo, 'e, 'tx, 'l) bound_contract, 'co, 'to) IbcidentifierSession \<Rightarrow> string \<Rightarrow> string \<Rightarrow> 64 word \<Rightarrow> 'w \<Rightarrow> 'e go_fail + byte list"
where
  "IbcidentifierSession_PacketAcknowledgementCommitmentKey S portId channelId sequence w =
     IbcidentifierCaller_PacketAcknowledgementCommitmentKey (Caller (session_Contract S)) (session_CallOpts S) portId channelId sequence w"

definition IbcidentifierCallerSession_PacketAcknowledgementCommitmentKey ::
  "(('w, 'co, 'to, 'fo, 'wo, 'e, 'tx, 'l) bound_contract, 'co) IbcidentifierCallerSession \<Rightarrow> string \<Rightarrow> string \<Rightarrow> 64 word \<Rightarrow> 'w \<Rightarrow> 'e go_fail + byte list"
where
  "IbcidentifierCallerSession_PacketAcknowledgementCommitmentKey S portId channelId sequence w =
     IbcidentifierCaller_PacketAcknowledgementCommitmentKey (caller_Contract S) (caller_CallOpts S) portId channelId sequence w"

definition IbcidentifierSession_PacketAcknowledgementCommitmentSlot ::
  "(('w, 'co, 'to, 'fo, 'wo, 'e, 'tx, 'l) bound_contract, 'co, 'to) IbcidentifierSession \<Rightarrow> string \<Rightarrow> string \<Rightarrow> 64 word \<Rightarrow> 'w \<Rightarrow> 'e go_fail + byte list"
where
  "IbcidentifierSession_PacketAcknowledgementCommitmentSlot S portId channelId sequence w =
     IbcidentifierCaller_PacketAcknowledgementCommitmentSlot (Caller (session_Contract S)) (session_CallOpts S) portId channelId sequence w"

definition IbcidentifierCallerSession_PacketAcknowledgementCommitmentSlot ::
  "(('w, 'co, 'to, 'fo, 'wo, 'e, 'tx, 'l) bound_contract, 'co) IbcidentifierCallerSession \<Rightarrow> string \<Rightarrow> string \<Rightarrow> 64 word \<Rightarrow> 'w \<Rightarrow> 'e go_fail + byte list"
where
  "IbcidentifierCallerSession_PacketAcknowledgementCommitmentSlot S portId channelId sequence w =
     IbcidentifierCaller_PacketAcknowledgementCommitmentSlot (caller_Contract S) (caller_CallOpts S) portId channelId sequence w"

definition IbcidentifierSession_PacketCommitmentKey ::
  "(('w, 'co, 'to, 'fo, 'wo, 'e, 'tx, 'l) bound_contract, 'co, 'to) IbcidentifierSession \<Rightarrow> string \<Rightarrow> string \<Rightarrow> 64 word \<Rightarrow> 'w \<Rightarrow> 'e go_fail + byte list"
where
  "IbcidentifierSession_PacketCommitmentKey S portId channelId sequence w =
     IbcidentifierCaller_PacketCommitmentKey (Caller (session_Contract S)) (session_CallOpts S) portId channelId sequence w"

definition IbcidentifierCallerSession_PacketCommitmentKey ::
  "(('w, 'co, 'to, 'fo, 'wo, 'e, 'tx, 'l) bound_contract, 'co) IbcidentifierCallerSession \<Rightarrow> string \<Rightarrow> string \<Rightarrow> 64 word \<Rightarrow> 'w \<Rightarrow> 'e go_fail + byte list"
where
  "IbcidentifierCallerSession_PacketCommitmentKey S portId channelId sequence w =
     IbcidentifierCaller_PacketCommitmentKey (caller_Contract S) (caller_CallOpts S) portId channelId sequence w"

definition IbcidentifierSession_PacketCommitmentSlot ::
  "(('w, 'co, 'to, 'fo, 'wo, 'e, 'tx, 'l) bound_contract, 'co, 'to) IbcidentifierSession \<Rightarrow> string \<Rightarrow> string \<Rightarrow> 64 word \<Rightarrow> 'w \<Rightarrow> 'e go_fail + byte list"
where
  "IbcidentifierSession_PacketCommitmentSlot S portId channelId sequence w =
     IbcidentifierCaller_PacketCommitmentSlot (Caller (session_Contract S)) (session_CallOpts S) portId channelId sequence w"

definition IbcidentifierCallerSession_PacketCommitmentSlot ::
  "(('w, 'co, 'to, 'fo, 'wo, 'e, 'tx, 'l) bound_contract, 'co) IbcidentifierCallerSession \<Rightarrow> string \<Rightarrow> string \<Rightarrow> 64 word \<Rightarrow> 'w \<Rightarrow> 'e go_fail + byte list"
where
  "IbcidentifierCallerSession_PacketCommitmentSlot S portId channelId sequence w =
     IbcidentifierCaller_PacketCommitmentSlot (caller_Contract S) (caller_CallOpts S) portId channelId sequence w"

definition IbcidentifierSession_PortCapabilityPath ::
  "(('w, 'co, 'to, 'fo, 'wo, 'e, 'tx, 'l) bound_contract, 'co, 'to) IbcidentifierSession \<Rightarrow> string \<Rightarrow> 'w \<Rightarrow> 'e go_fail + byte list"
where
  "IbcidentifierSession_PortCapabilityPath S portId w =
     IbcidentifierCaller_PortCapabilityPath (Caller (session_Contract S)) (session_CallOpts S) portId w"

definition IbcidentifierCallerSession_PortCapabilityPath ::
  "(('w, 'co, 'to, 'fo, 'wo, 'e, 'tx, 'l) bound_contract, 'co) IbcidentifierCallerSession \<Rightarrow> string \<Rightarrow> 'w \<Rightarrow> 'e go_fail + byte list"
where
  "IbcidentifierCallerSession_PortCapabilityPath S portId w =
     IbcidentifierCaller_PortCapabilityPath (caller_Contract S) (caller_CallOpts S) portId w"

end
