(* ===== verification/Bind_Properties.thy ===== *)
theory Bind_Properties
  imports Ibchost_Go Ibcidentifier_Go IBC_Host "HOL-Library.Sublist"
begin

text \<open>
  What the bindings do for their users: loops over events, watching, and the getters of the
  host and identifier bindings against a node that runs the contracts of this development.
\<close>

section \<open>Event iterators\<close>


definition decodes :: "('l \<Rightarrow> 'e + 'ev) \<Rightarrow> 'l \<Rightarrow> bool" where
  "decodes unpack l = (case unpack l of Inl _ \<Rightarrow> False | Inr _ \<Rightarrow> True)"



text \<open>A contract whose logs are strings; a log that starts with a blank does not decode.\<close>

definition log_contract :: "(unit, unit, unit, unit, unit, string, unit, string) bound_contract" where
  "log_contract =
     \<lparr>bc_Call = (\<lambda>_ _ _ _. Inl ''call''), bc_Transact = (\<lambda>_ _ _ _. (Inl ''tx'', ())),
      bc_Transfer = (\<lambda>_ _. (Inl ''tx'', ())),
      bc_FilterLogs = (\<lambda>_ _ _ _. Inr [Log ''channel-0'', Log '' x'', Log ''channel-1'', Sub_err None]),
      bc_WatchLogs = (\<lambda>_ _ _ _. Inr ()),
      bc_UnpackLog = (\<lambda>_ l. if hd l = CHR '' '' then Inl ''bad log'' else Inr [I_string l]),
      bc_mismatch = ''mismatch'', bc_Unsubscribe = (\<lambda>f. f), bc_ConvertType = Some\<rparr>"

lemma log_contract_unpack:
  "unpack_event log_contract name IbchostGeneratedChannelIdentifier_fill l =
     (if hd l = CHR '' '' then Inl ''bad log''
      else Inr \<lparr>IbchostGeneratedChannelIdentifier_Arg0 = l, IbchostGeneratedChannelIdentifier_Raw = l\<rparr>)"
  by (simp add: unpack_event_def log_contract_def IbchostGeneratedChannelIdentifier_fill_def)


definition received :: "('l, 'e) watch_input list \<Rightarrow> 'l list" where
  "received is = concat (map (\<lambda>i. case i of W_log l \<Rightarrow> [l] | _ \<Rightarrow> []) is)"

lemma watch_loop_prefix:
  "prefix (fst (watch_loop unpack is None)) (map (projr \<circ> unpack) (takeWhile (decodes unpack) (received is))) \<and>
   (\<forall>ev. prefix (fst (watch_loop unpack is (Some ev)))
     (ev # map (projr \<circ> unpack) (takeWhile (decodes unpack) (received is))))"
proof (induction "is")
  case (Cons i "is")
  then show ?case
    by (cases i) (auto simp: received_def decodes_def case_prod_beta Let_def split: sum.splits)
qed (simp add: received_def)

text \<open>
  What a \<^verbatim>\<open>Watch\<close> goroutine delivers to its sink are the decoded events of the logs it
  received, in their order, each once, up to a log that does not decode: nothing is skipped,
  repeated or reordered, whatever else happens on its channels.
\<close>

theorem watch_delivers_in_order:
  assumes "watch_logs c opts name fill rules w = Inr run"
  shows "prefix (fst (run is)) (map (projr \<circ> unpack_event c name fill)
    (takeWhile (decodes (unpack_event c name fill)) (received is)))"
  using assms watch_loop_prefix [of "unpack_event c name fill"] by (auto simp: watch_logs_def result_simps)

lemma watch_delivers_in_order_witness:
  "\<exists>run. IbchostFilterer_WatchGeneratedChannelIdentifier \<lparr>contract = log_contract\<rparr> () () = Inr run \<and>
     fst (run [W_log ''a'', W_sink, W_log '' x'', W_log ''b'']) =
       [\<lparr>IbchostGeneratedChannelIdentifier_Arg0 = ''a'', IbchostGeneratedChannelIdentifier_Raw = ''a''\<rparr>]"
proof -
  let ?u = "unpack_event log_contract ''GeneratedChannelIdentifier'' IbchostGeneratedChannelIdentifier_fill"
  have r: "watch_logs log_contract () ''GeneratedChannelIdentifier'' IbchostGeneratedChannelIdentifier_fill [] () =
      Inr (\<lambda>inputs. watch_loop ?u inputs None)"
    by (simp add: watch_logs_def log_contract_def)
  have "prefix (fst (watch_loop ?u is None)) (map (projr \<circ> ?u) (takeWhile (decodes ?u) (received is)))" for "is"
    using watch_delivers_in_order [OF r, of "is"] by simp
  from this [of "[W_log ''a'', W_sink, W_log '' x'', W_log ''b'']"] r
  show ?thesis
    by (simp add: IbchostFilterer_WatchGeneratedChannelIdentifier_def log_contract_unpack)
qed

section \<open>Getters\<close>

text \<open>
  A node that runs the host contract: a call is dispatched by the name of the method, its
  arguments are decoded by their types, and the view function runs on the storage the node
  has, in an environment that has the sender of the call options. The results are those of the
  contract's return types in their order.
\<close>

fun abi1 :: "(iface \<Rightarrow> 'a option) \<Rightarrow> ('a \<Rightarrow> sol_error + iface list) \<Rightarrow> iface list \<Rightarrow> sol_error + iface list" where
  "abi1 d f [v] = (case d v of None \<Rightarrow> Inl (Revert []) | Some a \<Rightarrow> f a)"
| "abi1 d f _ = Inl (Revert [])"

fun abi2 ::
  "(iface \<Rightarrow> 'a option) \<Rightarrow> (iface \<Rightarrow> 'b option) \<Rightarrow> ('a \<Rightarrow> 'b \<Rightarrow> sol_error + iface list) \<Rightarrow> iface list \<Rightarrow> sol_error + iface list"
where
  "abi2 d e f (v # vs) = (case d v of None \<Rightarrow> Inl (Revert []) | Some a \<Rightarrow> abi1 e (f a) vs)"
| "abi2 d e f [] = Inl (Revert [])"

fun abi3 ::
  "(iface \<Rightarrow> 'a option) \<Rightarrow> (iface \<Rightarrow> 'b option) \<Rightarrow> (iface \<Rightarrow> 'c option) \<Rightarrow>
   ('a \<Rightarrow> 'b \<Rightarrow> 'c \<Rightarrow> sol_error + iface list) \<Rightarrow> iface list \<Rightarrow> sol_error + iface list"
where
  "abi3 d e g f (v # vs) = (case d v of None \<Rightarrow> Inl (Revert []) | Some a \<Rightarrow> abi2 e g (f a) vs)"
| "abi3 d e g f [] = Inl (Revert [])"

definition ret1 :: "('a \<Rightarrow> iface) \<Rightarrow> 'a \<Rightarrow> sol_error + iface list" where
  "ret1 i x = Inr [i x]"

definition ret_found :: "('a \<Rightarrow> iface) \<Rightarrow> 'a \<times> bool \<Rightarrow> sol_error + iface list" where
  "ret_found i r = Inr [i (fst r), I_bool (snd r)]"

definition host_methods :: "'z env_scheme \<Rightarrow> host \<Rightarrow> (string \<times> (iface list \<Rightarrow> sol_error + iface list)) list" where
  "host_methods E h =
    [(''getChannel'', abi2 as_string as_string (\<lambda>p c. ret_found I_ChannelData (getChannel p c h))),
     (''getClientImpl'', abi1 as_string (\<lambda>t. ret_found I_address (getClientImpl t h))),
     (''getClientState'', abi1 as_string (\<lambda>i. ret_found I_bytes (getClientState i h))),
     (''getClientType'', abi1 as_string (\<lambda>i. ret1 I_string (getClientType i h))),
     (''getConnection'', abi1 as_string (\<lambda>i. ret_found I_ConnectionEndData (getConnection i h))),
     (''getConsensusState'', abi2 as_string as_uint64 (\<lambda>i n. ret_found I_bytes (getConsensusState i n h))),
     (''getModuleOwner'', abi1 as_bytes (\<lambda>b. ret_found I_address (getModuleOwner b h))),
     (''getNextSequenceAck'', abi2 as_string as_string (\<lambda>p c. ret1 I_uint64 (getNextSequenceAck p c h))),
     (''getNextSequenceRecv'', abi2 as_string as_string (\<lambda>p c. ret1 I_uint64 (getNextSequenceRecv p c h))),
     (''getNextSequenceSend'', abi2 as_string as_string (\<lambda>p c. ret1 I_uint64 (getNextSequenceSend p c h))),
     (''getPacketAcknowledgementCommitment'', abi3 as_string as_string as_uint64
       (\<lambda>p c n. ret_found I_bytes32 (getPacketAcknowledgementCommitment E p c n h))),
     (''getPacketCommitment'', abi3 as_string as_string as_uint64
       (\<lambda>p c n. ret_found I_bytes32 (getPacketCommitment E p c n h))),
     (''hasPacketReceipt'', abi3 as_string as_string as_uint64
       (\<lambda>p c n. ret1 I_bool (hasPacketReceipt p c n h))),
     (''makePacketAcknowledgementCommitment'', abi1 as_bytes
       (\<lambda>a. ret1 I_bytes32 (makePacketAcknowledgementCommitment a))),
     (''makePacketCommitment'', abi1 as_PacketData (\<lambda>p. ret1 I_bytes32 (makePacketCommitment p))),
     (''authenticateCapability'', abi2 as_bytes as_address
       (\<lambda>b a. bindr (authenticateCapability E b a h) (ret1 I_bool))),
     (''onlyIBCModule'', \<lambda>args. bindr (onlyIBCModule E h) (\<lambda>_. Inr []))]"

definition identifier_methods :: "'z env_scheme \<Rightarrow> (string \<times> (iface list \<Rightarrow> sol_error + iface list)) list" where
  "identifier_methods E =
    [(''channelCapabilityPath'', abi2 as_string as_string (\<lambda>p c. ret1 I_bytes (channelCapabilityPath p c))),
     (''channelCommitmentKey'', abi2 as_string as_string (\<lambda>p c. ret1 I_bytes32 (channelCommitmentKey E p c))),
     (''channelCommitmentSlot'', abi2 as_string as_string (\<lambda>p c. ret1 I_bytes32 (channelCommitmentSlot E p c))),
     (''clientCommitmentKey'', abi1 as_string (\<lambda>i. ret1 I_bytes32 (clientCommitmentKey E i))),
     (''clientStateCommitmentSlot'', abi1 as_string (\<lambda>i. ret1 I_bytes32 (clientStateCommitmentSlot E i))),
     (''connectionCommitmentKey'', abi1 as_string (\<lambda>i. ret1 I_bytes32 (connectionCommitmentKey E i))),
     (''connectionCommitmentSlot'', abi1 as_string (\<lambda>i. ret1 I_bytes32 (connectionCommitmentSlot E i))),
     (''consensusCommitmentKey'', abi2 as_string as_uint64 (\<lambda>i n. ret1 I_bytes32 (consensusCommitmentKey E i n))),
     (''consensusStateCommitmentSlot'', abi2 as_string as_uint64
       (\<lambda>i n. ret1 I_bytes32 (consensusStateCommitmentSlot E i n))),
     (''packetAcknowledgementCommitmentKey'', abi3 as_string as_string as_uint64
       (\<lambda>p c n. ret1 I_bytes32 (packetAcknowledgementCommitmentKey E p c n))),
     (''packetAcknowledgementCommitmentSlot'', abi3 as_string as_string as_uint64
       (\<lambda>p c n. ret1 I_bytes32 (packetAcknowledgementCommitmentSlot E p c n))),
     (''packetCommitmentKey'', abi3 as_string as_string as_uint64
       (\<lambda>p c n. ret1 I_bytes32 (packetCommitmentKey E p c n))),
     (''packetCommitmentSlot'', abi3 as_string as_string as_uint64
       (\<lambda>p c n. ret1 I_bytes32 (packetCommitmentSlot E p c n))),
     (''portCapabilityPath'', abi1 as_string (\<lambda>p. ret1 I_bytes (portCapabilityPath p)))]"

text \<open>
  The bound contract \<open>c\<close> reaches a node that serves \<open>methods\<close>: an unknown method reverts, an
  error of the contract is reported as \<open>err\<close> says, the values returned are of the binding's types.
\<close>

definition serves ::
  "('w, 'co, 'to, 'fo, 'wo, 'e, 'tx, 'l) bound_contract \<Rightarrow> (sol_error \<Rightarrow> 'e) \<Rightarrow>
   ('co \<Rightarrow> 'w \<Rightarrow> (string \<times> (iface list \<Rightarrow> sol_error + iface list)) list) \<Rightarrow> bool"
where
  "serves c err methods \<longleftrightarrow> bc_ConvertType c = Some \<and>
     (\<forall>opts m args w. bc_Call c opts m args w =
       (case map_of (methods opts w) m of None \<Rightarrow> Inl (err (Revert []))
        | Some f \<Rightarrow> map_sum err id (f args)))"

lemma serves_call:
  assumes "serves c err methods" and "map_of (methods opts w) m = Some f"
  shows "contract_call c opts m args w = map_sum (Go_err \<circ> err) id (f args)"
  using assms by (cases "f args") (simp_all add: serves_def contract_call_def)

lemma serves_out: "serves c err methods \<Longrightarrow> out_at c as (v # vs) 0 = (case as v of None \<Rightarrow> Inl Go_panics | Some x \<Rightarrow> Inr x)"
  "serves c err methods \<Longrightarrow> out_at c as [u, v] (Suc 0) = (case as v of None \<Rightarrow> Inl Go_panics | Some x \<Rightarrow> Inr x)"
  by (simp_all add: serves_def out_at_def)

lemmas getter_simps = serves_call serves_out ret1_def ret_found_def

text \<open>
  C28: against a node that runs the host contract, every getter of the \<^verbatim>\<open>ibchost\<close> binding returns
  what the contract's function of that name returns on the storage of the node, with the
  arguments in the right order and the results at their types; the two that can revert report
  the contract's error. No getter panics.
\<close>

theorem ibchost_getters:
  assumes "serves c err (\<lambda>opts w. host_methods (env opts) (view w))"
  shows "IbchostCaller_GetChannel \<lparr>contract = c\<rparr> opts p ch w = Inr (getChannel p ch (view w)) \<and>
    IbchostCaller_GetClientImpl \<lparr>contract = c\<rparr> opts t w = Inr (getClientImpl t (view w)) \<and>
    IbchostCaller_GetClientState \<lparr>contract = c\<rparr> opts i w = Inr (getClientState i (view w)) \<and>
    IbchostCaller_GetClientType \<lparr>contract = c\<rparr> opts i w = Inr (getClientType i (view w)) \<and>
    IbchostCaller_GetConnection \<lparr>contract = c\<rparr> opts i w = Inr (getConnection i (view w)) \<and>
    IbchostCaller_GetConsensusState \<lparr>contract = c\<rparr> opts i n w = Inr (getConsensusState i n (view w)) \<and>
    IbchostCaller_GetModuleOwner \<lparr>contract = c\<rparr> opts b w = Inr (getModuleOwner b (view w)) \<and>
    IbchostCaller_GetNextSequenceAck \<lparr>contract = c\<rparr> opts p ch w = Inr (getNextSequenceAck p ch (view w)) \<and>
    IbchostCaller_GetNextSequenceRecv \<lparr>contract = c\<rparr> opts p ch w = Inr (getNextSequenceRecv p ch (view w)) \<and>
    IbchostCaller_GetNextSequenceSend \<lparr>contract = c\<rparr> opts p ch w = Inr (getNextSequenceSend p ch (view w)) \<and>
    IbchostCaller_GetPacketAcknowledgementCommitment \<lparr>contract = c\<rparr> opts p ch n w =
      Inr (getPacketAcknowledgementCommitment (env opts) p ch n (view w)) \<and>
    IbchostCaller_GetPacketCommitment \<lparr>contract = c\<rparr> opts p ch n w =
      Inr (getPacketCommitment (env opts) p ch n (view w)) \<and>
    IbchostCaller_HasPacketReceipt \<lparr>contract = c\<rparr> opts p ch n w = Inr (hasPacketReceipt p ch n (view w)) \<and>
    IbchostCaller_MakePacketAcknowledgementCommitment \<lparr>contract = c\<rparr> opts b w =
      Inr (makePacketAcknowledgementCommitment b) \<and>
    IbchostCaller_MakePacketCommitment \<lparr>contract = c\<rparr> opts pkt w = Inr (makePacketCommitment pkt) \<and>
    IbchostCaller_AuthenticateCapability \<lparr>contract = c\<rparr> opts b a w =
      map_sum (Go_err \<circ> err) id (authenticateCapability (env opts) b a (view w)) \<and>
    IbchostCaller_OnlyIBCModule \<lparr>contract = c\<rparr> opts w = map_sum (Go_err \<circ> err) id (onlyIBCModule (env opts) (view w))"
proof -
  note m = serves_call [OF assms] serves_out [OF assms]
  have a: "IbchostCaller_AuthenticateCapability \<lparr>contract = c\<rparr> opts b a w =
      map_sum (Go_err \<circ> err) id (authenticateCapability (env opts) b a (view w))"
    by (cases "authenticateCapability (env opts) b a (view w)")
      (simp_all add: IbchostCaller_AuthenticateCapability_def m host_methods_def ret1_def)
  have o: "IbchostCaller_OnlyIBCModule \<lparr>contract = c\<rparr> opts w = map_sum (Go_err \<circ> err) id (onlyIBCModule (env opts) (view w))"
    by (cases "onlyIBCModule (env opts) (view w)")
      (simp_all add: IbchostCaller_OnlyIBCModule_def m host_methods_def)
  show ?thesis
    by (intro conjI a o; simp add: IbchostCaller_GetChannel_def IbchostCaller_GetClientImpl_def
        IbchostCaller_GetClientState_def IbchostCaller_GetClientType_def IbchostCaller_GetConnection_def
        IbchostCaller_GetConsensusState_def IbchostCaller_GetModuleOwner_def IbchostCaller_GetNextSequenceAck_def
        IbchostCaller_GetNextSequenceRecv_def IbchostCaller_GetNextSequenceSend_def
        IbchostCaller_GetPacketAcknowledgementCommitment_def IbchostCaller_GetPacketCommitment_def
        IbchostCaller_HasPacketReceipt_def IbchostCaller_MakePacketAcknowledgementCommitment_def
        IbchostCaller_MakePacketCommitment_def m host_methods_def ret1_def ret_found_def)
qed

definition node_contract ::
  "('co \<Rightarrow> 'w \<Rightarrow> (string \<times> (iface list \<Rightarrow> sol_error + iface list)) list) \<Rightarrow>
   ('w, 'co, unit, unit, unit, sol_error, unit, unit) bound_contract"
where
  "node_contract methods =
     \<lparr>bc_Call = (\<lambda>opts m args w. case map_of (methods opts w) m of None \<Rightarrow> Inl (Revert []) | Some f \<Rightarrow> f args),
      bc_Transact = (\<lambda>_ _ _ w. (Inr (), w)), bc_Transfer = (\<lambda>_ w. (Inr (), w)),
      bc_FilterLogs = (\<lambda>_ _ _ _. Inr []), bc_WatchLogs = (\<lambda>_ _ _ _. Inr ()),
      bc_UnpackLog = (\<lambda>_ _. Inr []), bc_mismatch = Invalid, bc_Unsubscribe = (\<lambda>f. f), bc_ConvertType = Some\<rparr>"

lemma node_contract_serves: "serves (node_contract methods) (\<lambda>e. e) methods"
  by (simp add: serves_def node_contract_def sum.map_ident id_def split: option.split)

definition node_env :: "address \<Rightarrow> env" where
  "node_env a = \<lparr>keccak256 = (\<lambda>x. x), msg_sender = a, block_number = 1, block_timestamp = 1\<rparr>"

lemma ibchost_getters_witness:
  "IbchostCaller_GetClientType \<lparr>contract = node_contract (\<lambda>a h. host_methods (node_env a) h)\<rparr> 7 ''x''
     ((host_constructor (node_env 1))\<lparr>clientTypes := (\<lambda>_. ''mock'')\<rparr>) = Inr ''mock''"
  using ibchost_getters [where env = node_env and view = "\<lambda>h. h" and opts = 7 and i = "''x''", OF node_contract_serves]
  by (simp add: getClientType_def)

text \<open>
  Against a node that runs the identifier library, every function of the \<^verbatim>\<open>ibcidentifier\<close>
  binding returns the path, commitment key or storage slot that the library
  computes for these arguments.
\<close>

theorem ibcidentifier_functions:
  assumes "serves c err (\<lambda>opts w. identifier_methods (env opts))"
  shows "IbcidentifierCaller_ChannelCapabilityPath \<lparr>contract = c\<rparr> opts p ch w = Inr (channelCapabilityPath p ch) \<and>
    IbcidentifierCaller_ChannelCommitmentKey \<lparr>contract = c\<rparr> opts p ch w = Inr (channelCommitmentKey (env opts) p ch) \<and>
    IbcidentifierCaller_ChannelCommitmentSlot \<lparr>contract = c\<rparr> opts p ch w = Inr (channelCommitmentSlot (env opts) p ch) \<and>
    IbcidentifierCaller_ClientCommitmentKey \<lparr>contract = c\<rparr> opts i w = Inr (clientCommitmentKey (env opts) i) \<and>
    IbcidentifierCaller_ClientStateCommitmentSlot \<lparr>contract = c\<rparr> opts i w =
      Inr (clientStateCommitmentSlot (env opts) i) \<and>
    IbcidentifierCaller_ConnectionCommitmentKey \<lparr>contract = c\<rparr> opts i w = Inr (connectionCommitmentKey (env opts) i) \<and>
    IbcidentifierCaller_ConnectionCommitmentSlot \<lparr>contract = c\<rparr> opts i w =
      Inr (connectionCommitmentSlot (env opts) i) \<and>
    IbcidentifierCaller_ConsensusCommitmentKey \<lparr>contract = c\<rparr> opts i n w =
      Inr (consensusCommitmentKey (env opts) i n) \<and>
    IbcidentifierCaller_ConsensusStateCommitmentSlot \<lparr>contract = c\<rparr> opts i n w =
      Inr (consensusStateCommitmentSlot (env opts) i n) \<and>
    IbcidentifierCaller_PacketAcknowledgementCommitmentKey \<lparr>contract = c\<rparr> opts p ch n w =
      Inr (packetAcknowledgementCommitmentKey (env opts) p ch n) \<and>
    IbcidentifierCaller_PacketAcknowledgementCommitmentSlot \<lparr>contract = c\<rparr> opts p ch n w =
      Inr (packetAcknowledgementCommitmentSlot (env opts) p ch n) \<and>
    IbcidentifierCaller_PacketCommitmentKey \<lparr>contract = c\<rparr> opts p ch n w =
      Inr (packetCommitmentKey (env opts) p ch n) \<and>
    IbcidentifierCaller_PacketCommitmentSlot \<lparr>contract = c\<rparr> opts p ch n w =
      Inr (packetCommitmentSlot (env opts) p ch n) \<and>
    IbcidentifierCaller_PortCapabilityPath \<lparr>contract = c\<rparr> opts p w = Inr (portCapabilityPath p)"
proof -
  note m = serves_call [OF assms] serves_out [OF assms]
  show ?thesis
    by (intro conjI; simp add: IbcidentifierCaller_ChannelCapabilityPath_def IbcidentifierCaller_ChannelCommitmentKey_def
        IbcidentifierCaller_ChannelCommitmentSlot_def IbcidentifierCaller_ClientCommitmentKey_def
        IbcidentifierCaller_ClientStateCommitmentSlot_def IbcidentifierCaller_ConnectionCommitmentKey_def
        IbcidentifierCaller_ConnectionCommitmentSlot_def IbcidentifierCaller_ConsensusCommitmentKey_def
        IbcidentifierCaller_ConsensusStateCommitmentSlot_def IbcidentifierCaller_PacketAcknowledgementCommitmentKey_def
        IbcidentifierCaller_PacketAcknowledgementCommitmentSlot_def IbcidentifierCaller_PacketCommitmentKey_def
        IbcidentifierCaller_PacketCommitmentSlot_def IbcidentifierCaller_PortCapabilityPath_def m
        identifier_methods_def ret1_def)
qed

lemma ibcidentifier_functions_witness:
  "IbcidentifierCaller_PortCapabilityPath \<lparr>contract = node_contract (\<lambda>a w. identifier_methods (node_env a))\<rparr> 7
     ''transfer'' () = Inr (str_bytes ''transfer'')"
  using ibcidentifier_functions [where env = node_env and opts = 7 and p = "''transfer''" and w = "()",
      OF node_contract_serves]
  by (simp add: portCapabilityPath_def)

end
