(* ===== verification/MockClient_PB.thy ===== *)
theory MockClient_PB
  imports Proto_Codec
begin

text \<open>
  \<^verbatim>\<open>pkg/ibc/client/mock/MockClient.pb.go\<close>: the states and the header of the mock light
  client.
\<close>

subsection \<open>The helpers of the file\<close>

definition sovMockClient :: "64 word \<Rightarrow> nat" where
  "sovMockClient = sov"

definition sozMockClient :: "64 word \<Rightarrow> nat" where
  "sozMockClient = soz"

definition encodeVarintMockClient :: "byte list \<Rightarrow> int \<Rightarrow> 64 word \<Rightarrow> pb_error + byte list \<times> int" where
  "encodeVarintMockClient = encodeVarint"

definition skipMockClient :: "byte list \<Rightarrow> pb_error + int" where
  "skipMockClient = skip_field MockClient_proto"

subsection \<open>\<^verbatim>\<open>ClientState\<close>\<close>

record Mock_ClientState =
  mcs_LatestHeight :: "64 word"

definition Mock_ClientState_new :: Mock_ClientState where
  "Mock_ClientState_new =
     \<lparr>mcs_LatestHeight = 0\<rparr>"

definition Mock_ClientState_Size :: "Mock_ClientState \<Rightarrow> nat" where
  "Mock_ClientState_Size m =
     size_uint (mcs_LatestHeight m)"

definition Mock_ClientState_MarshalToSizedBuffer :: "Mock_ClientState \<Rightarrow> sized_writer" where
  "Mock_ClientState_MarshalToSizedBuffer m = to_sized_buffer
     [whenw (mcs_LatestHeight m \<noteq> 0) (put_uint 0x8 (mcs_LatestHeight m))]"

definition Mock_ClientState_Marshal :: "Mock_ClientState \<Rightarrow> pb_error + byte list" where
  "Mock_ClientState_Marshal m = marshal (Mock_ClientState_Size m) (Mock_ClientState_MarshalToSizedBuffer m)"

definition Mock_ClientState_MarshalTo :: "Mock_ClientState \<Rightarrow> sized_writer" where
  "Mock_ClientState_MarshalTo m = marshal_to (Mock_ClientState_Size m) (Mock_ClientState_MarshalToSizedBuffer m)"

definition Mock_ClientState_fields :: "int \<Rightarrow> Mock_ClientState field_case option" where
  "Mock_ClientState_fields fieldNum =
     (if fieldNum = 1 then Some (uint_case MockClient_proto ''LatestHeight'' (\<lambda>v m. m\<lparr>mcs_LatestHeight := v\<rparr>))
      else None)"

definition Mock_ClientState_Unmarshal :: "byte list \<Rightarrow> Mock_ClientState \<Rightarrow> pb_error + Mock_ClientState" where
  "Mock_ClientState_Unmarshal = unmarshal MockClient_proto ''ClientState'' Mock_ClientState_fields"

definition Mock_ClientState_enc :: "Mock_ClientState \<Rightarrow> byte list" where
  "Mock_ClientState_enc m =
     enc_uint 0x8 (mcs_LatestHeight m)"

interpretation mcs: pb_reader MockClient_proto "''ClientState''" Mock_ClientState_fields
  by unfold_locales (auto simp: Mock_ClientState_fields_def split: if_splits)

lemma Mock_ClientState_fuel: "go_slice bs \<Longrightarrow> fuel_ok (Mock_ClientState_Unmarshal bs m)"
  unfolding Mock_ClientState_Unmarshal_def by (rule mcs.unmarshal_terminates)

lemmas mcs_reads =
  mcs.parses_uint64 [of 1 "''LatestHeight''" "\<lambda>v m. m\<lparr>mcs_LatestHeight := v\<rparr>" "0x8"]

lemma Mock_ClientState_parses:
  "parses MockClient_proto ''ClientState'' Mock_ClientState_fields (Mock_ClientState_enc m) Mock_ClientState_new m"
  unfolding Mock_ClientState_enc_def Mock_ClientState_new_def
  by (rule parses_eq, (rule parses_append mcs_reads
      | simp add: Mock_ClientState_fields_def is_tag_def)+)

lemma Mock_ClientState_writes: "sized_writes (Mock_ClientState_MarshalToSizedBuffer m) (Mock_ClientState_enc m)"
  unfolding Mock_ClientState_MarshalToSizedBuffer_def
  by (rule to_sized_buffer_writes, (rule writes_intros)+, simp add: Mock_ClientState_enc_def)

interpretation mcs_codec: pb_codec MockClient_proto "''ClientState''" Mock_ClientState_fields
    Mock_ClientState_enc Mock_ClientState_Size Mock_ClientState_MarshalToSizedBuffer Mock_ClientState_new
  by (unfold_locales, simp add: Mock_ClientState_Size_def Mock_ClientState_enc_def wire_simps,
      rule Mock_ClientState_writes, rule Mock_ClientState_parses)

lemma Mock_ClientState_Unmarshal_enc: "go_slice (Mock_ClientState_enc m) \<Longrightarrow> Mock_ClientState_Unmarshal (Mock_ClientState_enc m) Mock_ClientState_new = Inr m"
  unfolding Mock_ClientState_Unmarshal_def by (rule mcs_codec.unmarshal_enc)

lemma Mock_ClientState_Marshal_enc: "Mock_ClientState_Marshal m = Inr (Mock_ClientState_enc m)"
  unfolding Mock_ClientState_Marshal_def by (rule mcs_codec.marshal_enc)

subsection \<open>\<^verbatim>\<open>ConsensusState\<close>\<close>

record Mock_ConsensusState =
  mcons_Timestamp :: "64 word"

definition Mock_ConsensusState_new :: Mock_ConsensusState where
  "Mock_ConsensusState_new =
     \<lparr>mcons_Timestamp = 0\<rparr>"

definition Mock_ConsensusState_Size :: "Mock_ConsensusState \<Rightarrow> nat" where
  "Mock_ConsensusState_Size m =
     size_uint (mcons_Timestamp m)"

definition Mock_ConsensusState_MarshalToSizedBuffer :: "Mock_ConsensusState \<Rightarrow> sized_writer" where
  "Mock_ConsensusState_MarshalToSizedBuffer m = to_sized_buffer
     [whenw (mcons_Timestamp m \<noteq> 0) (put_uint 0x8 (mcons_Timestamp m))]"

definition Mock_ConsensusState_Marshal :: "Mock_ConsensusState \<Rightarrow> pb_error + byte list" where
  "Mock_ConsensusState_Marshal m = marshal (Mock_ConsensusState_Size m) (Mock_ConsensusState_MarshalToSizedBuffer m)"

definition Mock_ConsensusState_MarshalTo :: "Mock_ConsensusState \<Rightarrow> sized_writer" where
  "Mock_ConsensusState_MarshalTo m = marshal_to (Mock_ConsensusState_Size m) (Mock_ConsensusState_MarshalToSizedBuffer m)"

definition Mock_ConsensusState_fields :: "int \<Rightarrow> Mock_ConsensusState field_case option" where
  "Mock_ConsensusState_fields fieldNum =
     (if fieldNum = 1 then Some (uint_case MockClient_proto ''Timestamp'' (\<lambda>v m. m\<lparr>mcons_Timestamp := v\<rparr>))
      else None)"

definition Mock_ConsensusState_Unmarshal :: "byte list \<Rightarrow> Mock_ConsensusState \<Rightarrow> pb_error + Mock_ConsensusState" where
  "Mock_ConsensusState_Unmarshal = unmarshal MockClient_proto ''ConsensusState'' Mock_ConsensusState_fields"

definition Mock_ConsensusState_enc :: "Mock_ConsensusState \<Rightarrow> byte list" where
  "Mock_ConsensusState_enc m =
     enc_uint 0x8 (mcons_Timestamp m)"

interpretation mcons: pb_reader MockClient_proto "''ConsensusState''" Mock_ConsensusState_fields
  by unfold_locales (auto simp: Mock_ConsensusState_fields_def split: if_splits)

lemma Mock_ConsensusState_fuel: "go_slice bs \<Longrightarrow> fuel_ok (Mock_ConsensusState_Unmarshal bs m)"
  unfolding Mock_ConsensusState_Unmarshal_def by (rule mcons.unmarshal_terminates)

lemmas mcons_reads =
  mcons.parses_uint64 [of 1 "''Timestamp''" "\<lambda>v m. m\<lparr>mcons_Timestamp := v\<rparr>" "0x8"]

lemma Mock_ConsensusState_parses:
  "parses MockClient_proto ''ConsensusState'' Mock_ConsensusState_fields (Mock_ConsensusState_enc m) Mock_ConsensusState_new m"
  unfolding Mock_ConsensusState_enc_def Mock_ConsensusState_new_def
  by (rule parses_eq, (rule parses_append mcons_reads
      | simp add: Mock_ConsensusState_fields_def is_tag_def)+)

lemma Mock_ConsensusState_writes: "sized_writes (Mock_ConsensusState_MarshalToSizedBuffer m) (Mock_ConsensusState_enc m)"
  unfolding Mock_ConsensusState_MarshalToSizedBuffer_def
  by (rule to_sized_buffer_writes, (rule writes_intros)+, simp add: Mock_ConsensusState_enc_def)

interpretation mcons_codec: pb_codec MockClient_proto "''ConsensusState''" Mock_ConsensusState_fields
    Mock_ConsensusState_enc Mock_ConsensusState_Size Mock_ConsensusState_MarshalToSizedBuffer Mock_ConsensusState_new
  by (unfold_locales, simp add: Mock_ConsensusState_Size_def Mock_ConsensusState_enc_def wire_simps,
      rule Mock_ConsensusState_writes, rule Mock_ConsensusState_parses)

lemma Mock_ConsensusState_Unmarshal_enc: "go_slice (Mock_ConsensusState_enc m) \<Longrightarrow> Mock_ConsensusState_Unmarshal (Mock_ConsensusState_enc m) Mock_ConsensusState_new = Inr m"
  unfolding Mock_ConsensusState_Unmarshal_def by (rule mcons_codec.unmarshal_enc)

lemma Mock_ConsensusState_Marshal_enc: "Mock_ConsensusState_Marshal m = Inr (Mock_ConsensusState_enc m)"
  unfolding Mock_ConsensusState_Marshal_def by (rule mcons_codec.marshal_enc)

subsection \<open>\<^verbatim>\<open>Header\<close>\<close>

record Mock_Header =
  mhdr_Height :: "64 word"
  mhdr_Timestamp :: "64 word"

definition Mock_Header_new :: Mock_Header where
  "Mock_Header_new =
     \<lparr>mhdr_Height = 0, mhdr_Timestamp = 0\<rparr>"

definition Mock_Header_Size :: "Mock_Header \<Rightarrow> nat" where
  "Mock_Header_Size m =
     size_uint (mhdr_Height m) + size_uint (mhdr_Timestamp m)"

definition Mock_Header_MarshalToSizedBuffer :: "Mock_Header \<Rightarrow> sized_writer" where
  "Mock_Header_MarshalToSizedBuffer m = to_sized_buffer
     [whenw (mhdr_Timestamp m \<noteq> 0) (put_uint 0x10 (mhdr_Timestamp m)),
      whenw (mhdr_Height m \<noteq> 0) (put_uint 0x8 (mhdr_Height m))]"

definition Mock_Header_Marshal :: "Mock_Header \<Rightarrow> pb_error + byte list" where
  "Mock_Header_Marshal m = marshal (Mock_Header_Size m) (Mock_Header_MarshalToSizedBuffer m)"

definition Mock_Header_MarshalTo :: "Mock_Header \<Rightarrow> sized_writer" where
  "Mock_Header_MarshalTo m = marshal_to (Mock_Header_Size m) (Mock_Header_MarshalToSizedBuffer m)"

definition Mock_Header_fields :: "int \<Rightarrow> Mock_Header field_case option" where
  "Mock_Header_fields fieldNum =
     (if fieldNum = 1 then Some (uint_case MockClient_proto ''Height'' (\<lambda>v m. m\<lparr>mhdr_Height := v\<rparr>))
      else if fieldNum = 2 then Some (uint_case MockClient_proto ''Timestamp'' (\<lambda>v m. m\<lparr>mhdr_Timestamp := v\<rparr>))
      else None)"

definition Mock_Header_Unmarshal :: "byte list \<Rightarrow> Mock_Header \<Rightarrow> pb_error + Mock_Header" where
  "Mock_Header_Unmarshal = unmarshal MockClient_proto ''Header'' Mock_Header_fields"

definition Mock_Header_enc :: "Mock_Header \<Rightarrow> byte list" where
  "Mock_Header_enc m =
     enc_uint 0x8 (mhdr_Height m) @ enc_uint 0x10 (mhdr_Timestamp m)"

interpretation mhdr: pb_reader MockClient_proto "''Header''" Mock_Header_fields
  by unfold_locales (auto simp: Mock_Header_fields_def split: if_splits)

lemma Mock_Header_fuel: "go_slice bs \<Longrightarrow> fuel_ok (Mock_Header_Unmarshal bs m)"
  unfolding Mock_Header_Unmarshal_def by (rule mhdr.unmarshal_terminates)

lemmas mhdr_reads =
  mhdr.parses_uint64 [of 1 "''Height''" "\<lambda>v m. m\<lparr>mhdr_Height := v\<rparr>" "0x8"]
  mhdr.parses_uint64 [of 2 "''Timestamp''" "\<lambda>v m. m\<lparr>mhdr_Timestamp := v\<rparr>" "0x10"]

lemma Mock_Header_parses:
  "parses MockClient_proto ''Header'' Mock_Header_fields (Mock_Header_enc m) Mock_Header_new m"
  unfolding Mock_Header_enc_def Mock_Header_new_def
  by (rule parses_eq, (rule parses_append mhdr_reads
      | simp add: Mock_Header_fields_def is_tag_def)+)

lemma Mock_Header_writes: "sized_writes (Mock_Header_MarshalToSizedBuffer m) (Mock_Header_enc m)"
  unfolding Mock_Header_MarshalToSizedBuffer_def
  by (rule to_sized_buffer_writes, (rule writes_intros)+, simp add: Mock_Header_enc_def)

interpretation mhdr_codec: pb_codec MockClient_proto "''Header''" Mock_Header_fields
    Mock_Header_enc Mock_Header_Size Mock_Header_MarshalToSizedBuffer Mock_Header_new
  by (unfold_locales, simp add: Mock_Header_Size_def Mock_Header_enc_def wire_simps,
      rule Mock_Header_writes, rule Mock_Header_parses)

lemma Mock_Header_Unmarshal_enc: "go_slice (Mock_Header_enc m) \<Longrightarrow> Mock_Header_Unmarshal (Mock_Header_enc m) Mock_Header_new = Inr m"
  unfolding Mock_Header_Unmarshal_def by (rule mhdr_codec.unmarshal_enc)

lemma Mock_Header_Marshal_enc: "Mock_Header_Marshal m = Inr (Mock_Header_enc m)"
  unfolding Mock_Header_Marshal_def by (rule mhdr_codec.marshal_enc)

subsection \<open>Properties\<close>

text \<open>
  Skipping an unknown field always makes progress: when \<^verbatim>\<open>skipMockClient\<close> succeeds it
  has consumed at least one byte, and it returns (no group nesting makes it loop).
\<close>

theorem skipMockClient_progress:
  assumes "length d < 2 ^ 63"
  shows "skipMockClient d \<noteq> Inl Out_of_fuel \<and> (case skipMockClient d of Inr n \<Rightarrow> 0 < n | Inl e \<Rightarrow> True)"
  using assms skip_field_progress [of d MockClient_proto]
  by (auto simp: skipMockClient_def go_slice_def split: sum.split)

lemma skipMockClient_progress_witness:
  "skipMockClient [11, 8, 1, 12, 99] = Inr 4 \<and> skipMockClient [11, 8, 1, 12, 99] \<noteq> Inl Out_of_fuel"
proof
  show "skipMockClient [11, 8, 1, 12, 99] = Inr 4" by code_simp
  show "skipMockClient [11, 8, 1, 12, 99] \<noteq> Inl Out_of_fuel"
    using skipMockClient_progress [of "[11, 8, 1, 12, 99]"] by simp
qed

end
