(* ===== verification/IBFT2_PB.thy ===== *)
theory IBFT2_PB
  imports Proto_Codec
begin

text \<open>
  \<^verbatim>\<open>pkg/ibc/client/ibft2/IBFT2.pb.go\<close>: the states and the header of the IBFT 2.0 light
  client.
\<close>

subsection \<open>The helpers of the file\<close>

definition sovIBFT2 :: "64 word \<Rightarrow> nat" where
  "sovIBFT2 = sov"

definition sozIBFT2 :: "64 word \<Rightarrow> nat" where
  "sozIBFT2 = soz"

definition encodeVarintIBFT2 :: "byte list \<Rightarrow> int \<Rightarrow> 64 word \<Rightarrow> pb_error + byte list \<times> int" where
  "encodeVarintIBFT2 = encodeVarint"

definition skipIBFT2 :: "byte list \<Rightarrow> pb_error + int" where
  "skipIBFT2 = skip_field IBFT2_proto"

subsection \<open>\<^verbatim>\<open>ClientState\<close>\<close>

record IBFT2_ClientState =
  bcs_ChainId :: string
  bcs_IbcStoreAddress :: "byte list"
  bcs_LatestHeight :: "64 word"

definition IBFT2_ClientState_new :: IBFT2_ClientState where
  "IBFT2_ClientState_new =
     \<lparr>bcs_ChainId = '''', bcs_IbcStoreAddress = [], bcs_LatestHeight = 0\<rparr>"

definition IBFT2_ClientState_Size :: "IBFT2_ClientState \<Rightarrow> nat" where
  "IBFT2_ClientState_Size m =
     size_bytes (length (bcs_ChainId m)) + size_bytes (length (bcs_IbcStoreAddress m)) +
     size_uint (bcs_LatestHeight m)"

definition IBFT2_ClientState_MarshalToSizedBuffer :: "IBFT2_ClientState \<Rightarrow> sized_writer" where
  "IBFT2_ClientState_MarshalToSizedBuffer m = to_sized_buffer
     [whenw (bcs_LatestHeight m \<noteq> 0) (put_uint 0x18 (bcs_LatestHeight m)),
      whenw (0 < length (bcs_IbcStoreAddress m)) (put_bytes 0x12 (bcs_IbcStoreAddress m)),
      whenw (0 < length (bcs_ChainId m)) (put_bytes 0xa (str_bytes (bcs_ChainId m)))]"

definition IBFT2_ClientState_Marshal :: "IBFT2_ClientState \<Rightarrow> pb_error + byte list" where
  "IBFT2_ClientState_Marshal m = marshal (IBFT2_ClientState_Size m) (IBFT2_ClientState_MarshalToSizedBuffer m)"

definition IBFT2_ClientState_MarshalTo :: "IBFT2_ClientState \<Rightarrow> sized_writer" where
  "IBFT2_ClientState_MarshalTo m = marshal_to (IBFT2_ClientState_Size m) (IBFT2_ClientState_MarshalToSizedBuffer m)"

definition IBFT2_ClientState_fields :: "int \<Rightarrow> IBFT2_ClientState field_case option" where
  "IBFT2_ClientState_fields fieldNum =
     (if fieldNum = 1 then Some (string_case IBFT2_proto ''ChainId'' (\<lambda>s m. m\<lparr>bcs_ChainId := s\<rparr>))
      else if fieldNum = 2 then Some (bytes_case IBFT2_proto ''IbcStoreAddress'' (\<lambda>b m. m\<lparr>bcs_IbcStoreAddress := b\<rparr>))
      else if fieldNum = 3 then Some (uint_case IBFT2_proto ''LatestHeight'' (\<lambda>v m. m\<lparr>bcs_LatestHeight := v\<rparr>))
      else None)"

definition IBFT2_ClientState_Unmarshal :: "byte list \<Rightarrow> IBFT2_ClientState \<Rightarrow> pb_error + IBFT2_ClientState" where
  "IBFT2_ClientState_Unmarshal = unmarshal IBFT2_proto ''ClientState'' IBFT2_ClientState_fields"

definition IBFT2_ClientState_enc :: "IBFT2_ClientState \<Rightarrow> byte list" where
  "IBFT2_ClientState_enc m =
     enc_bytes 0xa (str_bytes (bcs_ChainId m)) @ enc_bytes 0x12 (bcs_IbcStoreAddress m) @
     enc_uint 0x18 (bcs_LatestHeight m)"

interpretation bcs: pb_reader IBFT2_proto "''ClientState''" IBFT2_ClientState_fields
  by unfold_locales (auto simp: IBFT2_ClientState_fields_def split: if_splits)

lemma IBFT2_ClientState_fuel: "go_slice bs \<Longrightarrow> fuel_ok (IBFT2_ClientState_Unmarshal bs m)"
  unfolding IBFT2_ClientState_Unmarshal_def by (rule bcs.unmarshal_terminates)

lemmas bcs_reads =
  bcs.parses_string [of 1 "''ChainId''" "\<lambda>v m. m\<lparr>bcs_ChainId := v\<rparr>" "0xa"]
  bcs.parses_bytes [of 2 "''IbcStoreAddress''" "\<lambda>v m. m\<lparr>bcs_IbcStoreAddress := v\<rparr>" "0x12"]
  bcs.parses_uint64 [of 3 "''LatestHeight''" "\<lambda>v m. m\<lparr>bcs_LatestHeight := v\<rparr>" "0x18"]

lemma IBFT2_ClientState_parses:
  "parses IBFT2_proto ''ClientState'' IBFT2_ClientState_fields (IBFT2_ClientState_enc m) IBFT2_ClientState_new m"
  unfolding IBFT2_ClientState_enc_def IBFT2_ClientState_new_def
  by (rule parses_eq, (rule parses_append bcs_reads
      | simp add: IBFT2_ClientState_fields_def is_tag_def)+)

lemma IBFT2_ClientState_writes: "sized_writes (IBFT2_ClientState_MarshalToSizedBuffer m) (IBFT2_ClientState_enc m)"
  unfolding IBFT2_ClientState_MarshalToSizedBuffer_def
  by (rule to_sized_buffer_writes, (rule writes_intros)+, simp add: IBFT2_ClientState_enc_def)

interpretation bcs_codec: pb_codec IBFT2_proto "''ClientState''" IBFT2_ClientState_fields
    IBFT2_ClientState_enc IBFT2_ClientState_Size IBFT2_ClientState_MarshalToSizedBuffer IBFT2_ClientState_new
  by (unfold_locales, simp add: IBFT2_ClientState_Size_def IBFT2_ClientState_enc_def wire_simps,
      rule IBFT2_ClientState_writes, rule IBFT2_ClientState_parses)

lemma IBFT2_ClientState_Unmarshal_enc: "go_slice (IBFT2_ClientState_enc m) \<Longrightarrow> IBFT2_ClientState_Unmarshal (IBFT2_ClientState_enc m) IBFT2_ClientState_new = Inr m"
  unfolding IBFT2_ClientState_Unmarshal_def by (rule bcs_codec.unmarshal_enc)

lemma IBFT2_ClientState_Marshal_enc: "IBFT2_ClientState_Marshal m = Inr (IBFT2_ClientState_enc m)"
  unfolding IBFT2_ClientState_Marshal_def by (rule bcs_codec.marshal_enc)

subsection \<open>\<^verbatim>\<open>ConsensusState\<close>\<close>

record IBFT2_ConsensusState =
  bcons_Timestamp :: "64 word"
  bcons_Root :: "byte list"
  bcons_Validators :: "byte list list"

definition IBFT2_ConsensusState_new :: IBFT2_ConsensusState where
  "IBFT2_ConsensusState_new =
     \<lparr>bcons_Timestamp = 0, bcons_Root = [], bcons_Validators = []\<rparr>"

definition IBFT2_ConsensusState_Size :: "IBFT2_ConsensusState \<Rightarrow> nat" where
  "IBFT2_ConsensusState_Size m =
     size_uint (bcons_Timestamp m) + size_bytes (length (bcons_Root m)) +
     (\<Sum>b\<leftarrow>bcons_Validators m. size_bytes1 (length b))"

definition IBFT2_ConsensusState_MarshalToSizedBuffer :: "IBFT2_ConsensusState \<Rightarrow> sized_writer" where
  "IBFT2_ConsensusState_MarshalToSizedBuffer m = to_sized_buffer
     [whenw (0 < length (bcons_Validators m)) (put_each (\<lambda>b. put_bytes 0x1a b) (bcons_Validators m)),
      whenw (0 < length (bcons_Root m)) (put_bytes 0x12 (bcons_Root m)),
      whenw (bcons_Timestamp m \<noteq> 0) (put_uint 0x8 (bcons_Timestamp m))]"

definition IBFT2_ConsensusState_Marshal :: "IBFT2_ConsensusState \<Rightarrow> pb_error + byte list" where
  "IBFT2_ConsensusState_Marshal m = marshal (IBFT2_ConsensusState_Size m) (IBFT2_ConsensusState_MarshalToSizedBuffer m)"

definition IBFT2_ConsensusState_MarshalTo :: "IBFT2_ConsensusState \<Rightarrow> sized_writer" where
  "IBFT2_ConsensusState_MarshalTo m = marshal_to (IBFT2_ConsensusState_Size m) (IBFT2_ConsensusState_MarshalToSizedBuffer m)"

definition IBFT2_ConsensusState_fields :: "int \<Rightarrow> IBFT2_ConsensusState field_case option" where
  "IBFT2_ConsensusState_fields fieldNum =
     (if fieldNum = 1 then Some (uint_case IBFT2_proto ''Timestamp'' (\<lambda>v m. m\<lparr>bcons_Timestamp := v\<rparr>))
      else if fieldNum = 2 then Some (bytes_case IBFT2_proto ''Root'' (\<lambda>b m. m\<lparr>bcons_Root := b\<rparr>))
      else if fieldNum = 3 then Some (bytes_list_case IBFT2_proto ''Validators'' bcons_Validators (\<lambda>bs m. m\<lparr>bcons_Validators := bs\<rparr>))
      else None)"

definition IBFT2_ConsensusState_Unmarshal :: "byte list \<Rightarrow> IBFT2_ConsensusState \<Rightarrow> pb_error + IBFT2_ConsensusState" where
  "IBFT2_ConsensusState_Unmarshal = unmarshal IBFT2_proto ''ConsensusState'' IBFT2_ConsensusState_fields"

definition IBFT2_ConsensusState_enc :: "IBFT2_ConsensusState \<Rightarrow> byte list" where
  "IBFT2_ConsensusState_enc m =
     enc_uint 0x8 (bcons_Timestamp m) @ enc_bytes 0x12 (bcons_Root m) @
     enc_each 0x1a (bcons_Validators m)"

interpretation bcons: pb_reader IBFT2_proto "''ConsensusState''" IBFT2_ConsensusState_fields
  by unfold_locales (auto simp: IBFT2_ConsensusState_fields_def split: if_splits)

lemma IBFT2_ConsensusState_fuel: "go_slice bs \<Longrightarrow> fuel_ok (IBFT2_ConsensusState_Unmarshal bs m)"
  unfolding IBFT2_ConsensusState_Unmarshal_def by (rule bcons.unmarshal_terminates)

lemmas bcons_reads =
  bcons.parses_uint64 [of 1 "''Timestamp''" "\<lambda>v m. m\<lparr>bcons_Timestamp := v\<rparr>" "0x8"]
  bcons.parses_bytes [of 2 "''Root''" "\<lambda>v m. m\<lparr>bcons_Root := v\<rparr>" "0x12"]
  bcons.parses_bytes_list [of 3 "''Validators''" bcons_Validators "\<lambda>l m. m\<lparr>bcons_Validators := l\<rparr>" "0x1a"]

lemma IBFT2_ConsensusState_parses:
  "parses IBFT2_proto ''ConsensusState'' IBFT2_ConsensusState_fields (IBFT2_ConsensusState_enc m) IBFT2_ConsensusState_new m"
  unfolding IBFT2_ConsensusState_enc_def IBFT2_ConsensusState_new_def
  by (rule parses_eq, (rule parses_append bcons_reads
      | simp add: IBFT2_ConsensusState_fields_def is_tag_def)+)

lemma IBFT2_ConsensusState_writes: "sized_writes (IBFT2_ConsensusState_MarshalToSizedBuffer m) (IBFT2_ConsensusState_enc m)"
  unfolding IBFT2_ConsensusState_MarshalToSizedBuffer_def
  by (rule to_sized_buffer_writes, (rule writes_intros)+, simp add: IBFT2_ConsensusState_enc_def)

interpretation bcons_codec: pb_codec IBFT2_proto "''ConsensusState''" IBFT2_ConsensusState_fields
    IBFT2_ConsensusState_enc IBFT2_ConsensusState_Size IBFT2_ConsensusState_MarshalToSizedBuffer IBFT2_ConsensusState_new
  by (unfold_locales, simp add: IBFT2_ConsensusState_Size_def IBFT2_ConsensusState_enc_def wire_simps,
      rule IBFT2_ConsensusState_writes, rule IBFT2_ConsensusState_parses)

lemma IBFT2_ConsensusState_Unmarshal_enc: "go_slice (IBFT2_ConsensusState_enc m) \<Longrightarrow> IBFT2_ConsensusState_Unmarshal (IBFT2_ConsensusState_enc m) IBFT2_ConsensusState_new = Inr m"
  unfolding IBFT2_ConsensusState_Unmarshal_def by (rule bcons_codec.unmarshal_enc)

lemma IBFT2_ConsensusState_Marshal_enc: "IBFT2_ConsensusState_Marshal m = Inr (IBFT2_ConsensusState_enc m)"
  unfolding IBFT2_ConsensusState_Marshal_def by (rule bcons_codec.marshal_enc)

subsection \<open>\<^verbatim>\<open>Header\<close>\<close>

record IBFT2_Header =
  bhdr_BesuHeaderRlp :: "byte list"
  bhdr_Seals :: "byte list list"
  bhdr_TrustedHeight :: "64 word"
  bhdr_AccountStateProof :: "byte list"

definition IBFT2_Header_new :: IBFT2_Header where
  "IBFT2_Header_new =
     \<lparr>bhdr_BesuHeaderRlp = [], bhdr_Seals = [], bhdr_TrustedHeight = 0,
       bhdr_AccountStateProof = []\<rparr>"

definition IBFT2_Header_Size :: "IBFT2_Header \<Rightarrow> nat" where
  "IBFT2_Header_Size m =
     size_bytes (length (bhdr_BesuHeaderRlp m)) +
     (\<Sum>b\<leftarrow>bhdr_Seals m. size_bytes1 (length b)) +
     size_uint (bhdr_TrustedHeight m) + size_bytes (length (bhdr_AccountStateProof m))"

definition IBFT2_Header_MarshalToSizedBuffer :: "IBFT2_Header \<Rightarrow> sized_writer" where
  "IBFT2_Header_MarshalToSizedBuffer m = to_sized_buffer
     [whenw (0 < length (bhdr_AccountStateProof m)) (put_bytes 0x22 (bhdr_AccountStateProof m)),
      whenw (bhdr_TrustedHeight m \<noteq> 0) (put_uint 0x18 (bhdr_TrustedHeight m)),
      whenw (0 < length (bhdr_Seals m)) (put_each (\<lambda>b. put_bytes 0x12 b) (bhdr_Seals m)),
      whenw (0 < length (bhdr_BesuHeaderRlp m)) (put_bytes 0xa (bhdr_BesuHeaderRlp m))]"

definition IBFT2_Header_Marshal :: "IBFT2_Header \<Rightarrow> pb_error + byte list" where
  "IBFT2_Header_Marshal m = marshal (IBFT2_Header_Size m) (IBFT2_Header_MarshalToSizedBuffer m)"

definition IBFT2_Header_MarshalTo :: "IBFT2_Header \<Rightarrow> sized_writer" where
  "IBFT2_Header_MarshalTo m = marshal_to (IBFT2_Header_Size m) (IBFT2_Header_MarshalToSizedBuffer m)"

definition IBFT2_Header_case_BesuHeaderRlp :: "IBFT2_Header field_case" where
  "IBFT2_Header_case_BesuHeaderRlp = bytes_case IBFT2_proto ''BesuHeaderRlp'' (\<lambda>b m. m\<lparr>bhdr_BesuHeaderRlp := b\<rparr>)"

definition IBFT2_Header_case_Seals :: "IBFT2_Header field_case" where
  "IBFT2_Header_case_Seals = bytes_list_case IBFT2_proto ''Seals'' bhdr_Seals (\<lambda>bs m. m\<lparr>bhdr_Seals := bs\<rparr>)"

definition IBFT2_Header_case_TrustedHeight :: "IBFT2_Header field_case" where
  "IBFT2_Header_case_TrustedHeight = uint_case IBFT2_proto ''TrustedHeight'' (\<lambda>v m. m\<lparr>bhdr_TrustedHeight := v\<rparr>)"

definition IBFT2_Header_case_AccountStateProof :: "IBFT2_Header field_case" where
  "IBFT2_Header_case_AccountStateProof = bytes_case IBFT2_proto ''AccountStateProof'' (\<lambda>b m. m\<lparr>bhdr_AccountStateProof := b\<rparr>)"

definition IBFT2_Header_fields :: "int \<Rightarrow> IBFT2_Header field_case option" where
  "IBFT2_Header_fields fieldNum =
     (if fieldNum = 1 then Some IBFT2_Header_case_BesuHeaderRlp
      else if fieldNum = 2 then Some IBFT2_Header_case_Seals
      else if fieldNum = 3 then Some IBFT2_Header_case_TrustedHeight
      else if fieldNum = 4 then Some IBFT2_Header_case_AccountStateProof
      else None)"

definition IBFT2_Header_Unmarshal :: "byte list \<Rightarrow> IBFT2_Header \<Rightarrow> pb_error + IBFT2_Header" where
  "IBFT2_Header_Unmarshal = unmarshal IBFT2_proto ''Header'' IBFT2_Header_fields"

definition IBFT2_Header_enc :: "IBFT2_Header \<Rightarrow> byte list" where
  "IBFT2_Header_enc m =
     enc_bytes 0xa (bhdr_BesuHeaderRlp m) @ enc_each 0x12 (bhdr_Seals m) @
     enc_uint 0x18 (bhdr_TrustedHeight m) @ enc_bytes 0x22 (bhdr_AccountStateProof m)"

lemmas IBFT2_Header_switch = IBFT2_Header_fields_def
  IBFT2_Header_case_BesuHeaderRlp_def IBFT2_Header_case_Seals_def
  IBFT2_Header_case_TrustedHeight_def IBFT2_Header_case_AccountStateProof_def

interpretation bhdr: pb_reader IBFT2_proto "''Header''" IBFT2_Header_fields
  by unfold_locales (auto simp: IBFT2_Header_switch split: if_splits)

lemma IBFT2_Header_fuel: "go_slice bs \<Longrightarrow> fuel_ok (IBFT2_Header_Unmarshal bs m)"
  unfolding IBFT2_Header_Unmarshal_def by (rule bhdr.unmarshal_terminates)

lemmas bhdr_reads =
  bhdr.parses_bytes [of 1 "''BesuHeaderRlp''" "\<lambda>v m. m\<lparr>bhdr_BesuHeaderRlp := v\<rparr>" "0xa"]
  bhdr.parses_bytes_list [of 2 "''Seals''" bhdr_Seals "\<lambda>l m. m\<lparr>bhdr_Seals := l\<rparr>" "0x12"]
  bhdr.parses_uint64 [of 3 "''TrustedHeight''" "\<lambda>v m. m\<lparr>bhdr_TrustedHeight := v\<rparr>" "0x18"]
  bhdr.parses_bytes [of 4 "''AccountStateProof''" "\<lambda>v m. m\<lparr>bhdr_AccountStateProof := v\<rparr>" "0x22"]

lemma IBFT2_Header_parses:
  "parses IBFT2_proto ''Header'' IBFT2_Header_fields (IBFT2_Header_enc m) IBFT2_Header_new m"
  unfolding IBFT2_Header_enc_def IBFT2_Header_new_def
  by (rule parses_eq, (rule parses_append bhdr_reads
      | simp add: IBFT2_Header_switch is_tag_def)+)

lemma IBFT2_Header_writes: "sized_writes (IBFT2_Header_MarshalToSizedBuffer m) (IBFT2_Header_enc m)"
  unfolding IBFT2_Header_MarshalToSizedBuffer_def
  by (rule to_sized_buffer_writes, (rule writes_intros)+, simp add: IBFT2_Header_enc_def)

interpretation bhdr_codec: pb_codec IBFT2_proto "''Header''" IBFT2_Header_fields
    IBFT2_Header_enc IBFT2_Header_Size IBFT2_Header_MarshalToSizedBuffer IBFT2_Header_new
  by (unfold_locales, simp add: IBFT2_Header_Size_def IBFT2_Header_enc_def wire_simps,
      rule IBFT2_Header_writes, rule IBFT2_Header_parses)

lemma IBFT2_Header_Unmarshal_enc: "go_slice (IBFT2_Header_enc m) \<Longrightarrow> IBFT2_Header_Unmarshal (IBFT2_Header_enc m) IBFT2_Header_new = Inr m"
  unfolding IBFT2_Header_Unmarshal_def by (rule bhdr_codec.unmarshal_enc)

lemma IBFT2_Header_Marshal_enc: "IBFT2_Header_Marshal m = Inr (IBFT2_Header_enc m)"
  unfolding IBFT2_Header_Marshal_def by (rule bhdr_codec.marshal_enc)

subsection \<open>Properties\<close>

text \<open>
  Unmarshalling inverts marshalling for the IBFT 2.0 header a relayer submits, with its
  list of commit seals (empty seals and their order included).
\<close>

theorem IBFT2_Header_roundtrip:
  assumes "IBFT2_Header_Size h < 2 ^ 63"
  shows "bindr (IBFT2_Header_Marshal h) (\<lambda>bs. IBFT2_Header_Unmarshal bs IBFT2_Header_new) = Inr h"
  unfolding IBFT2_Header_Marshal_def IBFT2_Header_Unmarshal_def by (rule bhdr_codec.roundtrip) fact

lemma IBFT2_Header_roundtrip_witness:
  "bindr (IBFT2_Header_Marshal (IBFT2_Header_new\<lparr>bhdr_Seals := [[1], [], [2, 3]]\<rparr>))
     (\<lambda>bs. IBFT2_Header_Unmarshal bs IBFT2_Header_new) =
   Inr (IBFT2_Header_new\<lparr>bhdr_Seals := [[1], [], [2, 3]]\<rparr>)"
  by (rule IBFT2_Header_roundtrip) (simp add: IBFT2_Header_Size_def IBFT2_Header_new_def size_eval)

end
