(* ===== verification/Client_Messages.thy ===== *)
theory Client_Messages
  imports Testing_Types MockClient_PB IBFT2_PB
begin

text \<open>
  The client messages that cross the chains inside an \<^verbatim>\<open>Any\<close>: the registered types of
  \<^verbatim>\<open>MockClient.pb.go\<close> and \<^verbatim>\<open>IBFT2.pb.go\<close> (their \<^verbatim>\<open>init\<close> functions), each an instance of the
  interface \<open>message\<close>.
\<close>

definition Mock_ClientState_type :: "Mock_ClientState message_type" where
  "Mock_ClientState_type = \<lparr>mt_Name = ''ibc.lightclients.mock.v1.ClientState'',
     mt_Marshal = Mock_ClientState_Marshal, mt_Unmarshal = (\<lambda>bs. Mock_ClientState_Unmarshal bs Mock_ClientState_new)\<rparr>"

definition Mock_ConsensusState_type :: "Mock_ConsensusState message_type" where
  "Mock_ConsensusState_type = \<lparr>mt_Name = ''ibc.lightclients.mock.v1.ConsensusState'',
     mt_Marshal = Mock_ConsensusState_Marshal,
     mt_Unmarshal = (\<lambda>bs. Mock_ConsensusState_Unmarshal bs Mock_ConsensusState_new)\<rparr>"

definition Mock_Header_type :: "Mock_Header message_type" where
  "Mock_Header_type = \<lparr>mt_Name = ''ibc.lightclients.mock.v1.Header'',
     mt_Marshal = Mock_Header_Marshal, mt_Unmarshal = (\<lambda>bs. Mock_Header_Unmarshal bs Mock_Header_new)\<rparr>"

definition IBFT2_ClientState_type :: "IBFT2_ClientState message_type" where
  "IBFT2_ClientState_type = \<lparr>mt_Name = ''ibc.lightclients.ibft2.v1.ClientState'',
     mt_Marshal = IBFT2_ClientState_Marshal,
     mt_Unmarshal = (\<lambda>bs. IBFT2_ClientState_Unmarshal bs IBFT2_ClientState_new)\<rparr>"

definition IBFT2_ConsensusState_type :: "IBFT2_ConsensusState message_type" where
  "IBFT2_ConsensusState_type = \<lparr>mt_Name = ''ibc.lightclients.ibft2.v1.ConsensusState'',
     mt_Marshal = IBFT2_ConsensusState_Marshal,
     mt_Unmarshal = (\<lambda>bs. IBFT2_ConsensusState_Unmarshal bs IBFT2_ConsensusState_new)\<rparr>"

definition IBFT2_Header_type :: "IBFT2_Header message_type" where
  "IBFT2_Header_type = \<lparr>mt_Name = ''ibc.lightclients.ibft2.v1.Header'',
     mt_Marshal = IBFT2_Header_Marshal, mt_Unmarshal = (\<lambda>bs. IBFT2_Header_Unmarshal bs IBFT2_Header_new)\<rparr>"

subsection \<open>Instances of the interface\<close>

interpretation mock_client_state: message Mock_ClientState_type
  by unfold_locales
    (simp add: codec_ok_def Mock_ClientState_type_def Mock_ClientState_Marshal_enc Mock_ClientState_Unmarshal_enc)

interpretation mock_consensus_state: message Mock_ConsensusState_type
  by unfold_locales
    (simp add: codec_ok_def Mock_ConsensusState_type_def Mock_ConsensusState_Marshal_enc
      Mock_ConsensusState_Unmarshal_enc)

interpretation mock_header: message Mock_Header_type
  by unfold_locales
    (simp add: codec_ok_def Mock_Header_type_def Mock_Header_Marshal_enc Mock_Header_Unmarshal_enc)

interpretation ibft2_client_state: message IBFT2_ClientState_type
  by unfold_locales
    (simp add: codec_ok_def IBFT2_ClientState_type_def IBFT2_ClientState_Marshal_enc
      IBFT2_ClientState_Unmarshal_enc)

interpretation ibft2_consensus_state: message IBFT2_ConsensusState_type
  by unfold_locales
    (simp add: codec_ok_def IBFT2_ConsensusState_type_def IBFT2_ConsensusState_Marshal_enc
      IBFT2_ConsensusState_Unmarshal_enc)

interpretation ibft2_header: message IBFT2_Header_type
  by unfold_locales
    (simp add: codec_ok_def IBFT2_Header_type_def IBFT2_Header_Marshal_enc IBFT2_Header_Unmarshal_enc)

text \<open>The mock messages are small whatever they hold.\<close>

lemma Mock_ClientState_small: "length (Mock_ClientState_enc m) \<le> 11"
  using sov_le_10 [of "mcs_LatestHeight m"] by (simp add: Mock_ClientState_enc_def enc_uint_def)

subsection \<open>A wire format for \<^verbatim>\<open>Any\<close>\<close>

text \<open>
  The documented encoding of \<^verbatim>\<open>google.protobuf.Any\<close> (type URL in field 1, value in field 2),
  an instance of the parameter \<open>any_lib\<close> for the witnesses.
\<close>

definition Any_fields :: "int \<Rightarrow> Any field_case option" where
  "Any_fields fieldNum =
     (if fieldNum = 1 then Some (string_case App_proto ''TypeUrl'' (\<lambda>s m. m\<lparr>any_TypeUrl := s\<rparr>))
      else if fieldNum = 2 then Some (bytes_case App_proto ''Value'' (\<lambda>b m. m\<lparr>any_Value := b\<rparr>))
      else None)"

definition Any_enc :: "Any \<Rightarrow> byte list" where
  "Any_enc m = enc_bytes 0xa (str_bytes (any_TypeUrl m)) @ enc_bytes 0x12 (any_Value m)"

definition Any_new :: Any where
  "Any_new = \<lparr>any_TypeUrl = [], any_Value = []\<rparr>"

definition google_any :: any_lib where
  "google_any = \<lparr>mt_Name = ''google.protobuf.Any'', mt_Marshal = (\<lambda>m. Inr (Any_enc m)),
     mt_Unmarshal = (\<lambda>bs. unmarshal App_proto ''Any'' Any_fields bs Any_new)\<rparr>"

interpretation any_reader: pb_reader App_proto "''Any''" Any_fields
  by unfold_locales (auto simp: Any_fields_def split: if_splits)

lemmas any_reads =
  any_reader.parses_string [of 1 "''TypeUrl''" "\<lambda>s m. m\<lparr>any_TypeUrl := s\<rparr>" "0xa"]
  any_reader.parses_bytes [of 2 "''Value''" "\<lambda>b m. m\<lparr>any_Value := b\<rparr>" "0x12"]

lemma Any_parses: "parses App_proto ''Any'' Any_fields (Any_enc m) Any_new m"
  unfolding Any_enc_def Any_new_def
  by (rule parses_eq, (rule parses_append any_reads | simp add: Any_fields_def is_tag_def)+)

interpretation google_any: message google_any
  by unfold_locales (simp add: codec_ok_def google_any_def parses_unmarshal [OF Any_parses])

subsection \<open>Properties\<close>

text \<open>
  A mock client state survives the trip through \<^verbatim>\<open>MarshalWithAny\<close> and
  \<^verbatim>\<open>UnmarshalWithAny\<close>, for every \<^verbatim>\<open>Any\<close> codec that inverts its own encoding.
\<close>

theorem Mock_ClientState_WithAny:
  assumes "codec_ok lib" and "MarshalWithAny lib Mock_ClientState_type m = Inr bz" and "length bz < 2 ^ 63"
  shows "UnmarshalWithAny lib Mock_ClientState_type bz = Inr m"
proof -
  have "mt_Marshal Mock_ClientState_type m = Inr (Mock_ClientState_enc m)"
    by (simp add: Mock_ClientState_type_def Mock_ClientState_Marshal_enc)
  moreover have "go_slice (Mock_ClientState_enc m)"
    using Mock_ClientState_small [of m] by (simp add: go_slice_def)
  ultimately show ?thesis
    using assms(3) by (intro mock_client_state.UnmarshalWithAny_MarshalWithAny [OF assms(1,2)])
      (simp_all add: go_slice_def)
qed

lemma Mock_ClientState_WithAny_witness:
  "\<exists>bz. MarshalWithAny google_any Mock_ClientState_type \<lparr>mcs_LatestHeight = 5\<rparr> = Inr bz \<and>
     UnmarshalWithAny google_any Mock_ClientState_type bz = Inr \<lparr>mcs_LatestHeight = 5\<rparr>"
proof -
  let ?a = "\<lparr>any_TypeUrl = ''/ibc.lightclients.mock.v1.ClientState'', any_Value = [8, 5]\<rparr>"
  have m: "MarshalWithAny google_any Mock_ClientState_type \<lparr>mcs_LatestHeight = 5\<rparr> = Inr (Any_enc ?a)"
    by (simp add: MarshalWithAny_def PackAny_def proto_call_def google_any_def Mock_ClientState_type_def
        Mock_ClientState_Marshal_enc Mock_ClientState_enc_def enc_uint_def varint_bytes.simps)
  have "length (Any_enc ?a) < 2 ^ 63" by (simp add: Any_enc_def wire_simps size_eval)
  from Mock_ClientState_WithAny [OF google_any.codec m this] m show ?thesis by blast
qed

text \<open>
  Client states are never confused across client types: what was packed as a mock client
  state is refused by \<^verbatim>\<open>GetIBFT2ClientState\<close>'s \<^verbatim>\<open>UnmarshalWithAny\<close>, with an error naming both types.
\<close>

theorem Mock_ClientState_not_IBFT2:
  assumes "codec_ok lib" and "MarshalWithAny lib Mock_ClientState_type m = Inr bz" and "length bz < 2 ^ 63"
  shows "UnmarshalWithAny lib IBFT2_ClientState_type bz =
    Inl (Err_expected_type ''/ibc.lightclients.ibft2.v1.ClientState'' ''/ibc.lightclients.mock.v1.ClientState'')"
  using mock_client_state.UnmarshalWithAny_other [OF assms(1,2), of IBFT2_ClientState_type] assms(3)
  by (simp add: go_slice_def Mock_ClientState_type_def IBFT2_ClientState_type_def)

lemma Mock_ClientState_not_IBFT2_witness:
  "\<exists>bz. MarshalWithAny google_any Mock_ClientState_type Mock_ClientState_new = Inr bz \<and>
     (\<forall>cs. UnmarshalWithAny google_any IBFT2_ClientState_type bz \<noteq> Inr cs)"
proof -
  let ?a = "\<lparr>any_TypeUrl = ''/ibc.lightclients.mock.v1.ClientState'', any_Value = []\<rparr>"
  have m: "MarshalWithAny google_any Mock_ClientState_type Mock_ClientState_new = Inr (Any_enc ?a)"
    by (simp add: MarshalWithAny_def PackAny_def proto_call_def google_any_def Mock_ClientState_type_def
        Mock_ClientState_Marshal_enc Mock_ClientState_enc_def Mock_ClientState_new_def enc_uint_def)
  have "length (Any_enc ?a) < 2 ^ 63" by (simp add: Any_enc_def wire_simps size_eval)
  from Mock_ClientState_not_IBFT2 [OF google_any.codec m this] m show ?thesis by simp
qed

end
