(* ===== verification/Sol_Decode.thy ===== *)
theory Sol_Decode
  imports Sol_Proto Sol_Base App_PB Client_Messages
begin

text \<open>
  The protobuf decoders of the contracts: the reading half of \<^verbatim>\<open>ProtoBufRuntime.sol\<close> and the
  libraries \<^verbatim>\<open>App.sol\<close>, \<^verbatim>\<open>GoogleProtobufAny.sol\<close> and \<^verbatim>\<open>MockClient.sol\<close> under
  \<^verbatim>\<open>contracts/core/types\<close>, with their encoders. The structs have the fields of the Go messages
  of the same name, so the records are those of the Go codecs.

  A position counts from the first byte of the array (the source adds the 32 bytes of the
  length word). The counters that every \<^verbatim>\<open>_read_\<close> function keeps are of no effect and left out:
  the struct it fills is never nil.
\<close>

subsection \<open>\<^verbatim>\<open>ProtoBufRuntime\<close>\<close>

text \<open>
  \<^verbatim>\<open>_decode_varint\<close> has no limit on the number of bytes; bits from the 256th on are lost. The two
  nested loops of the source (over 32-byte words and their bytes) read byte after byte.
\<close>

function sol_varint_loop :: "byte list \<Rightarrow> nat \<Rightarrow> 256 word \<Rightarrow> nat \<Rightarrow> sol_error + 256 word \<times> nat" where
  "sol_varint_loop bs p x sz =
     (if length bs \<le> p then Inl (Revert ''length overflow'')
      else let b = bs ! p; x = x OR push_bit (7 * sz) (ucast (b AND 127))
           in if b AND 128 = 128 then sol_varint_loop bs (Suc p) x (Suc sz) else Inr (x, Suc sz))"
  by pat_completeness auto
termination by (relation "measure (\<lambda>(bs, p, x, sz). length bs - p)") auto

declare sol_varint_loop.simps [simp del]

definition sol_decode_varint :: "nat \<Rightarrow> byte list \<Rightarrow> sol_error + 256 word \<times> nat" where
  "sol_decode_varint p bs = sol_varint_loop bs p 0 0"

text \<open>The wire types are an enum of six; a conversion from 6 or 7 fails.\<close>

definition sol_decode_key :: "nat \<Rightarrow> byte list \<Rightarrow> sol_error + nat \<times> nat \<times> nat" where
  "sol_decode_key p bs =
     bindr (sol_decode_varint p bs) (\<lambda>(x, n).
       if 6 \<le> unat x mod 8 then Inl Invalid else Inr (unat x div 8, unat x mod 8, n))"

definition sol_decode_uint64 :: "nat \<Rightarrow> byte list \<Rightarrow> sol_error + 64 word \<times> nat" where
  "sol_decode_uint64 p bs = bindr (sol_decode_varint p bs) (\<lambda>(varint, sz). Inr (ucast varint, sz))"

text \<open>
  A length that exceeds the rest of the array fails: on the assertion, or, when it is huge, for
  want of gas in the allocation before it.
\<close>

definition sol_decode_lendelim :: "nat \<Rightarrow> byte list \<Rightarrow> sol_error + byte list \<times> nat" where
  "sol_decode_lendelim p bs =
     bindr (sol_decode_varint p bs) (\<lambda>(len, sz).
       if length bs < p + sz + unat len then Inl Invalid
       else Inr (take (unat len) (drop (p + sz) bs), sz + unat len))"

definition sol_decode_string :: "nat \<Rightarrow> byte list \<Rightarrow> sol_error + string \<times> nat" where
  "sol_decode_string p bs = bindr (sol_decode_lendelim p bs) (\<lambda>(x, sz). Inr (bytes_str x, sz))"

text \<open>\<^verbatim>\<open>_decode_fixed32\<close> and \<^verbatim>\<open>_decode_fixed64\<close> are only used to skip; what they read is dropped.\<close>

definition sol_skip_fixed :: "nat \<Rightarrow> nat \<Rightarrow> byte list \<Rightarrow> sol_error + nat" where
  "sol_skip_fixed sz p bs = (if length bs < p + sz then Inl Invalid else Inr sz)"

subsection \<open>The main loop of every library\<close>

text \<open>
  \<open>table\<close> is the chain of tests on the field number in \<^verbatim>\<open>_decode\<close>: the reader of a known field,
  which does not look at the wire type. An unknown field is skipped by its wire type; a group
  marker (3, 4) is skipped without its contents.
\<close>

type_synonym 'r sol_reader = "nat \<Rightarrow> byte list \<Rightarrow> 'r \<Rightarrow> sol_error + 'r \<times> nat"

definition sol_skip_unknown :: "nat \<Rightarrow> 'r sol_reader" where
  "sol_skip_unknown wireType p bs r =
     (if wireType = 1 then bindr (sol_skip_fixed 8 p bs) (\<lambda>sz. Inr (r, sz))
      else if wireType = 5 then bindr (sol_skip_fixed 4 p bs) (\<lambda>sz. Inr (r, sz))
      else if wireType = 0 then bindr (sol_decode_varint p bs) (\<lambda>(_, sz). Inr (r, sz))
      else if wireType = 2 then bindr (sol_decode_lendelim p bs) (\<lambda>(_, sz). Inr (r, sz))
      else Inr (r, 0))"

lemma sol_varint_loop_progress: "sol_varint_loop bs p x sz = Inr (y, n) \<Longrightarrow> sz < n"
proof (induction bs p x sz rule: sol_varint_loop.induct)
  case (1 bs p x sz)
  note r = "1.prems" [unfolded sol_varint_loop.simps [of bs p x sz] Let_def]
  show ?case
  proof (cases "bs ! p AND 128 = 128")
    case True
    with r have "p < length bs" "sol_varint_loop bs (Suc p) (x OR push_bit (7 * sz) (ucast (bs ! p AND 127))) (Suc sz) = Inr (y, n)"
      by (auto split: if_splits)
    with "1.IH" [OF _ refl refl True] show ?thesis by simp
  qed (use r in \<open>auto split: if_splits\<close>)
qed

lemma sol_decode_key_progress: "sol_decode_key p bs = Inr (f, wt, n) \<Longrightarrow> 0 < n"
  by (auto simp: sol_decode_key_def sol_decode_varint_def result_simps split: if_splits
      dest: sol_varint_loop_progress)

function sol_decode_loop :: "(nat \<Rightarrow> 'r sol_reader option) \<Rightarrow> byte list \<Rightarrow> nat \<Rightarrow> 'r \<Rightarrow> sol_error + 'r" where
  "sol_decode_loop table bs pointer r =
     (if pointer < length bs then
        (case sol_decode_key pointer bs of
           Inl e \<Rightarrow> Inl e
         | Inr (fieldId, wireType, bytesRead) \<Rightarrow>
             (case (case table fieldId of Some read \<Rightarrow> read | None \<Rightarrow> sol_skip_unknown wireType)
                     (pointer + bytesRead) bs r of
                Inl e \<Rightarrow> Inl e
              | Inr (r, sz) \<Rightarrow> sol_decode_loop table bs (pointer + bytesRead + sz) r))
      else Inr r)"
  by pat_completeness auto
termination
  by (relation "measure (\<lambda>(table, bs, pointer, r). length bs - pointer)") (auto dest: sol_decode_key_progress)

declare sol_decode_loop.simps [simp del]

definition sol_decode :: "(nat \<Rightarrow> 'r sol_reader option) \<Rightarrow> 'r \<Rightarrow> byte list \<Rightarrow> sol_error + 'r" where
  "sol_decode table zero bs = sol_decode_loop table bs 0 zero"

definition sol_read_string :: "(string \<Rightarrow> 'r \<Rightarrow> 'r) \<Rightarrow> 'r sol_reader" where
  "sol_read_string upd p bs r = bindr (sol_decode_string p bs) (\<lambda>(x, sz). Inr (upd x r, sz))"

definition sol_read_bytes :: "(byte list \<Rightarrow> 'r \<Rightarrow> 'r) \<Rightarrow> 'r sol_reader" where
  "sol_read_bytes upd p bs r = bindr (sol_decode_lendelim p bs) (\<lambda>(x, sz). Inr (upd x r, sz))"

definition sol_read_uint64 :: "(64 word \<Rightarrow> 'r \<Rightarrow> 'r) \<Rightarrow> 'r sol_reader" where
  "sol_read_uint64 upd p bs r = bindr (sol_decode_uint64 p bs) (\<lambda>(x, sz). Inr (upd x r, sz))"

subsection \<open>The libraries\<close>

definition ftpd_sol_fields :: "nat \<Rightarrow> FungibleTokenPacketData sol_reader option" where
  "ftpd_sol_fields fieldId =
     (if fieldId = 1 then Some (sol_read_string (\<lambda>x r. r\<lparr>ftpd_Denom := x\<rparr>))
      else if fieldId = 2 then Some (sol_read_uint64 (\<lambda>x r. r\<lparr>ftpd_Amount := x\<rparr>))
      else if fieldId = 3 then Some (sol_read_bytes (\<lambda>x r. r\<lparr>ftpd_Sender := x\<rparr>))
      else if fieldId = 4 then Some (sol_read_bytes (\<lambda>x r. r\<lparr>ftpd_Receiver := x\<rparr>))
      else None)"

definition ftpd_sol_decode :: "byte list \<Rightarrow> sol_error + FungibleTokenPacketData" where
  "ftpd_sol_decode bs = sol_decode ftpd_sol_fields FungibleTokenPacketData_new bs"

definition ftpd_sol_encode :: "FungibleTokenPacketData \<Rightarrow> byte list" where
  "ftpd_sol_encode r =
     (if length (ftpd_Denom r) \<noteq> 0 then sol_encode_key 1 2 @ sol_encode_string (ftpd_Denom r) else []) @
     (if ftpd_Amount r \<noteq> 0 then sol_encode_key 2 0 @ sol_encode_uint64 (ftpd_Amount r) else []) @
     (if length (ftpd_Sender r) \<noteq> 0 then sol_encode_key 3 2 @ sol_encode_bytes (ftpd_Sender r) else []) @
     (if length (ftpd_Receiver r) \<noteq> 0 then sol_encode_key 4 2 @ sol_encode_bytes (ftpd_Receiver r) else [])"

definition any_sol_fields :: "nat \<Rightarrow> Any sol_reader option" where
  "any_sol_fields fieldId =
     (if fieldId = 1 then Some (sol_read_string (\<lambda>x r. r\<lparr>any_TypeUrl := x\<rparr>))
      else if fieldId = 2 then Some (sol_read_bytes (\<lambda>x r. r\<lparr>any_Value := x\<rparr>))
      else None)"

definition any_sol_decode :: "byte list \<Rightarrow> sol_error + Any" where
  "any_sol_decode bs = sol_decode any_sol_fields \<lparr>any_TypeUrl = [], any_Value = []\<rparr> bs"

text \<open>Both fields are written even when they are empty.\<close>

definition any_sol_encode :: "Any \<Rightarrow> byte list" where
  "any_sol_encode r =
     sol_encode_key 1 2 @ sol_encode_string (any_TypeUrl r) @ sol_encode_key 2 2 @ sol_encode_bytes (any_Value r)"

definition mock_cs_sol_fields :: "nat \<Rightarrow> Mock_ClientState sol_reader option" where
  "mock_cs_sol_fields fieldId =
     (if fieldId = 1 then Some (sol_read_uint64 (\<lambda>x r. r\<lparr>mcs_LatestHeight := x\<rparr>)) else None)"

definition mock_cs_sol_decode :: "byte list \<Rightarrow> sol_error + Mock_ClientState" where
  "mock_cs_sol_decode bs = sol_decode mock_cs_sol_fields Mock_ClientState_new bs"

definition mock_cs_sol_encode :: "Mock_ClientState \<Rightarrow> byte list" where
  "mock_cs_sol_encode r =
     (if mcs_LatestHeight r \<noteq> 0 then sol_encode_key 1 0 @ sol_encode_uint64 (mcs_LatestHeight r) else [])"

definition mock_cons_sol_fields :: "nat \<Rightarrow> Mock_ConsensusState sol_reader option" where
  "mock_cons_sol_fields fieldId =
     (if fieldId = 1 then Some (sol_read_uint64 (\<lambda>x r. r\<lparr>mcons_Timestamp := x\<rparr>)) else None)"

definition mock_cons_sol_decode :: "byte list \<Rightarrow> sol_error + Mock_ConsensusState" where
  "mock_cons_sol_decode bs = sol_decode mock_cons_sol_fields Mock_ConsensusState_new bs"

definition mock_cons_sol_encode :: "Mock_ConsensusState \<Rightarrow> byte list" where
  "mock_cons_sol_encode r =
     (if mcons_Timestamp r \<noteq> 0 then sol_encode_key 1 0 @ sol_encode_uint64 (mcons_Timestamp r) else [])"

definition mock_header_sol_fields :: "nat \<Rightarrow> Mock_Header sol_reader option" where
  "mock_header_sol_fields fieldId =
     (if fieldId = 1 then Some (sol_read_uint64 (\<lambda>x r. r\<lparr>mhdr_Height := x\<rparr>))
      else if fieldId = 2 then Some (sol_read_uint64 (\<lambda>x r. r\<lparr>mhdr_Timestamp := x\<rparr>))
      else None)"

definition mock_header_sol_decode :: "byte list \<Rightarrow> sol_error + Mock_Header" where
  "mock_header_sol_decode bs = sol_decode mock_header_sol_fields Mock_Header_new bs"

subsection \<open>Reading what was written\<close>

lemma sol_continuation: "(ucast (v AND 127 OR 128 :: 64 word) :: byte) AND 128 = 128"
  by (rule bit_word_eqI) (auto simp: bit_and_iff bit_or_iff bit_unsigned_iff bit_128)

lemma sol_last: "(v :: 64 word) < 128 \<Longrightarrow> (ucast v :: byte) AND 128 \<noteq> 128"
proof
  assume v: "v < 128" and e: "(ucast v :: byte) AND 128 = 128"
  have "bit ((ucast v :: byte) AND 128) 7" unfolding e by (simp add: bit_128)
  then have "bit v 7" by (simp add: bit_and_iff bit_unsigned_iff)
  then have "bit (take_bit 7 v) 7" by (simp only: take_bit_7_eq [OF v])
  then show False by (simp add: bit_take_bit_iff)
qed

lemma sol_varint_at:
  "at bs p (varint_bytes v @ rest) \<Longrightarrow>
   sol_varint_loop bs p x sz = Inr (x OR push_bit (7 * sz) (ucast v), sz + sov v)"
proof (induction v arbitrary: p x sz rule: varint_bytes.induct)
  case (1 v)
  show ?case
  proof (cases "128 \<le> v")
    case True
    let ?b = "ucast (v AND 127 OR 128) :: byte"
    have a: "at bs p (?b # varint_bytes (drop_bit 7 v) @ rest)"
      using "1.prems" True by (subst (asm) varint_bytes.simps) simp
    have "sol_varint_loop bs p x sz =
        sol_varint_loop bs (Suc p) (x OR push_bit (7 * sz) (ucast (?b AND 127))) (Suc sz)"
      using at_nth [OF a] by (subst sol_varint_loop.simps) (simp add: Let_def sol_continuation)
    also have "\<dots> = Inr ((x OR push_bit (7 * sz) (ucast (?b AND 127))) OR push_bit (7 * Suc sz) (ucast (drop_bit 7 v)),
        Suc sz + sov (drop_bit 7 v))"
      by (rule "1.IH" [OF True at_ConsD [OF a]])
    also have "(x OR push_bit (7 * sz) (ucast (?b AND 127))) OR push_bit (7 * Suc sz) (ucast (drop_bit 7 v)) =
        x OR push_bit (7 * sz) (ucast v)"
      using ucast_low_digit [of "7 * sz" v, where ?'a = 256] by (simp add: or.assoc add.commute)
    finally show ?thesis using sov_large [OF True] by simp
  next
    case False
    then have v: "v < 128" by simp
    with "1.prems" have a: "at bs p (ucast v # rest)" by (simp add: varint_bytes_small)
    then show ?thesis
      using at_nth [OF a] sol_last [OF v] last_byte(2) [OF v, where ?'a = 256] sov_small [OF v]
      by (subst sol_varint_loop.simps) (simp add: Let_def)
  qed
qed

lemma sol_decode_varint_at:
  "at bs p (varint_bytes v @ rest) \<Longrightarrow> sol_decode_varint p bs = Inr (ucast v, sov v)"
  by (simp add: sol_decode_varint_def sol_varint_at)

text \<open>
  \<open>sol_parses table xs r r'\<close>: wherever the bytes \<open>xs\<close> stand, the loop reads them and goes on
  with \<open>r'\<close>.
\<close>

definition sol_parses :: "(nat \<Rightarrow> 'r sol_reader option) \<Rightarrow> byte list \<Rightarrow> 'r \<Rightarrow> 'r \<Rightarrow> bool" where
  "sol_parses table xs r r' \<longleftrightarrow> (\<forall>bs p rest. at bs p (xs @ rest) \<longrightarrow>
     sol_decode_loop table bs p r = sol_decode_loop table bs (p + length xs) r')"

lemma sol_parses_Nil: "sol_parses table [] r r"
  by (simp add: sol_parses_def)

lemma sol_parses_append:
  assumes "sol_parses table xs r r'" and "sol_parses table ys r' r''"
  shows "sol_parses table (xs @ ys) r r''"
  unfolding sol_parses_def
proof (intro allI impI)
  fix bs p rest assume "at bs p ((xs @ ys) @ rest)"
  then have a: "at bs p (xs @ ys @ rest)" by simp
  with assms(1) have "sol_decode_loop table bs p r = sol_decode_loop table bs (p + length xs) r'"
    unfolding sol_parses_def by blast
  also have "\<dots> = sol_decode_loop table bs (p + length xs + length ys) r''"
    using assms(2) at_appendD [OF a] unfolding sol_parses_def by blast
  finally show "sol_decode_loop table bs p r = sol_decode_loop table bs (p + length (xs @ ys)) r''"
    by (simp add: add.assoc)
qed

lemma sol_parses_eq: "sol_parses table xs r r' \<Longrightarrow> r' = r'' \<Longrightarrow> sol_parses table xs r r''"
  by simp

lemma sol_parses_decode:
  assumes "sol_parses table xs zero r"
  shows "sol_decode table zero xs = Inr r"
proof -
  have "sol_decode_loop table xs 0 zero = sol_decode_loop table xs (length xs) r"
    using assms [unfolded sol_parses_def, rule_format, of xs 0 "[]"] by simp
  then show ?thesis by (simp add: sol_decode_def sol_decode_loop.simps [of table xs "length xs"])
qed

text \<open>A key of one byte.\<close>

definition sol_tag :: "byte \<Rightarrow> nat \<Rightarrow> nat \<Rightarrow> bool" where
  "sol_tag tag fieldId wireType \<longleftrightarrow> tag < 128 \<and> unat tag div 8 = fieldId \<and> unat tag mod 8 = wireType \<and> wireType < 6"

lemma unat_ucast_256: "unat (ucast (v :: 64 word) :: 256 word) = unat v"
  using unsigned_less [of v, where ?'a = nat]
  by (simp add: unsigned_ucast_eq take_bit_nat_eq_self order_less_trans [of _ "2 ^ 64"])

lemma sol_decode_key_at:
  assumes "at bs p (tag # xs)" and "sol_tag tag fieldId wireType"
  shows "sol_decode_key p bs = Inr (fieldId, wireType, Suc 0)"
proof -
  have t: "(ucast tag :: 64 word) < 128"
    using assms(2) by (simp add: sol_tag_def word_less_nat_alt unsigned_ucast_eq take_bit_nat_eq_self)
  then have "varint_bytes (ucast tag) = [tag]" by (simp add: varint_bytes_small ucast_byte_64)
  then have "at bs p (varint_bytes (ucast tag) @ xs)" using assms(1) by simp
  then have "sol_decode_varint p bs = Inr (ucast (ucast tag :: 64 word), Suc 0)"
    using sol_decode_varint_at sov_small [OF t] by simp
  moreover have "unat (ucast (ucast tag :: 64 word) :: 256 word) = unat tag"
    unfolding unat_ucast_256 using unat_byte_less [of tag] by (simp add: unsigned_ucast_eq take_bit_nat_eq_self)
  ultimately show ?thesis using assms(2) by (simp add: sol_decode_key_def sol_tag_def)
qed

lemma sol_field:
  assumes "at bs p (tag # xs)" and "sol_tag tag fieldId wireType" and "table fieldId = Some rd"
    and "rd (Suc p) bs r = Inr (r', sz)"
  shows "sol_decode_loop table bs p r = sol_decode_loop table bs (Suc p + sz) r'"
  using at_nth [OF assms(1)] assms(3,4)
  by (subst sol_decode_loop.simps) (simp add: sol_decode_key_at [OF assms(1,2)])

lemma sol_decode_lendelim_at:
  assumes "at bs p (varint_bytes (word_of_nat (length b)) @ b @ rest)" and "length b < 2 ^ 64"
  shows "sol_decode_lendelim p bs = Inr (b, sov (word_of_nat (length b)) + length b)"
proof -
  let ?v = "word_of_nat (length b) :: 64 word"
  have l: "unat (ucast ?v :: 256 word) = length b"
    unfolding unat_ucast_256 using assms(2) by (simp add: unsigned_of_nat take_bit_nat_eq_self)
  have a: "at bs (p + sov ?v) (b @ rest)" using at_appendD [OF assms(1)] by simp
  then have "\<not> length bs < p + sov ?v + length b" using at_length [OF a] by simp
  then show ?thesis
    using at_take [OF a] unfolding sol_decode_lendelim_def sol_decode_varint_at [OF assms(1)]
    by (simp only: bindr.simps prod.case l if_False)
qed

lemma sol_parses_bytes1:
  assumes "table fieldId = Some (sol_read_bytes upd)" and "sol_tag tag fieldId 2" and "length b < 2 ^ 64"
  shows "sol_parses table (enc_bytes1 tag b) r (upd b r)"
  unfolding sol_parses_def
proof (intro allI impI)
  fix bs p rest assume "at bs p (enc_bytes1 tag b @ rest)"
  then have a: "at bs p (tag # varint_bytes (word_of_nat (length b)) @ b @ rest)" by (simp add: enc_bytes1_def)
  have "sol_read_bytes upd (Suc p) bs r = Inr (upd b r, sov (word_of_nat (length b)) + length b)"
    using sol_decode_lendelim_at [OF at_ConsD [OF a] assms(3)] by (simp add: sol_read_bytes_def)
  from sol_field [of bs p tag _ fieldId 2 table, OF a assms(2,1) this]
  show "sol_decode_loop table bs p r = sol_decode_loop table bs (p + length (enc_bytes1 tag b)) (upd b r)"
    by (simp add: enc_bytes1_def add.assoc)
qed

lemma sol_parses_bytes:
  "table fieldId = Some (sol_read_bytes upd) \<Longrightarrow> sol_tag tag fieldId 2 \<Longrightarrow> length b < 2 ^ 64 \<Longrightarrow>
   upd [] r = r \<Longrightarrow> sol_parses table (enc_bytes tag b) r (upd b r)"
  by (auto simp: enc_bytes_def sol_parses_Nil intro: sol_parses_bytes1)

lemma sol_read_string_bytes: "sol_read_string upd = sol_read_bytes (\<lambda>b. upd (bytes_str b))"
  by (intro ext) (simp add: sol_read_string_def sol_read_bytes_def sol_decode_string_def bindr_assoc split: bindr_split)

lemma sol_parses_string:
  "table fieldId = Some (sol_read_string upd) \<Longrightarrow> sol_tag tag fieldId 2 \<Longrightarrow> length s < 2 ^ 64 \<Longrightarrow>
   upd [] r = r \<Longrightarrow> sol_parses table (enc_bytes tag (str_bytes s)) r (upd s r)"
  using sol_parses_bytes [of table fieldId "\<lambda>b. upd (bytes_str b)" tag "str_bytes s" r]
  by (simp add: sol_read_string_bytes)

lemma sol_parses_uint64:
  assumes "table fieldId = Some (sol_read_uint64 upd)" and "sol_tag tag fieldId 0" and "upd 0 r = r"
  shows "sol_parses table (enc_uint tag v) r (upd v r)"
proof (cases "v = 0")
  case True
  with assms(3) show ?thesis by (simp add: enc_uint_def sol_parses_Nil)
next
  case False
  show ?thesis unfolding sol_parses_def
  proof (intro allI impI)
    fix bs p rest assume "at bs p (enc_uint tag v @ rest)"
    then have a: "at bs p (tag # varint_bytes v @ rest)" using False by (simp add: enc_uint_def)
    have "ucast (ucast v :: 256 word) = v" by (rule bit_word_eqI) (auto simp: bit_unsigned_iff)
    then have "sol_read_uint64 upd (Suc p) bs r = Inr (upd v r, sov v)"
      using sol_decode_varint_at [OF at_ConsD [OF a]] by (simp add: sol_read_uint64_def sol_decode_uint64_def)
    from sol_field [of bs p tag _ fieldId 0 table, OF a assms(2,1) this]
    show "sol_decode_loop table bs p r = sol_decode_loop table bs (p + length (enc_uint tag v)) (upd v r)"
      using False by (simp add: enc_uint_def)
  qed
qed

subsection \<open>The messages\<close>

lemmas sol_parses_intros = sol_parses_append sol_parses_string sol_parses_bytes sol_parses_uint64

lemma ftpd_sol_encode_enc:
  assumes "length (ftpd_Denom m) < 2 ^ 64" and "length (ftpd_Sender m) < 2 ^ 64" and "length (ftpd_Receiver m) < 2 ^ 64"
  shows "ftpd_sol_encode m = FungibleTokenPacketData_enc m"
  using assms unfolding ftpd_sol_encode_def sol_keys FungibleTokenPacketData_enc_def
  by (simp only: append_Cons append_Nil sol_string sol_bytes sol_uint)

lemma ftpd_sol_decode_enc:
  assumes "length (ftpd_Denom m) < 2 ^ 64" and "length (ftpd_Sender m) < 2 ^ 64" and "length (ftpd_Receiver m) < 2 ^ 64"
  shows "ftpd_sol_decode (FungibleTokenPacketData_enc m) = Inr m"
  unfolding ftpd_sol_decode_def
proof (rule sol_parses_decode)
  show "sol_parses ftpd_sol_fields (FungibleTokenPacketData_enc m) FungibleTokenPacketData_new m"
    unfolding FungibleTokenPacketData_enc_def FungibleTokenPacketData_new_def
    by (rule sol_parses_eq, (rule sol_parses_append
        sol_parses_string [where fieldId = 1 and upd = "\<lambda>x r. r\<lparr>ftpd_Denom := x\<rparr>"]
        sol_parses_uint64 [where fieldId = 2 and upd = "\<lambda>x r. r\<lparr>ftpd_Amount := x\<rparr>"]
        sol_parses_bytes [where fieldId = 3 and upd = "\<lambda>x r. r\<lparr>ftpd_Sender := x\<rparr>"]
        sol_parses_bytes [where fieldId = 4 and upd = "\<lambda>x r. r\<lparr>ftpd_Receiver := x\<rparr>"]
        | rule assms | simp add: ftpd_sol_fields_def sol_tag_def)+)
qed

lemma any_sol_decode_encode:
  assumes "length (any_TypeUrl a) < 2 ^ 64" and "length (any_Value a) < 2 ^ 64"
  shows "any_sol_decode (any_sol_encode a) = Inr a"
proof -
  have "any_sol_encode a = enc_bytes1 0xa (str_bytes (any_TypeUrl a)) @ enc_bytes1 0x12 (any_Value a)"
    using sol_bytes1 [of "str_bytes (any_TypeUrl a)" "0xa"] sol_bytes1 [of "any_Value a" "0x12"] assms
    unfolding any_sol_encode_def sol_keys sol_encode_string_def by simp
  moreover have "sol_parses any_sol_fields (enc_bytes1 0xa (str_bytes (any_TypeUrl a)) @ enc_bytes1 0x12 (any_Value a))
      \<lparr>any_TypeUrl = [], any_Value = []\<rparr> a"
    by (rule sol_parses_eq, (rule sol_parses_append
        sol_parses_bytes1 [where fieldId = 1 and upd = "\<lambda>b r. r\<lparr>any_TypeUrl := bytes_str b\<rparr>"]
        sol_parses_bytes1 [where fieldId = 2 and upd = "\<lambda>x r. r\<lparr>any_Value := x\<rparr>"]
        | simp only: length_str_bytes, rule assms(1) | rule assms(2)
        | simp add: any_sol_fields_def sol_tag_def sol_read_string_bytes)+)
  ultimately show ?thesis by (simp add: any_sol_decode_def sol_parses_decode)
qed

lemma any_sol_decode_enc:
  assumes "length (any_TypeUrl a) < 2 ^ 64" and "length (any_Value a) < 2 ^ 64"
  shows "any_sol_decode (Any_enc a) = Inr a"
  unfolding any_sol_decode_def
proof (rule sol_parses_decode)
  show "sol_parses any_sol_fields (Any_enc a) \<lparr>any_TypeUrl = [], any_Value = []\<rparr> a"
    unfolding Any_enc_def
    by (rule sol_parses_eq, (rule sol_parses_append
        sol_parses_string [where fieldId = 1 and upd = "\<lambda>x r. r\<lparr>any_TypeUrl := x\<rparr>"]
        sol_parses_bytes [where fieldId = 2 and upd = "\<lambda>x r. r\<lparr>any_Value := x\<rparr>"]
        | rule assms | simp add: any_sol_fields_def sol_tag_def)+)
qed

lemma mock_sol_encode_enc:
  "mock_cs_sol_encode m = Mock_ClientState_enc m"
  "mock_cons_sol_encode c = Mock_ConsensusState_enc c"
  by (simp_all only: mock_cs_sol_encode_def mock_cons_sol_encode_def sol_keys append_Cons append_Nil sol_uint
      Mock_ClientState_enc_def Mock_ConsensusState_enc_def)

lemma mock_sol_decode_enc:
  "mock_cs_sol_decode (Mock_ClientState_enc m) = Inr m"
  "mock_cons_sol_decode (Mock_ConsensusState_enc c) = Inr c"
  "mock_header_sol_decode (Mock_Header_enc h) = Inr h"
proof -
  have "sol_parses mock_cs_sol_fields (Mock_ClientState_enc m) Mock_ClientState_new m"
    unfolding Mock_ClientState_enc_def Mock_ClientState_new_def
    by (rule sol_parses_eq, (rule sol_parses_uint64 [where fieldId = 1 and upd = "\<lambda>x r. r\<lparr>mcs_LatestHeight := x\<rparr>"]
        | simp add: mock_cs_sol_fields_def sol_tag_def)+)
  then show "mock_cs_sol_decode (Mock_ClientState_enc m) = Inr m"
    by (simp add: mock_cs_sol_decode_def sol_parses_decode)
  have "sol_parses mock_cons_sol_fields (Mock_ConsensusState_enc c) Mock_ConsensusState_new c"
    unfolding Mock_ConsensusState_enc_def Mock_ConsensusState_new_def
    by (rule sol_parses_eq, (rule sol_parses_uint64 [where fieldId = 1 and upd = "\<lambda>x r. r\<lparr>mcons_Timestamp := x\<rparr>"]
        | simp add: mock_cons_sol_fields_def sol_tag_def)+)
  then show "mock_cons_sol_decode (Mock_ConsensusState_enc c) = Inr c"
    by (simp add: mock_cons_sol_decode_def sol_parses_decode)
  have "sol_parses mock_header_sol_fields (Mock_Header_enc h) Mock_Header_new h"
    unfolding Mock_Header_enc_def Mock_Header_new_def
    by (rule sol_parses_eq, (rule sol_parses_append
        sol_parses_uint64 [where fieldId = 1 and upd = "\<lambda>x r. r\<lparr>mhdr_Height := x\<rparr>"]
        sol_parses_uint64 [where fieldId = 2 and upd = "\<lambda>x r. r\<lparr>mhdr_Timestamp := x\<rparr>"]
        | simp add: mock_header_sol_fields_def sol_tag_def)+)
  then show "mock_header_sol_decode (Mock_Header_enc h) = Inr h"
    by (simp add: mock_header_sol_decode_def sol_parses_decode)
qed

subsection \<open>Property\<close>

text \<open>
  C33: the payload of a token transfer reads the same on both sides. The bytes the contract
  writes for \<^verbatim>\<open>FungibleTokenPacketData\<close> are the bytes \<^verbatim>\<open>Marshal\<close> gives in Go, and both the
  contract's decoder and \<^verbatim>\<open>Unmarshal\<close> give the data back.
\<close>

theorem ftpd_codecs_agree:
  assumes "FungibleTokenPacketData_Size m < 2 ^ 63"
  shows "FungibleTokenPacketData_Marshal m = Inr (ftpd_sol_encode m) \<and>
    ftpd_sol_decode (ftpd_sol_encode m) = Inr m \<and>
    FungibleTokenPacketData_Unmarshal (ftpd_sol_encode m) FungibleTokenPacketData_new = Inr m"
proof -
  have l: "length (FungibleTokenPacketData_enc m) < 2 ^ 63" using assms by (simp add: ftpd_codec.size_enc)
  then have "length (ftpd_Denom m) < 2 ^ 64" "length (ftpd_Sender m) < 2 ^ 64" "length (ftpd_Receiver m) < 2 ^ 64"
    using length_fields(1) [of "str_bytes (ftpd_Denom m)" "0xa"] length_fields(1) [of "ftpd_Sender m" "0x1a"]
      length_fields(1) [of "ftpd_Receiver m" "0x22"]
    by (simp_all add: FungibleTokenPacketData_enc_def)
  with l show ?thesis
    by (simp add: ftpd_sol_encode_enc ftpd_sol_decode_enc FungibleTokenPacketData_Marshal_enc
        FungibleTokenPacketData_Unmarshal_enc go_slice_def)
qed

lemma ftpd_codecs_agree_witness:
  "ftpd_sol_decode (ftpd_sol_encode \<lparr>ftpd_Denom = ''ab'', ftpd_Amount = 300, ftpd_Sender = [1], ftpd_Receiver = []\<rparr>) =
     Inr \<lparr>ftpd_Denom = ''ab'', ftpd_Amount = 300, ftpd_Sender = [1], ftpd_Receiver = []\<rparr>"
  using ftpd_codecs_agree [of "\<lparr>ftpd_Denom = ''ab'', ftpd_Amount = 300, ftpd_Sender = [1], ftpd_Receiver = []\<rparr>"]
  by (simp add: FungibleTokenPacketData_Size_def size_eval)

end
