(* ===== verification/Mock_Client.thy ===== *)
theory Mock_Client
  imports IBC_Connection Sol_Decode
begin

text \<open>
  \<^verbatim>\<open>contracts/core/MockClient.sol\<close>: the light client of the tests, which accepts as proof of a
  value the SHA-256 of the value itself, provided it has a consensus state at the height; and
  \<^verbatim>\<open>Bytes.toBytes32\<close>.

  Client states, consensus states and headers are protobuf messages wrapped in an \<^verbatim>\<open>Any\<close>, and
  read and written with the generated libraries. The Keccak-256 of the virtual machine is the
  parameter \<open>K\<close>, the \<open>keccak256\<close> of an environment.
\<close>

definition toBytes32 :: "byte list \<Rightarrow> sol_error + byte list" where
  "toBytes32 bz = bindr (require (length bz = 32) (Revert ''cannot convert into address'')) (\<lambda>_. Inr bz)"

definition consensus_found :: "host \<Rightarrow> string \<Rightarrow> 64 word \<Rightarrow> sol_error + unit" where
  "consensus_found h clientId height =
     require (snd (getConsensusState clientId height h)) (Revert ''consensus state not found'')"

definition Mock_verifyClientState ::
  "host \<Rightarrow> string \<Rightarrow> 64 word \<Rightarrow> byte list \<Rightarrow> string \<Rightarrow> byte list \<Rightarrow> byte list \<Rightarrow> sol_error + bool"
where
  "Mock_verifyClientState h clientId height prefix counterpartyClientIdentifier prf clientStateBytes =
     bindr (consensus_found h clientId height) (\<lambda>_.
     bindr (toBytes32 prf) (\<lambda>p. Inr (sha256 clientStateBytes = p)))"

definition Mock_verifyClientConsensusState ::
  "host \<Rightarrow> string \<Rightarrow> 64 word \<Rightarrow> string \<Rightarrow> 64 word \<Rightarrow> byte list \<Rightarrow> byte list \<Rightarrow> byte list \<Rightarrow> sol_error + bool"
where
  "Mock_verifyClientConsensusState h clientId height counterpartyClientIdentifier consensusHeight prefix prf
       consensusStateBytes =
     bindr (consensus_found h clientId height) (\<lambda>_.
     bindr (toBytes32 prf) (\<lambda>p. Inr (sha256 consensusStateBytes = p)))"

definition Mock_verifyConnectionState ::
  "host \<Rightarrow> string \<Rightarrow> 64 word \<Rightarrow> byte list \<Rightarrow> byte list \<Rightarrow> string \<Rightarrow> byte list \<Rightarrow> sol_error + bool"
where
  "Mock_verifyConnectionState h clientId height prefix prf connectionId connectionBytes =
     bindr (consensus_found h clientId height) (\<lambda>_.
     bindr (toBytes32 prf) (\<lambda>p. Inr (sha256 connectionBytes = p)))"

definition Mock_verifyChannelState ::
  "host \<Rightarrow> string \<Rightarrow> 64 word \<Rightarrow> byte list \<Rightarrow> byte list \<Rightarrow> string \<Rightarrow> string \<Rightarrow> byte list \<Rightarrow> sol_error + bool"
where
  "Mock_verifyChannelState h clientId height prefix prf portId channelId channelBytes =
     bindr (consensus_found h clientId height) (\<lambda>_.
     bindr (toBytes32 prf) (\<lambda>p. Inr (sha256 channelBytes = p)))"

definition Mock_verifyPacketCommitment ::
  "host \<Rightarrow> string \<Rightarrow> 64 word \<Rightarrow> byte list \<Rightarrow> byte list \<Rightarrow> string \<Rightarrow> string \<Rightarrow> 64 word \<Rightarrow> byte list \<Rightarrow> sol_error + bool"
where
  "Mock_verifyPacketCommitment h clientId height prefix prf portId channelId sequence commitmentBytes =
     bindr (consensus_found h clientId height) (\<lambda>_.
     bindr (toBytes32 prf) (\<lambda>p. Inr (commitmentBytes = p)))"

definition Mock_verifyPacketAcknowledgement ::
  "host \<Rightarrow> string \<Rightarrow> 64 word \<Rightarrow> byte list \<Rightarrow> byte list \<Rightarrow> string \<Rightarrow> string \<Rightarrow> 64 word \<Rightarrow> byte list \<Rightarrow> sol_error + bool"
where
  "Mock_verifyPacketAcknowledgement h clientId height prefix prf portId channelId sequence acknowledgement =
     bindr (consensus_found h clientId height) (\<lambda>_.
     bindr (toBytes32 prf) (\<lambda>p. Inr (makePacketAcknowledgementCommitment acknowledgement = p)))"

subsection \<open>The client's own data\<close>

record protoTypes =
  pts_clientState :: "byte list"
  pts_consensusState :: "byte list"
  pts_header :: "byte list"

definition mock_url_clientState :: string where
  "mock_url_clientState = ''/ibc.lightclients.mock.v1.ClientState''"

definition mock_url_consensusState :: string where
  "mock_url_consensusState = ''/ibc.lightclients.mock.v1.ConsensusState''"

definition mock_url_header :: string where
  "mock_url_header = ''/ibc.lightclients.mock.v1.Header''"

definition mock_constructor :: "(byte list \<Rightarrow> byte list) \<Rightarrow> protoTypes" where
  "mock_constructor K =
     \<lparr>pts_clientState = K (str_bytes mock_url_clientState),
      pts_consensusState = K (str_bytes mock_url_consensusState),
      pts_header = K (str_bytes mock_url_header)\<rparr>"

definition Mock_getClientState :: "host \<Rightarrow> string \<Rightarrow> sol_error + Mock_ClientState \<times> bool" where
  "Mock_getClientState h clientId =
     (let (clientStateBytes, found) = getClientState clientId h
      in if \<not> found then Inr (Mock_ClientState_new, False)
         else bindr (any_sol_decode clientStateBytes) (\<lambda>a.
              bindr (mock_cs_sol_decode (any_Value a)) (\<lambda>cs. Inr (cs, True))))"

definition Mock_getConsensusState :: "host \<Rightarrow> string \<Rightarrow> 64 word \<Rightarrow> sol_error + Mock_ConsensusState \<times> bool" where
  "Mock_getConsensusState h clientId height =
     (let (consensusStateBytes, found) = getConsensusState clientId height h
      in if \<not> found then Inr (Mock_ConsensusState_new, False)
         else bindr (any_sol_decode consensusStateBytes) (\<lambda>a.
              bindr (mock_cons_sol_decode (any_Value a)) (\<lambda>cs. Inr (cs, True))))"

definition Mock_getTimestampAtHeight :: "host \<Rightarrow> string \<Rightarrow> 64 word \<Rightarrow> sol_error + 64 word \<times> bool" where
  "Mock_getTimestampAtHeight h clientId height =
     bindr (Mock_getConsensusState h clientId height) (\<lambda>(consensusState, found).
       if \<not> found then Inr (0, False) else Inr (mcons_Timestamp consensusState, True))"

definition Mock_getLatestHeight :: "host \<Rightarrow> string \<Rightarrow> sol_error + 64 word \<times> bool" where
  "Mock_getLatestHeight h clientId =
     bindr (Mock_getClientState h clientId) (\<lambda>(clientState, found).
       if \<not> found then Inr (0, False) else Inr (mcs_LatestHeight clientState, True))"

definition Mock_parseHeader ::
  "(byte list \<Rightarrow> byte list) \<Rightarrow> protoTypes \<Rightarrow> byte list \<Rightarrow> sol_error + 64 word \<times> 64 word"
where
  "Mock_parseHeader K pts headerBytes =
     bindr (any_sol_decode headerBytes) (\<lambda>a.
     bindr (require (K (str_bytes (any_TypeUrl a)) = pts_header pts) (Revert ''invalid header type'')) (\<lambda>_.
     bindr (mock_header_sol_decode (any_Value a)) (\<lambda>header.
     Inr (mhdr_Height header, mhdr_Timestamp header))))"

definition Mock_checkHeaderAndUpdateState ::
  "(byte list \<Rightarrow> byte list) \<Rightarrow> protoTypes \<Rightarrow> host \<Rightarrow> string \<Rightarrow> byte list \<Rightarrow> byte list \<Rightarrow>
   sol_error + byte list \<times> byte list \<times> 64 word"
where
  "Mock_checkHeaderAndUpdateState K pts h clientId clientStateBytes headerBytes =
     bindr (any_sol_decode clientStateBytes) (\<lambda>anyClientState.
     bindr (require (K (str_bytes (any_TypeUrl anyClientState)) = pts_clientState pts)
       (Revert ''invalid client type'')) (\<lambda>_.
     bindr (mock_cs_sol_decode (any_Value anyClientState)) (\<lambda>clientState.
     bindr (Mock_parseHeader K pts headerBytes) (\<lambda>(height, timestamp).
     let clientState = (if height > mcs_LatestHeight clientState then clientState\<lparr>mcs_LatestHeight := height\<rparr>
                        else clientState);
         anyClientState = anyClientState\<lparr>any_Value := mock_cs_sol_encode clientState\<rparr>;
         anyConsensusState = \<lparr>any_TypeUrl = mock_url_consensusState,
           any_Value = mock_cons_sol_encode \<lparr>mcons_Timestamp = timestamp\<rparr>\<rparr>
     in Inr (any_sol_encode anyClientState, any_sol_encode anyConsensusState, height)))))"

definition mock_client :: "(byte list \<Rightarrow> byte list) \<Rightarrow> iclient" where
  "mock_client K =
     \<lparr>ic_getTimestampAtHeight = Mock_getTimestampAtHeight,
      ic_getLatestHeight = Mock_getLatestHeight,
      ic_checkHeaderAndUpdateState = Mock_checkHeaderAndUpdateState K (mock_constructor K),
      ic_verifyClientState = Mock_verifyClientState,
      ic_verifyClientConsensusState = Mock_verifyClientConsensusState,
      ic_verifyConnectionState = Mock_verifyConnectionState,
      ic_verifyChannelState = Mock_verifyChannelState,
      ic_verifyPacketCommitment = Mock_verifyPacketCommitment,
      ic_verifyPacketAcknowledgement = Mock_verifyPacketAcknowledgement\<rparr>"

text \<open>A value is proved by its hash, at any height the client has a consensus state for.\<close>

lemma toBytes32_sha256 [simp]: "toBytes32 (sha256 m) = Inr (sha256 m)"
  by (simp add: toBytes32_def result_simps)

lemma mock_accepts:
  assumes "consensusStates h i n \<noteq> []"
  shows "ic_verifyClientState (mock_client K) h i n pfx j (sha256 bs) bs = Inr True"
    and "ic_verifyConnectionState (mock_client K) h i n pfx (sha256 bs) c bs = Inr True"
    and "ic_verifyChannelState (mock_client K) h i n pfx (sha256 bs) p c bs = Inr True"
    and "ic_verifyPacketCommitment (mock_client K) h i n pfx (makePacketCommitment pkt) p c m (makePacketCommitment pkt) = Inr True"
    and "ic_verifyPacketAcknowledgement (mock_client K) h i n pfx (sha256 bs) p c m bs = Inr True"
  using assms
  by (simp_all add: mock_client_def Mock_verifyClientState_def Mock_verifyConnectionState_def
      Mock_verifyChannelState_def Mock_verifyPacketCommitment_def Mock_verifyPacketAcknowledgement_def
      consensus_found_def getConsensusState_def makePacketCommitment_def makePacketAcknowledgementCommitment_def
      result_simps)

subsection \<open>Reading and updating\<close>

lemma mock_enc_small:
  "length (Mock_ClientState_enc m) \<le> 11" "length (Mock_ConsensusState_enc c) \<le> 11" "length (Mock_Header_enc h) \<le> 22"
  using sov_le_10 [of "mcs_LatestHeight m"] sov_le_10 [of "mcons_Timestamp c"] sov_le_10 [of "mhdr_Height h"]
    sov_le_10 [of "mhdr_Timestamp h"]
  by (simp_all add: Mock_ClientState_enc_def Mock_ConsensusState_enc_def Mock_Header_enc_def enc_uint_def)

text \<open>
  The three messages the client deals in, as the bytes of an \<^verbatim>\<open>Any\<close> that the contract writes. Those
  the relayer's protobuf library writes are the same, but for the empty value of height or time 0.
\<close>

definition mock_state_bytes :: "64 word \<Rightarrow> byte list" where
  "mock_state_bytes n = any_sol_encode
     \<lparr>any_TypeUrl = mock_url_clientState, any_Value = mock_cs_sol_encode \<lparr>mcs_LatestHeight = n\<rparr>\<rparr>"

definition mock_consensus_bytes :: "64 word \<Rightarrow> byte list" where
  "mock_consensus_bytes t = any_sol_encode
     \<lparr>any_TypeUrl = mock_url_consensusState, any_Value = mock_cons_sol_encode \<lparr>mcons_Timestamp = t\<rparr>\<rparr>"

lemma any_sol_encode_nonempty: "any_sol_encode a \<noteq> []"
  by (simp add: any_sol_encode_def sol_keys)

lemma mock_bytes_nonempty: "mock_state_bytes n \<noteq> []" "mock_consensus_bytes t \<noteq> []"
  by (simp_all add: mock_state_bytes_def mock_consensus_bytes_def any_sol_encode_nonempty)

text \<open>Bytes, from whichever side, that the contract reads as a message of the type.\<close>

definition reads_client :: "byte list \<Rightarrow> 64 word \<Rightarrow> bool" where
  "reads_client bz n \<longleftrightarrow> (\<exists>v. any_sol_decode bz = Inr \<lparr>any_TypeUrl = mock_url_clientState, any_Value = v\<rparr> \<and>
     mock_cs_sol_decode v = Inr \<lparr>mcs_LatestHeight = n\<rparr>)"

definition reads_consensus :: "byte list \<Rightarrow> 64 word \<Rightarrow> bool" where
  "reads_consensus bz t \<longleftrightarrow> (\<exists>a. any_sol_decode bz = Inr a \<and>
     mock_cons_sol_decode (any_Value a) = Inr \<lparr>mcons_Timestamp = t\<rparr>)"

definition reads_header :: "byte list \<Rightarrow> 64 word \<Rightarrow> 64 word \<Rightarrow> bool" where
  "reads_header bz n t \<longleftrightarrow> (\<exists>v. any_sol_decode bz = Inr \<lparr>any_TypeUrl = mock_url_header, any_Value = v\<rparr> \<and>
     mock_header_sol_decode v = Inr \<lparr>mhdr_Height = n, mhdr_Timestamp = t\<rparr>)"

lemma length_urls:
  "length mock_url_clientState < 2 ^ 64" "length mock_url_consensusState < 2 ^ 64" "length mock_url_header < 2 ^ 64"
  by (simp_all add: mock_url_clientState_def mock_url_consensusState_def mock_url_header_def)

lemma mock_reads_sol:
  "reads_client (mock_state_bytes n) n" "reads_consensus (mock_consensus_bytes t) t"
  using length_urls mock_enc_small(1) [of "\<lparr>mcs_LatestHeight = n\<rparr>"] mock_enc_small(2) [of "\<lparr>mcons_Timestamp = t\<rparr>"]
  by (simp_all add: reads_client_def reads_consensus_def mock_state_bytes_def mock_consensus_bytes_def
      any_sol_decode_encode mock_sol_encode_enc mock_sol_decode_enc)

lemma mock_reads_go:
  "reads_client (Any_enc \<lparr>any_TypeUrl = mock_url_clientState, any_Value = Mock_ClientState_enc \<lparr>mcs_LatestHeight = n\<rparr>\<rparr>) n"
  "reads_consensus (Any_enc \<lparr>any_TypeUrl = mock_url_consensusState, any_Value = Mock_ConsensusState_enc \<lparr>mcons_Timestamp = t\<rparr>\<rparr>) t"
  "reads_header (Any_enc \<lparr>any_TypeUrl = mock_url_header, any_Value = Mock_Header_enc \<lparr>mhdr_Height = n, mhdr_Timestamp = t\<rparr>\<rparr>) n t"
  using length_urls mock_enc_small(1) [of "\<lparr>mcs_LatestHeight = n\<rparr>"] mock_enc_small(2) [of "\<lparr>mcons_Timestamp = t\<rparr>"]
    mock_enc_small(3) [of "\<lparr>mhdr_Height = n, mhdr_Timestamp = t\<rparr>"]
  by (simp_all add: reads_client_def reads_consensus_def reads_header_def any_sol_decode_enc mock_sol_decode_enc)

lemma Mock_getLatestHeight_reads:
  assumes "clientStates h i \<noteq> []" and "reads_client (clientStates h i) n"
  shows "Mock_getLatestHeight h i = Inr (n, True)"
  using assms by (auto simp: Mock_getLatestHeight_def Mock_getClientState_def getClientState_def reads_client_def)

lemma Mock_getTimestampAtHeight_reads:
  assumes "consensusStates h i n \<noteq> []" and "reads_consensus (consensusStates h i n) t"
  shows "Mock_getTimestampAtHeight h i n = Inr (t, True)"
  using assms
  by (auto simp: Mock_getTimestampAtHeight_def Mock_getConsensusState_def getConsensusState_def reads_consensus_def)

lemma Mock_checkHeader_reads:
  assumes "reads_client bz n" and "reads_header hb k t"
  shows "Mock_checkHeaderAndUpdateState K (mock_constructor K) h i bz hb =
    Inr (mock_state_bytes (max n k), mock_consensus_bytes t, k)"
  using assms
  by (auto simp: Mock_checkHeaderAndUpdateState_def Mock_parseHeader_def reads_client_def reads_header_def
      mock_constructor_def mock_state_bytes_def mock_consensus_bytes_def require_def Let_def max_def)

text \<open>
  What the relayer's side reads of what the contract wrote: its \<^verbatim>\<open>Any\<close> writes the same bytes for a
  value that is not empty.
\<close>

lemma any_sol_encode_Any_enc:
  assumes "any_TypeUrl a \<noteq> []" and "any_Value a \<noteq> []"
    and "length (any_TypeUrl a) < 2 ^ 64" and "length (any_Value a) < 2 ^ 64"
  shows "any_sol_encode a = Any_enc a"
proof -
  have "any_sol_encode a = enc_bytes1 0xa (str_bytes (any_TypeUrl a)) @ enc_bytes1 0x12 (any_Value a)"
    using sol_bytes1 [of "str_bytes (any_TypeUrl a)" "0xa"] sol_bytes1 [of "any_Value a" "0x12"] assms(3,4)
    unfolding any_sol_encode_def sol_keys sol_encode_string_def by simp
  then show ?thesis using assms(1,2) by (simp add: Any_enc_def enc_bytes_def)
qed

lemma mock_state_bytes_go:
  assumes "n \<noteq> 0"
  shows "mock_state_bytes n =
    Any_enc \<lparr>any_TypeUrl = mock_url_clientState, any_Value = Mock_ClientState_enc \<lparr>mcs_LatestHeight = n\<rparr>\<rparr>"
  unfolding mock_state_bytes_def mock_sol_encode_enc
proof (rule any_sol_encode_Any_enc)
  show "length (any_Value \<lparr>any_TypeUrl = mock_url_clientState, any_Value = Mock_ClientState_enc \<lparr>mcs_LatestHeight = n\<rparr>\<rparr>) < 2 ^ 64"
    using mock_enc_small(1) [of "\<lparr>mcs_LatestHeight = n\<rparr>"] by simp
qed (use assms length_urls(1) in \<open>simp_all add: mock_url_clientState_def Mock_ClientState_enc_def enc_uint_def\<close>)

subsection \<open>Property\<close>

text \<open>A header of another type is refused, whatever its bytes are.\<close>

lemma Mock_checkHeader_refuses:
  assumes "reads_client bz n" and "any_sol_decode hb = Inr a"
    and "K (str_bytes (any_TypeUrl a)) \<noteq> K (str_bytes mock_url_header)"
  shows "Mock_checkHeaderAndUpdateState K (mock_constructor K) h i bz hb = Inl (Revert ''invalid header type'')"
  using assms
  by (auto simp: Mock_checkHeaderAndUpdateState_def Mock_parseHeader_def reads_client_def mock_constructor_def require_def)

text \<open>
  C15: an update of a mock client. For a client whose state says height \<open>n\<close>, in bytes written by
  either side, the handler's \<^verbatim>\<open>updateClient\<close> with a header of height \<open>k\<close> and time \<open>t\<close> succeeds. The latest
  height is then the larger of \<open>n\<close> and \<open>k\<close> (it never goes back), the timestamp at \<open>k\<close> is \<open>t\<close>, the
  timestamps at all other heights are what they were, and the new state can be read as before.
\<close>

theorem mock_updateClient:
  assumes "msg_sender E = ibcModule h" and "getClient E i h = Inr (mock_client (keccak256 E))"
    and "clientStates h i \<noteq> []" and "reads_client (clientStates h i) n" and "reads_header hb k t"
  shows "\<exists>h'. updateClient E \<lparr>muc_clientId = i, muc_header = hb\<rparr> h = Inr h' \<and>
    Mock_getLatestHeight h' i = Inr (max n k, True) \<and> Mock_getTimestampAtHeight h' i k = Inr (t, True) \<and>
    (\<forall>j. j \<noteq> k \<longrightarrow> Mock_getTimestampAtHeight h' i j = Mock_getTimestampAtHeight h i j) \<and>
    reads_client (clientStates h' i) (max n k)"
proof -
  obtain h' where u: "updateClient E \<lparr>muc_clientId = i, muc_header = hb\<rparr> h = Inr h'"
    and h': "clientStates h' i = mock_state_bytes (max n k)" "consensusStates h' i =
      (consensusStates h i)(k := mock_consensus_bytes t)"
    using assms Mock_checkHeader_reads [OF assms(4,5), of "keccak256 E" h i] by (simp add: updateClient_Inr mock_client_def)
  have "Mock_getLatestHeight h' i = Inr (max n k, True)"
    by (rule Mock_getLatestHeight_reads) (simp_all add: h' mock_bytes_nonempty mock_reads_sol)
  moreover have "Mock_getTimestampAtHeight h' i k = Inr (t, True)"
    by (rule Mock_getTimestampAtHeight_reads) (simp_all add: h' mock_bytes_nonempty mock_reads_sol)
  moreover have "Mock_getTimestampAtHeight h' i j = Mock_getTimestampAtHeight h i j" if "j \<noteq> k" for j
    using that by (simp add: Mock_getTimestampAtHeight_def Mock_getConsensusState_def getConsensusState_def h')
  ultimately show ?thesis using u mock_reads_sol(1) [of "max n k"] h'(1) by auto
qed

definition mock_example_env :: cenv where
  "mock_example_env = \<lparr>keccak256 = (\<lambda>x. x), msg_sender = 1, block_number = 10, block_timestamp = 10,
     iclients = (\<lambda>_. Some (mock_client (\<lambda>x. x)))\<rparr>"

definition mock_example_host :: host where
  "mock_example_host = (host_constructor mock_example_env)\<lparr>ibcModule := 1, clientRegistry := (\<lambda>_. 9),
     clientTypes := (\<lambda>_. ''m''), clientStates := (\<lambda>_. mock_state_bytes 5)\<rparr>"

lemma mock_updateClient_witness:
  "\<exists>hb h'. updateClient mock_example_env \<lparr>muc_clientId = ''m-0'', muc_header = hb\<rparr> mock_example_host = Inr h' \<and>
     Mock_getLatestHeight h' ''m-0'' = Inr (7, True) \<and> Mock_getTimestampAtHeight h' ''m-0'' 7 = Inr (100, True)"
proof -
  have 1: "msg_sender mock_example_env = ibcModule mock_example_host" "clientStates mock_example_host ''m-0'' \<noteq> []"
      "reads_client (clientStates mock_example_host ''m-0'') 5"
      "getClient mock_example_env ''m-0'' mock_example_host = Inr (mock_client (keccak256 mock_example_env))"
    by (simp_all add: mock_example_env_def mock_example_host_def mock_bytes_nonempty mock_reads_sol getClient_Inr)
  from mock_updateClient [OF 1(1,4,2,3) mock_reads_go(3) [of 7 100]] show ?thesis by (auto simp: max_def)
qed

end
