(* ===== verification/Besu_Header.thy ===== *)
theory Besu_Header
  imports Prelude
begin

text \<open>
  \<^verbatim>\<open>pkg/chains/besu.go\<close> and \<^verbatim>\<open>pkg/chains/ether.go\<close>: parsing the extra data of an IBFT 2.0
  header and checking its commit seals against the validators it lists.

  The go-ethereum packages are parameters: \<open>besu_lib\<close> holds the RLP codec (a stream of type
  \<open>'s\<close>, the header type \<open>'hdr\<close>), \<^verbatim>\<open>crypto.Keccak256\<close>, \<^verbatim>\<open>crypto.SigToPub\<close> and
  \<^verbatim>\<open>crypto.PubkeyToAddress\<close>. A nil seal is the empty list.
\<close>

datatype besu_error = Err_rlp | Err_recover | Err_insufficient_voting nat nat

record ('hdr, 'vote, 's, 'pub) besu_lib =
  hdr_Extra :: "'hdr \<Rightarrow> byte list"
  hdr_set_Extra :: "'hdr \<Rightarrow> byte list \<Rightarrow> 'hdr"
  rlp_stream :: "byte list \<Rightarrow> 's"
  rlp_List :: "'s \<Rightarrow> 's option"
  rlp_Bytes :: "nat \<Rightarrow> 's \<Rightarrow> (byte list \<times> 's) option"
  rlp_Addresses :: "'s \<Rightarrow> (address list \<times> 's) option"
  rlp_Vote :: "'s \<Rightarrow> ('vote \<times> 's) option"
  rlp_Slices :: "'s \<Rightarrow> (byte list list \<times> 's) option"
  rlp_ListEnd :: "'s \<Rightarrow> 's option"
  rlp_seal_extra :: "byte list \<times> address list \<times> 'vote \<times> byte list \<Rightarrow> byte list option"
  rlp_chain_extra :: "byte list \<times> address list \<times> 'vote \<Rightarrow> byte list option"
  rlp_header :: "'hdr \<Rightarrow> byte list option"
  Keccak256 :: "byte list \<Rightarrow> byte list"
  SigToPub :: "byte list \<Rightarrow> byte list \<Rightarrow> 'pub option"
  PubkeyToAddress :: "'pub \<Rightarrow> address"

record ('hdr, 'vote) ParsedHeader =
  ph_Base :: 'hdr
  ph_Vanity :: "byte list"
  ph_Validators :: "address list"
  ph_Vote :: 'vote
  ph_Round :: "byte list"
  ph_Seals :: "byte list list"

definition rlp_call :: "'a option \<Rightarrow> besu_error + 'a" where
  "rlp_call r = (case r of None \<Rightarrow> Inl Err_rlp | Some x \<Rightarrow> Inr x)"

subsection \<open>Parsing\<close>

definition ParseHeader ::
  "('hdr, 'vote, 's, 'pub) besu_lib \<Rightarrow> 'hdr \<Rightarrow> besu_error + ('hdr, 'vote) ParsedHeader" where
  "ParseHeader lib header =
     bindr (rlp_call (rlp_List lib (rlp_stream lib (hdr_Extra lib header)))) (\<lambda>s.
     bindr (rlp_call (rlp_Bytes lib 32 s)) (\<lambda>(vanity, s).
     bindr (rlp_call (rlp_Addresses lib s)) (\<lambda>(validators, s).
     bindr (rlp_call (rlp_Vote lib s)) (\<lambda>(vote, s).
     bindr (rlp_call (rlp_Bytes lib 4 s)) (\<lambda>(round, s).
     bindr (rlp_call (rlp_Slices lib s)) (\<lambda>(seals, s).
     bindr (rlp_call (rlp_ListEnd lib s)) (\<lambda>_.
       Inr \<lparr>ph_Base = header, ph_Vanity = vanity, ph_Validators = validators, ph_Vote = vote,
            ph_Round = round, ph_Seals = seals\<rparr>)))))))"

definition GetSealingHeaderBytes ::
  "('hdr, 'vote, 's, 'pub) besu_lib \<Rightarrow> ('hdr, 'vote) ParsedHeader \<Rightarrow> besu_error + byte list" where
  "GetSealingHeaderBytes lib h =
     bindr (rlp_call (rlp_seal_extra lib (ph_Vanity h, ph_Validators h, ph_Vote h, ph_Round h)))
       (\<lambda>extra. rlp_call (rlp_header lib (hdr_set_Extra lib (ph_Base h) extra)))"

definition GetChainHeaderBytes ::
  "('hdr, 'vote, 's, 'pub) besu_lib \<Rightarrow> ('hdr, 'vote) ParsedHeader \<Rightarrow> besu_error + byte list" where
  "GetChainHeaderBytes lib h =
     bindr (rlp_call (rlp_chain_extra lib (ph_Vanity h, ph_Validators h, ph_Vote h)))
       (\<lambda>extra. rlp_call (rlp_header lib (hdr_set_Extra lib (ph_Base h) extra)))"

subsection \<open>Commit seals\<close>

definition ECRecoverAddress ::
  "('hdr, 'vote, 's, 'pub) besu_lib \<Rightarrow> byte list \<Rightarrow> byte list \<Rightarrow> besu_error + address" where
  "ECRecoverAddress lib hash sig =
     (case SigToPub lib hash sig of
        None \<Rightarrow> Inl Err_recover
      | Some pub \<Rightarrow> Inr (PubkeyToAddress lib pub))"

fun recover_loop ::
  "('hdr, 'vote, 's, 'pub) besu_lib \<Rightarrow> byte list \<Rightarrow> byte list list \<Rightarrow>
   (address \<rightharpoonup> byte list) \<Rightarrow> besu_error + (address \<rightharpoonup> byte list)" where
  "recover_loop lib headerHash [] vals = Inr vals"
| "recover_loop lib headerHash (seal # seals) vals =
     bindr (ECRecoverAddress lib headerHash seal) (\<lambda>addr.
       recover_loop lib headerHash seals (vals(addr \<mapsto> seal)))"

definition RecoverCommitterAddressesVals ::
  "('hdr, 'vote, 's, 'pub) besu_lib \<Rightarrow> byte list \<Rightarrow> byte list list \<Rightarrow>
   besu_error + (address \<rightharpoonup> byte list)" where
  "RecoverCommitterAddressesVals lib headerHash seals = recover_loop lib headerHash seals Map.empty"

fun collect_seals :: "(address \<rightharpoonup> byte list) \<Rightarrow> address list \<Rightarrow> nat \<Rightarrow> byte list list \<Rightarrow>
    nat \<times> byte list list" where
  "collect_seals vals [] count newSeals = (count, newSeals)"
| "collect_seals vals (val # validators) count newSeals =
     (case vals val of
        Some seal \<Rightarrow> collect_seals vals validators (count + 1) (newSeals @ [seal])
      | None \<Rightarrow> collect_seals vals validators count (newSeals @ [[]]))"

definition ValidateAndGetCommitSeals ::
  "('hdr, 'vote, 's, 'pub) besu_lib \<Rightarrow> ('hdr, 'vote) ParsedHeader \<Rightarrow> besu_error + byte list list"
where
  "ValidateAndGetCommitSeals lib h =
     bindr (GetSealingHeaderBytes lib h) (\<lambda>header.
     bindr (RecoverCommitterAddressesVals lib (Keccak256 lib header) (ph_Seals h)) (\<lambda>vals.
       let (count, newSeals) = collect_seals vals (ph_Validators h) 0 [];
           threshold = length (ph_Validators h) * 2 div 3
       in if threshold < count then Inr newSeals
          else Inl (Err_insufficient_voting count threshold)))"

subsection \<open>What the loops compute\<close>

lemma recover_loop_error:
  "recover_loop lib hash seals vals = Inl e \<longleftrightarrow>
   e = Err_recover \<and> (\<exists>seal \<in> set seals. SigToPub lib hash seal = None)"
  by (induction seals arbitrary: vals) (auto simp: ECRecoverAddress_def split: option.split)

text \<open>The last seal that recovers to an address wins.\<close>

lemma recover_loop_vals:
  "recover_loop lib hash seals vals = Inr vals' \<Longrightarrow>
   vals' a = (case filter (\<lambda>s. ECRecoverAddress lib hash s = Inr a) (rev seals) of
      [] \<Rightarrow> vals a | s # _ \<Rightarrow> Some s)"
proof (induction seals arbitrary: vals)
  case Nil
  then show ?case by simp
next
  case (Cons seal seals)
  then obtain b where b: "ECRecoverAddress lib hash seal = Inr b"
    and r: "recover_loop lib hash seals (vals(b \<mapsto> seal)) = Inr vals'"
    by (auto simp: bindr_eq_Inr)
  from Cons.IH [OF r] b show ?case by (auto split: list.split)
qed

lemma recover_loop_dom:
  assumes "RecoverCommitterAddressesVals lib hash seals = Inr vals"
  shows "vals a = Some s \<Longrightarrow> s \<in> set seals \<and> ECRecoverAddress lib hash s = Inr a"
    and "vals a \<noteq> None \<longleftrightarrow> (\<exists>s \<in> set seals. ECRecoverAddress lib hash s = Inr a)"
proof -
  let ?l = "filter (\<lambda>s. ECRecoverAddress lib hash s = Inr a) (rev seals)"
  have v: "vals a = (case ?l of [] \<Rightarrow> None | s # _ \<Rightarrow> Some s)"
    using recover_loop_vals [of lib hash seals Map.empty vals a] assms
    by (simp add: RecoverCommitterAddressesVals_def)
  have hd: "hd ?l \<in> set ?l" if "?l \<noteq> []" using that by (rule hd_in_set)
  show "vals a = Some s \<Longrightarrow> s \<in> set seals \<and> ECRecoverAddress lib hash s = Inr a"
    using v hd by (auto split: list.splits)
  have "?l = [] \<longleftrightarrow> \<not> (\<exists>s \<in> set seals. ECRecoverAddress lib hash s = Inr a)"
    by (auto simp: filter_empty_conv)
  then show "vals a \<noteq> None \<longleftrightarrow> (\<exists>s \<in> set seals. ECRecoverAddress lib hash s = Inr a)"
    using v by (auto split: list.splits)
qed

lemma collect_seals_eq:
  "collect_seals vals validators count newSeals =
     (count + length (filter (\<lambda>v. vals v \<noteq> None) validators),
      newSeals @ map (\<lambda>v. case vals v of None \<Rightarrow> [] | Some s \<Rightarrow> s) validators)"
  by (induction validators arbitrary: count newSeals) (auto split: option.split)

text \<open>The validators whose seal is on a header, as the code establishes it.\<close>

definition committed ::
  "('hdr, 'vote, 's, 'pub) besu_lib \<Rightarrow> ('hdr, 'vote) ParsedHeader \<Rightarrow> address \<Rightarrow> bool" where
  "committed lib h a \<longleftrightarrow> (\<exists>header. GetSealingHeaderBytes lib h = Inr header \<and>
     (\<exists>s \<in> set (ph_Seals h). ECRecoverAddress lib (Keccak256 lib header) s = Inr a))"

lemma ValidateAndGetCommitSeals_Inr:
  assumes "ValidateAndGetCommitSeals lib h = Inr newSeals"
  obtains header vals where "GetSealingHeaderBytes lib h = Inr header"
    and "RecoverCommitterAddressesVals lib (Keccak256 lib header) (ph_Seals h) = Inr vals"
    and "newSeals = map (\<lambda>v. case vals v of None \<Rightarrow> [] | Some s \<Rightarrow> s) (ph_Validators h)"
    and "length (ph_Validators h) * 2 div 3 < length (filter (\<lambda>v. vals v \<noteq> None) (ph_Validators h))"
  using assms
  by (auto simp: ValidateAndGetCommitSeals_def bindr_eq_Inr collect_seals_eq Let_def split: if_splits)

lemma quorum:
  assumes "ValidateAndGetCommitSeals lib h = Inr newSeals"
  shows "2 * length (ph_Validators h) < 3 * length (filter (committed lib h) (ph_Validators h))"
proof -
  from assms obtain header vals where h: "GetSealingHeaderBytes lib h = Inr header"
    and r: "RecoverCommitterAddressesVals lib (Keccak256 lib header) (ph_Seals h) = Inr vals"
    and t: "length (ph_Validators h) * 2 div 3 < length (filter (\<lambda>v. vals v \<noteq> None) (ph_Validators h))"
    by (rule ValidateAndGetCommitSeals_Inr)
  have "committed lib h = (\<lambda>v. vals v \<noteq> None)"
    unfolding fun_eq_iff recover_loop_dom(2) [OF r] by (simp add: committed_def h)
  with t show ?thesis by simp
qed

subsection \<open>Properties\<close>

text \<open>A concrete library for the witnesses: a seal is the number of its signer.\<close>

definition toy_besu :: "(byte list, unit, unit, byte) besu_lib" where
  "toy_besu = \<lparr>hdr_Extra = id, hdr_set_Extra = (\<lambda>h e. e), rlp_stream = (\<lambda>_. ()), rlp_List = Some,
     rlp_Bytes = (\<lambda>n s. Some (replicate n 0, s)), rlp_Addresses = (\<lambda>s. Some ([], s)),
     rlp_Vote = (\<lambda>s. Some ((), s)), rlp_Slices = (\<lambda>s. Some ([], s)), rlp_ListEnd = Some,
     rlp_seal_extra = (\<lambda>(v, a, u, r). Some r), rlp_chain_extra = (\<lambda>(v, a, u). Some v),
     rlp_header = Some, Keccak256 = id,
     SigToPub = (\<lambda>hash sig. if sig = [] then None else Some (hd sig)), PubkeyToAddress = ucast\<rparr>"

definition toy_header :: "byte list \<Rightarrow> byte list list \<Rightarrow> (byte list, unit) ParsedHeader" where
  "toy_header round seals = \<lparr>ph_Base = [], ph_Vanity = [], ph_Validators = [1, 2, 3, 4], ph_Vote = (),
     ph_Round = round, ph_Seals = seals\<rparr>"

lemma toy_header_valid:
  "ValidateAndGetCommitSeals toy_besu (toy_header r [[1], [3], [4]]) = Inr [[1], [], [3], [4]]"
  "ValidateAndGetCommitSeals toy_besu (toy_header r [[4], [3], [2]]) = Inr [[], [2], [3], [4]]"
  "ValidateAndGetCommitSeals toy_besu (toy_header r [[4], [4], [2]]) = Inl (Err_insufficient_voting 2 2)"
  by (simp_all add: ValidateAndGetCommitSeals_def toy_header_def toy_besu_def GetSealingHeaderBytes_def
      rlp_call_def RecoverCommitterAddressesVals_def ECRecoverAddress_def)

text \<open>
  On success there is one entry per validator, in the order of the validators: a seal of
  the header that recovers to that validator, or nil exactly when no seal of the header
  does. (An empty signature is no signature: \<^verbatim>\<open>SigToPub\<close> rejects it.)
\<close>

theorem ValidateAndGetCommitSeals_seals:
  assumes ok: "ValidateAndGetCommitSeals lib h = Inr newSeals"
    and sig: "\<And>hash. SigToPub lib hash [] = None"
  shows "length newSeals = length (ph_Validators h) \<and>
    (\<forall>i < length newSeals.
      (newSeals ! i = [] \<longleftrightarrow> \<not> committed lib h (ph_Validators h ! i)) \<and>
      (newSeals ! i \<noteq> [] \<longrightarrow> newSeals ! i \<in> set (ph_Seals h) \<and>
        (\<exists>header. GetSealingHeaderBytes lib h = Inr header \<and>
          ECRecoverAddress lib (Keccak256 lib header) (newSeals ! i) = Inr (ph_Validators h ! i))))"
proof -
  from ok obtain header vals where h: "GetSealingHeaderBytes lib h = Inr header"
    and r: "RecoverCommitterAddressesVals lib (Keccak256 lib header) (ph_Seals h) = Inr vals"
    and n: "newSeals = map (\<lambda>v. case vals v of None \<Rightarrow> [] | Some s \<Rightarrow> s) (ph_Validators h)"
    by (rule ValidateAndGetCommitSeals_Inr)
  have ne: "s \<noteq> []" if "ECRecoverAddress lib hash s = Inr a" for hash s a
    using that sig by (auto simp: ECRecoverAddress_def)
  have c: "committed lib h v \<longleftrightarrow> vals v \<noteq> None" for v
    unfolding recover_loop_dom(2) [OF r] by (simp add: committed_def h)
  have d: "s \<in> set (ph_Seals h) \<and> ECRecoverAddress lib (Keccak256 lib header) s = Inr v"
    if "vals v = Some s" for v s
    using recover_loop_dom(1) [OF r] that .
  then have "vals v \<noteq> Some []" for v using ne by blast
  with d show ?thesis
    by (auto simp: n c h split: option.splits)
qed

lemma ValidateAndGetCommitSeals_seals_witness:
  "\<not> committed toy_besu (toy_header [7] [[1], [3], [4]]) 2 \<and>
   committed toy_besu (toy_header [7] [[1], [3], [4]]) 3"
proof -
  have "SigToPub toy_besu hash [] = None" for hash by (simp add: toy_besu_def)
  from ValidateAndGetCommitSeals_seals [OF toy_header_valid(1) this, of "[7]"]
  have "\<forall>i < 4. ([[1], [], [3], [4]] ! i = ([] :: byte list)) =
      (\<not> committed toy_besu (toy_header [7] [[1], [3], [4]]) ([1, 2, 3, 4] ! i))"
    by (simp add: toy_header_def)
  from this [rule_format, of 1] this [rule_format, of 2] show ?thesis by simp
qed

text \<open>
  C34: what the threshold is for: two headers over the same set of distinct validators can
  both pass only if more than a third of the validators put a seal on both, so that with at
  most a third of them dishonest no two conflicting headers are accepted.
\<close>

theorem ValidateAndGetCommitSeals_intersect:
  assumes "ValidateAndGetCommitSeals lib h = Inr s" and "ValidateAndGetCommitSeals lib h' = Inr s'"
    and "ph_Validators h' = ph_Validators h" and "distinct (ph_Validators h)"
  shows "length (ph_Validators h) <
    3 * length (filter (\<lambda>v. committed lib h v \<and> committed lib h' v) (ph_Validators h))"
proof -
  let ?V = "ph_Validators h" and ?n = "length (ph_Validators h)"
  have split: "length (filter P xs) + length (filter Q xs) \<le> length xs + length (filter (\<lambda>x. P x \<and> Q x) xs)"
    for P Q :: "address \<Rightarrow> bool" and xs
    by (induction xs) auto
  have "2 * ?n < 3 * length (filter (committed lib h) ?V)"
    "2 * ?n < 3 * length (filter (committed lib h') ?V)"
    using quorum [OF assms(1)] quorum [OF assms(2)] assms(3) by simp_all
  with split [of "committed lib h" ?V "committed lib h'"] show ?thesis by linarith
qed

lemma ValidateAndGetCommitSeals_intersect_witness:
  "length [1 :: address, 2, 3, 4] < 3 * length (filter (\<lambda>v.
      committed toy_besu (toy_header [7] [[1], [3], [4]]) v \<and>
      committed toy_besu (toy_header [8] [[4], [3], [2]]) v) [1, 2, 3, 4])"
proof -
  have v: "ph_Validators (toy_header r s) = [1, 2, 3, 4]" for r s by (simp add: toy_header_def)
  show ?thesis
    by (rule ValidateAndGetCommitSeals_intersect [OF toy_header_valid(1) toy_header_valid(2), unfolded v])
      simp_all
qed

text \<open>
  The outcome on every branch, once the sealing header is encoded: a seal that does not
  recover makes the whole header fail; otherwise the seals of the validators are counted
  against two thirds of their number, and foreign or repeated seals do not count.
\<close>

theorem ValidateAndGetCommitSeals_outcome:
  assumes "GetSealingHeaderBytes lib h = Inr header"
  shows "ValidateAndGetCommitSeals lib h =
    (let n = length (ph_Validators h); c = length (filter (committed lib h) (ph_Validators h)) in
     if \<exists>seal \<in> set (ph_Seals h). SigToPub lib (Keccak256 lib header) seal = None then Inl Err_recover
     else if c \<le> 2 * n div 3 then Inl (Err_insufficient_voting c (2 * n div 3))
     else Inr (map (\<lambda>v. case filter (\<lambda>s. ECRecoverAddress lib (Keccak256 lib header) s = Inr v)
                          (rev (ph_Seals h)) of [] \<Rightarrow> [] | s # _ \<Rightarrow> s) (ph_Validators h)))"
proof (cases "RecoverCommitterAddressesVals lib (Keccak256 lib header) (ph_Seals h)")
  case (Inl e)
  with assms show ?thesis
    using recover_loop_error [of lib "Keccak256 lib header" "ph_Seals h" Map.empty e]
    by (simp add: ValidateAndGetCommitSeals_def RecoverCommitterAddressesVals_def)
next
  case (Inr vals)
  then have "\<not> (\<exists>seal \<in> set (ph_Seals h). SigToPub lib (Keccak256 lib header) seal = None)"
    using recover_loop_error [of lib "Keccak256 lib header" "ph_Seals h" Map.empty Err_recover]
    by (simp add: RecoverCommitterAddressesVals_def)
  moreover have "committed lib h = (\<lambda>v. vals v \<noteq> None)"
    unfolding fun_eq_iff recover_loop_dom(2) [OF Inr] by (simp add: committed_def assms)
  moreover have "(case vals v of None \<Rightarrow> [] | Some s \<Rightarrow> s) =
      (case filter (\<lambda>s. ECRecoverAddress lib (Keccak256 lib header) s = Inr v) (rev (ph_Seals h)) of
        [] \<Rightarrow> [] | s # _ \<Rightarrow> s)" for v
    using recover_loop_vals [of lib "Keccak256 lib header" "ph_Seals h" Map.empty vals v] Inr
    by (simp add: RecoverCommitterAddressesVals_def split: list.split)
  ultimately show ?thesis
    using assms Inr
    by (simp add: ValidateAndGetCommitSeals_def collect_seals_eq Let_def mult.commute not_le)
qed

lemma ValidateAndGetCommitSeals_outcome_witness:
  "ValidateAndGetCommitSeals toy_besu (toy_header [7] [[4], [4], [2]]) = Inl (Err_insufficient_voting 2 2) \<and>
   ValidateAndGetCommitSeals toy_besu (toy_header [7] [[1], [2], []]) = Inl Err_recover"
proof
  show "ValidateAndGetCommitSeals toy_besu (toy_header [7] [[4], [4], [2]]) = Inl (Err_insufficient_voting 2 2)"
    by (rule toy_header_valid)
  have "GetSealingHeaderBytes toy_besu (toy_header [7] [[1], [2], []]) = Inr [7]"
    by (simp add: GetSealingHeaderBytes_def toy_besu_def toy_header_def rlp_call_def)
  from ValidateAndGetCommitSeals_outcome [OF this]
  show "ValidateAndGetCommitSeals toy_besu (toy_header [7] [[1], [2], []]) = Inl Err_recover"
    by (simp add: toy_besu_def toy_header_def)
qed

end
