(* ===== verification/Besu_Client.thy ===== *)
theory Besu_Client
  imports Besu_Header Proto_Reader Big_Endian
begin

text \<open>
  \<^verbatim>\<open>pkg/client\<close>: receipts and their JSON form (\<^verbatim>\<open>besu.go\<close>, \<^verbatim>\<open>eth.go\<close>), the revert reason, Merkle
  proofs (\<^verbatim>\<open>proof.go\<close>) and the contract state a client of each type reports
  (\<^verbatim>\<open>contract.go\<close>, \<^verbatim>\<open>chain.go\<close>).

  Parameters are the JSON-RPC connection and the go-ethereum packages (record \<open>rpc_lib\<close>,
  extending \<open>besu_lib\<close>), the JSON decoding of a receipt into its struct of pointers, and the
  third-party \<^verbatim>\<open>retry.Do\<close>. A panic is an error value (\<open>Go_panic\<close>).
\<close>

datatype client_error =
    Err_invalid_length
  | Err_missing_field string
  | Err_rpc
  | Err_not_found
  | Err_json
  | Err_encode
  | Err_besu besu_error
  | Err_unauthorized
  | Go_panic

subsection \<open>Revert reasons\<close>

text \<open>
  \<^verbatim>\<open>size.Int64()\<close> of an integer that does not fit is its low 64 bits; the bounds of a slice
  expression are checked against the capacity, which is the length for a slice decoded by
  \<^verbatim>\<open>hexutil\<close>.
\<close>

definition parseRevertReason :: "byte list \<Rightarrow> client_error + string" where
  "parseRevertReason bz =
     (if length bz = 0 then Inr []
      else if length bz < 68 then Inl Err_invalid_length
      else let size = be_val (take 32 (drop 36 bz));
               hi = wrap64 (68 + sint (word_of_nat size :: 64 word))
           in if hi < 68 \<or> int (length bz) < hi then Inl Go_panic
              else Inr (bytes_str (take (nat hi - 68) (drop 68 bz))))"

subsection \<open>Receipts\<close>

text \<open>A nil slice of logs differs from an empty one in JSON, hence the option.\<close>

record 'l ethReceipt =
  rc_PostState :: "byte list"
  rc_Status :: "64 word"
  rc_CumulativeGasUsed :: "64 word"
  rc_Bloom :: "byte list"
  rc_Logs :: "'l list option"
  rc_TxHash :: "byte list"
  rc_ContractAddress :: address
  rc_GasUsed :: "64 word"
  rc_BlockHash :: "byte list"
  rc_BlockNumber :: "int option"
  rc_TransactionIndex :: "64 word"

record 'l besuReceipt = "'l ethReceipt" +
  rc_RevertReason :: "byte list"

definition ethReceipt_RevertReason :: "'l ethReceipt \<Rightarrow> string" where
  "ethReceipt_RevertReason rc = []"

definition besuReceipt_RevertReason :: "'l besuReceipt \<Rightarrow> client_error + string" where
  "besuReceipt_RevertReason rc =
     (case parseRevertReason (rc_RevertReason rc) of
        Inl e \<Rightarrow> Inl Go_panic
      | Inr reason \<Rightarrow> Inr reason)"








text \<open>
  \<^verbatim>\<open>besuClient.TransactionReceipt\<close>: the result of the call, \<^verbatim>\<open>NotFound\<close> for a JSON \<^verbatim>\<open>null\<close>
  (\<open>Inr None\<close>). \<^verbatim>\<open>ethClient.TransactionReceipt\<close> copies the fields of go-ethereum's receipt.
\<close>

definition besuClient_TransactionReceipt ::
  "client_error + 'l besuReceipt option \<Rightarrow> client_error + 'l besuReceipt" where
  "besuClient_TransactionReceipt rpc_result =
     bindr rpc_result (\<lambda>r. case r of None \<Rightarrow> Inl Err_not_found | Some r \<Rightarrow> Inr r)"

subsection \<open>Merkle proofs\<close>

record ETHProof =
  AccountProofRLP :: "byte list"
  StorageProofRLP :: "byte list list"

record ('hdr, 'vote, 's, 'pub, 'j) rpc_lib = "('hdr, 'vote, 's, 'pub) besu_lib" +
  rpc_BlockByNumber :: "int option \<Rightarrow> 'hdr option"
  hdr_Number :: "'hdr \<Rightarrow> int"
  hash_UnmarshalText :: "byte list \<Rightarrow> byte list option"
  rpc_getProof :: "address \<Rightarrow> byte list list \<Rightarrow> string \<Rightarrow> 'j option"
  json_proof :: "'j \<Rightarrow> (string list \<times> string list list) option"
  rlp_decode_slices :: "byte list \<Rightarrow> byte list list option"
  rlp_encode_nodes :: "byte list list list \<Rightarrow> byte list option"

definition hex_val :: "char \<Rightarrow> nat option" where
  "hex_val c = (let n = of_char c in
     if 48 \<le> n \<and> n < 58 then Some (n - 48)
     else if 97 \<le> n \<and> n < 103 then Some (n - 87)
     else if 65 \<le> n \<and> n < 71 then Some (n - 55) else None)"

text \<open>\<^verbatim>\<open>hex.DecodeString\<close>\<close>

fun hex_decode :: "string \<Rightarrow> byte list option" where
  "hex_decode [] = Some []"
| "hex_decode [c] = None"
| "hex_decode (c # d # cs) =
     (case (hex_val c, hex_val d, hex_decode cs) of
        (Some h, Some l, Some bs) \<Rightarrow> Some (word_of_nat (16 * h + l) # bs)
      | _ \<Rightarrow> None)"

definition hex_digit :: "nat \<Rightarrow> char" where
  "hex_digit d = char_of (if d < 10 then 48 + d else 87 + d)"

fun hex_nat :: "nat \<Rightarrow> string" where
  "hex_nat n = (if n < 16 then [hex_digit n] else hex_nat (n div 16) @ [hex_digit (n mod 16)])"

declare hex_nat.simps [simp del]

text \<open>\<^verbatim>\<open>blockNumber.Text(16)\<close>\<close>

definition big_Text16 :: "int \<Rightarrow> string" where
  "big_Text16 n = (if n < 0 then CHR ''-'' # hex_nat (nat (- n)) else hex_nat (nat n))"

fun decode_nodes ::
  "('hdr, 'vote, 's, 'pub, 'j) rpc_lib \<Rightarrow> string list \<Rightarrow> byte list list list \<Rightarrow> client_error + byte list list list"
where
  "decode_nodes lib [] target = Inr target"
| "decode_nodes lib (p # ps) target =
     (if length p < 2 then Inl Go_panic
      else case hex_decode (drop 2 p) of
        None \<Rightarrow> Inl Go_panic
      | Some bz \<Rightarrow> (case rlp_decode_slices lib bz of
          None \<Rightarrow> Inl Go_panic
        | Some val \<Rightarrow> decode_nodes lib ps (target @ [val])))"

definition encodeRLP ::
  "('hdr, 'vote, 's, 'pub, 'j) rpc_lib \<Rightarrow> string list \<Rightarrow> client_error + byte list" where
  "encodeRLP lib proof =
     bindr (decode_nodes lib proof []) (\<lambda>target.
       case rlp_encode_nodes lib target of None \<Rightarrow> Inl Err_encode | Some bz \<Rightarrow> Inr bz)"

fun unmarshal_keys ::
  "('hdr, 'vote, 's, 'pub, 'j) rpc_lib \<Rightarrow> byte list list \<Rightarrow> byte list list \<Rightarrow> client_error + byte list list" where
  "unmarshal_keys lib [] hashes = Inr hashes"
| "unmarshal_keys lib (k # ks) hashes =
     (case hash_UnmarshalText lib k of
        None \<Rightarrow> Inl Err_encode
      | Some h \<Rightarrow> unmarshal_keys lib ks (hashes @ [h]))"

definition getProof ::
  "('hdr, 'vote, 's, 'pub, 'j) rpc_lib \<Rightarrow> address \<Rightarrow> byte list list \<Rightarrow> string \<Rightarrow> client_error + 'j" where
  "getProof lib addr storageKeys blockNumber =
     bindr (unmarshal_keys lib storageKeys []) (\<lambda>hashes.
       case rpc_getProof lib addr hashes blockNumber of None \<Rightarrow> Inl Err_rpc | Some msg \<Rightarrow> Inr msg)"

text \<open>An error for one of the storage proofs is a panic, for the account proof it is returned.\<close>

fun encode_storage ::
  "('hdr, 'vote, 's, 'pub, 'j) rpc_lib \<Rightarrow> string list list \<Rightarrow> byte list list \<Rightarrow> client_error + byte list list" where
  "encode_storage lib [] acc = Inr acc"
| "encode_storage lib (p # ps) acc =
     (case encodeRLP lib p of
        Inl e \<Rightarrow> Inl Go_panic
      | Inr bz \<Rightarrow> encode_storage lib ps (acc @ [bz]))"

definition GetETHProof ::
  "('hdr, 'vote, 's, 'pub, 'j) rpc_lib \<Rightarrow> address \<Rightarrow> byte list list \<Rightarrow> int \<Rightarrow> client_error + ETHProof" where
  "GetETHProof lib addr storageKeys blockNumber =
     bindr (getProof lib addr storageKeys (''0x'' @ big_Text16 blockNumber)) (\<lambda>bz.
       case json_proof lib bz of
         None \<Rightarrow> Inl Err_json
       | Some (accountProof, storageProof) \<Rightarrow>
           bindr (encodeRLP lib accountProof) (\<lambda>account.
           bindr (encode_storage lib storageProof []) (\<lambda>storage.
             Inr \<lparr>AccountProofRLP = account, StorageProofRLP = storage\<rparr>)))"

subsection \<open>Contract state\<close>

datatype ('hdr, 'vote) contract_state =
    ETHContractState 'hdr ETHProof
  | IBFT2ContractState "('hdr, 'vote) ParsedHeader" ETHProof "byte list list"

fun cs_Header :: "('hdr, 'vote) contract_state \<Rightarrow> 'hdr" where
  "cs_Header (ETHContractState header ethProof) = header"
| "cs_Header (IBFT2ContractState parsed ethProof seals) = ph_Base parsed"

fun cs_ETHProof :: "('hdr, 'vote) contract_state \<Rightarrow> ETHProof" where
  "cs_ETHProof (ETHContractState header ethProof) = ethProof"
| "cs_ETHProof (IBFT2ContractState parsed ethProof seals) = ethProof"

definition besu_call :: "besu_error + 'a \<Rightarrow> client_error + 'a" where
  "besu_call r = (case r of Inl e \<Rightarrow> Inl (Err_besu e) | Inr x \<Rightarrow> Inr x)"

definition block_by_number ::
  "('hdr, 'vote, 's, 'pub, 'j) rpc_lib \<Rightarrow> int option \<Rightarrow> client_error + 'hdr" where
  "block_by_number lib bn = (case rpc_BlockByNumber lib bn of None \<Rightarrow> Inl Err_rpc | Some b \<Rightarrow> Inr b)"

definition GetMockContractState ::
  "('hdr, 'vote, 's, 'pub, 'j) rpc_lib \<Rightarrow> address \<Rightarrow> byte list list \<Rightarrow> int option \<Rightarrow>
   client_error + ('hdr, 'vote) contract_state" where
  "GetMockContractState lib addr storageKeys bn =
     bindr (block_by_number lib bn) (\<lambda>block.
       Inr (ETHContractState block
         \<lparr>AccountProofRLP = [], StorageProofRLP = replicate (length storageKeys) []\<rparr>))"

definition GetIBFT2ContractState ::
  "('hdr, 'vote, 's, 'pub, 'j) rpc_lib \<Rightarrow> address \<Rightarrow> byte list list \<Rightarrow> int option \<Rightarrow>
   client_error + ('hdr, 'vote) contract_state" where
  "GetIBFT2ContractState lib addr storageKeys bn =
     bindr (block_by_number lib bn) (\<lambda>block.
     bindr (GetETHProof lib addr storageKeys (hdr_Number lib block)) (\<lambda>proof.
     bindr (besu_call (ParseHeader (besu_lib.truncate lib) block)) (\<lambda>parsed.
     bindr (besu_call (ValidateAndGetCommitSeals (besu_lib.truncate lib) parsed)) (\<lambda>seals.
       Inr (IBFT2ContractState parsed proof seals)))))"

definition BesuIBFT2Client :: string where
  "BesuIBFT2Client = ''hyperledger-besu-ibft2''"

definition MockClient :: string where
  "MockClient = ''mock-client''"

definition GetContractState ::
  "('hdr, 'vote, 's, 'pub, 'j) rpc_lib \<Rightarrow> string \<Rightarrow> address \<Rightarrow> byte list list \<Rightarrow> int option \<Rightarrow>
   client_error + ('hdr, 'vote) contract_state" where
  "GetContractState lib clientType addr storageKeys bn =
     (if clientType = BesuIBFT2Client then GetIBFT2ContractState lib addr storageKeys bn
      else if clientType = MockClient then GetMockContractState lib addr storageKeys bn
      else Inl Go_panic)"

text \<open>\<^verbatim>\<open>IBFT2ContractState.Validators\<close>: the addresses as 20 bytes.\<close>

fun cs_Validators :: "('hdr, 'vote) contract_state \<Rightarrow> byte list list" where
  "cs_Validators (IBFT2ContractState parsed ethProof seals) = map (\<lambda>a. be_bytes 20 (unat a)) (ph_Validators parsed)"
| "cs_Validators (ETHContractState header ethProof) = []"

definition SealingHeaderRLP ::
  "('hdr, 'vote, 's, 'pub) besu_lib \<Rightarrow> ('hdr, 'vote) ParsedHeader \<Rightarrow> client_error + byte list" where
  "SealingHeaderRLP lib parsed =
     (case GetSealingHeaderBytes lib parsed of Inl e \<Rightarrow> Inl Go_panic | Inr bz \<Rightarrow> Inr bz)"

subsection \<open>Waiting for a receipt\<close>

text \<open>
  \<^verbatim>\<open>retry.Do\<close> calls its argument until it succeeds or the attempts are used up. It is a
  parameter: \<open>retry attempts f\<close> is the error or the result of the last call, where \<open>f i\<close> is
  the outcome of the \<open>i\<close>-th call.
\<close>

definition WaitForReceiptAndGet ::
  "(nat \<Rightarrow> (nat \<Rightarrow> client_error + 'r) \<Rightarrow> client_error + 'r) \<Rightarrow> (nat \<Rightarrow> client_error + 'r) \<Rightarrow> client_error + 'r" where
  "WaitForReceiptAndGet retry transactionReceipt = bindr (retry 10 transactionReceipt) (\<lambda>receipt. Inr receipt)"

subsection \<open>Signing\<close>

text \<open>
  \<^verbatim>\<open>MakeGenTxOpts\<close>: the options carry a signer that refuses every address but the key's own.
  The EIP-155 signer and the curve are parameters: \<open>sign tx\<close> is \<^verbatim>\<open>Sign\<close> on the transaction
  hash, \<open>with_signature\<close> is \<^verbatim>\<open>WithSignature\<close>.
\<close>

record 'tx TransactOpts =
  opts_From :: address
  opts_GasLimit :: nat
  opts_Signer :: "address \<Rightarrow> 'tx \<Rightarrow> client_error + 'tx"

definition MakeGenTxOpts ::
  "address \<Rightarrow> ('tx \<Rightarrow> byte list option) \<Rightarrow> ('tx \<Rightarrow> byte list \<Rightarrow> 'tx option) \<Rightarrow> 'tx TransactOpts" where
  "MakeGenTxOpts addr sign with_signature =
     \<lparr>opts_From = addr, opts_GasLimit = 6382056,
      opts_Signer = (\<lambda>addr' tx.
        if addr' \<noteq> addr then Inl Err_unauthorized
        else case sign tx of
          None \<Rightarrow> Inl Err_encode
        | Some signature \<Rightarrow> (case with_signature tx signature of None \<Rightarrow> Inl Err_encode | Some tx' \<Rightarrow> Inr tx'))\<rparr>"

subsection \<open>Lemmas\<close>

lemma encode_storage_length:
  "encode_storage lib ps acc = Inr r \<Longrightarrow> length r = length acc + length ps"
  by (induction ps arbitrary: acc) (auto split: sum.splits)

lemma decode_nodes_ok:
  assumes "\<And>p. p \<in> set ps \<Longrightarrow> 2 \<le> length p \<and>
    (\<exists>bz val. hex_decode (drop 2 p) = Some bz \<and> rlp_decode_slices lib bz = Some val)"
  shows "\<exists>target. decode_nodes lib ps acc = Inr target \<and> length target = length acc + length ps"
  using assms
proof (induction ps arbitrary: acc)
  case (Cons p ps)
  from Cons.prems [of p] obtain bz val where "2 \<le> length p" "hex_decode (drop 2 p) = Some bz"
    "rlp_decode_slices lib bz = Some val" by auto
  moreover from Cons.IH [of "acc @ [val]"] Cons.prems
  have "\<exists>target. decode_nodes lib ps (acc @ [val]) = Inr target \<and> length target = length acc + Suc (length ps)"
    by simp
  ultimately show ?case by simp
qed simp

lemma GetIBFT2ContractState_Inr:
  assumes "GetIBFT2ContractState lib addr keys bn = Inr st"
  obtains block ethProof parsed seals where "rpc_BlockByNumber lib bn = Some block"
    and "GetETHProof lib addr keys (hdr_Number lib block) = Inr ethProof"
    and "ParseHeader (besu_lib.truncate lib) block = Inr parsed"
    and "ValidateAndGetCommitSeals (besu_lib.truncate lib) parsed = Inr seals"
    and "st = IBFT2ContractState parsed ethProof seals"
  using assms
  by (auto simp: GetIBFT2ContractState_def result_simps block_by_number_def besu_call_def
      split: option.splits sum.splits)

lemma ParseHeader_Base: "ParseHeader lib header = Inr parsed \<Longrightarrow> ph_Base parsed = header"
  by (auto simp: ParseHeader_def result_simps)

lemma parseRevertReason_cases:
  assumes "length bz < 2 ^ 63"
  shows "parseRevertReason bz =
    (let n = sint (word_of_nat (be_val (take 32 (drop 36 bz))) :: 64 word) in
     if bz = [] then Inr []
     else if length bz < 68 then Inl Err_invalid_length
     else if 0 \<le> n \<and> 68 + n \<le> int (length bz) then Inr (bytes_str (take (nat n) (drop 68 bz)))
     else Inl Go_panic)"
proof -
  let ?n = "sint (word_of_nat (be_val (take 32 (drop 36 bz))) :: 64 word)"
  have n: "- (2 ^ 63) \<le> ?n" "?n < 2 ^ 63" by (rule sint_bounds)+
  show ?thesis
  proof (cases "0 \<le> ?n")
    case True
    then have "wrap64 (68 + ?n) < 0 \<or> wrap64 (68 + ?n) = 68 + ?n"
      using n by (intro wrap64_sum) simp_all
    moreover have "wrap64 (68 + ?n) = 68 + ?n" if "68 + ?n \<le> int (length bz)"
      using that assms n True by (intro wrap64_small) simp_all
    ultimately show ?thesis
      using True by (auto simp: parseRevertReason_def Let_def nat_add_distrib)
  next
    case False
    then have "wrap64 (68 + ?n) = 68 + ?n" using n by (intro wrap64_small) simp_all
    with False show ?thesis by (auto simp: parseRevertReason_def Let_def)
  qed
qed

text \<open>The ABI encoding of \<^verbatim>\<open>Error(string)\<close>, as a contract reverts with it.\<close>

definition abi_error :: "string \<Rightarrow> byte list" where
  "abi_error s = [0x08, 0xc3, 0x79, 0xa0] @ be_bytes 32 32 @ be_bytes 32 (length s) @ str_bytes s @
     replicate ((32 - length s mod 32) mod 32) 0"

lemma abi_error_length_word: "take 32 (drop 36 (abi_error s)) = be_bytes 32 (length s)"
  by (simp add: abi_error_def drop_append)

subsection \<open>Properties\<close>



text \<open>
  The reason given to \<^verbatim>\<open>revert\<close> or \<^verbatim>\<open>require\<close> in a contract arrives unchanged: parsing
  inverts the ABI encoding of \<^verbatim>\<open>Error(string)\<close>.
\<close>

theorem parseRevertReason_abi:
  assumes "length s < 2 ^ 62"
  shows "parseRevertReason (abi_error s) = Inr s"
proof -
  have l: "length (abi_error s) = 68 + length s + (32 - length s mod 32) mod 32"
    by (simp add: abi_error_def)
  moreover have "(32 - length s mod 32) mod 32 < 32" by simp
  ultimately have len: "length (abi_error s) < 2 ^ 63" "68 + length s \<le> length (abi_error s)"
    using assms by simp_all
  have "be_val (be_bytes 32 (length s)) = length s"
    using assms by (simp add: be_val_be_bytes)
  then have n: "sint (word_of_nat (be_val (take 32 (drop 36 (abi_error s)))) :: 64 word) = int (length s)"
    unfolding abi_error_length_word using assms by (simp add: sint_of_nat)
  have d: "take (length s) (drop 68 (abi_error s)) = str_bytes s" by (simp add: abi_error_def)
  have "abi_error s \<noteq> []" by (simp add: abi_error_def)
  with len n d show ?thesis
    using parseRevertReason_cases [OF len(1)] by (simp add: Let_def)
qed

lemma parseRevertReason_abi_witness:
  "parseRevertReason (abi_error ''not enough balance'') = Inr ''not enough balance'' \<and>
   length (abi_error ''not enough balance'') = 100"
  using parseRevertReason_abi [of "''not enough balance''"] by (simp add: abi_error_def)



text \<open>
  C35: an IBFT 2.0 client only ever reports a contract state whose header more than two thirds
  of its validators have sealed, with one (possibly nil) commit seal per validator and the
  header of the block asked for; a client of an unknown type panics.
\<close>

theorem GetContractState_IBFT2_quorum:
  assumes "GetContractState lib BesuIBFT2Client addr keys bn = Inr st"
  shows "\<exists>parsed ethProof seals. st = IBFT2ContractState parsed ethProof seals \<and>
    rpc_BlockByNumber lib bn = Some (cs_Header st) \<and>
    length seals = length (cs_Validators st) \<and>
    2 * length (ph_Validators parsed) <
      3 * length (filter (committed (besu_lib.truncate lib) parsed) (ph_Validators parsed))"
proof -
  from assms have "GetIBFT2ContractState lib addr keys bn = Inr st" by (simp add: GetContractState_def)
  then obtain block ethProof parsed seals where b: "rpc_BlockByNumber lib bn = Some block"
    and p: "ParseHeader (besu_lib.truncate lib) block = Inr parsed"
    and v: "ValidateAndGetCommitSeals (besu_lib.truncate lib) parsed = Inr seals"
    and st: "st = IBFT2ContractState parsed ethProof seals"
    by (rule GetIBFT2ContractState_Inr)
  from v have "length seals = length (ph_Validators parsed)"
    by (rule ValidateAndGetCommitSeals_Inr) simp
  with b st ParseHeader_Base [OF p] quorum [OF v] show ?thesis by simp
qed

definition toy_rpc :: "(byte list, unit, unit, byte, string list list) rpc_lib" where
  "toy_rpc = besu_lib.extend toy_besu
     \<lparr>rpc_BlockByNumber = (\<lambda>bn. Some [3]), hdr_Number = (\<lambda>_. 7), hash_UnmarshalText = Some,
      rpc_getProof = (\<lambda>a ks n. Some (map (\<lambda>_. []) ks)), json_proof = (\<lambda>j. Some ([], j)),
      rlp_decode_slices = (\<lambda>bz. Some [bz]), rlp_encode_nodes = (\<lambda>ns. Some [])\<rparr>"

text \<open>The toy library with one validator, who sealed the header.\<close>

definition toy_rpc1 :: "(byte list, unit, unit, byte, string list list) rpc_lib" where
  "toy_rpc1 = toy_rpc\<lparr>rlp_Addresses := (\<lambda>s. Some ([9], s)), rlp_Slices := (\<lambda>s. Some ([[9]], s))\<rparr>"

lemma GetContractState_IBFT2_quorum_witness:
  "\<exists>st. GetContractState toy_rpc1 BesuIBFT2Client 0 [] None = Inr st \<and> length (cs_Validators st) = 1 \<and>
     rpc_BlockByNumber toy_rpc1 None = Some (cs_Header st)"
proof -
  let ?p = "\<lparr>ph_Base = [3], ph_Vanity = replicate 32 0, ph_Validators = [9], ph_Vote = (),
     ph_Round = replicate 4 0, ph_Seals = [[9]]\<rparr>"
  have s: "GetContractState toy_rpc1 BesuIBFT2Client 0 [] None =
      Inr (IBFT2ContractState ?p \<lparr>AccountProofRLP = [], StorageProofRLP = []\<rparr> [[9]])"
    by (simp add: GetContractState_def GetIBFT2ContractState_def block_by_number_def toy_rpc1_def toy_rpc_def
        toy_besu_def besu_lib.defs GetETHProof_def getProof_def encodeRLP_def besu_call_def ParseHeader_def
        rlp_call_def ValidateAndGetCommitSeals_def GetSealingHeaderBytes_def RecoverCommitterAddressesVals_def
        ECRecoverAddress_def)
  from GetContractState_IBFT2_quorum [OF s] s show ?thesis by auto
qed

text \<open>
  Whatever the client type, a query for storage keys that succeeds carries one storage
  proof per requested key, provided the node answers \<^verbatim>\<open>eth_getProof\<close> with one proof per hash;
  so \<^verbatim>\<open>StorageProofRLP[0]\<close> in the relayer's \<^verbatim>\<open>QueryProof\<close> is in range.
\<close>

theorem GetContractState_proofs:
  assumes "GetContractState lib clientType addr keys bn = Inr st"
    and rpc: "\<And>hashes n msg account storage. rpc_getProof lib addr hashes n = Some msg \<Longrightarrow>
      json_proof lib msg = Some (account, storage) \<Longrightarrow> length storage = length hashes"
  shows "length (StorageProofRLP (cs_ETHProof st)) = length keys"
proof -
  have keys: "length hs = length acc + length ks" if "unmarshal_keys lib ks acc = Inr hs" for ks acc hs
    using that by (induction ks arbitrary: acc) (auto split: option.splits)
  show ?thesis
  proof (cases "clientType = BesuIBFT2Client")
    case True
    with assms(1) have "GetIBFT2ContractState lib addr keys bn = Inr st" by (simp add: GetContractState_def)
    then obtain block ethProof parsed seals where
      g: "GetETHProof lib addr keys (hdr_Number lib block) = Inr ethProof"
      and st: "st = IBFT2ContractState parsed ethProof seals"
      by (rule GetIBFT2ContractState_Inr)
    from g obtain hashes n msg account storage where u: "unmarshal_keys lib keys [] = Inr hashes"
      and r: "rpc_getProof lib addr hashes n = Some msg" "json_proof lib msg = Some (account, storage)"
      and e: "encode_storage lib storage [] = Inr (StorageProofRLP ethProof)"
      by (auto simp: GetETHProof_def getProof_def result_simps split: option.splits)
    with keys [OF u] encode_storage_length [OF e] rpc [OF r] st show ?thesis by simp
  next
    case False
    with assms(1) have "GetMockContractState lib addr keys bn = Inr st"
      by (auto simp: GetContractState_def split: if_splits)
    then show ?thesis by (auto simp: GetMockContractState_def result_simps)
  qed
qed

lemma GetContractState_proofs_witness:
  "\<exists>st. GetContractState toy_rpc MockClient 0 [[1], [2]] None = Inr st \<and>
     length (StorageProofRLP (cs_ETHProof st)) = 2"
proof -
  have s: "GetContractState toy_rpc MockClient 0 [[1], [2]] None =
      Inr (ETHContractState [3] \<lparr>AccountProofRLP = [], StorageProofRLP = [[], []]\<rparr>)"
    by (simp add: GetContractState_def GetMockContractState_def BesuIBFT2Client_def MockClient_def
        block_by_number_def toy_rpc_def besu_lib.defs numeral_2_eq_2)
  have "length storage = length hashes"
    if "rpc_getProof toy_rpc 0 hashes n = Some msg" "json_proof toy_rpc msg = Some (account, storage)"
    for hashes n msg account storage
    using that by (auto simp: toy_rpc_def besu_lib.defs)
  from GetContractState_proofs [OF s this] s show ?thesis by simp
qed

end
