(* ===== verification/Relayer.thy ===== *)
theory Relayer
  imports IBC_Channel Mock_Client Besu_Client
begin

text \<open>
  \<^verbatim>\<open>pkg/testing/chains.go\<close>: what the relayer does on one chain for each message of the
  handshakes and of the packet life cycle, with the queries that make the proofs.

  A \<open>chain\<close> is a Go \<^verbatim>\<open>Chain\<close> together with the contracts it drives: the host's storage
  (\<open>ch_host\<close>, read by the getters, which return the contract's values) and the environment
  in which the host sees the handler's calls (\<open>ch_env\<close>). Its node is a parameter: the libraries
  of \<^verbatim>\<open>Besu_Client\<close> (\<open>ch_node\<close>), which answer requests for a block of a given number, and what the
  node says of its latest block whenever it is polled (\<open>ch_heads\<close>, one list of answers for
  each future call of \<^verbatim>\<open>UpdateHeader\<close>: those it gets within its 30 seconds). \<open>ch_any\<close> is the
  protobuf library's \<^verbatim>\<open>Any\<close>. A transaction that reverts is an error of
  \<^verbatim>\<open>WaitIfNoError\<close>; one that succeeds leaves the new storage. A panic is an error, too. The handler
  passes client and connection messages on to \<^verbatim>\<open>IBCClient\<close> and \<^verbatim>\<open>IBCConnection\<close> unchanged; the
  channel and packet steps here are those of \<^verbatim>\<open>IBCChannel\<close>, without the module callbacks of the
  handler.
\<close>

record Proof =
  pf_Height :: "64 word"
  pf_Data :: "byte list"

record TestChannel =
  tch_PortID :: string
  tch_ID :: string
  tch_ClientID :: string
  tch_CounterpartyClientID :: string
  tch_Version :: string

record TestConnection =
  tc_ID :: string
  tc_ClientID :: string
  tc_CounterpartyClientID :: string
  tc_NextChannelVersion :: string
  tc_Channels :: "TestChannel list"

text \<open>The fields of go-ethereum's block header that the relayer reads.\<close>

record geth_header =
  gh_Number :: int
  gh_Time :: "64 word"
  gh_Root :: "byte list"
  gh_Extra :: "byte list"

type_synonym node_lib = "(geth_header, byte list, byte list, byte list, byte list) rpc_lib"

type_synonym node_state = "(geth_header, byte list) contract_state"

record chain =
  ch_ClientType :: string
  ch_chainID :: "64 word"
  ch_HostAddress :: address
  ch_env :: cenv
  ch_host :: host
  ch_any :: any_lib
  ch_node :: node_lib
  ch_heads :: "geth_header option list list"
  ch_LastContractState :: "node_state option"
  ch_Connections :: "TestConnection list"

definition DefaultChannelVersion :: string where "DefaultChannelVersion = ''ics20-1''"
definition DefaultDelayPeriod :: "64 word" where "DefaultDelayPeriod = 0"
definition DefaultPrefix :: string where "DefaultPrefix = ''ibc''"
definition TransferPort :: string where "TransferPort = ''transfer''"

definition GetCommitmentPrefix :: "byte list" where
  "GetCommitmentPrefix = str_bytes DefaultPrefix"

definition ConstructNextTestConnection :: "string \<Rightarrow> string \<Rightarrow> TestConnection" where
  "ConstructNextTestConnection clientID counterpartyClientID =
     \<lparr>tc_ID = [], tc_ClientID = clientID, tc_CounterpartyClientID = counterpartyClientID,
      tc_NextChannelVersion = DefaultChannelVersion, tc_Channels = []\<rparr>"

definition NextTestChannel :: "TestConnection \<Rightarrow> string \<Rightarrow> TestChannel" where
  "NextTestChannel conn portID =
     \<lparr>tch_PortID = portID, tch_ID = [], tch_ClientID = tc_ClientID conn,
      tch_CounterpartyClientID = tc_CounterpartyClientID conn, tch_Version = tc_NextChannelVersion conn\<rparr>"

definition AddTestChannel :: "TestConnection \<Rightarrow> string \<Rightarrow> TestConnection \<times> TestChannel" where
  "AddTestChannel conn portID =
     (let channel = NextTestChannel conn portID
      in (conn\<lparr>tc_Channels := tc_Channels conn @ [channel]\<rparr>, channel))"

definition packetToCallData :: "Packet \<Rightarrow> PacketData" where
  "packetToCallData packet =
     \<lparr>pd_Sequence = pkt_Sequence packet, pd_SourcePort = pkt_SourcePort packet,
      pd_SourceChannel = pkt_SourceChannel packet, pd_DestinationPort = pkt_DestinationPort packet,
      pd_DestinationChannel = pkt_DestinationChannel packet, pd_Data = pkt_Data packet,
      pd_TimeoutHeight = \<lparr>hd_RevisionNumber = ht_RevisionNumber (pkt_TimeoutHeight packet),
        hd_RevisionHeight = ht_RevisionHeight (pkt_TimeoutHeight packet)\<rparr>,
      pd_TimeoutTimestamp = pkt_TimeoutTimestamp packet\<rparr>"

subsection \<open>Slots and proofs\<close>

definition hex_encode :: "byte list \<Rightarrow> string" where
  "hex_encode bs = concat (map (\<lambda>b. [hex_digit (unat b div 16), hex_digit (unat b mod 16)]) bs)"

definition ClientStateCommitmentSlot :: "chain \<Rightarrow> string \<Rightarrow> string" where
  "ClientStateCommitmentSlot chain clientID =
     ''0x'' @ hex_encode (clientStateCommitmentSlot (ch_env chain) clientID)"

definition ConnectionStateCommitmentSlot :: "chain \<Rightarrow> string \<Rightarrow> string" where
  "ConnectionStateCommitmentSlot chain connectionID =
     ''0x'' @ hex_encode (connectionCommitmentSlot (ch_env chain) connectionID)"

definition ChannelStateCommitmentSlot :: "chain \<Rightarrow> string \<Rightarrow> string \<Rightarrow> string" where
  "ChannelStateCommitmentSlot chain portID channelID =
     ''0x'' @ hex_encode (channelCommitmentSlot (ch_env chain) portID channelID)"

definition PacketCommitmentSlot :: "chain \<Rightarrow> string \<Rightarrow> string \<Rightarrow> 64 word \<Rightarrow> string" where
  "PacketCommitmentSlot chain portID channelID sequence =
     ''0x'' @ hex_encode (packetCommitmentSlot (ch_env chain) portID channelID sequence)"

definition PacketAcknowledgementCommitmentSlot :: "chain \<Rightarrow> string \<Rightarrow> string \<Rightarrow> 64 word \<Rightarrow> string" where
  "PacketAcknowledgementCommitmentSlot chain portID channelID sequence =
     ''0x'' @ hex_encode (packetAcknowledgementCommitmentSlot (ch_env chain) portID channelID sequence)"

definition pb_call :: "pb_error + 'a \<Rightarrow> string + 'a" where
  "pb_call r = (case r of Inl _ \<Rightarrow> Inl ''proto: marshal'' | Inr x \<Rightarrow> Inr x)"

definition any_call :: "pb_error any_error + 'a \<Rightarrow> string + 'a" where
  "any_call r = (case r of Inl _ \<Rightarrow> Inl ''panic'' | Inr x \<Rightarrow> Inr x)"

definition node_call :: "client_error + 'a \<Rightarrow> string + 'a" where
  "node_call r = (case r of Inl _ \<Rightarrow> Inl ''node'' | Inr x \<Rightarrow> Inr x)"

definition GetIBFT2ClientState :: "chain \<Rightarrow> string \<Rightarrow> string + IBFT2_ClientState" where
  "GetIBFT2ClientState chain clientID =
     (let (bz, found) = getClientState clientID (ch_host chain)
      in if \<not> found then Inl ''clientState not found''
         else any_call (UnmarshalWithAny (ch_any chain) IBFT2_ClientState_type bz))"

definition GetMockClientState :: "chain \<Rightarrow> string \<Rightarrow> string + Mock_ClientState" where
  "GetMockClientState chain clientID =
     (let (bz, found) = getClientState clientID (ch_host chain)
      in if \<not> found then Inl ''clientState not found''
         else any_call (UnmarshalWithAny (ch_any chain) Mock_ClientState_type bz))"

text \<open>
  Without a height the state is that of the latest height the counterparty's client knows;
  \<^verbatim>\<open>int64\<close> reads the \<^verbatim>\<open>uint64\<close> as signed.
\<close>

definition state_height :: "chain \<Rightarrow> string \<Rightarrow> int option \<Rightarrow> string + int" where
  "state_height counterparty counterpartyClientID height =
     (case height of
        Some n \<Rightarrow> Inr n
      | None \<Rightarrow>
          if ch_ClientType counterparty = MockClient then
            bindr (GetMockClientState counterparty counterpartyClientID) (\<lambda>cs. Inr (sint (mcs_LatestHeight cs)))
          else if ch_ClientType counterparty = BesuIBFT2Client then
            bindr (GetIBFT2ClientState counterparty counterpartyClientID) (\<lambda>cs. Inr (sint (bcs_LatestHeight cs)))
          else Inl (''unknown client type: '' @ ch_ClientType counterparty))"

definition Chain_GetContractState ::
  "chain \<Rightarrow> chain \<Rightarrow> string \<Rightarrow> byte list list \<Rightarrow> int option \<Rightarrow> string + node_state"
where
  "Chain_GetContractState chain counterparty counterpartyClientID storageKeys height =
     bindr (state_height counterparty counterpartyClientID height) (\<lambda>n.
     node_call (GetContractState (ch_node chain) (ch_ClientType chain) (ch_HostAddress chain) storageKeys (Some n)))"

text \<open>\<^verbatim>\<open>QueryProof\<close> refuses a key that is not a hex string and takes the first storage proof.\<close>

definition QueryProof :: "chain \<Rightarrow> chain \<Rightarrow> string \<Rightarrow> string \<Rightarrow> int option \<Rightarrow> string + Proof" where
  "QueryProof chain counterparty counterpartyClientID storageKey height =
     (if take 2 storageKey \<noteq> ''0x'' then Inl ''storageKey must be hex string''
      else bindr (Chain_GetContractState chain counterparty counterpartyClientID [str_bytes storageKey] height) (\<lambda>s.
        case StorageProofRLP (cs_ETHProof s) of
          [] \<Rightarrow> Inl ''index out of range''
        | data # _ \<Rightarrow> Inr \<lparr>pf_Height = word_of_int (gh_Number (cs_Header s)), pf_Data = data\<rparr>))"

definition QueryClientProof ::
  "chain \<Rightarrow> chain \<Rightarrow> string \<Rightarrow> int option \<Rightarrow> string + byte list \<times> Proof"
where
  "QueryClientProof counterparty chain counterpartyClientID height =
     (let (cs, found) = getClientState counterpartyClientID (ch_host counterparty)
      in if \<not> found then Inl (''client not found: '' @ counterpartyClientID)
         else bindr (QueryProof counterparty chain counterpartyClientID
           (ClientStateCommitmentSlot chain counterpartyClientID) height) (\<lambda>prf.
         Inr (cs, if ch_ClientType counterparty = MockClient then prf\<lparr>pf_Data := sha256 cs\<rparr> else prf)))"

definition QueryConnectionProof ::
  "chain \<Rightarrow> chain \<Rightarrow> string \<Rightarrow> string \<Rightarrow> int option \<Rightarrow> string + Proof"
where
  "QueryConnectionProof counterparty chain counterpartyClientID counterpartyConnectionID height =
     bindr (QueryProof counterparty chain counterpartyClientID
       (ConnectionStateCommitmentSlot chain counterpartyConnectionID) height) (\<lambda>prf.
     if ch_ClientType counterparty = MockClient then
       let (conn, found) = getConnection counterpartyConnectionID (ch_host counterparty)
       in if \<not> found then Inl (''connection not found: '' @ counterpartyConnectionID)
          else bindr (pb_call (ConnectionEnd_Marshal (connectionEndToPB conn))) (\<lambda>bz.
            Inr (prf\<lparr>pf_Data := sha256 bz\<rparr>))
     else Inr prf)"

definition QueryChannelProof ::
  "chain \<Rightarrow> chain \<Rightarrow> string \<Rightarrow> TestChannel \<Rightarrow> int option \<Rightarrow> string + Proof"
where
  "QueryChannelProof counterparty chain counterpartyClientID channel height =
     bindr (QueryProof counterparty chain counterpartyClientID
       (ChannelStateCommitmentSlot chain (tch_PortID channel) (tch_ID channel)) height) (\<lambda>prf.
     if ch_ClientType counterparty = MockClient then
       let (ch, found) = getChannel (tch_PortID channel) (tch_ID channel) (ch_host counterparty)
       in if \<not> found then Inl ''channel not found''
          else bindr (pb_call (Channel_Marshal (channelToPB ch))) (\<lambda>bz.
            Inr (prf\<lparr>pf_Data := sha256 bz\<rparr>))
     else Inr prf)"

subsection \<open>Transactions\<close>

text \<open>\<^verbatim>\<open>WaitIfNoError\<close> around a transaction to the handler.\<close>

definition run_tx :: "sol_error + 'a \<Rightarrow> string + 'a" where
  "run_tx r = (case r of Inl _ \<Rightarrow> Inl ''failed to call transaction'' | Inr x \<Rightarrow> Inr x)"

text \<open>\<^verbatim>\<open>getLastID\<close>: the argument of the last event of the kind asked for.\<close>

definition last_id :: "string list \<Rightarrow> string + string" where
  "last_id ids = (if ids = [] then Inl ''no items'' else Inr (last ids))"

definition GetLastGeneratedConnectionID :: "chain \<Rightarrow> string + string" where
  "GetLastGeneratedConnectionID chain =
     last_id (concat (map (\<lambda>e. case e of GeneratedConnectionIdentifier i \<Rightarrow> [i] | _ \<Rightarrow> []) (events (ch_host chain))))"

definition GetLastGeneratedChannelID :: "chain \<Rightarrow> string + string" where
  "GetLastGeneratedChannelID chain =
     last_id (concat (map (\<lambda>e. case e of GeneratedChannelIdentifier i \<Rightarrow> [i] | _ \<Rightarrow> []) (events (ch_host chain))))"

definition GetLastGeneratedClientID :: "chain \<Rightarrow> string + string" where
  "GetLastGeneratedClientID chain =
     last_id (concat (map (\<lambda>e. case e of GeneratedClientIdentifier i \<Rightarrow> [i] | _ \<Rightarrow> []) (events (ch_host chain))))"

subsection \<open>Headers and clients\<close>

definition ChainIDString :: "chain \<Rightarrow> string" where
  "ChainIDString chain =
     (let n = sint (ch_chainID chain) in if n < 0 then CHR ''-'' # dec (nat (- n)) else dec (nat n))"

definition LastHeader :: "chain \<Rightarrow> string + geth_header" where
  "LastHeader chain =
     (case ch_LastContractState chain of None \<Rightarrow> Inl ''nil pointer'' | Some s \<Rightarrow> Inr (cs_Header s))"

text \<open>
  The loop of \<^verbatim>\<open>UpdateHeader\<close>: the node is polled until it has a block later than the last one seen.
  When the time is over the next poll fails.
\<close>

fun poll_header :: "chain \<Rightarrow> geth_header option list \<Rightarrow> string + node_state" where
  "poll_header chain [] = Inl ''context deadline exceeded''"
| "poll_header chain (block # later) =
     bindr (node_call (GetContractState ((ch_node chain)\<lparr>rpc_BlockByNumber := \<lambda>_. block\<rparr>) (ch_ClientType chain)
       (ch_HostAddress chain) [] None)) (\<lambda>state.
     if (case ch_LastContractState chain of None \<Rightarrow> True
         | Some s \<Rightarrow> gh_Number (cs_Header state) > gh_Number (cs_Header s))
     then Inr state else poll_header chain later)"

definition UpdateHeader :: "chain \<Rightarrow> string + chain" where
  "UpdateHeader chain =
     (case ch_heads chain of
        [] \<Rightarrow> Inl ''context deadline exceeded''
      | heads # later \<Rightarrow> bindr (poll_header chain heads) (\<lambda>state.
          Inr (chain\<lparr>ch_LastContractState := Some state, ch_heads := later\<rparr>)))"

definition ConstructMockMsgCreateClient :: "chain \<Rightarrow> chain \<Rightarrow> string + MsgCreateClient" where
  "ConstructMockMsgCreateClient chain counterparty =
     bindr (LastHeader counterparty) (\<lambda>header.
     let clientState = \<lparr>mcs_LatestHeight = word_of_int (gh_Number header)\<rparr>;
         consensusState = \<lparr>mcons_Timestamp = gh_Time header\<rparr> in
     bindr (any_call (MarshalWithAny (ch_any chain) Mock_ClientState_type clientState)) (\<lambda>clientStateBytes.
     bindr (any_call (MarshalWithAny (ch_any chain) Mock_ConsensusState_type consensusState)) (\<lambda>consensusStateBytes.
     Inr \<lparr>mcc_clientType = MockClient, mcc_height = mcs_LatestHeight clientState,
          mcc_clientStateBytes = clientStateBytes, mcc_consensusStateBytes = consensusStateBytes\<rparr>)))"

text \<open>The type assertions on the last state panic when it is of the other type.\<close>

definition ConstructIBFT2MsgCreateClient :: "chain \<Rightarrow> chain \<Rightarrow> string + MsgCreateClient" where
  "ConstructIBFT2MsgCreateClient chain counterparty =
     (case ch_LastContractState counterparty of
        Some (IBFT2ContractState parsed ethProof seals) \<Rightarrow>
          let header = ph_Base parsed;
              clientState = \<lparr>bcs_ChainId = ChainIDString counterparty,
                bcs_IbcStoreAddress = be_bytes 20 (unat (ch_HostAddress counterparty)),
                bcs_LatestHeight = word_of_int (gh_Number header)\<rparr>;
              consensusState = \<lparr>bcons_Timestamp = gh_Time header, bcons_Root = gh_Root header,
                bcons_Validators = cs_Validators (IBFT2ContractState parsed ethProof seals)\<rparr> in
          bindr (any_call (MarshalWithAny (ch_any chain) IBFT2_ClientState_type clientState)) (\<lambda>clientStateBytes.
          bindr (any_call (MarshalWithAny (ch_any chain) IBFT2_ConsensusState_type consensusState)) (\<lambda>consensusStateBytes.
          Inr \<lparr>mcc_clientType = BesuIBFT2Client, mcc_height = bcs_LatestHeight clientState,
               mcc_clientStateBytes = clientStateBytes, mcc_consensusStateBytes = consensusStateBytes\<rparr>))
      | _ \<Rightarrow> Inl ''panic'')"

definition ConstructMockMsgUpdateClient :: "chain \<Rightarrow> chain \<Rightarrow> string \<Rightarrow> string + MsgUpdateClient" where
  "ConstructMockMsgUpdateClient chain counterparty clientID =
     (case ch_LastContractState counterparty of
        Some (ETHContractState h ethProof) \<Rightarrow>
          bindr (any_call (MarshalWithAny (ch_any chain) Mock_Header_type
            \<lparr>mhdr_Height = word_of_int (gh_Number h), mhdr_Timestamp = gh_Time h\<rparr>)) (\<lambda>bz.
          Inr \<lparr>muc_clientId = clientID, muc_header = bz\<rparr>)
      | _ \<Rightarrow> Inl ''panic'')"

definition ConstructIBFT2MsgUpdateClient :: "chain \<Rightarrow> chain \<Rightarrow> string \<Rightarrow> string + MsgUpdateClient" where
  "ConstructIBFT2MsgUpdateClient chain counterparty clientID =
     bindr (GetIBFT2ClientState chain clientID) (\<lambda>trusted.
     case ch_LastContractState counterparty of
       Some (IBFT2ContractState parsed ethProof seals) \<Rightarrow>
         bindr (node_call (SealingHeaderRLP (besu_lib.truncate (ch_node counterparty)) parsed)) (\<lambda>besuHeader.
         bindr (any_call (MarshalWithAny (ch_any chain) IBFT2_Header_type
           \<lparr>bhdr_BesuHeaderRlp = besuHeader, bhdr_Seals = seals, bhdr_TrustedHeight = bcs_LatestHeight trusted,
            bhdr_AccountStateProof = AccountProofRLP ethProof\<rparr>)) (\<lambda>bz.
         Inr \<lparr>muc_clientId = clientID, muc_header = bz\<rparr>))
     | _ \<Rightarrow> Inl ''panic'')"

definition Chain_create :: "chain \<Rightarrow> MsgCreateClient \<Rightarrow> string + string \<times> chain" where
  "Chain_create chain msg =
     bindr (run_tx (createClient (ch_env chain) msg (ch_host chain))) (\<lambda>h.
     let chain = chain\<lparr>ch_host := h\<rparr>
     in bindr (GetLastGeneratedClientID chain) (\<lambda>i. Inr (i, chain)))"

definition Chain_update :: "chain \<Rightarrow> MsgUpdateClient \<Rightarrow> string + chain" where
  "Chain_update chain msg =
     bindr (run_tx (updateClient (ch_env chain) msg (ch_host chain))) (\<lambda>h. Inr (chain\<lparr>ch_host := h\<rparr>))"

definition CreateMockClient :: "chain \<Rightarrow> chain \<Rightarrow> string + string \<times> chain" where
  "CreateMockClient chain counterparty =
     bindr (ConstructMockMsgCreateClient chain counterparty) (Chain_create chain)"

definition CreateIBFT2Client :: "chain \<Rightarrow> chain \<Rightarrow> string + string \<times> chain" where
  "CreateIBFT2Client chain counterparty =
     bindr (ConstructIBFT2MsgCreateClient chain counterparty) (Chain_create chain)"

definition UpdateMockClient :: "chain \<Rightarrow> chain \<Rightarrow> string \<Rightarrow> string + chain" where
  "UpdateMockClient chain counterparty clientID =
     bindr (ConstructMockMsgUpdateClient chain counterparty clientID) (Chain_update chain)"

definition UpdateIBFT2Client :: "chain \<Rightarrow> chain \<Rightarrow> string \<Rightarrow> string + chain" where
  "UpdateIBFT2Client chain counterparty clientID =
     bindr (ConstructIBFT2MsgUpdateClient chain counterparty clientID) (Chain_update chain)"

text \<open>The chain keeps its connections by reference; a reference is an index into \<open>ch_Connections\<close>.\<close>

definition AddTestConnection :: "chain \<Rightarrow> string \<Rightarrow> string \<Rightarrow> nat \<times> chain" where
  "AddTestConnection chain clientID counterpartyClientID =
     (length (ch_Connections chain),
      chain\<lparr>ch_Connections := ch_Connections chain @ [ConstructNextTestConnection clientID counterpartyClientID]\<rparr>)"

subsection \<open>Connection handshake\<close>

definition relay_version :: VersionData where
  "relay_version = \<lparr>vd_Identifier = ''1'', vd_Features = [''ORDER_ORDERED'', ''ORDER_UNORDERED'']\<rparr>"

definition Chain_ConnectionOpenInit :: "chain \<Rightarrow> TestConnection \<Rightarrow> string + string \<times> chain" where
  "Chain_ConnectionOpenInit chain connection =
     bindr (run_tx (connectionOpenInit (ch_env chain)
       \<lparr>mci_clientId = tc_ClientID connection,
        mci_counterparty = \<lparr>cd_ClientId = tc_CounterpartyClientID connection, cd_ConnectionId = [],
          cd_Prefix = \<lparr>mpd_KeyPrefix = GetCommitmentPrefix\<rparr>\<rparr>,
        mci_delayPeriod = DefaultDelayPeriod\<rparr> (ch_host chain))) (\<lambda>(_, h).
     let chain = chain\<lparr>ch_host := h\<rparr>
     in bindr (GetLastGeneratedConnectionID chain) (\<lambda>i. Inr (i, chain)))"

definition Chain_ConnectionOpenTry ::
  "chain \<Rightarrow> chain \<Rightarrow> TestConnection \<Rightarrow> TestConnection \<Rightarrow> string + string \<times> chain"
where
  "Chain_ConnectionOpenTry chain counterparty connection counterpartyConnection =
     bindr (QueryConnectionProof counterparty chain (tc_ClientID connection) (tc_ID counterpartyConnection) None)
       (\<lambda>proofConnection.
     bindr (QueryClientProof counterparty chain (tc_ClientID counterpartyConnection) (Some (sint (pf_Height proofConnection))))
       (\<lambda>(clientStateBytes, proofClient).
     bindr (run_tx (connectionOpenTry (ch_env chain)
       \<lparr>mct_previousConnectionId = [],
        mct_counterparty = \<lparr>cd_ClientId = tc_ClientID counterpartyConnection,
          cd_ConnectionId = tc_ID counterpartyConnection,
          cd_Prefix = \<lparr>mpd_KeyPrefix = GetCommitmentPrefix\<rparr>\<rparr>,
        mct_delayPeriod = DefaultDelayPeriod, mct_clientId = tc_ClientID connection,
        mct_clientStateBytes = clientStateBytes, mct_counterpartyVersions = [relay_version],
        mct_proofInit = pf_Data proofConnection, mct_proofClient = pf_Data proofClient, mct_proofConsensus = [],
        mct_proofHeight = pf_Height proofConnection, mct_consensusHeight = 0\<rparr> (ch_host chain))) (\<lambda>(_, h).
     let chain = chain\<lparr>ch_host := h\<rparr>
     in bindr (GetLastGeneratedConnectionID chain) (\<lambda>i. Inr (i, chain)))))"

definition Chain_ConnectionOpenAck ::
  "chain \<Rightarrow> chain \<Rightarrow> TestConnection \<Rightarrow> TestConnection \<Rightarrow> string + chain"
where
  "Chain_ConnectionOpenAck chain counterparty connection counterpartyConnection =
     bindr (QueryConnectionProof counterparty chain (tc_ClientID connection) (tc_ID counterpartyConnection) None)
       (\<lambda>proofConnection.
     bindr (QueryClientProof counterparty chain (tc_ClientID counterpartyConnection) (Some (sint (pf_Height proofConnection))))
       (\<lambda>(clientStateBytes, proofClient).
     bindr (run_tx (connectionOpenAck (ch_env chain)
       \<lparr>mca_connectionId = tc_ID connection, mca_clientStateBytes = clientStateBytes, mca_version = relay_version,
        mca_counterpartyConnectionID = tc_ID counterpartyConnection, mca_proofTry = pf_Data proofConnection,
        mca_proofClient = pf_Data proofClient, mca_proofConsensus = [],
        mca_proofHeight = pf_Height proofConnection, mca_consensusHeight = 0\<rparr> (ch_host chain))) (\<lambda>h.
     Inr (chain\<lparr>ch_host := h\<rparr>))))"

definition Chain_ConnectionOpenConfirm ::
  "chain \<Rightarrow> chain \<Rightarrow> TestConnection \<Rightarrow> TestConnection \<Rightarrow> string + chain"
where
  "Chain_ConnectionOpenConfirm chain counterparty connection counterpartyConnection =
     bindr (QueryConnectionProof counterparty chain (tc_ClientID connection) (tc_ID counterpartyConnection) None)
       (\<lambda>prf.
     bindr (run_tx (connectionOpenConfirm (ch_env chain)
       \<lparr>mco_connectionId = tc_ID connection, mco_proofAck = pf_Data prf, mco_proofHeight = pf_Height prf\<rparr>
       (ch_host chain))) (\<lambda>h.
     Inr (chain\<lparr>ch_host := h\<rparr>)))"

subsection \<open>Channel handshake\<close>

definition Chain_ChannelOpenInit ::
  "chain \<Rightarrow> TestChannel \<Rightarrow> TestChannel \<Rightarrow> 8 word \<Rightarrow> string \<Rightarrow> string + string \<times> chain"
where
  "Chain_ChannelOpenInit chain ch counterparty order connectionID =
     bindr (run_tx (channelOpenInit (ch_env chain)
       \<lparr>mhi_portId = tch_PortID ch,
        mhi_channel = \<lparr>chd_State = STATE_INIT, chd_Ordering = order,
          chd_Counterparty = \<lparr>ccd_PortId = tch_PortID counterparty, ccd_ChannelId = []\<rparr>,
          chd_ConnectionHops = [connectionID], chd_Version = tch_Version ch\<rparr>\<rparr> (ch_host chain))) (\<lambda>(_, h).
     let chain = chain\<lparr>ch_host := h\<rparr>
     in bindr (GetLastGeneratedChannelID chain) (\<lambda>i. Inr (i, chain)))"

definition Chain_ChannelOpenTry ::
  "chain \<Rightarrow> chain \<Rightarrow> TestChannel \<Rightarrow> TestChannel \<Rightarrow> 8 word \<Rightarrow> string \<Rightarrow> string + string \<times> chain"
where
  "Chain_ChannelOpenTry chain counterparty ch counterpartyCh order connectionID =
     bindr (QueryChannelProof counterparty chain (tch_ClientID ch) counterpartyCh None) (\<lambda>prf.
     bindr (run_tx (channelOpenTry (ch_env chain)
       \<lparr>mht_portId = tch_PortID ch, mht_previousChannelId = [],
        mht_channel = \<lparr>chd_State = STATE_TRYOPEN, chd_Ordering = order,
          chd_Counterparty = \<lparr>ccd_PortId = tch_PortID counterpartyCh, ccd_ChannelId = tch_ID counterpartyCh\<rparr>,
          chd_ConnectionHops = [connectionID], chd_Version = tch_Version ch\<rparr>,
        mht_counterpartyVersion = tch_Version counterpartyCh, mht_proofInit = pf_Data prf,
        mht_proofHeight = pf_Height prf\<rparr> (ch_host chain))) (\<lambda>(_, h).
     let chain = chain\<lparr>ch_host := h\<rparr>
     in bindr (GetLastGeneratedChannelID chain) (\<lambda>i. Inr (i, chain))))"

definition Chain_ChannelOpenAck :: "chain \<Rightarrow> chain \<Rightarrow> TestChannel \<Rightarrow> TestChannel \<Rightarrow> string + chain" where
  "Chain_ChannelOpenAck chain counterparty ch counterpartyCh =
     bindr (QueryChannelProof counterparty chain (tch_ClientID ch) counterpartyCh None) (\<lambda>prf.
     bindr (run_tx (channelOpenAck (ch_env chain)
       \<lparr>mha_portId = tch_PortID ch, mha_channelId = tch_ID ch, mha_counterpartyVersion = tch_Version counterpartyCh,
        mha_counterpartyChannelId = tch_ID counterpartyCh, mha_proofTry = pf_Data prf,
        mha_proofHeight = pf_Height prf\<rparr> (ch_host chain))) (\<lambda>h.
     Inr (chain\<lparr>ch_host := h\<rparr>)))"

definition Chain_ChannelOpenConfirm :: "chain \<Rightarrow> chain \<Rightarrow> TestChannel \<Rightarrow> TestChannel \<Rightarrow> string + chain" where
  "Chain_ChannelOpenConfirm chain counterparty ch counterpartyCh =
     bindr (QueryChannelProof counterparty chain (tch_ClientID ch) counterpartyCh None) (\<lambda>prf.
     bindr (run_tx (channelOpenConfirm (ch_env chain)
       \<lparr>mho_portId = tch_PortID ch, mho_channelId = tch_ID ch, mho_proofAck = pf_Data prf,
        mho_proofHeight = pf_Height prf\<rparr> (ch_host chain))) (\<lambda>h.
     Inr (chain\<lparr>ch_host := h\<rparr>)))"

subsection \<open>Packets\<close>

definition Chain_SendPacket :: "chain \<Rightarrow> Packet \<Rightarrow> string + chain" where
  "Chain_SendPacket chain packet =
     bindr (run_tx (sendPacket (ch_env chain) (packetToCallData packet) (ch_host chain))) (\<lambda>h.
     Inr (chain\<lparr>ch_host := h\<rparr>))"

definition Chain_HandlePacketRecv :: "chain \<Rightarrow> chain \<Rightarrow> TestChannel \<Rightarrow> TestChannel \<Rightarrow> Packet \<Rightarrow> string + chain" where
  "Chain_HandlePacketRecv chain counterparty ch counterpartyCh packet =
     bindr (QueryProof counterparty chain (tch_ClientID ch)
       (PacketCommitmentSlot chain (pkt_SourcePort packet) (pkt_SourceChannel packet) (pkt_Sequence packet)) None)
       (\<lambda>prf.
     let prf = (if ch_ClientType chain = MockClient then prf\<lparr>pf_Data := commitPacket packet\<rparr> else prf) in
     bindr (run_tx (recvPacket (ch_env chain)
       \<lparr>mpr_packet = packetToCallData packet, mpr_proof = pf_Data prf, mpr_proofHeight = pf_Height prf\<rparr>
       (ch_host chain))) (\<lambda>h.
     Inr (chain\<lparr>ch_host := h\<rparr>)))"

definition Chain_HandlePacketAcknowledgement ::
  "chain \<Rightarrow> chain \<Rightarrow> TestChannel \<Rightarrow> TestChannel \<Rightarrow> Packet \<Rightarrow> byte list \<Rightarrow> string + chain"
where
  "Chain_HandlePacketAcknowledgement chain counterparty ch counterpartyCh packet acknowledgement =
     bindr (QueryProof counterparty chain (tch_ClientID ch)
       (PacketAcknowledgementCommitmentSlot chain (pkt_DestinationPort packet) (pkt_DestinationChannel packet)
         (pkt_Sequence packet)) None) (\<lambda>prf.
     let prf = (if ch_ClientType chain = MockClient then prf\<lparr>pf_Data := commitAcknowledgement acknowledgement\<rparr>
                else prf) in
     bindr (run_tx (acknowledgePacket (ch_env chain)
       \<lparr>mpa_packet = packetToCallData packet, mpa_acknowledgement = acknowledgement, mpa_proof = pf_Data prf,
        mpa_proofHeight = pf_Height prf\<rparr> (ch_host chain))) (\<lambda>h.
     Inr (chain\<lparr>ch_host := h\<rparr>)))"

subsection \<open>What the steps compute\<close>

lemma run_tx_Inr [result_simps]: "run_tx r = Inr x \<longleftrightarrow> r = Inr x" "run_tx (Inr x) = Inr x"
  by (auto simp: run_tx_def split: sum.splits)

lemma last_ids [simp]:
  "GetLastGeneratedConnectionID (c\<lparr>ch_host := h\<lparr>events := es @ [GeneratedConnectionIdentifier i]\<rparr>\<rparr>) = Inr i"
  "GetLastGeneratedChannelID (c\<lparr>ch_host := h\<lparr>events := es @ [GeneratedChannelIdentifier i]\<rparr>\<rparr>) = Inr i"
  by (simp_all add: GetLastGeneratedConnectionID_def GetLastGeneratedChannelID_def last_id_def)

lemma hex_prefix: "take 2 (''0x'' @ s) = ''0x''"
  by simp

lemma commitPacket_call: "commitPacket p = makePacketCommitment (packetToCallData p)"
  by (simp add: commitPacket_def makePacketCommitment_def packetToCallData_def uint64ToBigEndian_def Let_def)

text \<open>
  The protobuf library writes and reads \<^verbatim>\<open>Any\<close> in its documented wire format. Then the relayer
  reads a mock client's state as the contract does, and writes what the contract reads.
\<close>

definition any_wire :: "any_lib \<Rightarrow> bool" where
  "any_wire lib \<longleftrightarrow> codec_ok lib \<and> (\<forall>a. mt_Marshal lib a = Inr (Any_enc a))"

lemma google_any_wire: "any_wire google_any"
  unfolding any_wire_def using google_any.codec by (simp add: google_any_def)

lemma any_wire_read:
  assumes "any_wire lib"
  shows "UnmarshalWithAny lib Mock_ClientState_type
    (Any_enc \<lparr>any_TypeUrl = mock_url_clientState, any_Value = Mock_ClientState_enc m\<rparr>) = Inr m"
proof -
  let ?a = "\<lparr>any_TypeUrl = mock_url_clientState, any_Value = Mock_ClientState_enc m\<rparr>"
  have "length (Any_enc ?a) \<le> length mock_url_clientState + 33"
    using mock_enc_small(1) [of m] sov_le_10 [of "word_of_nat (length mock_url_clientState)"]
      sov_le_10 [of "word_of_nat (length (Mock_ClientState_enc m))"]
    by (auto simp: Any_enc_def enc_bytes_def enc_bytes1_def)
  then have "go_slice (Any_enc ?a)" "go_slice (Mock_ClientState_enc m)"
    using mock_enc_small(1) [of m] by (simp_all add: go_slice_def mock_url_clientState_def)
  moreover have "mt_Unmarshal lib (Any_enc ?a) = Inr ?a"
    using assms calculation(1) by (auto simp: any_wire_def dest: codec_okD)
  ultimately show ?thesis
    by (simp add: UnmarshalWithAny_def UnpackAny_def proto_call_def Mock_ClientState_type_def
        mock_url_clientState_def Mock_ClientState_Unmarshal_enc)
qed

lemma any_wire_write:
  assumes "any_wire lib"
  shows "MarshalWithAny lib Mock_ClientState_type cs =
      Inr (Any_enc \<lparr>any_TypeUrl = mock_url_clientState, any_Value = Mock_ClientState_enc cs\<rparr>)"
    and "MarshalWithAny lib Mock_ConsensusState_type cons =
      Inr (Any_enc \<lparr>any_TypeUrl = mock_url_consensusState, any_Value = Mock_ConsensusState_enc cons\<rparr>)"
    and "MarshalWithAny lib Mock_Header_type hdr =
      Inr (Any_enc \<lparr>any_TypeUrl = mock_url_header, any_Value = Mock_Header_enc hdr\<rparr>)"
  using assms
  by (simp_all add: any_wire_def MarshalWithAny_def PackAny_def proto_call_def Mock_ClientState_type_def
      Mock_ConsensusState_type_def Mock_Header_type_def Mock_ClientState_Marshal_enc Mock_ConsensusState_Marshal_enc
      Mock_Header_Marshal_enc mock_url_clientState_def mock_url_consensusState_def mock_url_header_def)

lemma GetMockClientState_reads:
  assumes "any_wire (ch_any V)" and "clientStates (ch_host V) cl = mock_state_bytes n" and "n \<noteq> 0"
  shows "GetMockClientState V cl = Inr \<lparr>mcs_LatestHeight = n\<rparr>"
  using assms any_wire_read [OF assms(1), of "\<lparr>mcs_LatestHeight = n\<rparr>"] mock_bytes_nonempty(1) [of n]
  by (simp add: GetMockClientState_def getClientState_def any_call_def mock_state_bytes_go)

end
