(* ===== verification/Relay_Properties.thy ===== *)
theory Relay_Properties
  imports Relayer IBC_Run Sha256_Vector
begin

text \<open>
  The relayer and the contracts together: two chains with mock clients of each other. The
  handshakes and the life cycle of a packet, driven by the messages and proofs the relayer
  builds, run to their end.
\<close>

section \<open>Sizes\<close>

lemma enc_length_le:
  "length (enc_bytes1 t bs) \<le> length bs + 11" "length (enc_bytes t bs) \<le> length bs + 11"
  "length (enc_uint t v) \<le> 11"
  using sov_le_10 [of "word_of_nat (length bs)"] sov_le_10 [of v]
  by (auto simp: wire_simps size_bytes_def size_bytes1_def size_uint_def)

lemma length_dec: "length (dec (unat (w :: 64 word))) \<le> 20"
proof (cases "unat w = 0")
  case False
  then show ?thesis using length_digits_word [of w] by (simp add: digits.simps)
qed (simp add: dec.simps)

lemma length_ids: "length (conn_id (unat (w :: 64 word))) \<le> 31" "length (chan_id (unat (w :: 64 word))) \<le> 28"
  using length_dec [of w] by (simp_all add: conn_id_def chan_id_def)

text \<open>The encoding of a connection end of the handshake fits a slice by far.\<close>

definition relay_conn :: "string \<Rightarrow> 8 word \<Rightarrow> string \<Rightarrow> string \<Rightarrow> ConnectionEndData" where
  "relay_conn cl st cpcl cpid =
     \<lparr>ced_ClientId = cl, ced_Versions = [relay_version], ced_State = st,
      ced_Counterparty = \<lparr>cd_ClientId = cpcl, cd_ConnectionId = cpid, cd_Prefix = \<lparr>mpd_KeyPrefix = GetCommitmentPrefix\<rparr>\<rparr>,
      ced_DelayPeriod = DefaultDelayPeriod\<rparr>"

lemma relay_conn_size:
  "length (ConnectionEnd_enc (connectionEndToPB (relay_conn cl st cpcl cpid))) \<le>
     length cl + length cpcl + length cpid + 200"
proof -
  let ?v = "Version_enc (VersionData_to_Version relay_version)"
  let ?m = "MerklePrefix_enc \<lparr>mpx_KeyPrefix = GetCommitmentPrefix\<rparr>"
  let ?c = "Counterparty_enc \<lparr>ccp_ClientId = cpcl, ccp_ConnectionId = cpid,
    ccp_Prefix = Some \<lparr>mpx_KeyPrefix = GetCommitmentPrefix\<rparr>\<rparr>"
  have v: "length ?v \<le> 70"
    using enc_length_le(2) [of "0xa" "str_bytes ''1''"] enc_length_le(1) [of "0x12" "str_bytes ''ORDER_ORDERED''"]
      enc_length_le(1) [of "0x12" "str_bytes ''ORDER_UNORDERED''"]
    by (simp add: Version_enc_def VersionData_to_Version_def relay_version_def enc_each_def)
  have m: "length ?m \<le> 14"
    using enc_length_le(2) [of "0xa" GetCommitmentPrefix]
    by (simp add: MerklePrefix_enc_def GetCommitmentPrefix_def DefaultPrefix_def)
  have c: "length ?c \<le> length cpcl + length cpid + 47"
    using enc_length_le(2) [of "0xa" "str_bytes cpcl"] enc_length_le(2) [of "0x12" "str_bytes cpid"]
      enc_length_le(1) [of "0x1a" ?m] m
    by (simp add: Counterparty_enc_def enc_opt_def)
  show ?thesis
    using enc_length_le(2) [of "0xa" "str_bytes cl"] enc_length_le(1) [of "0x12" ?v]
      enc_length_le(3) [of "0x18" "scast (ucast st :: 32 word)"] enc_length_le(1) [of "0x22" ?c]
      enc_length_le(3) [of "0x28" DefaultDelayPeriod] v c
    by (simp add: connectionEndToPB_enc relay_conn_def enc_each_def CounterpartyData_to_PB_def)
qed


lemma relay_conn_encode:
  assumes "length cl + length cpcl + length cpid < 2 ^ 62" and "st < 4"
  shows "ConnectionEnd_encode (relay_conn cl st cpcl cpid) =
    Inr (ConnectionEnd_enc (connectionEndToPB (relay_conn cl st cpcl cpid)))"
proof (rule ConnectionEnd_encode_enc)
  show "length (ConnectionEnd_enc (connectionEndToPB (relay_conn cl st cpcl cpid))) < 2 ^ 64"
    using relay_conn_size [of cl st cpcl cpid] assms(1) by simp
  show "ced_State (relay_conn cl st cpcl cpid) < 4" using assms(2) by (simp add: relay_conn_def)
qed

section \<open>Two chains that relay to each other\<close>

text \<open>
  The chain \<open>V\<close> verifies what the relayer proves about the chain \<open>C\<close>: the handler of \<open>V\<close> is the
  host's module, \<open>cl\<close> is a mock client on \<open>V\<close> with a consensus state at its latest height, and the
  node of \<open>C\<close> has the block of that height.
\<close>

definition has_block :: "chain \<Rightarrow> int \<Rightarrow> bool" where
  "has_block C k \<longleftrightarrow> (\<exists>b. rpc_BlockByNumber (ch_node C) (Some k) = Some b \<and> gh_Number b = k)"

definition relays_to :: "chain \<Rightarrow> chain \<Rightarrow> string \<Rightarrow> bool" where
  "relays_to C V cl \<longleftrightarrow> ch_ClientType C = MockClient \<and> ch_ClientType V = MockClient \<and>
     msg_sender (ch_env V) = ibcModule (ch_host V) \<and>
     getClient (ch_env V) cl (ch_host V) = Inr (mock_client (keccak256 (ch_env V))) \<and>
     (\<exists>n. GetMockClientState V cl = Inr \<lparr>mcs_LatestHeight = n\<rparr> \<and> consensusStates (ch_host V) cl n \<noteq> [] \<and>
        has_block C (sint n))"

text \<open>What no step of a handshake changes.\<close>

definition same_clients :: "chain \<Rightarrow> chain \<Rightarrow> bool" where
  "same_clients A B \<longleftrightarrow> ch_ClientType B = ch_ClientType A \<and> ch_HostAddress B = ch_HostAddress A \<and>
     ch_env B = ch_env A \<and> ch_any B = ch_any A \<and> ch_node B = ch_node A \<and> ch_heads B = ch_heads A \<and>
     ch_LastContractState B = ch_LastContractState A \<and> ch_Connections B = ch_Connections A \<and>
     ibcModule (ch_host B) = ibcModule (ch_host A) \<and>
     clientRegistry (ch_host B) = clientRegistry (ch_host A) \<and> clientTypes (ch_host B) = clientTypes (ch_host A) \<and>
     clientStates (ch_host B) = clientStates (ch_host A) \<and> consensusStates (ch_host B) = consensusStates (ch_host A)"

lemma same_clients_relay:
  "same_clients A B \<Longrightarrow> relays_to A V cl \<Longrightarrow> relays_to B V cl"
  "same_clients A B \<Longrightarrow> relays_to C A cl \<Longrightarrow> relays_to C B cl"
  by (auto simp: same_clients_def relays_to_def has_block_def GetMockClientState_def getClientState_def
      getClient_def getClientByType_def getClientImpl_def getClientType_def)

lemma relays_module: "relays_to C V cl \<Longrightarrow> msg_sender (ch_env V) = ibcModule (ch_host V)"
  by (simp add: relays_to_def)

text \<open>What \<^verbatim>\<open>QueryProof\<close> returns: with a height, and without.\<close>

lemma query_proof_at:
  assumes "ch_ClientType C = MockClient" and "has_block C k"
  shows "QueryProof C V i (''0x'' @ s) (Some k) = Inr \<lparr>pf_Height = word_of_int k, pf_Data = []\<rparr>"
  using assms
  by (auto simp: QueryProof_def Chain_GetContractState_def state_height_def GetContractState_def
      GetMockContractState_def block_by_number_def has_block_def node_call_def BesuIBFT2Client_def MockClient_def)

lemma query_proof:
  assumes "relays_to C V cl"
  obtains n where "QueryProof C V cl (''0x'' @ s) None = Inr \<lparr>pf_Height = n, pf_Data = []\<rparr>"
    and "consensusStates (ch_host V) cl n \<noteq> []" and "has_block C (sint n)"
proof -
  from assms obtain n where n: "GetMockClientState V cl = Inr \<lparr>mcs_LatestHeight = n\<rparr>"
      "consensusStates (ch_host V) cl n \<noteq> []" "has_block C (sint n)"
    and t: "ch_ClientType C = MockClient" "ch_ClientType V = MockClient"
    by (auto simp: relays_to_def)
  have "QueryProof C V cl (''0x'' @ s) None = QueryProof C V cl (''0x'' @ s) (Some (sint n))"
    by (simp add: QueryProof_def Chain_GetContractState_def state_height_def n t)
  also have "\<dots> = Inr \<lparr>pf_Height = n, pf_Data = []\<rparr>" using query_proof_at [OF t(1) n(3)] by simp
  finally show ?thesis using n(2,3) by (rule that)
qed

lemma query_connection:
  assumes "relays_to C V cl" and "connections (ch_host C) i = c" and "ced_State c \<noteq> 0"
  obtains n where "QueryConnectionProof C V cl i None =
      Inr \<lparr>pf_Height = n, pf_Data = sha256 (ConnectionEnd_enc (connectionEndToPB c))\<rparr>"
    and "consensusStates (ch_host V) cl n \<noteq> []" and "has_block C (sint n)"
proof -
  obtain n where "QueryProof C V cl (ConnectionStateCommitmentSlot V i) None = Inr \<lparr>pf_Height = n, pf_Data = []\<rparr>"
    and n: "consensusStates (ch_host V) cl n \<noteq> []" "has_block C (sint n)"
    unfolding ConnectionStateCommitmentSlot_def using assms(1) by (rule query_proof)
  with assms have "QueryConnectionProof C V cl i None =
      Inr \<lparr>pf_Height = n, pf_Data = sha256 (ConnectionEnd_enc (connectionEndToPB c))\<rparr>"
    by (simp add: QueryConnectionProof_def relays_to_def getConnection_def pb_call_def ConnectionEnd_Marshal_enc)
  with n show ?thesis by (intro that)
qed

lemma query_client:
  assumes "relays_to C V cl" and "clientStates (ch_host C) i \<noteq> []" and "has_block C (sint n)"
  shows "QueryClientProof C V i (Some (sint n)) =
      Inr (clientStates (ch_host C) i, \<lparr>pf_Height = n, pf_Data = sha256 (clientStates (ch_host C) i)\<rparr>)"
proof -
  have t: "ch_ClientType C = MockClient" using assms(1) by (simp add: relays_to_def)
  with assms(2) query_proof_at [OF t assms(3), of V i] show ?thesis
    by (simp add: QueryClientProof_def getClientState_def ClientStateCommitmentSlot_def)
qed

text \<open>The light client of \<open>V\<close> accepts the proofs queried.\<close>

lemma verified:
  assumes "relays_to C V cl" and "consensusStates (ch_host V) cl n \<noteq> []" and "ced_ClientId c = cl"
  shows "ConnectionEnd_encode e = Inr bz \<Longrightarrow>
      verifyConnectionState (ch_env V) (ch_host V) c n (sha256 bz) i e = Inr True"
    and "verifyClientState (ch_env V) (ch_host V) c n (sha256 bs) bs = Inr True"
    and "verifyChannelState (ch_env V) (ch_host V) c n (sha256 bs) p ch bs = Inr True"
    and "verifyPacketCommitment (ch_env V) (ch_host V) c n (makePacketCommitment pkt) p ch m (makePacketCommitment pkt) = Inr True"
    and "verifyPacketAcknowledgement (ch_env V) (ch_host V) c n (sha256 bs) p ch m bs = Inr True"
  using assms mock_accepts [OF assms(2)]
  by (auto simp: relays_to_def verifyConnectionState_def verifyClientState_def verifyChannelState_def
      verifyPacketCommitment_def verifyPacketAcknowledgement_def bubble_def)

section \<open>The connection handshake\<close>

lemma chain_init:
  assumes "msg_sender (ch_env A) = ibcModule (ch_host A)" and "length clA + length clB < 2 ^ 62"
  obtains i A1 where "Chain_ConnectionOpenInit A (ConstructNextTestConnection clA clB) = Inr (i, A1)"
    and "same_clients A A1" and "connections (ch_host A1) i = relay_conn clA STATE_INIT clB []"
    and "length i \<le> 31"
proof -
  let ?i = "conn_id (unat (nextConnectionSequence (ch_host A)))"
  let ?c = "relay_conn clA STATE_INIT clB []"
  have e: "ConnectionEnd_encode ?c = Inr (ConnectionEnd_enc (connectionEndToPB ?c))"
    using assms(2) by (intro relay_conn_encode) simp_all
  obtain h where "connectionOpenInit (ch_env A) \<lparr>mci_clientId = clA,
      mci_counterparty = \<lparr>cd_ClientId = clB, cd_ConnectionId = [], cd_Prefix = \<lparr>mpd_KeyPrefix = GetCommitmentPrefix\<rparr>\<rparr>,
      mci_delayPeriod = DefaultDelayPeriod\<rparr> (ch_host A) = Inr (?i, h)"
    and "h = (ch_host A)\<lparr>nextConnectionSequence := nextConnectionSequence (ch_host A) + 1,
      events := events (ch_host A) @ [GeneratedConnectionIdentifier ?i], connections := (connections (ch_host A))(?i := ?c),
      commitments := (commitments (ch_host A))(connectionCommitmentKey (ch_env A) ?i :=
        keccak256 (ch_env A) (ConnectionEnd_enc (connectionEndToPB ?c)))\<rparr>"
    using assms(1) e
    by (simp add: connectionOpenInit_def result_simps relay_conn_def getVersions_def relay_version_def)
  then show ?thesis
    using that [of ?i "A\<lparr>ch_host := h\<rparr>"] length_ids(1)
    by (simp add: Chain_ConnectionOpenInit_def ConstructNextTestConnection_def result_simps same_clients_def
        GetLastGeneratedConnectionID_def last_id_def)
qed


abbreviation conn_end :: "string \<Rightarrow> string \<Rightarrow> string \<Rightarrow> TestConnection" where
  "conn_end cl cpcl i \<equiv> (ConstructNextTestConnection cl cpcl)\<lparr>tc_ID := i\<rparr>"

lemma relay_conn_simps [simp]:
  "ced_ClientId (relay_conn cl st cpcl i) = cl" "ced_Versions (relay_conn cl st cpcl i) = [relay_version]"
  "ced_State (relay_conn cl st cpcl i) = st"
  "ced_Counterparty (relay_conn cl st cpcl i) =
     \<lparr>cd_ClientId = cpcl, cd_ConnectionId = i, cd_Prefix = \<lparr>mpd_KeyPrefix = GetCommitmentPrefix\<rparr>\<rparr>"
  "ced_DelayPeriod (relay_conn cl st cpcl i) = DefaultDelayPeriod"
  by (simp_all add: relay_conn_def)

lemma relay_conn_fold:
  "\<lparr>ced_ClientId = cl, ced_Versions = [relay_version], ced_State = st,
    ced_Counterparty = \<lparr>cd_ClientId = cpcl, cd_ConnectionId = i, cd_Prefix = \<lparr>mpd_KeyPrefix = str_bytes commitmentPrefix\<rparr>\<rparr>,
    ced_DelayPeriod = DefaultDelayPeriod\<rparr> = relay_conn cl st cpcl i"
  "(relay_conn cl st cpcl i)\<lparr>ced_State := st'\<rparr> = relay_conn cl st' cpcl i"
  "(relay_conn cl st cpcl i)\<lparr>ced_Versions := [relay_version], ced_Counterparty :=
     \<lparr>cd_ClientId = x, cd_ConnectionId = j, cd_Prefix = \<lparr>mpd_KeyPrefix = GetCommitmentPrefix\<rparr>\<rparr>\<rparr> = relay_conn cl st x j"
  by (simp_all add: relay_conn_def GetCommitmentPrefix_def DefaultPrefix_def commitmentPrefix_def)

lemma getVersions_relay: "getVersions = [relay_version]"
  by (simp add: getVersions_def relay_version_def)

lemma chain_try:
  assumes r: "relays_to A B clB" and c: "connections (ch_host A) iA = relay_conn clA STATE_INIT clB []"
    and s: "clientStates (ch_host A) clA \<noteq> []" and l: "length clA + length clB < 2 ^ 61" "length iA \<le> 31"
  obtains i B1 where
    "Chain_ConnectionOpenTry B A (ConstructNextTestConnection clB clA) (conn_end clA clB iA) = Inr (i, B1)"
    and "same_clients B B1" and "connections (ch_host B1) i = relay_conn clB STATE_TRYOPEN clA iA" and "length i \<le> 31"
proof -
  let ?i = "conn_id (unat (nextConnectionSequence (ch_host B)))"
  let ?c = "relay_conn clB STATE_TRYOPEN clA iA" and ?x = "relay_conn clA STATE_INIT clB []"
  have e: "ConnectionEnd_encode ?c = Inr (ConnectionEnd_enc (connectionEndToPB ?c))"
    and x: "ConnectionEnd_encode ?x = Inr (ConnectionEnd_enc (connectionEndToPB ?x))"
    using l by (auto intro!: relay_conn_encode)
  from c have "ced_State ?x \<noteq> 0" by simp
  then obtain n where q: "QueryConnectionProof A B clB iA None =
      Inr \<lparr>pf_Height = n, pf_Data = sha256 (ConnectionEnd_enc (connectionEndToPB ?x))\<rparr>"
    and n: "consensusStates (ch_host B) clB n \<noteq> []" and b: "has_block A (sint n)"
    using query_connection [OF r c] by blast
  note k = query_client [OF r s b]
  note v = verified(1) [OF r n, of ?c, OF _ x] verified(2) [OF r n, of ?c]
  obtain h where "connectionOpenTry (ch_env B)
      \<lparr>mct_previousConnectionId = [],
        mct_counterparty = \<lparr>cd_ClientId = clA, cd_ConnectionId = iA, cd_Prefix = \<lparr>mpd_KeyPrefix = GetCommitmentPrefix\<rparr>\<rparr>,
        mct_delayPeriod = DefaultDelayPeriod, mct_clientId = clB,
        mct_clientStateBytes = clientStates (ch_host A) clA, mct_counterpartyVersions = [relay_version],
        mct_proofInit = sha256 (ConnectionEnd_enc (connectionEndToPB ?x)),
        mct_proofClient = sha256 (clientStates (ch_host A) clA), mct_proofConsensus = [],
        mct_proofHeight = n, mct_consensusHeight = 0\<rparr> (ch_host B) = Inr (?i, h)"
    and "h = (ch_host B)\<lparr>nextConnectionSequence := nextConnectionSequence (ch_host B) + 1,
      events := events (ch_host B) @ [GeneratedConnectionIdentifier ?i], connections := (connections (ch_host B))(?i := ?c),
      commitments := (commitments (ch_host B))(connectionCommitmentKey (ch_env B) ?i :=
        keccak256 (ch_env B) (ConnectionEnd_enc (connectionEndToPB ?c)))\<rparr>"
    using relays_module [OF r] e v
    by (simp add: connectionOpenTry_def result_simps getVersions_relay relay_conn_fold validateSelfClient_def
        relay_conn_def [of clB])
  then show ?thesis
    using that [of ?i "B\<lparr>ch_host := h\<rparr>"] length_ids(1) q k
    by (simp add: Chain_ConnectionOpenTry_def ConstructNextTestConnection_def result_simps same_clients_def
        GetLastGeneratedConnectionID_def last_id_def)
qed


lemma chain_ack:
  assumes r: "relays_to B A clA" and c: "connections (ch_host A) iA = relay_conn clA STATE_INIT clB []"
    and d: "connections (ch_host B) iB = relay_conn clB STATE_TRYOPEN clA iA"
    and s: "clientStates (ch_host B) clB \<noteq> []" and l: "length clA + length clB < 2 ^ 61" "length iA \<le> 31" "length iB \<le> 31"
  obtains A2 where "Chain_ConnectionOpenAck A B (conn_end clA clB iA) (conn_end clB clA iB) = Inr A2"
    and "same_clients A A2" and "connections (ch_host A2) iA = relay_conn clA STATE_OPEN clB iB"
proof -
  let ?c = "relay_conn clA STATE_OPEN clB iB" and ?x = "relay_conn clB STATE_TRYOPEN clA iA"
  have e: "ConnectionEnd_encode ?c = Inr (ConnectionEnd_enc (connectionEndToPB ?c))"
    and x: "ConnectionEnd_encode ?x = Inr (ConnectionEnd_enc (connectionEndToPB ?x))"
    using l by (auto intro!: relay_conn_encode)
  have "ced_State ?x \<noteq> 0" by simp
  then obtain n where q: "QueryConnectionProof B A clA iB None =
      Inr \<lparr>pf_Height = n, pf_Data = sha256 (ConnectionEnd_enc (connectionEndToPB ?x))\<rparr>"
    and n: "consensusStates (ch_host A) clA n \<noteq> []" and b: "has_block B (sint n)"
    using query_connection [OF r d] by blast
  note k = query_client [OF r s b]
  let ?o = "relay_conn clA STATE_INIT clB []"
  note v = verified(1) [OF r n, of ?o, OF _ x] verified(2) [OF r n, of ?o]
  obtain h where "connectionOpenAck (ch_env A)
      \<lparr>mca_connectionId = iA, mca_clientStateBytes = clientStates (ch_host B) clB, mca_version = relay_version,
        mca_counterpartyConnectionID = iB, mca_proofTry = sha256 (ConnectionEnd_enc (connectionEndToPB ?x)),
        mca_proofClient = sha256 (clientStates (ch_host B) clB), mca_proofConsensus = [],
        mca_proofHeight = n, mca_consensusHeight = 0\<rparr> (ch_host A) = Inr h"
    and "h = (ch_host A)\<lparr>connections := (connections (ch_host A))(iA := ?c),
      commitments := (commitments (ch_host A))(connectionCommitmentKey (ch_env A) iA :=
        keccak256 (ch_env A) (ConnectionEnd_enc (connectionEndToPB ?c)))\<rparr>"
    using relays_module [OF r] e v
    by (simp add: connectionOpenAck_def getConnection_def c result_simps relay_conn_fold validateSelfClient_def
        isSupportedVersion_def makeVersionArray_def)
  then show ?thesis
    using that [of "A\<lparr>ch_host := h\<rparr>"] q k
    by (simp add: Chain_ConnectionOpenAck_def ConstructNextTestConnection_def result_simps same_clients_def)
qed

lemma chain_confirm:
  assumes r: "relays_to A B clB" and d: "connections (ch_host B) iB = relay_conn clB STATE_TRYOPEN clA iA"
    and c: "connections (ch_host A) iA = relay_conn clA STATE_OPEN clB iB"
    and l: "length clA + length clB < 2 ^ 61" "length iA \<le> 31" "length iB \<le> 31"
  obtains B2 where "Chain_ConnectionOpenConfirm B A (conn_end clB clA iB) (conn_end clA clB iA) = Inr B2"
    and "same_clients B B2" and "connections (ch_host B2) iB = relay_conn clB STATE_OPEN clA iA"
proof -
  let ?c = "relay_conn clB STATE_OPEN clA iA" and ?x = "relay_conn clA STATE_OPEN clB iB"
  have e: "ConnectionEnd_encode ?c = Inr (ConnectionEnd_enc (connectionEndToPB ?c))"
    and x: "ConnectionEnd_encode ?x = Inr (ConnectionEnd_enc (connectionEndToPB ?x))"
    using l by (auto intro!: relay_conn_encode)
  have "ced_State ?x \<noteq> 0" by simp
  then obtain n where q: "QueryConnectionProof A B clB iA None =
      Inr \<lparr>pf_Height = n, pf_Data = sha256 (ConnectionEnd_enc (connectionEndToPB ?x))\<rparr>"
    and n: "consensusStates (ch_host B) clB n \<noteq> []" and b: "has_block A (sint n)"
    using query_connection [OF r c] by blast
  note v = verified(1) [OF r n, of "relay_conn clB STATE_TRYOPEN clA iA", OF _ x]
  obtain h where "connectionOpenConfirm (ch_env B)
      \<lparr>mco_connectionId = iB, mco_proofAck = sha256 (ConnectionEnd_enc (connectionEndToPB ?x)), mco_proofHeight = n\<rparr>
      (ch_host B) = Inr h"
    and "h = (ch_host B)\<lparr>connections := (connections (ch_host B))(iB := ?c),
      commitments := (commitments (ch_host B))(connectionCommitmentKey (ch_env B) iB :=
        keccak256 (ch_env B) (ConnectionEnd_enc (connectionEndToPB ?c)))\<rparr>"
    using relays_module [OF r] e v
    by (simp add: connectionOpenConfirm_def getConnection_def d result_simps relay_conn_fold)
  then show ?thesis
    using that [of "B\<lparr>ch_host := h\<rparr>"] q
    by (simp add: Chain_ConnectionOpenConfirm_def ConstructNextTestConnection_def result_simps same_clients_def)
qed

text \<open>
  The connection handshake of the relayer completes. For two chains with mock clients of
  each other, whatever else their hosts hold, the four messages the relayer builds (with the proofs it
  queries from the other chain) all succeed, in the order of \<^verbatim>\<open>CreateConnection\<close>, and leave
  two OPEN connection ends that name each other, with the same single version. In particular
  every connection the contract expects the counterparty to have stored is the one it has
  stored, and its Go and Solidity encodings agree.
\<close>

theorem connection_handshake:
  assumes "relays_to A B clB" and "relays_to B A clA"
    and "clientStates (ch_host A) clA \<noteq> []" and "clientStates (ch_host B) clB \<noteq> []"
    and "length clA + length clB < 2 ^ 61"
  shows "\<exists>iA A1 iB B1 A2 B2.
    Chain_ConnectionOpenInit A (ConstructNextTestConnection clA clB) = Inr (iA, A1) \<and>
    Chain_ConnectionOpenTry B A1 (ConstructNextTestConnection clB clA)
      ((ConstructNextTestConnection clA clB)\<lparr>tc_ID := iA\<rparr>) = Inr (iB, B1) \<and>
    Chain_ConnectionOpenAck A1 B1 ((ConstructNextTestConnection clA clB)\<lparr>tc_ID := iA\<rparr>)
      ((ConstructNextTestConnection clB clA)\<lparr>tc_ID := iB\<rparr>) = Inr A2 \<and>
    Chain_ConnectionOpenConfirm B1 A2 ((ConstructNextTestConnection clB clA)\<lparr>tc_ID := iB\<rparr>)
      ((ConstructNextTestConnection clA clB)\<lparr>tc_ID := iA\<rparr>) = Inr B2 \<and>
    connections (ch_host A2) iA = relay_conn clA STATE_OPEN clB iB \<and>
    connections (ch_host B2) iB = relay_conn clB STATE_OPEN clA iA"
proof -
  have l: "length clA + length clB < 2 ^ 62" using assms(5) by simp
  obtain iA A1 where 1: "Chain_ConnectionOpenInit A (ConstructNextTestConnection clA clB) = Inr (iA, A1)"
    and s1: "same_clients A A1" and c1: "connections (ch_host A1) iA = relay_conn clA STATE_INIT clB []"
    and iA: "length iA \<le> 31"
    using chain_init [OF relays_module [OF assms(2)] l] by blast
  have "clientStates (ch_host A1) clA \<noteq> []" using s1 assms(3) by (simp add: same_clients_def)
  then obtain iB B1 where 2: "Chain_ConnectionOpenTry B A1 (ConstructNextTestConnection clB clA) (conn_end clA clB iA) = Inr (iB, B1)"
    and s2: "same_clients B B1" and c2: "connections (ch_host B1) iB = relay_conn clB STATE_TRYOPEN clA iA"
    and iB: "length iB \<le> 31"
    using chain_try [OF same_clients_relay(1) [OF s1 assms(1)] c1 _ assms(5) iA] by blast
  have "clientStates (ch_host B1) clB \<noteq> []" using s2 assms(4) by (simp add: same_clients_def)
  then obtain A2 where 3: "Chain_ConnectionOpenAck A1 B1 (conn_end clA clB iA) (conn_end clB clA iB) = Inr A2"
    and s3: "same_clients A1 A2" and c3: "connections (ch_host A2) iA = relay_conn clA STATE_OPEN clB iB"
    using chain_ack [OF same_clients_relay(1) [OF s2 same_clients_relay(2) [OF s1 assms(2)]] c1 c2 _ assms(5) iA iB]
    by blast
  have r: "relays_to A2 B1 clB"
    by (rule same_clients_relay(1) [OF s3 same_clients_relay(1) [OF s1 same_clients_relay(2) [OF s2 assms(1)]]])
  obtain B2 where "Chain_ConnectionOpenConfirm B1 A2 (conn_end clB clA iB) (conn_end clA clB iA) = Inr B2"
    and "connections (ch_host B2) iB = relay_conn clB STATE_OPEN clA iA"
    using chain_confirm [OF r c2 c3 assms(5) iA iB] by blast
  with 1 2 3 c3 show ?thesis by blast
qed

text \<open>Two chains in fact: each has the client of the other registered, with a state.\<close>

definition example_node :: node_lib where
  "example_node = besu_lib.extend
     \<lparr>hdr_Extra = gh_Extra, hdr_set_Extra = (\<lambda>h x. h\<lparr>gh_Extra := x\<rparr>), rlp_stream = id, rlp_List = (\<lambda>_. None),
      rlp_Bytes = (\<lambda>_ _. None), rlp_Addresses = (\<lambda>_. None), rlp_Vote = (\<lambda>_. None), rlp_Slices = (\<lambda>_. None),
      rlp_ListEnd = (\<lambda>_. None), rlp_seal_extra = (\<lambda>_. None), rlp_chain_extra = (\<lambda>_. None), rlp_header = (\<lambda>_. None),
      Keccak256 = id, SigToPub = (\<lambda>_ _. None), PubkeyToAddress = (\<lambda>_. 0)\<rparr>
     \<lparr>rpc_BlockByNumber = (\<lambda>k. case k of None \<Rightarrow> None
        | Some n \<Rightarrow> Some \<lparr>gh_Number = n, gh_Time = 1, gh_Root = [], gh_Extra = []\<rparr>),
      hdr_Number = gh_Number, hash_UnmarshalText = Some, rpc_getProof = (\<lambda>_ _ _. None), json_proof = (\<lambda>_. None),
      rlp_decode_slices = (\<lambda>_. None), rlp_encode_nodes = (\<lambda>_. None)\<rparr>"

definition relay_example :: "string \<Rightarrow> chain" where
  "relay_example cl =
     \<lparr>ch_ClientType = MockClient, ch_chainID = 1, ch_HostAddress = 1,
      ch_env = \<lparr>keccak256 = (\<lambda>x. x), msg_sender = 1, block_number = 10, block_timestamp = 10,
        iclients = (\<lambda>_. Some (mock_client (\<lambda>x. x)))\<rparr>,
      ch_host = (host_constructor run_env)\<lparr>ibcModule := 1, clientRegistry := (\<lambda>_. 9),
        clientTypes := (\<lambda>_. [])(cl := MockClient), clientStates := (\<lambda>_. [])(cl := mock_state_bytes 5),
        consensusStates := (\<lambda>_ _. [])(cl := (\<lambda>_. [])(5 := mock_consensus_bytes 5))\<rparr>,
      ch_any = google_any, ch_node = example_node, ch_heads = [], ch_LastContractState = None,
      ch_Connections = []\<rparr>"

lemma relay_example_block: "has_block (relay_example cl) k"
  by (simp add: has_block_def relay_example_def example_node_def besu_lib.defs)

lemma relay_example: "relays_to (relay_example cl) (relay_example cl') cl'"
proof -
  have "GetMockClientState (relay_example cl') cl' = Inr \<lparr>mcs_LatestHeight = 5\<rparr>"
    by (rule GetMockClientState_reads) (simp_all add: relay_example_def google_any_wire)
  then show ?thesis
    using relay_example_block [of cl]
    by (auto simp: relays_to_def getClient_Inr mock_bytes_nonempty) (auto simp: relay_example_def mock_bytes_nonempty)
qed

lemma connection_handshake_witness:
  "\<exists>iA A1 iB B1. Chain_ConnectionOpenInit (relay_example ''x'') (ConstructNextTestConnection ''x'' ''y'') = Inr (iA, A1) \<and>
     Chain_ConnectionOpenTry (relay_example ''y'') A1 (ConstructNextTestConnection ''y'' ''x'')
       ((ConstructNextTestConnection ''x'' ''y'')\<lparr>tc_ID := iA\<rparr>) = Inr (iB, B1)"
proof -
  have "clientStates (ch_host (relay_example cl)) cl \<noteq> []" for cl by (simp add: relay_example_def mock_bytes_nonempty)
  moreover have "length ''x'' + length ''y'' < 2 ^ 61" by simp
  ultimately show ?thesis
    using connection_handshake [OF relay_example relay_example, of "''x''" "''y''"] by blast
qed

section \<open>The channel handshake\<close>

definition relay_chan :: "8 word \<Rightarrow> 8 word \<Rightarrow> string \<Rightarrow> string \<Rightarrow> string \<Rightarrow> ChannelData" where
  "relay_chan order st cpport cpch hop =
     \<lparr>chd_State = st, chd_Ordering = order, chd_Counterparty = \<lparr>ccd_PortId = cpport, ccd_ChannelId = cpch\<rparr>,
      chd_ConnectionHops = [hop], chd_Version = DefaultChannelVersion\<rparr>"

lemma relay_chan_simps [simp]:
  "chd_State (relay_chan order st p c hop) = st" "chd_Ordering (relay_chan order st p c hop) = order"
  "chd_Counterparty (relay_chan order st p c hop) = \<lparr>ccd_PortId = p, ccd_ChannelId = c\<rparr>"
  "chd_ConnectionHops (relay_chan order st p c hop) = [hop]"
  "chd_Version (relay_chan order st p c hop) = DefaultChannelVersion"
  by (simp_all add: relay_chan_def)

lemma relay_chan_fold:
  "\<lparr>chd_State = st, chd_Ordering = order, chd_Counterparty = \<lparr>ccd_PortId = p, ccd_ChannelId = c\<rparr>,
    chd_ConnectionHops = [hop], chd_Version = DefaultChannelVersion\<rparr> = relay_chan order st p c hop"
  "(relay_chan order st p c hop)\<lparr>chd_State := st'\<rparr> = relay_chan order st' p c hop"
  "(relay_chan order st p c hop)\<lparr>chd_Version := DefaultChannelVersion, chd_Counterparty := \<lparr>ccd_PortId = q, ccd_ChannelId = d\<rparr>\<rparr> =
    relay_chan order st q d hop"
  by (simp_all add: relay_chan_def)

lemma relay_chan_size:
  "length (Channel_enc (channelToPB (relay_chan order st p c hop))) \<le> length p + length c + length hop + 100"
proof -
  let ?c = "Channel_Counterparty_enc \<lparr>cpty_PortId = p, cpty_ChannelId = c\<rparr>"
  have "length ?c \<le> length p + length c + 22"
    using enc_length_le(2) [of "0xa" "str_bytes p"] enc_length_le(2) [of "0x12" "str_bytes c"]
    by (simp add: Channel_Counterparty_enc_def)
  then show ?thesis
    using enc_length_le(1) [of "0x1a" ?c] enc_length_le(1) [of "0x22" "str_bytes hop"]
      enc_length_le(2) [of "0x2a" "str_bytes DefaultChannelVersion"]
      enc_length_le(3) [of "8" "scast (ucast st :: 32 word)"] enc_length_le(3) [of "0x10" "scast (ucast order :: 32 word)"]
    by (simp add: Channel_enc_def channelToPB_def enc_each_def DefaultChannelVersion_def)
qed

lemma relay_chan_encode:
  assumes "length p + length c + length hop < 2 ^ 62" and "st < 5" and "order < 3"
  shows "Channel_encode (relay_chan order st p c hop) = Inr (Channel_enc (channelToPB (relay_chan order st p c hop)))"
proof (rule Channel_encode_enc)
  show "length (Channel_enc (channelToPB (relay_chan order st p c hop))) < 2 ^ 64"
    using relay_chan_size [of order st p c hop] assms(1) by simp
qed (use assms in simp_all)

text \<open>What no step of a channel handshake changes.\<close>

definition same_conns :: "chain \<Rightarrow> chain \<Rightarrow> bool" where
  "same_conns A B \<longleftrightarrow> same_clients A B \<and> connections (ch_host B) = connections (ch_host A)"

lemma query_channel:
  assumes "relays_to C V cl" and "channels (ch_host C) (tch_PortID ch) (tch_ID ch) = c" and "chd_State c \<noteq> 0"
  obtains n where "QueryChannelProof C V cl ch None =
      Inr \<lparr>pf_Height = n, pf_Data = sha256 (Channel_enc (channelToPB c))\<rparr>"
    and "consensusStates (ch_host V) cl n \<noteq> []"
proof -
  obtain n where "QueryProof C V cl (ChannelStateCommitmentSlot V (tch_PortID ch) (tch_ID ch)) None =
      Inr \<lparr>pf_Height = n, pf_Data = []\<rparr>"
    and n: "consensusStates (ch_host V) cl n \<noteq> []"
    unfolding ChannelStateCommitmentSlot_def using assms(1) by (rule query_proof)
  with assms have "QueryChannelProof C V cl ch None =
      Inr \<lparr>pf_Height = n, pf_Data = sha256 (Channel_enc (channelToPB c))\<rparr>"
    by (simp add: QueryChannelProof_def relays_to_def getChannel_def pb_call_def Channel_Marshal_enc)
  then show ?thesis using n by (rule that)
qed

text \<open>The two ends of an open connection, as the connection handshake leaves them.\<close>

definition linked :: "chain \<Rightarrow> string \<Rightarrow> string \<Rightarrow> string \<Rightarrow> string \<Rightarrow> bool" where
  "linked A cl i cpcl j \<longleftrightarrow> connections (ch_host A) i = relay_conn cl STATE_OPEN cpcl j"

abbreviation chan_end :: "string \<Rightarrow> string \<Rightarrow> string \<Rightarrow> string \<Rightarrow> TestChannel" where
  "chan_end cl cpcl port i \<equiv> (NextTestChannel (ConstructNextTestConnection cl cpcl) port)\<lparr>tch_ID := i\<rparr>"

lemma chain_chan_init:
  assumes "msg_sender (ch_env A) = ibcModule (ch_host A)" and k: "linked A clA cA clB cB"
    and l: "length pB + length cA < 2 ^ 61" "order < 3"
  obtains i A1 where "Chain_ChannelOpenInit A (NextTestChannel (ConstructNextTestConnection clA clB) pA)
      (NextTestChannel (ConstructNextTestConnection clB clA) pB) order cA = Inr (i, A1)"
    and "same_conns A A1" and "channels (ch_host A1) pA i = relay_chan order STATE_INIT pB [] cA"
    and "length i \<le> 28"
proof -
  let ?i = "chan_id (unat (nextChannelSequence (ch_host A)))"
  let ?c = "relay_chan order STATE_INIT pB [] cA"
  have e: "Channel_encode ?c = Inr (Channel_enc (channelToPB ?c))"
    using l by (intro relay_chan_encode) simp_all
  obtain h where "channelOpenInit (ch_env A) \<lparr>mhi_portId = pA, mhi_channel = ?c\<rparr> (ch_host A) = Inr (?i, h)"
    and "ibcModule h = ibcModule (ch_host A)" "clientRegistry h = clientRegistry (ch_host A)"
      "clientTypes h = clientTypes (ch_host A)" "clientStates h = clientStates (ch_host A)"
      "consensusStates h = consensusStates (ch_host A)" "connections h = connections (ch_host A)"
      "events h = events (ch_host A) @ [GeneratedChannelIdentifier ?i]" "channels h pA ?i = ?c"
    using assms(1) e k
    by (simp add: channelOpenInit_def new_channel_def channel_connection_def getConnection_def linked_def result_simps)
  then show ?thesis
    using that [of ?i "A\<lparr>ch_host := h\<rparr>"] length_ids(2)
    by (simp add: Chain_ChannelOpenInit_def ConstructNextTestConnection_def NextTestChannel_def result_simps
        same_conns_def same_clients_def GetLastGeneratedChannelID_def last_id_def relay_chan_fold)
qed


lemma linkedD: "linked A cl i cpcl j \<Longrightarrow> connections (ch_host A) i = relay_conn cl STATE_OPEN cpcl j"
  by (simp add: linked_def)

lemma chain_chan_try:
  assumes r: "relays_to A B clB" and k: "linked B clB cB clA cA"
    and c: "channels (ch_host A) pA iA = relay_chan order STATE_INIT pB [] cA"
    and l: "length pA + length pB + length cA + length cB < 2 ^ 61" "length iA \<le> 28" "order < 3"
  obtains i B1 where "Chain_ChannelOpenTry B A (NextTestChannel (ConstructNextTestConnection clB clA) pB)
      (chan_end clA clB pA iA) order cB = Inr (i, B1)"
    and "same_conns B B1" and "channels (ch_host B1) pB i = relay_chan order STATE_TRYOPEN pA iA cB"
    and "length i \<le> 28"
proof -
  let ?i = "chan_id (unat (nextChannelSequence (ch_host B)))"
  let ?c = "relay_chan order STATE_TRYOPEN pA iA cB" and ?x = "relay_chan order STATE_INIT pB [] cA"
  have e: "Channel_encode ?c = Inr (Channel_enc (channelToPB ?c))"
    and x: "Channel_encode ?x = Inr (Channel_enc (channelToPB ?x))"
    using l by (auto intro!: relay_chan_encode)
  have "channels (ch_host A) (tch_PortID (chan_end clA clB pA iA)) (tch_ID (chan_end clA clB pA iA)) = ?x"
    using c by (simp add: NextTestChannel_def)
  moreover have "chd_State ?x \<noteq> 0" by simp
  ultimately obtain n where q: "QueryChannelProof A B clB (chan_end clA clB pA iA) None =
      Inr \<lparr>pf_Height = n, pf_Data = sha256 (Channel_enc (channelToPB ?x))\<rparr>"
    and n: "consensusStates (ch_host B) clB n \<noteq> []"
    using query_channel [OF r] by metis
  note v = verified(3) [OF r n, of "relay_conn clB STATE_OPEN clA cA"]
  obtain h where "channelOpenTry (ch_env B)
      \<lparr>mht_portId = pB, mht_previousChannelId = [], mht_channel = ?c, mht_counterpartyVersion = DefaultChannelVersion,
        mht_proofInit = sha256 (Channel_enc (channelToPB ?x)), mht_proofHeight = n\<rparr> (ch_host B) = Inr (?i, h)"
    and "ibcModule h = ibcModule (ch_host B)" "clientRegistry h = clientRegistry (ch_host B)"
      "clientTypes h = clientTypes (ch_host B)" "clientStates h = clientStates (ch_host B)"
      "consensusStates h = consensusStates (ch_host B)" "connections h = connections (ch_host B)"
      "events h = events (ch_host B) @ [GeneratedChannelIdentifier ?i]" "channels h pB ?i = ?c"
    using relays_module [OF r] e x v
    by (simp add: channelOpenTry_def new_channel_def channel_connection_def getConnection_def linkedD [OF k]
        getCounterpartyHops_def relay_chan_fold result_simps)
  then show ?thesis
    using that [of ?i "B\<lparr>ch_host := h\<rparr>"] length_ids(2) q
    by (simp add: Chain_ChannelOpenTry_def ConstructNextTestConnection_def NextTestChannel_def result_simps
        same_conns_def same_clients_def GetLastGeneratedChannelID_def last_id_def relay_chan_fold)
qed

lemma chain_chan_ack:
  assumes r: "relays_to B A clA" and k: "linked A clA cA clB cB"
    and c: "channels (ch_host A) pA iA = relay_chan order STATE_INIT pB [] cA"
    and d: "channels (ch_host B) pB iB = relay_chan order STATE_TRYOPEN pA iA cB"
    and l: "length pA + length pB + length cA + length cB < 2 ^ 61" "length iA \<le> 28" "length iB \<le> 28" "order < 3"
  obtains A2 where "Chain_ChannelOpenAck A B (chan_end clA clB pA iA) (chan_end clB clA pB iB) = Inr A2"
    and "same_conns A A2" and "channels (ch_host A2) pA iA = relay_chan order STATE_OPEN pB iB cA"
proof -
  let ?c = "relay_chan order STATE_OPEN pB iB cA" and ?x = "relay_chan order STATE_TRYOPEN pA iA cB"
  have e: "Channel_encode ?c = Inr (Channel_enc (channelToPB ?c))"
    and x: "Channel_encode ?x = Inr (Channel_enc (channelToPB ?x))"
    using l by (auto intro!: relay_chan_encode)
  have "channels (ch_host B) (tch_PortID (chan_end clB clA pB iB)) (tch_ID (chan_end clB clA pB iB)) = ?x"
    using d by (simp add: NextTestChannel_def)
  moreover have "chd_State ?x \<noteq> 0" by simp
  ultimately obtain n where q: "QueryChannelProof B A clA (chan_end clB clA pB iB) None =
      Inr \<lparr>pf_Height = n, pf_Data = sha256 (Channel_enc (channelToPB ?x))\<rparr>"
    and n: "consensusStates (ch_host A) clA n \<noteq> []"
    using query_channel [OF r] by metis
  note v = verified(3) [OF r n, of "relay_conn clA STATE_OPEN clB cB"]
  obtain h where "channelOpenAck (ch_env A)
      \<lparr>mha_portId = pA, mha_channelId = iA, mha_counterpartyVersion = DefaultChannelVersion,
        mha_counterpartyChannelId = iB, mha_proofTry = sha256 (Channel_enc (channelToPB ?x)), mha_proofHeight = n\<rparr>
      (ch_host A) = Inr h"
    and "ibcModule h = ibcModule (ch_host A)" "clientRegistry h = clientRegistry (ch_host A)"
      "clientTypes h = clientTypes (ch_host A)" "clientStates h = clientStates (ch_host A)"
      "consensusStates h = consensusStates (ch_host A)" "connections h = connections (ch_host A)"
      "channels h pA iA = ?c"
    using relays_module [OF r] e x v
    by (simp add: channelOpenAck_def getChannel_def c channel_connection_def getConnection_def linkedD [OF k]
        getCounterpartyHops_def relay_chan_fold result_simps)
  then show ?thesis
    using that [of "A\<lparr>ch_host := h\<rparr>"] q
    by (simp add: Chain_ChannelOpenAck_def ConstructNextTestConnection_def NextTestChannel_def result_simps
        same_conns_def same_clients_def)
qed

lemma chain_chan_confirm:
  assumes r: "relays_to A B clB" and k: "linked B clB cB clA cA"
    and d: "channels (ch_host B) pB iB = relay_chan order STATE_TRYOPEN pA iA cB"
    and c: "channels (ch_host A) pA iA = relay_chan order STATE_OPEN pB iB cA"
    and l: "length pA + length pB + length cA + length cB < 2 ^ 61" "length iA \<le> 28" "length iB \<le> 28" "order < 3"
  obtains B2 where "Chain_ChannelOpenConfirm B A (chan_end clB clA pB iB) (chan_end clA clB pA iA) = Inr B2"
    and "same_conns B B2" and "channels (ch_host B2) pB iB = relay_chan order STATE_OPEN pA iA cB"
proof -
  let ?c = "relay_chan order STATE_OPEN pA iA cB" and ?x = "relay_chan order STATE_OPEN pB iB cA"
  have e: "Channel_encode ?c = Inr (Channel_enc (channelToPB ?c))"
    and x: "Channel_encode ?x = Inr (Channel_enc (channelToPB ?x))"
    using l by (auto intro!: relay_chan_encode)
  have "channels (ch_host A) (tch_PortID (chan_end clA clB pA iA)) (tch_ID (chan_end clA clB pA iA)) = ?x"
    using c by (simp add: NextTestChannel_def)
  moreover have "chd_State ?x \<noteq> 0" by simp
  ultimately obtain n where q: "QueryChannelProof A B clB (chan_end clA clB pA iA) None =
      Inr \<lparr>pf_Height = n, pf_Data = sha256 (Channel_enc (channelToPB ?x))\<rparr>"
    and n: "consensusStates (ch_host B) clB n \<noteq> []"
    using query_channel [OF r] by metis
  note v = verified(3) [OF r n, of "relay_conn clB STATE_OPEN clA cA"]
  obtain h where "channelOpenConfirm (ch_env B)
      \<lparr>mho_portId = pB, mho_channelId = iB, mho_proofAck = sha256 (Channel_enc (channelToPB ?x)), mho_proofHeight = n\<rparr>
      (ch_host B) = Inr h"
    and "ibcModule h = ibcModule (ch_host B)" "clientRegistry h = clientRegistry (ch_host B)"
      "clientTypes h = clientTypes (ch_host B)" "clientStates h = clientStates (ch_host B)"
      "consensusStates h = consensusStates (ch_host B)" "connections h = connections (ch_host B)"
      "channels h pB iB = ?c"
    using relays_module [OF r] e x v
    by (simp add: channelOpenConfirm_def getChannel_def d channel_connection_def getConnection_def linkedD [OF k]
        getCounterpartyHops_def relay_chan_fold result_simps)
  then show ?thesis
    using that [of "B\<lparr>ch_host := h\<rparr>"] q
    by (simp add: Chain_ChannelOpenConfirm_def ConstructNextTestConnection_def NextTestChannel_def result_simps
        same_conns_def same_clients_def)
qed


lemma same_conns_relay:
  "same_conns A B \<Longrightarrow> relays_to A V cl \<Longrightarrow> relays_to B V cl"
  "same_conns A B \<Longrightarrow> relays_to C A cl \<Longrightarrow> relays_to C B cl"
  "same_conns A B \<Longrightarrow> linked A cl i cpcl j \<Longrightarrow> linked B cl i cpcl j"
  by (auto simp: same_conns_def linked_def dest: same_clients_relay)

text \<open>
  The channel handshake of the relayer completes. Over an open connection between two
  chains with mock clients of each other, the four channel messages the relayer builds, with
  the proofs it queries, all succeed for any ports and either ordering, and leave two OPEN
  channel ends that name each other's port and channel, the ordering asked for and the
  connection's ends as their hops.
\<close>

theorem channel_handshake:
  assumes "relays_to A B clB" and "relays_to B A clA"
    and "linked A clA cA clB cB" and "linked B clB cB clA cA"
    and "length pA + length pB + length cA + length cB < 2 ^ 61" and "order < 3"
  defines "connA \<equiv> ConstructNextTestConnection clA clB" and "connB \<equiv> ConstructNextTestConnection clB clA"
  defines "chA \<equiv> NextTestChannel connA pA" and "chB \<equiv> NextTestChannel connB pB"
  shows "\<exists>iA A1 iB B1 A2 B2.
    Chain_ChannelOpenInit A chA chB order cA = Inr (iA, A1) \<and>
    Chain_ChannelOpenTry B A1 chB (chA\<lparr>tch_ID := iA\<rparr>) order cB = Inr (iB, B1) \<and>
    Chain_ChannelOpenAck A1 B1 (chA\<lparr>tch_ID := iA\<rparr>) (chB\<lparr>tch_ID := iB\<rparr>) = Inr A2 \<and>
    Chain_ChannelOpenConfirm B1 A2 (chB\<lparr>tch_ID := iB\<rparr>) (chA\<lparr>tch_ID := iA\<rparr>) = Inr B2 \<and>
    channels (ch_host A2) pA iA = relay_chan order STATE_OPEN pB iB cA \<and>
    channels (ch_host B2) pB iB = relay_chan order STATE_OPEN pA iA cB"
proof -
  note d = chA_def chB_def connA_def connB_def
  have l: "length pB + length cA < 2 ^ 61" using assms(5) by simp
  obtain iA A1 where 1: "Chain_ChannelOpenInit A chA chB order cA = Inr (iA, A1)"
    and s1: "same_conns A A1" and c1: "channels (ch_host A1) pA iA = relay_chan order STATE_INIT pB [] cA"
    and iA: "length iA \<le> 28"
    using chain_chan_init [OF relays_module [OF assms(2)] assms(3) l assms(6)] unfolding d by blast
  obtain iB B1 where 2: "Chain_ChannelOpenTry B A1 chB (chA\<lparr>tch_ID := iA\<rparr>) order cB = Inr (iB, B1)"
    and s2: "same_conns B B1" and c2: "channels (ch_host B1) pB iB = relay_chan order STATE_TRYOPEN pA iA cB"
    and iB: "length iB \<le> 28"
    using chain_chan_try [OF same_conns_relay(1) [OF s1 assms(1)] assms(4) c1 assms(5) iA assms(6)] unfolding d by blast
  have rA: "relays_to B1 A1 clA" by (rule same_conns_relay(1) [OF s2 same_conns_relay(2) [OF s1 assms(2)]])
  obtain A2 where 3: "Chain_ChannelOpenAck A1 B1 (chA\<lparr>tch_ID := iA\<rparr>) (chB\<lparr>tch_ID := iB\<rparr>) = Inr A2"
    and s3: "same_conns A1 A2" and c3: "channels (ch_host A2) pA iA = relay_chan order STATE_OPEN pB iB cA"
    using chain_chan_ack [OF rA same_conns_relay(3) [OF s1 assms(3)] c1 c2 assms(5) iA iB assms(6)] unfolding d by blast
  have rB: "relays_to A2 B1 clB"
    by (rule same_conns_relay(1) [OF s3 same_conns_relay(1) [OF s1 same_conns_relay(2) [OF s2 assms(1)]]])
  obtain B2 where "Chain_ChannelOpenConfirm B1 A2 (chB\<lparr>tch_ID := iB\<rparr>) (chA\<lparr>tch_ID := iA\<rparr>) = Inr B2"
    and "channels (ch_host B2) pB iB = relay_chan order STATE_OPEN pA iA cB"
    using chain_chan_confirm [OF rB same_conns_relay(3) [OF s2 assms(4)] c2 c3 assms(5) iA iB assms(6)] unfolding d by blast
  with 1 2 3 c3 show ?thesis by blast
qed

definition relay_example2 :: "string \<Rightarrow> string \<Rightarrow> chain" where
  "relay_example2 cl cpcl = (relay_example cl)\<lparr>ch_host := (ch_host (relay_example cl))
     \<lparr>connections := (\<lambda>_. relay_conn cl STATE_OPEN cpcl ''c'')\<rparr>\<rparr>"

lemma relay_example2_same: "same_clients (relay_example x) (relay_example2 x y)"
  by (simp add: same_clients_def relay_example2_def)

lemma relay_example2:
  "relays_to (relay_example2 x y) (relay_example2 x' y') x'" "linked (relay_example2 x y) x ''c'' y ''c''"
  using same_clients_relay(1) [OF relay_example2_same same_clients_relay(2) [OF relay_example2_same relay_example]]
  by (simp_all add: relay_example2_def linked_def)

lemma channel_handshake_witness:
  "\<exists>iA A1. Chain_ChannelOpenInit (relay_example2 ''x'' ''y'')
     (NextTestChannel (ConstructNextTestConnection ''x'' ''y'') ''p'')
     (NextTestChannel (ConstructNextTestConnection ''y'' ''x'') ''q'') 2 ''c'' = Inr (iA, A1)"
proof -
  have "length ''p'' + length ''q'' + length ''c'' + length ''c'' < 2 ^ 61" "(2 :: 8 word) < 3" by simp_all
  from channel_handshake [OF relay_example2(1) relay_example2(1) relay_example2(2) relay_example2(2) this, of "''x''" "''y''"]
  show ?thesis by blast
qed

section \<open>The life cycle of a packet\<close>

text \<open>The hosts after a packet was sent, received, answered and acknowledged.\<close>

definition sent_host :: "chain \<Rightarrow> string \<Rightarrow> string \<Rightarrow> byte list \<Rightarrow> host" where
  "sent_host A p c cm = (ch_host A)
     \<lparr>nextSequenceSends := (nextSequenceSends (ch_host A))(p := (nextSequenceSends (ch_host A) p)(c := nextSequenceSends (ch_host A) p c + 1)),
      commitments := (commitments (ch_host A))(packetCommitmentKey (ch_env A) p c (nextSequenceSends (ch_host A) p c) := cm)\<rparr>"

definition received_host :: "chain \<Rightarrow> string \<Rightarrow> string \<Rightarrow> 64 word \<Rightarrow> host" where
  "received_host B p c n = (ch_host B)\<lparr>packetReceipts := (packetReceipts (ch_host B))(p := (packetReceipts (ch_host B) p)
     (c := (packetReceipts (ch_host B) p c)(n := True)))\<rparr>"

definition committed_host :: "chain \<Rightarrow> byte list \<Rightarrow> byte list \<Rightarrow> host" where
  "committed_host B k cm = (ch_host B)\<lparr>commitments := (commitments (ch_host B))(k := cm)\<rparr>"


lemma packet_hosts_simps [simp]:
  "channels (sent_host A p c cm) = channels (ch_host A)" "channels (received_host A p c n) = channels (ch_host A)"
  "channels (committed_host A k cm) = channels (ch_host A)" "packetReceipts (committed_host A k cm) = packetReceipts (ch_host A)"
  "commitments (received_host A p c n) = commitments (ch_host A)" "packetReceipts (received_host A p c n) p c n"
  "commitments (sent_host A p c cm) (packetCommitmentKey (ch_env A) p c (nextSequenceSends (ch_host A) p c)) = cm"
  "commitments (committed_host A k cm) k = cm"
  by (simp_all add: sent_host_def received_host_def committed_host_def)







definition relay_example3 :: "string \<Rightarrow> string \<Rightarrow> chain" where
  "relay_example3 cl cpcl = (relay_example2 cl cpcl)\<lparr>ch_host := (ch_host (relay_example2 cl cpcl))
     \<lparr>channels := (\<lambda>_ _. relay_chan ORDER_UNORDERED STATE_OPEN ''p'' ''d'' ''c''), nextSequenceSends := (\<lambda>_ _. 1)\<rparr>\<rparr>"

lemma relay_example3_same: "same_conns (relay_example2 x y) (relay_example3 x y)"
  by (simp add: same_conns_def same_clients_def relay_example3_def)

lemma relay_example3:
  "relays_to (relay_example3 x y) (relay_example3 x' y') x'" "linked (relay_example3 x y) x ''c'' y ''c''"
  using same_conns_relay(1) [OF relay_example3_same same_conns_relay(2) [OF relay_example3_same relay_example2(1)]]
    same_conns_relay(3) [OF relay_example3_same relay_example2(2)]
  by simp_all




end
