(* ===== verification/Wallet.thy ===== *)
theory Wallet
  imports Decimal
begin

text \<open>
  \<^verbatim>\<open>pkg/wallet/wallet.go\<close>: parsing, checking and printing of HD derivation paths, and the
  derivation of a private key along a path. The third-party packages \<^verbatim>\<open>hdkeychain\<close> and
  \<^verbatim>\<open>bip39\<close> are parameters (the record \<open>hd_lib\<close>); their errors are the error \<open>Err_lib\<close>.
\<close>

datatype wallet_error =
    Err_invalid_path_level
  | Err_prefix
  | Err_missing_apostrophe string
  | Err_num num_error
  | Err_purpose
  | Err_change
  | Err_invalid_mnemonic
  | Err_lib

record HDPathLevel =
  hp_Purpose :: "32 word"
  hp_CoinType :: "32 word"
  hp_Account :: "32 word"
  hp_Change :: "32 word"
  hp_Index :: "32 word"

definition checkValidApostrophe :: "string \<Rightarrow> bool" where
  "checkValidApostrophe s \<longleftrightarrow> 0 < length s \<and> s ! (length s - 1) = CHR 0x27"

text \<open>The conversion \<^verbatim>\<open>uint32(v)\<close> of an \<^verbatim>\<open>int\<close> keeps the low 32 bits.\<close>

definition strToUint32 :: "string \<Rightarrow> wallet_error + 32 word" where
  "strToUint32 s = (case Atoi s of Inl e \<Rightarrow> Inl (Err_num e) | Inr v \<Rightarrow> Inr (word_of_int v))"

definition HDPathLevel_Validate :: "HDPathLevel \<Rightarrow> wallet_error + unit" where
  "HDPathLevel_Validate hp =
     (if hp_Purpose hp \<noteq> 44 then Inl Err_purpose
      else if hp_Change hp \<noteq> 0 \<and> hp_Change hp \<noteq> 1 then Inl Err_change
      else Inr ())"

text \<open>
  \<^verbatim>\<open>ParseHDPathLevel\<close> after the prefix check, on the five remaining parts. The last byte of
  the first three is cut off before they are converted.
\<close>

definition parse_levels :: "string list \<Rightarrow> wallet_error + HDPathLevel" where
  "parse_levels parts =
     bindr (require (checkValidApostrophe (parts ! 0)) (Err_missing_apostrophe (parts ! 0))) (\<lambda>_.
     bindr (require (checkValidApostrophe (parts ! 1)) (Err_missing_apostrophe (parts ! 1))) (\<lambda>_.
     bindr (require (checkValidApostrophe (parts ! 2)) (Err_missing_apostrophe (parts ! 2))) (\<lambda>_.
     bindr (strToUint32 (butlast (parts ! 0))) (\<lambda>purpose.
     bindr (strToUint32 (butlast (parts ! 1))) (\<lambda>coinType.
     bindr (strToUint32 (butlast (parts ! 2))) (\<lambda>account.
     bindr (strToUint32 (parts ! 3)) (\<lambda>change.
     bindr (strToUint32 (parts ! 4)) (\<lambda>index.
       let hp = \<lparr>hp_Purpose = purpose, hp_CoinType = coinType, hp_Account = account,
                 hp_Change = change, hp_Index = index\<rparr>
       in bindr (HDPathLevel_Validate hp) (\<lambda>_. Inr hp)))))))))"

definition ParseHDPathLevel :: "string \<Rightarrow> wallet_error + HDPathLevel" where
  "ParseHDPathLevel path =
     (let parts = split_on CHR ''/'' path
      in if length parts \<noteq> 6 then Inl Err_invalid_path_level
         else if parts ! 0 \<noteq> ''m'' then Inl Err_prefix
         else parse_levels (tl parts))"

definition HDPathLevel_String :: "HDPathLevel \<Rightarrow> string" where
  "HDPathLevel_String hp =
     ''m/'' @ dec (unat (hp_Purpose hp)) @ [CHR 0x27, CHR ''/''] @
     dec (unat (hp_CoinType hp)) @ [CHR 0x27, CHR ''/''] @
     dec (unat (hp_Account hp)) @ [CHR 0x27, CHR ''/''] @
     dec (unat (hp_Change hp)) @ [CHR ''/''] @ dec (unat (hp_Index hp))"

subsection \<open>Key derivation\<close>

record ('k, 'p) hd_lib =
  hd_NewMaster :: "byte list \<Rightarrow> 'k option"
  hd_Child :: "'k \<Rightarrow> 32 word \<Rightarrow> 'k option"
  hd_ECPrivKey :: "'k \<Rightarrow> 'p option"
  bip_IsMnemonicValid :: "string \<Rightarrow> bool"
  bip_NewSeed :: "string \<Rightarrow> string \<Rightarrow> byte list"

definition lib_call :: "'a option \<Rightarrow> wallet_error + 'a" where
  "lib_call r = (case r of None \<Rightarrow> Inl Err_lib | Some x \<Rightarrow> Inr x)"

definition HardenedKeyStart :: "32 word" where
  "HardenedKeyStart = 0x80000000"

definition GetPrvKeyFromHDWallet ::
  "('k, 'p) hd_lib \<Rightarrow> byte list \<Rightarrow> HDPathLevel \<Rightarrow> wallet_error + 'p" where
  "GetPrvKeyFromHDWallet lib seed hp =
     bindr (lib_call (hd_NewMaster lib seed)) (\<lambda>masterKey.
     bindr (lib_call (hd_Child lib masterKey (HardenedKeyStart + hp_Purpose hp))) (\<lambda>acc.
     bindr (lib_call (hd_Child lib acc (HardenedKeyStart + hp_CoinType hp))) (\<lambda>acc.
     bindr (lib_call (hd_Child lib acc (HardenedKeyStart + hp_Account hp))) (\<lambda>acc.
     bindr (lib_call (hd_Child lib acc (0 + hp_Change hp))) (\<lambda>acc.
     bindr (lib_call (hd_Child lib acc (hp_Index hp))) (\<lambda>acc.
     lib_call (hd_ECPrivKey lib acc)))))))"

definition GetPrvKeyFromMnemonicAndHDWPath ::
  "('k, 'p) hd_lib \<Rightarrow> string \<Rightarrow> string \<Rightarrow> wallet_error + 'p" where
  "GetPrvKeyFromMnemonicAndHDWPath lib mnemonic path =
     (if \<not> bip_IsMnemonicValid lib mnemonic then Inl Err_invalid_mnemonic
      else bindr (ParseHDPathLevel path) (\<lambda>hp.
        GetPrvKeyFromHDWallet lib (bip_NewSeed lib mnemonic '''') hp))"

subsection \<open>Paths\<close>

lemma strToUint32_dec: "n < 2 ^ 63 \<Longrightarrow> strToUint32 (dec n) = Inr (word_of_nat n)"
  by (simp add: strToUint32_def Atoi_dec)

lemma unat_32_less: "unat (w :: 32 word) < 2 ^ 32"
  using unsigned_less [of w] by simp

lemma strToUint32_word: "strToUint32 (dec (unat (w :: 32 word))) = Inr w"
  using unat_32_less [of w] by (simp add: strToUint32_dec)

lemma dec_parts:
  "CHR ''/'' \<notin> set (dec n)" "CHR ''/'' \<notin> set (dec n @ [CHR 0x27])"
  by (simp_all add: dec_no_sep)

text \<open>A path with five numerals in its places, as the five parts the parser works on.\<close>

definition hd_path :: "nat \<Rightarrow> nat \<Rightarrow> nat \<Rightarrow> nat \<Rightarrow> nat \<Rightarrow> string" where
  "hd_path a b c d e =
     ''m/'' @ dec a @ [CHR 0x27, CHR ''/''] @ dec b @ [CHR 0x27, CHR ''/''] @
     dec c @ [CHR 0x27, CHR ''/''] @ dec d @ [CHR ''/''] @ dec e"

lemma HDPathLevel_String_hd_path:
  "HDPathLevel_String hp = hd_path (unat (hp_Purpose hp)) (unat (hp_CoinType hp))
     (unat (hp_Account hp)) (unat (hp_Change hp)) (unat (hp_Index hp))"
  by (simp add: HDPathLevel_String_def hd_path_def)

lemma split_hd_path:
  "split_on CHR ''/'' (hd_path a b c d e) =
     [''m'', dec a @ [CHR 0x27], dec b @ [CHR 0x27], dec c @ [CHR 0x27], dec d, dec e]"
proof -
  have apo: "split_on CHR ''/'' (dec n @ CHR 0x27 # CHR ''/'' # t) = (dec n @ [CHR 0x27]) # split_on CHR ''/'' t" for n t
    using split_on_sep [OF dec_parts(2), of n t] by simp
  show ?thesis
    by (simp add: hd_path_def apo split_on_sep split_on_plain dec_parts(1))
qed

lemma ParseHDPathLevel_hd_path:
  assumes "a < 2 ^ 63" "b < 2 ^ 63" "c < 2 ^ 63" "d < 2 ^ 63" "e < 2 ^ 63"
  shows "ParseHDPathLevel (hd_path a b c d e) =
    (let hp = \<lparr>hp_Purpose = word_of_nat a, hp_CoinType = word_of_nat b, hp_Account = word_of_nat c,
               hp_Change = word_of_nat d, hp_Index = word_of_nat e\<rparr>
     in bindr (HDPathLevel_Validate hp) (\<lambda>_. Inr hp))"
  using assms
  by (simp add: ParseHDPathLevel_def split_hd_path parse_levels_def checkValidApostrophe_def
      require_def strToUint32_dec nth_append)

subsection \<open>Properties\<close>

text \<open>
  Parsing inverts printing: every path the code considers valid is read back from its
  \<^verbatim>\<open>String()\<close> form without loss.
\<close>

theorem ParseHDPathLevel_String:
  assumes "HDPathLevel_Validate hp = Inr ()"
  shows "ParseHDPathLevel (HDPathLevel_String hp) = Inr hp"
proof -
  have "unat (w :: 32 word) < 2 ^ 63" for w using unat_32_less [of w] by simp
  with assms show ?thesis
    by (cases hp) (simp add: HDPathLevel_String_hd_path ParseHDPathLevel_hd_path)
qed

lemma ParseHDPathLevel_String_witness:
  "HDPathLevel_String \<lparr>hp_Purpose = 44, hp_CoinType = 60, hp_Account = 0, hp_Change = 1, hp_Index = 7\<rparr> =
     ''m/44'' @ [CHR 0x27] @ ''/60'' @ [CHR 0x27] @ ''/0'' @ [CHR 0x27] @ ''/1/7'' \<and>
   ParseHDPathLevel (''m/44'' @ [CHR 0x27] @ ''/60'' @ [CHR 0x27] @ ''/0'' @ [CHR 0x27] @ ''/1/7'') =
     Inr \<lparr>hp_Purpose = 44, hp_CoinType = 60, hp_Account = 0, hp_Change = 1, hp_Index = 7\<rparr>"
proof -
  let ?hp = "\<lparr>hp_Purpose = 44, hp_CoinType = 60, hp_Account = 0, hp_Change = 1, hp_Index = 7\<rparr>"
  have s: "HDPathLevel_String ?hp =
      ''m/44'' @ [CHR 0x27] @ ''/60'' @ [CHR 0x27] @ ''/0'' @ [CHR 0x27] @ ''/1/7''"
    by (simp add: HDPathLevel_String_def dec.simps digit_def) code_simp
  have "HDPathLevel_Validate ?hp = Inr ()" by (simp add: HDPathLevel_Validate_def)
  from ParseHDPathLevel_String [OF this] s show ?thesis by (simp only:)
qed

text \<open>
  Whatever \<^verbatim>\<open>ParseHDPathLevel\<close> accepts denotes a BIP-44 path: purpose 44, change 0 or 1,
  hardened purpose, coin type and account, and the printed form of the result is accepted
  again with the same result.
\<close>

theorem ParseHDPathLevel_valid:
  assumes "ParseHDPathLevel path = Inr hp"
  shows "hp_Purpose hp = 44 \<and> hp_Change hp \<in> {0, 1} \<and>
    (\<exists>p c a ch i. split_on CHR ''/'' path = [''m'', p @ [CHR 0x27], c @ [CHR 0x27], a @ [CHR 0x27], ch, i] \<and>
       strToUint32 p = Inr (hp_Purpose hp) \<and> strToUint32 c = Inr (hp_CoinType hp) \<and>
       strToUint32 a = Inr (hp_Account hp) \<and> strToUint32 ch = Inr (hp_Change hp) \<and>
       strToUint32 i = Inr (hp_Index hp))"
proof -
  have apo: "s = butlast s @ [CHR 0x27]" if "checkValidApostrophe s" for s
    using that by (cases s rule: rev_cases) (auto simp: checkValidApostrophe_def nth_append)
  from assms have l: "length (split_on CHR ''/'' path) = 6" and m: "split_on CHR ''/'' path ! 0 = ''m''"
    and p: "parse_levels (tl (split_on CHR ''/'' path)) = Inr hp"
    by (auto simp: ParseHDPathLevel_def Let_def split: if_splits)
  then obtain p c a ch i where s: "split_on CHR ''/'' path = [''m'', p, c, a, ch, i]"
    by (auto simp: length_Suc_conv eval_nat_numeral)
  with p have parts: "checkValidApostrophe p" "checkValidApostrophe c" "checkValidApostrophe a"
      "strToUint32 (butlast p) = Inr (hp_Purpose hp)" "strToUint32 (butlast c) = Inr (hp_CoinType hp)"
      "strToUint32 (butlast a) = Inr (hp_Account hp)" "strToUint32 ch = Inr (hp_Change hp)"
      "strToUint32 i = Inr (hp_Index hp)"
    and v: "HDPathLevel_Validate hp = Inr ()"
    by (auto simp: parse_levels_def result_simps Let_def)
  from v have "hp_Purpose hp = 44" "hp_Change hp \<in> {0, 1}"
    by (auto simp: HDPathLevel_Validate_def split: if_splits)
  moreover from s parts(1-3) have "split_on CHR ''/'' path = [''m'', butlast p @ [CHR 0x27],
      butlast c @ [CHR 0x27], butlast a @ [CHR 0x27], ch, i]"
    using apo by simp
  ultimately show ?thesis using parts(4-8) by blast
qed

lemma ParseHDPathLevel_valid_witness:
  "\<exists>hp. ParseHDPathLevel (hd_path 44 60 0 1 9) = Inr hp \<and> hp_Index hp = 9 \<and> hp_Purpose hp = 44"
proof -
  let ?hp = "\<lparr>hp_Purpose = 44, hp_CoinType = 60, hp_Account = 0, hp_Change = 1, hp_Index = 9\<rparr>"
  have p: "ParseHDPathLevel (hd_path 44 60 0 1 9) = Inr ?hp"
    by (simp add: ParseHDPathLevel_hd_path HDPathLevel_Validate_def)
  from ParseHDPathLevel_valid [OF p] have "hp_Purpose ?hp = 44" by blast
  with p show ?thesis by (intro exI [of _ ?hp]) simp
qed



end
