(* ===== verification/Eth_Client.thy ===== *)
theory Eth_Client
  imports Besu_Client
begin

text \<open>
  What \<^verbatim>\<open>pkg/client/eth.go\<close>, \<^verbatim>\<open>besu.go\<close> and \<^verbatim>\<open>chain.go\<close> put in front of a node: the two clients
  behind the interface \<^verbatim>\<open>ETHClient\<close>, their receipts behind the interface \<^verbatim>\<open>Receipt\<close>, the
  constructors; and the deployed addresses of \<^verbatim>\<open>pkg/consts\<close>.

  An interface value is a datatype over the types that implement it in this repository. The
  handles of go-ethereum are parameters: \<open>'c\<close> an \<^verbatim>\<open>ethclient.Client\<close>, \<open>'r\<close> an \<^verbatim>\<open>rpc.Client\<close>.
\<close>

subsection \<open>Receipts\<close>

text \<open>The fields that the code reads of go-ethereum's own receipt.\<close>

record 'l geth_receipt =
  gr_PostState :: "byte list"
  gr_Status :: "64 word"
  gr_CumulativeGasUsed :: "64 word"
  gr_Bloom :: "byte list"
  gr_Logs :: "'l list option"
  gr_TxHash :: "byte list"
  gr_ContractAddress :: address
  gr_GasUsed :: "64 word"
  gr_BlockHash :: "byte list"
  gr_BlockNumber :: "int option"
  gr_TransactionIndex :: "64 word"

datatype 'l Receipt =
    EthReceipt "'l ethReceipt"
  | BesuReceipt "'l besuReceipt"

text \<open>A \<^verbatim>\<open>besuReceipt\<close> embeds an \<^verbatim>\<open>ethReceipt\<close>, whose getters it takes over.\<close>

fun embedded :: "'l Receipt \<Rightarrow> 'l ethReceipt" where
  "embedded (EthReceipt rc) = rc"
| "embedded (BesuReceipt rc) = ethReceipt.truncate rc"

definition Receipt_PostState :: "'l Receipt \<Rightarrow> byte list" where
  "Receipt_PostState rc = rc_PostState (embedded rc)"

definition Receipt_Status :: "'l Receipt \<Rightarrow> 64 word" where
  "Receipt_Status rc = rc_Status (embedded rc)"

definition Receipt_CumulativeGasUsed :: "'l Receipt \<Rightarrow> 64 word" where
  "Receipt_CumulativeGasUsed rc = rc_CumulativeGasUsed (embedded rc)"

definition Receipt_Bloom :: "'l Receipt \<Rightarrow> byte list" where
  "Receipt_Bloom rc = rc_Bloom (embedded rc)"

definition Receipt_Logs :: "'l Receipt \<Rightarrow> 'l list option" where
  "Receipt_Logs rc = rc_Logs (embedded rc)"

definition Receipt_TxHash :: "'l Receipt \<Rightarrow> byte list" where
  "Receipt_TxHash rc = rc_TxHash (embedded rc)"

definition Receipt_ContractAddress :: "'l Receipt \<Rightarrow> address" where
  "Receipt_ContractAddress rc = rc_ContractAddress (embedded rc)"

definition Receipt_GasUsed :: "'l Receipt \<Rightarrow> 64 word" where
  "Receipt_GasUsed rc = rc_GasUsed (embedded rc)"

definition Receipt_BlockHash :: "'l Receipt \<Rightarrow> byte list" where
  "Receipt_BlockHash rc = rc_BlockHash (embedded rc)"

definition Receipt_BlockNumber :: "'l Receipt \<Rightarrow> int option" where
  "Receipt_BlockNumber rc = rc_BlockNumber (embedded rc)"

definition Receipt_TransactionIndex :: "'l Receipt \<Rightarrow> 64 word" where
  "Receipt_TransactionIndex rc = rc_TransactionIndex (embedded rc)"

fun Receipt_RevertReason :: "'l Receipt \<Rightarrow> client_error + string" where
  "Receipt_RevertReason (EthReceipt rc) = Inr (ethReceipt_RevertReason rc)"
| "Receipt_RevertReason (BesuReceipt rc) = besuReceipt_RevertReason rc"

subsection \<open>Clients\<close>

datatype ('c, 'r) ETHClient =
    ethClient 'c
  | besuClient 'c 'r

record ('c, 'r) Client =
  cl_endpoint :: string
  cl_clientType :: string
  cl_conn :: 'r
  cl_ETHClient :: "('c, 'r) ETHClient"

definition Client_ClientType :: "('c, 'r) Client \<Rightarrow> string" where
  "Client_ClientType cl = cl_clientType cl"

text \<open>\<open>dial\<close> is \<^verbatim>\<open>rpc.DialHTTP\<close>, \<open>wrap\<close> is \<^verbatim>\<open>ethclient.NewClient\<close>.\<close>

definition NewETHClient ::
  "(string \<Rightarrow> client_error + 'r) \<Rightarrow> ('r \<Rightarrow> 'c) \<Rightarrow> string \<Rightarrow> string \<Rightarrow> client_error + ('c, 'r) Client"
where
  "NewETHClient dial wrap endpoint clientType =
     bindr (dial endpoint) (\<lambda>conn.
     Inr \<lparr>cl_endpoint = endpoint, cl_clientType = clientType, cl_conn = conn,
          cl_ETHClient = ethClient (wrap conn)\<rparr>)"

definition NewBesuClient ::
  "(string \<Rightarrow> client_error + 'r) \<Rightarrow> ('r \<Rightarrow> 'c) \<Rightarrow> string \<Rightarrow> string \<Rightarrow> client_error + ('c, 'r) Client"
where
  "NewBesuClient dial wrap endpoint clientType =
     bindr (dial endpoint) (\<lambda>conn.
     Inr \<lparr>cl_endpoint = endpoint, cl_clientType = clientType, cl_conn = conn,
          cl_ETHClient = besuClient (wrap conn) conn\<rparr>)"

definition ethClient_TransactionReceipt :: "client_error + 'l geth_receipt \<Rightarrow> client_error + 'l ethReceipt" where
  "ethClient_TransactionReceipt receipt =
     bindr receipt (\<lambda>rc.
     Inr \<lparr>rc_PostState = gr_PostState rc, rc_Status = gr_Status rc,
          rc_CumulativeGasUsed = gr_CumulativeGasUsed rc, rc_Bloom = gr_Bloom rc, rc_Logs = gr_Logs rc,
          rc_TxHash = gr_TxHash rc, rc_ContractAddress = gr_ContractAddress rc, rc_GasUsed = gr_GasUsed rc,
          rc_BlockHash = gr_BlockHash rc, rc_BlockNumber = gr_BlockNumber rc,
          rc_TransactionIndex = gr_TransactionIndex rc\<rparr>)"

text \<open>
  The interface's \<^verbatim>\<open>TransactionReceipt\<close>: \<open>geth\<close> is the method of \<^verbatim>\<open>ethclient.Client\<close> and \<open>call\<close> the
  JSON-RPC call \<^verbatim>\<open>eth_getTransactionReceipt\<close>.
\<close>

fun ETHClient_TransactionReceipt ::
  "('c \<Rightarrow> byte list \<Rightarrow> client_error + 'l geth_receipt) \<Rightarrow>
   ('r \<Rightarrow> string \<Rightarrow> byte list \<Rightarrow> client_error + 'l besuReceipt option) \<Rightarrow>
   ('c, 'r) ETHClient \<Rightarrow> byte list \<Rightarrow> client_error + 'l Receipt"
where
  "ETHClient_TransactionReceipt geth call (ethClient c) txHash =
     map_sum id EthReceipt (ethClient_TransactionReceipt (geth c txHash))"
| "ETHClient_TransactionReceipt geth call (besuClient c r) txHash =
     map_sum id BesuReceipt (besuClient_TransactionReceipt (call r ''eth_getTransactionReceipt'' txHash))"

subsection \<open>Deployed contracts\<close>

definition IBCHostAddress :: string where
  "IBCHostAddress = ''0xff77D90D6aA12db33d3Ba50A34fB25401f6e4c4F''"

definition IBCHandlerAddress :: string where
  "IBCHandlerAddress = ''0x2F5703804E29F4252FA9405B8D357220d11b3bd9''"

definition IBCIdentifierAddress :: string where
  "IBCIdentifierAddress = ''0xB9c99Dc02185993bdB9C48Fc29544f6cC6604F87''"

definition IBFT2ClientAddress :: string where
  "IBFT2ClientAddress = ''0x702E40245797c5a2108A566b3CE2Bf14Bc6aF841''"

definition MockClientAddress :: string where
  "MockClientAddress = ''0xaa43d337145E8930d01cb4E60Abf6595C692921E''"

definition SimpleTokenAddress :: string where
  "SimpleTokenAddress = ''0xaE1C9125BbcF63bf51294C4D15CBD472782E330D''"

definition ICS20TransferBankAddress :: string where
  "ICS20TransferBankAddress = ''0x87d7778dbc81251D5A0D78DFD8a0C359887E98C9''"

definition ICS20BankAddress :: string where
  "ICS20BankAddress = ''0xa7f733a4fEA1071f58114b203F57444969b86524''"

text \<open>The getters convert with \<^verbatim>\<open>common.HexToAddress\<close>, the argument \<open>hex\<close>.\<close>

definition GetIBCHostAddress :: "(string \<Rightarrow> address) \<Rightarrow> address" where
  "GetIBCHostAddress hex = hex IBCHostAddress"

definition GetIBCHandlerAddress :: "(string \<Rightarrow> address) \<Rightarrow> address" where
  "GetIBCHandlerAddress hex = hex IBCHandlerAddress"

definition GetIBCIdentifierAddress :: "(string \<Rightarrow> address) \<Rightarrow> address" where
  "GetIBCIdentifierAddress hex = hex IBCIdentifierAddress"

definition GetIBFT2ClientAddress :: "(string \<Rightarrow> address) \<Rightarrow> address" where
  "GetIBFT2ClientAddress hex = hex IBFT2ClientAddress"

definition GetMockClientAddress :: "(string \<Rightarrow> address) \<Rightarrow> address" where
  "GetMockClientAddress hex = hex MockClientAddress"

definition GetSimpleTokenAddress :: "(string \<Rightarrow> address) \<Rightarrow> address" where
  "GetSimpleTokenAddress hex = hex SimpleTokenAddress"

definition GetICS20TransferBankAddress :: "(string \<Rightarrow> address) \<Rightarrow> address" where
  "GetICS20TransferBankAddress hex = hex ICS20TransferBankAddress"

definition GetICS20BankAddress :: "(string \<Rightarrow> address) \<Rightarrow> address" where
  "GetICS20BankAddress hex = hex ICS20BankAddress"

text \<open>
  The getters take whatever the string names. The strings are twenty bytes in hexadecimal, so
  nothing is padded or cut, and no two have the same digits (of either case).
\<close>

definition deployed :: "string list" where
  "deployed = [IBCHostAddress, IBCHandlerAddress, IBCIdentifierAddress, IBFT2ClientAddress,
     MockClientAddress, SimpleTokenAddress, ICS20TransferBankAddress, ICS20BankAddress]"

lemma addresses_valid:
  "list_all (\<lambda>s. take 2 s = ''0x'' \<and> length s = 42 \<and> None \<notin> set (map hex_val (drop 2 s))) deployed"
  by code_simp

lemma addresses_distinct: "distinct (map (\<lambda>s. map hex_val (drop 2 s)) deployed)"
  by code_simp

text \<open>Through the interface a status and a reason are the receipt's own, whichever node answered.\<close>

lemma Receipt_Status_simps [simp]:
  "Receipt_Status (EthReceipt r) = rc_Status r" "Receipt_Status (BesuReceipt b) = rc_Status b"
  by (simp_all add: Receipt_Status_def ethReceipt.truncate_def)

end
