(* ===== verification/ICS20_Bank.thy ===== *)
theory ICS20_Bank
  imports Sol_Base
begin

text \<open>
  \<^verbatim>\<open>contracts/app/ICS20Bank.sol\<close>: balances by token identifier and account, changed by their
  owner, by an operator, or against ERC-20 tokens that the contract holds.

  The libraries of OpenZeppelin are parameters: a \<open>role_table\<close> is \<^verbatim>\<open>AccessControl\<close> over its own
  storage \<open>'r\<close>, and \<open>tokens\<close> gives the code of the ERC-20 contract at an address (\<open>None\<close> where there is
  no contract). A token acts on the whole state, the bank's part included, as it may call back;
  \<open>'t\<close> is the storage of the tokens.
\<close>

subsection \<open>State\<close>

record ('r, 't) bank =
  bk_roles :: 'r
  bk_balances :: "string \<Rightarrow> address \<Rightarrow> 256 word"
  bk_tokens :: 't

record 'r role_table =
  ac_hasRole :: "byte list \<Rightarrow> address \<Rightarrow> 'r \<Rightarrow> bool"
  ac_setupRole :: "byte list \<Rightarrow> address \<Rightarrow> 'r \<Rightarrow> 'r"

text \<open>The first argument of a token's function is the caller, the bank.\<close>

record 'b erc20 =
  erc20_transferFrom :: "address \<Rightarrow> address \<Rightarrow> address \<Rightarrow> 256 word \<Rightarrow> 'b \<Rightarrow> sol_error + bool \<times> 'b"
  erc20_transfer :: "address \<Rightarrow> address \<Rightarrow> 256 word \<Rightarrow> 'b \<Rightarrow> sol_error + bool \<times> 'b"

text \<open>What a call of the bank sees: the chain's environment, its own address, the libraries.\<close>

record ('r, 't) bank_env = env +
  be_self :: address
  be_roles :: "'r role_table"
  be_tokens :: "address \<Rightarrow> ('r, 't) bank erc20 option"

definition ADMIN_ROLE :: "'z env_scheme \<Rightarrow> byte list" where
  "ADMIN_ROLE B = keccak256 B (str_bytes ''ADMIN_ROLE'')"

definition OPERATOR_ROLE :: "'z env_scheme \<Rightarrow> byte list" where
  "OPERATOR_ROLE B = keccak256 B (str_bytes ''OPERATOR_ROLE'')"

definition hasRole :: "('r, 't) bank_env \<Rightarrow> byte list \<Rightarrow> address \<Rightarrow> ('r, 't) bank \<Rightarrow> bool" where
  "hasRole B role account s = ac_hasRole (be_roles B) role account (bk_roles s)"

definition setupRole :: "('r, 't) bank_env \<Rightarrow> byte list \<Rightarrow> address \<Rightarrow> ('r, 't) bank \<Rightarrow> ('r, 't) bank" where
  "setupRole B role account s = s\<lparr>bk_roles := ac_setupRole (be_roles B) role account (bk_roles s)\<rparr>"

definition bank_constructor :: "('r, 't) bank_env \<Rightarrow> 'r \<Rightarrow> 't \<Rightarrow> ('r, 't) bank" where
  "bank_constructor B roles toks =
     setupRole B (ADMIN_ROLE B) (msg_sender B) \<lparr>bk_roles = roles, bk_balances = (\<lambda>tid a. 0), bk_tokens = toks\<rparr>"

definition set_balance :: "string \<Rightarrow> address \<Rightarrow> 256 word \<Rightarrow> ('r, 't) bank \<Rightarrow> ('r, 't) bank" where
  "set_balance tid account v s =
     s\<lparr>bk_balances := (bk_balances s)(tid := (bk_balances s tid)(account := v))\<rparr>"

subsection \<open>Addresses as strings\<close>

text \<open>The loop of \<^verbatim>\<open>addressToString\<close>: two characters for each of the 20 bytes.\<close>

definition hex_alphabet :: string where
  "hex_alphabet = ''0123456789abcdef''"

definition addressToString_step :: "byte list \<Rightarrow> nat \<Rightarrow> string \<Rightarrow> string" where
  "addressToString_step data i str =
     str[2 + i * 2 := hex_alphabet ! unat (drop_bit 4 (data ! i)),
         2 + 1 + i * 2 := hex_alphabet ! unat (data ! i AND 0x0f)]"

definition addressToString :: "address \<Rightarrow> string" where
  "addressToString a =
     (let data = be_bytes 20 (unat a); str = (replicate 42 (CHR 0x00))[0 := CHR ''0'', 1 := CHR ''x'']
      in fold (addressToString_step data) [0..<20] str)"

definition hex_value :: "160 word \<Rightarrow> 160 word" where
  "hex_value b =
     (if 97 \<le> b \<and> b \<le> 102 then b - 87
      else if 65 \<le> b \<and> b \<le> 70 then b - 55
      else if 48 \<le> b \<and> b \<le> 57 then b - 48
      else b)"

function parseAddr_loop :: "byte list \<Rightarrow> nat \<Rightarrow> 160 word \<Rightarrow> sol_error + address" where
  "parseAddr_loop tmp i iaddr =
     (if i < 2 + 2 * 20 then
        bindr (sol_index tmp i) (\<lambda>b1.
        bindr (sol_index tmp (i + 1)) (\<lambda>b2.
        parseAddr_loop tmp (i + 2) (iaddr * 256 + (hex_value (ucast b1) * 16 + hex_value (ucast b2)))))
      else Inr iaddr)"
  by pat_completeness auto
termination by (relation "measure (\<lambda>(tmp, i, iaddr). 42 - i)") auto

declare parseAddr_loop.simps [simp del]

definition parseAddr :: "string \<Rightarrow> sol_error + address" where
  "parseAddr a = parseAddr_loop (str_bytes a) 2 0"

definition genDenom :: "address \<Rightarrow> string" where
  "genDenom tokenContract = addressToString tokenContract"

subsection \<open>Operations\<close>

definition setOperator :: "('r, 't) bank_env \<Rightarrow> address \<Rightarrow> ('r, 't) bank \<Rightarrow> sol_error + ('r, 't) bank" where
  "setOperator B operator s =
     bindr (require (hasRole B (ADMIN_ROLE B) (msg_sender B) s)
       (Revert ''must have admin role to set new operator'')) (\<lambda>_.
     Inr (setupRole B (OPERATOR_ROLE B) operator s))"

definition balanceOf :: "address \<Rightarrow> string \<Rightarrow> ('r, 't) bank \<Rightarrow> sol_error + 256 word" where
  "balanceOf account tid s =
     bindr (require (account \<noteq> 0) (Revert ''ICS20Bank: balance query for the zero address'')) (\<lambda>_.
     Inr (bk_balances s tid account))"

definition bank_transferFrom ::
  "('r, 't) bank_env \<Rightarrow> address \<Rightarrow> address \<Rightarrow> string \<Rightarrow> 256 word \<Rightarrow> ('r, 't) bank \<Rightarrow> sol_error + ('r, 't) bank"
where
  "bank_transferFrom B sender to tid amount s =
     bindr (require (to \<noteq> 0) (Revert ''ICS20Bank: transfer to the zero address'')) (\<lambda>_.
     bindr (require (sender = msg_sender B \<or> hasRole B (OPERATOR_ROLE B) (msg_sender B) s)
       (Revert ''ICS20Bank: caller is not owner nor approved'')) (\<lambda>_.
     let fromBalance = bk_balances s tid sender in
     bindr (require (amount \<le> fromBalance) (Revert ''ICS20Bank: insufficient balance for transfer'')) (\<lambda>_.
     let s = set_balance tid sender (fromBalance - amount) s
     in Inr (set_balance tid to (bk_balances s tid to + amount) s))))"

definition mint_to :: "address \<Rightarrow> string \<Rightarrow> 256 word \<Rightarrow> ('r, 't) bank \<Rightarrow> ('r, 't) bank" where
  "mint_to account tid amount s = set_balance tid account (bk_balances s tid account + amount) s"

definition burn_from :: "address \<Rightarrow> string \<Rightarrow> 256 word \<Rightarrow> ('r, 't) bank \<Rightarrow> sol_error + ('r, 't) bank" where
  "burn_from account tid amount s =
     (let accountBalance = bk_balances s tid account in
      bindr (require (amount \<le> accountBalance) (Revert ''ICS20Bank: burn amount exceeds balance'')) (\<lambda>_.
      Inr (set_balance tid account (accountBalance - amount) s)))"

definition bank_mint ::
  "('r, 't) bank_env \<Rightarrow> address \<Rightarrow> string \<Rightarrow> 256 word \<Rightarrow> ('r, 't) bank \<Rightarrow> sol_error + ('r, 't) bank"
where
  "bank_mint B account tid amount s =
     bindr (require (hasRole B (OPERATOR_ROLE B) (msg_sender B) s)
       (Revert ''ICS20Bank: must have minter role to mint'')) (\<lambda>_.
     Inr (mint_to account tid amount s))"

definition bank_burn ::
  "('r, 't) bank_env \<Rightarrow> address \<Rightarrow> string \<Rightarrow> 256 word \<Rightarrow> ('r, 't) bank \<Rightarrow> sol_error + ('r, 't) bank"
where
  "bank_burn B account tid amount s =
     bindr (require (hasRole B (OPERATOR_ROLE B) (msg_sender B) s)
       (Revert ''ICS20Bank: must have minter role to mint'')) (\<lambda>_.
     burn_from account tid amount s)"

definition token_at :: "('r, 't) bank_env \<Rightarrow> address \<Rightarrow> sol_error + ('r, 't) bank erc20" where
  "token_at B a = (case be_tokens B a of None \<Rightarrow> Inl (Revert []) | Some t \<Rightarrow> Inr t)"

definition deposit ::
  "('r, 't) bank_env \<Rightarrow> address \<Rightarrow> 256 word \<Rightarrow> address \<Rightarrow> ('r, 't) bank \<Rightarrow> sol_error + ('r, 't) bank"
where
  "deposit B tokenContract amount receiver s =
     bindr (token_at B tokenContract) (\<lambda>token.
     bindr (erc20_transferFrom token (be_self B) (msg_sender B) (be_self B) amount s) (\<lambda>(ok, s).
     bindr (require ok (Revert [])) (\<lambda>_.
     Inr (mint_to receiver (genDenom tokenContract) amount s))))"

definition withdraw ::
  "('r, 't) bank_env \<Rightarrow> address \<Rightarrow> 256 word \<Rightarrow> address \<Rightarrow> ('r, 't) bank \<Rightarrow> sol_error + ('r, 't) bank"
where
  "withdraw B tokenContract amount receiver s =
     bindr (token_at B tokenContract) (\<lambda>token.
     bindr (burn_from (msg_sender B) (genDenom tokenContract) amount s) (\<lambda>s.
     bindr (erc20_transfer token (be_self B) receiver amount s) (\<lambda>(ok, s).
     bindr (require ok (Revert [])) (\<lambda>_. Inr s))))"

subsection \<open>Addresses are read back\<close>

definition hex_pair :: "byte \<Rightarrow> string" where
  "hex_pair b = [hex_alphabet ! unat (drop_bit 4 b), hex_alphabet ! unat (b AND 0x0f)]"

lemma step_hex:
  "length xs = 2 + i * 2 \<Longrightarrow> addressToString_step data i (xs @ c # d # rest) = xs @ hex_pair (data ! i) @ rest"
  by (simp add: addressToString_step_def list_update_append hex_pair_def)

lemma fill_hex:
  assumes "n \<le> length data" and "length str = 2 + 2 * m" and "n \<le> m"
  shows "fold (addressToString_step data) [0..<n] str =
    take 2 str @ concat (map hex_pair (take n data)) @ drop (2 + 2 * n) str"
  using assms
proof (induction n)
  case 0
  then show ?case by simp
next
  case (Suc n)
  let ?done = "take 2 str @ concat (map hex_pair (take n data))"
  have l: "length ?done = 2 + 2 * n" using Suc.prems
    by (simp add: length_concat hex_pair_def sum_list_triv o_def)
  let ?c = "str ! (2 + 2 * n)" and ?d = "str ! (3 + 2 * n)" and ?rest = "drop (2 + 2 * Suc n) str"
  have r: "drop (2 + 2 * n) str = ?c # ?d # ?rest"
    using Suc.prems Cons_nth_drop_Suc [of "2 + 2 * n" str] Cons_nth_drop_Suc [of "3 + 2 * n" str]
    by (simp add: numeral_eq_Suc)
  have "fold (addressToString_step data) [0..<Suc n] str = addressToString_step data n (?done @ ?c # ?d # ?rest)"
    using Suc by (simp only: upt_Suc_append [of 0 n] fold_append o_apply fold_simps le0 r) simp
  also have "\<dots> = ?done @ hex_pair (data ! n) @ ?rest"
    by (rule step_hex) (use l in \<open>simp only: mult.commute\<close>)
  finally show ?case using Suc.prems by (simp add: take_Suc_conv_app_nth)
qed

lemma addressToString_pairs: "addressToString a = ''0x'' @ concat (map hex_pair (be_bytes 20 (unat a)))"
  unfolding addressToString_def Let_def
proof (subst fill_hex [where m = 20])
  have "replicate 42 (CHR 0x00) = CHR 0x00 # CHR 0x00 # replicate 40 (CHR 0x00)"
    by (simp add: numeral_eq_Suc)
  then show "take 2 ((replicate 42 (CHR 0x00))[0 := CHR ''0'', 1 := CHR ''x'']) @
      concat (map hex_pair (take 20 (be_bytes 20 (unat a)))) @
      drop (2 + 2 * 20) ((replicate 42 (CHR 0x00))[0 := CHR ''0'', 1 := CHR ''x'']) =
    ''0x'' @ concat (map hex_pair (be_bytes 20 (unat a)))"
    by (simp add: take_Suc_conv_app_nth numeral_2_eq_2)
qed simp_all

lemma less_16_cases: "n < (16 :: nat) \<Longrightarrow> n = 0 \<or> n = 1 \<or> n = 2 \<or> n = 3 \<or> n = 4 \<or> n = 5 \<or> n = 6 \<or> n = 7 \<or> n = 8 \<or>
    n = 9 \<or> n = 10 \<or> n = 11 \<or> n = 12 \<or> n = 13 \<or> n = 14 \<or> n = 15"
  by presburger

lemma hex_value_digit: "n < 16 \<Longrightarrow> hex_value (ucast (char_byte (hex_alphabet ! n))) = of_nat n"
  by (drule less_16_cases) (elim disjE; simp add: hex_value_def hex_alphabet_def char_byte_def)

lemma nibbles: "unat (drop_bit 4 (b :: byte)) = unat b div 16" "unat (b AND 0x0f) = unat b mod 16"
proof -
  show "unat (drop_bit 4 b) = unat b div 16"
    by (simp add: drop_bit_eq_div unat_div)
  have "b AND 0x0f = take_bit 4 b" by (simp add: take_bit_eq_mask mask_eq_exp_minus_1)
  then show "unat (b AND 0x0f) = unat b mod 16" by (simp add: take_bit_eq_mod unat_mod)
qed

lemma hex_pair_value:
  fixes b :: byte
  shows "hex_value (ucast (char_byte (hex_alphabet ! unat (drop_bit 4 b)))) * 16 +
    hex_value (ucast (char_byte (hex_alphabet ! unat (b AND 0x0f)))) = (ucast b :: 160 word)"
proof -
  have "unat b div 16 < 16" "unat b mod 16 < 16" using unat_byte_less [of b] by auto
  then have "hex_value (ucast (char_byte (hex_alphabet ! unat (drop_bit 4 b)))) * 16 +
      hex_value (ucast (char_byte (hex_alphabet ! unat (b AND 0x0f)))) = of_nat (unat b div 16 * 16 + unat b mod 16)"
    unfolding nibbles by (simp only: hex_value_digit of_nat_add of_nat_mult of_nat_numeral)
  then show ?thesis by (simp only: div_mult_mod_eq) (simp only: of_nat_unat)
qed

lemma parseAddr_loop_pairs:
  "length pre = i \<Longrightarrow> i + 2 * length ds = 42 \<Longrightarrow>
   parseAddr_loop (pre @ str_bytes (concat (map hex_pair ds))) i acc = Inr (foldl (\<lambda>x b. x * 256 + ucast b) acc ds)"
proof (induction ds arbitrary: pre i acc)
  case Nil
  then show ?case by (subst parseAddr_loop.simps) simp
next
  case (Cons b ds)
  let ?c = "char_byte (hex_alphabet ! unat (drop_bit 4 b))" and ?d = "char_byte (hex_alphabet ! unat (b AND 0x0f))"
  let ?rest = "str_bytes (concat (map hex_pair ds))"
  have "parseAddr_loop (pre @ str_bytes (concat (map hex_pair (b # ds)))) i acc =
      parseAddr_loop ((pre @ [?c, ?d]) @ ?rest) i acc"
    by (simp add: hex_pair_def str_bytes_def)
  also have "\<dots> = parseAddr_loop ((pre @ [?c, ?d]) @ ?rest) (i + 2) (acc * 256 + ucast b)"
    using Cons.prems by (subst parseAddr_loop.simps) (simp add: sol_index_def nth_append hex_pair_value del: append_assoc)
  also have "\<dots> = Inr (foldl (\<lambda>x b. x * 256 + ucast b) (acc * 256 + ucast b) ds)"
    by (rule Cons.IH) (use Cons.prems in simp_all)
  finally show ?case by simp
qed

lemma foldl_be_val: "foldl (\<lambda>x b. x * 256 + ucast b) (0 :: address) bs = of_nat (be_val bs)"
  by (induction bs rule: rev_induct) (simp, simp only: foldl_append foldl.simps be_val_snoc of_nat_add of_nat_mult of_nat_unat of_nat_numeral mult.commute)

lemma parse_addressToString: "parseAddr (addressToString a) = Inr a"
proof -
  have p: "parseAddr (addressToString a) =
      Inr (foldl (\<lambda>x b. x * 256 + ucast b) 0 (be_bytes 20 (unat a)))"
    unfolding parseAddr_def addressToString_pairs str_bytes_append
    by (rule parseAddr_loop_pairs) simp_all
  have "be_val (be_bytes 20 (unat a)) = unat a"
    using unsigned_less [where ?'a = nat and w = a] by (simp add: be_val_be_bytes)
  then have "foldl (\<lambda>x b. x * 256 + ucast b) 0 (be_bytes 20 (unat a)) = a"
    by (simp only: foldl_be_val of_nat_unat ucast_id)
  with p show ?thesis by simp
qed

lemma genDenom_inject [simp]: "genDenom a = genDenom b \<longleftrightarrow> a = b"
  unfolding genDenom_def by (metis parse_addressToString sum.inject(2))

lemma hex_no_slash: "n < 16 \<Longrightarrow> hex_alphabet ! n \<noteq> CHR ''/''"
  by (drule less_16_cases) (elim disjE; simp add: hex_alphabet_def)

lemma genDenom_no_slash: "CHR ''/'' \<notin> set (genDenom a)"
proof -
  have "CHR ''/'' \<notin> set (hex_pair b)" for b
  proof -
    have "unat b div 16 < 16" "unat b mod 16 < 16" using unat_byte_less [of b] by auto
    then show ?thesis using hex_no_slash [of "unat b div 16"] hex_no_slash [of "unat b mod 16"]
      unfolding hex_pair_def nibbles by auto
  qed
  moreover have "CHR ''/'' \<notin> set ''0x''" by simp
  ultimately show ?thesis
    unfolding genDenom_def addressToString_pairs set_append set_concat by (simp only: Un_iff UN_iff set_map) blast
qed

subsection \<open>Supply\<close>

text \<open>What all accounts together hold of a token.\<close>

definition total_supply :: "string \<Rightarrow> ('r, 't) bank \<Rightarrow> nat" where
  "total_supply tid s = (\<Sum>a\<in>UNIV. unat (bk_balances s tid a))"

lemma set_balance_simps [simp]:
  "bk_balances (set_balance tid a v s) = (bk_balances s)(tid := (bk_balances s tid)(a := v))"
  "bk_roles (set_balance tid a v s) = bk_roles s" "bk_tokens (set_balance tid a v s) = bk_tokens s"
  by (simp_all add: set_balance_def)

lemma supply_set_balance:
  "total_supply tid (set_balance tid a v s) + unat (bk_balances s tid a) = total_supply tid s + unat v"
proof -
  have "(\<Sum>x\<in>UNIV - {a}. unat (((bk_balances s tid)(a := v)) x)) = (\<Sum>x\<in>UNIV - {a}. unat (bk_balances s tid x))"
    by (rule sum.cong) auto
  then show ?thesis unfolding total_supply_def by (simp add: sum.remove [of UNIV a])
qed

lemma supply_other: "tid' \<noteq> tid \<Longrightarrow> total_supply tid' (set_balance tid a v s) = total_supply tid' s"
  by (simp add: total_supply_def)

lemma balance_le_supply: "unat (bk_balances s tid a) \<le> total_supply tid s"
  unfolding total_supply_def by (simp add: sum.remove [of UNIV a])

lemma two_balances_le_supply:
  "a \<noteq> b \<Longrightarrow> unat (bk_balances s tid a) + unat (bk_balances s tid b) \<le> total_supply tid s"
  unfolding total_supply_def by (simp add: sum.remove [of UNIV a] sum.remove [of "UNIV - {a}" b])

lemma bank_transferFrom_Inr [result_simps]:
  "bank_transferFrom B sender to tid amount s = Inr s' \<longleftrightarrow>
     to \<noteq> 0 \<and> (sender = msg_sender B \<or> hasRole B (OPERATOR_ROLE B) (msg_sender B) s) \<and>
     amount \<le> bk_balances s tid sender \<and>
     s' = (let s1 = set_balance tid sender (bk_balances s tid sender - amount) s
           in set_balance tid to (bk_balances s1 tid to + amount) s1)"
  by (auto simp: bank_transferFrom_def Let_def result_simps)

lemma bank_mint_Inr [result_simps]:
  "bank_mint B a tid amount s = Inr s' \<longleftrightarrow>
     hasRole B (OPERATOR_ROLE B) (msg_sender B) s \<and> s' = mint_to a tid amount s"
  by (auto simp: bank_mint_def result_simps)

lemma burn_from_Inr [result_simps]:
  "burn_from a tid amount s = Inr s' \<longleftrightarrow>
     amount \<le> bk_balances s tid a \<and> s' = set_balance tid a (bk_balances s tid a - amount) s"
  by (auto simp: burn_from_def Let_def result_simps)

lemma bank_burn_Inr [result_simps]:
  "bank_burn B a tid amount s = Inr s' \<longleftrightarrow>
     hasRole B (OPERATOR_ROLE B) (msg_sender B) s \<and> burn_from a tid amount s = Inr s'"
  by (auto simp: bank_burn_def result_simps)

lemma unat_add_le: "unat (x + y :: 'a :: len word) \<le> unat x + unat y"
  by (simp add: unat_word_ariths)

lemma supply_mint_le: "total_supply tid (mint_to a tid amount s) \<le> total_supply tid s + unat amount"
  using supply_set_balance [of tid a "bk_balances s tid a + amount" s] unat_add_le [of "bk_balances s tid a" amount]
  unfolding mint_to_def by linarith

lemma supply_mint_other: "tid' \<noteq> tid \<Longrightarrow> total_supply tid' (mint_to a tid amount s) = total_supply tid' s"
  unfolding mint_to_def by (rule supply_other)

lemma supply_burn:
  assumes "burn_from a tid amount s = Inr s'"
  shows "total_supply tid s' + unat amount = total_supply tid s"
    and "tid' \<noteq> tid \<Longrightarrow> total_supply tid' s' = total_supply tid' s"
  using assms supply_set_balance [of tid a "bk_balances s tid a - amount" s]
  by (auto simp: result_simps supply_other unat_sub word_le_nat_alt)

lemma supply_transfer_le:
  assumes "bank_transferFrom B sender to tid amount s = Inr s'"
  shows "total_supply tid' s' \<le> total_supply tid' s"
proof (cases "tid' = tid")
  case True
  let ?s1 = "set_balance tid sender (bk_balances s tid sender - amount) s"
  have s': "s' = mint_to to tid amount ?s1" and "amount \<le> bk_balances s tid sender"
    using assms by (auto simp: result_simps mint_to_def Let_def)
  then have "total_supply tid ?s1 + unat amount = total_supply tid s"
    by (intro supply_burn(1) [of sender]) (simp add: result_simps)
  then show ?thesis using supply_mint_le [of tid to amount ?s1] True s' by simp
next
  case False
  then show ?thesis using assms by (auto simp: result_simps Let_def supply_other)
qed

lemma mint_no_overflow:
  assumes "total_supply tid s + unat amount < 2 ^ 256"
  shows "unat (bk_balances s tid a + amount) = unat (bk_balances s tid a) + unat amount"
    and "total_supply tid (mint_to a tid amount s) = total_supply tid s + unat amount"
proof -
  have "unat (bk_balances s tid a) + unat amount < 2 ^ LENGTH(256)"
    using assms balance_le_supply [of s tid a] by simp
  then show u: "unat (bk_balances s tid a + amount) = unat (bk_balances s tid a) + unat amount"
    by (subst unat_add_lem [symmetric])
  show "total_supply tid (mint_to a tid amount s) = total_supply tid s + unat amount"
    using supply_set_balance [of tid a "bk_balances s tid a + amount" s]
    unfolding mint_to_def u by linarith
qed

subsection \<open>Property\<close>

text \<open>
  C27: a transfer between accounts creates and destroys nothing. As long as the supply of the
  token fits 256 bits, \<^verbatim>\<open>transferFrom\<close> keeps it, takes the amount from one account and gives it to
  the other without wrapping, and touches no other account or token.
\<close>

theorem bank_transferFrom_conserves:
  assumes "bank_transferFrom B sender to tid amount s = Inr s'" and "total_supply tid s < 2 ^ 256"
  shows "total_supply tid s' = total_supply tid s \<and>
    (sender \<noteq> to \<longrightarrow>
       unat (bk_balances s' tid sender) + unat amount = unat (bk_balances s tid sender) \<and>
       unat (bk_balances s' tid to) = unat (bk_balances s tid to) + unat amount) \<and>
    (sender = to \<longrightarrow> bk_balances s' = bk_balances s) \<and>
    (\<forall>a. a \<noteq> sender \<longrightarrow> a \<noteq> to \<longrightarrow> bk_balances s' tid a = bk_balances s tid a) \<and>
    (\<forall>tid'. tid' \<noteq> tid \<longrightarrow> bk_balances s' tid' = bk_balances s tid') \<and> bk_tokens s' = bk_tokens s"
proof -
  let ?s1 = "set_balance tid sender (bk_balances s tid sender - amount) s"
  have s': "s' = mint_to to tid amount ?s1" and le: "amount \<le> bk_balances s tid sender"
    using assms(1) by (auto simp: result_simps mint_to_def Let_def)
  then have b: "total_supply tid ?s1 + unat amount = total_supply tid s"
    by (intro supply_burn(1) [of sender]) (simp add: result_simps)
  then have "total_supply tid s' = total_supply tid s"
    using mint_no_overflow(2) [of tid ?s1 amount to] assms(2) s' by simp
  moreover have "unat (bk_balances s tid sender - amount) + unat amount = unat (bk_balances s tid sender)"
    using le by (simp add: unat_sub word_le_nat_alt)
  moreover have "unat (bk_balances ?s1 tid to + amount) = unat (bk_balances ?s1 tid to) + unat amount"
    using mint_no_overflow(1) [of tid ?s1 amount to] assms(2) b by simp
  ultimately show ?thesis by (auto simp: s' mint_to_def fun_eq_iff)
qed

definition no_roles :: "unit role_table" where
  "no_roles = \<lparr>ac_hasRole = \<lambda>r a s. False, ac_setupRole = \<lambda>r a s. s\<rparr>"

definition example_bank_env :: "(unit, unit) bank_env" where
  "example_bank_env = \<lparr>keccak256 = \<lambda>b. b, msg_sender = 1, block_number = 1, block_timestamp = 1,
     be_self = 9, be_roles = no_roles, be_tokens = \<lambda>a. None\<rparr>"

definition example_bank :: "(unit, unit) bank" where
  "example_bank = set_balance ''atom'' 1 5 \<lparr>bk_roles = (), bk_balances = \<lambda>tid a. 0, bk_tokens = ()\<rparr>"

lemma bank_transferFrom_conserves_witness:
  "\<exists>s'. bank_transferFrom example_bank_env 1 2 ''atom'' 3 example_bank = Inr s' \<and> bk_balances s' ''atom'' 2 = 3 \<and>
     total_supply ''atom'' s' = 5"
proof -
  let ?s' = "set_balance ''atom'' 2 3 (set_balance ''atom'' 1 2 example_bank)"
  have t: "total_supply ''atom'' example_bank = 5"
    using supply_set_balance [of "''atom''" 1 5 "\<lparr>bk_roles = (), bk_balances = \<lambda>tid a. 0, bk_tokens = ()\<rparr>"]
    by (simp add: example_bank_def total_supply_def)
  have "bank_transferFrom example_bank_env 1 2 ''atom'' 3 example_bank = Inr ?s'"
    by (simp add: result_simps example_bank_env_def example_bank_def Let_def)
  then show ?thesis using bank_transferFrom_conserves [of example_bank_env 1 2 "''atom''" 3 example_bank ?s'] t by auto
qed

end
