(* ===== verification/Sol_Strings.thy ===== *)
theory Sol_Strings
  imports Sol_Base
begin

text \<open>
  \<^verbatim>\<open>contracts/lib/strings.sol\<close>: string slices, and \<^verbatim>\<open>Bytes.toAddress\<close>. Of the slice library the theory has
  what the ICS-20 application uses: \<^verbatim>\<open>toSlice\<close>, \<^verbatim>\<open>toString\<close>, \<^verbatim>\<open>concat\<close>, \<^verbatim>\<open>startsWith\<close>, \<^verbatim>\<open>beyond\<close>, \<^verbatim>\<open>compare\<close> and
  \<^verbatim>\<open>equals\<close>.

  A slice is a pointer and a length; \<^verbatim>\<open>compare\<close> reads whole words, so it also sees what lies behind
  the text. Here a slice carries the memory it points into, from the start of its string on.
  Positions are natural numbers: no memory comes near \<open>2 ^ 256\<close> bytes.
\<close>

subsection \<open>Slices\<close>

record slice =
  sl_mem :: "nat \<Rightarrow> byte"
  sl_ptr :: nat
  sl_len :: nat

definition slice_bytes :: "slice \<Rightarrow> byte list" where
  "slice_bytes s = map (sl_mem s) [sl_ptr s..<sl_ptr s + sl_len s]"

text \<open>\<open>rest\<close> is the memory behind the string.\<close>

definition toSlice :: "(nat \<Rightarrow> byte) \<Rightarrow> string \<Rightarrow> slice" where
  "toSlice rest str =
     \<lparr>sl_mem = \<lambda>i. if i < length str then str_bytes str ! i else rest i, sl_ptr = 0, sl_len = length str\<rparr>"

definition toString :: "slice \<Rightarrow> string" where
  "toString self = bytes_str (slice_bytes self)"

definition slice_concat :: "slice \<Rightarrow> slice \<Rightarrow> string" where
  "slice_concat self other = bytes_str (slice_bytes self @ slice_bytes other)"

text \<open>
  \<^verbatim>\<open>startsWith\<close> and \<^verbatim>\<open>beyond\<close> compare hashes. Their shortcut for two slices at one address is left
  out: the needle is always a freshly made string.
\<close>

definition slice_startsWith :: "(byte list \<Rightarrow> byte list) \<Rightarrow> slice \<Rightarrow> slice \<Rightarrow> bool" where
  "slice_startsWith K self needle =
     (if sl_len self < sl_len needle then False
      else K (slice_bytes (self\<lparr>sl_len := sl_len needle\<rparr>)) = K (slice_bytes needle))"

definition slice_beyond :: "(byte list \<Rightarrow> byte list) \<Rightarrow> slice \<Rightarrow> slice \<Rightarrow> slice" where
  "slice_beyond K self needle =
     (if sl_len self < sl_len needle then self
      else if K (slice_bytes (self\<lparr>sl_len := sl_len needle\<rparr>)) = K (slice_bytes needle)
      then self\<lparr>sl_len := sl_len self - sl_len needle, sl_ptr := sl_ptr self + sl_len needle\<rparr>
      else self)"

subsection \<open>Comparison\<close>

definition mload :: "(nat \<Rightarrow> byte) \<Rightarrow> nat \<Rightarrow> 256 word" where
  "mload m p = of_nat (be_val (map m [p..<p + 32]))"

function compare_loop :: "(nat \<Rightarrow> byte) \<Rightarrow> (nat \<Rightarrow> byte) \<Rightarrow> nat \<Rightarrow> nat \<Rightarrow> nat \<Rightarrow> nat \<Rightarrow> 256 word option" where
  "compare_loop m m' shortest idx selfptr otherptr =
     (if idx < shortest then
        let a = mload m selfptr; b = mload m' otherptr in
        if a \<noteq> b then
          let mask = (if shortest < 32 then NOT (2 ^ (8 * (32 - shortest + idx)) - 1) else NOT 0);
              diff = (a AND mask) - (b AND mask)
          in if diff \<noteq> 0 then Some diff
             else compare_loop m m' shortest (idx + 32) (selfptr + 32) (otherptr + 32)
        else compare_loop m m' shortest (idx + 32) (selfptr + 32) (otherptr + 32)
      else None)"
  by pat_completeness auto
termination by (relation "measure (\<lambda>(m, m', shortest, idx, _, _). shortest - idx)") auto

declare compare_loop.simps [simp del]

text \<open>The result of \<^verbatim>\<open>compare\<close> is an \<^verbatim>\<open>int256\<close>; only its being zero matters to \<^verbatim>\<open>equals\<close>.\<close>

definition slice_compare :: "slice \<Rightarrow> slice \<Rightarrow> 256 word" where
  "slice_compare self other =
     (let shortest = (if sl_len other < sl_len self then sl_len other else sl_len self) in
      case compare_loop (sl_mem self) (sl_mem other) shortest 0 (sl_ptr self) (sl_ptr other) of
        Some diff \<Rightarrow> diff
      | None \<Rightarrow> of_nat (sl_len self) - of_nat (sl_len other))"

definition slice_equals :: "slice \<Rightarrow> slice \<Rightarrow> bool" where
  "slice_equals self other = (slice_compare self other = 0)"

subsection \<open>Bytes\<close>

text \<open>The 32 bytes that end with the array's 20: an address is the low 160 bits of the word.\<close>

definition toAddress :: "byte list \<Rightarrow> sol_error + address" where
  "toAddress bz =
     bindr (require (length bz = 20) (Revert ''cannot convert into address'')) (\<lambda>_. Inr (of_nat (be_val bz)))"

subsection \<open>What they compute\<close>

lemma slice_bytes_toSlice [simp]: "slice_bytes (toSlice rest str) = str_bytes str"
  by (rule nth_equalityI) (simp_all add: slice_bytes_def toSlice_def)

lemma sl_len_toSlice [simp]: "sl_len (toSlice rest str) = length str"
  by (simp add: toSlice_def)

lemma slice_bytes_part:
  "n \<le> sl_len s \<Longrightarrow> slice_bytes (s\<lparr>sl_len := n\<rparr>) = take n (slice_bytes s)"
  "n \<le> sl_len s \<Longrightarrow> slice_bytes (s\<lparr>sl_len := sl_len s - n, sl_ptr := sl_ptr s + n\<rparr>) = drop n (slice_bytes s)"
  by (simp_all add: slice_bytes_def take_map drop_map)

lemma toString_toSlice [simp]: "toString (toSlice rest str) = str"
  by (simp add: toString_def)

lemma slice_concat_toSlice [simp]: "slice_concat (toSlice r str) (toSlice r' str') = str @ str'"
  by (simp add: slice_concat_def str_bytes_append [symmetric])

lemma bytes_str_take_drop:
  "str_bytes (take n s) = take n (str_bytes s)" "bytes_str (drop n (str_bytes s)) = drop n s"
proof -
  show t: "str_bytes (take n s) = take n (str_bytes s)" by (simp add: str_bytes_def take_map)
  have "str_bytes (drop n s) = drop n (str_bytes s)" by (simp add: str_bytes_def drop_map)
  then show "bytes_str (drop n (str_bytes s)) = drop n s" by (metis str_bytes_inverse)
qed

lemma startsWith_toSlice:
  "slice_startsWith K (toSlice rest str) (toSlice rest' p) \<longleftrightarrow>
     length p \<le> length str \<and> K (str_bytes (take (length p) str)) = K (str_bytes p)"
  by (auto simp: slice_startsWith_def slice_bytes_part bytes_str_take_drop)

lemma compare_same: "compare_loop m m n i p p = None"
proof (induction "n - i" arbitrary: i p rule: less_induct)
  case less
  then show ?case by (cases "i < n") (subst compare_loop.simps; simp add: Let_def)+
qed

text \<open>A slice equals itself, and differs from what is left when a prefix is cut off.\<close>

lemma slice_equals_beyond:
  assumes "0 < sl_len needle" and "sl_len self < 2 ^ 256"
  shows "slice_equals self (slice_beyond K self needle) \<longleftrightarrow> \<not> slice_startsWith K self needle"
proof (cases "slice_startsWith K self needle")
  case True
  then have l: "sl_len needle \<le> sl_len self"
    and b: "slice_beyond K self needle = self\<lparr>sl_len := sl_len self - sl_len needle, sl_ptr := sl_ptr self + sl_len needle\<rparr>"
    by (auto simp: slice_startsWith_def slice_beyond_def split: if_splits)
  have "(of_nat (sl_len self) :: 256 word) \<noteq> of_nat (sl_len self - sl_len needle)"
  proof
    assume "(of_nat (sl_len self) :: 256 word) = of_nat (sl_len self - sl_len needle)"
    then have "unat (of_nat (sl_len self) :: 256 word) = unat (of_nat (sl_len self - sl_len needle) :: 256 word)"
      by (rule arg_cong)
    then have "sl_len self = sl_len self - sl_len needle" using assms(2)
      by (simp add: unsigned_of_nat take_bit_nat_eq_self)
    then show False using assms(1) l by simp
  qed
  moreover have "compare_loop m m' n i p q \<noteq> Some 0" for m m' n i p q
    by (induction m m' n i p q rule: compare_loop.induct) (subst compare_loop.simps; simp add: Let_def)
  ultimately show ?thesis
    using True unfolding slice_equals_def slice_compare_def b Let_def
    by (auto split: option.split)
next
  case False
  then have "slice_beyond K self needle = self"
    by (auto simp: slice_startsWith_def slice_beyond_def split: if_splits)
  then show ?thesis using False by (simp add: slice_equals_def slice_compare_def compare_same)
qed

lemma toAddress_encodePacked [simp]: "toAddress (be_bytes 20 (unat a)) = Inr a"
proof -
  have "be_val (be_bytes 20 (unat a)) = unat a"
    using unsigned_less [where ?'a = nat and w = a] by (simp add: be_val_be_bytes)
  then show ?thesis by (simp add: toAddress_def result_simps)
qed

text \<open>
  A flaw of \<^verbatim>\<open>compare\<close>: the mask that hides what lies behind the text is only used below 32
  bytes. Longer texts that do not fill their last word may compare unequal though they are
  equal, depending on the memory behind them. The application does not run into this: it only
  compares a slice with a part of itself.
\<close>

lemma mload_inject: "mload m p = mload m' p \<Longrightarrow> i < 32 \<Longrightarrow> m (p + i) = m' (p + i)"
proof -
  assume e: "mload m p = mload m' p" and i: "i < 32"
  have "unat (mload f p) = be_val (map f [p..<p + 32])" for f
    using be_val_less [of "map f [p..<p + 32]"]
    by (simp add: mload_def unsigned_of_nat take_bit_nat_eq_self)
  with e have "be_val (map m [p..<p + 32]) = be_val (map m' [p..<p + 32])" by metis
  then have "map m [p..<p + 32] = map m' [p..<p + 32]"
    using be_bytes_be_val [of "map m [p..<p + 32]"] be_bytes_be_val [of "map m' [p..<p + 32]"] by simp
  then show ?thesis using i by (auto simp: map_eq_conv)
qed

lemma compare_differs:
  "32 \<le> n \<Longrightarrow> i + 32 * j < n \<Longrightarrow> mload m (p + 32 * j) \<noteq> mload m' (p + 32 * j) \<Longrightarrow>
   \<exists>d. d \<noteq> 0 \<and> compare_loop m m' n i p p = Some d"
proof (induction j arbitrary: i p)
  case 0
  then show ?case by (subst compare_loop.simps) (simp add: Let_def)
next
  case (Suc j)
  then have "\<exists>d. d \<noteq> 0 \<and> compare_loop m m' n (i + 32) (p + 32) (p + 32) = Some d"
    by (intro Suc.IH) (simp_all add: algebra_simps)
  then show ?case using Suc.prems
    by (subst compare_loop.simps) (simp add: Let_def)
qed

lemma slice_equals_overread:
  assumes "32 < length str" and "length str mod 32 \<noteq> 0"
  shows "\<exists>rest'. toString (toSlice rest str) = toString (toSlice rest' str) \<and>
    \<not> slice_equals (toSlice rest str) (toSlice rest' str)"
proof -
  let ?n = "length str"
  let ?s = "toSlice rest str" and ?s' = "toSlice (rest(?n := rest ?n + 1)) str"
  define j where "j = ?n div 32"
  have n: "?n = 32 * j + ?n mod 32" by (simp add: j_def)
  then have "sl_mem ?s (32 * j + ?n mod 32) \<noteq> sl_mem ?s' (32 * j + ?n mod 32)"
    by (simp add: toSlice_def)
  then have "mload (sl_mem ?s) (0 + 32 * j) \<noteq> mload (sl_mem ?s') (0 + 32 * j)"
    using mload_inject [of "sl_mem ?s" "32 * j" "sl_mem ?s'" "?n mod 32"] by auto
  moreover have "0 + 32 * j < ?n" using n assms(2) by linarith
  ultimately obtain d where "d \<noteq> 0" "compare_loop (sl_mem ?s) (sl_mem ?s') ?n 0 0 0 = Some d"
    using compare_differs [of ?n 0 j "sl_mem ?s" 0 "sl_mem ?s'"] assms(1) by auto
  then have "\<not> slice_equals ?s ?s'"
    unfolding slice_equals_def slice_compare_def Let_def by (simp add: toSlice_def)
  then show ?thesis by (intro exI [of _ "rest(?n := rest ?n + 1)"]) simp
qed

end
