(* ===== verification/IBC_Handler.thy ===== *)
theory IBC_Handler
  imports IBC_Invariants
begin

text \<open>
  \<^verbatim>\<open>contracts/core/IBCHandler.sol\<close> and the interface \<^verbatim>\<open>IModuleCallbacks\<close> of \<^verbatim>\<open>IBCModule.sol\<close>: the
  contract that users and relayers call. It passes a message to the IBC libraries, which run
  in its own context (so the host sees the handler as the sender), calls the module that
  owns the port or the channel, and emits events.

  The state of the chain is a \<open>world\<close>: the host's storage, the handler's owner and its events,
  and the storage \<open>'a\<close> of everything else, the modules in particular. A module is the code at
  an address (\<open>he_modules\<close>), given by its callbacks. A call that fails has no effect, so an
  error carries no world.
\<close>

subsection \<open>State and environment\<close>

datatype handler_event =
    SendPacket PacketData
  | RecvPacket PacketData
  | WriteAcknowledgement string string "64 word" "byte list"
  | AcknowledgePacket PacketData "byte list"

record 'a world =
  w_host :: host
  w_owner :: address
  w_log :: "handler_event list"
  w_app :: 'a

text \<open>A callback takes its caller's address first.\<close>

record 'w module_callbacks =
  on_ChanOpenInit ::
    "address \<Rightarrow> 8 word \<Rightarrow> string list \<Rightarrow> string \<Rightarrow> string \<Rightarrow> ChannelCounterpartyData \<Rightarrow> string \<Rightarrow> 'w \<Rightarrow> sol_error + 'w"
  on_ChanOpenTry ::
    "address \<Rightarrow> 8 word \<Rightarrow> string list \<Rightarrow> string \<Rightarrow> string \<Rightarrow> ChannelCounterpartyData \<Rightarrow> string \<Rightarrow> string \<Rightarrow> 'w \<Rightarrow> sol_error + 'w"
  on_ChanOpenAck :: "address \<Rightarrow> string \<Rightarrow> string \<Rightarrow> string \<Rightarrow> 'w \<Rightarrow> sol_error + 'w"
  on_ChanOpenConfirm :: "address \<Rightarrow> string \<Rightarrow> string \<Rightarrow> 'w \<Rightarrow> sol_error + 'w"
  on_RecvPacket :: "address \<Rightarrow> PacketData \<Rightarrow> 'w \<Rightarrow> sol_error + byte list \<times> 'w"
  on_AcknowledgementPacket :: "address \<Rightarrow> PacketData \<Rightarrow> byte list \<Rightarrow> 'w \<Rightarrow> sol_error + 'w"

text \<open>\<open>he_env\<close> carries the sender of the call; \<open>he_self\<close> is the handler's own address.\<close>

record 'a henv =
  he_env :: cenv
  he_self :: address
  he_modules :: "address \<Rightarrow> 'a world module_callbacks option"

definition at_host :: "'a henv \<Rightarrow> cenv" where
  "at_host X = (he_env X)\<lparr>msg_sender := he_self X\<rparr>"

definition caller :: "'a henv \<Rightarrow> address" where
  "caller X = msg_sender (he_env X)"

definition module_at :: "'a henv \<Rightarrow> address \<Rightarrow> sol_error + 'a world module_callbacks" where
  "module_at X addr = (case he_modules X addr of None \<Rightarrow> Inl (Revert []) | Some m \<Rightarrow> Inr m)"

text \<open>A call into a library or the host, on the host's part of the world.\<close>

definition on_host :: "(host \<Rightarrow> sol_error + host) \<Rightarrow> 'a world \<Rightarrow> sol_error + 'a world" where
  "on_host f w = bindr (f (w_host w)) (\<lambda>h. Inr (w\<lparr>w_host := h\<rparr>))"

definition on_host_id :: "(host \<Rightarrow> sol_error + string \<times> host) \<Rightarrow> 'a world \<Rightarrow> sol_error + string \<times> 'a world" where
  "on_host_id f w = bindr (f (w_host w)) (\<lambda>(i, h). Inr (i, w\<lparr>w_host := h\<rparr>))"

definition emit :: "handler_event \<Rightarrow> 'a world \<Rightarrow> 'a world" where
  "emit e w = w\<lparr>w_log := w_log w @ [e]\<rparr>"

definition handler_constructor :: "'a henv \<Rightarrow> host \<Rightarrow> 'a \<Rightarrow> 'a world" where
  "handler_constructor X h a = \<lparr>w_host = h, w_owner = caller X, w_log = [], w_app = a\<rparr>"

subsection \<open>Internal functions\<close>

definition onlyOwner :: "'a henv \<Rightarrow> 'a world \<Rightarrow> sol_error + unit" where
  "onlyOwner X w = require (caller X = w_owner w) (Revert [])"

definition lookupModuleByPortId :: "string \<Rightarrow> 'a world \<Rightarrow> sol_error + address" where
  "lookupModuleByPortId portId w =
     (let (module, found) = getModuleOwner (portCapabilityPath portId) (w_host w)
      in bindr (require found (Revert [])) (\<lambda>_. Inr module))"

definition lookupModuleByChannel :: "string \<Rightarrow> string \<Rightarrow> 'a world \<Rightarrow> sol_error + address" where
  "lookupModuleByChannel portId channelId w =
     (let (module, found) = getModuleOwner (channelCapabilityPath portId channelId) (w_host w)
      in bindr (require found (Revert [])) (\<lambda>_. Inr module))"

subsection \<open>Clients and connections\<close>

definition Handler_registerClient :: "'a henv \<Rightarrow> string \<Rightarrow> address \<Rightarrow> 'a world \<Rightarrow> sol_error + 'a world" where
  "Handler_registerClient X clientType client w =
     bindr (require (caller X = w_owner w) (Revert [])) (\<lambda>_.
     on_host (registerClient (at_host X) clientType client) w)"

definition Handler_createClient :: "'a henv \<Rightarrow> MsgCreateClient \<Rightarrow> 'a world \<Rightarrow> sol_error + 'a world" where
  "Handler_createClient X m w = on_host (createClient (at_host X) m) w"

definition Handler_updateClient :: "'a henv \<Rightarrow> MsgUpdateClient \<Rightarrow> 'a world \<Rightarrow> sol_error + 'a world" where
  "Handler_updateClient X m w = on_host (updateClient (at_host X) m) w"

definition Handler_connectionOpenInit ::
  "'a henv \<Rightarrow> MsgConnectionOpenInit \<Rightarrow> 'a world \<Rightarrow> sol_error + string \<times> 'a world"
where
  "Handler_connectionOpenInit X m w = on_host_id (connectionOpenInit (at_host X) m) w"

definition Handler_connectionOpenTry ::
  "'a henv \<Rightarrow> MsgConnectionOpenTry \<Rightarrow> 'a world \<Rightarrow> sol_error + string \<times> 'a world"
where
  "Handler_connectionOpenTry X m w = on_host_id (connectionOpenTry (at_host X) m) w"

definition Handler_connectionOpenAck ::
  "'a henv \<Rightarrow> MsgConnectionOpenAck \<Rightarrow> 'a world \<Rightarrow> sol_error + 'a world"
where
  "Handler_connectionOpenAck X m w = on_host (connectionOpenAck (at_host X) m) w"

definition Handler_connectionOpenConfirm ::
  "'a henv \<Rightarrow> MsgConnectionOpenConfirm \<Rightarrow> 'a world \<Rightarrow> sol_error + 'a world"
where
  "Handler_connectionOpenConfirm X m w = on_host (connectionOpenConfirm (at_host X) m) w"

subsection \<open>Channels\<close>

definition Handler_channelOpenInit ::
  "'a henv \<Rightarrow> MsgChannelOpenInit \<Rightarrow> 'a world \<Rightarrow> sol_error + string \<times> 'a world"
where
  "Handler_channelOpenInit X m w =
     bindr (on_host_id (channelOpenInit (at_host X) m) w) (\<lambda>(channelId, w).
     bindr (lookupModuleByPortId (mhi_portId m) w) (\<lambda>addr.
     bindr (module_at X addr) (\<lambda>module.
     bindr (on_ChanOpenInit module (he_self X) (chd_Ordering (mhi_channel m)) (chd_ConnectionHops (mhi_channel m))
       (mhi_portId m) channelId (chd_Counterparty (mhi_channel m)) (chd_Version (mhi_channel m)) w) (\<lambda>w.
     bindr (on_host (claimCapability (at_host X) (channelCapabilityPath (mhi_portId m) channelId) addr) w) (\<lambda>w.
     Inr (channelId, w))))))"

definition Handler_channelOpenTry ::
  "'a henv \<Rightarrow> MsgChannelOpenTry \<Rightarrow> 'a world \<Rightarrow> sol_error + string \<times> 'a world"
where
  "Handler_channelOpenTry X m w =
     bindr (on_host_id (channelOpenTry (at_host X) m) w) (\<lambda>(channelId, w).
     bindr (lookupModuleByPortId (mht_portId m) w) (\<lambda>addr.
     bindr (module_at X addr) (\<lambda>module.
     bindr (on_ChanOpenTry module (he_self X) (chd_Ordering (mht_channel m)) (chd_ConnectionHops (mht_channel m))
       (mht_portId m) channelId (chd_Counterparty (mht_channel m)) (chd_Version (mht_channel m))
       (mht_counterpartyVersion m) w) (\<lambda>w.
     bindr (on_host (claimCapability (at_host X) (channelCapabilityPath (mht_portId m) channelId) addr) w) (\<lambda>w.
     Inr (channelId, w))))))"

definition Handler_channelOpenAck :: "'a henv \<Rightarrow> MsgChannelOpenAck \<Rightarrow> 'a world \<Rightarrow> sol_error + 'a world" where
  "Handler_channelOpenAck X m w =
     bindr (on_host (channelOpenAck (at_host X) m) w) (\<lambda>w.
     bindr (lookupModuleByPortId (mha_portId m) w) (\<lambda>addr.
     bindr (module_at X addr) (\<lambda>module.
     on_ChanOpenAck module (he_self X) (mha_portId m) (mha_channelId m) (mha_counterpartyVersion m) w)))"

definition Handler_channelOpenConfirm ::
  "'a henv \<Rightarrow> MsgChannelOpenConfirm \<Rightarrow> 'a world \<Rightarrow> sol_error + 'a world"
where
  "Handler_channelOpenConfirm X m w =
     bindr (on_host (channelOpenConfirm (at_host X) m) w) (\<lambda>w.
     bindr (lookupModuleByPortId (mho_portId m) w) (\<lambda>addr.
     bindr (module_at X addr) (\<lambda>module.
     on_ChanOpenConfirm module (he_self X) (mho_portId m) (mho_channelId m) w)))"

subsection \<open>Packets\<close>

definition owns_channel :: "'a henv \<Rightarrow> string \<Rightarrow> string \<Rightarrow> 'a world \<Rightarrow> sol_error + unit" where
  "owns_channel X portId channelId w =
     bindr (authenticateCapability (at_host X) (channelCapabilityPath portId channelId) (caller X) (w_host w)) (\<lambda>ok.
     require ok (Revert []))"

definition Handler_sendPacket :: "'a henv \<Rightarrow> PacketData \<Rightarrow> 'a world \<Rightarrow> sol_error + 'a world" where
  "Handler_sendPacket X packet w =
     bindr (owns_channel X (pd_SourcePort packet) (pd_SourceChannel packet) w) (\<lambda>_.
     bindr (on_host (sendPacket (at_host X) packet) w) (\<lambda>w.
     Inr (emit (SendPacket packet) w)))"

definition Handler_recvPacket :: "'a henv \<Rightarrow> MsgPacketRecv \<Rightarrow> 'a world \<Rightarrow> sol_error + byte list \<times> 'a world" where
  "Handler_recvPacket X m w =
     (let packet = mpr_packet m in
      bindr (lookupModuleByChannel (pd_DestinationPort packet) (pd_DestinationChannel packet) w) (\<lambda>addr.
      bindr (module_at X addr) (\<lambda>module.
      bindr (on_RecvPacket module (he_self X) packet w) (\<lambda>(acknowledgement, w).
      bindr (on_host (recvPacket (at_host X) m) w) (\<lambda>w.
      bindr (if 0 < length acknowledgement then
          bindr (on_host (writeAcknowledgement (at_host X) (pd_DestinationPort packet)
            (pd_DestinationChannel packet) (pd_Sequence packet) acknowledgement) w) (\<lambda>w.
          Inr (emit (WriteAcknowledgement (pd_DestinationPort packet) (pd_DestinationChannel packet)
            (pd_Sequence packet) acknowledgement) w))
        else Inr w) (\<lambda>w.
      Inr (acknowledgement, emit (RecvPacket packet) w)))))))"

definition Handler_writeAcknowledgement ::
  "'a henv \<Rightarrow> string \<Rightarrow> string \<Rightarrow> 64 word \<Rightarrow> byte list \<Rightarrow> 'a world \<Rightarrow> sol_error + 'a world"
where
  "Handler_writeAcknowledgement X destinationPortId destinationChannel sequence acknowledgement w =
     bindr (owns_channel X destinationPortId destinationChannel w) (\<lambda>_.
     bindr (on_host (writeAcknowledgement (at_host X) destinationPortId destinationChannel sequence
       acknowledgement) w) (\<lambda>w.
     Inr (emit (WriteAcknowledgement destinationPortId destinationChannel sequence acknowledgement) w)))"

definition Handler_acknowledgePacket ::
  "'a henv \<Rightarrow> MsgPacketAcknowledgement \<Rightarrow> 'a world \<Rightarrow> sol_error + 'a world"
where
  "Handler_acknowledgePacket X m w =
     (let packet = mpa_packet m in
      bindr (lookupModuleByChannel (pd_SourcePort packet) (pd_SourceChannel packet) w) (\<lambda>addr.
      bindr (module_at X addr) (\<lambda>module.
      bindr (on_AcknowledgementPacket module (he_self X) packet (mpa_acknowledgement m) w) (\<lambda>w.
      bindr (on_host (acknowledgePacket (at_host X) m) w) (\<lambda>w.
      Inr (emit (AcknowledgePacket packet (mpa_acknowledgement m)) w))))))"

definition Handler_bindPort :: "'a henv \<Rightarrow> string \<Rightarrow> address \<Rightarrow> 'a world \<Rightarrow> sol_error + 'a world" where
  "Handler_bindPort X portId moduleAddress w =
     bindr (onlyOwner X w) (\<lambda>_.
     on_host (claimCapability (at_host X) (portCapabilityPath portId) moduleAddress) w)"

end
