(* ===== verification/Packet_Ledger.thy ===== *)
theory Packet_Ledger
  imports IBC_Invariants
begin

text \<open>
  The abstract view of a chain's packets. A \<open>ledger\<close> is the host's storage together with the
  lists of the packets sent, received and acknowledged and of the acknowledgements written, in
  their order. A \<open>ledger_step\<close> is one operation of the host that is either recorded in a list
  or leaves packets alone. The invariants say what the lists have to do with the storage.
\<close>

subsection \<open>Operations that handle no packet\<close>

text \<open>
  What an operation that handles no packet leaves alone: the receipts, the sequences of the
  channels there are, and the commitments to packets and acknowledgements.
\<close>

definition quiet :: "(byte list \<Rightarrow> byte list) \<Rightarrow> host \<Rightarrow> host \<Rightarrow> bool" where
  "quiet K h h' \<longleftrightarrow> packetReceipts h' = packetReceipts h \<and>
     (\<forall>p c. chd_State (channels h p c) \<noteq> 0 \<longrightarrow>
       nextSequenceRecvs h' p c = nextSequenceRecvs h p c \<and> nextSequenceSends h' p c = nextSequenceSends h p c) \<and>
     (\<forall>p c n. CHR ''/'' \<notin> set c \<longrightarrow>
       commitments h' (pkey K (Packet_path p c n)) = commitments h (pkey K (Packet_path p c n)) \<and>
       commitments h' (pkey K (Ack_path p c n)) = commitments h (pkey K (Ack_path p c n)))"

lemmas quiet_simps = quiet_def result_simps path_key_simps path_key_pkey

lemma quiet_client:
  assumes "keys_distinct (keccak256 E)"
  shows "registerClient E t a h = Inr h' \<Longrightarrow> quiet (keccak256 E) h h'"
    and "createClient E mcc h = Inr h' \<Longrightarrow> quiet (keccak256 E) h h'"
    and "updateClient E muc h = Inr h' \<Longrightarrow> quiet (keccak256 E) h h'"
    and "claimCapability E b a h = Inr h' \<Longrightarrow> quiet (keccak256 E) h h'"
    and "setIBCModule E a h = Inr h' \<Longrightarrow> quiet (keccak256 E) h h'"
  by (auto simp: quiet_simps pkey_eq [OF assms] registerClient_def updateClient_Inr setIBCModule_def Let_def)

lemma quiet_connection:
  assumes "keys_distinct (keccak256 E)"
  shows "connectionOpenInit E mci h = Inr (i, h') \<Longrightarrow> quiet (keccak256 E) h h'"
    and "connectionOpenTry E mct h = Inr (i, h') \<Longrightarrow> quiet (keccak256 E) h h'"
    and "connectionOpenAck E mca h = Inr h' \<Longrightarrow> quiet (keccak256 E) h h'"
    and "connectionOpenConfirm E mco h = Inr h' \<Longrightarrow> quiet (keccak256 E) h h'"
  by (auto simp: quiet_simps pkey_eq [OF assms] connectionOpenInit_def connectionOpenTry_def connectionOpenAck_def
      connectionOpenConfirm_def getConnection_def makeVersionArray_def Let_def split: if_splits)

lemma quiet_new_channel:
  assumes "keys_distinct (keccak256 E)" and "chan_inv h" and "new_channel E p ch h = Inr (c, h')"
  shows "quiet (keccak256 E) h h'"
  using assms(3) fresh_chan [OF assms(2), of p]
  by (auto simp: quiet_simps pkey_eq [OF assms(1)] new_channel_def chan_id_no_slash)

lemma quiet_setChannel:
  assumes "keys_distinct (keccak256 E)" and "chan_inv h" and "setChannel E p c ch h = Inr h'"
    and "chd_State (channels h p c) \<noteq> 0"
  shows "quiet (keccak256 E) h h'"
  using assms(3) chan_ok [OF assms(2,4)]
  by (auto simp: quiet_simps pkey_eq [OF assms(1)])

lemma quiet_channel:
  assumes "keys_distinct (keccak256 E)" and "chan_inv h"
  shows "channelOpenInit E mhi h = Inr (c, h') \<Longrightarrow> quiet (keccak256 E) h h'"
    and "channelOpenTry E mht h = Inr (c, h') \<Longrightarrow> quiet (keccak256 E) h h'"
    and "channelOpenAck E mha h = Inr h' \<Longrightarrow> quiet (keccak256 E) h h'"
    and "channelOpenConfirm E mho h = Inr h' \<Longrightarrow> quiet (keccak256 E) h h'"
  unfolding channelOpenInit_def channelOpenTry_def channelOpenAck_def channelOpenConfirm_def getChannel_def
    Let_def prod.case bindr_eq_Inr require_simps
  by (blast intro: quiet_new_channel [OF assms] quiet_setChannel [OF assms])+

subsection \<open>Ledgers\<close>

record ledger =
  ld_host :: host
  ld_sent :: "PacketData list"
  ld_received :: "PacketData list"
  ld_written :: "(string \<times> string \<times> 64 word \<times> byte list) list"
  ld_acked :: "PacketData list"

inductive ledger_step :: "(byte list \<Rightarrow> byte list) \<Rightarrow> ledger \<Rightarrow> ledger \<Rightarrow> bool" for K where
  ledger_quiet: "host_step K (ld_host L) h' \<Longrightarrow> quiet K (ld_host L) h' \<Longrightarrow> ledger_step K L (L\<lparr>ld_host := h'\<rparr>)"
| ledger_send: "keccak256 (E :: cenv) = K \<Longrightarrow> sendPacket E pkt (ld_host L) = Inr h' \<Longrightarrow>
    ledger_step K L (L\<lparr>ld_host := h', ld_sent := ld_sent L @ [pkt]\<rparr>)"
| ledger_recv: "keccak256 (E :: cenv) = K \<Longrightarrow> recvPacket E m (ld_host L) = Inr h' \<Longrightarrow>
    ledger_step K L (L\<lparr>ld_host := h', ld_received := ld_received L @ [mpr_packet m]\<rparr>)"
| ledger_write: "keccak256 (E :: cenv) = K \<Longrightarrow> writeAcknowledgement E p c n ack (ld_host L) = Inr h' \<Longrightarrow>
    ledger_step K L (L\<lparr>ld_host := h', ld_written := ld_written L @ [(p, c, n, ack)]\<rparr>)"
| ledger_ack: "keccak256 (E :: cenv) = K \<Longrightarrow> acknowledgePacket E ma (ld_host L) = Inr h' \<Longrightarrow>
    ledger_step K L (L\<lparr>ld_host := h', ld_acked := ld_acked L @ [mpa_packet ma]\<rparr>)"

inductive ledger_reach :: "(byte list \<Rightarrow> byte list) \<Rightarrow> nat \<Rightarrow> ledger \<Rightarrow> bool" for K where
  ledger_init: "ledger_reach K 0 \<lparr>ld_host = host_constructor (E :: cenv), ld_sent = [], ld_received = [],
    ld_written = [], ld_acked = []\<rparr>"
| ledger_next: "ledger_reach K n L \<Longrightarrow> ledger_step K L L' \<Longrightarrow> ledger_reach K (Suc n) L'"

definition src_key :: "PacketData \<Rightarrow> string \<times> string \<times> 64 word" where
  "src_key p = (pd_SourcePort p, pd_SourceChannel p, pd_Sequence p)"

definition dst_key :: "PacketData \<Rightarrow> string \<times> string \<times> 64 word" where
  "dst_key p = (pd_DestinationPort p, pd_DestinationChannel p, pd_Sequence p)"

lemma ledger_host_step: "ledger_step K L L' \<Longrightarrow> host_step K (ld_host L) (ld_host L')"
  by (erule ledger_step.cases) (auto intro: host_step.intros)

lemma ledger_reach_host: "ledger_reach K n L \<Longrightarrow> reach K n (ld_host L)"
  by (induction rule: ledger_reach.induct) (auto intro: reach_init reach_step ledger_host_step)

text \<open>An open channel does not change any more.\<close>

lemma evolves_open:
  assumes "evolves h h'" and "chd_State (channels h p c) = STATE_OPEN"
  shows "channels h' p c = channels h p c"
    and "nextSequenceSends h p c \<le> nextSequenceSends h' p c"
    and "nextSequenceRecvs h p c \<le> nextSequenceRecvs h' p c"
proof -
  have "chd_State (channels h p c) \<noteq> 0" using assms(2) by simp
  then have "(channels h' p c = channels h p c \<or> chan_opens (channels h p c) (channels h' p c)) \<and>
      nextSequenceSends h p c \<le> nextSequenceSends h' p c \<and> nextSequenceRecvs h p c \<le> nextSequenceRecvs h' p c"
    using assms(1) unfolding evolves_def by blast
  with assms(2) show "channels h' p c = channels h p c"
    and "nextSequenceSends h p c \<le> nextSequenceSends h' p c"
    and "nextSequenceRecvs h p c \<le> nextSequenceRecvs h' p c"
    by (auto simp: chan_opens_def)
qed

lemma evolves_receipt: "evolves h h' \<Longrightarrow> packetReceipts h p c n \<Longrightarrow> packetReceipts h' p c n"
  unfolding evolves_def by blast

subsection \<open>Received packets\<close>

definition was_received :: "host \<Rightarrow> PacketData \<Rightarrow> bool" where
  "was_received h pkt \<longleftrightarrow>
     (let p = pd_DestinationPort pkt; c = pd_DestinationChannel pkt in
      chd_State (channels h p c) = STATE_OPEN \<and>
      (chd_Ordering (channels h p c) = ORDER_UNORDERED \<and> packetReceipts h p c (pd_Sequence pkt) \<or>
       chd_Ordering (channels h p c) = ORDER_ORDERED \<and> pd_Sequence pkt < nextSequenceRecvs h p c))"

definition received_inv :: "ledger \<Rightarrow> bool" where
  "received_inv L \<longleftrightarrow> distinct (map dst_key (ld_received L)) \<and>
     (\<forall>pkt \<in> set (ld_received L). was_received (ld_host L) pkt)"

text \<open>What holds of a recorded packet goes on to hold.\<close>

lemma was_received_evolves:
  assumes "was_received h pkt" and "evolves h h'"
  shows "was_received h' pkt"
proof -
  let ?p = "pd_DestinationPort pkt" and ?c = "pd_DestinationChannel pkt"
  have "chd_State (channels h ?p ?c) = STATE_OPEN" using assms(1) by (simp add: was_received_def Let_def)
  note e = evolves_open [OF assms(2) this] evolves_receipt [OF assms(2), of ?p ?c]
  show ?thesis using assms(1) e less_le_trans [OF _ e(3)] by (auto simp: was_received_def Let_def)
qed

lemma was_received_key: "was_received h pkt \<Longrightarrow> dst_key pkt' = dst_key pkt \<Longrightarrow> was_received h pkt'"
  by (simp add: was_received_def dst_key_def)

text \<open>\<^verbatim>\<open>recvPacket\<close> succeeds on a packet not received before, which then is.\<close>

lemma recvPacket_was_received:
  assumes "recvPacket E m h = Inr h'" and "reach K n h" and "Suc n < 2 ^ 64"
  shows "\<not> was_received h (mpr_packet m)" and "was_received h' (mpr_packet m)"
proof -
  let ?p = "pd_DestinationPort (mpr_packet m)" and ?c = "pd_DestinationChannel (mpr_packet m)"
  note r = recvPacket_Inr(2,3) [OF assms(1)]
  from r show "\<not> was_received h (mpr_packet m)" by (auto simp: was_received_def Let_def)
  have "counters_inv n h" using reach_inv [OF assms(2)] assms(3) by simp
  then have "unat (nextSequenceRecvs h ?p ?c + 1) = Suc (unat (nextSequenceRecvs h ?p ?c))"
    using word_suc [OF _ assms(3)] by (simp add: counters_inv_def)
  then have "nextSequenceRecvs h ?p ?c < nextSequenceRecvs h ?p ?c + 1" by (simp add: word_less_nat_alt)
  with r show "was_received h' (mpr_packet m)" by (auto simp: was_received_def Let_def)
qed

lemma received_step:
  assumes "ledger_step K L L'" and "received_inv L" and "reach K n (ld_host L)" and "Suc n < 2 ^ 64"
  shows "received_inv L'"
proof -
  have e: "evolves (ld_host L) (ld_host L')"
    by (rule reach_effect(5) [OF assms(3) ledger_host_step [OF assms(1)] assms(4)])
  have old: "was_received (ld_host L') pkt" if "pkt \<in> set (ld_received L)" for pkt
    using that assms(2) e by (auto simp: received_inv_def intro: was_received_evolves)
  from assms(1) show ?thesis
  proof cases
    case (ledger_recv E m h')
    note r = recvPacket_was_received [OF ledger_recv(3) assms(3,4)]
    have "dst_key (mpr_packet m) \<notin> dst_key ` set (ld_received L)"
      using r(1) was_received_key [of "ld_host L" _ "mpr_packet m"] assms(2) by (auto simp: received_inv_def)
    then show ?thesis
      using old r(2) assms(2) ledger_recv(1) by (simp add: received_inv_def)
  qed (use old assms(2) in \<open>simp_all add: received_inv_def\<close>)
qed

subsection \<open>Sent and acknowledged packets\<close>

definition was_sent :: "host \<Rightarrow> PacketData \<Rightarrow> bool" where
  "was_sent h pkt \<longleftrightarrow>
     (let p = pd_SourcePort pkt; c = pd_SourceChannel pkt in
      chd_State (channels h p c) = STATE_OPEN \<and>
      pd_DestinationPort pkt = ccd_PortId (chd_Counterparty (channels h p c)) \<and>
      pd_DestinationChannel pkt = ccd_ChannelId (chd_Counterparty (channels h p c)) \<and>
      pd_Sequence pkt < nextSequenceSends h p c)"

abbreviation packet_commitment :: "(byte list \<Rightarrow> byte list) \<Rightarrow> host \<Rightarrow> string \<times> string \<times> 64 word \<Rightarrow> byte list" where
  "packet_commitment K h k \<equiv> commitments h (pkey K (Packet_path (fst k) (fst (snd k)) (snd (snd k))))"

definition sent_inv :: "(byte list \<Rightarrow> byte list) \<Rightarrow> ledger \<Rightarrow> bool" where
  "sent_inv K L \<longleftrightarrow> distinct (map src_key (ld_sent L)) \<and>
     (\<forall>pkt \<in> set (ld_sent L). was_sent (ld_host L) pkt) \<and>
     (\<forall>k. CHR ''/'' \<notin> set (fst (snd k)) \<longrightarrow> packet_commitment K (ld_host L) k \<noteq> zero32 \<longrightarrow>
       (\<exists>pkt \<in> set (ld_sent L). src_key pkt = k \<and> packet_commitment K (ld_host L) k = makePacketCommitment pkt))"

definition acked_inv :: "(byte list \<Rightarrow> byte list) \<Rightarrow> ledger \<Rightarrow> bool" where
  "acked_inv K L \<longleftrightarrow> distinct (map src_key (ld_acked L)) \<and>
     (\<forall>pkt \<in> set (ld_acked L). packet_commitment K (ld_host L) (src_key pkt) = zero32 \<and>
       (\<exists>q \<in> set (ld_sent L). src_key q = src_key pkt \<and> dst_key q = dst_key pkt \<and>
         makePacketCommitment q = makePacketCommitment pkt))"

lemma was_sent_evolves:
  assumes "was_sent h pkt" and "evolves h h'"
  shows "was_sent h' pkt"
proof -
  have "chd_State (channels h (pd_SourcePort pkt) (pd_SourceChannel pkt)) = STATE_OPEN"
    using assms(1) by (simp add: was_sent_def Let_def)
  note e = evolves_open(1,2) [OF assms(2) this]
  show ?thesis using assms(1) e(1) less_le_trans [OF _ e(2)] by (simp add: was_sent_def Let_def)
qed

lemma was_sent_key:
  "was_sent h pkt \<Longrightarrow> src_key pkt = k \<Longrightarrow> snd (snd k) < nextSequenceSends h (fst k) (fst (snd k))"
  by (auto simp: was_sent_def src_key_def Let_def)

lemma sendPacket_was_sent:
  assumes "sendPacket E pkt h = Inr h'" and "reach K n h" and "Suc n < 2 ^ 64"
  shows "\<not> was_sent h pkt" and "was_sent h' pkt" and "CHR ''/'' \<notin> set (pd_SourceChannel pkt)"
proof -
  let ?p = "pd_SourcePort pkt" and ?c = "pd_SourceChannel pkt"
  note s = sendPacket_Inr [OF assms(1)]
  from s show "\<not> was_sent h pkt" by (auto simp: was_sent_def Let_def)
  have i: "counters_inv n h" "chan_inv h" using reach_inv [OF assms(2)] assms(3) by simp_all
  then have "unat (nextSequenceSends h ?p ?c + 1) = Suc (unat (nextSequenceSends h ?p ?c))"
    using word_suc [OF _ assms(3)] by (simp add: counters_inv_def)
  then have "nextSequenceSends h ?p ?c < nextSequenceSends h ?p ?c + 1" by (simp add: word_less_nat_alt)
  with s show "was_sent h' pkt" by (auto simp: was_sent_def Let_def)
  show "CHR ''/'' \<notin> set ?c" using i(2) s(2) by (rule chan_ok_open)
qed

text \<open>What each operation does to the packet commitments.\<close>

lemma packet_commitment_quiet:
  "quiet K h h' \<Longrightarrow> CHR ''/'' \<notin> set (fst (snd k)) \<Longrightarrow> packet_commitment K h' k = packet_commitment K h k"
  by (simp add: quiet_def)

lemma packet_commitment_send:
  assumes "keys_distinct (keccak256 E)" and "sendPacket E pkt h = Inr h'"
    and "CHR ''/'' \<notin> set (pd_SourceChannel pkt)" and "CHR ''/'' \<notin> set (fst (snd k))"
  shows "packet_commitment (keccak256 E) h' k =
    (if k = src_key pkt then makePacketCommitment pkt else packet_commitment (keccak256 E) h k)"
  using assms(3,4) sendPacket_Inr(6,7) [OF assms(2)]
  by (auto simp: pkey_eq [OF assms(1)] src_key_def prod_eq_iff)

lemma packet_commitment_recv: "recvPacket E m h = Inr h' \<Longrightarrow> commitments h' = commitments h"
  using recvPacket_Inr(3) [of E m h h'] by auto

lemma packet_commitment_write:
  assumes "keys_distinct (keccak256 E)" and "writeAcknowledgement E p c n ack h = Inr h'" and "chan_inv h"
    and "CHR ''/'' \<notin> set (fst (snd k))"
  shows "packet_commitment (keccak256 E) h' k = packet_commitment (keccak256 E) h k"
  using assms chan_ok_open [OF assms(3)] by (auto simp: pkey_eq [OF assms(1)] writeAcknowledgement_Inr)

lemma acknowledgePacket_dst:
  assumes "acknowledgePacket E m h = Inr h'"
  defines "ch \<equiv> channels h (pd_SourcePort (mpa_packet m)) (pd_SourceChannel (mpa_packet m))"
  shows "pd_DestinationPort (mpa_packet m) = ccd_PortId (chd_Counterparty ch)"
    and "pd_DestinationChannel (mpa_packet m) = ccd_ChannelId (chd_Counterparty ch)"
  using assms(1) unfolding ch_def acknowledgePacket_def getChannel_def Let_def prod.case bindr_eq_Inr require_simps
  by (elim exE conjE, simp)+

lemma packet_commitment_ack:
  assumes "keys_distinct (keccak256 E)" and "acknowledgePacket E m h = Inr h'" and "chan_inv h"
    and "CHR ''/'' \<notin> set (fst (snd k))"
  shows "packet_commitment (keccak256 E) h' k =
    (if k = src_key (mpa_packet m) then zero32 else packet_commitment (keccak256 E) h k)"
  using acknowledgePacket_Inr(5) [OF assms(2)] chan_ok_open [OF assms(3) acknowledgePacket_Inr(2) [OF assms(2)]]
    assms(4)
  by (auto simp: pkey_eq [OF assms(1)] src_key_def prod_eq_iff)

lemma was_sent_ok: "was_sent h pkt \<Longrightarrow> chan_inv h \<Longrightarrow> CHR ''/'' \<notin> set (fst (snd (src_key pkt)))"
  by (auto simp: was_sent_def src_key_def Let_def dest: chan_ok_open)

lemma step_commitment:
  assumes "ledger_step K L L'" and "keys_distinct K" and "chan_inv (ld_host L)"
    and k: "CHR ''/'' \<notin> set (fst (snd k))" and "ld_sent L' = ld_sent L"
  shows "packet_commitment K (ld_host L') k = zero32 \<or>
    packet_commitment K (ld_host L') k = packet_commitment K (ld_host L) k"
  using assms(1)
proof cases
  case (ledger_quiet h')
  then show ?thesis using packet_commitment_quiet [OF _ k] by simp
next
  case (ledger_send E pkt h')
  with assms(5) show ?thesis by simp
next
  case (ledger_recv E m h')
  then show ?thesis using packet_commitment_recv [OF ledger_recv(3)] by simp
next
  case (ledger_write E p c n ack h')
  then show ?thesis using packet_commitment_write [of E p c n ack _ h' k] assms(2-4) by simp
next
  case (ledger_ack E ma h')
  then show ?thesis using packet_commitment_ack [of E ma _ h' k] assms(2-4) by simp
qed

lemma step_sent: "ledger_step K L L' \<Longrightarrow> ld_sent L' = ld_sent L \<or>
    (\<exists>E pkt. keccak256 (E :: cenv) = K \<and> sendPacket E pkt (ld_host L) = Inr (ld_host L') \<and>
      ld_sent L' = ld_sent L @ [pkt] \<and> ld_acked L' = ld_acked L)"
  by (erule ledger_step.cases) auto

lemma sent_step:
  assumes "ledger_step K L L'" and "sent_inv K L" and "reach K n (ld_host L)" and "Suc n < 2 ^ 64"
    and k: "keys_distinct K"
  shows "sent_inv K L'"
proof -
  note e = reach_effect(3,5) [OF assms(3) ledger_host_step [OF assms(1)] assms(4)]
  have old: "was_sent (ld_host L') pkt" if "pkt \<in> set (ld_sent L)" for pkt
    using that assms(2) e(2) by (auto simp: sent_inv_def intro: was_sent_evolves)
  from step_sent [OF assms(1)] show ?thesis
  proof (elim disjE exE conjE)
    assume "ld_sent L' = ld_sent L"
    with step_commitment [OF assms(1) k e(1)] old assms(2) show ?thesis
      unfolding sent_inv_def by metis
  next
    fix E :: cenv and pkt
    assume E: "keccak256 E = K" and sp: "sendPacket E pkt (ld_host L) = Inr (ld_host L')"
      and L: "ld_sent L' = ld_sent L @ [pkt]"
    note s = sendPacket_was_sent [OF sp assms(3,4)]
    have "src_key pkt \<notin> src_key ` set (ld_sent L)"
      using s(1) assms(2) sendPacket_Inr(6) [OF sp]
      by (auto simp: sent_inv_def src_key_def was_sent_def Let_def)
    moreover have "packet_commitment K (ld_host L') i =
        (if i = src_key pkt then makePacketCommitment pkt else packet_commitment K (ld_host L) i)"
      if "CHR ''/'' \<notin> set (fst (snd i))" for i
      using packet_commitment_send [of E pkt _ _ i] E sp k s(3) that by simp
    ultimately show ?thesis
      using old s(2) assms(2) L by (auto simp: sent_inv_def)
  qed
qed

lemma acked_step:
  assumes "ledger_step K L L'" and "sent_inv K L" and "acked_inv K L" and "reach K n (ld_host L)"
    and "Suc n < 2 ^ 64" and k: "keys_distinct K"
  shows "acked_inv K L'"
proof -
  note c = reach_effect(3) [OF assms(4) ledger_host_step [OF assms(1)] assms(5)]
  have sent: "was_sent (ld_host L) q \<and> CHR ''/'' \<notin> set (fst (snd (src_key q)))" if "q \<in> set (ld_sent L)" for q
    using that assms(2) was_sent_ok [OF _ c] by (simp add: sent_inv_def)
  have acked: "\<exists>q \<in> set (ld_sent L). src_key q = src_key pkt" if "pkt \<in> set (ld_acked L)" for pkt
    using that assms(3) unfolding acked_inv_def by blast
  have ok: "CHR ''/'' \<notin> set (fst (snd (src_key pkt)))" if "pkt \<in> set (ld_acked L)" for pkt
    using acked [OF that] sent by fastforce
  have zero: "packet_commitment K (ld_host L') (src_key pkt) = zero32" if "pkt \<in> set (ld_acked L)" for pkt
  proof -
    note a = acked [OF that]
    have z: "packet_commitment K (ld_host L) (src_key pkt) = zero32" using that assms(3) by (simp add: acked_inv_def)
    from step_sent [OF assms(1)] show ?thesis
    proof (elim disjE exE conjE)
      assume "ld_sent L' = ld_sent L"
      with step_commitment [OF assms(1) k c ok [OF that]] z show ?thesis by simp
    next
      fix E :: cenv and new
      assume E: "keccak256 E = K" and sp: "sendPacket E new (ld_host L) = Inr (ld_host L')"
      obtain r where r: "r \<in> set (ld_sent L)" "src_key r = src_key pkt" using a by blast
      have "src_key pkt \<noteq> src_key new"
        using was_sent_key [OF conjunct1 [OF sent [OF r(1)]] r(2)] sendPacket_Inr(6) [OF sp]
        by (auto simp: src_key_def)
      then show ?thesis
        using packet_commitment_send [of E new _ _ "src_key pkt"] E sp k z ok [OF that]
          sendPacket_was_sent(3) [OF sp assms(4,5)] by simp
    qed
  qed
  have more: "set (ld_sent L) \<subseteq> set (ld_sent L')" using step_sent [OF assms(1)] by auto
  have old: "\<exists>q \<in> set (ld_sent L'). src_key q = src_key pkt \<and> dst_key q = dst_key pkt \<and>
      makePacketCommitment q = makePacketCommitment pkt" if "pkt \<in> set (ld_acked L)" for pkt
    using that assms(3) more unfolding acked_inv_def by blast
  have d: "distinct (map src_key (ld_acked L))" using assms(3) by (simp add: acked_inv_def)
  show ?thesis
  proof (cases "ld_acked L' = ld_acked L")
    case True
    with zero old d show ?thesis by (simp add: acked_inv_def)
  next
    case False
    with assms(1) obtain E :: cenv and ma where E: "keccak256 E = K"
      and ack: "acknowledgePacket E ma (ld_host L) = Inr (ld_host L')"
      and L: "ld_acked L' = ld_acked L @ [mpa_packet ma]" "ld_sent L' = ld_sent L" by cases auto
    let ?m = "mpa_packet ma"
    note a = acknowledgePacket_Inr(2-4) [OF ack, unfolded E]
    have m: "CHR ''/'' \<notin> set (fst (snd (src_key ?m)))"
      using chan_ok_open [OF c a(1)] by (simp add: src_key_def)
    have pc: "packet_commitment K (ld_host L) (src_key ?m) = makePacketCommitment ?m"
      "packet_commitment K (ld_host L) (src_key ?m) \<noteq> zero32" using a(2,3) by (simp_all add: src_key_def)
    then obtain q where q: "q \<in> set (ld_sent L)" "src_key q = src_key ?m"
      "makePacketCommitment q = makePacketCommitment ?m"
      using assms(2) m unfolding sent_inv_def by metis
    have "dst_key q = dst_key ?m"
      using sent [OF q(1)] q(2) acknowledgePacket_dst [OF ack]
      by (simp add: was_sent_def src_key_def dst_key_def Let_def)
    moreover have "src_key ?m \<notin> src_key ` set (ld_acked L)"
      using pc(2) assms(3) by (auto simp: acked_inv_def)
    moreover have "packet_commitment K (ld_host L') (src_key ?m) = zero32"
      using packet_commitment_ack [of E ma _ _ "src_key ?m"] E ack k c m by simp
    ultimately show ?thesis
      using q zero old d L unfolding acked_inv_def by auto
  qed
qed

text \<open>The invariants of every ledger reached by fewer than \<open>2^64\<close> operations.\<close>

lemma ledger_inv:
  assumes "keys_distinct K"
  shows "ledger_reach K n L \<Longrightarrow> n < 2 ^ 64 \<Longrightarrow> received_inv L \<and> sent_inv K L \<and> acked_inv K L"
proof (induction rule: ledger_reach.induct)
  case (ledger_init E)
  show ?case by (simp add: received_inv_def sent_inv_def acked_inv_def host_constructor_def)
next
  case (ledger_next n L L')
  then have "received_inv L" "sent_inv K L" "acked_inv K L" and "Suc n < 2 ^ 64" by simp_all
  with ledger_reach_host [OF ledger_next.hyps(1)] ledger_next.hyps(2) assms show ?case
    using received_step sent_step acked_step by blast
qed

lemma ledger_reach_steps: "ledger_reach K n L \<Longrightarrow> (ledger_step K ^^ k) L L' \<Longrightarrow> ledger_reach K (n + k) L'"
  by (induction k arbitrary: L') (auto intro: ledger_next)

end
