(* ===== verification/Handler_Steps.thy ===== *)
theory Handler_Steps
  imports IBC_Handler Packet_Ledger
begin

text \<open>
  The handler as a state machine (\<open>handler_step\<close>: one call of an external function, by anyone,
  in any block, or a transaction that changes the storage of other contracts only) and its
  refinement of the packet ledger. The modules are those of a locale: callbacks that leave the
  host and the handler alone, as those of the ICS-20 application do.
\<close>

subsection \<open>Steps\<close>

definition runs :: "(byte list \<Rightarrow> byte list) \<Rightarrow> address \<Rightarrow> (address \<Rightarrow> 'a world module_callbacks option) \<Rightarrow> 'a henv \<Rightarrow> bool" where
  "runs K self mods X \<longleftrightarrow> keccak256 (he_env X) = K \<and> he_self X = self \<and> he_modules X = mods"

inductive handler_step ::
  "(byte list \<Rightarrow> byte list) \<Rightarrow> address \<Rightarrow> (address \<Rightarrow> 'a world module_callbacks option) \<Rightarrow>
   'a world \<Rightarrow> 'a world \<Rightarrow> bool"
  for K self mods
where
  h_register: "runs K self mods X \<Longrightarrow> Handler_registerClient X t a w = Inr w' \<Longrightarrow> handler_step K self mods w w'"
| h_create: "runs K self mods X \<Longrightarrow> Handler_createClient X mcc w = Inr w' \<Longrightarrow> handler_step K self mods w w'"
| h_update: "runs K self mods X \<Longrightarrow> Handler_updateClient X muc w = Inr w' \<Longrightarrow> handler_step K self mods w w'"
| h_conn_init: "runs K self mods X \<Longrightarrow> Handler_connectionOpenInit X mci w = Inr (i, w') \<Longrightarrow> handler_step K self mods w w'"
| h_conn_try: "runs K self mods X \<Longrightarrow> Handler_connectionOpenTry X mct w = Inr (i, w') \<Longrightarrow> handler_step K self mods w w'"
| h_conn_ack: "runs K self mods X \<Longrightarrow> Handler_connectionOpenAck X mca w = Inr w' \<Longrightarrow> handler_step K self mods w w'"
| h_conn_confirm: "runs K self mods X \<Longrightarrow> Handler_connectionOpenConfirm X mco w = Inr w' \<Longrightarrow> handler_step K self mods w w'"
| h_chan_init: "runs K self mods X \<Longrightarrow> Handler_channelOpenInit X mhi w = Inr (i, w') \<Longrightarrow> handler_step K self mods w w'"
| h_chan_try: "runs K self mods X \<Longrightarrow> Handler_channelOpenTry X mht w = Inr (i, w') \<Longrightarrow> handler_step K self mods w w'"
| h_chan_ack: "runs K self mods X \<Longrightarrow> Handler_channelOpenAck X mha w = Inr w' \<Longrightarrow> handler_step K self mods w w'"
| h_chan_confirm: "runs K self mods X \<Longrightarrow> Handler_channelOpenConfirm X mho w = Inr w' \<Longrightarrow> handler_step K self mods w w'"
| h_send: "runs K self mods X \<Longrightarrow> Handler_sendPacket X pkt w = Inr w' \<Longrightarrow> handler_step K self mods w w'"
| h_recv: "runs K self mods X \<Longrightarrow> Handler_recvPacket X mpr w = Inr (ack, w') \<Longrightarrow> handler_step K self mods w w'"
| h_write_ack: "runs K self mods X \<Longrightarrow> Handler_writeAcknowledgement X p c n bz w = Inr w' \<Longrightarrow> handler_step K self mods w w'"
| h_ack: "runs K self mods X \<Longrightarrow> Handler_acknowledgePacket X mpa w = Inr w' \<Longrightarrow> handler_step K self mods w w'"
| h_bind: "runs K self mods X \<Longrightarrow> Handler_bindPort X p a w = Inr w' \<Longrightarrow> handler_step K self mods w w'"
| h_module: "keccak256 (E :: cenv) = K \<Longrightarrow> on_host (setIBCModule E a) w = Inr w' \<Longrightarrow> handler_step K self mods w w'"
| h_app: "handler_step K self mods w (w\<lparr>w_app := b\<rparr>)"

inductive handler_reach ::
  "(byte list \<Rightarrow> byte list) \<Rightarrow> address \<Rightarrow> (address \<Rightarrow> 'a world module_callbacks option) \<Rightarrow> nat \<Rightarrow> 'a world \<Rightarrow> bool"
  for K self mods
where
  handler_init: "handler_reach K self mods 0 (handler_constructor X (host_constructor (E :: cenv)) b)"
| handler_next: "handler_reach K self mods n w \<Longrightarrow> handler_step K self mods w w' \<Longrightarrow>
    handler_reach K self mods (Suc n) w'"

subsection \<open>The ledger of a world\<close>

definition sent_packets :: "handler_event list \<Rightarrow> PacketData list" where
  "sent_packets log = concat (map (\<lambda>e. case e of SendPacket p \<Rightarrow> [p] | _ \<Rightarrow> []) log)"

definition received_packets :: "handler_event list \<Rightarrow> PacketData list" where
  "received_packets log = concat (map (\<lambda>e. case e of RecvPacket p \<Rightarrow> [p] | _ \<Rightarrow> []) log)"

definition written_acks :: "handler_event list \<Rightarrow> (string \<times> string \<times> 64 word \<times> byte list) list" where
  "written_acks log = concat (map (\<lambda>e. case e of WriteAcknowledgement p c n a \<Rightarrow> [(p, c, n, a)] | _ \<Rightarrow> []) log)"

definition acked_packets :: "handler_event list \<Rightarrow> PacketData list" where
  "acked_packets log = concat (map (\<lambda>e. case e of AcknowledgePacket p a \<Rightarrow> [p] | _ \<Rightarrow> []) log)"

definition ledger_of :: "'a world \<Rightarrow> ledger" where
  "ledger_of w =
     \<lparr>ld_host = w_host w, ld_sent = sent_packets (w_log w), ld_received = received_packets (w_log w),
      ld_written = written_acks (w_log w), ld_acked = acked_packets (w_log w)\<rparr>"

lemmas log_defs = sent_packets_def received_packets_def written_acks_def acked_packets_def

lemma ledger_of_simps [simp]:
  "ld_host (ledger_of w) = w_host w"
  "ledger_of (w\<lparr>w_host := h\<rparr>) = (ledger_of w)\<lparr>ld_host := h\<rparr>"
  "ledger_of (w\<lparr>w_app := b\<rparr>) = ledger_of w"
  "ledger_of (emit (SendPacket p) w) = (ledger_of w)\<lparr>ld_sent := ld_sent (ledger_of w) @ [p]\<rparr>"
  "ledger_of (emit (RecvPacket p) w) = (ledger_of w)\<lparr>ld_received := ld_received (ledger_of w) @ [p]\<rparr>"
  "ledger_of (emit (WriteAcknowledgement q c n a) w) = (ledger_of w)\<lparr>ld_written := ld_written (ledger_of w) @ [(q, c, n, a)]\<rparr>"
  "ledger_of (emit (AcknowledgePacket p a) w) = (ledger_of w)\<lparr>ld_acked := ld_acked (ledger_of w) @ [p]\<rparr>"
  by (simp_all add: ledger_of_def emit_def log_defs)

lemma runs_simps:
  "runs K self mods X \<Longrightarrow> keccak256 (at_host X) = K"
  "runs K self mods X \<Longrightarrow> module_at X a = Inr m \<longleftrightarrow> mods a = Some m"
  by (auto simp: runs_def at_host_def module_at_def split: option.splits)

lemma on_host_Inr [result_simps]:
  "on_host f w = Inr w' \<longleftrightarrow> (\<exists>h. f (w_host w) = Inr h \<and> w' = w\<lparr>w_host := h\<rparr>)"
  "on_host_id g w = Inr (i, w') \<longleftrightarrow> (\<exists>h. g (w_host w) = Inr (i, h) \<and> w' = w\<lparr>w_host := h\<rparr>)"
  by (auto simp: on_host_def on_host_id_def result_simps)

subsection \<open>Calls without callbacks\<close>

definition upto_steps :: "('b \<Rightarrow> 'b \<Rightarrow> bool) \<Rightarrow> nat \<Rightarrow> 'b \<Rightarrow> 'b \<Rightarrow> bool" where
  "upto_steps R n a b \<longleftrightarrow> (\<exists>k\<le>n. (R ^^ k) a b)"

lemma upto_none: "upto_steps R n a a"
  by (auto simp: upto_steps_def intro: exI [of _ 0])

lemma upto_one: "R a b \<Longrightarrow> upto_steps R (Suc n) a b"
  by (auto simp: upto_steps_def eq_OO intro!: exI [of _ "Suc 0"])

lemma upto_two: "R a b \<Longrightarrow> R b c \<Longrightarrow> upto_steps R (Suc (Suc n)) a c"
  by (auto simp: upto_steps_def eq_OO intro!: exI [of _ "Suc (Suc 0)"])

lemma ledger_quietI:
  "host_step K (w_host w) h' \<Longrightarrow> quiet K (w_host w) h' \<Longrightarrow>
   ledger_step K (ledger_of w) ((ledger_of w)\<lparr>ld_host := h'\<rparr>)"
  using ledger_quiet [of K "ledger_of w" h'] by simp

lemma host_call:
  assumes "on_host f w = Inr w'" and "\<And>h h'. f h = Inr h' \<Longrightarrow> host_step K h h'"
    and "\<And>h'. f (w_host w) = Inr h' \<Longrightarrow> quiet K (w_host w) h'"
  shows "ledger_step K (ledger_of w) (ledger_of w')"
proof -
  from assms(1) obtain h' where f: "f (w_host w) = Inr h'" and w': "w' = w\<lparr>w_host := h'\<rparr>"
    by (auto simp: result_simps)
  show ?thesis unfolding w' ledger_of_simps by (rule ledger_quietI) (rule assms(2,3) [OF f])+
qed

lemma host_call_id:
  assumes "on_host_id f w = Inr (i, w')" and "\<And>h h' i. f h = Inr (i, h') \<Longrightarrow> host_step K h h'"
    and "\<And>h'. f (w_host w) = Inr (i, h') \<Longrightarrow> quiet K (w_host w) h'"
  shows "ledger_step K (ledger_of w) (ledger_of w')"
proof -
  from assms(1) obtain h' where f: "f (w_host w) = Inr (i, h')" and w': "w' = w\<lparr>w_host := h'\<rparr>"
    by (auto simp: result_simps)
  show ?thesis unfolding w' ledger_of_simps by (rule ledger_quietI) (rule assms(2,3) [OF f])+
qed

text \<open>The calls that only use the host.\<close>

lemma direct_calls:
  assumes r: "runs K self mods X" and k: "keys_distinct K"
  shows "Handler_registerClient X t a w = Inr w' \<Longrightarrow> ledger_step K (ledger_of w) (ledger_of w')"
    and "Handler_createClient X mcc w = Inr w' \<Longrightarrow> ledger_step K (ledger_of w) (ledger_of w')"
    and "Handler_updateClient X muc w = Inr w' \<Longrightarrow> ledger_step K (ledger_of w) (ledger_of w')"
    and "Handler_connectionOpenInit X mci w = Inr (i, w') \<Longrightarrow> ledger_step K (ledger_of w) (ledger_of w')"
    and "Handler_connectionOpenTry X mct w = Inr (i, w') \<Longrightarrow> ledger_step K (ledger_of w) (ledger_of w')"
    and "Handler_connectionOpenAck X mca w = Inr w' \<Longrightarrow> ledger_step K (ledger_of w) (ledger_of w')"
    and "Handler_connectionOpenConfirm X mco w = Inr w' \<Longrightarrow> ledger_step K (ledger_of w) (ledger_of w')"
    and "Handler_bindPort X p a w = Inr w' \<Longrightarrow> ledger_step K (ledger_of w) (ledger_of w')"
    and "on_host (claimCapability (at_host X) name a) w = Inr w' \<Longrightarrow> ledger_step K (ledger_of w) (ledger_of w')"
proof -
  note e = runs_simps(1) [OF r]
  note q = quiet_client [of "at_host X", unfolded e, OF k] quiet_connection [of "at_host X", unfolded e, OF k]
  note h = step_register [OF e] step_create [OF e] step_update [OF e] step_conn_init [OF e] step_conn_try [OF e]
    step_conn_ack [OF e] step_conn_confirm [OF e] step_claim [OF e]
  show "Handler_registerClient X t a w = Inr w' \<Longrightarrow> ledger_step K (ledger_of w) (ledger_of w')"
    unfolding Handler_registerClient_def bindr_eq_Inr by (elim exE conjE, erule host_call) (erule h q)+
  show "Handler_createClient X mcc w = Inr w' \<Longrightarrow> ledger_step K (ledger_of w) (ledger_of w')"
    unfolding Handler_createClient_def by (erule host_call) (erule h q)+
  show "Handler_updateClient X muc w = Inr w' \<Longrightarrow> ledger_step K (ledger_of w) (ledger_of w')"
    unfolding Handler_updateClient_def by (erule host_call) (erule h q)+
  show "Handler_connectionOpenInit X mci w = Inr (i, w') \<Longrightarrow> ledger_step K (ledger_of w) (ledger_of w')"
    unfolding Handler_connectionOpenInit_def by (erule host_call_id) (erule h q)+
  show "Handler_connectionOpenTry X mct w = Inr (i, w') \<Longrightarrow> ledger_step K (ledger_of w) (ledger_of w')"
    unfolding Handler_connectionOpenTry_def by (erule host_call_id) (erule h q)+
  show "Handler_connectionOpenAck X mca w = Inr w' \<Longrightarrow> ledger_step K (ledger_of w) (ledger_of w')"
    unfolding Handler_connectionOpenAck_def by (erule host_call) (erule h q)+
  show "Handler_connectionOpenConfirm X mco w = Inr w' \<Longrightarrow> ledger_step K (ledger_of w) (ledger_of w')"
    unfolding Handler_connectionOpenConfirm_def by (erule host_call) (erule h q)+
  show c: "on_host (claimCapability (at_host X) name a) w = Inr w' \<Longrightarrow> ledger_step K (ledger_of w) (ledger_of w')"
    for name by (erule host_call) (erule h q)+
  show "Handler_bindPort X p a w = Inr w' \<Longrightarrow> ledger_step K (ledger_of w) (ledger_of w')"
    unfolding Handler_bindPort_def bindr_eq_Inr by (elim exE conjE, erule c)
qed

lemma module_call:
  assumes "keys_distinct (keccak256 (E :: cenv))" and "on_host (setIBCModule E a) w = Inr w'"
  shows "ledger_step (keccak256 E) (ledger_of w) (ledger_of w')"
  by (rule host_call [OF assms(2)]) (erule step_module [OF refl] quiet_client(5) [OF assms(1)])+

lemma packet_calls:
  assumes r: "runs K self mods X"
  shows "Handler_sendPacket X pkt w = Inr w' \<Longrightarrow> ledger_step K (ledger_of w) (ledger_of w')"
    and "Handler_writeAcknowledgement X p c n bz w = Inr w' \<Longrightarrow> ledger_step K (ledger_of w) (ledger_of w')"
  using ledger_send [OF runs_simps(1) [OF r], of pkt "ledger_of w"]
    ledger_write [OF runs_simps(1) [OF r], of p c n bz "ledger_of w"]
  by (auto simp: Handler_sendPacket_def Handler_writeAcknowledgement_def result_simps simp del: writeAcknowledgement_Inr)

subsection \<open>Modules\<close>

definition app_only :: "'a world \<Rightarrow> 'a world \<Rightarrow> bool" where
  "app_only w w' \<longleftrightarrow> (\<exists>b. w' = w\<lparr>w_app := b\<rparr>)"

locale ibc_modules =
  fixes mods :: "address \<Rightarrow> 'a world module_callbacks option"
  assumes chan_init: "mods a = Some m \<Longrightarrow> on_ChanOpenInit m s ord hops p c cp v w = Inr w' \<Longrightarrow> app_only w w'"
    and chan_try: "mods a = Some m \<Longrightarrow> on_ChanOpenTry m s ord hops p c cp v cpv w = Inr w' \<Longrightarrow> app_only w w'"
    and chan_ack: "mods a = Some m \<Longrightarrow> on_ChanOpenAck m s p c v w = Inr w' \<Longrightarrow> app_only w w'"
    and chan_confirm: "mods a = Some m \<Longrightarrow> on_ChanOpenConfirm m s p c w = Inr w' \<Longrightarrow> app_only w w'"
    and recv: "mods a = Some m \<Longrightarrow> on_RecvPacket m s pkt w = Inr (ack, w') \<Longrightarrow> app_only w w'"
    and acknowledge: "mods a = Some m \<Longrightarrow> on_AcknowledgementPacket m s pkt ack w = Inr w' \<Longrightarrow> app_only w w'"
begin

lemma app_ledger: "app_only w w' \<Longrightarrow> ledger_of w' = ledger_of w"
  by (auto simp: app_only_def)

text \<open>The channel handshake: the host's step, the callback, and the capability for a new channel.\<close>

lemma channel_calls:
  assumes r: "runs K self mods X" and k: "keys_distinct K" and c: "chan_inv (w_host w)"
  shows "Handler_channelOpenInit X mhi w = Inr (i, w') \<Longrightarrow> upto_steps (ledger_step K) 2 (ledger_of w) (ledger_of w')"
    and "Handler_channelOpenTry X mht w = Inr (i, w') \<Longrightarrow> upto_steps (ledger_step K) 2 (ledger_of w) (ledger_of w')"
    and "Handler_channelOpenAck X mha w = Inr w' \<Longrightarrow> ledger_step K (ledger_of w) (ledger_of w')"
    and "Handler_channelOpenConfirm X mho w = Inr w' \<Longrightarrow> ledger_step K (ledger_of w) (ledger_of w')"
proof -
  note e = runs_simps(1) [OF r]
  note q = quiet_channel [of "at_host X", unfolded e, OF k c]
  note h = step_chan_init [OF e] step_chan_try [OF e] step_chan_ack [OF e] step_chan_confirm [OF e]
  show "upto_steps (ledger_step K) 2 (ledger_of w) (ledger_of w')" if "Handler_channelOpenInit X mhi w = Inr (i, w')"
  proof -
    from that obtain w1 w2 m a where 1: "on_host_id (channelOpenInit (at_host X) mhi) w = Inr (i, w1)"
      and m: "module_at X a = Inr m"
      and 2: "on_ChanOpenInit m (he_self X) (chd_Ordering (mhi_channel mhi)) (chd_ConnectionHops (mhi_channel mhi))
        (mhi_portId mhi) i (chd_Counterparty (mhi_channel mhi)) (chd_Version (mhi_channel mhi)) w1 = Inr w2"
      and 3: "on_host (claimCapability (at_host X) (channelCapabilityPath (mhi_portId mhi) i) a) w2 = Inr w'"
      by (auto simp: Handler_channelOpenInit_def bindr_eq_Inr)
    have "ledger_step K (ledger_of w) (ledger_of w1)" using 1 by (rule host_call_id) (erule h q)+
    moreover have "ledger_of w2 = ledger_of w1"
      using chan_init [OF _ 2] m runs_simps(2) [OF r] app_ledger by blast
    moreover have "ledger_step K (ledger_of w2) (ledger_of w')" using direct_calls(9) [OF r k 3] .
    ultimately show ?thesis unfolding numeral_2_eq_2 by (metis upto_two)
  qed
  show "upto_steps (ledger_step K) 2 (ledger_of w) (ledger_of w')" if "Handler_channelOpenTry X mht w = Inr (i, w')"
  proof -
    from that obtain w1 w2 m a where 1: "on_host_id (channelOpenTry (at_host X) mht) w = Inr (i, w1)"
      and m: "module_at X a = Inr m"
      and 2: "on_ChanOpenTry m (he_self X) (chd_Ordering (mht_channel mht)) (chd_ConnectionHops (mht_channel mht))
        (mht_portId mht) i (chd_Counterparty (mht_channel mht)) (chd_Version (mht_channel mht))
        (mht_counterpartyVersion mht) w1 = Inr w2"
      and 3: "on_host (claimCapability (at_host X) (channelCapabilityPath (mht_portId mht) i) a) w2 = Inr w'"
      by (auto simp: Handler_channelOpenTry_def bindr_eq_Inr)
    have "ledger_step K (ledger_of w) (ledger_of w1)" using 1 by (rule host_call_id) (erule h q)+
    moreover have "ledger_of w2 = ledger_of w1"
      using chan_try [OF _ 2] m runs_simps(2) [OF r] app_ledger by blast
    moreover have "ledger_step K (ledger_of w2) (ledger_of w')" using direct_calls(9) [OF r k 3] .
    ultimately show ?thesis unfolding numeral_2_eq_2 by (metis upto_two)
  qed
  show "ledger_step K (ledger_of w) (ledger_of w')" if "Handler_channelOpenAck X mha w = Inr w'"
  proof -
    from that obtain w1 m a where 1: "on_host (channelOpenAck (at_host X) mha) w = Inr w1"
      and m: "module_at X a = Inr m"
      and 2: "on_ChanOpenAck m (he_self X) (mha_portId mha) (mha_channelId mha) (mha_counterpartyVersion mha) w1 = Inr w'"
      by (auto simp: Handler_channelOpenAck_def bindr_eq_Inr)
    have "ledger_step K (ledger_of w) (ledger_of w1)" using 1 by (rule host_call) (erule h q)+
    then show ?thesis using chan_ack [OF _ 2] m runs_simps(2) [OF r] app_ledger by metis
  qed
  show "ledger_step K (ledger_of w) (ledger_of w')" if "Handler_channelOpenConfirm X mho w = Inr w'"
  proof -
    from that obtain w1 m a where 1: "on_host (channelOpenConfirm (at_host X) mho) w = Inr w1"
      and m: "module_at X a = Inr m"
      and 2: "on_ChanOpenConfirm m (he_self X) (mho_portId mho) (mho_channelId mho) w1 = Inr w'"
      by (auto simp: Handler_channelOpenConfirm_def bindr_eq_Inr)
    have "ledger_step K (ledger_of w) (ledger_of w1)" using 1 by (rule host_call) (erule h q)+
    then show ?thesis using chan_confirm [OF _ 2] m runs_simps(2) [OF r] app_ledger by metis
  qed
qed

text \<open>
  Packets: the callback of \<^verbatim>\<open>recvPacket\<close> and \<^verbatim>\<open>acknowledgePacket\<close> runs before the checks of the
  library, on a host that is still the one of the call.
\<close>

lemma recv_call:
  assumes r: "runs K self mods X" and "Handler_recvPacket X mpr w = Inr (ack, w')"
  shows "upto_steps (ledger_step K) 2 (ledger_of w) (ledger_of w')"
proof -
  let ?pkt = "mpr_packet mpr"
  let ?p = "pd_DestinationPort ?pkt" and ?c = "pd_DestinationChannel ?pkt" and ?n = "pd_Sequence ?pkt"
  note e = runs_simps(1) [OF r]
  from assms(2) obtain a m w1 h2 where m: "module_at X a = Inr m"
    and 1: "on_RecvPacket m (he_self X) ?pkt w = Inr (ack, w1)"
    and 2: "recvPacket (at_host X) mpr (w_host w1) = Inr h2"
    and 3: "ack = [] \<and> w' = emit (RecvPacket ?pkt) (w1\<lparr>w_host := h2\<rparr>) \<or>
      (\<exists>h3. writeAcknowledgement (at_host X) ?p ?c ?n ack h2 = Inr h3 \<and>
        w' = emit (RecvPacket ?pkt) (emit (WriteAcknowledgement ?p ?c ?n ack) (w1\<lparr>w_host := h3\<rparr>)))"
    unfolding Handler_recvPacket_def Let_def bindr_eq_Inr on_host_Inr split_paired_Ex prod.case
    by (elim exE conjE) (auto simp: bindr_eq_Inr on_host_Inr split: if_splits)
  have l: "ledger_of w1 = ledger_of w" using recv [OF _ 1] m runs_simps(2) [OF r] app_ledger by blast
  have h: "w_host w1 = w_host w" using arg_cong [OF l, of ld_host] by simp
  let ?L = "(ledger_of w)\<lparr>ld_host := h2, ld_received := ld_received (ledger_of w) @ [?pkt]\<rparr>"
  have s: "ledger_step K (ledger_of w) ?L" by (rule ledger_recv [OF e]) (use 2 h in simp)
  from 3 show ?thesis
  proof (elim disjE conjE exE)
    assume "w' = emit (RecvPacket ?pkt) (w1\<lparr>w_host := h2\<rparr>)"
    then have "ledger_of w' = ?L" using l by simp
    with s show ?thesis unfolding numeral_2_eq_2 by (metis upto_one)
  next
    fix h3
    assume 4: "writeAcknowledgement (at_host X) ?p ?c ?n ack h2 = Inr h3"
      and w': "w' = emit (RecvPacket ?pkt) (emit (WriteAcknowledgement ?p ?c ?n ack) (w1\<lparr>w_host := h3\<rparr>))"
    have "ledger_step K ?L (?L\<lparr>ld_host := h3, ld_written := ld_written ?L @ [(?p, ?c, ?n, ack)]\<rparr>)"
      by (rule ledger_write [OF e]) (use 4 in simp)
    moreover have "ledger_of w' = ?L\<lparr>ld_host := h3, ld_written := ld_written ?L @ [(?p, ?c, ?n, ack)]\<rparr>"
      using l by (simp add: w')
    ultimately show ?thesis using s unfolding numeral_2_eq_2 by (metis upto_two)
  qed
qed

lemma ack_call:
  assumes r: "runs K self mods X" and "Handler_acknowledgePacket X mpa w = Inr w'"
  shows "ledger_step K (ledger_of w) (ledger_of w')"
proof -
  note e = runs_simps(1) [OF r]
  from assms(2) obtain a m w1 h2 where m: "module_at X a = Inr m"
    and 1: "on_AcknowledgementPacket m (he_self X) (mpa_packet mpa) (mpa_acknowledgement mpa) w = Inr w1"
    and 2: "acknowledgePacket (at_host X) mpa (w_host w1) = Inr h2"
    and w': "w' = emit (AcknowledgePacket (mpa_packet mpa) (mpa_acknowledgement mpa)) (w1\<lparr>w_host := h2\<rparr>)"
    by (auto simp: Handler_acknowledgePacket_def result_simps Let_def)
  have l: "ledger_of w1 = ledger_of w" using acknowledge [OF _ 1] m runs_simps(2) [OF r] app_ledger by blast
  have h: "w_host w1 = w_host w" using arg_cong [OF l, of ld_host] by simp
  show ?thesis using ledger_ack [OF e, of mpa "ledger_of w" h2] 2 h l by (simp add: w')
qed

text \<open>The handler refines the ledger: every call is at most two of its steps.\<close>

lemma refines:
  assumes "handler_step K self mods w w'" and k: "keys_distinct K" and c: "chan_inv (w_host w)"
  shows "upto_steps (ledger_step K) 2 (ledger_of w) (ledger_of w')"
proof -
  have one: "upto_steps (ledger_step K) 2 L L'" if "ledger_step K L L'" for L L'
    unfolding numeral_2_eq_2 using that by (rule upto_one)
  from assms(1) show ?thesis
  proof cases
    case (h_module E a)
    then show ?thesis using one module_call [of E a w w'] k by blast
  next
    case (h_app b)
    then show ?thesis by (simp add: upto_none)
  qed (blast intro: one direct_calls [OF _ k] channel_calls [OF _ k c] packet_calls recv_call ack_call)+
qed

lemma reach_ledger:
  "handler_reach K self mods n w \<Longrightarrow> keys_distinct K \<Longrightarrow> 2 * n < 2 ^ 64 \<Longrightarrow>
   \<exists>k \<le> 2 * n. ledger_reach K k (ledger_of w)"
proof (induction rule: handler_reach.induct)
  case (handler_init X E b)
  have "ledger_of (handler_constructor X (host_constructor E) b) = \<lparr>ld_host = host_constructor E, ld_sent = [],
      ld_received = [], ld_written = [], ld_acked = []\<rparr>"
    by (simp add: ledger_of_def handler_constructor_def log_defs)
  then show ?case using ledger_init by (metis le0)
next
  case (handler_next n w w')
  then obtain k where k: "k \<le> 2 * n" "ledger_reach K k (ledger_of w)" by auto
  have "chan_inv (w_host w)"
    using reach_inv [OF ledger_reach_host [OF k(2)]] k(1) handler_next.prems(2) by simp
  from refines [OF handler_next.hyps(2) handler_next.prems(1) this]
  obtain j where "j \<le> 2" "(ledger_step K ^^ j) (ledger_of w) (ledger_of w')" by (auto simp: upto_steps_def)
  with ledger_reach_steps [OF k(2)] k(1) show ?case by (intro exI [of _ "k + j"]) simp
qed

lemma reach_ledger_inv:
  assumes "handler_reach K self mods n w" and "keys_distinct K" and "2 * n < 2 ^ 64"
  shows "received_inv (ledger_of w) \<and> sent_inv K (ledger_of w) \<and> acked_inv K (ledger_of w)"
proof -
  obtain k where "k \<le> 2 * n" "ledger_reach K k (ledger_of w)" using reach_ledger [OF assms] by blast
  then show ?thesis using ledger_inv [OF assms(2)] assms(3) by simp
qed

end

end
