(* ===== verification/ICS20_Transfer.thy ===== *)
theory ICS20_Transfer
  imports ICS20_Bank Sol_Strings Sol_Decode Handler_Steps
begin

text \<open>
  \<^verbatim>\<open>contracts/app/ICS20Transfer.sol\<close> and \<^verbatim>\<open>ICS20TransferBank.sol\<close>: the token transfer application. Its
  storage, with the bank's, is the application part of the handler's world (\<open>w_app\<close>); its
  callbacks are a module of the handler, and \<^verbatim>\<open>sendTransfer\<close> calls the handler.

  The abstract contract leaves moving tokens to the contract that inherits from it, which calls
  the bank and turns a failure into \<open>False\<close>.
\<close>

subsection \<open>State and environment\<close>

record ('r, 't) ics20 =
  tr_escrow :: "string \<Rightarrow> address"
  tr_bank :: "('r, 't) bank"

text \<open>
  \<open>te_self\<close> is the contract's address, \<open>te_bank\<close> the environment of its calls to the bank, and
  \<open>te_rest\<close> the memory behind a string.
\<close>

record ('r, 't) transfer_env =
  te_self :: address
  te_bank :: "('r, 't) bank_env"
  te_rest :: "nat \<Rightarrow> byte"

type_synonym ('r, 't) ics20_world = "('r, 't) ics20 world"

definition at_bank :: "('r, 't) transfer_env \<Rightarrow> ('r, 't) bank_env" where
  "at_bank T = (te_bank T)\<lparr>msg_sender := te_self T\<rparr>"

definition te_keccak :: "('r, 't) transfer_env \<Rightarrow> byte list \<Rightarrow> byte list" where
  "te_keccak T = keccak256 (te_bank T)"

definition bank_of :: "('r, 't) ics20_world \<Rightarrow> ('r, 't) bank" where
  "bank_of w = tr_bank (w_app w)"

definition with_bank :: "('r, 't) bank \<Rightarrow> ('r, 't) ics20_world \<Rightarrow> ('r, 't) ics20_world" where
  "with_bank b w = w\<lparr>w_app := (w_app w)\<lparr>tr_bank := b\<rparr>\<rparr>"

subsection \<open>\<^verbatim>\<open>ICS20TransferBank\<close>\<close>

text \<open>\<^verbatim>\<open>try \<dots> catch\<close>: a failed call changes nothing.\<close>

definition try_bank ::
  "(('r, 't) bank \<Rightarrow> sol_error + ('r, 't) bank) \<Rightarrow> ('r, 't) ics20_world \<Rightarrow> bool \<times> ('r, 't) ics20_world"
where
  "try_bank f w = (case f (bank_of w) of Inl e \<Rightarrow> (False, w) | Inr b \<Rightarrow> (True, with_bank b w))"

definition ics20_transferFrom ::
  "('r, 't) transfer_env \<Rightarrow> address \<Rightarrow> address \<Rightarrow> string \<Rightarrow> 256 word \<Rightarrow> ('r, 't) ics20_world \<Rightarrow>
   bool \<times> ('r, 't) ics20_world"
where
  "ics20_transferFrom T sender receiver denom amount w =
     try_bank (bank_transferFrom (at_bank T) sender receiver denom amount) w"

definition ics20_mint ::
  "('r, 't) transfer_env \<Rightarrow> address \<Rightarrow> string \<Rightarrow> 256 word \<Rightarrow> ('r, 't) ics20_world \<Rightarrow>
   bool \<times> ('r, 't) ics20_world"
where
  "ics20_mint T account denom amount w = try_bank (bank_mint (at_bank T) account denom amount) w"

definition ics20_burn ::
  "('r, 't) transfer_env \<Rightarrow> address \<Rightarrow> string \<Rightarrow> 256 word \<Rightarrow> ('r, 't) ics20_world \<Rightarrow>
   bool \<times> ('r, 't) ics20_world"
where
  "ics20_burn T account denom amount w = try_bank (bank_burn (at_bank T) account denom amount) w"

text \<open>\<^verbatim>\<open>require\<close> of such a call.\<close>

definition require_done :: "bool \<times> ('r, 't) ics20_world \<Rightarrow> sol_error + ('r, 't) ics20_world" where
  "require_done r = bindr (require (fst r) (Revert [])) (\<lambda>_. Inr (snd r))"

subsection \<open>Internal functions\<close>

definition makeDenomPrefix :: "('r, 't) transfer_env \<Rightarrow> string \<Rightarrow> string \<Rightarrow> slice" where
  "makeDenomPrefix T port channel =
     (let sl = toSlice (te_rest T) in
      sl (slice_concat (sl (slice_concat (sl (slice_concat (sl port) (sl ''/''))) (sl channel))) (sl ''/'')))"

definition getEscrowAddress :: "string \<Rightarrow> ('r, 't) ics20_world \<Rightarrow> sol_error + address" where
  "getEscrowAddress sourceChannel w =
     (let escrow = tr_escrow (w_app w) sourceChannel in
      bindr (require (escrow \<noteq> 0) (Revert [])) (\<lambda>_. Inr escrow))"

definition newAcknowledgement :: "bool \<Rightarrow> byte list" where
  "newAcknowledgement success = (if success then [1] else [0])"

definition isSuccessAcknowledgement :: "byte list \<Rightarrow> sol_error + bool" where
  "isSuccessAcknowledgement acknowledgement =
     bindr (require (length acknowledgement = 1) (Revert [])) (\<lambda>_. Inr (acknowledgement ! 0 = 1))"

definition refundTokens ::
  "('r, 't) transfer_env \<Rightarrow> FungibleTokenPacketData \<Rightarrow> string \<Rightarrow> string \<Rightarrow> ('r, 't) ics20_world \<Rightarrow>
   sol_error + ('r, 't) ics20_world"
where
  "refundTokens T data sourcePort sourceChannel w =
     (if \<not> slice_startsWith (te_keccak T) (toSlice (te_rest T) (ftpd_Denom data))
           (makeDenomPrefix T sourcePort sourceChannel)
      then bindr (getEscrowAddress sourceChannel w) (\<lambda>escrow.
           bindr (toAddress (ftpd_Sender data)) (\<lambda>sender.
           require_done (ics20_transferFrom T escrow sender (ftpd_Denom data) (ucast (ftpd_Amount data)) w)))
      else bindr (toAddress (ftpd_Sender data)) (\<lambda>sender.
           require_done (ics20_mint T sender (ftpd_Denom data) (ucast (ftpd_Amount data)) w)))"

text \<open>The contract calls the handler, which then sees it as the sender.\<close>

definition as_sender :: "address \<Rightarrow> 'a henv \<Rightarrow> 'a henv" where
  "as_sender a X = X\<lparr>he_env := (he_env X)\<lparr>msg_sender := a\<rparr>\<rparr>"

definition transfer_sendPacket ::
  "('r, 't) transfer_env \<Rightarrow> ('r, 't) ics20 henv \<Rightarrow> FungibleTokenPacketData \<Rightarrow> string \<Rightarrow> string \<Rightarrow> 64 word \<Rightarrow>
   ('r, 't) ics20_world \<Rightarrow> sol_error + ('r, 't) ics20_world"
where
  "transfer_sendPacket T X data sourcePort sourceChannel timeoutHeight w =
     (let (channel, found) = getChannel sourcePort sourceChannel (w_host w) in
      bindr (require found (Revert ''channel not found'')) (\<lambda>_.
      Handler_sendPacket (as_sender (te_self T) X)
        \<lparr>pd_Sequence = getNextSequenceSend sourcePort sourceChannel (w_host w),
         pd_SourcePort = sourcePort, pd_SourceChannel = sourceChannel,
         pd_DestinationPort = ccd_PortId (chd_Counterparty channel),
         pd_DestinationChannel = ccd_ChannelId (chd_Counterparty channel),
         pd_Data = ftpd_sol_encode data,
         pd_TimeoutHeight = \<lparr>hd_RevisionNumber = 0, hd_RevisionHeight = timeoutHeight\<rparr>,
         pd_TimeoutTimestamp = 0\<rparr> w))"

subsection \<open>Sending\<close>

text \<open>\<^verbatim>\<open>abi.encodePacked\<close> of an address is its 20 bytes. The caller is the sender of the call in \<open>X\<close>.\<close>

definition encodePacked :: "address \<Rightarrow> byte list" where
  "encodePacked a = be_bytes 20 (unat a)"

definition sendTransfer ::
  "('r, 't) transfer_env \<Rightarrow> ('r, 't) ics20 henv \<Rightarrow> string \<Rightarrow> 64 word \<Rightarrow> address \<Rightarrow> string \<Rightarrow> string \<Rightarrow> 64 word \<Rightarrow>
   ('r, 't) ics20_world \<Rightarrow> sol_error + ('r, 't) ics20_world"
where
  "sendTransfer T X denom amount receiver sourcePort sourceChannel timeoutHeight w =
     bindr (if \<not> slice_startsWith (te_keccak T) (toSlice (te_rest T) denom) (makeDenomPrefix T sourcePort sourceChannel)
            then bindr (getEscrowAddress sourceChannel w) (\<lambda>escrow.
                 require_done (ics20_transferFrom T (caller X) escrow denom (ucast amount) w))
            else require_done (ics20_burn T (caller X) denom (ucast amount) w)) (\<lambda>w.
     transfer_sendPacket T X
       \<lparr>ftpd_Denom = denom, ftpd_Amount = amount, ftpd_Sender = encodePacked (caller X),
        ftpd_Receiver = encodePacked receiver\<rparr> sourcePort sourceChannel timeoutHeight w)"

subsection \<open>Module callbacks\<close>

text \<open>The caller's address is the first argument; no callback looks at it.\<close>

definition ics20_onRecvPacket ::
  "('r, 't) transfer_env \<Rightarrow> address \<Rightarrow> PacketData \<Rightarrow> ('r, 't) ics20_world \<Rightarrow>
   sol_error + byte list \<times> ('r, 't) ics20_world"
where
  "ics20_onRecvPacket T sender packet w =
     bindr (ftpd_sol_decode (pd_Data packet)) (\<lambda>data.
     let denom = toSlice (te_rest T) (ftpd_Denom data);
         trimedDenom = slice_beyond (te_keccak T) denom
           (makeDenomPrefix T (pd_SourcePort packet) (pd_SourceChannel packet)) in
     if \<not> slice_equals denom trimedDenom
     then bindr (getEscrowAddress (pd_DestinationChannel packet) w) (\<lambda>escrow.
          bindr (toAddress (ftpd_Receiver data)) (\<lambda>receiver.
          let (ok, w) = ics20_transferFrom T escrow receiver (toString trimedDenom) (ucast (ftpd_Amount data)) w
          in Inr (newAcknowledgement ok, w)))
     else let prefixedDenom = slice_concat
            (makeDenomPrefix T (pd_DestinationPort packet) (pd_DestinationChannel packet)) denom in
          bindr (toAddress (ftpd_Receiver data)) (\<lambda>receiver.
          let (ok, w) = ics20_mint T receiver prefixedDenom (ucast (ftpd_Amount data)) w
          in Inr (newAcknowledgement ok, w)))"

definition ics20_onAcknowledgementPacket ::
  "('r, 't) transfer_env \<Rightarrow> address \<Rightarrow> PacketData \<Rightarrow> byte list \<Rightarrow> ('r, 't) ics20_world \<Rightarrow>
   sol_error + ('r, 't) ics20_world"
where
  "ics20_onAcknowledgementPacket T sender packet acknowledgement w =
     bindr (isSuccessAcknowledgement acknowledgement) (\<lambda>ok.
     if \<not> ok then bindr (ftpd_sol_decode (pd_Data packet)) (\<lambda>data.
       refundTokens T data (pd_SourcePort packet) (pd_SourceChannel packet) w)
     else Inr w)"

definition set_escrow :: "('r, 't) transfer_env \<Rightarrow> string \<Rightarrow> ('r, 't) ics20_world \<Rightarrow> ('r, 't) ics20_world" where
  "set_escrow T channelId w =
     w\<lparr>w_app := (w_app w)\<lparr>tr_escrow := (tr_escrow (w_app w))(channelId := te_self T)\<rparr>\<rparr>"

definition ics20_onChanOpenInit ::
  "('r, 't) transfer_env \<Rightarrow> address \<Rightarrow> 8 word \<Rightarrow> string list \<Rightarrow> string \<Rightarrow> string \<Rightarrow> ChannelCounterpartyData \<Rightarrow>
   string \<Rightarrow> ('r, 't) ics20_world \<Rightarrow> sol_error + ('r, 't) ics20_world"
where
  "ics20_onChanOpenInit T sender order connectionHops portId channelId counterparty version w =
     Inr (set_escrow T channelId w)"

definition ics20_onChanOpenTry ::
  "('r, 't) transfer_env \<Rightarrow> address \<Rightarrow> 8 word \<Rightarrow> string list \<Rightarrow> string \<Rightarrow> string \<Rightarrow> ChannelCounterpartyData \<Rightarrow>
   string \<Rightarrow> string \<Rightarrow> ('r, 't) ics20_world \<Rightarrow> sol_error + ('r, 't) ics20_world"
where
  "ics20_onChanOpenTry T sender order connectionHops portId channelId counterparty version counterpartyVersion w =
     Inr (set_escrow T channelId w)"

definition ics20_onChanOpenAck ::
  "address \<Rightarrow> string \<Rightarrow> string \<Rightarrow> string \<Rightarrow> ('r, 't) ics20_world \<Rightarrow> sol_error + ('r, 't) ics20_world"
where
  "ics20_onChanOpenAck sender portId channelId counterpartyVersion w = Inr w"

definition ics20_onChanOpenConfirm ::
  "address \<Rightarrow> string \<Rightarrow> string \<Rightarrow> ('r, 't) ics20_world \<Rightarrow> sol_error + ('r, 't) ics20_world"
where
  "ics20_onChanOpenConfirm sender portId channelId w = Inr w"

definition ics20_module :: "('r, 't) transfer_env \<Rightarrow> ('r, 't) ics20_world module_callbacks" where
  "ics20_module T =
     \<lparr>on_ChanOpenInit = ics20_onChanOpenInit T, on_ChanOpenTry = ics20_onChanOpenTry T,
      on_ChanOpenAck = ics20_onChanOpenAck, on_ChanOpenConfirm = ics20_onChanOpenConfirm,
      on_RecvPacket = ics20_onRecvPacket T, on_AcknowledgementPacket = ics20_onAcknowledgementPacket T\<rparr>"

definition ics20_modules ::
  "('r, 't) transfer_env \<Rightarrow> address \<Rightarrow> ('r, 't) ics20_world module_callbacks option"
where
  "ics20_modules T a = (if a = te_self T then Some (ics20_module T) else None)"

subsection \<open>The application is a module of the handler\<close>

lemma app_only_simps [simp]:
  "app_only w w" "app_only w (with_bank b w)" "app_only w (set_escrow T c w)"
proof -
  show "app_only w w" unfolding app_only_def by (rule exI [of _ "w_app w"]) simp
qed (auto simp: app_only_def with_bank_def set_escrow_def)

lemma try_bank_app [simp]: "app_only w (snd (try_bank f w))"
  by (simp add: try_bank_def split: sum.split)

lemma ics20_calls_app [simp]:
  "app_only w (snd (ics20_transferFrom T s r d n w))" "app_only w (snd (ics20_mint T r d n w))"
  "app_only w (snd (ics20_burn T r d n w))"
  by (simp_all add: ics20_transferFrom_def ics20_mint_def ics20_burn_def)

lemma require_done_Inr [result_simps]: "require_done r = Inr w \<longleftrightarrow> fst r \<and> w = snd r"
  by (auto simp: require_done_def result_simps)

interpretation ics20_app: ibc_modules "ics20_modules T" for T :: "('r, 't) transfer_env"
proof
  fix a s ord hops p c cp v cpv pkt ack and w w' :: "('r, 't) ics20_world" and m
  assume "ics20_modules T a = Some m"
  then have m: "m = ics20_module T" by (auto simp: ics20_modules_def split: if_splits)
  show "on_ChanOpenInit m s ord hops p c cp v w = Inr w' \<Longrightarrow> app_only w w'"
    by (auto simp: m ics20_module_def ics20_onChanOpenInit_def)
  show "on_ChanOpenTry m s ord hops p c cp v cpv w = Inr w' \<Longrightarrow> app_only w w'"
    by (auto simp: m ics20_module_def ics20_onChanOpenTry_def)
  show "on_ChanOpenAck m s p c v w = Inr w' \<Longrightarrow> app_only w w'"
    by (auto simp: m ics20_module_def ics20_onChanOpenAck_def)
  show "on_ChanOpenConfirm m s p c w = Inr w' \<Longrightarrow> app_only w w'"
    by (auto simp: m ics20_module_def ics20_onChanOpenConfirm_def)
  show "on_RecvPacket m s pkt w = Inr (ack, w') \<Longrightarrow> app_only w w'"
    by (auto simp: m ics20_module_def ics20_onRecvPacket_def Let_def case_prod_beta result_simps split: if_splits)
  show "on_AcknowledgementPacket m s pkt ack w = Inr w' \<Longrightarrow> app_only w w'"
    by (auto simp: m ics20_module_def ics20_onAcknowledgementPacket_def refundTokens_def result_simps split: if_splits)
qed

end
