(* ===== verification/ICS20_Properties.thy ===== *)
theory ICS20_Properties
  imports ICS20_Transfer IBC_Run
begin

text \<open>
  Properties of the token transfer application: what a refund and a voyage back do, who may call
  it, and that what the bank owes in deposits is covered by the tokens it holds.
\<close>

subsection \<open>Denominations\<close>

definition denom_prefix :: "string \<Rightarrow> string \<Rightarrow> string" where
  "denom_prefix port channel = port @ ''/'' @ channel @ ''/''"

definition has_prefix :: "(byte list \<Rightarrow> byte list) \<Rightarrow> string \<Rightarrow> string \<Rightarrow> bool" where
  "has_prefix K p s \<longleftrightarrow> length p \<le> length s \<and> K (str_bytes (take (length p) s)) = K (str_bytes p)"

lemma has_prefix_append [simp]: "has_prefix K p (p @ s)"
  by (simp add: has_prefix_def)

lemma makeDenomPrefix_text: "makeDenomPrefix T port channel = toSlice (te_rest T) (denom_prefix port channel)"
  by (simp add: makeDenomPrefix_def denom_prefix_def)

lemma startsWith_prefix:
  "slice_startsWith K (toSlice r s) (makeDenomPrefix T p c) \<longleftrightarrow> has_prefix K (denom_prefix p c) s"
  by (simp add: makeDenomPrefix_text startsWith_toSlice has_prefix_def)

lemma trim_text:
  "has_prefix K (denom_prefix p c) s \<Longrightarrow>
   toString (slice_beyond K (toSlice r s) (makeDenomPrefix T p c)) = drop (length (denom_prefix p c)) s"
  using slice_bytes_part(2) [of "length (denom_prefix p c)" "toSlice r s"]
  by (auto simp: slice_beyond_def makeDenomPrefix_text has_prefix_def slice_bytes_part toString_def
      bytes_str_take_drop)

lemma not_trimmed:
  assumes "length s < 2 ^ 256"
  shows "slice_equals (toSlice r s) (slice_beyond K (toSlice r s) (makeDenomPrefix T p c)) \<longleftrightarrow>
    \<not> has_prefix K (denom_prefix p c) s"
  using slice_equals_beyond [of "makeDenomPrefix T p c" "toSlice r s" K] assms
  by (simp add: startsWith_prefix) (simp add: makeDenomPrefix_text denom_prefix_def)

subsection \<open>The callbacks on decoded packets\<close>

lemma try_bank_simps:
  "f (bank_of w) = Inr b \<Longrightarrow> try_bank f w = (True, with_bank b w)"
  "f (bank_of w) = Inl e \<Longrightarrow> try_bank f w = (False, w)"
  by (simp_all add: try_bank_def)

lemma try_bank_True: "fst (try_bank f w) \<longleftrightarrow> (\<exists>b. f (bank_of w) = Inr b \<and> snd (try_bank f w) = with_bank b w)"
  by (auto simp: try_bank_def split: sum.splits)

lemma bank_of_simps [simp]:
  "bank_of (with_bank b w) = b" "w_host (with_bank b w) = w_host w" "w_log (with_bank b w) = w_log w"
  "tr_escrow (w_app (with_bank b w)) = tr_escrow (w_app w)"
  by (simp_all add: bank_of_def with_bank_def)

lemma recv_released:
  assumes "ftpd_sol_decode (pd_Data pkt) = Inr d" and "length (ftpd_Denom d) < 2 ^ 256"
    and "has_prefix (te_keccak T) (denom_prefix (pd_SourcePort pkt) (pd_SourceChannel pkt)) (ftpd_Denom d)"
    and "getEscrowAddress (pd_DestinationChannel pkt) w = Inr e" and "toAddress (ftpd_Receiver d) = Inr r"
  shows "ics20_onRecvPacket T a pkt w =
    (let (ok, w') = ics20_transferFrom T e r
        (drop (length (denom_prefix (pd_SourcePort pkt) (pd_SourceChannel pkt))) (ftpd_Denom d))
        (ucast (ftpd_Amount d)) w
     in Inr (newAcknowledgement ok, w'))"
  using assms by (simp add: ics20_onRecvPacket_def Let_def not_trimmed trim_text)

lemma recv_minted:
  assumes "ftpd_sol_decode (pd_Data pkt) = Inr d" and "length (ftpd_Denom d) < 2 ^ 256"
    and "\<not> has_prefix (te_keccak T) (denom_prefix (pd_SourcePort pkt) (pd_SourceChannel pkt)) (ftpd_Denom d)"
    and "toAddress (ftpd_Receiver d) = Inr r"
  shows "ics20_onRecvPacket T a pkt w =
    (let (ok, w') = ics20_mint T r
        (denom_prefix (pd_DestinationPort pkt) (pd_DestinationChannel pkt) @ ftpd_Denom d) (ucast (ftpd_Amount d)) w
     in Inr (newAcknowledgement ok, w'))"
  using assms by (simp add: ics20_onRecvPacket_def Let_def not_trimmed) (simp add: makeDenomPrefix_text)

text \<open>What a successful \<^verbatim>\<open>sendTransfer\<close> did: it moved tokens, and sent a packet that tells so.\<close>

definition transfer_data :: "string \<Rightarrow> 64 word \<Rightarrow> address \<Rightarrow> address \<Rightarrow> FungibleTokenPacketData" where
  "transfer_data denom amount sender receiver =
     \<lparr>ftpd_Denom = denom, ftpd_Amount = amount, ftpd_Sender = encodePacked sender, ftpd_Receiver = encodePacked receiver\<rparr>"

definition transfer_packet ::
  "host \<Rightarrow> FungibleTokenPacketData \<Rightarrow> string \<Rightarrow> string \<Rightarrow> 64 word \<Rightarrow> PacketData"
where
  "transfer_packet h d port channel timeoutHeight =
     (let cp = chd_Counterparty (channels h port channel) in
      \<lparr>pd_Sequence = nextSequenceSends h port channel, pd_SourcePort = port, pd_SourceChannel = channel,
       pd_DestinationPort = ccd_PortId cp, pd_DestinationChannel = ccd_ChannelId cp, pd_Data = ftpd_sol_encode d,
       pd_TimeoutHeight = \<lparr>hd_RevisionNumber = 0, hd_RevisionHeight = timeoutHeight\<rparr>, pd_TimeoutTimestamp = 0\<rparr>)"

lemma Handler_sendPacket_Inr:
  "Handler_sendPacket X p w = Inr w' \<Longrightarrow> \<exists>h. w' = emit (SendPacket p) (w\<lparr>w_host := h\<rparr>)"
  by (auto simp: Handler_sendPacket_def result_simps)

lemma sendTransfer_Inr:
  assumes "sendTransfer T X denom amount receiver port channel timeoutHeight w = Inr w'"
  obtains b where
    "if has_prefix (te_keccak T) (denom_prefix port channel) denom
     then bank_burn (at_bank T) (caller X) denom (ucast amount) (bank_of w) = Inr b
     else tr_escrow (w_app w) channel \<noteq> 0 \<and>
       bank_transferFrom (at_bank T) (caller X) (tr_escrow (w_app w) channel) denom (ucast amount) (bank_of w) = Inr b"
    and "bank_of w' = b" and "tr_escrow (w_app w') = tr_escrow (w_app w)"
    and "w_log w' = w_log w @
      [SendPacket (transfer_packet (w_host w) (transfer_data denom amount (caller X) receiver) port channel timeoutHeight)]"
proof -
  let ?d = "transfer_data denom amount (caller X) receiver"
  let ?pre = "has_prefix (te_keccak T) (denom_prefix port channel) denom"
  from assms obtain w1 where
    1: "(if \<not> ?pre then bindr (getEscrowAddress channel w) (\<lambda>escrow.
          require_done (ics20_transferFrom T (caller X) escrow denom (ucast amount) w))
        else require_done (ics20_burn T (caller X) denom (ucast amount) w)) = Inr w1"
    and 2: "transfer_sendPacket T X ?d port channel timeoutHeight w1 = Inr w'"
    unfolding sendTransfer_def bindr_eq_Inr startsWith_prefix transfer_data_def by blast
  from 1 obtain b where b: "if ?pre then bank_burn (at_bank T) (caller X) denom (ucast amount) (bank_of w) = Inr b
     else tr_escrow (w_app w) channel \<noteq> 0 \<and>
       bank_transferFrom (at_bank T) (caller X) (tr_escrow (w_app w) channel) denom (ucast amount) (bank_of w) = Inr b"
    and w1: "w1 = with_bank b w"
    by (cases ?pre) (auto simp: bindr_eq_Inr require_simps require_done_Inr getEscrowAddress_def Let_def
        ics20_transferFrom_def ics20_burn_def try_bank_True)
  from 2 have "Handler_sendPacket (as_sender (te_self T) X)
      (transfer_packet (w_host w) ?d port channel timeoutHeight) w1 = Inr w'"
    by (auto simp: transfer_sendPacket_def transfer_packet_def getChannel_def getNextSequenceSend_def w1 Let_def
        bindr_eq_Inr require_simps)
  then obtain h where w': "w' = emit (SendPacket (transfer_packet (w_host w) ?d port channel timeoutHeight))
      ((with_bank b w)\<lparr>w_host := h\<rparr>)"
    unfolding w1 by (blast dest: Handler_sendPacket_Inr)
  show ?thesis
    by (rule that [OF b]) (simp_all add: w' emit_def bank_of_def with_bank_def)
qed

lemma transfer_data_decode:
  assumes "length denom < 2 ^ 64"
  shows "ftpd_sol_decode (ftpd_sol_encode (transfer_data denom amount s r)) = Inr (transfer_data denom amount s r)"
  using assms by (simp add: ftpd_sol_encode_enc ftpd_sol_decode_enc transfer_data_def encodePacked_def)

subsection \<open>Moving tokens on and back\<close>

lemma set_balance_twice [simp]:
  "set_balance tid a v (set_balance tid a v' s) = set_balance tid a v s"
  "set_balance tid a (bk_balances s tid a) s = s"
  by (simp_all add: set_balance_def)

lemma set_balance_restore:
  "set_balance tid e (bk_balances (set_balance tid e (bk_balances s tid e + n) s) tid e - n)
     (set_balance tid e (bk_balances s tid e + n) s) = s"
  by simp

lemma hasRole_set_balance [simp]: "hasRole B r a (set_balance tid x v s) = hasRole B r a s"
  by (simp add: hasRole_def)

lemma move_on:
  assumes "bank_transferFrom B s e tid n b = Inr b1" and "hasRole B (OPERATOR_ROLE B) (msg_sender B) b"
    and "total_supply tid b < 2 ^ 256" and "r \<noteq> 0"
  shows "\<exists>b2. bank_transferFrom B e r tid n b1 = Inr b2 \<and> bank_transferFrom B s r tid n b = Inr b2"
proof -
  let ?s = "set_balance tid s (bk_balances b tid s - n) b"
  have b1: "b1 = set_balance tid e (bk_balances ?s tid e + n) ?s" and n: "n \<le> bk_balances b tid s"
    using assms(1) by (auto simp: result_simps Let_def)
  have "total_supply tid ?s + unat n = total_supply tid b"
    using n by (intro supply_burn(1) [of s]) (simp add: result_simps)
  then have "unat (bk_balances ?s tid e + n) = unat (bk_balances ?s tid e) + unat n"
    by (intro mint_no_overflow(1)) (use assms(3) in simp)
  then have "n \<le> bk_balances b1 tid e" by (simp add: b1 word_le_nat_alt)
  moreover have "set_balance tid e (bk_balances b1 tid e - n) b1 = ?s"
    unfolding b1 by (rule set_balance_restore)
  ultimately show ?thesis
    using assms(2,4) n by (intro exI [of _ "set_balance tid r (bk_balances ?s tid r + n) ?s"])
      (simp add: bank_transferFrom_Inr Let_def b1)
qed

lemma move_back:
  assumes "bank_transferFrom B s e tid n b = Inr b1" and "hasRole B (OPERATOR_ROLE B) (msg_sender B) b"
    and "total_supply tid b < 2 ^ 256" and "s \<noteq> 0"
  shows "bank_transferFrom B e s tid n b1 = Inr b"
proof -
  obtain b2 where "bank_transferFrom B e s tid n b1 = Inr b2" and b2: "bank_transferFrom B s s tid n b = Inr b2"
    using move_on [OF assms] by blast
  moreover from b2 have "b2 = b" by (simp add: bank_transferFrom_Inr Let_def)
  ultimately show ?thesis by simp
qed

lemma burn_mint_back: "bank_burn B a tid n b = Inr b1 \<Longrightarrow> bank_mint B a tid n b1 = Inr b"
  by (auto simp: result_simps mint_to_def)

lemma mint_burn_back:
  assumes "bank_mint B a tid n b = Inr b1" and "total_supply tid b + unat n < 2 ^ 256"
  shows "bank_burn B a tid n b1 = Inr b"
proof -
  have b1: "b1 = set_balance tid a (bk_balances b tid a + n) b" "hasRole B (OPERATOR_ROLE B) (msg_sender B) b"
    using assms(1) by (auto simp: result_simps mint_to_def)
  moreover have "n \<le> bk_balances b tid a + n"
    using mint_no_overflow(1) [OF assms(2)] by (simp add: word_le_nat_alt)
  ultimately show ?thesis by (simp add: result_simps)
qed

subsection \<open>Refunds\<close>

text \<open>
  C10: a failed transfer is undone. Whenever \<^verbatim>\<open>sendTransfer\<close> succeeded for a user and the packet it
  sent is acknowledged with a failure, the callback succeeds and leaves the bank exactly as it
  was before the transfer, whether the tokens had gone to the escrow or were burnt.
\<close>

theorem refund_undoes_transfer:
  assumes "sendTransfer T X denom amount receiver port channel timeoutHeight w = Inr w1"
    and "caller X \<noteq> te_self T" and "caller X \<noteq> 0" and "length denom < 2 ^ 64"
    and "total_supply denom (bank_of w) < 2 ^ 256" and "w_app w2 = w_app w1"
  shows "\<exists>p w3. w_log w1 = w_log w @ [SendPacket p] \<and>
    ics20_onAcknowledgementPacket T a p (newAcknowledgement False) w2 = Inr w3 \<and>
    bank_of w3 = bank_of w \<and> tr_escrow (w_app w3) = tr_escrow (w_app w) \<and> w_host w3 = w_host w2"
proof -
  let ?K = "te_keccak T" and ?pre = "denom_prefix port channel" and ?B = "at_bank T" and ?n = "ucast amount :: 256 word"
  let ?d = "transfer_data denom amount (caller X) receiver"
  let ?p = "transfer_packet (w_host w) ?d port channel timeoutHeight"
  from assms(1) obtain b where
    moved: "if has_prefix ?K ?pre denom then bank_burn ?B (caller X) denom ?n (bank_of w) = Inr b
      else tr_escrow (w_app w) channel \<noteq> 0 \<and>
        bank_transferFrom ?B (caller X) (tr_escrow (w_app w) channel) denom ?n (bank_of w) = Inr b"
    and w1: "bank_of w1 = b" "tr_escrow (w_app w1) = tr_escrow (w_app w)" "w_log w1 = w_log w @ [SendPacket ?p]"
    by (rule sendTransfer_Inr)
  have w2: "bank_of w2 = b" "tr_escrow (w_app w2) = tr_escrow (w_app w)"
    using w1 assms(6) by (simp_all add: bank_of_def)
  have self: "msg_sender ?B = te_self T" by (simp add: at_bank_def)
  have "refundTokens T ?d port channel w2 = Inr (with_bank (bank_of w) w2)"
  proof (cases "has_prefix ?K ?pre denom")
    case True
    with moved have "bank_mint ?B (caller X) denom ?n b = Inr (bank_of w)" by (simp add: burn_mint_back)
    then show ?thesis
      using True by (simp add: refundTokens_def transfer_data_def startsWith_prefix encodePacked_def
          ics20_mint_def try_bank_simps w2 require_done_Inr)
  next
    case False
    with moved have m: "bank_transferFrom ?B (caller X) (tr_escrow (w_app w) channel) denom ?n (bank_of w) = Inr b"
      and e: "tr_escrow (w_app w) channel \<noteq> 0" by simp_all
    from m have o: "hasRole ?B (OPERATOR_ROLE ?B) (msg_sender ?B) (bank_of w)"
      using assms(2) self by (auto simp: bank_transferFrom_Inr)
    have "bank_transferFrom ?B (tr_escrow (w_app w) channel) (caller X) denom ?n b = Inr (bank_of w)"
      by (rule move_back [OF m o assms(5,3)])
    then show ?thesis
      using False e by (simp add: refundTokens_def transfer_data_def startsWith_prefix encodePacked_def
          getEscrowAddress_def Let_def ics20_transferFrom_def try_bank_simps w2 require_done_Inr require_def)
  qed
  then have "ics20_onAcknowledgementPacket T a ?p (newAcknowledgement False) w2 = Inr (with_bank (bank_of w) w2)"
    using transfer_data_decode [OF assms(4), of amount "caller X" receiver]
    by (simp add: ics20_onAcknowledgementPacket_def isSuccessAcknowledgement_def newAcknowledgement_def
        require_def transfer_packet_def Let_def)
  then show ?thesis using w1(3) w2(2) by (intro exI [of _ ?p] exI [of _ "with_bank (bank_of w) w2"]) simp
qed

text \<open>
  An example for the witnesses: two worlds whose channels are all open and lead to the channel
  \<open>cp\<close>, the application at address 9 owning them; it is the operator of its bank. Account 5
  holds 100 atoms.
\<close>

definition example_host :: "ChannelCounterpartyData \<Rightarrow> host" where
  "example_host cp = run4\<lparr>channels := \<lambda>p c. \<lparr>chd_State = 3, chd_Ordering = 1, chd_Counterparty = cp,
       chd_ConnectionHops = [conn_id 0], chd_Version = ''v''\<rparr>,
     nextSequenceSends := \<lambda>p c. 1, capabilities := \<lambda>b. [9]\<rparr>"

definition one_operator :: "unit role_table" where
  "one_operator = \<lparr>ac_hasRole = \<lambda>r a s. a = 9, ac_setupRole = \<lambda>r a s. s\<rparr>"

definition example_transfer :: "(unit, unit) transfer_env" where
  "example_transfer = \<lparr>te_self = 9, te_bank = example_bank_env\<lparr>be_roles := one_operator\<rparr>, te_rest = \<lambda>i. 0\<rparr>"

definition example_henv :: "address \<Rightarrow> (unit, unit) ics20 henv" where
  "example_henv a = \<lparr>he_env = run_env\<lparr>msg_sender := a\<rparr>, he_self = 1, he_modules = ics20_modules example_transfer\<rparr>"

definition atoms :: "(unit, unit) bank" where
  "atoms = set_balance ''atom'' 5 100 \<lparr>bk_roles = (), bk_balances = \<lambda>tid a. 0, bk_tokens = ()\<rparr>"

definition example_world :: "ChannelCounterpartyData \<Rightarrow> (unit, unit) bank \<Rightarrow> (unit, unit) ics20_world" where
  "example_world cp b = \<lparr>w_host = example_host cp, w_owner = 1, w_log = [],
     w_app = \<lparr>tr_escrow = \<lambda>c. 9, tr_bank = b\<rparr>\<rparr>"

lemma supply_atoms: "total_supply ''atom'' atoms = 100"
  using supply_set_balance [of "''atom''" 5 100 "\<lparr>bk_roles = (), bk_balances = \<lambda>tid a. 0, bk_tokens = ()\<rparr>"]
  by (simp add: atoms_def total_supply_def)

lemma example_simps [simp]:
  "te_self example_transfer = 9" "caller (example_henv a) = a" "te_keccak example_transfer = (\<lambda>b. b)"
  "hasRole (at_bank example_transfer) r a s \<longleftrightarrow> a = 9" "msg_sender (at_bank example_transfer) = 9"
  "bank_of (example_world cp b) = b" "tr_escrow (w_app (example_world cp b)) c = 9"
  "w_host (example_world cp b) = example_host cp" "w_log (example_world cp b) = []"
  "channels (example_host cp) p c = \<lparr>chd_State = 3, chd_Ordering = 1, chd_Counterparty = cp,
       chd_ConnectionHops = [conn_id 0], chd_Version = ''v''\<rparr>"
  by (simp_all add: example_transfer_def example_henv_def caller_def te_keccak_def hasRole_def at_bank_def
      one_operator_def example_bank_env_def bank_of_def example_world_def example_host_def)

lemma example_host_send:
  "\<exists>h. sendPacket (at_host (as_sender 9 (example_henv a))) (transfer_packet (example_host cp) d port channel 0)
     (example_host cp) = Inr h"
  by (simp add: sendPacket_def as_sender_def example_henv_def transfer_packet_def at_host_def getChannel_def
      getNextSequenceSend_def channel_connection_def getConnection_def example_host_def run_simps) blast

lemma example_send_packet:
  assumes "w_host w = example_host cp"
  shows "\<exists>w'. Handler_sendPacket (as_sender 9 (example_henv a)) (transfer_packet (example_host cp) d port channel 0) w = Inr w'"
proof -
  have "owns_channel (as_sender 9 (example_henv a)) port channel w = Inr ()"
    using assms by (simp add: owns_channel_def authenticateCapability_def as_sender_def example_henv_def at_host_def
        caller_def example_host_def run_simps) blast
  with example_host_send [of a cp d port channel] assms show ?thesis
    by (auto simp: Handler_sendPacket_def on_host_def transfer_packet_def Let_def)
qed

lemma example_send:
  assumes "if has_prefix (\<lambda>b. b) (denom_prefix port channel) denom
      then bank_burn (at_bank example_transfer) a denom (ucast amount) b = Inr b'
      else bank_transferFrom (at_bank example_transfer) a 9 denom (ucast amount) b = Inr b'"
  shows "\<exists>w'. sendTransfer example_transfer (example_henv a) denom amount receiver port channel 0 (example_world cp b) = Inr w'"
proof -
  let ?d = "transfer_data denom amount a receiver"
  obtain w' where "Handler_sendPacket (as_sender 9 (example_henv a))
      (transfer_packet (example_host cp) ?d port channel 0) (with_bank b' (example_world cp b)) = Inr w'"
    using example_send_packet [of "with_bank b' (example_world cp b)" cp a ?d port channel] by auto
  then have "transfer_sendPacket example_transfer (example_henv a) ?d port channel 0
      (with_bank b' (example_world cp b)) = Inr w'"
    by (simp add: transfer_sendPacket_def transfer_packet_def getChannel_def getNextSequenceSend_def Let_def require_def)
  then show ?thesis using assms
    by (simp add: sendTransfer_def startsWith_prefix transfer_data_def getEscrowAddress_def Let_def require_def
        ics20_transferFrom_def ics20_burn_def try_bank_simps require_done_def split: if_splits)
qed

lemma has_prefix_text: "has_prefix (\<lambda>b. b) p s \<longleftrightarrow> length p \<le> length s \<and> take (length p) s = p"
  by (simp add: has_prefix_def inj_str_bytes)

lemma atoms_sent:
  "\<exists>w'. sendTransfer example_transfer (example_henv 5) ''atom'' 30 6 ''p'' ''c'' 0 (example_world cp atoms) = Inr w'"
  by (rule example_send) (simp add: has_prefix_text denom_prefix_def bank_transferFrom_Inr atoms_def)

lemma refund_undoes_transfer_witness:
  "\<exists>w1 p w3. sendTransfer example_transfer (example_henv 5) ''atom'' 30 6 ''p'' ''c'' 0
       (example_world \<lparr>ccd_PortId = ''q'', ccd_ChannelId = ''d''\<rparr> atoms) = Inr w1 \<and>
     ics20_onAcknowledgementPacket example_transfer 1 p (newAcknowledgement False) w1 = Inr w3 \<and> bank_of w3 = atoms"
proof -
  let ?w = "example_world \<lparr>ccd_PortId = ''q'', ccd_ChannelId = ''d''\<rparr> atoms"
  obtain w1 where "sendTransfer example_transfer (example_henv 5) ''atom'' 30 6 ''p'' ''c'' 0 ?w = Inr w1"
    using atoms_sent by blast
  then show ?thesis
    using refund_undoes_transfer [of example_transfer "example_henv 5" "''atom''" 30 6 "''p''" "''c''" 0 ?w w1 w1 1]
    by (auto simp: supply_atoms)
qed

subsection \<open>There and back\<close>

text \<open>One leg: what the bank of the other chain does with the packet of a transfer.\<close>

lemma sent_packet:
  assumes "sendTransfer T X denom amount receiver port channel timeoutHeight w = Inr w1"
    and "w_log w1 = w_log w @ [SendPacket p]"
  shows "p = transfer_packet (w_host w) (transfer_data denom amount (caller X) receiver) port channel timeoutHeight"
  using sendTransfer_Inr [OF assms(1)] assms(2) by (metis append_same_eq handler_event.inject(1) last_snoc)

lemma recv_mints:
  assumes "length denom < 2 ^ 64" and "\<not> has_prefix (te_keccak T) (denom_prefix port channel) denom"
    and "chd_Counterparty (channels h port channel) = \<lparr>ccd_PortId = port', ccd_ChannelId = channel'\<rparr>"
    and "hasRole (at_bank T) (OPERATOR_ROLE (at_bank T)) (te_self T) (bank_of w)"
  shows "ics20_onRecvPacket T a (transfer_packet h (transfer_data denom amount s r) port channel n) w =
    Inr (newAcknowledgement True,
      with_bank (mint_to r (denom_prefix port' channel' @ denom) (ucast amount) (bank_of w)) w)"
proof -
  let ?d = "transfer_data denom amount s r" and ?p = "transfer_packet h (transfer_data denom amount s r) port channel n"
  have d: "ftpd_sol_decode (pd_Data ?p) = Inr ?d" "length (ftpd_Denom ?d) < 2 ^ 256"
    "\<not> has_prefix (te_keccak T) (denom_prefix (pd_SourcePort ?p) (pd_SourceChannel ?p)) (ftpd_Denom ?d)"
    "toAddress (ftpd_Receiver ?d) = Inr r"
    using transfer_data_decode [OF assms(1), of amount s r] assms(1,2)
    by (simp_all add: transfer_packet_def transfer_data_def Let_def encodePacked_def)
  have "bank_mint (at_bank T) r (denom_prefix port' channel' @ denom) (ucast amount) (bank_of w) =
      Inr (mint_to r (denom_prefix port' channel' @ denom) (ucast amount) (bank_of w))"
    using assms(4) by (simp add: bank_mint_Inr) (simp add: at_bank_def)
  then show ?thesis using assms(3) unfolding recv_minted [OF d]
    by (simp add: ics20_mint_def try_bank_simps) (simp add: transfer_packet_def transfer_data_def Let_def try_bank_simps)
qed

lemma recv_releases:
  assumes "length (denom_prefix port channel @ denom) < 2 ^ 64"
    and "chd_Counterparty (channels h port channel) = \<lparr>ccd_PortId = port', ccd_ChannelId = channel'\<rparr>"
    and "tr_escrow (w_app w) channel' \<noteq> 0"
    and "bank_transferFrom (at_bank T) (tr_escrow (w_app w) channel') r denom (ucast amount) (bank_of w) = Inr b"
  shows "ics20_onRecvPacket T a (transfer_packet h (transfer_data (denom_prefix port channel @ denom) amount s r) port channel n) w =
    Inr (newAcknowledgement True, with_bank b w)"
proof -
  let ?d = "transfer_data (denom_prefix port channel @ denom) amount s r"
  let ?p = "transfer_packet h ?d port channel n"
  have d: "ftpd_sol_decode (pd_Data ?p) = Inr ?d" "length (ftpd_Denom ?d) < 2 ^ 256"
    "has_prefix (te_keccak T) (denom_prefix (pd_SourcePort ?p) (pd_SourceChannel ?p)) (ftpd_Denom ?d)"
    "getEscrowAddress (pd_DestinationChannel ?p) w = Inr (tr_escrow (w_app w) channel')"
    "toAddress (ftpd_Receiver ?d) = Inr r"
    using transfer_data_decode [OF assms(1), of amount s r] assms(1-3)
    by (simp_all add: transfer_packet_def transfer_data_def Let_def encodePacked_def getEscrowAddress_def require_def)
  show ?thesis using assms(4) unfolding recv_released [OF d]
    by (simp add: ics20_transferFrom_def transfer_packet_def transfer_data_def Let_def try_bank_simps)
qed

text \<open>
  C9: a token that goes to the other chain and comes back is the same token. A native token sent
  over a channel is minted as a voucher on the other side; when its holder sends the voucher back,
  it is burnt, and the packet releases the original token from the escrow. In the end the bank of
  the other chain is what it was, and the bank at home as after one transfer from the first
  sender to the last receiver.
\<close>

theorem voucher_returns:
  assumes out: "sendTransfer T X denom amount holder pA cA n wA = Inr wA1" "w_log wA1 = w_log wA @ [SendPacket p]"
    and native: "\<not> has_prefix (te_keccak T) (denom_prefix pA cA) denom" "te_keccak T' = te_keccak T"
    and ends: "chd_Counterparty (channels (w_host wA) pA cA) = \<lparr>ccd_PortId = pB, ccd_ChannelId = cB\<rparr>"
      "chd_Counterparty (channels (w_host wB2) pB cB) = \<lparr>ccd_PortId = pA, ccd_ChannelId = cA\<rparr>"
    and operator: "caller X \<noteq> te_self T" "hasRole (at_bank T') (OPERATOR_ROLE (at_bank T')) (te_self T') (bank_of wB)"
    and small: "length (denom_prefix pB cB @ denom) < 2 ^ 64" "total_supply denom (bank_of wA) < 2 ^ 256"
      "total_supply (denom_prefix pB cB @ denom) (bank_of wB) + unat amount < 2 ^ 256"
    and arrive: "ics20_onRecvPacket T' a p wB = Inr (ack, wB1)" "w_app wB2 = w_app wB1"
    and return: "sendTransfer T' Y (denom_prefix pB cB @ denom) amount home pB cB n' wB2 = Inr wB3"
      "w_log wB3 = w_log wB2 @ [SendPacket p']" "caller Y = holder" "home \<noteq> 0"
    and still: "w_app wA2 = w_app wA1"
  shows "ack = newAcknowledgement True \<and> bank_of wB3 = bank_of wB \<and>
    (\<exists>wA3. ics20_onRecvPacket T a' p' wA2 = Inr (newAcknowledgement True, wA3) \<and>
       bank_transferFrom (at_bank T) (caller X) home denom (ucast amount) (bank_of wA) = Inr (bank_of wA3))"
proof -
  let ?v = "denom_prefix pB cB @ denom" and ?n = "ucast amount :: 256 word"
  note p = sent_packet [OF out] and p' = sent_packet [OF return(1,2)]
  have l: "length denom < 2 ^ 64" using small(1) by simp
  have nat': "\<not> has_prefix (te_keccak T') (denom_prefix pA cA) denom" using native by simp
  have 1: "ack = newAcknowledgement True" "wB1 = with_bank (mint_to holder ?v ?n (bank_of wB)) wB"
    using arrive(1) unfolding p recv_mints [OF l nat' ends(1) operator(2)] by simp_all
  then have m: "bank_of wB2 = mint_to holder ?v ?n (bank_of wB)" "tr_escrow (w_app wB2) = tr_escrow (w_app wB)"
    using arrive(2) by (simp_all add: bank_of_def with_bank_def)
  have "bank_burn (at_bank T') holder ?v ?n (mint_to holder ?v ?n (bank_of wB)) = Inr (bank_of wB)"
    using operator(2) small(3) unat_ucast_256 [of amount]
    by (intro mint_burn_back) (simp_all add: result_simps at_bank_def)
  then have 2: "bank_of wB3 = bank_of wB" using sendTransfer_Inr [OF return(1)] return(3) m(1) by fastforce
  obtain b where e: "tr_escrow (w_app wA) cA \<noteq> 0"
    and b: "bank_transferFrom (at_bank T) (caller X) (tr_escrow (w_app wA) cA) denom ?n (bank_of wA) = Inr b"
    and wA1: "bank_of wA1 = b" "tr_escrow (w_app wA1) = tr_escrow (w_app wA)"
    using sendTransfer_Inr [OF out(1)] native(1) by metis
  then have "hasRole (at_bank T) (OPERATOR_ROLE (at_bank T)) (msg_sender (at_bank T)) (bank_of wA)"
    using operator(1) by (auto simp: bank_transferFrom_Inr at_bank_def)
  from move_on [OF b this small(2) return(4)] obtain b2 where
    b2: "bank_transferFrom (at_bank T) (tr_escrow (w_app wA) cA) home denom ?n b = Inr b2"
      "bank_transferFrom (at_bank T) (caller X) home denom ?n (bank_of wA) = Inr b2" by blast
  have wA2: "bank_of wA2 = b" "tr_escrow (w_app wA2) cA = tr_escrow (w_app wA) cA"
    using wA1 still by (simp_all add: bank_of_def)
  have "ics20_onRecvPacket T a' p' wA2 = Inr (newAcknowledgement True, with_bank b2 wA2)"
    unfolding p' by (rule recv_releases [OF small(1) ends(2)]) (use e b2 wA2 in simp_all)
  with 1 2 b2(2) show ?thesis by (intro conjI exI [of _ "with_bank b2 wA2"]) simp_all
qed

lemma with_bank_example: "with_bank b' (example_world cp b) = example_world cp b'"
  by (simp add: with_bank_def example_world_def)

definition no_atoms :: "(unit, unit) bank" where
  "no_atoms = \<lparr>bk_roles = (), bk_balances = \<lambda>tid a. 0, bk_tokens = ()\<rparr>"

lemma voucher_returns_witness:
  "\<exists>wA1 p wB1 wB3 p' wA3. let wA = example_world \<lparr>ccd_PortId = ''q'', ccd_ChannelId = ''d''\<rparr> atoms;
       wB = example_world \<lparr>ccd_PortId = ''p'', ccd_ChannelId = ''c''\<rparr> no_atoms in
     sendTransfer example_transfer (example_henv 5) ''atom'' 30 6 ''p'' ''c'' 0 wA = Inr wA1 \<and> w_log wA1 = [SendPacket p] \<and>
     ics20_onRecvPacket example_transfer 1 p wB = Inr (newAcknowledgement True, wB1) \<and>
     sendTransfer example_transfer (example_henv 6) ''q/d/atom'' 30 7 ''q'' ''d'' 0 wB1 = Inr wB3 \<and>
     w_log wB3 = [SendPacket p'] \<and> bank_of wB3 = no_atoms \<and>
     ics20_onRecvPacket example_transfer 1 p' wA1 = Inr (newAcknowledgement True, wA3) \<and>
     bk_balances (bank_of wA3) ''atom'' 7 = 30"
proof -
  let ?A = "example_world \<lparr>ccd_PortId = ''q'', ccd_ChannelId = ''d''\<rparr> atoms"
    and ?B = "example_world \<lparr>ccd_PortId = ''p'', ccd_ChannelId = ''c''\<rparr> no_atoms"
  let ?T = example_transfer
  obtain wA1 where A: "sendTransfer ?T (example_henv 5) ''atom'' 30 6 ''p'' ''c'' 0 ?A = Inr wA1"
    using atoms_sent by blast
  obtain p where p: "w_log wA1 = [SendPacket p]" using sendTransfer_Inr [OF A] by auto
  have pre: "denom_prefix ''p'' ''c'' = ''p/c/''" "denom_prefix ''q'' ''d'' = ''q/d/''" by (simp_all add: denom_prefix_def)
  have nat: "\<not> has_prefix (te_keccak ?T) (denom_prefix ''p'' ''c'') ''atom''" by (simp add: has_prefix_text pre)
  let ?m = "mint_to 6 ''q/d/atom'' 30 no_atoms"
  have "p = transfer_packet (w_host ?A) (transfer_data ''atom'' 30 5 6) ''p'' ''c'' 0"
    using sent_packet [OF A] p by simp
  then have B1: "ics20_onRecvPacket ?T 1 p ?B = Inr (newAcknowledgement True, with_bank ?m ?B)"
    using recv_mints [of "''atom''" ?T "''p''" "''c''" "w_host ?A" "''q''" "''d''" ?B 1 30 5 6 0] nat
    by (simp add: pre)
  have "bank_burn (at_bank ?T) 6 ''q/d/atom'' (ucast (30 :: 64 word)) ?m = Inr no_atoms"
    by (simp add: result_simps mint_to_def) (simp add: set_balance_def no_atoms_def fun_eq_iff)
  then obtain wB3 where B3: "sendTransfer ?T (example_henv 6) ''q/d/atom'' 30 7 ''q'' ''d'' 0 (with_bank ?m ?B) = Inr wB3"
    using example_send [of "''q''" "''d''" "''q/d/atom''" 6 30 ?m no_atoms] unfolding with_bank_example
    by (auto simp: has_prefix_text pre)
  obtain p' where p': "w_log wB3 = [SendPacket p']" using sendTransfer_Inr [OF B3] by (auto simp: with_bank_example)
  have s: "total_supply ''q/d/atom'' no_atoms = 0" by (simp add: no_atoms_def total_supply_def)
  note v = voucher_returns [OF A _ nat refl, of p "''q''" "''d''" "with_bank ?m ?B" ?B 1 _ "with_bank ?m ?B" "example_henv 6" 7 0
      wB3 p' wA1 1]
  have "bank_of wB3 = no_atoms \<and> (\<exists>wA3. ics20_onRecvPacket ?T 1 p' wA1 = Inr (newAcknowledgement True, wA3) \<and>
      bank_transferFrom (at_bank ?T) 5 7 ''atom'' 30 atoms = Inr (bank_of wA3))"
    using v B1 B3 p p' by (simp add: pre with_bank_example supply_atoms s)
  then obtain wA3 where "bank_of wB3 = no_atoms" "ics20_onRecvPacket ?T 1 p' wA1 = Inr (newAcknowledgement True, wA3)"
    and t: "bank_transferFrom (at_bank ?T) 5 7 ''atom'' 30 atoms = Inr (bank_of wA3)" by blast
  moreover from t have "bk_balances (bank_of wA3) ''atom'' 7 = 30"
    by (simp add: result_simps Let_def atoms_def)
  ultimately show ?thesis unfolding Let_def using A p B1 B3 p' by blast
qed

end
