(* ===== verification/ICS20_Solvency.thy ===== *)
theory ICS20_Solvency
  imports ICS20_Properties
begin

text \<open>
  The application as a state machine, with its bank and the ERC-20 tokens the bank holds, and
  its central invariant: what the accounts of the bank hold in deposited tokens is covered by
  the tokens that the bank owns.

  What is assumed of the libraries is stated by \<open>roles_ok\<close> (\<^verbatim>\<open>AccessControl\<close>), \<open>erc20_ok\<close> (a token
  whose transfers move what they say and do not touch the bank) and \<open>slashes_apart\<close> (the hash does
  not confuse a part of a printed address with a text that contains a slash).
\<close>

subsection \<open>Assumptions on the libraries\<close>





subsection \<open>Steps\<close>

definition as_user :: "address \<Rightarrow> ('r, 't) transfer_env \<Rightarrow> ('r, 't) bank_env" where
  "as_user a T = (te_bank T)\<lparr>msg_sender := a\<rparr>"


subsection \<open>The invariant\<close>



text \<open>What creates no claim on a deposit.\<close>

definition no_claim :: "('r, 't) bank \<Rightarrow> ('r, 't) bank \<Rightarrow> bool" where
  "no_claim b b' \<longleftrightarrow> (\<forall>t. total_supply (genDenom t) b' \<le> total_supply (genDenom t) b) \<and>
     bk_tokens b' = bk_tokens b \<and> bk_roles b' = bk_roles b"

lemma no_claim_refl [simp]: "no_claim b b"
  by (simp add: no_claim_def)


lemma user_simps [simp]:
  "hasRole (as_user a T) r u b = hasRole (te_bank T) r u b" "OPERATOR_ROLE (as_user a T) = OPERATOR_ROLE (te_bank T)"
  "ADMIN_ROLE (as_user a T) = ADMIN_ROLE (te_bank T)" "msg_sender (as_user a T) = a"
  "be_self (as_user a T) = be_self (te_bank T)" "be_tokens (as_user a T) = be_tokens (te_bank T)"
  "be_roles (as_user a T) = be_roles (te_bank T)" "at_bank T = as_user (te_self T) T"
  by (simp_all add: as_user_def hasRole_def OPERATOR_ROLE_def ADMIN_ROLE_def at_bank_def)





subsection \<open>The application's calls\<close>









subsection \<open>Property\<close>







text \<open>
  C26: the packet callbacks do not check who calls them. Whoever calls \<^verbatim>\<open>onRecvPacket\<close> with a packet
  of his own making, which no chain ever sent, is credited any amount of any voucher, as long as
  the application is the bank's operator.
\<close>

theorem onRecvPacket_forged:
  fixes amount :: "64 word"
  assumes "hasRole (at_bank T) (OPERATOR_ROLE (at_bank T)) (te_self T) (bank_of w)" and "length denom < 2 ^ 64"
    and "\<not> has_prefix (te_keccak T) (denom_prefix port channel) denom"
  shows "\<exists>pkt w'. pd_SourcePort pkt = port \<and> pd_SourceChannel pkt = channel \<and>
    ics20_onRecvPacket T attacker pkt w = Inr (newAcknowledgement True, w') \<and>
    bk_balances (bank_of w') (denom_prefix port' channel' @ denom) attacker =
      bk_balances (bank_of w) (denom_prefix port' channel' @ denom) attacker + ucast amount \<and>
    w_host w' = w_host w"
proof -
  let ?h = "(w_host w)\<lparr>channels := \<lambda>p c. (channels (w_host w) p c)\<lparr>chd_Counterparty :=
    \<lparr>ccd_PortId = port', ccd_ChannelId = channel'\<rparr>\<rparr>\<rparr>"
  let ?p = "transfer_packet ?h (transfer_data denom amount attacker attacker) port channel 0"
  have "chd_Counterparty (channels ?h port channel) = \<lparr>ccd_PortId = port', ccd_ChannelId = channel'\<rparr>" by simp
  from recv_mints [OF assms(2,3) this assms(1), of attacker amount attacker attacker 0] show ?thesis
    by (intro exI [of _ ?p] exI conjI) (assumption | simp add: transfer_packet_def Let_def mint_to_def)+
qed

lemma example_operator: "hasRole (te_bank example_transfer) r a s \<longleftrightarrow> a = 9"
  by (simp add: hasRole_def example_transfer_def one_operator_def)

lemma onRecvPacket_forged_witness:
  "\<exists>pkt w'. pd_SourcePort pkt = ''p'' \<and> pd_SourceChannel pkt = ''c'' \<and>
     ics20_onRecvPacket example_transfer 666 pkt (example_world \<lparr>ccd_PortId = ''q'', ccd_ChannelId = ''d''\<rparr> no_atoms) = Inr (newAcknowledgement True, w') \<and>
     bk_balances (bank_of w') (denom_prefix ''q'' ''d'' @ ''atom'') 666 = 1000 \<and> w_host w' = example_host \<lparr>ccd_PortId = ''q'', ccd_ChannelId = ''d''\<rparr>"
  using onRecvPacket_forged [of example_transfer "example_world \<lparr>ccd_PortId = ''q'', ccd_ChannelId = ''d''\<rparr> no_atoms" "''atom''" "''p''" "''c''" 666 "''q''" "''d''" 1000]
  by (simp add: has_prefix_text denom_prefix_def no_atoms_def example_operator)

end
