(* ===== verification/Handler_Properties.thy ===== *)
theory Handler_Properties
  imports ICS20_Properties IBC_Properties
begin

text \<open>
  Properties of the handler with the token transfer application as its module: the handler
  implements the packet ledger, and over any history every packet is delivered at most once
  and acknowledged at most once, the acknowledged ones being those that were sent.
\<close>

subsection \<open>A history of the handler\<close>

text \<open>
  The history of \<open>IBC_Run\<close> as calls of the handler, by the account 2 that deployed it: port \<open>p\<close> is
  bound to the application at address 9, which then owns the channel; it sends a packet, receives
  one, and the first is acknowledged.
\<close>

definition run_caps :: "bool \<Rightarrow> byte list \<Rightarrow> address list" where
  "run_caps chan = (let c = (\<lambda>_. [])(str_bytes ''p'' := [9]) in
     if chan then c(channelCapabilityPath ''p'' (chan_id 0) := [9]) else c)"

abbreviation with_caps :: "bool \<Rightarrow> host \<Rightarrow> host" where
  "with_caps chan h \<equiv> h\<lparr>capabilities := run_caps chan\<rparr>"

definition run_world :: "host \<Rightarrow> handler_event list \<Rightarrow> (unit, unit) ics20 \<Rightarrow> (unit, unit) ics20_world" where
  "run_world h log app = \<lparr>w_host = h, w_owner = 2, w_log = log, w_app = app\<rparr>"

definition run_app :: "(unit, unit) ics20" where
  "run_app = \<lparr>tr_escrow = \<lambda>c. 0, tr_bank = no_atoms\<rparr>"

definition run_app' :: "(unit, unit) ics20" where
  "run_app' = run_app\<lparr>tr_escrow := (tr_escrow run_app)(chan_id 0 := 9)\<rparr>"

abbreviation run_henv :: "(unit, unit) ics20 henv" where
  "run_henv \<equiv> example_henv 2"

lemma run_henv_simps [simp]:
  "at_host (example_henv a) = run_env" "he_self (example_henv a) = 1"
  "module_at (example_henv a) 9 = Inr (ics20_module example_transfer)"
  "runs (\<lambda>b. b) 1 (ics20_modules example_transfer) (example_henv a)"
  by (simp_all add: at_host_def example_henv_def run_env_def module_at_def ics20_modules_def runs_def)

lemma run_world_simps [simp]:
  "w_host (run_world h log app) = h" "w_log (run_world h log app) = log" "w_app (run_world h log app) = app"
  "(run_world h log app)\<lparr>w_host := h'\<rparr> = run_world h' log app"
  "emit e (run_world h log app) = run_world h (log @ [e]) app"
  "set_escrow example_transfer c (run_world h log app) =
     run_world h log (app\<lparr>tr_escrow := (tr_escrow app)(c := 9)\<rparr>)"
  by (simp_all add: run_world_def emit_def set_escrow_def)

abbreviation run_reached :: "nat \<Rightarrow> (unit, unit) ics20_world \<Rightarrow> bool" where
  "run_reached \<equiv> handler_reach (\<lambda>b. b) 1 (ics20_modules example_transfer)"

abbreviation run_step :: "(unit, unit) ics20_world \<Rightarrow> (unit, unit) ics20_world \<Rightarrow> bool" where
  "run_step \<equiv> handler_step (\<lambda>b. b) 1 (ics20_modules example_transfer)"

lemma run_path_neq: "str_bytes ''p'' \<noteq> channelCapabilityPath ''p'' (chan_id 0)"
  by (simp add: channelCapabilityPath_def)

lemma handler_setup:
  "run_reached 5 (run_world run4 [] run_app)"
proof -
  obtain mi ma where mi: "connectionOpenInit run_env mi run2 = Inr (conn_id 0, run3)"
    and ma: "connectionOpenAck run_env ma run3 = Inr run4" using run_conn_init run_conn_ack by blast
  have 0: "run_reached 0 (run_world (host_constructor run_env) [] run_app)"
    using handler_init [of "\<lambda>b. b" 1 "ics20_modules example_transfer" run_henv run_env run_app]
    by (simp add: handler_constructor_def run_world_def)
  have "run_step (run_world (host_constructor run_env) [] run_app) (run_world run0 [] run_app)"
    by (rule h_module [of run_env _ 1]) (simp_all add: on_host_def setIBCModule_def run0_def host_constructor_def run_env_def result_simps)
  note 1 = handler_next [OF 0 this]
  have "run_step (run_world run0 [] run_app) (run_world run1 [] run_app)"
    by (rule h_register [of _ _ _ run_henv "''t''" 9])
      (simp_all add: Handler_registerClient_def on_host_def registerClient_def run_world_def run1_def run0_def
        host_constructor_def run_env_def result_simps require_def)
  note 2 = handler_next [OF 1 this]
  have "run_step (run_world run1 [] run_app) (run_world run2 [] run_app)"
    by (rule h_create [of _ _ _ run_henv run_client]) (simp_all add: Handler_createClient_def on_host_def run_create)
  note 3 = handler_next [OF 2 this]
  have "run_step (run_world run2 [] run_app) (run_world run3 [] run_app)"
    by (rule h_conn_init [of _ _ _ run_henv mi _ "conn_id 0"]) (simp_all add: Handler_connectionOpenInit_def on_host_id_def mi)
  note 4 = handler_next [OF 3 this]
  have "run_step (run_world run3 [] run_app) (run_world run4 [] run_app)"
    by (rule h_conn_ack [of _ _ _ run_henv ma]) (simp_all add: Handler_connectionOpenAck_def on_host_def ma)
  from handler_next [OF 4 this] show ?thesis by (simp add: eval_nat_numeral)
qed

text \<open>The channel.\<close>

lemma run_caps_simps:
  "capabilities run4 = (\<lambda>b. [])" "ibcModule run4 = 1" "ibcModule (run5 ord) = 1" "msg_sender run_env = 1"
  "run_caps False (str_bytes ''p'') = [9]" "run_caps False (channelCapabilityPath ''p'' (chan_id 0)) = []"
  "(run_caps False)(channelCapabilityPath ''p'' (chan_id 0) := [9]) = run_caps True"
  "run_caps True (str_bytes ''p'') = [9]" "run_caps True (channelCapabilityPath ''p'' (chan_id 0)) = [9]"
  using run_path_neq
  by (auto simp: run_caps_def put_conn_def put_chan_def run0_def run1_def run2_def run3_def run4_def run5_def host_constructor_def
      run_env_def)

lemma run_caps_init: "channelOpenInit run_env \<lparr>mhi_portId = ''p'', mhi_channel = run_chan 1 1 []\<rparr> (with_caps False run4) =
    Inr (chan_id 0, with_caps False (run5 1))"
  by (simp add: channelOpenInit_def run_simps new_channel_def channel_connection_def getConnection_def getVersions_def)

lemma run_caps_ack:
  "channelOpenAck run_env \<lparr>mha_portId = ''p'', mha_channelId = chan_id 0, mha_counterpartyVersion = ''v'',
     mha_counterpartyChannelId = ''d'', mha_proofTry = [], mha_proofHeight = 5\<rparr> (with_caps True (run5 1)) =
     Inr (with_caps True (run6 1))"
  by (simp add: channelOpenAck_def run_simps channel_connection_def getConnection_def getVersions_def
      getCounterpartyHops_def getChannel_def verifyChannelState_def)

lemma handler_channel: "run_reached 8 (run_world (with_caps True (run6 1)) [] run_app')"
proof -
  have "Handler_bindPort run_henv ''p'' 9 (run_world run4 [] run_app) = Inr (run_world (with_caps False run4) [] run_app)"
    by (simp add: Handler_bindPort_def onlyOwner_def on_host_def claimCapability_def portCapabilityPath_def run_caps_simps
        run_env_def require_def onlyIBCModule_def) (simp add: run_world_def run_caps_def)
  then have "run_step (run_world run4 [] run_app) (run_world (with_caps False run4) [] run_app)"
    by (intro h_bind [of _ _ _ run_henv]) simp_all
  note 6 = handler_next [OF handler_setup this]
  have "Handler_channelOpenInit run_henv \<lparr>mhi_portId = ''p'', mhi_channel = run_chan 1 1 []\<rparr>
      (run_world (with_caps False run4) [] run_app) = Inr (chan_id 0, run_world (with_caps True (run5 1)) [] run_app')"
    by (simp add: Handler_channelOpenInit_def on_host_id_def run_caps_init lookupModuleByPortId_def getModuleOwner_def
        portCapabilityPath_def run_caps_simps ics20_module_def ics20_onChanOpenInit_def on_host_def claimCapability_def
        onlyIBCModule_def require_def run_app'_def)
  then have "run_step (run_world (with_caps False run4) [] run_app) (run_world (with_caps True (run5 1)) [] run_app')"
    by (intro h_chan_init [of _ _ _ run_henv]) simp_all
  note 7 = handler_next [OF 6 this]
  have "Handler_channelOpenAck run_henv \<lparr>mha_portId = ''p'', mha_channelId = chan_id 0, mha_counterpartyVersion = ''v'',
     mha_counterpartyChannelId = ''d'', mha_proofTry = [], mha_proofHeight = 5\<rparr> (run_world (with_caps True (run5 1)) [] run_app') =
     Inr (run_world (with_caps True (run6 1)) [] run_app')"
    by (simp add: Handler_channelOpenAck_def on_host_def run_caps_ack lookupModuleByPortId_def getModuleOwner_def
        portCapabilityPath_def run_caps_simps ics20_module_def ics20_onChanOpenAck_def require_def)
  then have "run_step (run_world (with_caps True (run5 1)) [] run_app') (run_world (with_caps True (run6 1)) [] run_app')"
    by (intro h_chan_ack [of _ _ _ run_henv]) simp_all
  from handler_next [OF 7 this] show ?thesis by (simp add: eval_nat_numeral)
qed

text \<open>The packets: one goes out, one comes in, the first is acknowledged.\<close>

definition run_data :: FungibleTokenPacketData where
  "run_data = transfer_data ''atom'' 30 5 6"

definition run_incoming :: MsgPacketRecv where
  "run_incoming = \<lparr>mpr_packet = transfer_packet (example_host \<lparr>ccd_PortId = ''p'', ccd_ChannelId = chan_id 0\<rparr>) run_data ''q'' ''d'' 0,
     mpr_proof = [], mpr_proofHeight = 5\<rparr>"

definition run_ackmsg :: MsgPacketAcknowledgement where
  "run_ackmsg = \<lparr>mpa_packet = run_packet, mpa_acknowledgement = [1], mpa_proof = [], mpa_proofHeight = 5\<rparr>"

lemma run_caps_fields:
  "ibcModule (run_sent 1) = 1" "channels (run_sent 1) ''p'' (chan_id 0) = run_chan 1 3 ''d''"
  "connections (run_sent 1) (conn_id 0) = run_conn 3 ''c''" "clientRegistry (run_sent 1) ''t'' = 9"
  "clientTypes (run_sent 1) (client_id ''t'' 0) = ''t''" "packetReceipts (run_sent 1) = (\<lambda>_ _ _. False)"
  by (simp_all add: run_sent_def run6_fields)

lemma run_caps_send: "sendPacket run_env run_packet (with_caps True (run6 1)) = Inr (with_caps True (run_sent 1))"
  by (simp add: sendPacket_def run6_simps run_sent_def getNextSequenceSend_def exI [of _ True])

lemma handler_send: "Handler_sendPacket (example_henv 9) run_packet (run_world (with_caps True (run6 1)) [] run_app') =
    Inr (run_world (with_caps True (run_sent 1)) [SendPacket run_packet] run_app')"
  by (simp add: Handler_sendPacket_def owns_channel_def authenticateCapability_def on_host_def run_caps_send
      run_caps_simps onlyIBCModule_def require_def run6_fields)
    (simp add: run_packet_def run_caps_simps caller_def example_henv_def)

lemma handler_sent: "run_reached 9 (run_world (with_caps True (run_sent 1)) [SendPacket run_packet] run_app')"
proof -
  have "run_step (run_world (with_caps True (run6 1)) [] run_app')
      (run_world (with_caps True (run_sent 1)) [SendPacket run_packet] run_app')"
    using handler_send by (intro h_send [of _ _ _ "example_henv 9"]) simp_all
  from handler_next [OF handler_channel this] show ?thesis by (simp add: eval_nat_numeral)
qed

definition run_acked :: host where
  "run_acked = set_commitment (\<lambda>b. b) (Packet_path ''p'' (chan_id 0) 1) zero32 (with_caps True (run_sent 1))"

lemma run_caps_acknowledge: "acknowledgePacket run_env run_ackmsg (with_caps True (run_sent 1)) = Inr run_acked"
proof -
  have "\<exists>h. acknowledgePacket run_env run_ackmsg (with_caps True (run_sent 1)) = Inr h"
    using run_commitment
    by (simp add: acknowledgePacket_def run6_simps run_sent_def run_ackmsg_def getPacketCommitment_def
        verifyPacketAcknowledgement_def)
  then obtain h where h: "acknowledgePacket run_env run_ackmsg (with_caps True (run_sent 1)) = Inr h" by blast
  from acknowledgePacket_Inr(5) [OF h] have "h = run_acked"
    by (auto simp: run_ackmsg_def run_packet_def run_env_def run_caps_fields run_chan_def run_acked_def)
  with h show ?thesis by simp
qed

definition run_final :: host where
  "run_final = (let h = run_acked\<lparr>packetReceipts := (\<lambda>_ _ _. False)(''p'' := (\<lambda>_ _. False)(chan_id 0 := (\<lambda>_. False)(1 := True)))\<rparr>
     in set_commitment (\<lambda>b. b) (Ack_path ''p'' (chan_id 0) 1) (sha256 [1]) h)"

definition run_minted :: "(unit, unit) ics20" where
  "run_minted = run_app'\<lparr>tr_bank := mint_to 6 (denom_prefix ''p'' (chan_id 0) @ ''atom'') 30 no_atoms\<rparr>"

lemma run_caps_recv:
  "\<exists>h. recvPacket run_env run_incoming run_acked = Inr h \<and>
     writeAcknowledgement run_env ''p'' (chan_id 0) 1 [1] h = Inr run_final"
proof -
  let ?h = "run_acked\<lparr>packetReceipts := (\<lambda>_ _ _. False)(''p'' := (\<lambda>_ _. False)(chan_id 0 := (\<lambda>_. False)(1 := True)))\<rparr>"
  have "recvPacket run_env run_incoming run_acked = Inr ?h"
    by (simp add: recvPacket_def run_acked_def run_caps_fields run_incoming_def transfer_packet_def example_host_def
        hasPacketReceipt_def verifyPacketCommitment_def run6_simps)
  moreover have "commitments run_acked (pkey (\<lambda>b. b) (Ack_path ''p'' (chan_id 0) 1)) = zero32"
    by (simp add: run_acked_def run_sent_def run6_def run5_def run4_def run3_def run2_def run1_def
        run0_def put_conn_def put_chan_def host_constructor_def pkey_eq [OF keys_distinct_run] chan_id_no_slash)
  ultimately show ?thesis
    by (simp add: writeAcknowledgement_Inr run_final_def Let_def run_acked_def run_caps_fields
        run_chan_def run_env_def)
qed

lemma run_msg_simps:
  "mpa_packet run_ackmsg = run_packet" "mpa_acknowledgement run_ackmsg = [1]"
  "pd_SourcePort run_packet = ''p''" "pd_SourceChannel run_packet = chan_id 0"
  by (simp_all add: run_ackmsg_def run_packet_def)

lemma handler_run: "run_reached 11 (run_world run_final
    [SendPacket run_packet, AcknowledgePacket run_packet [1], WriteAcknowledgement ''p'' (chan_id 0) 1 [1],
     RecvPacket (mpr_packet run_incoming)] run_minted)"
proof -
  let ?log = "[SendPacket run_packet, AcknowledgePacket run_packet [1]]"
  have "Handler_acknowledgePacket run_henv run_ackmsg (run_world (with_caps True (run_sent 1)) [SendPacket run_packet] run_app') =
      Inr (run_world run_acked ?log run_app')"
    using run_caps_acknowledge
    by (simp add: Handler_acknowledgePacket_def lookupModuleByChannel_def getModuleOwner_def run_caps_simps
        ics20_module_def ics20_onAcknowledgementPacket_def isSuccessAcknowledgement_def on_host_def require_def Let_def run_msg_simps)
  then have "run_step (run_world (with_caps True (run_sent 1)) [SendPacket run_packet] run_app') (run_world run_acked ?log run_app')"
    by (intro h_ack [of _ _ _ run_henv]) simp_all
  note 10 = handler_next [OF handler_sent this]
  let ?p = "mpr_packet run_incoming"
  have p: "pd_DestinationPort ?p = ''p''" "pd_DestinationChannel ?p = chan_id 0" "pd_Sequence ?p = 1"
    by (simp_all add: run_incoming_def transfer_packet_def example_host_def)
  have cb: "ics20_onRecvPacket example_transfer 1 ?p (run_world run_acked ?log run_app') =
      Inr ([1], run_world run_acked ?log run_minted)"
    using recv_mints [of "''atom''" example_transfer "''q''" "''d''" "example_host \<lparr>ccd_PortId = ''p'', ccd_ChannelId = chan_id 0\<rparr>"
      "''p''" "chan_id 0" "run_world run_acked ?log run_app'" 1 30 5 6 0]
    by (simp add: run_incoming_def run_data_def has_prefix_text denom_prefix_def newAcknowledgement_def)
      (simp add: run_minted_def run_app'_def run_app_def with_bank_def bank_of_def run_world_def denom_prefix_def)
  obtain h where h: "recvPacket run_env run_incoming run_acked = Inr h"
      "writeAcknowledgement run_env ''p'' (chan_id 0) 1 [1] h = Inr run_final" using run_caps_recv by blast
  have "capabilities run_acked = run_caps True" by (simp add: run_acked_def)
  then have "Handler_recvPacket run_henv run_incoming (run_world run_acked ?log run_app') =
      Inr ([1], run_world run_final (?log @ [WriteAcknowledgement ''p'' (chan_id 0) 1 [1], RecvPacket ?p]) run_minted)"
    by (simp add: Handler_recvPacket_def lookupModuleByChannel_def getModuleOwner_def p run_caps_simps ics20_module_def
        cb on_host_def require_def Let_def h del: writeAcknowledgement_Inr)
  then have "run_step (run_world run_acked ?log run_app')
      (run_world run_final (?log @ [WriteAcknowledgement ''p'' (chan_id 0) 1 [1], RecvPacket ?p]) run_minted)"
    by (intro h_recv [of _ _ _ run_henv]) simp_all
  from handler_next [OF 10 this] show ?thesis by (simp add: eval_nat_numeral)
qed

subsection \<open>Properties\<close>

text \<open>
  C11: the handler implements the packet ledger. Every call of an external function of
  \<^verbatim>\<open>IBCHandler\<close> by anyone, callbacks of the module and emitted events included, is at most two steps
  of the abstract ledger of sent, received and acknowledged packets (two when a new channel is
  claimed by its module or a received packet is acknowledged at once).
\<close>

theorem handler_refines_ledger:
  assumes "handler_step K self (ics20_modules T) w w'" and "keys_distinct K" and "chan_inv (w_host w)"
  shows "\<exists>k \<le> 2. (ledger_step K ^^ k) (ledger_of w) (ledger_of w')"
  using ics20_app.refines [OF assms] by (simp add: upto_steps_def)

lemma handler_refines_ledger_witness:
  "\<exists>k \<le> 2. (ledger_step (\<lambda>b. b) ^^ k) (ledger_of (run_world run4 [] run_app))
     (ledger_of (run_world (with_caps False run4) [] run_app))"
proof -
  have "Handler_bindPort run_henv ''p'' 9 (run_world run4 [] run_app) = Inr (run_world (with_caps False run4) [] run_app)"
    by (simp add: Handler_bindPort_def onlyOwner_def on_host_def claimCapability_def portCapabilityPath_def run_caps_simps
        run_env_def require_def onlyIBCModule_def) (simp add: run_world_def run_caps_def)
  then have "run_step (run_world run4 [] run_app) (run_world (with_caps False run4) [] run_app)"
    by (intro h_bind [of _ _ _ run_henv]) simp_all
  moreover have "chan_inv (w_host (run_world run4 [] run_app))"
    using reach_inv [OF run_reach(3)] by simp
  ultimately show ?thesis by (rule handler_refines_ledger [OF _ keys_distinct_run])
qed

text \<open>
  C12: packets are delivered and acknowledged at most once. In every world that \<open>n\<close> calls of the
  handler, in any order and by anyone, lead to, no two \<^verbatim>\<open>RecvPacket\<close> events have the same destination
  and sequence, no two \<^verbatim>\<open>SendPacket\<close> events and no two \<^verbatim>\<open>AcknowledgePacket\<close> events the same source and
  sequence, and a received packet stays marked as received.
\<close>

theorem packets_at_most_once:
  assumes "handler_reach K self (ics20_modules T) n w" and "keys_distinct K" and "2 * n < 2 ^ 64"
  shows "distinct (map dst_key (received_packets (w_log w))) \<and> distinct (map src_key (sent_packets (w_log w))) \<and>
    distinct (map src_key (acked_packets (w_log w))) \<and>
    (\<forall>pkt \<in> set (received_packets (w_log w)). was_received (w_host w) pkt)"
  using ics20_app.reach_ledger_inv [OF assms]
  by (simp add: received_inv_def sent_inv_def acked_inv_def ledger_of_def)

lemma packets_at_most_once_witness:
  "was_received run_final (mpr_packet run_incoming)"
  using packets_at_most_once [OF handler_run keys_distinct_run] by (simp add: log_defs)

text \<open>
  C13: only what was sent is acknowledged. In every reachable world each acknowledged packet has
  the source, destination and sequence of one that was sent, both have the same commitment, and
  the commitment is gone; and a packet commitment still stored is that of a packet that was sent.
\<close>

theorem acknowledged_was_sent:
  assumes "handler_reach K self (ics20_modules T) n w" and "keys_distinct K" and "2 * n < 2 ^ 64"
  shows "(\<forall>pkt \<in> set (acked_packets (w_log w)).
      packet_commitment K (w_host w) (src_key pkt) = zero32 \<and>
      (\<exists>q \<in> set (sent_packets (w_log w)). src_key q = src_key pkt \<and> dst_key q = dst_key pkt \<and>
        makePacketCommitment q = makePacketCommitment pkt)) \<and>
    (\<forall>p c m. CHR ''/'' \<notin> set c \<longrightarrow> packet_commitment K (w_host w) (p, c, m) \<noteq> zero32 \<longrightarrow>
      (\<exists>q \<in> set (sent_packets (w_log w)). src_key q = (p, c, m) \<and>
        packet_commitment K (w_host w) (p, c, m) = makePacketCommitment q))"
  using ics20_app.reach_ledger_inv [OF assms]
  by (fastforce simp: sent_inv_def acked_inv_def ledger_of_def)

lemma acknowledged_was_sent_witness:
  "packet_commitment (\<lambda>b. b) run_final (''p'', chan_id 0, 1) = zero32"
  using acknowledged_was_sent [OF handler_run keys_distinct_run]
  by (auto simp: log_defs src_key_def run_packet_def)

end
