(* ===== verification/Packet_Search.thy ===== *)
theory Packet_Search
  imports Relayer Handler_Properties
begin

text \<open>
  How the relayer finds a packet: \<^verbatim>\<open>FindPacket\<close> and \<^verbatim>\<open>GetLastSentPacket\<close> of
  \<^verbatim>\<open>pkg/testing/chains.go\<close> search the \<^verbatim>\<open>SendPacket\<close> events of the handler. The node returns the events
  of the topic in the order in which they were emitted, and unpacking one gives the packet it was
  emitted with (the contract's own encoding).
\<close>

definition callDataToPacket :: "PacketData \<Rightarrow> Packet" where
  "callDataToPacket p =
     \<lparr>pkt_Sequence = pd_Sequence p, pkt_SourcePort = pd_SourcePort p, pkt_SourceChannel = pd_SourceChannel p,
      pkt_DestinationPort = pd_DestinationPort p, pkt_DestinationChannel = pd_DestinationChannel p,
      pkt_Data = pd_Data p,
      pkt_TimeoutHeight = \<lparr>ht_RevisionNumber = hd_RevisionNumber (pd_TimeoutHeight p),
        ht_RevisionHeight = hd_RevisionHeight (pd_TimeoutHeight p)\<rparr>,
      pkt_TimeoutTimestamp = pd_TimeoutTimestamp p\<rparr>"

fun search_logs :: "PacketData list \<Rightarrow> string \<Rightarrow> string \<Rightarrow> 64 word \<Rightarrow> string + Packet" where
  "search_logs [] sourcePortID sourceChannel sequence =
     Inl (''packet not found: sourcePortID='' @ sourcePortID @ '' sourceChannel='' @ sourceChannel @
       '' sequence='' @ dec (unat sequence))"
| "search_logs (p # logs) sourcePortID sourceChannel sequence =
     (if pd_SourcePort p = sourcePortID \<and> pd_SourceChannel p = sourceChannel \<and> pd_Sequence p = sequence
      then Inr (callDataToPacket p) else search_logs logs sourcePortID sourceChannel sequence)"

definition FindPacket :: "'a world \<Rightarrow> string \<Rightarrow> string \<Rightarrow> 64 word \<Rightarrow> string + Packet" where
  "FindPacket w sourcePortID sourceChannel sequence =
     search_logs (sent_packets (w_log w)) sourcePortID sourceChannel sequence"

definition GetLastSentPacket :: "'a world \<Rightarrow> string \<Rightarrow> string \<Rightarrow> string + Packet" where
  "GetLastSentPacket w sourcePortID sourceChannel =
     FindPacket w sourcePortID sourceChannel (getNextSequenceSend sourcePortID sourceChannel (w_host w) - 1)"

lemma callData_inverse [simp]: "packetToCallData (callDataToPacket p) = p" "callDataToPacket (packetToCallData q) = q"
  by (simp_all add: packetToCallData_def callDataToPacket_def)

text \<open>The search returns the first match; with distinct keys, it is the only one.\<close>

lemma search_logs_found:
  "distinct (map src_key ps) \<Longrightarrow> p \<in> set ps \<Longrightarrow>
   search_logs ps (pd_SourcePort p) (pd_SourceChannel p) (pd_Sequence p) = Inr (callDataToPacket p)"
proof (induction ps)
  case (Cons q ps)
  show ?case
  proof (cases "src_key q = src_key p")
    case True
    with Cons.prems have "q = p" by auto
    then show ?thesis by simp
  next
    case False
    with Cons show ?thesis by (auto simp: src_key_def)
  qed
qed simp

lemma search_logs_Inr:
  "search_logs ps port ch n = Inr q \<Longrightarrow> packetToCallData q \<in> set ps \<and> src_key (packetToCallData q) = (port, ch, n)"
  by (induction ps) (auto simp: src_key_def split: if_splits)

text \<open>
  C14: the relayer finds the packet that was sent last. When a call of \<^verbatim>\<open>IBCHandler.sendPacket\<close>
  succeeds, after whatever happened before, \<^verbatim>\<open>GetLastSentPacket\<close> for its port and channel returns
  exactly that packet, and the commitment that the relayer computes of it, which it offers as the
  proof to a mock client, is the commitment in the host's storage.
\<close>

theorem GetLastSentPacket_sent:
  assumes "handler_reach K self (ics20_modules T) n w" and "keys_distinct K" and "2 * Suc n < 2 ^ 64"
    and "runs K self (ics20_modules T) X" and "Handler_sendPacket X pkt w = Inr w'"
  shows "\<exists>q. GetLastSentPacket w' (pd_SourcePort pkt) (pd_SourceChannel pkt) = Inr q \<and> packetToCallData q = pkt \<and>
    commitPacket q = packet_commitment K (w_host w') (src_key pkt)"
proof -
  have "handler_step K self (ics20_modules T) w w'" using assms(4,5) by (rule h_send)
  from ics20_app.reach_ledger_inv [OF handler_next [OF assms(1) this] assms(2,3)]
  have d: "distinct (map src_key (sent_packets (w_log w')))" by (simp add: sent_inv_def ledger_of_def)
  from assms(5) obtain h where h: "sendPacket (at_host X) pkt (w_host w) = Inr h"
    and w': "w_host w' = h" "w_log w' = w_log w @ [SendPacket pkt]"
    by (auto simp: Handler_sendPacket_def bindr_eq_Inr on_host_def emit_def)
  note e = sendPacket_Inr [OF h]
  have "keccak256 (at_host X) = K" using assms(4) by (simp add: runs_def at_host_def)
  then have c: "packet_commitment K h (src_key pkt) = makePacketCommitment pkt"
    unfolding e(7) using e(6) by (simp add: src_key_def)
  have "pkt \<in> set (sent_packets (w_log w'))" by (simp add: w' log_defs)
  from search_logs_found [OF d this] have "GetLastSentPacket w' (pd_SourcePort pkt) (pd_SourceChannel pkt) = Inr (callDataToPacket pkt)"
    using e(6) by (simp add: GetLastSentPacket_def FindPacket_def getNextSequenceSend_def w' e(7))
  then show ?thesis using c by (simp add: commitPacket_call w')
qed

lemma GetLastSentPacket_sent_witness:
  "\<exists>q. GetLastSentPacket (run_world (with_caps True (run_sent 1)) [SendPacket run_packet] run_app') ''p'' (chan_id 0) = Inr q \<and>
     packetToCallData q = run_packet"
proof -
  have "2 * Suc 8 < (2 :: nat) ^ 64" and "runs (\<lambda>b. b) 1 (ics20_modules example_transfer) (example_henv 9)" by simp_all
  from GetLastSentPacket_sent [OF handler_channel keys_distinct_run this handler_send] show ?thesis by (simp add: run_packet_def) blast
qed

end
