(* ===== verification/Coordinator.thy ===== *)
theory Coordinator
  imports Relayer
begin

text \<open>
  \<^verbatim>\<open>pkg/testing/coordinator.go\<close>: the relayer over two chains. After every message on one chain the
  coordinator waits for a new header of that chain and updates the other chain's client with it.

  The chains are passed and returned: \<open>source\<close> first, \<open>counterparty\<close> second. Connections are
  shared by reference in Go and are indices here (\<open>AddTestConnection\<close>), so that a connection
  identifier written through one is seen by the chain. Channels are values and copied. On an
  error the test ends, and what had been changed by then is not returned.
\<close>

definition Coord_CreateClient :: "chain \<Rightarrow> chain \<Rightarrow> string \<Rightarrow> string + string \<times> chain" where
  "Coord_CreateClient source counterparty clientType =
     (if clientType = BesuIBFT2Client then CreateIBFT2Client source counterparty
      else if clientType = MockClient then CreateMockClient source counterparty
      else Inl (''client type '' @ clientType @ '' is not supported''))"

definition Coord_UpdateClient :: "chain \<Rightarrow> chain \<Rightarrow> string \<Rightarrow> string + chain" where
  "Coord_UpdateClient source counterparty clientID =
     (if ch_ClientType counterparty = BesuIBFT2Client then UpdateIBFT2Client source counterparty clientID
      else if ch_ClientType counterparty = MockClient then UpdateMockClient source counterparty clientID
      else Inl (''client type '' @ ch_ClientType counterparty @ '' is not supported''))"

definition SetupClients :: "chain \<Rightarrow> chain \<Rightarrow> string \<Rightarrow> string + string \<times> string \<times> chain \<times> chain" where
  "SetupClients chainA chainB clientType =
     bindr (Coord_CreateClient chainA chainB clientType) (\<lambda>(clientA, chainA).
     bindr (Coord_CreateClient chainB chainA clientType) (\<lambda>(clientB, chainB).
     Inr (clientA, clientB, chainA, chainB)))"

fun UpdateHeaders :: "chain list \<Rightarrow> string + chain list" where
  "UpdateHeaders [] = Inr []"
| "UpdateHeaders (c # cs) = bindr (UpdateHeader c) (\<lambda>c. bindr (UpdateHeaders cs) (\<lambda>cs. Inr (c # cs)))"

text \<open>How every message of the coordinator ends.\<close>

definition announce :: "chain \<Rightarrow> chain \<Rightarrow> string \<Rightarrow> string + chain \<times> chain" where
  "announce source counterparty clientID =
     bindr (UpdateHeader source) (\<lambda>source.
     bindr (Coord_UpdateClient counterparty source clientID) (\<lambda>counterparty.
     Inr (source, counterparty)))"

definition set_conn_id :: "chain \<Rightarrow> nat \<Rightarrow> string \<Rightarrow> chain" where
  "set_conn_id chain c connID =
     chain\<lparr>ch_Connections := (ch_Connections chain)[c := (ch_Connections chain ! c)\<lparr>tc_ID := connID\<rparr>]\<rparr>"

subsection \<open>Connections\<close>

definition ConnOpenInit :: "chain \<Rightarrow> chain \<Rightarrow> string \<Rightarrow> string \<Rightarrow> string + nat \<times> nat \<times> chain \<times> chain" where
  "ConnOpenInit source counterparty clientID counterpartyClientID =
     (let (sourceConnection, source) = AddTestConnection source clientID counterpartyClientID;
          (counterpartyConnection, counterparty) = AddTestConnection counterparty counterpartyClientID clientID
      in bindr (Chain_ConnectionOpenInit source (ch_Connections source ! sourceConnection)) (\<lambda>(connID, source).
         bindr (announce (set_conn_id source sourceConnection connID) counterparty counterpartyClientID)
           (\<lambda>(source, counterparty).
         Inr (sourceConnection, counterpartyConnection, source, counterparty))))"

definition ConnOpenTry :: "chain \<Rightarrow> chain \<Rightarrow> nat \<Rightarrow> nat \<Rightarrow> string + chain \<times> chain" where
  "ConnOpenTry source counterparty sourceConnection counterpartyConnection =
     bindr (Chain_ConnectionOpenTry source counterparty (ch_Connections source ! sourceConnection)
       (ch_Connections counterparty ! counterpartyConnection)) (\<lambda>(connID, source).
     announce (set_conn_id source sourceConnection connID) counterparty
       (tc_ClientID (ch_Connections counterparty ! counterpartyConnection)))"

definition ConnOpenAck :: "chain \<Rightarrow> chain \<Rightarrow> nat \<Rightarrow> nat \<Rightarrow> string + chain \<times> chain" where
  "ConnOpenAck source counterparty sourceConnection counterpartyConnection =
     bindr (Chain_ConnectionOpenAck source counterparty (ch_Connections source ! sourceConnection)
       (ch_Connections counterparty ! counterpartyConnection)) (\<lambda>source.
     announce source counterparty (tc_ClientID (ch_Connections counterparty ! counterpartyConnection)))"

definition ConnOpenConfirm :: "chain \<Rightarrow> chain \<Rightarrow> nat \<Rightarrow> nat \<Rightarrow> string + chain \<times> chain" where
  "ConnOpenConfirm source counterparty sourceConnection counterpartyConnection =
     bindr (Chain_ConnectionOpenConfirm source counterparty (ch_Connections source ! sourceConnection)
       (ch_Connections counterparty ! counterpartyConnection)) (\<lambda>source.
     announce source counterparty (tc_ClientID (ch_Connections counterparty ! counterpartyConnection)))"

definition CreateConnection :: "chain \<Rightarrow> chain \<Rightarrow> string \<Rightarrow> string \<Rightarrow> string + nat \<times> nat \<times> chain \<times> chain" where
  "CreateConnection chainA chainB clientA clientB =
     bindr (ConnOpenInit chainA chainB clientA clientB) (\<lambda>(connA, connB, chainA, chainB).
     bindr (ConnOpenTry chainB chainA connB connA) (\<lambda>(chainB, chainA).
     bindr (ConnOpenAck chainA chainB connA connB) (\<lambda>(chainA, chainB).
     bindr (ConnOpenConfirm chainB chainA connB connA) (\<lambda>(chainB, chainA).
     Inr (connA, connB, chainA, chainB)))))"

definition SetupClientConnections ::
  "chain \<Rightarrow> chain \<Rightarrow> string \<Rightarrow> string + string \<times> string \<times> nat \<times> nat \<times> chain \<times> chain"
where
  "SetupClientConnections chainA chainB clientType =
     bindr (SetupClients chainA chainB clientType) (\<lambda>(clientA, clientB, chainA, chainB).
     bindr (CreateConnection chainA chainB clientA clientB) (\<lambda>(connA, connB, chainA, chainB).
     Inr (clientA, clientB, connA, connB, chainA, chainB)))"

subsection \<open>Channels\<close>

text \<open>\<^verbatim>\<open>AddTestChannel\<close> through a reference.\<close>

definition add_channel :: "chain \<Rightarrow> nat \<Rightarrow> string \<Rightarrow> TestChannel \<times> chain" where
  "add_channel chain c portID =
     (let (conn, channel) = AddTestChannel (ch_Connections chain ! c) portID
      in (channel, chain\<lparr>ch_Connections := (ch_Connections chain)[c := conn]\<rparr>))"

definition ChanOpenInit ::
  "chain \<Rightarrow> chain \<Rightarrow> nat \<Rightarrow> nat \<Rightarrow> string \<Rightarrow> string \<Rightarrow> 8 word \<Rightarrow>
   string + TestChannel \<times> TestChannel \<times> chain \<times> chain"
where
  "ChanOpenInit source counterparty connection counterpartyConnection sourcePortID counterpartyPortID order =
     (let (sourceChannel, source) = add_channel source connection sourcePortID;
          (counterpartyChannel, counterparty) = add_channel counterparty counterpartyConnection counterpartyPortID
      in bindr (Chain_ChannelOpenInit source sourceChannel counterpartyChannel order
           (tc_ID (ch_Connections source ! connection))) (\<lambda>(channelID, source).
         bindr (announce source counterparty (tc_ClientID (ch_Connections counterparty ! counterpartyConnection)))
           (\<lambda>(source, counterparty).
         Inr (sourceChannel\<lparr>tch_ID := channelID\<rparr>, counterpartyChannel, source, counterparty))))"

definition ChanOpenTry ::
  "chain \<Rightarrow> chain \<Rightarrow> TestChannel \<Rightarrow> TestChannel \<Rightarrow> nat \<Rightarrow> 8 word \<Rightarrow> string + TestChannel \<times> chain \<times> chain"
where
  "ChanOpenTry source counterparty sourceChannel counterpartyChannel connection order =
     bindr (Chain_ChannelOpenTry source counterparty sourceChannel counterpartyChannel order
       (tc_ID (ch_Connections source ! connection))) (\<lambda>(channelID, source).
     bindr (announce source counterparty (tc_CounterpartyClientID (ch_Connections source ! connection)))
       (\<lambda>(source, counterparty).
     Inr (sourceChannel\<lparr>tch_ID := channelID\<rparr>, source, counterparty)))"

definition ChanOpenAck :: "chain \<Rightarrow> chain \<Rightarrow> TestChannel \<Rightarrow> TestChannel \<Rightarrow> string + chain \<times> chain" where
  "ChanOpenAck source counterparty sourceChannel counterpartyChannel =
     bindr (Chain_ChannelOpenAck source counterparty sourceChannel counterpartyChannel) (\<lambda>source.
     announce source counterparty (tch_CounterpartyClientID sourceChannel))"

definition ChanOpenConfirm :: "chain \<Rightarrow> chain \<Rightarrow> TestChannel \<Rightarrow> TestChannel \<Rightarrow> string + chain \<times> chain" where
  "ChanOpenConfirm source counterparty sourceChannel counterpartyChannel =
     bindr (Chain_ChannelOpenConfirm source counterparty sourceChannel counterpartyChannel) (\<lambda>source.
     announce source counterparty (tch_CounterpartyClientID sourceChannel))"

definition CreateChannel ::
  "chain \<Rightarrow> chain \<Rightarrow> nat \<Rightarrow> nat \<Rightarrow> string \<Rightarrow> string \<Rightarrow> 8 word \<Rightarrow>
   string + TestChannel \<times> TestChannel \<times> chain \<times> chain"
where
  "CreateChannel chainA chainB connA connB sourcePortID counterpartyPortID order =
     bindr (ChanOpenInit chainA chainB connA connB sourcePortID counterpartyPortID order)
       (\<lambda>(channelA, channelB, chainA, chainB).
     bindr (ChanOpenTry chainB chainA channelB channelA connB order) (\<lambda>(channelB, chainB, chainA).
     bindr (ChanOpenAck chainA chainB channelA channelB) (\<lambda>(chainA, chainB).
     bindr (ChanOpenConfirm chainB chainA channelB channelA) (\<lambda>(chainB, chainA).
     Inr (channelA, channelB, chainA, chainB)))))"

subsection \<open>Packets\<close>

definition Coord_SendPacket :: "chain \<Rightarrow> chain \<Rightarrow> Packet \<Rightarrow> string \<Rightarrow> string + chain \<times> chain" where
  "Coord_SendPacket source counterparty packet counterpartyClientID =
     bindr (Chain_SendPacket source packet) (\<lambda>source. announce source counterparty counterpartyClientID)"

definition Coord_HandlePacketRecv ::
  "chain \<Rightarrow> chain \<Rightarrow> TestChannel \<Rightarrow> TestChannel \<Rightarrow> Packet \<Rightarrow> string + chain \<times> chain"
where
  "Coord_HandlePacketRecv source counterparty sourceChannel counterpartyChannel packet =
     bindr (Chain_HandlePacketRecv source counterparty sourceChannel counterpartyChannel packet) (\<lambda>source.
     announce source counterparty (tch_ClientID counterpartyChannel))"

definition Coord_HandlePacketAcknowledgement ::
  "chain \<Rightarrow> chain \<Rightarrow> TestChannel \<Rightarrow> TestChannel \<Rightarrow> Packet \<Rightarrow> byte list \<Rightarrow> string + chain \<times> chain"
where
  "Coord_HandlePacketAcknowledgement source counterparty sourceChannel counterpartyChannel packet acknowledgement =
     bindr (Chain_HandlePacketAcknowledgement source counterparty sourceChannel counterpartyChannel packet
       acknowledgement) (\<lambda>source.
     announce source counterparty (tch_ClientID counterpartyChannel))"

end
