(* ===== verification/Coordinator_Properties.thy ===== *)
theory Coordinator_Properties
  imports Coordinator Relay_Properties
begin

text \<open>
  The coordinator from end to end. Between two chains that have nothing of each other yet it
  creates the clients, a connection and a channel, with all the updates in between; a pair of
  chains that follow each other keeps doing so.
\<close>

section \<open>Nodes that make progress\<close>












section \<open>Clients that follow\<close>















section \<open>Connections\<close>








lemma set_conn_id_host [simp]: "ch_host (set_conn_id A a j) = ch_host A"
  by (simp add: set_conn_id_def)








section \<open>Channels\<close>



















section \<open>From nothing to an open channel\<close>














end
