(* ===== verification/Sol_IBFT2.thy ===== *)
theory Sol_IBFT2
  imports Sol_Decode IBFT2_PB
begin

text \<open>
  \<^verbatim>\<open>contracts/core/types/IBFT2.sol\<close>: the protobuf libraries of the IBFT 2.0 client. The structs have
  the fields of the Go messages, so the records are those of \<open>IBFT2_PB\<close>.

  A message with a repeated field is decoded in two passes. The first fills the other fields and
  counts the elements, then the array is allocated, and the second stores the elements, each at the
  index that the counter gives, and reads the other fields into the nil struct, that is, drops them.
  The locale \<open>sol_repeated\<close> shows that this is one pass that appends.
\<close>

subsection \<open>Two passes\<close>

definition sol_first_pass :: "'r sol_reader \<Rightarrow> ('r \<times> nat) sol_reader" where
  "sol_first_pass rd p bs s = bindr (rd p bs (fst s)) (\<lambda>(r, sz). Inr ((r, snd s), sz))"

definition sol_count_bytes :: "('r \<times> nat) sol_reader" where
  "sol_count_bytes p bs s = bindr (sol_decode_lendelim p bs) (\<lambda>(x, sz). Inr ((fst s, snd s + 1), sz))"

definition sol_second_pass :: "'r sol_reader \<Rightarrow> ('r \<times> nat) sol_reader" where
  "sol_second_pass rd p bs s = bindr (rd p bs (fst s)) (\<lambda>(r, sz). Inr (s, sz))"

definition sol_store_bytes ::
  "('r \<Rightarrow> byte list list) \<Rightarrow> (byte list list \<Rightarrow> 'r \<Rightarrow> 'r) \<Rightarrow> ('r \<times> nat) sol_reader"
where
  "sol_store_bytes get upd p bs s =
     bindr (sol_decode_lendelim p bs) (\<lambda>(x, sz).
       let (r, counter) = s; n = length (get r)
       in if 0 < counter \<and> counter \<le> n then Inr ((upd ((get r)[n - counter := x]) r, counter - 1), sz)
          else Inl Invalid)"

definition sol_decode_repeated ::
  "(nat \<Rightarrow> 'r sol_reader option) \<Rightarrow> nat \<Rightarrow> ('r \<Rightarrow> byte list list) \<Rightarrow> (byte list list \<Rightarrow> 'r \<Rightarrow> 'r) \<Rightarrow> 'r \<Rightarrow>
   byte list \<Rightarrow> sol_error + 'r"
where
  "sol_decode_repeated table rep get upd zero bs =
     bindr (sol_decode (\<lambda>f. if f = rep then Some sol_count_bytes else map_option sol_first_pass (table f)) (zero, 0) bs)
       (\<lambda>(r, counter).
     bindr (sol_decode (\<lambda>f. if f = rep then Some (sol_store_bytes get upd) else map_option sol_second_pass (table f))
         (upd (replicate counter []) r, counter) bs)
       (\<lambda>(r, _). Inr r))"

subsection \<open>The libraries\<close>

definition bcs_sol_fields :: "nat \<Rightarrow> IBFT2_ClientState sol_reader option" where
  "bcs_sol_fields fieldId =
     (if fieldId = 1 then Some (sol_read_string (\<lambda>x r. r\<lparr>bcs_ChainId := x\<rparr>))
      else if fieldId = 2 then Some (sol_read_bytes (\<lambda>x r. r\<lparr>bcs_IbcStoreAddress := x\<rparr>))
      else if fieldId = 3 then Some (sol_read_uint64 (\<lambda>x r. r\<lparr>bcs_LatestHeight := x\<rparr>))
      else None)"

definition bcs_sol_decode :: "byte list \<Rightarrow> sol_error + IBFT2_ClientState" where
  "bcs_sol_decode bs = sol_decode bcs_sol_fields IBFT2_ClientState_new bs"

definition bcs_sol_encode :: "IBFT2_ClientState \<Rightarrow> byte list" where
  "bcs_sol_encode r =
     (if length (bcs_ChainId r) \<noteq> 0 then sol_encode_key 1 2 @ sol_encode_string (bcs_ChainId r) else []) @
     (if length (bcs_IbcStoreAddress r) \<noteq> 0
      then sol_encode_key 2 2 @ sol_encode_bytes (bcs_IbcStoreAddress r) else []) @
     (if bcs_LatestHeight r \<noteq> 0 then sol_encode_key 3 0 @ sol_encode_uint64 (bcs_LatestHeight r) else [])"

definition bcons_sol_fields :: "nat \<Rightarrow> IBFT2_ConsensusState sol_reader option" where
  "bcons_sol_fields fieldId =
     (if fieldId = 1 then Some (sol_read_uint64 (\<lambda>x r. r\<lparr>bcons_Timestamp := x\<rparr>))
      else if fieldId = 2 then Some (sol_read_bytes (\<lambda>x r. r\<lparr>bcons_Root := x\<rparr>))
      else None)"

definition bcons_sol_decode :: "byte list \<Rightarrow> sol_error + IBFT2_ConsensusState" where
  "bcons_sol_decode bs =
     sol_decode_repeated bcons_sol_fields 3 bcons_Validators (\<lambda>xs r. r\<lparr>bcons_Validators := xs\<rparr>)
       IBFT2_ConsensusState_new bs"

definition bcons_sol_encode :: "IBFT2_ConsensusState \<Rightarrow> byte list" where
  "bcons_sol_encode r =
     (if bcons_Timestamp r \<noteq> 0 then sol_encode_key 1 0 @ sol_encode_uint64 (bcons_Timestamp r) else []) @
     (if length (bcons_Root r) \<noteq> 0 then sol_encode_key 2 2 @ sol_encode_bytes (bcons_Root r) else []) @
     (if length (bcons_Validators r) \<noteq> 0
      then concat (map (\<lambda>v. sol_encode_key 3 2 @ sol_encode_bytes v) (bcons_Validators r)) else [])"

definition bhdr_sol_fields :: "nat \<Rightarrow> IBFT2_Header sol_reader option" where
  "bhdr_sol_fields fieldId =
     (if fieldId = 1 then Some (sol_read_bytes (\<lambda>x r. r\<lparr>bhdr_BesuHeaderRlp := x\<rparr>))
      else if fieldId = 3 then Some (sol_read_uint64 (\<lambda>x r. r\<lparr>bhdr_TrustedHeight := x\<rparr>))
      else if fieldId = 4 then Some (sol_read_bytes (\<lambda>x r. r\<lparr>bhdr_AccountStateProof := x\<rparr>))
      else None)"

definition bhdr_sol_decode :: "byte list \<Rightarrow> sol_error + IBFT2_Header" where
  "bhdr_sol_decode bs =
     sol_decode_repeated bhdr_sol_fields 2 bhdr_Seals (\<lambda>xs r. r\<lparr>bhdr_Seals := xs\<rparr>) IBFT2_Header_new bs"

definition bhdr_sol_encode :: "IBFT2_Header \<Rightarrow> byte list" where
  "bhdr_sol_encode r =
     (if length (bhdr_BesuHeaderRlp r) \<noteq> 0 then sol_encode_key 1 2 @ sol_encode_bytes (bhdr_BesuHeaderRlp r) else []) @
     (if length (bhdr_Seals r) \<noteq> 0
      then concat (map (\<lambda>v. sol_encode_key 2 2 @ sol_encode_bytes v) (bhdr_Seals r)) else []) @
     (if bhdr_TrustedHeight r \<noteq> 0 then sol_encode_key 3 0 @ sol_encode_uint64 (bhdr_TrustedHeight r) else []) @
     (if length (bhdr_AccountStateProof r) \<noteq> 0
      then sol_encode_key 4 2 @ sol_encode_bytes (bhdr_AccountStateProof r) else [])"

text \<open>The encoders write into a buffer of these sizes without checking its bounds.\<close>

definition bcs_estimate :: "IBFT2_ClientState \<Rightarrow> nat" where
  "bcs_estimate r =
     1 + sol_sz_lendelim (length (bcs_ChainId r)) + (1 + sol_sz_lendelim (length (bcs_IbcStoreAddress r))) +
     (1 + sol_sz_varint (unat (bcs_LatestHeight r)))"

definition bcons_estimate :: "IBFT2_ConsensusState \<Rightarrow> nat" where
  "bcons_estimate r =
     1 + sol_sz_varint (unat (bcons_Timestamp r)) + (1 + sol_sz_lendelim (length (bcons_Root r))) +
     (\<Sum>v\<leftarrow>bcons_Validators r. 1 + sol_sz_lendelim (length v))"

definition bhdr_estimate :: "IBFT2_Header \<Rightarrow> nat" where
  "bhdr_estimate r =
     1 + sol_sz_lendelim (length (bhdr_BesuHeaderRlp r)) + (\<Sum>v\<leftarrow>bhdr_Seals r. 1 + sol_sz_lendelim (length v)) +
     (1 + sol_sz_varint (unat (bhdr_TrustedHeight r))) + (1 + sol_sz_lendelim (length (bhdr_AccountStateProof r)))"

subsection \<open>Two passes are one\<close>

lemma sol_decode_loop_end: "\<not> p < length bs \<Longrightarrow> sol_decode_loop table bs p r = Inr r"
  by (simp add: sol_decode_loop.simps [of table bs p])

lemma sol_decode_loop_bad_key: "p < length bs \<Longrightarrow> sol_decode_key p bs = Inl e \<Longrightarrow> sol_decode_loop table bs p r = Inl e"
  by (simp add: sol_decode_loop.simps [of table bs p])

lemma sol_decode_loop_step:
  assumes "p < length bs" and "sol_decode_key p bs = Inr (f, wt, n)"
    and "(case table f of Some rd \<Rightarrow> rd | None \<Rightarrow> sol_skip_unknown wt) (p + n) bs r = res"
  shows "sol_decode_loop table bs p r =
    (case res of Inl e \<Rightarrow> Inl e | Inr (r', sz) \<Rightarrow> sol_decode_loop table bs (p + n + sz) r')"
  using assms by (simp add: sol_decode_loop.simps [of table bs p])

lemma sol_skip_unknown_state:
  "sol_skip_unknown wt p bs r = bindr (sol_skip_unknown wt p bs ()) (\<lambda>(_, sz). Inr (r, sz))"
  by (simp add: sol_skip_unknown_def bindr_assoc split: bindr_split)

lemma sol_skip_unknown_cases:
  "sol_skip_unknown wt p bs () = Inl e \<Longrightarrow> sol_skip_unknown wt p bs r = Inl e"
  "sol_skip_unknown wt p bs () = Inr y \<Longrightarrow> sol_skip_unknown wt p bs r = Inr (r, snd y)"
  by (subst sol_skip_unknown_state, simp add: case_prod_unfold)+

text \<open>
  \<open>dec f\<close> is what reading the field \<open>f\<close> gives: a change of the struct and a size. The changes leave
  the repeated field alone.
\<close>

locale sol_repeated =
  fixes table :: "nat \<Rightarrow> 'r sol_reader option" and rep :: nat
    and get :: "'r \<Rightarrow> byte list list" and upd :: "byte list list \<Rightarrow> 'r \<Rightarrow> 'r"
    and dec :: "nat \<Rightarrow> nat \<Rightarrow> byte list \<Rightarrow> sol_error + ('r \<Rightarrow> 'r) \<times> nat"
  assumes reads: "table f = Some rd \<Longrightarrow> rd p bs r = bindr (dec f p bs) (\<lambda>(u, sz). Inr (u r, sz))"
    and dec_upd: "table f = Some rd \<Longrightarrow> dec f p bs = Inr (u, sz) \<Longrightarrow> u (upd xs r) = upd xs (u r)"
    and dec_get: "table f = Some rd \<Longrightarrow> dec f p bs = Inr (u, sz) \<Longrightarrow> get (u r) = get r"
    and get_upd: "get (upd xs r) = xs" and upd_upd: "upd xs (upd ys r) = upd xs r"
    and upd_get: "upd (get r) r = r"
begin

definition one_pass :: "nat \<Rightarrow> 'r sol_reader option" where
  "one_pass f = (if f = rep then Some (sol_read_bytes (\<lambda>x r. upd (get r @ [x]) r)) else table f)"

definition counting :: "nat \<Rightarrow> ('r \<times> nat) sol_reader option" where
  "counting f = (if f = rep then Some sol_count_bytes else map_option sol_first_pass (table f))"

definition storing :: "nat \<Rightarrow> ('r \<times> nat) sol_reader option" where
  "storing f = (if f = rep then Some (sol_store_bytes get upd) else map_option sol_second_pass (table f))"

lemma steps:
  assumes "p < length bs" and "sol_decode_key p bs = Inr (f, wt, n)"
  shows "(\<exists>e. (\<forall>r. sol_decode_loop one_pass bs p r = Inl e) \<and> (\<forall>s. sol_decode_loop counting bs p s = Inl e)) \<or>
    (\<exists>x q. p < q \<and>
      (\<forall>r. sol_decode_loop one_pass bs p r = sol_decode_loop one_pass bs q (upd (get r @ [x]) r)) \<and>
      (\<forall>s c. sol_decode_loop counting bs p (s, c) = sol_decode_loop counting bs q (s, Suc c)) \<and>
      (\<forall>s c. 0 < c \<longrightarrow> c \<le> length (get s) \<longrightarrow> sol_decode_loop storing bs p (s, c) =
        sol_decode_loop storing bs q (upd ((get s)[length (get s) - c := x]) s, c - 1))) \<or>
    (\<exists>u q. p < q \<and> (\<forall>r xs. u (upd xs r) = upd xs (u r)) \<and> (\<forall>r. get (u r) = get r) \<and>
      (\<forall>r. sol_decode_loop one_pass bs p r = sol_decode_loop one_pass bs q (u r)) \<and>
      (\<forall>s c. sol_decode_loop counting bs p (s, c) = sol_decode_loop counting bs q (u s, c)) \<and>
      (\<forall>s. sol_decode_loop storing bs p s = sol_decode_loop storing bs q s))"
proof -
  note step = sol_decode_loop_step [OF assms refl]
  have n: "0 < n" by (rule sol_decode_key_progress [OF assms(2)])
  consider "f = rep" | rd where "f \<noteq> rep" "table f = Some rd" | "f \<noteq> rep" "table f = None" by fastforce
  then show ?thesis
  proof cases
    case 1
    then have t: "one_pass f = Some (sol_read_bytes (\<lambda>x r. upd (get r @ [x]) r))"
      "counting f = Some sol_count_bytes" "storing f = Some (sol_store_bytes get upd)"
      by (simp_all add: one_pass_def counting_def storing_def)
    show ?thesis
    proof (cases "sol_decode_lendelim (p + n) bs")
      case (Inl e)
      then show ?thesis by (simp add: step t sol_read_bytes_def sol_count_bytes_def)
    next
      case (Inr y)
      then obtain x sz where "sol_decode_lendelim (p + n) bs = Inr (x, sz)" by (cases y) simp
      then show ?thesis using n
        by (intro disjI2 disjI1 exI [of _ x] exI [of _ "p + n + sz"])
          (simp add: step t sol_read_bytes_def sol_count_bytes_def sol_store_bytes_def Let_def)
    qed
  next
    case (2 rd)
    then have t: "one_pass f = Some rd" "counting f = Some (sol_first_pass rd)" "storing f = Some (sol_second_pass rd)"
      by (simp_all add: one_pass_def counting_def storing_def)
    note rd = reads [OF 2(2)]
    show ?thesis
    proof (cases "dec f (p + n) bs")
      case (Inl e)
      then show ?thesis by (simp add: step t rd sol_first_pass_def)
    next
      case (Inr y)
      then obtain u sz where d: "dec f (p + n) bs = Inr (u, sz)" by (cases y) simp
      then show ?thesis using n dec_upd [OF 2(2) d] dec_get [OF 2(2) d]
        by (intro disjI2 exI [of _ u] exI [of _ "p + n + sz"])
          (simp add: step t rd sol_first_pass_def sol_second_pass_def)
    qed
  next
    case 3
    then have t: "one_pass f = None" "counting f = None" "storing f = None"
      by (simp_all add: one_pass_def counting_def storing_def)
    show ?thesis
    proof (cases "sol_skip_unknown wt (p + n) bs ()")
      case (Inl e)
      show ?thesis by (simp add: step t sol_skip_unknown_cases(1) [OF Inl])
    next
      case (Inr y)
      show ?thesis using n
        by (intro disjI2 exI [of _ "\<lambda>r. r"] exI [of _ "p + n + snd y"])
          (simp add: step t sol_skip_unknown_cases(2) [OF Inr])
    qed
  qed
qed

lemma counting_loop:
  "case sol_decode_loop one_pass bs p r of
     Inl e \<Rightarrow> sol_decode_loop counting bs p (upd [] r, c) = Inl e
   | Inr r' \<Rightarrow> \<exists>ys. get r' = get r @ ys \<and>
       sol_decode_loop counting bs p (upd [] r, c) = Inr (upd [] r', c + length ys) \<and>
       (\<forall>s. get s = get r @ replicate (length ys) [] \<longrightarrow>
         sol_decode_loop storing bs p (s, length ys) = Inr (upd (get r') s, 0))"
proof (induction "length bs - p" arbitrary: p r c rule: less_induct)
  case less
  show ?case
  proof (cases "p < length bs")
    case False
    then show ?thesis by (simp add: sol_decode_loop_end) (metis upd_get)
  next
    case True
    show ?thesis
    proof (cases "sol_decode_key p bs")
      case (Inl e)
      then show ?thesis by (simp add: sol_decode_loop_bad_key [OF True])
    next
      case (Inr y)
      then obtain f wt n where k: "sol_decode_key p bs = Inr (f, wt, n)" by (cases y) auto
      from steps [OF True k] consider
        (fails) e where "\<forall>r. sol_decode_loop one_pass bs p r = Inl e" "\<forall>s. sol_decode_loop counting bs p s = Inl e"
      | (element) x q where "p < q"
          "\<forall>r. sol_decode_loop one_pass bs p r = sol_decode_loop one_pass bs q (upd (get r @ [x]) r)"
          "\<forall>s c. sol_decode_loop counting bs p (s, c) = sol_decode_loop counting bs q (s, Suc c)"
          "\<forall>s c. 0 < c \<longrightarrow> c \<le> length (get s) \<longrightarrow> sol_decode_loop storing bs p (s, c) =
            sol_decode_loop storing bs q (upd ((get s)[length (get s) - c := x]) s, c - 1)"
      | (other) u q where "p < q" "\<forall>r xs. u (upd xs r) = upd xs (u r)" "\<forall>r. get (u r) = get r"
          "\<forall>r. sol_decode_loop one_pass bs p r = sol_decode_loop one_pass bs q (u r)"
          "\<forall>s c. sol_decode_loop counting bs p (s, c) = sol_decode_loop counting bs q (u s, c)"
          "\<forall>s. sol_decode_loop storing bs p s = sol_decode_loop storing bs q s"
        by blast
      then show ?thesis
      proof cases
        case fails
        then show ?thesis by simp
      next
        case element
        have m: "length bs - q < length bs - p" using element(1) True by linarith
        note IH = less.hyps [OF m, of "upd (get r @ [x]) r" "Suc c"]
        show ?thesis
        proof (cases "sol_decode_loop one_pass bs q (upd (get r @ [x]) r)")
          case (Inl e)
          with IH show ?thesis by (simp add: element(2,3) upd_upd)
        next
          case (Inr r')
          with IH obtain ys where ys: "get r' = get r @ x # ys"
            "sol_decode_loop counting bs q (upd [] r, Suc c) = Inr (upd [] r', Suc c + length ys)"
            "\<forall>s. get s = get r @ x # replicate (length ys) [] \<longrightarrow>
              sol_decode_loop storing bs q (s, length ys) = Inr (upd (get r') s, 0)"
            by (auto simp: get_upd upd_upd)
          have "sol_decode_loop storing bs p (s, length (x # ys)) = Inr (upd (get r') s, 0)"
            if "get s = get r @ replicate (length (x # ys)) []" for s
            using that ys(3) element(4) by (simp add: get_upd upd_upd list_update_append)
          with ys Inr show ?thesis by (auto simp: element(2,3) intro!: exI [of _ "x # ys"])
        qed
      next
        case other
        have m: "length bs - q < length bs - p" using other(1) True by linarith
        note IH = less.hyps [OF m, of "u r" c]
        show ?thesis using IH other(2-6) by (cases "sol_decode_loop one_pass bs q (u r)") simp_all
      qed
    qed
  qed
qed

theorem two_passes_one:
  assumes "get zero = []"
  shows "sol_decode_repeated table rep get upd zero bs = sol_decode one_pass zero bs"
proof -
  have z: "upd [] zero = zero" using upd_get [of zero] assms by simp
  note c = counting_loop [of bs 0 zero 0, unfolded z assms]
  show ?thesis
  proof (cases "sol_decode_loop one_pass bs 0 zero")
    case (Inl e)
    with c show ?thesis
      by (simp add: sol_decode_repeated_def sol_decode_def counting_def [abs_def, symmetric])
  next
    case (Inr r)
    with c have "sol_decode_loop counting bs 0 (zero, 0) = Inr (upd [] r, length (get r))"
      and s: "\<forall>s. get s = replicate (length (get r)) [] \<longrightarrow>
         sol_decode_loop storing bs 0 (s, length (get r)) = Inr (upd (get r) s, 0)" by auto
    moreover from s have "sol_decode_loop storing bs 0 (upd (replicate (length (get r)) []) (upd [] r), length (get r)) =
        Inr (r, 0)" by (simp add: get_upd upd_upd upd_get)
    ultimately show ?thesis using Inr
      by (simp add: sol_decode_repeated_def sol_decode_def counting_def [abs_def, symmetric] storing_def [abs_def, symmetric])
  qed
qed

end

definition bcons_dec :: "nat \<Rightarrow> nat \<Rightarrow> byte list \<Rightarrow> sol_error + (IBFT2_ConsensusState \<Rightarrow> IBFT2_ConsensusState) \<times> nat" where
  "bcons_dec f p bs =
     (if f = 1 then bindr (sol_decode_uint64 p bs) (\<lambda>(x, sz). Inr (\<lambda>r. r\<lparr>bcons_Timestamp := x\<rparr>, sz))
      else bindr (sol_decode_lendelim p bs) (\<lambda>(x, sz). Inr (\<lambda>r. r\<lparr>bcons_Root := x\<rparr>, sz)))"

interpretation bcons_rep: sol_repeated bcons_sol_fields 3 bcons_Validators "\<lambda>xs r. r\<lparr>bcons_Validators := xs\<rparr>" bcons_dec
  by unfold_locales
    (auto simp: bcons_sol_fields_def bcons_dec_def sol_read_uint64_def sol_read_bytes_def bindr_assoc result_simps
      split: if_splits bindr_split)

definition bhdr_dec :: "nat \<Rightarrow> nat \<Rightarrow> byte list \<Rightarrow> sol_error + (IBFT2_Header \<Rightarrow> IBFT2_Header) \<times> nat" where
  "bhdr_dec f p bs =
     (if f = 1 then bindr (sol_decode_lendelim p bs) (\<lambda>(x, sz). Inr (\<lambda>r. r\<lparr>bhdr_BesuHeaderRlp := x\<rparr>, sz))
      else if f = 3 then bindr (sol_decode_uint64 p bs) (\<lambda>(x, sz). Inr (\<lambda>r. r\<lparr>bhdr_TrustedHeight := x\<rparr>, sz))
      else bindr (sol_decode_lendelim p bs) (\<lambda>(x, sz). Inr (\<lambda>r. r\<lparr>bhdr_AccountStateProof := x\<rparr>, sz)))"

interpretation bhdr_rep: sol_repeated bhdr_sol_fields 2 bhdr_Seals "\<lambda>xs r. r\<lparr>bhdr_Seals := xs\<rparr>" bhdr_dec
  by unfold_locales
    (auto simp: bhdr_sol_fields_def bhdr_dec_def sol_read_uint64_def sol_read_bytes_def bindr_assoc result_simps
      split: if_splits bindr_split)

subsection \<open>Reading what was written\<close>

lemma sol_parses_each:
  assumes "table f = Some (sol_read_bytes (\<lambda>x r. upd (get r @ [x]) r))" and "sol_tag tag f 2"
    and "\<And>xs r. get (upd xs r) = xs" and "\<And>xs ys r. upd xs (upd ys r) = upd xs r" and "\<And>r. upd (get r) r = r"
    and "list_all (\<lambda>x. length x < 2 ^ 64) xs"
  shows "sol_parses table (enc_each tag xs) r (upd (get r @ xs) r)"
  using assms(6)
proof (induction xs arbitrary: r)
  case Nil
  then show ?case by (simp add: enc_each_def sol_parses_Nil assms(5))
next
  case (Cons x xs)
  have 1: "sol_parses table (enc_bytes1 tag x) r (upd (get r @ [x]) r)"
    by (rule sol_parses_bytes1 [where table = table and fieldId = f and upd = "\<lambda>x r. upd (get r @ [x]) r", OF assms(1,2)]) (use Cons.prems in simp)
  have "sol_parses table (enc_each tag xs) (upd (get r @ [x]) r) (upd (get (upd (get r @ [x]) r) @ xs) (upd (get r @ [x]) r))"
    by (rule Cons.IH) (use Cons.prems in simp)
  from sol_parses_append [OF 1 this] show ?case by (simp add: enc_each_def assms(3,4))
qed

lemma list_all_enc_each: "length (enc_each tag xs) < 2 ^ 64 \<Longrightarrow> list_all (\<lambda>x. length x < 2 ^ 64) xs"
  using length_each [of _ xs tag] by (fastforce simp: list_all_iff)

lemma sol_bytes_each:
  assumes "list_all (\<lambda>x. length x < 2 ^ 64) xs"
  shows "(if length xs \<noteq> 0 then concat (map (\<lambda>v. tag # sol_encode_bytes v) xs) else []) = enc_each tag xs"
  using sol_each [of xs tag sol_encode_bytes "\<lambda>x. x"] assms unfolding append_Cons append_Nil
  by (simp add: sol_bytes1 list_all_iff)

lemma bcs_sol_decode_enc:
  assumes "length (IBFT2_ClientState_enc m) < 2 ^ 64"
  shows "bcs_sol_decode (IBFT2_ClientState_enc m) = Inr m" "bcs_sol_encode m = IBFT2_ClientState_enc m"
proof -
  have l: "length (bcs_ChainId m) < 2 ^ 64" "length (bcs_IbcStoreAddress m) < 2 ^ 64"
    using assms length_fields(1) [of "str_bytes (bcs_ChainId m)" "0xa"] length_fields(1) [of "bcs_IbcStoreAddress m" "0x12"]
    by (simp_all add: IBFT2_ClientState_enc_def)
  have "sol_parses bcs_sol_fields (IBFT2_ClientState_enc m) IBFT2_ClientState_new m"
    unfolding IBFT2_ClientState_enc_def IBFT2_ClientState_new_def
    by (rule sol_parses_eq, (rule sol_parses_append
        sol_parses_string [where fieldId = 1 and upd = "\<lambda>x r. r\<lparr>bcs_ChainId := x\<rparr>"]
        sol_parses_bytes [where fieldId = 2 and upd = "\<lambda>x r. r\<lparr>bcs_IbcStoreAddress := x\<rparr>"]
        sol_parses_uint64 [where fieldId = 3 and upd = "\<lambda>x r. r\<lparr>bcs_LatestHeight := x\<rparr>"]
        | rule l | simp add: bcs_sol_fields_def sol_tag_def)+)
  then show "bcs_sol_decode (IBFT2_ClientState_enc m) = Inr m"
    by (simp add: bcs_sol_decode_def sol_parses_decode)
  show "bcs_sol_encode m = IBFT2_ClientState_enc m"
    using l unfolding bcs_sol_encode_def sol_keys IBFT2_ClientState_enc_def
    by (simp only: append_Cons append_Nil sol_string sol_bytes sol_uint)
qed

lemma bcons_sol_decode_enc:
  assumes "length (IBFT2_ConsensusState_enc m) < 2 ^ 64"
  shows "bcons_sol_decode (IBFT2_ConsensusState_enc m) = Inr m" "bcons_sol_encode m = IBFT2_ConsensusState_enc m"
proof -
  have l: "length (bcons_Root m) < 2 ^ 64" "list_all (\<lambda>x. length x < 2 ^ 64) (bcons_Validators m)"
    using assms length_fields(1) [of "bcons_Root m" "0x12"] list_all_enc_each [of "0x1a" "bcons_Validators m"]
    by (simp_all add: IBFT2_ConsensusState_enc_def)
  have "sol_parses bcons_rep.one_pass (IBFT2_ConsensusState_enc m) IBFT2_ConsensusState_new m"
    unfolding IBFT2_ConsensusState_enc_def IBFT2_ConsensusState_new_def
    by (rule sol_parses_eq, (rule sol_parses_append
        sol_parses_uint64 [where fieldId = 1 and upd = "\<lambda>x r. r\<lparr>bcons_Timestamp := x\<rparr>"]
        sol_parses_bytes [where fieldId = 2 and upd = "\<lambda>x r. r\<lparr>bcons_Root := x\<rparr>"]
        sol_parses_each [where f = 3 and get = bcons_Validators and upd = "\<lambda>xs r. r\<lparr>bcons_Validators := xs\<rparr>"]
        | rule l | simp add: bcons_rep.one_pass_def bcons_sol_fields_def sol_tag_def)+)
  then show "bcons_sol_decode (IBFT2_ConsensusState_enc m) = Inr m"
    by (simp add: bcons_sol_decode_def bcons_rep.two_passes_one IBFT2_ConsensusState_new_def sol_parses_decode)
  show "bcons_sol_encode m = IBFT2_ConsensusState_enc m"
    using l(1) unfolding bcons_sol_encode_def sol_keys IBFT2_ConsensusState_enc_def append_Cons append_Nil
      sol_bytes_each [OF l(2)]
    by (simp only: sol_bytes sol_uint)
qed

lemma bhdr_sol_decode_enc:
  assumes "length (IBFT2_Header_enc m) < 2 ^ 64"
  shows "bhdr_sol_decode (IBFT2_Header_enc m) = Inr m" "bhdr_sol_encode m = IBFT2_Header_enc m"
proof -
  have l: "length (bhdr_BesuHeaderRlp m) < 2 ^ 64" "length (bhdr_AccountStateProof m) < 2 ^ 64"
    "list_all (\<lambda>x. length x < 2 ^ 64) (bhdr_Seals m)"
    using assms length_fields(1) [of "bhdr_BesuHeaderRlp m" "0xa"] length_fields(1) [of "bhdr_AccountStateProof m" "0x22"]
      list_all_enc_each [of "0x12" "bhdr_Seals m"]
    by (simp_all add: IBFT2_Header_enc_def)
  have "sol_parses bhdr_rep.one_pass (IBFT2_Header_enc m) IBFT2_Header_new m"
    unfolding IBFT2_Header_enc_def IBFT2_Header_new_def
    by (rule sol_parses_eq, (rule sol_parses_append
        sol_parses_bytes [where fieldId = 1 and upd = "\<lambda>x r. r\<lparr>bhdr_BesuHeaderRlp := x\<rparr>"]
        sol_parses_each [where f = 2 and get = bhdr_Seals and upd = "\<lambda>xs r. r\<lparr>bhdr_Seals := xs\<rparr>"]
        sol_parses_uint64 [where fieldId = 3 and upd = "\<lambda>x r. r\<lparr>bhdr_TrustedHeight := x\<rparr>"]
        sol_parses_bytes [where fieldId = 4 and upd = "\<lambda>x r. r\<lparr>bhdr_AccountStateProof := x\<rparr>"]
        | rule l | simp add: bhdr_rep.one_pass_def bhdr_sol_fields_def sol_tag_def)+)
  then show "bhdr_sol_decode (IBFT2_Header_enc m) = Inr m"
    by (simp add: bhdr_sol_decode_def bhdr_rep.two_passes_one IBFT2_Header_new_def sol_parses_decode)
  show "bhdr_sol_encode m = IBFT2_Header_enc m"
    using l(1,2) unfolding bhdr_sol_encode_def sol_keys IBFT2_Header_enc_def append_Cons append_Nil
      sol_bytes_each [OF l(3)]
    by (simp only: sol_bytes sol_uint)
qed

subsection \<open>The estimates are large enough\<close>

lemma estimate_bytes_each:
  "length (if length xs \<noteq> 0 then concat (map (\<lambda>v. [tag] @ sol_encode_bytes v) xs) else []) \<le>
   (\<Sum>v\<leftarrow>xs. 1 + sol_sz_lendelim (length v))"
  by (rule estimate_each) (simp add: sol_encode_bytes_def sol_sz_lendelim_def sol_sz_varint_length)

lemma bcs_estimate_enough: "length (bcs_sol_encode r) \<le> bcs_estimate r"
  using estimate_fields(2) [of "bcs_ChainId r" "0xa"] estimate_fields(1) [of "bcs_IbcStoreAddress r" "0x12"]
    estimate_fields(3) [of "bcs_LatestHeight r" "0x18"]
  unfolding bcs_sol_encode_def bcs_estimate_def sol_keys append_Cons append_Nil length_append by linarith

lemma bcons_estimate_enough: "length (bcons_sol_encode r) \<le> bcons_estimate r"
  using estimate_fields(3) [of "bcons_Timestamp r" "0x8"] estimate_fields(1) [of "bcons_Root r" "0x12"]
    estimate_bytes_each [of "bcons_Validators r" "0x1a"]
  unfolding bcons_sol_encode_def bcons_estimate_def sol_keys append_Cons append_Nil length_append by linarith

lemma bhdr_estimate_enough: "length (bhdr_sol_encode r) \<le> bhdr_estimate r"
  using estimate_fields(1) [of "bhdr_BesuHeaderRlp r" "0xa"] estimate_bytes_each [of "bhdr_Seals r" "0x12"]
    estimate_fields(3) [of "bhdr_TrustedHeight r" "0x18"] estimate_fields(1) [of "bhdr_AccountStateProof r" "0x22"]
  unfolding bhdr_sol_encode_def bhdr_estimate_def sol_keys append_Cons append_Nil length_append by linarith

subsection \<open>Property\<close>

text \<open>
  C32: what the relayer writes of the IBFT 2.0 client, the contract reads, and the states the
  contract writes are the bytes \<^verbatim>\<open>Marshal\<close> gives in Go and read back as they were, with any number of
  validators and seals, empty ones included. The encoders never write beyond the buffers they estimate.
\<close>

theorem IBFT2_codecs_agree:
  assumes "IBFT2_ClientState_Size c < 2 ^ 63" and "IBFT2_ConsensusState_Size n < 2 ^ 63"
    and "IBFT2_Header_Size h < 2 ^ 63"
  shows "IBFT2_ClientState_Marshal c = Inr (bcs_sol_encode c) \<and> bcs_sol_decode (bcs_sol_encode c) = Inr c \<and>
    IBFT2_ConsensusState_Marshal n = Inr (bcons_sol_encode n) \<and> bcons_sol_decode (bcons_sol_encode n) = Inr n \<and>
    IBFT2_Header_Marshal h = Inr (bhdr_sol_encode h) \<and> bhdr_sol_decode (bhdr_sol_encode h) = Inr h \<and>
    length (bcs_sol_encode c) \<le> bcs_estimate c \<and> length (bcons_sol_encode n) \<le> bcons_estimate n \<and>
    length (bhdr_sol_encode h) \<le> bhdr_estimate h"
proof -
  have "length (IBFT2_ClientState_enc c) < 2 ^ 64" "length (IBFT2_ConsensusState_enc n) < 2 ^ 64"
    "length (IBFT2_Header_enc h) < 2 ^ 64"
    using assms by (simp_all add: bcs_codec.size_enc bcons_codec.size_enc bhdr_codec.size_enc)
  note e = bcs_sol_decode_enc [OF this(1)] bcons_sol_decode_enc [OF this(2)] bhdr_sol_decode_enc [OF this(3)]
  show ?thesis
    using bcs_estimate_enough [of c] bcons_estimate_enough [of n] bhdr_estimate_enough [of h]
    by (simp add: e assms IBFT2_ClientState_Marshal_enc IBFT2_ConsensusState_Marshal_enc IBFT2_Header_Marshal_enc)
qed

lemma IBFT2_codecs_agree_witness:
  "bcons_sol_decode (bcons_sol_encode \<lparr>bcons_Timestamp = 7, bcons_Root = [1], bcons_Validators = [[2], [], [3, 4]]\<rparr>) =
     Inr \<lparr>bcons_Timestamp = 7, bcons_Root = [1], bcons_Validators = [[2], [], [3, 4]]\<rparr>"
  using IBFT2_codecs_agree [of IBFT2_ClientState_new
      "\<lparr>bcons_Timestamp = 7, bcons_Root = [1], bcons_Validators = [[2], [], [3, 4]]\<rparr>" IBFT2_Header_new]
  by (simp add: IBFT2_ClientState_Size_def IBFT2_ConsensusState_Size_def IBFT2_Header_Size_def
      IBFT2_ClientState_new_def IBFT2_Header_new_def size_eval)

end
