(* ===== verification/Sol_RLP.thy ===== *)
theory Sol_RLP
  imports Sol_Base
begin

text \<open>
  \<^verbatim>\<open>contracts/lib/RLP.sol\<close>: items of RLP-encoded data in memory. An item is a pointer and a length, and
  nothing checks either against the array it points into, so an item carries the memory from the
  start of its array on; what lies behind the array is arbitrary (\<open>rest\<close>). Positions are natural
  numbers: a length prefix has at most eight bytes, so no sum comes near \<open>2 ^ 256\<close>. To allocate
  \<open>2 ^ 32\<close> bytes or items costs more than any block's gas and fails.

  Against the code stands the encoding itself: \<open>rlp\<close> is the datatype of RLP values, \<open>rlp_enc\<close> their
  bytes, and the operations read back what was encoded.
\<close>

record rlp_item =
  ri_mem :: "nat \<Rightarrow> byte"
  ri_ptr :: nat
  ri_len :: nat

definition toRLPItem :: "(nat \<Rightarrow> byte) \<Rightarrow> byte list \<Rightarrow> rlp_item" where
  "toRLPItem rest item =
     \<lparr>ri_mem = \<lambda>i. if i < length item then item ! i else rest i, ri_ptr = 0, ri_len = length item\<rparr>"

definition rlp_isList :: "rlp_item \<Rightarrow> bool" where
  "rlp_isList item \<longleftrightarrow> \<not> unat (ri_mem item (ri_ptr item)) < 0xc0"

definition be_at :: "(nat \<Rightarrow> byte) \<Rightarrow> nat \<Rightarrow> nat \<Rightarrow> nat" where
  "be_at m p n = be_val (map m [p..<p + n])"

definition rlp_itemLength :: "(nat \<Rightarrow> byte) \<Rightarrow> nat \<Rightarrow> nat" where
  "rlp_itemLength m p =
     (let byte0 = unat (m p) in
      if byte0 < 0x80 then 1
      else if byte0 < 0xb8 then byte0 - 0x80 + 1
      else if byte0 < 0xc0 then let byteLen = byte0 - 0xb7 in be_at m (p + 1) byteLen + (byteLen + 1)
      else if byte0 < 0xf8 then byte0 - 0xc0 + 1
      else let byteLen = byte0 - 0xf7 in be_at m (p + 1) byteLen + (byteLen + 1))"

definition rlp_payloadOffset :: "(nat \<Rightarrow> byte) \<Rightarrow> nat \<Rightarrow> nat" where
  "rlp_payloadOffset m p =
     (let byte0 = unat (m p) in
      if byte0 < 0x80 then 0
      else if byte0 < 0xb8 \<or> (0xc0 \<le> byte0 \<and> byte0 < 0xf8) then 1
      else if byte0 < 0xc0 then byte0 - (0xb8 - 1) + 1
      else byte0 - (0xf8 - 1) + 1)"

lemma rlp_itemLength_pos: "0 < rlp_itemLength m p"
  by (simp add: rlp_itemLength_def Let_def)

text \<open>The loop reads at every pointer, so one beyond all memory costs it its gas.\<close>

function rlp_count :: "(nat \<Rightarrow> byte) \<Rightarrow> nat \<Rightarrow> nat \<Rightarrow> sol_error + nat" where
  "rlp_count m currPtr endPtr =
     (if currPtr < endPtr then
        if 2 ^ 32 \<le> currPtr then Inl Out_of_gas
        else bindr (rlp_count m (currPtr + rlp_itemLength m currPtr) endPtr) (\<lambda>count. Inr (Suc count))
      else Inr 0)"
  by pat_completeness auto
termination
  by (relation "measure (\<lambda>(m, currPtr, endPtr). endPtr - currPtr)")
    (simp_all add: rlp_itemLength_pos diff_less_mono2)

declare rlp_count.simps [simp del]

definition rlp_numItems :: "rlp_item \<Rightarrow> sol_error + nat" where
  "rlp_numItems item =
     rlp_count (ri_mem item) (ri_ptr item + rlp_payloadOffset (ri_mem item) (ri_ptr item)) (ri_ptr item + ri_len item)"

primrec rlp_items :: "(nat \<Rightarrow> byte) \<Rightarrow> nat \<Rightarrow> nat \<Rightarrow> rlp_item list" where
  "rlp_items m 0 p = []"
| "rlp_items m (Suc n) p =
     \<lparr>ri_mem = m, ri_ptr = p, ri_len = rlp_itemLength m p\<rparr> # rlp_items m n (p + rlp_itemLength m p)"

definition rlp_toList :: "rlp_item \<Rightarrow> sol_error + rlp_item list" where
  "rlp_toList item =
     bindr (require (rlp_isList item) (Revert ''Cannot convert to list a non-list RLPItem.'')) (\<lambda>_.
     bindr (rlp_numItems item) (\<lambda>items.
     Inr (rlp_items (ri_mem item) items (ri_ptr item + rlp_payloadOffset (ri_mem item) (ri_ptr item)))))"

definition rlp_copy :: "(nat \<Rightarrow> byte) \<Rightarrow> nat \<Rightarrow> nat \<Rightarrow> sol_error + byte list" where
  "rlp_copy m src len = (if 2 ^ 32 \<le> len then Inl Out_of_gas else Inr (map m [src..<src + len]))"

definition rlp_toRLPBytes :: "rlp_item \<Rightarrow> sol_error + byte list" where
  "rlp_toRLPBytes item = rlp_copy (ri_mem item) (ri_ptr item) (ri_len item)"

text \<open>A difference below zero wraps around to a length that cannot be allocated.\<close>

definition rlp_toBytes :: "rlp_item \<Rightarrow> sol_error + byte list" where
  "rlp_toBytes item =
     (let offset = rlp_payloadOffset (ri_mem item) (ri_ptr item)
      in if ri_len item < offset then Inl Out_of_gas
         else rlp_copy (ri_mem item) (ri_ptr item + offset) (ri_len item - offset))"

text \<open>
  The word at the payload is divided by \<open>256 ^ (32 - len)\<close>; that power is zero modulo \<open>2 ^ 256\<close> unless
  \<open>1 \<le> len \<le> 32\<close>, and division by zero gives zero.
\<close>

definition rlp_toUint :: "rlp_item \<Rightarrow> 256 word" where
  "rlp_toUint item =
     (let offset = rlp_payloadOffset (ri_mem item) (ri_ptr item); len = ri_len item - offset
      in if offset < ri_len item \<and> len \<le> 32 then of_nat (be_at (ri_mem item) (ri_ptr item + offset) len) else 0)"

definition rlp_toBoolean :: "rlp_item \<Rightarrow> sol_error + bool" where
  "rlp_toBoolean item =
     bindr (require (ri_len item = 1) (Revert ''Invalid RLPItem. Booleans are encoded in 1 byte'')) (\<lambda>_.
     Inr (if ri_mem item (ri_ptr item) = 0 then False else True))"

definition rlp_toAddress :: "rlp_item \<Rightarrow> sol_error + address" where
  "rlp_toAddress item =
     bindr (require (ri_len item \<le> 21) (Revert ''Invalid RLPItem. Addresses are encoded in 20 bytes or less''))
       (\<lambda>_. Inr (ucast (rlp_toUint item)))"

subsection \<open>The encoding\<close>

datatype rlp = Str "byte list" | Lst "rlp list"

fun byte_count :: "nat \<Rightarrow> nat" where
  "byte_count n = (if n < 256 then 1 else Suc (byte_count (n div 256)))"

declare byte_count.simps [simp del]

definition rlp_prefix :: "nat \<Rightarrow> nat \<Rightarrow> byte list" where
  "rlp_prefix base n =
     (if n \<le> 55 then [of_nat (base + n)] else of_nat (base + 55 + byte_count n) # be_bytes (byte_count n) n)"

fun rlp_enc :: "rlp \<Rightarrow> byte list" where
  "rlp_enc (Str s) = (if length s = 1 \<and> unat (hd s) < 0x80 then s else rlp_prefix 0x80 (length s) @ s)"
| "rlp_enc (Lst xs) = (let payload = concat (map rlp_enc xs) in rlp_prefix 0xc0 (length payload) @ payload)"

text \<open>The item is an encoding of the value, within memory.\<close>

definition holds :: "(nat \<Rightarrow> byte) \<Rightarrow> nat \<Rightarrow> byte list \<Rightarrow> bool" where
  "holds m p bs \<longleftrightarrow> map m [p..<p + length bs] = bs"

definition item_of :: "rlp \<Rightarrow> rlp_item \<Rightarrow> bool" where
  "item_of x it \<longleftrightarrow> holds (ri_mem it) (ri_ptr it) (rlp_enc x) \<and> ri_len it = length (rlp_enc x) \<and>
     ri_ptr it + ri_len it < 2 ^ 32"

lemma holds_append: "holds m p (xs @ ys) \<longleftrightarrow> holds m p xs \<and> holds m (p + length xs) ys"
proof -
  have "[p..<p + (length xs + length ys)] = [p..<p + length xs] @ [p + length xs..<p + length xs + length ys]"
    using upt_add_eq_append [of p "p + length xs" "length ys"] by (simp add: add.assoc)
  then show ?thesis by (simp add: holds_def)
qed

lemma holds_Cons: "holds m p (b # xs) \<longleftrightarrow> m p = b \<and> holds m (Suc p) xs"
  using holds_append [of m p "[b]" xs] by (simp add: holds_def)

lemma holds_Nil [simp]: "holds m p []"
  by (simp add: holds_def)

lemma be_at_holds: "holds m p bs \<Longrightarrow> be_at m p (length bs) = be_val bs"
  by (simp add: be_at_def holds_def)

lemma byte_count_bound: "n < 256 ^ k \<Longrightarrow> 0 < k \<Longrightarrow> byte_count n \<le> k"
proof (induction n arbitrary: k rule: byte_count.induct)
  case (1 n)
  show ?case
  proof (cases "n < 256")
    case False
    with "1.prems" obtain j where j: "k = Suc j" "0 < j" by (cases k; cases "k = 1") auto
    with "1.prems" have "n div 256 < 256 ^ j" by (simp add: div_less_iff_less_mult mult.commute)
    from "1.IH" [OF False this j(2)] False j show ?thesis by (simp add: byte_count.simps [of n])
  qed (use "1.prems" in \<open>simp add: byte_count.simps [of n]\<close>)
qed

lemma byte_count_enough: "n < 256 ^ byte_count n"
proof (induction n rule: byte_count.induct)
  case (1 n)
  show ?case
  proof (cases "n < 256")
    case False
    with "1.IH" show ?thesis by (simp add: byte_count.simps [of n] div_less_iff_less_mult mult.commute)
  qed (simp add: byte_count.simps [of n])
qed

lemma byte_count_pos: "0 < byte_count n"
  by (simp add: byte_count.simps [of n])

lemma byte_count_small: "n < 2 ^ 32 \<Longrightarrow> byte_count n \<le> 4"
  by (rule byte_count_bound) simp_all

lemma length_rlp_prefix: "length (rlp_prefix base n) = (if n \<le> 55 then 1 else Suc (byte_count n))"
  by (simp add: rlp_prefix_def)

lemma be_at_prefix:
  assumes "holds m p (be_bytes (byte_count n) n)"
  shows "be_at m p (byte_count n) = n"
  using be_at_holds [OF assms] byte_count_enough [of n] by (simp add: be_val_be_bytes)

lemma rlp_prefix_string:
  assumes "holds m p (rlp_prefix 0x80 n)" and "n < 2 ^ 32"
  shows "rlp_itemLength m p = length (rlp_prefix 0x80 n) + n"
    and "rlp_payloadOffset m p = length (rlp_prefix 0x80 n)"
    and "unat (m p) < 0xc0"
proof -
  have "rlp_itemLength m p = length (rlp_prefix 0x80 n) + n \<and>
      rlp_payloadOffset m p = length (rlp_prefix 0x80 n) \<and> unat (m p) < 0xc0"
  proof (cases "n \<le> 55")
    case True
    with assms(1) have mp: "m p = of_nat (0x80 + n)" by (simp add: rlp_prefix_def holds_Cons)
    have "unat (m p) = 0x80 + n" unfolding mp unat_byte_of_nat using True by simp
    with True show ?thesis by (simp add: rlp_itemLength_def rlp_payloadOffset_def length_rlp_prefix Let_def)
  next
    case False
    have b: "0 < byte_count n" "byte_count n \<le> 4"
      using byte_count_pos byte_count_small [OF assms(2)] by auto
    from assms(1) False have mp: "m p = of_nat (0xb7 + byte_count n)"
      and h: "holds m (Suc p) (be_bytes (byte_count n) n)" by (simp_all add: rlp_prefix_def holds_Cons)
    have u: "unat (m p) = 0xb7 + byte_count n" unfolding mp unat_byte_of_nat using b by simp
    with False b be_at_prefix [OF h] show ?thesis
      by (simp add: rlp_itemLength_def rlp_payloadOffset_def length_rlp_prefix Let_def)
  qed
  then show "rlp_itemLength m p = length (rlp_prefix 0x80 n) + n"
    and "rlp_payloadOffset m p = length (rlp_prefix 0x80 n)" and "unat (m p) < 0xc0" by blast+
qed

lemma rlp_prefix_list:
  assumes "holds m p (rlp_prefix 0xc0 n)" and "n < 2 ^ 32"
  shows "rlp_itemLength m p = length (rlp_prefix 0xc0 n) + n"
    and "rlp_payloadOffset m p = length (rlp_prefix 0xc0 n)"
    and "\<not> unat (m p) < 0xc0"
proof -
  have "rlp_itemLength m p = length (rlp_prefix 0xc0 n) + n \<and>
      rlp_payloadOffset m p = length (rlp_prefix 0xc0 n) \<and> \<not> unat (m p) < 0xc0"
  proof (cases "n \<le> 55")
    case True
    with assms(1) have mp: "m p = of_nat (0xc0 + n)" by (simp add: rlp_prefix_def holds_Cons)
    have "unat (m p) = 0xc0 + n" unfolding mp unat_byte_of_nat using True by simp
    with True show ?thesis by (simp add: rlp_itemLength_def rlp_payloadOffset_def length_rlp_prefix Let_def)
  next
    case False
    have b: "0 < byte_count n" "byte_count n \<le> 4"
      using byte_count_pos byte_count_small [OF assms(2)] by auto
    from assms(1) False have mp: "m p = of_nat (0xf7 + byte_count n)"
      and h: "holds m (Suc p) (be_bytes (byte_count n) n)" by (simp_all add: rlp_prefix_def holds_Cons)
    have u: "unat (m p) = 0xf7 + byte_count n" unfolding mp unat_byte_of_nat using b by simp
    with False b be_at_prefix [OF h] show ?thesis
      by (simp add: rlp_itemLength_def rlp_payloadOffset_def length_rlp_prefix Let_def)
  qed
  then show "rlp_itemLength m p = length (rlp_prefix 0xc0 n) + n"
    and "rlp_payloadOffset m p = length (rlp_prefix 0xc0 n)" and "\<not> unat (m p) < 0xc0" by blast+
qed

subsection \<open>Reading back\<close>

text \<open>What the operations find at the start of an encoding.\<close>

lemma rlp_string_at:
  assumes "holds m p (rlp_enc (Str s))" and "length s < 2 ^ 32"
  shows "rlp_itemLength m p = length (rlp_enc (Str s))"
    and "rlp_payloadOffset m p + length s = length (rlp_enc (Str s))"
    and "holds m (p + rlp_payloadOffset m p) s" and "unat (m p) < 0xc0"
proof -
  have "rlp_itemLength m p = length (rlp_enc (Str s)) \<and>
    rlp_payloadOffset m p + length s = length (rlp_enc (Str s)) \<and>
    holds m (p + rlp_payloadOffset m p) s \<and> unat (m p) < 0xc0"
  proof (cases "length s = 1 \<and> unat (hd s) < 0x80")
    case True
    then obtain b where "s = [b]" "unat b < 0x80" by (cases s) auto
    with assms show ?thesis by (auto simp: holds_Cons rlp_itemLength_def rlp_payloadOffset_def Let_def)
  next
    case False
    then have e: "rlp_enc (Str s) = rlp_prefix 0x80 (length s) @ s" by (simp add: if_not_P)
    with assms(1) have h: "holds m p (rlp_prefix 0x80 (length s))"
      "holds m (p + length (rlp_prefix 0x80 (length s))) s" by (simp_all add: holds_append)
    show ?thesis using rlp_prefix_string [OF h(1) assms(2)] h(2) unfolding e by simp
  qed
  then show "rlp_itemLength m p = length (rlp_enc (Str s))"
    and "rlp_payloadOffset m p + length s = length (rlp_enc (Str s))"
    and "holds m (p + rlp_payloadOffset m p) s" and "unat (m p) < 0xc0" by blast+
qed

lemma rlp_list_at:
  assumes "holds m p (rlp_enc (Lst xs))" and "length (concat (map rlp_enc xs)) < 2 ^ 32"
  shows "rlp_itemLength m p = length (rlp_enc (Lst xs))"
    and "rlp_payloadOffset m p + length (concat (map rlp_enc xs)) = length (rlp_enc (Lst xs))"
    and "holds m (p + rlp_payloadOffset m p) (concat (map rlp_enc xs))" and "\<not> unat (m p) < 0xc0"
proof -
  let ?c = "concat (map rlp_enc xs)"
  have e: "rlp_enc (Lst xs) = rlp_prefix 0xc0 (length ?c) @ ?c" by (simp add: Let_def)
  with assms(1) have h: "holds m p (rlp_prefix 0xc0 (length ?c))"
    "holds m (p + length (rlp_prefix 0xc0 (length ?c))) ?c" by (simp_all only: holds_append)
  note l = rlp_prefix_list [OF h(1) assms(2)]
  show "rlp_itemLength m p = length (rlp_enc (Lst xs))" unfolding l e by simp
  show "rlp_payloadOffset m p + length ?c = length (rlp_enc (Lst xs))" unfolding l e by simp
  show "holds m (p + rlp_payloadOffset m p) ?c" unfolding l by (rule h(2))
  show "\<not> unat (m p) < 0xc0" by (rule l(3))
qed

lemma length_rlp_enc_pos: "0 < length (rlp_enc x)"
  by (cases x) (auto simp: rlp_prefix_def Let_def)

lemma rlp_itemLength_at:
  assumes "holds m p (rlp_enc x)" and "length (rlp_enc x) < 2 ^ 32"
  shows "rlp_itemLength m p = length (rlp_enc x)"
proof (cases x)
  case (Str s)
  then have "length s < 2 ^ 32" using assms(2) by (auto split: if_splits)
  with assms(1) Str show ?thesis using rlp_string_at(1) by blast
next
  case (Lst xs)
  then have "length (concat (map rlp_enc xs)) < 2 ^ 32"
    using assms(2) by (simp only: rlp_enc.simps Let_def length_append)
  with assms(1) Lst show ?thesis using rlp_list_at(1) by blast
qed

lemma rlp_count_items:
  assumes "holds m p (concat (map rlp_enc xs))" and "p + length (concat (map rlp_enc xs)) < 2 ^ 32"
  shows "rlp_count m p (p + length (concat (map rlp_enc xs))) = Inr (length xs) \<and>
    list_all2 item_of xs (rlp_items m (length xs) p)"
  using assms
proof (induction xs arbitrary: p)
  case (Cons x xs)
  have h: "holds m p (rlp_enc x)" "holds m (p + length (rlp_enc x)) (concat (map rlp_enc xs))"
    using Cons.prems(1) by (simp_all add: holds_append)
  have l: "rlp_itemLength m p = length (rlp_enc x)"
    by (rule rlp_itemLength_at [OF h(1)]) (use Cons.prems(2) in simp)
  have "rlp_count m (p + length (rlp_enc x)) (p + length (rlp_enc x) + length (concat (map rlp_enc xs))) = Inr (length xs) \<and>
      list_all2 item_of xs (rlp_items m (length xs) (p + length (rlp_enc x)))"
    by (rule Cons.IH [OF h(2)]) (use Cons.prems(2) in simp)
  with h(1) l Cons.prems(2) show ?case
    using length_rlp_enc_pos [of x]
    by (subst rlp_count.simps) (simp add: item_of_def add.assoc)
qed (simp add: rlp_count.simps)

lemma item_ofD:
  assumes "item_of x it"
  shows "holds (ri_mem it) (ri_ptr it) (rlp_enc x)" and "ri_len it = length (rlp_enc x)"
    and "ri_ptr it + length (rlp_enc x) < 2 ^ 32"
  using assms by (auto simp: item_of_def)

lemma length_payload: "length (concat (map rlp_enc xs)) \<le> length (rlp_enc (Lst xs))"
  by (simp add: Let_def)

lemma rlp_toList_item:
  assumes "item_of (Lst xs) it"
  obtains its where "rlp_toList it = Inr its" and "list_all2 item_of xs its"
proof -
  let ?c = "concat (map rlp_enc xs)" and ?m = "ri_mem it" and ?p = "ri_ptr it"
  let ?q = "?p + rlp_payloadOffset ?m ?p"
  have h: "holds ?m ?p (rlp_enc (Lst xs))" and n: "ri_len it = length (rlp_enc (Lst xs))"
    and b: "?p + length (rlp_enc (Lst xs)) < 2 ^ 32"
    using assms by (rule item_ofD)+
  have c: "length ?c < 2 ^ 32" using b length_payload [of xs] by linarith
  note l = rlp_list_at [OF h c]
  have e: "?q + length ?c = ?p + ri_len it" using l(2) n by simp
  have q: "?q + length ?c < 2 ^ 32" unfolding e n by (rule b)
  note i = rlp_count_items [OF l(3) q]
  have "rlp_toList it = Inr (rlp_items ?m (length xs) ?q)"
    using i l(4) by (simp add: rlp_toList_def rlp_isList_def rlp_numItems_def e require_def)
  with i that show thesis by blast
qed

lemma rlp_isList_item: "item_of x it \<Longrightarrow> rlp_isList it \<longleftrightarrow> (\<exists>xs. x = Lst xs)"
proof (cases x)
  case (Str s)
  assume i: "item_of x it"
  with Str have "length s < 2 ^ 32" by (auto simp: item_of_def split: if_splits)
  with i Str rlp_string_at(4) [of "ri_mem it" "ri_ptr it" s] show ?thesis
    by (simp add: item_of_def rlp_isList_def)
next
  case (Lst xs)
  assume i: "item_of x it"
  have "length (concat (map rlp_enc xs)) < 2 ^ 32"
    using item_ofD(3) [OF i] length_payload [of xs] unfolding Lst by linarith
  from rlp_list_at(4) [OF item_ofD(1) [OF i, unfolded Lst] this] Lst show ?thesis by (simp add: rlp_isList_def)
qed

lemma rlp_copy_holds: "holds m p bs \<Longrightarrow> length bs < 2 ^ 32 \<Longrightarrow> rlp_copy m p (length bs) = Inr bs"
  by (simp add: rlp_copy_def holds_def)

lemma rlp_toRLPBytes_item: "item_of x it \<Longrightarrow> rlp_toRLPBytes it = Inr (rlp_enc x)"
  using rlp_copy_holds [of "ri_mem it" "ri_ptr it" "rlp_enc x"] by (simp add: item_of_def rlp_toRLPBytes_def)

lemma rlp_string_item:
  assumes "item_of (Str s) it"
  shows "ri_len it = rlp_payloadOffset (ri_mem it) (ri_ptr it) + length s"
    and "holds (ri_mem it) (ri_ptr it + rlp_payloadOffset (ri_mem it) (ri_ptr it)) s" and "length s < 2 ^ 32"
proof -
  show l: "length s < 2 ^ 32" using assms by (auto simp: item_of_def split: if_splits)
  show "ri_len it = rlp_payloadOffset (ri_mem it) (ri_ptr it) + length s"
    "holds (ri_mem it) (ri_ptr it + rlp_payloadOffset (ri_mem it) (ri_ptr it)) s"
    using rlp_string_at(2,3) [OF _ l, of "ri_mem it" "ri_ptr it"] assms by (simp_all add: item_of_def)
qed

lemma rlp_toBytes_item: "item_of (Str s) it \<Longrightarrow> rlp_toBytes it = Inr s"
  using rlp_string_item [of s it] rlp_copy_holds by (simp add: rlp_toBytes_def Let_def)

lemma rlp_toUint_item:
  assumes "item_of (Str s) it" and "length s \<le> 32"
  shows "rlp_toUint it = of_nat (be_val s)"
  using rlp_string_item [OF assms(1)] assms(2) be_at_holds
  by (cases "s = []") (auto simp: rlp_toUint_def Let_def)

text \<open>An array that holds an encoding, and the converse: an item whose bytes are an encoding.\<close>

lemma item_of_toRLPItem: "length (rlp_enc x) < 2 ^ 32 \<Longrightarrow> item_of x (toRLPItem rest (rlp_enc x))"
  unfolding item_of_def toRLPItem_def holds_def
  by (simp del: rlp_enc.simps) (rule nth_equalityI; simp del: rlp_enc.simps)

lemma item_of_toRLPBytes:
  assumes "rlp_toRLPBytes it = Inr (rlp_enc x)" and "ri_ptr it + length (rlp_enc x) < 2 ^ 32"
  shows "item_of x it"
proof -
  from assms(1) have "map (ri_mem it) [ri_ptr it..<ri_ptr it + ri_len it] = rlp_enc x"
    by (simp add: rlp_toRLPBytes_def rlp_copy_def split: if_splits)
  moreover from this have "ri_len it = length (rlp_enc x)" by (metis add_diff_cancel_left' length_map length_upt)
  ultimately show ?thesis using assms(2) by (simp add: item_of_def holds_def)
qed

lemma rlp_items_ptr:
  assumes "rlp_count m p e = Inr n" and "it \<in> set (rlp_items m n p)"
  shows "ri_ptr it < e"
  using assms
proof (induction m p e arbitrary: n rule: rlp_count.induct)
  case (1 m p e)
  show ?case
  proof (cases "p < e")
    case True
    with "1.prems"(1) obtain k where "n = Suc k" "\<not> 2 ^ 32 \<le> p" "rlp_count m (p + rlp_itemLength m p) e = Inr k"
      by (subst (asm) rlp_count.simps) (auto simp: result_simps split: if_splits)
    with "1.IH" [OF True] "1.prems"(2) True show ?thesis by auto
  qed (use "1.prems" in \<open>simp add: rlp_count.simps [of m p e]\<close>)
qed

lemma rlp_toList_ptr: "rlp_toList it = Inr its \<Longrightarrow> it' \<in> set its \<Longrightarrow> ri_ptr it' < ri_ptr it + ri_len it"
  using rlp_items_ptr by (auto simp: rlp_toList_def rlp_numItems_def result_simps)

text \<open>Bounds on the length of an encoding.\<close>

lemma length_rlp_enc_Lst:
  "length (concat (map rlp_enc xs)) < 2 ^ 32 \<Longrightarrow> length (rlp_enc (Lst xs)) \<le> 5 + length (concat (map rlp_enc xs))"
  using byte_count_small [of "length (concat (map rlp_enc xs))"] by (auto simp: length_rlp_prefix Let_def)

lemma length_rlp_enc_Str: "length s < 2 ^ 32 \<Longrightarrow> length (rlp_enc (Str s)) \<le> 5 + length s"
  using byte_count_small [of "length s"] by (auto simp: length_rlp_prefix)

lemma length_rlp_enc_Nil: "length (rlp_enc (Str [])) = 1"
  by (simp add: length_rlp_prefix)

end
