(* ===== verification/Trie_Proofs.thy ===== *)
theory Trie_Proofs
  imports Sol_RLP
begin

text \<open>
  \<^verbatim>\<open>contracts/lib/TrieProofs.sol\<close>: the check of a proof in a Merkle Patricia trie. A proof is the RLP
  list of the nodes from the root to the end of the path; each node is bound to the one above it by
  its hash. A path of 32 bytes is taken as 64 nibbles, one to a byte. \<open>K\<close> is Keccak-256 and \<open>rest\<close> what
  lies in memory behind the proof.

  Against the code stands the trie itself: the datatype \<open>mpt\<close>, its lookup, the encodings of its
  nodes and the proof that a node of the network gives for a path.
\<close>

subsection \<open>Nibbles\<close>

definition nibble_of :: "byte list \<Rightarrow> nat \<Rightarrow> byte" where
  "nibble_of compact i =
     (if i mod 2 = 0 then drop_bit 4 (compact ! (i div 2)) AND 0xF else drop_bit 0 (compact ! (i div 2)) AND 0xF)"

definition decodeNibbles :: "byte list \<Rightarrow> nat \<Rightarrow> sol_error + byte list" where
  "decodeNibbles compact skipNibbles =
     bindr (require (0 < length compact) (Revert ''Empty bytes array'')) (\<lambda>_.
     let len = length compact * 2 in
     bindr (require (skipNibbles \<le> len) (Revert ''Skip nibbles amount too large'')) (\<lambda>_.
     let len = len - skipNibbles in
     Inr (map (nibble_of compact) [skipNibbles..<skipNibbles + len])))"

definition merklePatriciaCompactDecode :: "byte list \<Rightarrow> sol_error + byte list" where
  "merklePatriciaCompactDecode compact =
     bindr (require (0 < length compact) (Revert ''Empty bytes array'')) (\<lambda>_.
     let first_nibble = unat (drop_bit 4 (compact ! 0) AND 0xF) in
     if first_nibble = 0 then decodeNibbles compact 2
     else if first_nibble = 1 then decodeNibbles compact 1
     else if first_nibble = 2 then decodeNibbles compact 2
     else if first_nibble = 3 then decodeNibbles compact 1
     else Inl (Revert ''''))"

definition extractNibble :: "byte list \<Rightarrow> nat \<Rightarrow> sol_error + nat" where
  "extractNibble path position =
     bindr (require (position < 64) (Revert ''Invalid nibble position'')) (\<lambda>_.
     let w = of_nat (be_val path) :: 256 word;
         shifted = ucast (drop_bit 248 (if position = 0 then drop_bit 4 w else push_bit ((position - 1) * 4) w)) :: byte
     in Inr (unat (shifted AND 0x0f)))"

fun shared_loop :: "byte list \<Rightarrow> byte list \<Rightarrow> nat" where
  "shared_loop (x # xs) (y # ys) = (if x \<noteq> y then 0 else Suc (shared_loop xs ys))"
| "shared_loop xs ys = 0"

definition sharedPrefixLength :: "nat \<Rightarrow> byte list \<Rightarrow> byte list \<Rightarrow> nat" where
  "sharedPrefixLength xsOffset xs ys = shared_loop (drop xsOffset xs) ys"

subsection \<open>The check\<close>

definition getNextHash :: "rlp_item \<Rightarrow> sol_error + byte list" where
  "getNextHash node =
     bindr (rlp_toBytes node) (\<lambda>nextHashBytes.
     bindr (require (length nextHashBytes = 32) (Revert ''Invalid node'')) (\<lambda>_. Inr nextHashBytes))"

definition child_hash :: "(byte list \<Rightarrow> byte list) \<Rightarrow> rlp_item \<Rightarrow> sol_error + byte list" where
  "child_hash K children =
     (if \<not> rlp_isList children then getNextHash children
      else bindr (rlp_toRLPBytes children) (\<lambda>bs. Inr (K bs)))"

text \<open>
  The loop over the nodes of the proof: \<open>required\<close> is the hash that the next node must have and \<open>msg\<close>
  the reason if it has not, which differs for the first.
\<close>

fun trie_loop ::
  "(byte list \<Rightarrow> byte list) \<Rightarrow> byte list \<Rightarrow> byte list \<Rightarrow> rlp_item list \<Rightarrow> string \<Rightarrow> byte list \<Rightarrow> nat \<Rightarrow>
   sol_error + byte list"
where
  "trie_loop K path32 path [] msg required pathOffset = Inl Invalid"
| "trie_loop K path32 path (item # items) msg required pathOffset =
     bindr (rlp_toRLPBytes item) (\<lambda>rlpNode.
     bindr (require (required = K rlpNode) (Revert msg)) (\<lambda>_.
     bindr (rlp_toList item) (\<lambda>node.
     if length node = 2 then
       bindr (rlp_toBytes (node ! 0)) (\<lambda>compact.
       bindr (merklePatriciaCompactDecode compact) (\<lambda>nodePath.
       let pathOffset = pathOffset + sharedPrefixLength pathOffset path nodePath in
       if items = [] then
         bindr (require (pathOffset = length path) (Revert ''Unexpected end of proof (leaf)'')) (\<lambda>_.
         rlp_toBytes (node ! 1))
       else bindr (child_hash K (node ! 1)) (\<lambda>nextHash.
         trie_loop K path32 path items ''Bad hash'' nextHash pathOffset)))
     else
       bindr (require (length node = 17) (Revert ''Invalid node length'')) (\<lambda>_.
       if items = [] then
         if pathOffset + 1 = length path then rlp_toBytes (node ! 16)
         else bindr (extractNibble path32 pathOffset) (\<lambda>nodeChildren.
           bindr (sol_index node nodeChildren) (\<lambda>children.
           bindr (rlp_toBytes children) (\<lambda>bs.
           bindr (require (length bs = 0) (Revert ''Invalid exclusion proof'')) (\<lambda>_. Inr []))))
       else
         bindr (require (pathOffset < length path) (Revert ''Continuing branch has depleted path'')) (\<lambda>_.
         bindr (extractNibble path32 pathOffset) (\<lambda>nodeChildren.
         bindr (sol_index node nodeChildren) (\<lambda>children.
         bindr (child_hash K children) (\<lambda>nextHash.
         trie_loop K path32 path items ''Bad hash'' nextHash (pathOffset + 1)))))))))"

declare trie_loop.simps [simp del]

definition EMPTY_TRIE_ROOT_HASH :: "byte list" where
  "EMPTY_TRIE_ROOT_HASH = be_bytes 32 0x56e81f171bcc55a6ff8345e692c0f86e5b48e01b996cadc001622fb5e363b421"

definition trie_verify ::
  "(byte list \<Rightarrow> byte list) \<Rightarrow> (nat \<Rightarrow> byte) \<Rightarrow> byte list \<Rightarrow> byte list \<Rightarrow> byte list \<Rightarrow> sol_error + byte list"
where
  "trie_verify K rest proofRLP rootHash path32 =
     bindr (decodeNibbles path32 0) (\<lambda>path.
     bindr (rlp_toList (toRLPItem rest proofRLP)) (\<lambda>items.
     if items = [] then
       bindr (require (rootHash = EMPTY_TRIE_ROOT_HASH) (Revert ''Bad empty proof'')) (\<lambda>_. Inr [])
     else trie_loop K path32 path items ''Bad first proof part'' rootHash 0))"

subsection \<open>Tries\<close>

datatype mpt = Leaf "byte list" "byte list" | Ext "byte list" mpt | Branch "mpt option list"

lemma mpt_child_size [termination_simp]: "Some t \<in> set cs \<Longrightarrow> size t < Suc (size_list (size_option size) cs)"
  by (induction cs) auto

definition nibbles :: "byte list \<Rightarrow> byte list" where
  "nibbles bs = concat (map (\<lambda>b. [drop_bit 4 b, b AND 0xF]) bs)"

fun pack :: "byte list \<Rightarrow> byte list" where
  "pack (x # y # ns) = (push_bit 4 x OR y) # pack ns"
| "pack ns = []"

text \<open>The hex-prefix encoding of a path: its parity and whether the node is a leaf go into the first nibble.\<close>

definition hex_prefix :: "bool \<Rightarrow> byte list \<Rightarrow> byte list" where
  "hex_prefix is_leaf ns =
     (let flag = (if is_leaf then 2 else 0)
      in if even (length ns) then pack (flag # 0 # ns) else pack ((flag + 1) # ns))"

definition rlp_ref :: "(byte list \<Rightarrow> byte list) \<Rightarrow> rlp \<Rightarrow> rlp" where
  "rlp_ref K x = (if length (rlp_enc x) < 32 then x else Str (K (rlp_enc x)))"

fun node_rlp :: "(byte list \<Rightarrow> byte list) \<Rightarrow> mpt \<Rightarrow> rlp" where
  "node_rlp K (Leaf ns v) = Lst [Str (hex_prefix True ns), Str v]"
| "node_rlp K (Ext ns t) = Lst [Str (hex_prefix False ns), rlp_ref K (node_rlp K t)]"
| "node_rlp K (Branch cs) =
     Lst (map (\<lambda>c. case c of None \<Rightarrow> Str [] | Some t \<Rightarrow> rlp_ref K (node_rlp K t)) cs @ [Str []])"

definition trie_root :: "(byte list \<Rightarrow> byte list) \<Rightarrow> mpt \<Rightarrow> byte list" where
  "trie_root K t = K (rlp_enc (node_rlp K t))"

fun trie_lookup :: "mpt \<Rightarrow> byte list \<Rightarrow> byte list option" where
  "trie_lookup (Leaf ns v) ks = (if ks = ns then Some v else None)"
| "trie_lookup (Ext ns t) ks = (if take (length ns) ks = ns then trie_lookup t (drop (length ns) ks) else None)"
| "trie_lookup (Branch cs) [] = None"
| "trie_lookup (Branch cs) (k # ks) =
     (if unat k < length cs then case cs ! unat k of None \<Rightarrow> None | Some t \<Rightarrow> trie_lookup t ks else None)"

text \<open>The nodes passed on a path, the node where it ends, and what is left of the path there.\<close>

fun walk :: "mpt \<Rightarrow> byte list \<Rightarrow> mpt list \<times> mpt \<times> byte list" where
  "walk (Leaf ns v) ks = ([], Leaf ns v, ks)"
| "walk (Ext ns t) ks =
     (if take (length ns) ks = ns then let (us, e, r) = walk t (drop (length ns) ks) in (Ext ns t # us, e, r)
      else ([], Ext ns t, ks))"
| "walk (Branch cs) [] = ([], Branch cs, [])"
| "walk (Branch cs) (k # ks) =
     (if unat k < length cs then
        case cs ! unat k of None \<Rightarrow> ([], Branch cs, k # ks)
        | Some t \<Rightarrow> (let (us, e, r) = walk t ks in (Branch cs # us, e, r))
      else ([], Branch cs, k # ks))"

definition trie_proof :: "(byte list \<Rightarrow> byte list) \<Rightarrow> mpt \<Rightarrow> byte list \<Rightarrow> rlp list" where
  "trie_proof K t ks = (let (us, e, r) = walk t ks in map (node_rlp K) (us @ [e]))"

text \<open>Tries whose keys all have \<open>n\<close> nibbles, in the form that the protocol prescribes.\<close>

definition is_nibbles :: "byte list \<Rightarrow> bool" where
  "is_nibbles ns \<longleftrightarrow> list_all (\<lambda>x. x < 16) ns"

fun wf_trie :: "nat \<Rightarrow> mpt \<Rightarrow> bool" where
  "wf_trie n (Leaf ns v) \<longleftrightarrow> length ns = n \<and> is_nibbles ns"
| "wf_trie n (Ext ns t) \<longleftrightarrow> length ns \<le> n \<and> ns \<noteq> [] \<and> is_nibbles ns \<and> (\<exists>cs. t = Branch cs) \<and> wf_trie (n - length ns) t"
| "wf_trie n (Branch cs) \<longleftrightarrow> 0 < n \<and> length cs = 16 \<and> (\<forall>c \<in> set cs. case c of None \<Rightarrow> True | Some t \<Rightarrow> wf_trie (n - 1) t)"

subsection \<open>Paths\<close>

lemma nibbles_simps [simp]: "nibbles [] = []" "nibbles (b # bs) = drop_bit 4 b # (b AND 0xF) # nibbles bs"
  by (simp_all add: nibbles_def)

lemma length_nibbles [simp]: "length (nibbles bs) = 2 * length bs"
  by (induction bs) simp_all

lemma high_nibble: "drop_bit 4 (b :: byte) AND 15 = drop_bit 4 b"
proof -
  have "(15 :: byte) = mask 4" by (simp add: mask_eq_exp_minus_1)
  then show ?thesis
    by (simp only: take_bit_eq_mask [symmetric]) (rule bit_word_eqI, auto simp: bit_take_bit_iff bit_drop_bit_eq dest: bit_imp_le_length)
qed

lemma unat_low_nibble: "unat (b AND 15 :: 'a::len word) = unat b mod 16"
proof -
  have "(15 :: 'a word) = mask 4" by (simp add: mask_eq_exp_minus_1)
  then show ?thesis by (simp only: take_bit_eq_mask [symmetric] unsigned_take_bit_eq) (simp add: take_bit_eq_mod)
qed

lemma unat_high_nibble: "unat (drop_bit 4 b :: byte) = unat b div 16"
  using unat_byte_less [of b]
  by (subst unsigned_drop_bit_eq) (simp add: drop_bit_eq_div take_bit_nat_eq_self)

lemma nibbles_is_nibbles: "is_nibbles (nibbles bs)"
proof -
  have "drop_bit 4 b < 16 \<and> b AND 15 < 16" for b :: byte
    using unat_byte_less [of b] by (simp add: word_less_nat_alt unat_high_nibble unat_low_nibble less_mult_imp_div_less)
  then show ?thesis by (induction bs) (simp_all add: is_nibbles_def)
qed

lemma nibble_of_Cons: "nibble_of (b # bs) (Suc (Suc i)) = nibble_of bs i"
  by (simp add: nibble_of_def)

lemma nibble_of_nibbles: "map (nibble_of bs) [0..<2 * length bs] = nibbles bs"
proof (induction bs)
  case (Cons b bs)
  have "[0..<2 * length (b # bs)] = 0 # 1 # map (\<lambda>i. Suc (Suc i)) [0..<2 * length bs]"
    by (simp add: upt_rec [of 0] upt_rec [of "Suc 0"] map_Suc_upt [symmetric] comp_def del: upt_Suc map_Suc_upt)
  with Cons show ?case by (simp add: nibble_of_Cons comp_def) (simp add: nibble_of_def high_nibble)
qed simp

lemma decodeNibbles_nibbles:
  assumes "bs \<noteq> []" and "skip \<le> 2 * length bs"
  shows "decodeNibbles bs skip = Inr (drop skip (nibbles bs))"
  using assms unfolding decodeNibbles_def nibble_of_nibbles [symmetric]
  by (simp add: require_def drop_map mult.commute)

lemma nibble_join: "x < 16 \<Longrightarrow> y < 16 \<Longrightarrow>
    drop_bit 4 (push_bit 4 x OR y :: byte) = x \<and> (push_bit 4 x OR y) AND 15 = y"
proof
  assume xy: "x < 16" "y < 16"
  have m: "(15 :: byte) = mask 4" by (simp add: mask_eq_exp_minus_1)
  have t: "take_bit 4 x = x" "take_bit 4 y = y"
    using xy by (simp_all add: word_unat_eq_iff unsigned_take_bit_eq word_less_nat_alt take_bit_nat_eq_self)
  then have b: "bit x n \<Longrightarrow> n < 4" "bit y n \<Longrightarrow> n < 4" for n
    by (metis bit_take_bit_iff)+
  show "drop_bit 4 (push_bit 4 x OR y) = x"
    by (rule bit_word_eqI) (auto simp: bit_drop_bit_eq bit_or_iff bit_push_bit_iff dest: b)
  show "(push_bit 4 x OR y) AND 15 = y" unfolding m
    by (rule bit_word_eqI) (auto simp: bit_and_iff bit_mask_iff bit_or_iff bit_push_bit_iff dest: b)
qed

lemma nibbles_pack: "even (length ns) \<Longrightarrow> is_nibbles ns \<Longrightarrow> nibbles (pack ns) = ns"
proof (induction ns rule: pack.induct)
  case (1 x y ns)
  then have "x < 16" "y < 16" and "nibbles (pack ns) = ns" by (simp_all add: is_nibbles_def)
  with nibble_join [of x y] show ?case by (simp only: pack.simps nibbles_simps)
qed (simp_all add: is_nibbles_def)

lemma nibbles_replicate: "nibbles (replicate n 0) = replicate (2 * n) 0"
  by (induction n) simp_all

lemma length_pack: "even (length ns) \<Longrightarrow> length (pack ns) = length ns div 2"
  by (induction ns rule: pack.induct) simp_all

lemma length_hex_prefix: "length (hex_prefix l ns) \<le> Suc (length ns div 2)"
  by (cases "even (length ns)") (auto simp: hex_prefix_def Let_def length_pack elim: oddE simp del: pack.simps)

lemma compact_decode_hex_prefix:
  assumes "is_nibbles ns"
  shows "merklePatriciaCompactDecode (hex_prefix is_leaf ns) = Inr ns"
proof -
  let ?flag = "(if is_leaf then 2 else 0) :: byte"
  have f: "?flag < 16" "?flag + 1 < 16" "unat ?flag \<in> {0, 2}" "unat (?flag + 1) \<in> {1, 3}" by auto
  show ?thesis
  proof (cases "even (length ns)")
    case True
    then have e: "hex_prefix is_leaf ns = pack (?flag # 0 # ns)" by (simp add: hex_prefix_def Let_def)
    have n: "nibbles (pack (?flag # 0 # ns)) = ?flag # 0 # ns"
      by (rule nibbles_pack) (use True assms f in \<open>auto simp: is_nibbles_def\<close>)
    obtain b bs where p: "pack (?flag # 0 # ns) = b # bs" by (simp only: pack.simps)
    with n have "drop_bit 4 b = ?flag" by simp
    then have "unat (drop_bit 4 b) = 0 \<or> unat (drop_bit 4 b) = 2" by auto
    moreover have "decodeNibbles (b # bs) 2 = Inr ns"
      using decodeNibbles_nibbles [of "b # bs" 2] n p by simp
    ultimately show ?thesis unfolding e p
      by (auto simp: merklePatriciaCompactDecode_def require_def high_nibble)
  next
    case False
    then have e: "hex_prefix is_leaf ns = pack ((?flag + 1) # ns)" by (simp add: hex_prefix_def Let_def)
    have n: "nibbles (pack ((?flag + 1) # ns)) = (?flag + 1) # ns"
      by (rule nibbles_pack) (use False assms f in \<open>auto simp: is_nibbles_def\<close>)
    obtain y ys where "ns = y # ys" using False by (cases ns) auto
    then obtain b bs where p: "pack ((?flag + 1) # ns) = b # bs" by (simp only: pack.simps)
    with n have "drop_bit 4 b = ?flag + 1" by simp
    then have "unat (drop_bit 4 b) = 1 \<or> unat (drop_bit 4 b) = 3" by auto
    moreover have "decodeNibbles (b # bs) 1 = Inr ns"
      using decodeNibbles_nibbles [of "b # bs" 1] n p by simp
    ultimately show ?thesis unfolding e p
      by (auto simp: merklePatriciaCompactDecode_def require_def high_nibble)
  qed
qed

lemma nth_be_bytes: "i < k \<Longrightarrow> be_bytes k n ! i = of_nat (n div 256 ^ (k - 1 - i))"
proof (induction k arbitrary: n)
  case (Suc k)
  show ?case
  proof (cases "i < k")
    case True
    then have "k - i = Suc (k - 1 - i)" by simp
    with True Suc.IH [OF True] show ?thesis by (simp add: nth_append div_mult2_eq)
  next
    case False
    with Suc.prems show ?thesis by (simp add: nth_append less_Suc_eq)
  qed
qed simp

lemma be_val_nth: "i < length bs \<Longrightarrow> be_val bs div 256 ^ (length bs - 1 - i) mod 256 = unat (bs ! i)"
  using nth_be_bytes [of i "length bs" "be_val bs"] by (simp add: be_bytes_be_val unat_byte_of_nat)

lemma nibbles_nth:
  "i < length bs \<Longrightarrow> nibbles bs ! (2 * i) = drop_bit 4 (bs ! i) \<and> nibbles bs ! (Suc (2 * i)) = bs ! i AND 15"
proof (induction bs arbitrary: i)
  case (Cons b bs)
  then show ?case by (cases i) simp_all
qed simp

lemma nibbles_be_val:
  assumes "p < 2 * length bs"
  shows "unat (nibbles bs ! p) = be_val bs div 16 ^ (2 * length bs - 1 - p) mod 16"
proof -
  obtain i where i: "p = 2 * i \<or> p = Suc (2 * i)" by (metis evenE oddE Suc_eq_plus1)
  with assms have l: "i < length bs" by auto
  let ?q = "be_val bs div 256 ^ (length bs - 1 - i)"
  have q: "?q mod 256 = unat (bs ! i)" by (rule be_val_nth [OF l])
  have s: "(256 :: nat) ^ k = 16 ^ (2 * k)" for k by (simp add: power_mult)
  from i show ?thesis
  proof
    assume p: "p = 2 * i"
    have "2 * length bs - 1 - p = Suc (2 * (length bs - 1 - i))" using l p by simp
    then have "be_val bs div 16 ^ (2 * length bs - 1 - p) = ?q div 16"
      by (simp add: s div_mult2_eq [symmetric] mult.commute)
    moreover have "?q div 16 mod 16 = ?q mod 256 div 16"
      using mod_mult2_eq [of ?q 16 16] by simp
    ultimately show ?thesis using nibbles_nth [OF l] p q by (simp add: unat_high_nibble)
  next
    assume p: "p = Suc (2 * i)"
    have "2 * length bs - 1 - p = 2 * (length bs - 1 - i)" using l p by simp
    then have "be_val bs div 16 ^ (2 * length bs - 1 - p) = ?q" by (simp add: s)
    moreover have "?q mod 16 = ?q mod 256 mod 16" by (simp add: mod_mod_cancel)
    ultimately show ?thesis using nibbles_nth [OF l] p q by (simp add: unat_low_nibble)
  qed
qed

lemma extractNibble_nibbles:
  assumes "length path = 32" and "p < 64"
  shows "extractNibble path p = Inr (unat (nibbles path ! p))"
proof -
  let ?w = "of_nat (be_val path) :: 256 word"
  have "(0 :: nat) < 4" by simp
  have m: "(15 :: byte) = mask 4" "(15 :: 256 word) = mask 4" by (simp_all add: mask_eq_exp_minus_1)
  have e: "unat ((ucast (drop_bit 248 (if p = 0 then drop_bit 4 ?w else push_bit ((p - 1) * 4) ?w)) :: byte) AND 15)
      = unat (drop_bit (4 * (63 - p)) ?w AND 15)"
  proof -
    have "(ucast (drop_bit 248 (if p = 0 then drop_bit 4 ?w else push_bit ((p - 1) * 4) ?w)) :: byte) AND 15 =
        ucast (drop_bit (4 * (63 - p)) ?w AND 15)" unfolding m
    proof (rule bit_word_eqI)
      fix n assume "n < LENGTH(8)"
      have "n < 4 \<Longrightarrow> 0 < p \<Longrightarrow> 248 + n - (p - 1) * 4 = 4 * (63 - p) + n \<and> (p - 1) * 4 \<le> 248 + n"
        using assms(2) by (cases p) simp_all
      then show "bit ((ucast (drop_bit 248 (if p = 0 then drop_bit 4 ?w else push_bit ((p - 1) * 4) ?w)) :: byte) AND mask 4) n =
        bit (ucast (drop_bit (4 * (63 - p)) ?w AND mask 4) :: byte) n"
        using assms(2) \<open>n < LENGTH(8)\<close>
        by (auto simp: bit_and_iff bit_mask_iff bit_unsigned_iff bit_drop_bit_eq bit_push_bit_iff add.commute)
    qed
    moreover have "drop_bit (4 * (63 - p)) ?w AND 15 < 2 ^ 8"
      by (simp add: word_less_nat_alt unat_low_nibble)
    then have "unat (ucast (drop_bit (4 * (63 - p)) ?w AND 15) :: byte) = unat (drop_bit (4 * (63 - p)) ?w AND 15)"
      by (simp add: unsigned_ucast_eq word_less_nat_alt take_bit_nat_eq_self)
    ultimately show ?thesis by simp
  qed
  have "be_val path < 2 ^ 256" using be_val_less [of path] assms(1) by (simp add: power_mult [symmetric])
  then have u: "unat ?w = be_val path" by (simp add: unsigned_of_nat take_bit_nat_eq_self)
  have "unat (drop_bit (4 * (63 - p)) ?w AND 15) = be_val path div 16 ^ (63 - p) mod 16"
    unfolding unat_low_nibble by (subst unat_drop_bit_eq) (simp add: drop_bit_eq_div u power_mult)
  then show ?thesis
    using assms nibbles_be_val [of p path] e unfolding extractNibble_def by (simp add: require_def Let_def)
qed

lemma shared_loop_le: "shared_loop xs ys \<le> length ys" "shared_loop xs ys \<le> length xs"
  by (induction xs ys rule: shared_loop.induct) simp_all

lemma shared_loop_full: "shared_loop xs ys = length ys \<longleftrightarrow> take (length ys) xs = ys"
  by (induction xs ys rule: shared_loop.induct) auto

subsection \<open>Nodes\<close>

text \<open>The hash has 32 bytes, and the nodes fit into memory.\<close>

definition hash32 :: "(byte list \<Rightarrow> byte list) \<Rightarrow> bool" where
  "hash32 K \<longleftrightarrow> (\<forall>bs. length (K bs) = 32)"

lemma child_hash_node:
  assumes "item_of (rlp_ref K (node_rlp K t)) it" and "hash32 K"
  shows "child_hash K it = Inr (trie_root K t)"
proof (cases "length (rlp_enc (node_rlp K t)) < 32")
  case True
  then have r: "rlp_ref K (node_rlp K t) = node_rlp K t" by (simp add: rlp_ref_def)
  have "\<exists>xs. node_rlp K t = Lst xs" by (cases t) simp_all
  with rlp_isList_item [OF assms(1)] rlp_toRLPBytes_item [OF assms(1)] show ?thesis
    unfolding r by (simp add: child_hash_def trie_root_def)
next
  case False
  then have r: "rlp_ref K (node_rlp K t) = Str (K (rlp_enc (node_rlp K t)))" by (simp add: rlp_ref_def)
  with rlp_isList_item [OF assms(1)] have "\<not> rlp_isList it" by simp
  with rlp_toBytes_item [OF assms(1) [unfolded r]] assms(2) show ?thesis
    by (simp add: child_hash_def getNextHash_def hash32_def require_def trie_root_def)
qed

lemma child_hash_string:
  assumes "item_of (Str v) it"
  shows "child_hash K it = (if length v = 32 then Inr v else Inl (Revert ''Invalid node''))"
  using rlp_isList_item [OF assms] rlp_toBytes_item [OF assms]
  by (simp add: child_hash_def getNextHash_def require_def)

text \<open>One step of the loop, for an item that holds a node of a trie.\<close>

lemma trie_loop_short:
  assumes "item_of (Lst [Str (hex_prefix is_leaf ns), x]) item" and "is_nibbles ns"
  shows "\<exists>c. item_of x c \<and> (\<forall>items msg off.
    trie_loop K pth path (item # items) msg (K (rlp_enc (Lst [Str (hex_prefix is_leaf ns), x]))) off =
     (let off = off + shared_loop (drop off path) ns in
      if items = [] then
        bindr (require (off = length path) (Revert ''Unexpected end of proof (leaf)'')) (\<lambda>_. rlp_toBytes c)
      else bindr (child_hash K c) (\<lambda>h. trie_loop K pth path items ''Bad hash'' h off)))"
proof -
  obtain its where l: "rlp_toList item = Inr its" "list_all2 item_of [Str (hex_prefix is_leaf ns), x] its"
    by (rule rlp_toList_item [OF assms(1)])
  then obtain p c where its: "its = [p, c]" and p: "item_of (Str (hex_prefix is_leaf ns)) p" and c: "item_of x c"
    by (auto simp: list_all2_Cons1)
  show ?thesis
    by (rule exI [of _ c])
      (simp add: c rlp_toRLPBytes_item [OF assms(1)] l(1) its rlp_toBytes_item [OF p]
        trie_loop.simps compact_decode_hex_prefix [OF assms(2)] sharedPrefixLength_def require_def
        del: rlp_enc.simps cong: if_cong)
qed

lemma trie_loop_branch:
  assumes "item_of (node_rlp K (Branch cs)) item" and "length cs = 16"
    and "length path32 = 32" and "hash32 K"
  shows "items \<noteq> [] \<Longrightarrow> off < 64 \<Longrightarrow>
      trie_loop K path32 (nibbles path32) (item # items) msg (trie_root K (Branch cs)) off =
      (case cs ! unat (nibbles path32 ! off) of
         None \<Rightarrow> Inl (Revert ''Invalid node'')
       | Some t \<Rightarrow> trie_loop K path32 (nibbles path32) items ''Bad hash'' (trie_root K t) (off + 1))"
    and "items \<noteq> [] \<Longrightarrow> trie_loop K path32 (nibbles path32) (item # items) msg h off = Inr v \<Longrightarrow> off < 64"
    and "trie_loop K path32 (nibbles path32) [item] msg h off = Inr v \<Longrightarrow> v = []"
proof -
  let ?child = "\<lambda>c. case c of None \<Rightarrow> Str [] | Some t \<Rightarrow> rlp_ref K (node_rlp K t)"
  let ?xs = "map ?child cs @ [Str []]"
  have e: "node_rlp K (Branch cs) = Lst ?xs" by simp
  obtain its where l: "rlp_toList item = Inr its" "list_all2 item_of ?xs its"
    by (rule rlp_toList_item [OF assms(1) [unfolded e]])
  have n: "length its = 17" using list_all2_lengthD [OF l(2)] assms(2) by simp
  have i: "item_of (?child (cs ! k)) (its ! k)" if "k < 16" for k
    using list_all2_nthD [OF l(2), of k] that assms(2) by (simp add: nth_append)
  have "item_of (Str []) (its ! 16)"
    using list_all2_nthD [OF l(2), of 16] assms(2) by (simp add: nth_append)
  note empty = rlp_toBytes_item [OF this]
  note b = rlp_toRLPBytes_item [OF assms(1)]
  have k: "unat (nibbles path32 ! off) < 16" if "off < 64"
  proof -
    have "nibbles path32 ! off \<in> set (nibbles path32)" by (rule nth_mem) (use that assms(3) in simp)
    then show ?thesis using nibbles_is_nibbles [of path32] by (auto simp: is_nibbles_def list_all_iff word_less_nat_alt)
  qed
  show "trie_loop K path32 (nibbles path32) (item # items) msg (trie_root K (Branch cs)) off =
      (case cs ! unat (nibbles path32 ! off) of
         None \<Rightarrow> Inl (Revert ''Invalid node'')
       | Some t \<Rightarrow> trie_loop K path32 (nibbles path32) items ''Bad hash'' (trie_root K t) (off + 1))"
    if "items \<noteq> []" "off < 64"
  proof -
    have "child_hash K (its ! unat (nibbles path32 ! off)) =
        (case cs ! unat (nibbles path32 ! off) of None \<Rightarrow> Inl (Revert ''Invalid node'') | Some t \<Rightarrow> Inr (trie_root K t))"
      using i [OF k [OF that(2)]] child_hash_node [OF _ assms(4)] child_hash_string [of "[]"]
      by (cases "cs ! unat (nibbles path32 ! off)") simp_all
    with that assms(3) k [OF that(2)] show ?thesis
      by (simp add: trie_loop.simps b l(1) n trie_root_def require_def extractNibble_nibbles sol_index_def
          split: option.split del: rlp_enc.simps node_rlp.simps)
  qed
  show "off < 64" if "items \<noteq> []" "trie_loop K path32 (nibbles path32) (item # items) msg h off = Inr v"
    using that assms(3) by (auto simp: trie_loop.simps l(1) n result_simps)
  show "v = []" if "trie_loop K path32 (nibbles path32) [item] msg h off = Inr v"
    using that assms(3) by (auto simp: trie_loop.simps l(1) n empty result_simps split: if_splits)
qed

subsection \<open>Genuine proofs\<close>

lemma trie_lookup_walk: "walk t ks = (us, e, r) \<Longrightarrow> trie_lookup t ks = trie_lookup e r"
  by (induction t ks arbitrary: us rule: walk.induct) (auto split: if_splits option.splits prod.splits)

lemma walk_found: "walk t ks = (us, e, r) \<Longrightarrow> trie_lookup e r = Some v \<Longrightarrow> e = Leaf r v"
  by (induction t ks arbitrary: us rule: walk.induct) (auto split: if_splits option.splits prod.splits)

lemma take_drop_eq: "take (length ns) (drop off xs) = ns \<Longrightarrow> off \<le> length xs \<Longrightarrow> off + length ns \<le> length xs"
  by (metis add_le_cancel_left diff_le_self le_add_diff_inverse length_drop length_take min.cobounded1)

lemma trie_loop_walk:
  assumes "wf_trie n t" and "off + n = 64" and "walk t (drop off (nibbles path32)) = (us, e, r)"
    and "list_all2 item_of (map (node_rlp K) us) its" and "tl_items \<noteq> []"
    and "length path32 = 32" and "hash32 K"
  shows "\<exists>msg'. trie_loop K path32 (nibbles path32) (its @ tl_items) msg (trie_root K t) off =
      trie_loop K path32 (nibbles path32) tl_items msg' (trie_root K e) (64 - length r) \<and>
    drop (64 - length r) (nibbles path32) = r \<and> wf_trie (length r) e"
  using assms(1-4)
proof (induction t arbitrary: n off us its msg)
  case (Leaf ns v)
  then show ?case using assms(6) by (auto simp: list_all2_Nil)
next
  case (Ext ns t)
  let ?p = "nibbles path32"
  have w: "length ns \<le> n" "is_nibbles ns" "wf_trie (n - length ns) t" using Ext.prems(1) by simp_all
  show ?case
  proof (cases "take (length ns) (drop off ?p) = ns")
    case True
    obtain us' where us: "us = Ext ns t # us'" and rec: "walk t (drop (off + length ns) ?p) = (us', e, r)"
      using Ext.prems(3) True by (auto simp: add.commute split: prod.splits)
    obtain it its' where its: "its = it # its'" and it: "item_of (node_rlp K (Ext ns t)) it"
      and all: "list_all2 item_of (map (node_rlp K) us') its'"
      using Ext.prems(4) us by (auto simp: list_all2_Cons1)
    obtain c where c: "item_of (rlp_ref K (node_rlp K t)) c" and step: "\<forall>items msg off.
      trie_loop K path32 ?p (it # items) msg (K (rlp_enc (Lst [Str (hex_prefix False ns), rlp_ref K (node_rlp K t)]))) off =
       (let off = off + shared_loop (drop off ?p) ns in
        if items = [] then
          bindr (require (off = length ?p) (Revert ''Unexpected end of proof (leaf)'')) (\<lambda>_. rlp_toBytes c)
        else bindr (child_hash K c) (\<lambda>h. trie_loop K path32 ?p items ''Bad hash'' h off))"
      using trie_loop_short [OF it [unfolded node_rlp.simps] w(2), of K path32 ?p] by blast
    have "trie_loop K path32 ?p (its @ tl_items) msg (trie_root K (Ext ns t)) off =
        trie_loop K path32 ?p (its' @ tl_items) ''Bad hash'' (trie_root K t) (off + length ns)"
      using True assms(5) child_hash_node [OF c assms(7)]
      by (simp add: its trie_root_def step shared_loop_full [THEN iffD2] Let_def del: rlp_enc.simps)
    moreover have "off + length ns + (n - length ns) = 64" using w(1) Ext.prems(2) by simp
    ultimately show ?thesis using Ext.IH [OF w(3) _ rec all] by auto
  next
    case False
    with Ext.prems(3) have "us = []" "e = Ext ns t" "r = drop off ?p" by auto
    moreover from this Ext.prems(2) assms(6) have "length r = n" "64 - n = off" by simp_all
    moreover have "its = []" using Ext.prems(4) \<open>us = []\<close> by simp
    ultimately show ?thesis using Ext.prems(1) by auto
  qed
next
  case (Branch cs)
  let ?p = "nibbles path32"
  have w: "0 < n" "length cs = 16" using Branch.prems(1) by simp_all
  then have off: "off < 64" using Branch.prems(2) by simp
  then have d: "drop off ?p = ?p ! off # drop (Suc off) ?p"
    using assms(6) by (simp add: Cons_nth_drop_Suc)
  show ?case
  proof (cases "unat (?p ! off) < length cs \<and> cs ! unat (?p ! off) \<noteq> None")
    case True
    then obtain t where t: "cs ! unat (?p ! off) = Some t" "unat (?p ! off) < length cs" by auto
    then have m: "Some t \<in> set cs" by (metis nth_mem)
    obtain us' where us: "us = Branch cs # us'" and rec: "walk t (drop (Suc off) ?p) = (us', e, r)"
      using Branch.prems(3) t by (auto simp: d split: prod.splits)
    obtain it its' where its: "its = it # its'" and it: "item_of (node_rlp K (Branch cs)) it"
      and all: "list_all2 item_of (map (node_rlp K) us') its'"
      using Branch.prems(4) us by (auto simp: list_all2_Cons1)
    have wt: "wf_trie (n - 1) t" using Branch.prems(1) m by (auto split: option.splits)
    have "trie_loop K path32 ?p (its @ tl_items) msg (trie_root K (Branch cs)) off =
        trie_loop K path32 ?p (its' @ tl_items) ''Bad hash'' (trie_root K t) (Suc off)"
      using trie_loop_branch(1) [OF it w(2) assms(6,7), of "its' @ tl_items" off msg] assms(5) off t(1) by (simp add: its)
    moreover have "Suc off + (n - 1) = 64" using w(1) Branch.prems(2) by simp
    ultimately show ?thesis using Branch.IH [OF m _ wt _ rec all] by auto
  next
    case False
    with Branch.prems(3) have "us = []" "e = Branch cs" "r = drop off ?p" by (auto simp: d split: if_splits)
    moreover from this Branch.prems(2) assms(6) have "length r = n" "64 - n = off" by simp_all
    moreover have "its = []" using Branch.prems(4) \<open>us = []\<close> by simp
    ultimately show ?thesis using Branch.prems(1) by auto
  qed
qed

lemma decode_path: "length path32 = 32 \<Longrightarrow> decodeNibbles path32 0 = Inr (nibbles path32)"
  by (subst decodeNibbles_nibbles) auto

lemma trie_verify_walk:
  assumes "wf_trie 64 t" and "length path32 = 32" and "hash32 K"
    and "walk t (nibbles path32) = (us, e, r)" and "xs \<noteq> []"
    and "length (rlp_enc (Lst (map (node_rlp K) us @ xs))) < 2 ^ 32"
  shows "\<exists>items msg. list_all2 item_of xs items \<and>
    trie_verify K rest (rlp_enc (Lst (map (node_rlp K) us @ xs))) (trie_root K t) path32 =
      trie_loop K path32 (nibbles path32) items msg (trie_root K e) (64 - length r) \<and>
    drop (64 - length r) (nibbles path32) = r \<and> wf_trie (length r) e"
proof -
  obtain its where l: "rlp_toList (toRLPItem rest (rlp_enc (Lst (map (node_rlp K) us @ xs)))) = Inr its"
    "list_all2 item_of (map (node_rlp K) us @ xs) its"
    by (rule rlp_toList_item [OF item_of_toRLPItem [OF assms(6)]])
  then obtain us' items where its: "its = us' @ items" and u: "list_all2 item_of (map (node_rlp K) us) us'"
    and x: "list_all2 item_of xs items" by (auto simp: list_all2_append1)
  then have i: "items \<noteq> []" using assms(5) by auto
  have "trie_verify K rest (rlp_enc (Lst (map (node_rlp K) us @ xs))) (trie_root K t) path32 =
      trie_loop K path32 (nibbles path32) its ''Bad first proof part'' (trie_root K t) 0"
    unfolding trie_verify_def decode_path [OF assms(2)] l(1) using i by (simp add: its)
  moreover have "walk t (drop 0 (nibbles path32)) = (us, e, r)" using assms(4) by simp
  from trie_loop_walk [OF assms(1) _ this u i assms(2,3), of "''Bad first proof part''"]
  obtain msg where "trie_loop K path32 (nibbles path32) its ''Bad first proof part'' (trie_root K t) 0 =
      trie_loop K path32 (nibbles path32) items msg (trie_root K e) (64 - length r)"
    "drop (64 - length r) (nibbles path32) = r" "wf_trie (length r) e"
    unfolding its by auto
  ultimately show ?thesis using x by auto
qed

text \<open>The last node is the leaf that the path leads to.\<close>

lemma trie_loop_leaf:
  assumes "item_of (node_rlp K (Leaf ns v)) item" and "is_nibbles ns"
  shows "trie_loop K pth path [item] msg (trie_root K (Leaf ns v)) off =
     (if off + shared_loop (drop off path) ns = length path then Inr v
      else Inl (Revert ''Unexpected end of proof (leaf)''))"
    and "items \<noteq> [] \<Longrightarrow> trie_loop K pth path (item # items) msg (trie_root K (Leaf ns v)) off =
     (if length v = 32
      then trie_loop K pth path items ''Bad hash'' v (off + shared_loop (drop off path) ns)
      else Inl (Revert ''Invalid node''))"
proof -
  obtain c where c: "item_of (Str v) c" and step: "\<forall>items msg off.
      trie_loop K pth path (item # items) msg (K (rlp_enc (Lst [Str (hex_prefix True ns), Str v]))) off =
       (let off = off + shared_loop (drop off path) ns in
        if items = [] then
          bindr (require (off = length path) (Revert ''Unexpected end of proof (leaf)'')) (\<lambda>_. rlp_toBytes c)
        else bindr (child_hash K c) (\<lambda>h. trie_loop K pth path items ''Bad hash'' h off))"
    using trie_loop_short [OF assms(1) [unfolded node_rlp.simps] assms(2), of K pth path] by blast
  show "trie_loop K pth path [item] msg (trie_root K (Leaf ns v)) off =
     (if off + shared_loop (drop off path) ns = length path then Inr v
      else Inl (Revert ''Unexpected end of proof (leaf)''))"
    using rlp_toBytes_item [OF c] by (simp add: trie_root_def step require_def Let_def del: rlp_enc.simps)
  show "trie_loop K pth path (item # items) msg (trie_root K (Leaf ns v)) off =
     (if length v = 32
      then trie_loop K pth path items ''Bad hash'' v (off + shared_loop (drop off path) ns)
      else Inl (Revert ''Invalid node''))" if "items \<noteq> []"
    using that child_hash_string [OF c] by (simp add: trie_root_def step Let_def del: rlp_enc.simps)
qed

lemma is_nibbles_drop: "is_nibbles ns \<Longrightarrow> is_nibbles (drop n ns)"
  by (auto simp: is_nibbles_def list_all_iff dest: in_set_dropD)

lemma shared_loop_self: "shared_loop xs xs = length xs"
  by (simp add: shared_loop_full)

lemma path_end: "drop (64 - length r) (nibbles p) = r \<Longrightarrow> length p = 32 \<Longrightarrow> length r \<le> 64 \<and> 64 - length r + length r = 64"
proof -
  assume d: "drop (64 - length r) (nibbles p) = r" and l: "length p = 32"
  have "length (drop (64 - length r) (nibbles p)) = length r" by (simp only: d)
  then have "64 - (64 - length r) = length r" using l by (simp only: length_drop length_nibbles)
  then show ?thesis by linarith
qed

lemma trie_verify_genuine:
  assumes "wf_trie 64 t" and "length path32 = 32" and "hash32 K"
    and "trie_lookup t (nibbles path32) = Some v"
    and "length (rlp_enc (Lst (trie_proof K t (nibbles path32)))) < 2 ^ 32"
  shows "trie_verify K rest (rlp_enc (Lst (trie_proof K t (nibbles path32)))) (trie_root K t) path32 = Inr v"
proof -
  obtain us e r where w: "walk t (nibbles path32) = (us, e, r)" by (metis prod_cases3)
  with trie_lookup_walk [OF w] assms(4) have e: "e = Leaf r v" by (metis walk_found)
  have p: "trie_proof K t (nibbles path32) = map (node_rlp K) us @ [node_rlp K e]" by (simp add: trie_proof_def w)
  from trie_verify_walk [OF assms(1-3) w _ assms(5) [unfolded p], of rest]
  obtain item msg where i: "item_of (node_rlp K e) item" and v: "trie_verify K rest
      (rlp_enc (Lst (map (node_rlp K) us @ [node_rlp K e]))) (trie_root K t) path32 =
      trie_loop K path32 (nibbles path32) [item] msg (trie_root K e) (64 - length r)"
    and d: "drop (64 - length r) (nibbles path32) = r" and wf: "wf_trie (length r) e"
    by (auto simp: list_all2_Cons1)
  have "is_nibbles r" using wf e by simp
  from trie_loop_leaf(1) [OF i [unfolded e] this] show ?thesis
    unfolding p v unfolding e
    using d assms(2) path_end [OF d assms(2)] by (simp add: shared_loop_self)
qed

lemma trie_verify_leaf_as_extension:
  assumes "wf_trie 64 t" and "length path32 = 32" and "hash32 K"
    and "walk t (nibbles path32) = (us, Leaf ns v, r)"
    and "v = trie_root K (Leaf (drop (shared_loop r ns) r) w)"
    and "length (rlp_enc (Lst (map (node_rlp K) (us @ [Leaf ns v, Leaf (drop (shared_loop r ns) r) w])))) < 2 ^ 32"
  shows "trie_verify K rest (rlp_enc (Lst (map (node_rlp K) (us @ [Leaf ns v, Leaf (drop (shared_loop r ns) r) w]))))
    (trie_root K t) path32 = Inr w"
proof -
  let ?s = "shared_loop r ns" and ?p = "nibbles path32"
  let ?fake = "Leaf (drop ?s r) w"
  from trie_verify_walk [OF assms(1-4), of "map (node_rlp K) [Leaf ns v, ?fake]" rest] assms(6)
  obtain item item' msg where i: "item_of (node_rlp K (Leaf ns v)) item" "item_of (node_rlp K ?fake) item'"
    and v: "trie_verify K rest (rlp_enc (Lst (map (node_rlp K) (us @ [Leaf ns v, ?fake])))) (trie_root K t) path32 =
      trie_loop K path32 ?p [item, item'] msg (trie_root K (Leaf ns v)) (64 - length r)"
    and d: "drop (64 - length r) ?p = r" and wf: "wf_trie (length r) (Leaf ns v)"
    by (auto simp: list_all2_Cons1 simp del: rlp_enc.simps node_rlp.simps)
  have n: "is_nibbles ns" "is_nibbles (drop ?s r)"
    using wf is_nibbles_drop [OF is_nibbles_drop [OF nibbles_is_nibbles [of path32]], of ?s "64 - length r"]
    by (simp_all only: d wf_trie.simps)
  have l: "length v = 32" using assms(3,5) by (simp add: hash32_def trie_root_def)
  have o: "64 - length r + ?s + length (drop ?s r) = length ?p" "drop (64 - length r + ?s) ?p = drop ?s r"
    using path_end [OF d assms(2)] shared_loop_le(2) [of r ns] assms(2) arg_cong [OF d, of "drop ?s"]
    by (simp_all add: add.commute)
  show ?thesis
    unfolding v using trie_loop_leaf(2) [OF i(1) n(1), where items = "[item']" and pth = path32 and path = ?p and msg = msg and off = "64 - length r"]
      trie_loop_leaf(1) [OF i(2) n(2), where pth = path32 and path = ?p and msg = "''Bad hash''" and off = "64 - length r + ?s"] o
    by (simp add: l d assms(5) [symmetric] shared_loop_self)
qed

subsection \<open>Any proof\<close>

fun subtries :: "mpt \<Rightarrow> mpt list" where
  "subtries (Leaf ns v) = [Leaf ns v]"
| "subtries (Ext ns t) = Ext ns t # subtries t"
| "subtries (Branch cs) = Branch cs # concat (map (\<lambda>c. case c of None \<Rightarrow> [] | Some t \<Rightarrow> subtries t) cs)"

lemma subtries_self: "t \<in> set (subtries t)"
  by (cases t) simp_all

lemma subtries_child: "Some s \<in> set cs \<Longrightarrow> set (subtries s) \<subseteq> set (subtries (Branch cs))"
  by (auto intro!: bexI [of _ "Some s"])

text \<open>
  No item of the proof has the hash of a node of the trie without being that node: no collision of
  the hash among the strings at hand.
\<close>

definition no_collision :: "(byte list \<Rightarrow> byte list) \<Rightarrow> mpt \<Rightarrow> rlp_item \<Rightarrow> bool" where
  "no_collision K t item \<longleftrightarrow>
     (case rlp_toRLPBytes item of Inl _ \<Rightarrow> True
      | Inr bs \<Rightarrow> list_all (\<lambda>s. K bs = trie_root K s \<longrightarrow> bs = rlp_enc (node_rlp K s)) (subtries t))"

text \<open>No value stored in the trie has the length of a hash.\<close>

definition no_hash_values :: "mpt \<Rightarrow> bool" where
  "no_hash_values t \<longleftrightarrow>
     list_all (\<lambda>s. case s of Leaf ns v \<Rightarrow> length v \<noteq> 32 | Ext _ _ \<Rightarrow> True | Branch _ \<Rightarrow> True) (subtries t)"

definition holds_genuine :: "(byte list \<Rightarrow> byte list) \<Rightarrow> mpt \<Rightarrow> rlp_item \<Rightarrow> bool" where
  "holds_genuine K t item \<longleftrightarrow> (\<forall>s \<in> set (subtries t). \<forall>bs. rlp_toRLPBytes item = Inr bs \<longrightarrow>
     K bs = trie_root K s \<longrightarrow> item_of (node_rlp K s) item)"

lemma holds_genuine_mono: "holds_genuine K t item \<Longrightarrow> set (subtries s) \<subseteq> set (subtries t) \<Longrightarrow> holds_genuine K s item"
  by (auto simp: holds_genuine_def)

lemma no_hash_values_mono: "no_hash_values t \<Longrightarrow> set (subtries s) \<subseteq> set (subtries t) \<Longrightarrow> no_hash_values s"
  by (auto simp: no_hash_values_def list_all_iff)

lemma trie_loop_sound:
  assumes "trie_loop K path32 (nibbles path32) items msg (trie_root K t) off = Inr v" and "v \<noteq> []"
    and "wf_trie n t" and "off + n \<le> 64" and "length path32 = 32" and "hash32 K"
    and "list_all (holds_genuine K t) items" and "no_hash_values t"
  shows "off + n = 64 \<and> trie_lookup t (drop off (nibbles path32)) = Some v"
  using assms(1,3,4,7,8)
proof (induction items arbitrary: t n off msg)
  case Nil
  then show ?case by (simp add: trie_loop.simps)
next
  case (Cons item items)
  let ?p = "nibbles path32"
  obtain bs where "rlp_toRLPBytes item = Inr bs" "K bs = trie_root K t"
    using Cons.prems(1) by (auto simp: trie_loop.simps result_simps)
  then have i: "item_of (node_rlp K t) item"
    using Cons.prems(4) subtries_self [of t] by (auto simp: holds_genuine_def)
  have next_sound: "off' + m = 64 \<and> trie_lookup s (drop off' ?p) = Some v"
    if "trie_loop K path32 ?p items ''Bad hash'' (trie_root K s) off' = Inr v" "wf_trie m s" "off' + m \<le> 64"
      "set (subtries s) \<subseteq> set (subtries t)" for s m off'
    using Cons.IH [OF that(1-3) _ no_hash_values_mono [OF Cons.prems(5) that(4)]] Cons.prems(4)
      holds_genuine_mono [OF _ that(4)] by (auto simp: list_all_iff)
  show ?case
  proof (cases t)
    case (Leaf ns u)
    let ?s = "shared_loop (drop off ?p) ns"
    have w: "length ns = n" "is_nibbles ns" using Cons.prems(2) by (simp_all add: Leaf)
    note l = trie_loop_leaf [OF i [unfolded Leaf] w(2), where path = ?p and pth = path32]
    have "length u \<noteq> 32" using Cons.prems(5) by (simp add: no_hash_values_def Leaf)
    then have e: "items = []" using l(2) [of items msg off] Cons.prems(1) unfolding Leaf by fastforce
    then have r: "u = v" "off + ?s = 64"
      using Cons.prems(1) assms(5) by (auto simp: Leaf l(1) split: if_splits)
    then have "?s = length ns" "off + n = 64"
      using shared_loop_le(1) [of "drop off ?p" ns] w(1) Cons.prems(3) by linarith+
    moreover from this(2) have "take (length ns) (drop off ?p) = drop off ?p" using w(1) assms(5) by simp
    ultimately show ?thesis using r(1) by (simp add: shared_loop_full Leaf)
  next
    case (Ext ns s)
    let ?s = "shared_loop (drop off ?p) ns"
    have w: "length ns \<le> n" "is_nibbles ns" "wf_trie (n - length ns) s" and b: "\<exists>cs. s = Branch cs"
      using Cons.prems(2) by (simp_all add: Ext)
    obtain c where c: "item_of (rlp_ref K (node_rlp K s)) c" and step: "\<forall>items msg off.
      trie_loop K path32 ?p (item # items) msg (K (rlp_enc (Lst [Str (hex_prefix False ns), rlp_ref K (node_rlp K s)]))) off =
       (let off = off + shared_loop (drop off ?p) ns in
        if items = [] then
          bindr (require (off = length ?p) (Revert ''Unexpected end of proof (leaf)'')) (\<lambda>_. rlp_toBytes c)
        else bindr (child_hash K c) (\<lambda>h. trie_loop K path32 ?p items ''Bad hash'' h off))"
      using trie_loop_short [OF i [unfolded Ext node_rlp.simps] w(2), of K path32 ?p] by blast
    note r = Cons.prems(1) [unfolded Ext trie_root_def node_rlp.simps step [rule_format] Let_def]
    have le: "?s \<le> length ns" by (rule shared_loop_le)
    show ?thesis
    proof (cases "items = []")
      case True
      then have "off + ?s = 64" using r assms(5) by (auto simp: result_simps)
      moreover have "length ns < n" using w(3) b by auto
      ultimately show ?thesis using le Cons.prems(3) by linarith
    next
      case False
      then have l: "trie_loop K path32 ?p items ''Bad hash'' (trie_root K s) (off + ?s) = Inr v"
        using r child_hash_node [OF c assms(6)] by simp
      have "off + ?s + (n - length ns) \<le> 64" using le w(1) Cons.prems(3) by linarith
      from next_sound [OF l w(3) this]
      have "off + ?s + (n - length ns) = 64 \<and> trie_lookup s (drop (off + ?s) ?p) = Some v" by (auto simp: Ext)
      moreover from this have "?s = length ns" using le w(1) Cons.prems(3) by linarith
      ultimately show ?thesis using w(1) by (auto simp: Ext shared_loop_full add.commute)
    qed
  next
    case (Branch cs)
    have w: "0 < n" "length cs = 16" using Cons.prems(2) by (simp_all add: Branch)
    note b = trie_loop_branch [OF i [unfolded Branch] w(2) assms(5,6)]
    have ne: "items \<noteq> []" using b(3) Cons.prems(1) assms(2) by (auto simp: Branch)
    have off: "off < 64" using b(2) [OF ne] Cons.prems(1) by (auto simp: Branch)
    obtain s where s: "cs ! unat (?p ! off) = Some s"
      and l: "trie_loop K path32 ?p items ''Bad hash'' (trie_root K s) (Suc off) = Inr v"
      using Cons.prems(1) b(1) [OF ne off, of msg] by (auto simp: Branch split: option.splits)
    have k: "unat (?p ! off) < 16"
      using nibbles_is_nibbles [of path32] off assms(5) by (auto simp: is_nibbles_def list_all_length word_less_nat_alt)
    then have m: "Some s \<in> set cs" using s w(2) by (metis nth_mem)
    then have "wf_trie (n - 1) s" using Cons.prems(2) by (auto simp: Branch split: option.splits)
    from next_sound [OF l this] subtries_child [OF m] w(1) Cons.prems(3)
    have "Suc off + (n - 1) = 64 \<and> trie_lookup s (drop (Suc off) ?p) = Some v" by (simp add: Branch)
    moreover have "drop off ?p = ?p ! off # drop (Suc off) ?p" using off assms(5) by (simp add: Cons_nth_drop_Suc)
    ultimately show ?thesis using s w k by (auto simp: Branch)
  qed
qed

lemma trie_verify_binds:
  assumes "trie_verify K rest proofRLP (trie_root K t) path32 = Inr v" and "v \<noteq> []"
    and "wf_trie 64 t" and "length path32 = 32" and "hash32 K"
    and "\<forall>items. rlp_toList (toRLPItem rest proofRLP) = Inr items \<longrightarrow> list_all (no_collision K t) items"
    and "length proofRLP < 2 ^ 31" and "\<forall>s \<in> set (subtries t). length (rlp_enc (node_rlp K s)) < 2 ^ 31"
    and "no_hash_values t"
  shows "trie_lookup t (nibbles path32) = Some v"
proof -
  obtain items where l: "rlp_toList (toRLPItem rest proofRLP) = Inr items"
    and t: "trie_loop K path32 (nibbles path32) items ''Bad first proof part'' (trie_root K t) 0 = Inr v"
    using assms(1,2) by (auto simp: trie_verify_def decode_path [OF assms(4)] result_simps split: if_splits)
  have "holds_genuine K t item" if "item \<in> set items" for item
  proof -
    have "ri_ptr item < 2 ^ 31" using rlp_toList_ptr [OF l that] assms(7) by (simp add: toRLPItem_def)
    then have "ri_ptr item + length (rlp_enc (node_rlp K s)) < 2 ^ 32" if "s \<in> set (subtries t)" for s
      using assms(8) that by fastforce
    moreover have "no_collision K t item" using assms(6) l that by (simp add: list_all_iff)
    ultimately show ?thesis
      by (auto simp: holds_genuine_def no_collision_def list_all_iff intro!: item_of_toRLPBytes)
  qed
  then have "list_all (holds_genuine K t) items" by (simp add: list_all_iff)
  from trie_loop_sound [OF t assms(2,3) _ assms(4,5) this assms(9)] show ?thesis by simp
qed

end
