(* ===== verification/IBFT2_Client.thy ===== *)
theory IBFT2_Client
  imports Mock_Client Sol_IBFT2 Sol_Strings Trie_Proofs
begin

text \<open>
  \<^verbatim>\<open>contracts/core/IBFT2Client.sol\<close>, the light client of an IBFT 2.0 chain, with \<^verbatim>\<open>ECRecovery.sol\<close>.
  It accepts a header that enough of the validators it trusts and enough of the header's own
  validators have sealed, and proves values against the storage root of the IBC host, which it takes
  from the account proof of the header.

  Parameters: \<open>K\<close> is Keccak-256, \<open>ec\<close> the precompiled contract \<^verbatim>\<open>ecrecover\<close> (of hash, v, r and s; 0 when it
  fails), and \<open>J n\<close> what lies in memory behind the \<open>n\<close>-th array that is read as RLP.
\<close>

type_synonym ecrecover = "byte list \<Rightarrow> byte \<Rightarrow> byte list \<Rightarrow> byte list \<Rightarrow> address"

definition ECRecovery_recover :: "ecrecover \<Rightarrow> byte list \<Rightarrow> byte list \<Rightarrow> address" where
  "ECRecovery_recover ec hash sig =
     (if length sig \<noteq> 65 then 0
      else let r = take 32 sig; s = take 32 (drop 32 sig); v = sig ! 64;
               v = (if v < 27 then v + 27 else v)
           in if v \<noteq> 27 \<and> v \<noteq> 28 then 0 else ec hash v r s)"

definition toEthSignedMessageHash :: "(byte list \<Rightarrow> byte list) \<Rightarrow> byte list \<Rightarrow> byte list" where
  "toEthSignedMessageHash K hash = K (25 # str_bytes ''Ethereum Signed Message:'' @ 10 # str_bytes ''32'' @ hash)"

definition ibft2_url_clientState :: string where
  "ibft2_url_clientState = ''/ibc.lightclients.ibft2.v1.ClientState''"

definition ibft2_url_consensusState :: string where
  "ibft2_url_consensusState = ''/ibc.lightclients.ibft2.v1.ConsensusState''"

definition ibft2_url_header :: string where
  "ibft2_url_header = ''/ibc.lightclients.ibft2.v1.Header''"

definition ibft2_constructor :: "(byte list \<Rightarrow> byte list) \<Rightarrow> protoTypes" where
  "ibft2_constructor K =
     \<lparr>pts_clientState = K (str_bytes ibft2_url_clientState),
      pts_consensusState = K (str_bytes ibft2_url_consensusState),
      pts_header = K (str_bytes ibft2_url_header)\<rparr>"

record ParsedBesuHeader =
  pbh_base :: IBFT2_Header
  pbh_height :: "64 word"
  pbh_stateRoot :: "byte list"
  pbh_time :: "64 word"
  pbh_validators :: "rlp_item list"

record Fraction =
  fr_numerator :: "64 word"
  fr_denominator :: "64 word"

definition ACCOUNT_STORAGE_ROOT_INDEX :: nat where
  "ACCOUNT_STORAGE_ROOT_INDEX = 2"

subsection \<open>Reading states and headers\<close>

definition IBFT2_getClientState :: "host \<Rightarrow> string \<Rightarrow> sol_error + IBFT2_ClientState \<times> bool" where
  "IBFT2_getClientState h clientId =
     (let (clientStateBytes, found) = getClientState clientId h
      in if \<not> found then Inr (IBFT2_ClientState_new, False)
         else bindr (any_sol_decode clientStateBytes) (\<lambda>a.
              bindr (bcs_sol_decode (any_Value a)) (\<lambda>cs. Inr (cs, True))))"

definition IBFT2_getConsensusState :: "host \<Rightarrow> string \<Rightarrow> 64 word \<Rightarrow> sol_error + IBFT2_ConsensusState \<times> bool" where
  "IBFT2_getConsensusState h clientId height =
     (let (consensusStateBytes, found) = getConsensusState clientId height h
      in if \<not> found then Inr (IBFT2_ConsensusState_new, False)
         else bindr (any_sol_decode consensusStateBytes) (\<lambda>a.
              bindr (bcons_sol_decode (any_Value a)) (\<lambda>cs. Inr (cs, True))))"

definition IBFT2_mustGetClientState :: "host \<Rightarrow> string \<Rightarrow> sol_error + IBFT2_ClientState" where
  "IBFT2_mustGetClientState h clientId =
     bindr (IBFT2_getClientState h clientId) (\<lambda>(clientState, found).
     bindr (require found (Revert ''client state not found'')) (\<lambda>_. Inr clientState))"

definition IBFT2_mustGetConsensusState :: "host \<Rightarrow> string \<Rightarrow> 64 word \<Rightarrow> sol_error + IBFT2_ConsensusState" where
  "IBFT2_mustGetConsensusState h clientId height =
     bindr (IBFT2_getConsensusState h clientId height) (\<lambda>(consensusState, found).
     bindr (require found (Revert ''consensus state not found'')) (\<lambda>_. Inr consensusState))"

definition IBFT2_getTimestampAtHeight :: "host \<Rightarrow> string \<Rightarrow> 64 word \<Rightarrow> sol_error + 64 word \<times> bool" where
  "IBFT2_getTimestampAtHeight h clientId height =
     bindr (IBFT2_getConsensusState h clientId height) (\<lambda>(consensusState, found).
       if \<not> found then Inr (0, False) else Inr (bcons_Timestamp consensusState, True))"

definition IBFT2_getLatestHeight :: "host \<Rightarrow> string \<Rightarrow> sol_error + 64 word \<times> bool" where
  "IBFT2_getLatestHeight h clientId =
     bindr (IBFT2_getClientState h clientId) (\<lambda>(clientState, found).
       if \<not> found then Inr (0, False) else Inr (bcs_LatestHeight clientState, True))"

definition IBFT2_marshalClientState :: "IBFT2_ClientState \<Rightarrow> byte list" where
  "IBFT2_marshalClientState clientState =
     any_sol_encode \<lparr>any_TypeUrl = ibft2_url_clientState, any_Value = bcs_sol_encode clientState\<rparr>"

definition IBFT2_marshalConsensusState :: "IBFT2_ConsensusState \<Rightarrow> byte list" where
  "IBFT2_marshalConsensusState consensusState =
     any_sol_encode \<lparr>any_TypeUrl = ibft2_url_consensusState, any_Value = bcons_sol_encode consensusState\<rparr>"

definition IBFT2_unmarshalHeader ::
  "(byte list \<Rightarrow> byte list) \<Rightarrow> protoTypes \<Rightarrow> byte list \<Rightarrow> sol_error + IBFT2_Header \<times> bool"
where
  "IBFT2_unmarshalHeader K pts bz =
     bindr (any_sol_decode bz) (\<lambda>anyHeader.
     if K (str_bytes (any_TypeUrl anyHeader)) \<noteq> pts_header pts then Inr (IBFT2_Header_new, False)
     else bindr (bhdr_sol_decode (any_Value anyHeader)) (\<lambda>header. Inr (header, True)))"

definition IBFT2_unmarshalClientState ::
  "(byte list \<Rightarrow> byte list) \<Rightarrow> protoTypes \<Rightarrow> byte list \<Rightarrow> sol_error + IBFT2_ClientState \<times> bool"
where
  "IBFT2_unmarshalClientState K pts bz =
     bindr (any_sol_decode bz) (\<lambda>anyClientState.
     if K (str_bytes (any_TypeUrl anyClientState)) \<noteq> pts_clientState pts then Inr (IBFT2_ClientState_new, False)
     else bindr (bcs_sol_decode (any_Value anyClientState)) (\<lambda>clientState. Inr (clientState, True)))"

definition IBFT2_unmarshalConsensusState ::
  "(byte list \<Rightarrow> byte list) \<Rightarrow> protoTypes \<Rightarrow> byte list \<Rightarrow> sol_error + IBFT2_ConsensusState \<times> bool"
where
  "IBFT2_unmarshalConsensusState K pts bz =
     bindr (any_sol_decode bz) (\<lambda>anyConsensusState.
     if K (str_bytes (any_TypeUrl anyConsensusState)) \<noteq> pts_consensusState pts
     then Inr (IBFT2_ConsensusState_new, False)
     else bindr (bcons_sol_decode (any_Value anyConsensusState)) (\<lambda>consensusState. Inr (consensusState, True)))"

definition IBFT2_parseBesuHeader :: "(nat \<Rightarrow> nat \<Rightarrow> byte) \<Rightarrow> IBFT2_Header \<Rightarrow> sol_error + ParsedBesuHeader" where
  "IBFT2_parseBesuHeader J header =
     bindr (rlp_toList (toRLPItem (J 0) (bhdr_BesuHeaderRlp header))) (\<lambda>items.
     bindr (bindr (sol_index items 3) rlp_toBytes) (\<lambda>bs.
     bindr (toBytes32 bs) (\<lambda>stateRoot.
     bindr (sol_index items 8) (\<lambda>number.
     bindr (require (length items = 15) (Revert ''items length must be 15'')) (\<lambda>_.
     bindr (sol_index items 11) (\<lambda>time.
     bindr (bindr (sol_index items 12) rlp_toBytes) (\<lambda>extra.
     bindr (rlp_toList (toRLPItem (J 1) extra)) (\<lambda>items.
     bindr (require (length items = 4) (Revert ''extra length must be 4'')) (\<lambda>_.
     bindr (bindr (sol_index items 1) rlp_toList) (\<lambda>validators.
     Inr \<lparr>pbh_base = header, pbh_height = ucast (rlp_toUint number), pbh_stateRoot = stateRoot,
          pbh_time = ucast (rlp_toUint time), pbh_validators = validators\<rparr>))))))))))"

subsection \<open>The validity predicate\<close>

fun mark_trusted :: "address \<Rightarrow> byte list list \<Rightarrow> bool list \<Rightarrow> 8 word \<Rightarrow> sol_error + 8 word \<times> bool list" where
  "mark_trusted signer (val # vals) (m # marked) success =
     (if m then bindr (mark_trusted signer vals marked success) (\<lambda>(success, marked). Inr (success, m # marked))
      else bindr (toAddress val) (\<lambda>addr.
        if addr = signer
        then bindr (mark_trusted signer vals marked (success + 1)) (\<lambda>(success, marked). Inr (success, True # marked))
        else bindr (mark_trusted signer vals marked success) (\<lambda>(success, marked). Inr (success, m # marked))))"
| "mark_trusted signer vals marked success = Inr (success, marked)"

fun trusting_loop ::
  "ecrecover \<Rightarrow> byte list \<Rightarrow> byte list list \<Rightarrow> byte list list \<Rightarrow> bool list \<Rightarrow> 8 word \<Rightarrow> sol_error + 8 word \<times> bool list"
where
  "trusting_loop ec blkHash trustedVals [] marked success = Inr (success, marked)"
| "trusting_loop ec blkHash trustedVals (seal # seals) marked success =
     (if length seal = 0 then trusting_loop ec blkHash trustedVals seals marked success
      else bindr (mark_trusted (ECRecovery_recover ec blkHash seal) trustedVals marked success)
        (\<lambda>(success, marked). trusting_loop ec blkHash trustedVals seals marked success))"

definition verifyCommitSealsTrusting ::
  "ecrecover \<Rightarrow> byte list list \<Rightarrow> byte list list \<Rightarrow> byte list \<Rightarrow> Fraction \<Rightarrow> sol_error + bool"
where
  "verifyCommitSealsTrusting ec trustedVals seals blkHash trustLevel =
     bindr (trusting_loop ec blkHash trustedVals seals (replicate (length trustedVals) False) 0) (\<lambda>(success, marked).
     if fr_denominator trustLevel = 0 then Inl Invalid
     else Inr (unat success \<ge> length trustedVals * unat (fr_numerator trustLevel) div unat (fr_denominator trustLevel)))"

fun commit_seals_loop ::
  "ecrecover \<Rightarrow> byte list \<Rightarrow> rlp_item list \<Rightarrow> byte list list \<Rightarrow> nat \<Rightarrow> byte list list \<Rightarrow> 8 word \<Rightarrow>
   sol_error + byte list list \<times> 8 word"
where
  "commit_seals_loop ec blkHash untrustedVals [] i validators success = Inr (validators, success)"
| "commit_seals_loop ec blkHash untrustedVals (seal # seals) i validators success =
     bindr (bindr (sol_index untrustedVals i) rlp_toBytes) (\<lambda>val.
     let validators = validators[i := val] in
     if length seal = 0 then commit_seals_loop ec blkHash untrustedVals seals (i + 1) validators success
     else bindr (toAddress val) (\<lambda>addr.
       commit_seals_loop ec blkHash untrustedVals seals (i + 1) validators
         (if addr = ECRecovery_recover ec blkHash seal then success + 1 else success)))"

definition verifyCommitSeals ::
  "ecrecover \<Rightarrow> rlp_item list \<Rightarrow> byte list list \<Rightarrow> byte list \<Rightarrow> sol_error + byte list list \<times> bool"
where
  "verifyCommitSeals ec untrustedVals seals blkHash =
     bindr (commit_seals_loop ec blkHash untrustedVals seals 0 (replicate (length untrustedVals) []) 0)
       (\<lambda>(validators, success). Inr (validators, unat success > length untrustedVals * 2 div 3))"

definition IBFT2_verify ::
  "(byte list \<Rightarrow> byte list) \<Rightarrow> ecrecover \<Rightarrow> IBFT2_ConsensusState \<Rightarrow> ParsedBesuHeader \<Rightarrow> sol_error + byte list list \<times> bool"
where
  "IBFT2_verify K ec consensusState untrustedHeader =
     (let blkHash = K (bhdr_BesuHeaderRlp (pbh_base untrustedHeader)) in
      bindr (verifyCommitSealsTrusting ec (bcons_Validators consensusState) (bhdr_Seals (pbh_base untrustedHeader))
          blkHash \<lparr>fr_numerator = 1, fr_denominator = 3\<rparr>) (\<lambda>trusted.
      if \<not> trusted then Inr ([], False)
      else verifyCommitSeals ec (pbh_validators untrustedHeader) (bhdr_Seals (pbh_base untrustedHeader)) blkHash))"

definition IBFT2_verifyStorageProof ::
  "(byte list \<Rightarrow> byte list) \<Rightarrow> (nat \<Rightarrow> nat \<Rightarrow> byte) \<Rightarrow> address \<Rightarrow> byte list \<Rightarrow> byte list \<Rightarrow> sol_error + byte list"
where
  "IBFT2_verifyStorageProof K J account stateRoot accountStateProof =
     bindr (trie_verify K (J 2) accountStateProof stateRoot (K (be_bytes 20 (unat account)))) (\<lambda>accountRLP.
     bindr (rlp_toList (toRLPItem (J 3) accountRLP)) (\<lambda>items.
     bindr (sol_index items ACCOUNT_STORAGE_ROOT_INDEX) (\<lambda>item.
     Inr (be_bytes 32 (unat (rlp_toUint item))))))"

definition IBFT2_checkHeaderAndUpdateState ::
  "(byte list \<Rightarrow> byte list) \<Rightarrow> ecrecover \<Rightarrow> (nat \<Rightarrow> nat \<Rightarrow> byte) \<Rightarrow> protoTypes \<Rightarrow> host \<Rightarrow> string \<Rightarrow>
   byte list \<Rightarrow> byte list \<Rightarrow> sol_error + byte list \<times> byte list \<times> 64 word"
where
  "IBFT2_checkHeaderAndUpdateState K ec J pts h clientId clientStateBytes headerBytes =
     bindr (IBFT2_unmarshalClientState K pts clientStateBytes) (\<lambda>(clientState, ok).
     bindr (require ok (Revert ''client state is invalid'')) (\<lambda>_.
     bindr (IBFT2_unmarshalHeader K pts headerBytes) (\<lambda>(header, ok).
     bindr (require ok (Revert ''header is invalid'')) (\<lambda>_.
     bindr (IBFT2_getConsensusState h clientId (bhdr_TrustedHeight header)) (\<lambda>(consensusState, ok).
     bindr (require ok (Revert ''consensusState not found'')) (\<lambda>_.
     bindr (IBFT2_parseBesuHeader J header) (\<lambda>parsedHeader.
     bindr (require (pbh_height parsedHeader > bhdr_TrustedHeight header)
       (Revert (''header height '' @ [CHR 0xE2, CHR 0x89, CHR 0xA4] @ '' consensus state height''))) (\<lambda>_.
     bindr (IBFT2_verify K ec consensusState parsedHeader) (\<lambda>(validators, ok).
     bindr (require ok (Revert ''failed to verify the header'')) (\<lambda>_.
     bindr (toAddress (bcs_IbcStoreAddress clientState)) (\<lambda>account.
     bindr (IBFT2_verifyStorageProof K J account (pbh_stateRoot parsedHeader) (bhdr_AccountStateProof header)) (\<lambda>root.
     let consensusState = consensusState\<lparr>bcons_Timestamp := pbh_time parsedHeader, bcons_Root := root,
           bcons_Validators := validators\<rparr>;
         clientState = (if pbh_height parsedHeader > bcs_LatestHeight clientState
           then clientState\<lparr>bcs_LatestHeight := pbh_height parsedHeader\<rparr> else clientState)
     in Inr (IBFT2_marshalClientState clientState, IBFT2_marshalConsensusState consensusState,
             pbh_height parsedHeader)))))))))))))"

subsection \<open>State verification\<close>

definition IBFT2_validateArgs :: "IBFT2_ClientState \<Rightarrow> 64 word \<Rightarrow> byte list \<Rightarrow> byte list \<Rightarrow> bool" where
  "IBFT2_validateArgs cs height prefix prf =
     (if bcs_LatestHeight cs < height then False
      else if length prefix = 0 then False
      else if length prf = 0 then False
      else True)"

definition IBFT2_verifyMembership ::
  "(byte list \<Rightarrow> byte list) \<Rightarrow> (nat \<Rightarrow> nat \<Rightarrow> byte) \<Rightarrow> byte list \<Rightarrow> byte list \<Rightarrow> byte list \<Rightarrow> byte list \<Rightarrow> byte list \<Rightarrow>
   sol_error + bool"
where
  "IBFT2_verifyMembership K J prf root prefix slot expectedValue =
     bindr (trie_verify K (J 0) prf root (K slot)) (\<lambda>dataHash.
     bindr (rlp_toBytes (toRLPItem (J 1) dataHash)) (\<lambda>bs.
     bindr (toBytes32 bs) (\<lambda>value. Inr (expectedValue = value))))"

text \<open>
  What five of the six functions do around their slot and their value: \<open>False\<close> when there is no client
  state, when the arguments are not valid, or when there is no consensus state at the height.
\<close>

definition IBFT2_verify_at ::
  "(byte list \<Rightarrow> byte list) \<Rightarrow> (nat \<Rightarrow> nat \<Rightarrow> byte) \<Rightarrow> host \<Rightarrow> string \<Rightarrow> 64 word \<Rightarrow> byte list \<Rightarrow> byte list \<Rightarrow>
   byte list \<Rightarrow> byte list \<Rightarrow> sol_error + bool"
where
  "IBFT2_verify_at K J h clientId height prefix prf slot expectedValue =
     bindr (IBFT2_getClientState h clientId) (\<lambda>(clientState, found).
     if \<not> found then Inr False
     else if \<not> IBFT2_validateArgs clientState height prefix prf then Inr False
     else bindr (IBFT2_getConsensusState h clientId height) (\<lambda>(consensusState, found).
       if \<not> found then Inr False
       else bindr (toBytes32 (bcons_Root consensusState)) (\<lambda>root.
         IBFT2_verifyMembership K J prf root prefix slot expectedValue)))"

text \<open>The slots are computed by a library that only uses the hash of its environment.\<close>

definition K_env :: "(byte list \<Rightarrow> byte list) \<Rightarrow> env" where
  "K_env K = \<lparr>keccak256 = K, msg_sender = 0, block_number = 0, block_timestamp = 0\<rparr>"

definition IBFT2_verifyClientState ::
  "(byte list \<Rightarrow> byte list) \<Rightarrow> (nat \<Rightarrow> nat \<Rightarrow> byte) \<Rightarrow> host \<Rightarrow> string \<Rightarrow> 64 word \<Rightarrow> byte list \<Rightarrow> string \<Rightarrow>
   byte list \<Rightarrow> byte list \<Rightarrow> sol_error + bool"
where
  "IBFT2_verifyClientState K J h clientId height prefix counterpartyClientIdentifier prf clientStateBytes =
     IBFT2_verify_at K J h clientId height prefix prf
       (clientStateCommitmentSlot (K_env K) counterpartyClientIdentifier) (K clientStateBytes)"

definition IBFT2_verifyClientConsensusState ::
  "(byte list \<Rightarrow> byte list) \<Rightarrow> (nat \<Rightarrow> nat \<Rightarrow> byte) \<Rightarrow> host \<Rightarrow> string \<Rightarrow> 64 word \<Rightarrow> string \<Rightarrow> 64 word \<Rightarrow>
   byte list \<Rightarrow> byte list \<Rightarrow> byte list \<Rightarrow> sol_error + bool"
where
  "IBFT2_verifyClientConsensusState K J h clientId height counterpartyClientIdentifier consensusHeight prefix prf
       consensusStateBytes =
     IBFT2_verify_at K J h clientId height prefix prf
       (consensusStateCommitmentSlot (K_env K) counterpartyClientIdentifier consensusHeight) (K consensusStateBytes)"

definition IBFT2_verifyConnectionState ::
  "(byte list \<Rightarrow> byte list) \<Rightarrow> (nat \<Rightarrow> nat \<Rightarrow> byte) \<Rightarrow> host \<Rightarrow> string \<Rightarrow> 64 word \<Rightarrow> byte list \<Rightarrow> byte list \<Rightarrow>
   string \<Rightarrow> byte list \<Rightarrow> sol_error + bool"
where
  "IBFT2_verifyConnectionState K J h clientId height prefix prf connectionId connectionBytes =
     IBFT2_verify_at K J h clientId height prefix prf (connectionCommitmentSlot (K_env K) connectionId)
       (K connectionBytes)"

definition IBFT2_verifyChannelState ::
  "(byte list \<Rightarrow> byte list) \<Rightarrow> (nat \<Rightarrow> nat \<Rightarrow> byte) \<Rightarrow> host \<Rightarrow> string \<Rightarrow> 64 word \<Rightarrow> byte list \<Rightarrow> byte list \<Rightarrow>
   string \<Rightarrow> string \<Rightarrow> byte list \<Rightarrow> sol_error + bool"
where
  "IBFT2_verifyChannelState K J h clientId height prefix prf portId channelId channelBytes =
     IBFT2_verify_at K J h clientId height prefix prf (channelCommitmentSlot (K_env K) portId channelId)
       (K channelBytes)"

definition IBFT2_verifyPacketCommitment ::
  "(byte list \<Rightarrow> byte list) \<Rightarrow> (nat \<Rightarrow> nat \<Rightarrow> byte) \<Rightarrow> host \<Rightarrow> string \<Rightarrow> 64 word \<Rightarrow> byte list \<Rightarrow> byte list \<Rightarrow>
   string \<Rightarrow> string \<Rightarrow> 64 word \<Rightarrow> byte list \<Rightarrow> sol_error + bool"
where
  "IBFT2_verifyPacketCommitment K J h clientId height prefix prf portId channelId sequence commitmentBytes =
     IBFT2_verify_at K J h clientId height prefix prf
       (packetCommitmentSlot (K_env K) portId channelId sequence) commitmentBytes"

definition IBFT2_verifyPacketAcknowledgement ::
  "(byte list \<Rightarrow> byte list) \<Rightarrow> (nat \<Rightarrow> nat \<Rightarrow> byte) \<Rightarrow> host \<Rightarrow> string \<Rightarrow> 64 word \<Rightarrow> byte list \<Rightarrow> byte list \<Rightarrow>
   string \<Rightarrow> string \<Rightarrow> 64 word \<Rightarrow> byte list \<Rightarrow> sol_error + bool"
where
  "IBFT2_verifyPacketAcknowledgement K J h clientId height prefix prf portId channelId sequence acknowledgement =
     bindr (IBFT2_mustGetClientState h clientId) (\<lambda>clientState.
     if \<not> IBFT2_validateArgs clientState height prefix prf then Inr False
     else bindr (IBFT2_mustGetConsensusState h clientId height) (\<lambda>consensusState.
       bindr (toBytes32 (bcons_Root consensusState)) (\<lambda>root.
       IBFT2_verifyMembership K J prf root prefix
         (packetAcknowledgementCommitmentSlot (K_env K) portId channelId sequence)
         (makePacketAcknowledgementCommitment acknowledgement))))"

definition ibft2_client :: "(byte list \<Rightarrow> byte list) \<Rightarrow> ecrecover \<Rightarrow> (nat \<Rightarrow> nat \<Rightarrow> byte) \<Rightarrow> iclient" where
  "ibft2_client K ec J =
     \<lparr>ic_getTimestampAtHeight = IBFT2_getTimestampAtHeight,
      ic_getLatestHeight = IBFT2_getLatestHeight,
      ic_checkHeaderAndUpdateState = IBFT2_checkHeaderAndUpdateState K ec J (ibft2_constructor K),
      ic_verifyClientState = IBFT2_verifyClientState K J,
      ic_verifyClientConsensusState = IBFT2_verifyClientConsensusState K J,
      ic_verifyConnectionState = IBFT2_verifyConnectionState K J,
      ic_verifyChannelState = IBFT2_verifyChannelState K J,
      ic_verifyPacketCommitment = IBFT2_verifyPacketCommitment K J,
      ic_verifyPacketAcknowledgement = IBFT2_verifyPacketAcknowledgement K J\<rparr>"

end
