(* ===== verification/IBFT2_Headers.thy ===== *)
theory IBFT2_Headers
  imports IBFT2_Client
begin

text \<open>
  The steps of an update of the IBFT 2.0 client of \<open>IBFT2_Client\<close>: what the two loops over the seals
  count, what is read from a Besu header and from the proof of an account, and the stored states.
\<close>

subsection \<open>Seals\<close>

definition val_address :: "byte list \<Rightarrow> address" where
  "val_address v = of_nat (be_val v)"

definition sealed_by :: "ecrecover \<Rightarrow> byte list \<Rightarrow> byte list list \<Rightarrow> byte list \<Rightarrow> bool" where
  "sealed_by ec hash seals v \<longleftrightarrow>
     length v = 20 \<and> (\<exists>seal \<in> set seals. seal \<noteq> [] \<and> val_address v = ECRecovery_recover ec hash seal)"

definition seal_of :: "ecrecover \<Rightarrow> byte list \<Rightarrow> byte list \<Rightarrow> byte list \<Rightarrow> bool" where
  "seal_of ec hash seal v \<longleftrightarrow> length v = 20 \<and> seal \<noteq> [] \<and> val_address v = ECRecovery_recover ec hash seal"

lemma toAddress_simps [result_simps]:
  "toAddress v = Inr a \<longleftrightarrow> length v = 20 \<and> a = val_address v"
  by (auto simp: toAddress_def val_address_def result_simps)

definition trues :: "bool list \<Rightarrow> nat" where
  "trues bs = length (filter id bs)"

lemma trues_simps [simp]: "trues [] = 0" "trues (b # bs) = (if b then Suc (trues bs) else trues bs)"
  by (simp_all add: trues_def)

lemma trues_replicate [simp]: "trues (replicate n False) = 0"
  by (induction n) simp_all

definition marks :: "address \<Rightarrow> byte list list \<Rightarrow> bool list \<Rightarrow> bool list" where
  "marks signer vals marked = map2 (\<lambda>v m. m \<or> length v = 20 \<and> val_address v = signer) vals marked"

lemma mark_trusted_Inr:
  "mark_trusted signer vals marked s = Inr (s', marked') \<Longrightarrow> length marked = length vals \<Longrightarrow>
   marked' = marks signer vals marked \<and>
   s' + of_nat (trues marked) = s + of_nat (trues marked')"
proof (induction signer vals marked s arbitrary: s' marked' rule: mark_trusted.induct)
  case (1 signer val vals m marked s)
  show ?case
  proof (cases m)
    case True
    with 1 show ?thesis by (auto simp: marks_def result_simps algebra_simps)
  next
    case False
    with "1.prems" have l: "length val = 20" by (auto simp: result_simps)
    have a: "toAddress val = Inr (val_address val)" using l by (simp add: result_simps)
    show ?thesis
    proof (cases "val_address val = signer")
      case True
      with "1.prems" False a obtain M where "mark_trusted signer vals marked (s + 1) = Inr (s', M)" "marked' = True # M"
        by (auto simp: result_simps)
      with "1.IH"(2) [OF False a True this(1)] "1.prems"(2) l True False show ?thesis
        by (auto simp: marks_def algebra_simps)
    next
      case ne: False
      with "1.prems" False a obtain M where "mark_trusted signer vals marked s = Inr (s', M)" "marked' = m # M"
        by (auto simp: result_simps)
      with "1.IH"(3) [OF False a ne this(1)] "1.prems"(2) l ne False show ?thesis
        by (auto simp: marks_def)
    qed
  qed
qed (auto simp: marks_def)

lemma mark_trusted_returns:
  "list_all (\<lambda>v. length v = 20) vals \<Longrightarrow> \<exists>r. mark_trusted signer vals marked s = Inr r"
  by (induction signer vals marked s rule: mark_trusted.induct) (fastforce simp: result_simps)+

lemma length_marks: "length marked = length vals \<Longrightarrow> length (marks signer vals marked) = length vals"
  by (simp add: marks_def)

lemma add_chain: "s1 + a = s + b \<Longrightarrow> s' + b = s1 + d \<Longrightarrow> s' + a = s + d" for a b d s s1 s' :: "'a::ab_group_add"
proof -
  assume 1: "s1 + a = s + b" and 2: "s' + b = s1 + d"
  have "(s' + a) + b = (s' + b) + a" by (simp only: ac_simps)
  also have "\<dots> = (s1 + a) + d" unfolding 2 by (simp only: ac_simps)
  also have "\<dots> = (s + d) + b" unfolding 1 by (simp only: ac_simps)
  finally show ?thesis by simp
qed

lemma map2_map2: "map2 g xs (map2 f xs ys) = map2 (\<lambda>x y. g x (f x y)) xs ys"
  by (induction xs ys rule: list_induct2') simp_all

lemma trusting_loop_Inr:
  "trusting_loop ec hash vals seals marked s = Inr (s', marked') \<Longrightarrow> length marked = length vals \<Longrightarrow>
   marked' = map2 (\<lambda>v m. m \<or> sealed_by ec hash seals v) vals marked \<and>
   s' + of_nat (trues marked) = s + of_nat (trues marked')"
proof (induction seals arbitrary: marked s)
  case Nil
  have "map2 (\<lambda>v m. m) vals marked = marked" if "length marked = length vals" for vals :: "byte list list" and marked :: "bool list"
    using that by (induction marked vals rule: list_induct2) simp_all
  with Nil show ?case by (simp add: sealed_by_def)
next
  case (Cons seal seals)
  show ?case
  proof (cases "seal = []")
    case True
    with Cons show ?thesis by (simp add: sealed_by_def)
  next
    case False
    let ?a = "ECRecovery_recover ec hash seal"
    from Cons.prems False obtain s1 M where 1: "mark_trusted ?a vals marked s = Inr (s1, M)"
      and 2: "trusting_loop ec hash vals seals M s1 = Inr (s', marked')" by (auto simp: result_simps)
    have m: "M = marks ?a vals marked" and c: "s1 + of_nat (trues marked) = s + of_nat (trues M)"
      using mark_trusted_Inr [OF 1 Cons.prems(2)] by auto
    have "length M = length vals" using Cons.prems(2) by (simp add: m length_marks)
    from Cons.IH [OF 2 this] have
      m': "marked' = map2 (\<lambda>v m. m \<or> sealed_by ec hash seals v) vals M" and
      c': "s' + of_nat (trues M) = s1 + of_nat (trues marked')" by auto
    have "marked' = map2 (\<lambda>v m. m \<or> sealed_by ec hash (seal # seals) v) vals marked"
      unfolding m' m marks_def map2_map2
      by (rule arg_cong [of _ _ "\<lambda>f. map2 f vals marked"]) (use False in \<open>auto simp: sealed_by_def fun_eq_iff\<close>)
    moreover have "s' + of_nat (trues marked) = s + of_nat (trues marked')"
      by (rule add_chain [OF c c'])
    ultimately show ?thesis by simp
  qed
qed

lemma trusting_loop_returns:
  assumes "list_all (\<lambda>v. length v = 20) vals"
  shows "\<exists>r. trusting_loop ec hash vals seals marked s = Inr r"
proof (induction seals arbitrary: marked s)
  case (Cons seal seals)
  obtain s' M where "mark_trusted (ECRecovery_recover ec hash seal) vals marked s = Inr (s', M)"
    using mark_trusted_returns [OF assms] by fastforce
  with Cons.IH show ?case by simp
qed simp

lemma mark_trusted_bad:
  "j < length vals \<Longrightarrow> length marked = length vals \<Longrightarrow> \<not> marked ! j \<Longrightarrow> length (vals ! j) \<noteq> 20 \<Longrightarrow>
   mark_trusted signer vals marked s = Inl (Revert ''cannot convert into address'')"
proof (induction signer vals marked s arbitrary: j rule: mark_trusted.induct)
  case (1 signer val vals m marked s)
  show ?case
  proof (cases j)
    case 0
    with "1.prems" show ?thesis by (simp add: toAddress_def require_def)
  next
    case (Suc k)
    with "1.prems" have k: "k < length vals" "length marked = length vals" "\<not> marked ! k" "length (vals ! k) \<noteq> 20" by simp_all
    show ?thesis
    proof (cases m)
      case True
      with "1.IH"(1) [OF True k] show ?thesis by simp
    next
      case False
      show ?thesis
      proof (cases "length val = 20")
        case True
        then have a: "toAddress val = Inr (val_address val)" by (simp add: result_simps)
        show ?thesis using False a "1.IH"(2) [OF False a _ k] "1.IH"(3) [OF False a _ k] by simp
      next
        case bad: False
        with False show ?thesis by (simp add: toAddress_def require_def)
      qed
    qed
  qed
qed auto

lemma trusting_loop_bad:
  assumes "v \<in> set vals" and "length v \<noteq> 20" and "\<exists>seal \<in> set seals. seal \<noteq> []"
  shows "trusting_loop ec hash vals seals (replicate (length vals) False) s =
    Inl (Revert ''cannot convert into address'')"
  using assms(3)
proof (induction seals)
  case (Cons seal seals)
  obtain j where j: "j < length vals" "vals ! j = v" using assms(1) by (auto simp: in_set_conv_nth)
  have "mark_trusted (ECRecovery_recover ec hash seal) vals (replicate (length vals) False) s =
      Inl (Revert ''cannot convert into address'')"
    by (rule mark_trusted_bad [OF j(1)]) (use j assms(2) in simp_all)
  with Cons show ?case by simp
qed simp

text \<open>One third, in whole numbers, of the trusted validators, counted modulo 256.\<close>

definition trusted_signers :: "ecrecover \<Rightarrow> byte list \<Rightarrow> byte list list \<Rightarrow> byte list list \<Rightarrow> nat" where
  "trusted_signers ec hash seals vals = length (filter (sealed_by ec hash seals) vals)"

lemma trusted_signers_le: "trusted_signers ec hash seals vals \<le> length vals"
  by (simp add: trusted_signers_def)

lemma trues_map2: "trues (map2 (\<lambda>v m. m \<or> P v) vals (replicate (length vals) False)) = length (filter P vals)"
  by (induction vals) simp_all

lemma verifyCommitSealsTrusting_Inr:
  assumes "verifyCommitSealsTrusting ec vals seals hash \<lparr>fr_numerator = 1, fr_denominator = 3\<rparr> = Inr b"
  shows "b \<longleftrightarrow> length vals div 3 \<le> trusted_signers ec hash seals vals mod 256"
proof -
  from assms obtain s M where l: "trusting_loop ec hash vals seals (replicate (length vals) False) 0 = Inr (s, M)"
    and b: "b \<longleftrightarrow> length vals div 3 \<le> unat s"
    by (auto simp: verifyCommitSealsTrusting_def result_simps)
  have "s = of_nat (trusted_signers ec hash seals vals)"
    using trusting_loop_Inr [OF l] by (auto simp: trues_map2 trusted_signers_def)
  then show ?thesis by (simp add: b unat_byte_of_nat)
qed

lemma verifyCommitSealsTrusting_eq:
  assumes "list_all (\<lambda>v. length v = 20) vals"
  shows "verifyCommitSealsTrusting ec vals seals hash \<lparr>fr_numerator = 1, fr_denominator = 3\<rparr> =
    Inr (length vals div 3 \<le> trusted_signers ec hash seals vals mod 256)"
proof -
  obtain s M where "trusting_loop ec hash vals seals (replicate (length vals) False) 0 = Inr (s, M)"
    using trusting_loop_returns [OF assms] by fastforce
  then obtain b where b: "verifyCommitSealsTrusting ec vals seals hash \<lparr>fr_numerator = 1, fr_denominator = 3\<rparr> = Inr b"
    by (simp add: verifyCommitSealsTrusting_def)
  with verifyCommitSealsTrusting_Inr [OF b] show ?thesis by simp
qed

subsection \<open>The seals of the header's own validators\<close>

definition own_signers :: "ecrecover \<Rightarrow> byte list \<Rightarrow> byte list list \<Rightarrow> byte list list \<Rightarrow> nat" where
  "own_signers ec hash seals vals = length (filter (\<lambda>(seal, v). seal_of ec hash seal v) (zip seals vals))"

lemma commit_seals_loop_Inr:
  "commit_seals_loop ec hash its seals i validators s = Inr (vs, s') \<Longrightarrow> length validators = length its \<Longrightarrow>
   length vs = length its \<and> take i vs = take i validators \<and> drop (i + length seals) vs = drop (i + length seals) validators \<and>
   (seals \<noteq> [] \<longrightarrow> i + length seals \<le> length its) \<and>
   (\<forall>k < length seals. rlp_toBytes (its ! (i + k)) = Inr (vs ! (i + k))) \<and>
   s' = s + of_nat (own_signers ec hash seals (drop i vs))"
proof (induction seals arbitrary: i validators s)
  case Nil
  then show ?case by (simp add: own_signers_def)
next
  case (Cons seal seals)
  from Cons.prems obtain val where i: "i < length its" and v: "rlp_toBytes (its ! i) = Inr val"
    by (auto simp: result_simps)
  let ?s = "s + (if seal_of ec hash seal val then 1 else 0)"
  have r: "commit_seals_loop ec hash its seals (i + 1) (validators[i := val]) ?s = Inr (vs, s')"
    using Cons.prems(1) i v
    by (auto simp: sol_index_def seal_of_def toAddress_def val_address_def require_def Let_def split: if_splits)
  note IH = Cons.IH [OF r]
  have l: "length (validators[i := val]) = length its" using Cons.prems(2) by simp
  note IH = IH [OF l]
  have t: "take (Suc i) vs = take (Suc i) (validators[i := val])" using IH by simp
  have n: "vs ! i = val" using arg_cong [OF t, of "\<lambda>xs. xs ! i"] i Cons.prems(2) IH by simp
  have "take i vs = take i validators" using arg_cong [OF t, of "take i"] by (simp add: min_def)
  moreover have d: "drop i vs = val # drop (Suc i) vs" using i n IH by (metis Cons_nth_drop_Suc)
  moreover have "rlp_toBytes (its ! (i + k)) = Inr (vs ! (i + k))" if "k < length (seal # seals)" for k
  proof (cases k)
    case 0
    then show ?thesis using v n by simp
  next
    case (Suc j)
    then show ?thesis using IH that by simp
  qed
  moreover have "s' = s + of_nat (own_signers ec hash (seal # seals) (drop i vs))"
    using IH by (simp add: d own_signers_def add.assoc)
  ultimately show ?case using IH i by (cases "seals = []") simp_all
qed

lemma verifyCommitSeals_Inr:
  assumes "verifyCommitSeals ec its seals hash = Inr (vs, ok)"
  shows "length vs = length its" and "length seals \<le> length its"
    and "ok \<longleftrightarrow> length its * 2 div 3 < own_signers ec hash seals vs mod 256"
    and "k < length seals \<Longrightarrow> rlp_toBytes (its ! k) = Inr (vs ! k)"
    and "drop (length seals) vs = replicate (length its - length seals) []"
proof -
  from assms obtain s where l: "commit_seals_loop ec hash its seals 0 (replicate (length its) []) 0 = Inr (vs, s)"
    and ok: "ok \<longleftrightarrow> length its * 2 div 3 < unat s" by (auto simp: verifyCommitSeals_def result_simps)
  note c = commit_seals_loop_Inr [OF l]
  show "length vs = length its" "k < length seals \<Longrightarrow> rlp_toBytes (its ! k) = Inr (vs ! k)"
    "drop (length seals) vs = replicate (length its - length seals) []" using c by auto
  show "length seals \<le> length its" using c by (cases "seals = []") auto
  show "ok \<longleftrightarrow> length its * 2 div 3 < own_signers ec hash seals vs mod 256" using c by (simp add: ok unat_byte_of_nat)
qed

lemma below_mod_256: "a < b mod 256 \<Longrightarrow> a < b \<and> a < 255" for a b :: nat
proof -
  assume a: "a < b mod 256"
  have "b mod 256 \<le> b" "b mod 256 < 256" by (rule mod_less_eq_dividend, rule mod_less_divisor) simp
  from less_le_trans [OF a this(1)] le_less_trans [OF Suc_leI [OF a] this(2)]
  show ?thesis by simp
qed

lemma verifyCommitSeals_True:
  assumes "verifyCommitSeals ec its seals hash = Inr (vs, True)"
  shows "length its * 2 div 3 < own_signers ec hash seals vs" and "length its * 2 div 3 < 255"
  using below_mod_256 verifyCommitSeals_Inr(3) [OF assms] by blast+

lemma commit_seals_loop_returns:
  assumes "\<forall>i < length its. \<exists>v. rlp_toBytes (its ! i) = Inr v \<and> length v = 20"
  shows "i + length seals \<le> length its \<Longrightarrow> \<exists>r. commit_seals_loop ec hash its seals i validators s = Inr r"
proof (induction seals arbitrary: i validators s)
  case (Cons seal seals)
  then have i: "i < length its" by simp
  with assms obtain v where v: "rlp_toBytes (its ! i) = Inr v" "length v = 20" by blast
  then have a: "toAddress v = Inr (val_address v)" by (simp add: result_simps)
  have "\<exists>r. commit_seals_loop ec hash its seals (i + 1) (validators[i := v]) s = Inr r" for s
    by (rule Cons.IH) (use Cons.prems in simp)
  with v(1) a i show ?case by (simp add: sol_index_def Let_def)
qed simp

text \<open>For items that hold the validators, and no more seals than these.\<close>

lemma verifyCommitSeals_prefix:
  assumes "list_all2 item_of (map Str vals) its" and "list_all (\<lambda>v. length v = 20) vals"
    and "length seals \<le> length vals"
  shows "verifyCommitSeals ec its seals hash =
    Inr (take (length seals) vals @ replicate (length vals - length seals) [],
      length vals * 2 div 3 < own_signers ec hash seals vals mod 256)"
proof -
  have l: "length its = length vals" using list_all2_lengthD [OF assms(1)] by simp
  have b: "rlp_toBytes (its ! i) = Inr (vals ! i)" if "i < length vals" for i
    using list_all2_nthD [OF assms(1), of i] that by (simp add: rlp_toBytes_item)
  then have "\<forall>i < length its. \<exists>v. rlp_toBytes (its ! i) = Inr v \<and> length v = 20"
    using assms(2) l by (auto simp: list_all_length)
  from commit_seals_loop_returns [OF this, of 0 seals] assms(3) l
  obtain vs s where "commit_seals_loop ec hash its seals 0 (replicate (length its) []) 0 = Inr (vs, s)" by fastforce
  then obtain ok where v: "verifyCommitSeals ec its seals hash = Inr (vs, ok)" by (simp add: verifyCommitSeals_def)
  note i = verifyCommitSeals_Inr [OF v]
  have "take (length seals) vs = take (length seals) vals"
    by (rule nth_equalityI) (use i(1) i(4) b assms(3) l in \<open>auto\<close>)
  then have vs: "vs = take (length seals) vals @ replicate (length vals - length seals) []"
    using i(5) l by (metis append_take_drop_id)
  have "zip seals vs = zip seals vals"
    unfolding vs using assms(3) by (simp add: list_eq_iff_nth_eq nth_append)
  with v i(3) l show ?thesis by (simp add: vs own_signers_def)
qed

lemma verifyCommitSeals_eq:
  assumes "list_all2 item_of (map Str vals) its" and "list_all (\<lambda>v. length v = 20) vals"
    and "length seals = length vals"
  shows "verifyCommitSeals ec its seals hash =
    Inr (vals, length vals * 2 div 3 < own_signers ec hash seals vals mod 256)"
  using verifyCommitSeals_prefix [OF assms(1,2)] assms(3) by simp

lemma own_signers_le: "own_signers ec hash seals vals \<le> length seals" "own_signers ec hash seals vals \<le> length vals"
  using length_filter_le [of "\<lambda>(seal, v). seal_of ec hash seal v" "zip seals vals"] by (auto simp: own_signers_def)

subsection \<open>Headers\<close>

definition uint_bytes :: "64 word \<Rightarrow> byte list" where
  "uint_bytes w = be_bytes (if w = 0 then 0 else byte_count (unat w)) (unat w)"

text \<open>
  The RLP fields of a Besu header as far as the client looks at them: state root, height, time and
  the validators in the extra data, from which the commit seals are left out.
\<close>

definition besu_fields :: "rlp list \<Rightarrow> byte list \<Rightarrow> 64 word \<Rightarrow> 64 word \<Rightarrow> byte list list \<Rightarrow> bool" where
  "besu_fields fs stateRoot number time vals \<longleftrightarrow>
     length fs = 15 \<and> fs ! 3 = Str stateRoot \<and> length stateRoot = 32 \<and> fs ! 8 = Str (uint_bytes number) \<and>
     fs ! 11 = Str (uint_bytes time) \<and> list_all (\<lambda>v. length v = 20) vals \<and>
     (\<exists>vanity vote round. fs ! 12 = Str (rlp_enc (Lst [vanity, Lst (map Str vals), vote, round])))"

lemma byte_count_64: "byte_count (unat (w :: 64 word)) \<le> 8"
  by (rule byte_count_bound) (use unsigned_less [of w] in simp_all)

lemma uint_bytes: "length (uint_bytes w) \<le> 32" "be_val (uint_bytes w) = unat w"
proof -
  show "length (uint_bytes w) \<le> 32" using byte_count_64 [of w] by (simp add: uint_bytes_def)
  show "be_val (uint_bytes w) = unat w"
    using byte_count_enough [of "unat w"] by (simp add: uint_bytes_def be_val_be_bytes)
qed

lemma rlp_toUint_uint_bytes:
  assumes "item_of (Str (uint_bytes w)) it"
  shows "ucast (rlp_toUint it) = w"
proof -
  have "rlp_toUint it = ucast w" unfolding rlp_toUint_item [OF assms uint_bytes(1)] uint_bytes(2)
    by (simp add: word_unat_eq_iff unsigned_of_nat unsigned_ucast_eq)
  moreover have "ucast (ucast w :: 256 word) = w" by (rule bit_word_eqI) (auto simp: bit_unsigned_iff)
  ultimately show ?thesis by simp
qed

lemma toBytes32_Inr: "length bs = 32 \<Longrightarrow> toBytes32 bs = Inr bs"
  by (simp add: toBytes32_def require_def)

lemma IBFT2_parseBesuHeader_fields:
  assumes "besu_fields fs stateRoot number time vals" and "bhdr_BesuHeaderRlp header = rlp_enc (Lst fs)"
    and "length (rlp_enc (Lst fs)) < 2 ^ 32"
  shows "\<exists>its. list_all2 item_of (map Str vals) its \<and>
    IBFT2_parseBesuHeader J header = Inr \<lparr>pbh_base = header, pbh_height = number, pbh_stateRoot = stateRoot,
      pbh_time = time, pbh_validators = its\<rparr>"
proof -
  from assms(1) obtain vanity vote round where f: "length fs = 15" "fs ! 3 = Str stateRoot" "length stateRoot = 32"
    "fs ! 8 = Str (uint_bytes number)" "fs ! 11 = Str (uint_bytes time)"
    and x: "fs ! 12 = Str (rlp_enc (Lst [vanity, Lst (map Str vals), vote, round]))" by (auto simp: besu_fields_def)
  let ?extra = "rlp_enc (Lst [vanity, Lst (map Str vals), vote, round])"
  obtain its where l: "rlp_toList (toRLPItem (J 0) (rlp_enc (Lst fs))) = Inr its" "list_all2 item_of fs its"
    by (rule rlp_toList_item [OF item_of_toRLPItem [OF assms(3)]])
  have n: "length its = 15" using list_all2_lengthD [OF l(2)] f(1) by simp
  have i: "item_of (fs ! k) (its ! k)" if "k < 15" for k using list_all2_nthD [OF l(2), of k] that f(1) by simp
  have s: "rlp_toBytes (its ! 3) = Inr stateRoot" using i [of 3] by (simp add: f(2) rlp_toBytes_item)
  have h: "ucast (rlp_toUint (its ! 8)) = number" "ucast (rlp_toUint (its ! 11)) = time"
    using i [of 8] i [of 11] by (simp_all add: f rlp_toUint_uint_bytes)
  have e: "rlp_toBytes (its ! 12) = Inr ?extra" using i [of 12] by (simp add: x rlp_toBytes_item del: rlp_enc.simps)
  have "length ?extra < 2 ^ 32" using rlp_string_item(3) [of ?extra "its ! 12"] i [of 12] by (simp add: x del: rlp_enc.simps)
  from rlp_toList_item [OF item_of_toRLPItem [OF this, of "J 1"]]
  obtain xs where xs: "rlp_toList (toRLPItem (J 1) ?extra) = Inr xs" "list_all2 item_of [vanity, Lst (map Str vals), vote, round] xs"
    by blast
  then obtain a b c d where abcd: "xs = [a, b, c, d]" "item_of (Lst (map Str vals)) b" by (auto simp: list_all2_Cons1)
  obtain vs where vs: "rlp_toList b = Inr vs" "list_all2 item_of (map Str vals) vs" by (rule rlp_toList_item [OF abcd(2)])
  have "IBFT2_parseBesuHeader J header = Inr \<lparr>pbh_base = header, pbh_height = number, pbh_stateRoot = stateRoot,
      pbh_time = time, pbh_validators = vs\<rparr>"
    unfolding IBFT2_parseBesuHeader_def assms(2)
    by (simp add: l(1) n sol_index_def s toBytes32_Inr [OF f(3)] require_def e xs(1) [unfolded One_nat_def] abcd(1) vs(1) h del: rlp_enc.simps)
  with vs(2) show ?thesis by blast
qed

subsection \<open>The account of the IBC host\<close>

lemma val_address_bytes: "length a = 20 \<Longrightarrow> be_bytes 20 (unat (val_address a)) = a"
proof -
  assume l: "length a = 20"
  have "be_val a < 2 ^ 160" using be_val_less [of a] by (simp add: l)
  then have "unat (val_address a) = be_val a" by (simp add: val_address_def unsigned_of_nat take_bit_nat_eq_self)
  then show ?thesis using be_bytes_be_val [of a] l by simp
qed

lemma word_bytes: "length bs = 32 \<Longrightarrow> be_bytes 32 (unat (of_nat (be_val bs) :: 256 word)) = bs"
proof -
  assume l: "length bs = 32"
  have "be_val bs < 2 ^ 256" using be_val_less [of bs] by (simp add: l)
  then have "unat (of_nat (be_val bs) :: 256 word) = be_val bs" by (simp add: unsigned_of_nat take_bit_nat_eq_self)
  then show ?thesis using be_bytes_be_val [of bs] l by simp
qed

text \<open>
  A trie of accounts gives the account of an address: nonce, balance, storage root and code hash. The
  proof fits into memory.
\<close>

definition has_account :: "(byte list \<Rightarrow> byte list) \<Rightarrow> mpt \<Rightarrow> byte list \<Rightarrow> byte list \<Rightarrow> bool" where
  "has_account K t a root \<longleftrightarrow> wf_trie 64 t \<and> length a = 20 \<and> length root = 32 \<and>
     length (rlp_enc (Lst (trie_proof K t (nibbles (K a))))) < 2 ^ 32 \<and>
     (\<exists>nonce balance codeHash. trie_lookup t (nibbles (K a)) = Some (rlp_enc (Lst [nonce, balance, Str root, codeHash])) \<and>
       length (rlp_enc (Lst [nonce, balance, Str root, codeHash])) < 2 ^ 32)"

definition account_proof :: "(byte list \<Rightarrow> byte list) \<Rightarrow> mpt \<Rightarrow> byte list \<Rightarrow> byte list" where
  "account_proof K t a = rlp_enc (Lst (trie_proof K t (nibbles (K a))))"

lemma verify_genuine:
  assumes "wf_trie 64 t" and "hash32 K" and "trie_lookup t (nibbles (K k)) = Some v"
    and "length (rlp_enc (Lst (trie_proof K t (nibbles (K k))))) < 2 ^ 32"
  shows "trie_verify K rest (rlp_enc (Lst (trie_proof K t (nibbles (K k))))) (trie_root K t) (K k) = Inr v"
  by (rule trie_verify_genuine) (use assms in \<open>simp_all add: hash32_def del: rlp_enc.simps\<close>)

lemma IBFT2_verifyStorageProof_account:
  assumes "has_account K t a root" and "hash32 K"
  shows "IBFT2_verifyStorageProof K J (val_address a) (trie_root K t) (account_proof K t a) = Inr root"
proof -
  from assms(1) obtain x y z where a: "wf_trie 64 t" "length a = 20" "length root = 32"
    "length (rlp_enc (Lst (trie_proof K t (nibbles (K a))))) < 2 ^ 32"
    "trie_lookup t (nibbles (K a)) = Some (rlp_enc (Lst [x, y, Str root, z]))"
    and s: "length (rlp_enc (Lst [x, y, Str root, z])) < 2 ^ 32"
    by (auto simp: has_account_def simp del: rlp_enc.simps)
  obtain its where its: "rlp_toList (toRLPItem (J 3) (rlp_enc (Lst [x, y, Str root, z]))) = Inr its"
    "list_all2 item_of [x, y, Str root, z] its"
    by (rule rlp_toList_item [OF item_of_toRLPItem [OF s]])
  then obtain p q r u where i: "its = [p, q, r, u]" "item_of (Str root) r" by (auto simp: list_all2_Cons1)
  show ?thesis
    using verify_genuine [OF a(1) assms(2) a(5,4), of "J 2"] its(1) rlp_toUint_item [OF i(2)] word_bytes [OF a(3)] a(3)
    by (simp add: IBFT2_verifyStorageProof_def val_address_bytes [OF a(2)] account_proof_def sol_index_def i(1)
        ACCOUNT_STORAGE_ROOT_INDEX_def del: rlp_enc.simps)
qed

subsection \<open>Stored states\<close>

definition ibft2_reads_client :: "byte list \<Rightarrow> IBFT2_ClientState \<Rightarrow> bool" where
  "ibft2_reads_client bz cs \<longleftrightarrow>
     (\<exists>v. any_sol_decode bz = Inr \<lparr>any_TypeUrl = ibft2_url_clientState, any_Value = v\<rparr> \<and> bcs_sol_decode v = Inr cs)"

definition ibft2_reads_consensus :: "byte list \<Rightarrow> IBFT2_ConsensusState \<Rightarrow> bool" where
  "ibft2_reads_consensus bz c \<longleftrightarrow> (\<exists>a. any_sol_decode bz = Inr a \<and> bcons_sol_decode (any_Value a) = Inr c)"

definition ibft2_reads_header :: "byte list \<Rightarrow> IBFT2_Header \<Rightarrow> bool" where
  "ibft2_reads_header bz hdr \<longleftrightarrow>
     (\<exists>v. any_sol_decode bz = Inr \<lparr>any_TypeUrl = ibft2_url_header, any_Value = v\<rparr> \<and> bhdr_sol_decode v = Inr hdr)"

lemma length_ibft2_urls:
  "length ibft2_url_clientState < 2 ^ 64" "length ibft2_url_consensusState < 2 ^ 64" "length ibft2_url_header < 2 ^ 64"
  by (simp_all add: ibft2_url_clientState_def ibft2_url_consensusState_def ibft2_url_header_def)

lemma ibft2_reads_go:
  "length (IBFT2_ClientState_enc cs) < 2 ^ 64 \<Longrightarrow>
   ibft2_reads_client (Any_enc \<lparr>any_TypeUrl = ibft2_url_clientState, any_Value = IBFT2_ClientState_enc cs\<rparr>) cs"
  "length (IBFT2_ConsensusState_enc c) < 2 ^ 64 \<Longrightarrow>
   ibft2_reads_consensus (Any_enc \<lparr>any_TypeUrl = ibft2_url_consensusState, any_Value = IBFT2_ConsensusState_enc c\<rparr>) c"
  "length (IBFT2_Header_enc hdr) < 2 ^ 64 \<Longrightarrow>
   ibft2_reads_header (Any_enc \<lparr>any_TypeUrl = ibft2_url_header, any_Value = IBFT2_Header_enc hdr\<rparr>) hdr"
  using length_ibft2_urls
  by (simp_all add: ibft2_reads_client_def ibft2_reads_consensus_def ibft2_reads_header_def any_sol_decode_enc
      bcs_sol_decode_enc bcons_sol_decode_enc bhdr_sol_decode_enc)

lemma ibft2_reads_sol:
  "length (IBFT2_ClientState_enc cs) < 2 ^ 64 \<Longrightarrow> ibft2_reads_client (IBFT2_marshalClientState cs) cs"
  "length (IBFT2_ConsensusState_enc c) < 2 ^ 64 \<Longrightarrow> ibft2_reads_consensus (IBFT2_marshalConsensusState c) c"
  using length_ibft2_urls
  by (simp_all add: ibft2_reads_client_def ibft2_reads_consensus_def IBFT2_marshalClientState_def
      IBFT2_marshalConsensusState_def any_sol_decode_encode bcs_sol_decode_enc bcons_sol_decode_enc)

lemma ibft2_marshal_nonempty: "IBFT2_marshalClientState cs \<noteq> []" "IBFT2_marshalConsensusState c \<noteq> []"
  by (simp_all add: IBFT2_marshalClientState_def IBFT2_marshalConsensusState_def any_sol_encode_nonempty)

lemma IBFT2_getClientState_reads:
  "clientStates h i \<noteq> [] \<Longrightarrow> ibft2_reads_client (clientStates h i) cs \<Longrightarrow> IBFT2_getClientState h i = Inr (cs, True)"
  by (auto simp: IBFT2_getClientState_def getClientState_def ibft2_reads_client_def)

lemma IBFT2_getConsensusState_reads:
  "consensusStates h i n \<noteq> [] \<Longrightarrow> ibft2_reads_consensus (consensusStates h i n) c \<Longrightarrow>
   IBFT2_getConsensusState h i n = Inr (c, True)"
  by (auto simp: IBFT2_getConsensusState_def getConsensusState_def ibft2_reads_consensus_def)

subsection \<open>Updates\<close>

lemma IBFT2_verify_accepts:
  assumes "list_all2 item_of (map Str vals) (pbh_validators p)" and "list_all (\<lambda>v. length v = 20) vals"
    and "length (bhdr_Seals (pbh_base p)) = length vals" and "length vals < 256"
    and "2 * length vals < 3 * own_signers ec (K (bhdr_BesuHeaderRlp (pbh_base p))) (bhdr_Seals (pbh_base p)) vals"
    and "list_all (\<lambda>v. length v = 20) (bcons_Validators c)" and "length (bcons_Validators c) < 256"
    and "length (bcons_Validators c) div 3 \<le>
      trusted_signers ec (K (bhdr_BesuHeaderRlp (pbh_base p))) (bhdr_Seals (pbh_base p)) (bcons_Validators c)"
  shows "IBFT2_verify K ec c p = Inr (vals, True)"
proof -
  let ?h = "K (bhdr_BesuHeaderRlp (pbh_base p))" and ?s = "bhdr_Seals (pbh_base p)"
  have "trusted_signers ec ?h ?s (bcons_Validators c) < 256"
    using assms(7) trusted_signers_le [of ec ?h ?s "bcons_Validators c"] by linarith
  moreover have "own_signers ec ?h ?s vals < 256"
    using own_signers_le(2) [of ec ?h ?s vals] assms(4) by linarith
  moreover have "length vals * 2 div 3 < own_signers ec ?h ?s vals" using assms(5) by linarith
  ultimately show ?thesis
    using assms(8) by (simp add: IBFT2_verify_def Let_def verifyCommitSealsTrusting_eq [OF assms(6)]
        verifyCommitSeals_eq [OF assms(1-3)])
qed

lemma IBFT2_checkHeader_accepts:
  assumes "ibft2_reads_client bz cs" and "ibft2_reads_header hb hdr"
    and "consensusStates h i (bhdr_TrustedHeight hdr) \<noteq> []"
    and "ibft2_reads_consensus (consensusStates h i (bhdr_TrustedHeight hdr)) c"
    and "IBFT2_parseBesuHeader J hdr = Inr p" and "bhdr_TrustedHeight hdr < pbh_height p"
    and "IBFT2_verify K ec c p = Inr (vals, True)" and "length (bcs_IbcStoreAddress cs) = 20"
    and "IBFT2_verifyStorageProof K J (val_address (bcs_IbcStoreAddress cs)) (pbh_stateRoot p)
      (bhdr_AccountStateProof hdr) = Inr root"
  shows "IBFT2_checkHeaderAndUpdateState K ec J (ibft2_constructor K) h i bz hb =
    Inr (IBFT2_marshalClientState (cs\<lparr>bcs_LatestHeight := max (bcs_LatestHeight cs) (pbh_height p)\<rparr>),
      IBFT2_marshalConsensusState \<lparr>bcons_Timestamp = pbh_time p, bcons_Root = root, bcons_Validators = vals\<rparr>, pbh_height p)"
proof -
  have u: "IBFT2_unmarshalClientState K (ibft2_constructor K) bz = Inr (cs, True)"
    "IBFT2_unmarshalHeader K (ibft2_constructor K) hb = Inr (hdr, True)"
    using assms(1,2) by (auto simp: ibft2_reads_client_def ibft2_reads_header_def IBFT2_unmarshalClientState_def
        IBFT2_unmarshalHeader_def ibft2_constructor_def)
  have a: "toAddress (bcs_IbcStoreAddress cs) = Inr (val_address (bcs_IbcStoreAddress cs))"
    using assms(8) by (simp add: result_simps)
  have e: "c\<lparr>bcons_Timestamp := t, bcons_Root := r, bcons_Validators := vs\<rparr> =
      \<lparr>bcons_Timestamp = t, bcons_Root = r, bcons_Validators = vs\<rparr>" for t r vs by (cases c) simp
  have "(if n > bcs_LatestHeight cs then cs\<lparr>bcs_LatestHeight := n\<rparr> else cs) =
      cs\<lparr>bcs_LatestHeight := max (bcs_LatestHeight cs) n\<rparr>" for n by (cases cs) (auto simp: max_def)
  then show ?thesis
    using IBFT2_getConsensusState_reads [OF assms(3,4)] assms(5-7,9)
    by (simp add: IBFT2_checkHeaderAndUpdateState_def u a require_def e Let_def del: if_distrib)
qed

lemma length_each_20: "list_all (\<lambda>v. length v = 20) vals \<Longrightarrow> length (enc_each tag vals) = 22 * length vals"
  by (induction vals) (simp_all add: enc_each_def wire_simps size_bytes1_def sov_small)

lemma consensus_small:
  assumes "length root = 32" and "list_all (\<lambda>v. length v = 20) vals" and "length vals < 256"
  shows "length (IBFT2_ConsensusState_enc \<lparr>bcons_Timestamp = t, bcons_Root = root, bcons_Validators = vals\<rparr>) < 2 ^ 64"
proof -
  have "length (enc_uint 0x8 t) \<le> 11" using sov_le_10 [of t] by (simp add: enc_uint_def)
  moreover have "length (enc_bytes 0x12 root) \<le> 50"
    using assms(1) by (simp add: wire_simps size_bytes_def size_bytes1_def sov_small)
  ultimately show ?thesis using assms(3) by (simp add: IBFT2_ConsensusState_enc_def length_each_20 [OF assms(2)])
qed

lemma client_small:
  assumes "length (bcs_ChainId cs) < 2 ^ 32" and "length (bcs_IbcStoreAddress cs) = 20"
  shows "length (IBFT2_ClientState_enc cs) < 2 ^ 64"
  using assms sov_le_10 [of "bcs_LatestHeight cs"] sov_le_10 [of "word_of_nat (length (bcs_ChainId cs))"]
  by (simp add: IBFT2_ClientState_enc_def wire_simps size_bytes_def size_bytes1_def sov_small enc_uint_def)

end
