(* ===== verification/IBFT2_Properties.thy ===== *)
theory IBFT2_Properties
  imports IBFT2_Headers Besu_Header
begin

text \<open>
  Updates of the IBFT 2.0 client: what an honest relayer achieves and what an accepted header shows,
  the agreement with the relayer's own check of the seals, and three ways in which the checks fall short.
\<close>

subsection \<open>An example\<close>

text \<open>
  For the witnesses: a hash that takes the first 32 bytes, signatures that show their signer, a chain
  with one validator, and a state trie with one account.
\<close>

definition toy_K :: "byte list \<Rightarrow> byte list" where
  "toy_K bs = take 32 (bs @ replicate 32 0)"

definition toy_ec :: ecrecover where
  "toy_ec hash v r s = of_nat (be_val (take 20 r))"

definition toy_val :: "byte list" where
  "toy_val = replicate 20 1"

definition toy_seal :: "byte list" where
  "toy_seal = replicate 65 1"

definition toy_account :: rlp where
  "toy_account = Lst [Str [], Str [], Str (replicate 32 7), Str []]"

definition toy_accounts :: mpt where
  "toy_accounts = Leaf (replicate 64 0) (rlp_enc toy_account)"

definition toy_fields :: "rlp list" where
  "toy_fields = [Str [], Str [], Str [], Str (trie_root toy_K toy_accounts), Str [], Str [], Str [], Str [],
     Str (uint_bytes 7), Str [], Str [], Str (uint_bytes 100),
     Str (rlp_enc (Lst [Str [], Lst (map Str [toy_val]), Str [], Str []])), Str [], Str []]"

lemma toy_hash32: "hash32 toy_K"
  by (auto simp: hash32_def toy_K_def min_def)

lemma toy_sizes:
  "length (rlp_enc toy_account) < 100" "length (rlp_enc (node_rlp toy_K toy_accounts)) < 200"
  "length (rlp_enc (Lst [node_rlp toy_K toy_accounts])) < 210" "length (rlp_enc (Lst toy_fields)) < 1000"
proof -
  show a: "length (rlp_enc toy_account) < 100"
    using length_rlp_enc_Str [of "replicate 32 7"]
      length_rlp_enc_Lst [of "[Str [], Str [], Str (replicate 32 7), Str []]"]
    unfolding toy_account_def by (simp add: length_rlp_enc_Nil del: rlp_enc.simps)
  show n: "length (rlp_enc (node_rlp toy_K toy_accounts)) < 200"
    using a length_hex_prefix [of True "replicate 64 0"] length_rlp_enc_Str [of "hex_prefix True (replicate 64 0)"]
      length_rlp_enc_Str [of "rlp_enc toy_account"]
      length_rlp_enc_Lst [of "[Str (hex_prefix True (replicate 64 0)), Str (rlp_enc toy_account)]"]
    unfolding toy_accounts_def by (simp del: rlp_enc.simps)
  show "length (rlp_enc (Lst [node_rlp toy_K toy_accounts])) < 210"
    using n length_rlp_enc_Lst [of "[node_rlp toy_K toy_accounts]"] by (simp del: rlp_enc.simps)
  have v: "length (rlp_enc (Lst [Str [], Lst (map Str [toy_val]), Str [], Str []])) < 100"
    using length_rlp_enc_Str [of toy_val] length_rlp_enc_Lst [of "[Str toy_val]"]
      length_rlp_enc_Lst [of "[Str [], Lst [Str toy_val], Str [], Str []]"]
    by (simp add: toy_val_def length_rlp_enc_Nil del: rlp_enc.simps)
  show "length (rlp_enc (Lst toy_fields)) < 1000"
    using v length_rlp_enc_Str [of "rlp_enc (Lst [Str [], Lst (map Str [toy_val]), Str [], Str []])"]
      length_rlp_enc_Str [of "uint_bytes 7"] length_rlp_enc_Str [of "uint_bytes 100"] uint_bytes(1) [of 7] uint_bytes(1) [of 100]
      length_rlp_enc_Str [of "trie_root toy_K toy_accounts"] length_rlp_enc_Lst [of toy_fields] toy_hash32
    unfolding toy_fields_def by (simp add: hash32_def trie_root_def length_rlp_enc_Nil del: rlp_enc.simps node_rlp.simps)
qed

lemma toy_has_account: "has_account toy_K toy_accounts (replicate 20 0) (replicate 32 7)"
proof -
  have k: "nibbles (toy_K (replicate 20 0)) = replicate 64 0" by (simp add: toy_K_def replicate_add [symmetric] nibbles_replicate)
  have "trie_proof toy_K toy_accounts (replicate 64 0) = [node_rlp toy_K toy_accounts]"
    by (simp add: trie_proof_def toy_accounts_def)
  moreover have "wf_trie 64 toy_accounts" "trie_lookup toy_accounts (replicate 64 0) = Some (rlp_enc toy_account)"
    by (simp_all add: toy_accounts_def is_nibbles_def list_all_iff)
  moreover have "rlp_enc toy_account = rlp_enc (Lst [Str [], Str [], Str (replicate 32 7), Str []])"
    by (simp only: toy_account_def)
  ultimately show ?thesis
    using toy_sizes(1,3) unfolding has_account_def k
    by (intro conjI exI [of _ "Str []"]) (simp_all del: rlp_enc.simps node_rlp.simps)
qed

lemma toy_besu_fields: "besu_fields toy_fields (trie_root toy_K toy_accounts) 7 100 [toy_val]"
  using toy_hash32
  by (auto simp: besu_fields_def toy_fields_def toy_val_def hash32_def trie_root_def simp del: rlp_enc.simps)

lemma val_address_inject: "length a = 20 \<Longrightarrow> length b = 20 \<Longrightarrow> val_address a = val_address b \<longleftrightarrow> a = b"
  by (metis val_address_bytes)

lemma toy_recover: "ECRecovery_recover toy_ec hash toy_seal = val_address toy_val"
  by (simp add: ECRecovery_recover_def toy_seal_def toy_val_def toy_ec_def val_address_def)

lemma toy_signed: "own_signers toy_ec hash [toy_seal] [toy_val] = 1" "trusted_signers toy_ec hash [toy_seal] [toy_val] = 1"
  using toy_recover
  by (simp_all add: own_signers_def seal_of_def trusted_signers_def sealed_by_def toy_val_def toy_seal_def)

definition toy_update :: IBFT2_Header where
  "toy_update = \<lparr>bhdr_BesuHeaderRlp = rlp_enc (Lst toy_fields), bhdr_Seals = [toy_seal], bhdr_TrustedHeight = 5,
     bhdr_AccountStateProof = account_proof toy_K toy_accounts (replicate 20 0)\<rparr>"

definition toy_cs :: IBFT2_ClientState where
  "toy_cs = \<lparr>bcs_ChainId = ''c'', bcs_IbcStoreAddress = replicate 20 0, bcs_LatestHeight = 5\<rparr>"

definition toy_cons :: IBFT2_ConsensusState where
  "toy_cons = \<lparr>bcons_Timestamp = 50, bcons_Root = replicate 32 3, bcons_Validators = [toy_val]\<rparr>"

definition toy_message :: "byte list" where
  "toy_message = Any_enc \<lparr>any_TypeUrl = ibft2_url_header, any_Value = IBFT2_Header_enc toy_update\<rparr>"

definition toy_env :: cenv where
  "toy_env = \<lparr>keccak256 = toy_K, msg_sender = 1, block_number = 10, block_timestamp = 10,
     iclients = (\<lambda>_. Some (ibft2_client toy_K toy_ec (\<lambda>_ _. 0)))\<rparr>"

definition toy_host :: host where
  "toy_host = (host_constructor toy_env)\<lparr>ibcModule := 1, clientRegistry := (\<lambda>_. 9), clientTypes := (\<lambda>_. ''b''),
     clientStates := (\<lambda>_. IBFT2_marshalClientState toy_cs),
     consensusStates := (\<lambda>_ _. IBFT2_marshalConsensusState toy_cons)\<rparr>"

lemma length_enc_le: "length (enc_bytes tag bs) \<le> 11 + length bs" "length (enc_uint tag v) \<le> 11"
  using sov_le_10 [of "word_of_nat (length bs)"] sov_le_10 [of v]
  by (simp_all add: wire_simps size_bytes_def size_bytes1_def enc_uint_def)

lemma toy_account_proof: "account_proof toy_K toy_accounts (replicate 20 0) = rlp_enc (Lst [node_rlp toy_K toy_accounts])"
proof -
  have "nibbles (toy_K (replicate 20 0)) = replicate 64 0" by (simp add: toy_K_def replicate_add [symmetric] nibbles_replicate)
  then show ?thesis by (simp add: account_proof_def trie_proof_def toy_accounts_def del: rlp_enc.simps node_rlp.simps)
qed

lemma toy_reads:
  "ibft2_reads_client (IBFT2_marshalClientState toy_cs) toy_cs"
  "ibft2_reads_consensus (IBFT2_marshalConsensusState toy_cons) toy_cons"
  "ibft2_reads_header toy_message toy_update"
proof -
  show "ibft2_reads_client (IBFT2_marshalClientState toy_cs) toy_cs"
    by (rule ibft2_reads_sol) (rule client_small; simp add: toy_cs_def)
  show "ibft2_reads_consensus (IBFT2_marshalConsensusState toy_cons) toy_cons"
    unfolding toy_cons_def by (rule ibft2_reads_sol) (rule consensus_small; simp add: toy_val_def)
  have "length (IBFT2_Header_enc toy_update) < 2000"
    using toy_sizes(3,4) length_enc_le(1) [of "0xa" "rlp_enc (Lst toy_fields)"] length_enc_le(2) [of "0x18" 5]
      length_enc_le(1) [of "0x22" "rlp_enc (Lst [node_rlp toy_K toy_accounts])"]
    by (simp add: IBFT2_Header_enc_def toy_update_def toy_account_proof enc_each_def length_enc_bytes1 size_bytes1_def
        toy_seal_def sov_small del: rlp_enc.simps node_rlp.simps)
  then show "ibft2_reads_header toy_message toy_update" unfolding toy_message_def by (intro ibft2_reads_go) simp
qed

lemma toy_parsed: "\<exists>its. list_all2 item_of (map Str [toy_val]) its \<and> IBFT2_parseBesuHeader J toy_update = Inr
    \<lparr>pbh_base = toy_update, pbh_height = 7, pbh_stateRoot = trie_root toy_K toy_accounts, pbh_time = 100, pbh_validators = its\<rparr>"
  by (rule IBFT2_parseBesuHeader_fields [OF toy_besu_fields])
    (use toy_sizes(4) in \<open>simp_all add: toy_update_def del: rlp_enc.simps\<close>)

subsection \<open>Properties\<close>

text \<open>
  C3: an honest relayer can always update the client. Given a header of the chain with its
  validators in the extra data, the commit seals in the order of the validators, more than two thirds
  of them there, a third of the trusted validators among the signers, and the proof of the account of
  the IBC host in the state trie, the handler's \<^verbatim>\<open>updateClient\<close> succeeds: the client then has the larger
  height, and at the height of the header its time, its validators and the storage root of the account,
  while the states at all other heights are what they were. Validators are fewer than 256.
\<close>

theorem ibft2_updateClient:
  assumes "msg_sender E = ibcModule h" and "getClient E i h = Inr (ibft2_client (keccak256 E) ec J)"
    and "clientStates h i \<noteq> []" and "ibft2_reads_client (clientStates h i) cs" and "length (bcs_ChainId cs) < 2 ^ 32"
    and "consensusStates h i m \<noteq> []" and "ibft2_reads_consensus (consensusStates h i m) c"
    and "list_all (\<lambda>v. length v = 20) (bcons_Validators c)" and "length (bcons_Validators c) < 256"
    and "besu_fields fs (trie_root (keccak256 E) accounts) n t vals" and "length (rlp_enc (Lst fs)) < 2 ^ 32" and "m < n"
    and "has_account (keccak256 E) accounts (bcs_IbcStoreAddress cs) root" and "hash32 (keccak256 E)"
    and "length seals = length vals" and "length vals < 256"
    and "2 * length vals < 3 * own_signers ec (keccak256 E (rlp_enc (Lst fs))) seals vals"
    and "length (bcons_Validators c) div 3 \<le>
      trusted_signers ec (keccak256 E (rlp_enc (Lst fs))) seals (bcons_Validators c)"
    and "ibft2_reads_header hb \<lparr>bhdr_BesuHeaderRlp = rlp_enc (Lst fs), bhdr_Seals = seals, bhdr_TrustedHeight = m,
      bhdr_AccountStateProof = account_proof (keccak256 E) accounts (bcs_IbcStoreAddress cs)\<rparr>"
  shows "\<exists>h'. updateClient E \<lparr>muc_clientId = i, muc_header = hb\<rparr> h = Inr h' \<and>
    IBFT2_getClientState h' i = Inr (cs\<lparr>bcs_LatestHeight := max (bcs_LatestHeight cs) n\<rparr>, True) \<and>
    IBFT2_getConsensusState h' i n =
      Inr (\<lparr>bcons_Timestamp = t, bcons_Root = root, bcons_Validators = vals\<rparr>, True) \<and>
    (\<forall>j. j \<noteq> n \<longrightarrow> IBFT2_getConsensusState h' i j = IBFT2_getConsensusState h i j)"
proof -
  let ?K = "keccak256 E"
  let ?hdr = "\<lparr>bhdr_BesuHeaderRlp = rlp_enc (Lst fs), bhdr_Seals = seals, bhdr_TrustedHeight = m,
      bhdr_AccountStateProof = account_proof ?K accounts (bcs_IbcStoreAddress cs)\<rparr>"
  obtain its where its: "list_all2 item_of (map Str vals) its" and p: "IBFT2_parseBesuHeader J ?hdr =
      Inr \<lparr>pbh_base = ?hdr, pbh_height = n, pbh_stateRoot = trie_root ?K accounts, pbh_time = t, pbh_validators = its\<rparr>"
    using IBFT2_parseBesuHeader_fields [OF assms(10) _ assms(11), of ?hdr J] by (auto simp del: rlp_enc.simps)
  let ?p = "\<lparr>pbh_base = ?hdr, pbh_height = n, pbh_stateRoot = trie_root ?K accounts, pbh_time = t, pbh_validators = its\<rparr>"
  have v20: "list_all (\<lambda>v. length v = 20) vals" using assms(10) by (simp add: besu_fields_def)
  have v: "IBFT2_verify ?K ec c ?p = Inr (vals, True)"
    by (rule IBFT2_verify_accepts) (use its v20 assms(8,9,15-18) in \<open>simp_all del: rlp_enc.simps\<close>)
  have l: "length (bcs_IbcStoreAddress cs) = 20" "length root = 32" using assms(13) by (auto simp: has_account_def)
  let ?cs = "cs\<lparr>bcs_LatestHeight := max (bcs_LatestHeight cs) n\<rparr>"
    and ?c = "\<lparr>bcons_Timestamp = t, bcons_Root = root, bcons_Validators = vals\<rparr>"
  have "IBFT2_checkHeaderAndUpdateState ?K ec J (ibft2_constructor ?K) h i (clientStates h i) hb =
      Inr (IBFT2_marshalClientState ?cs, IBFT2_marshalConsensusState ?c, n)"
    using IBFT2_checkHeader_accepts [OF assms(4,19) _ _ p _ v l(1)] assms(6,7,12)
      IBFT2_verifyStorageProof_account [OF assms(13,14), of J] by simp
  then obtain h' where u: "updateClient E \<lparr>muc_clientId = i, muc_header = hb\<rparr> h = Inr h'"
    and h': "clientStates h' i = IBFT2_marshalClientState ?cs"
      "consensusStates h' i = (consensusStates h i)(n := IBFT2_marshalConsensusState ?c)"
    using assms(1-3) by (simp add: updateClient_Inr ibft2_client_def)
  have "IBFT2_getClientState h' i = Inr (?cs, True)"
    by (rule IBFT2_getClientState_reads)
      (use client_small [of ?cs] assms(5) l(1) in \<open>simp_all add: h' ibft2_marshal_nonempty ibft2_reads_sol\<close>)
  moreover have "IBFT2_getConsensusState h' i n = Inr (?c, True)"
    by (rule IBFT2_getConsensusState_reads)
      (use consensus_small [OF l(2) v20 assms(16), of t] in \<open>simp_all add: h' ibft2_marshal_nonempty ibft2_reads_sol\<close>)
  moreover have "IBFT2_getConsensusState h' i j = IBFT2_getConsensusState h i j" if "j \<noteq> n" for j
    using that by (simp add: IBFT2_getConsensusState_def getConsensusState_def h')
  ultimately show ?thesis using u by blast
qed

lemma ibft2_updateClient_witness:
  "\<exists>h'. updateClient toy_env \<lparr>muc_clientId = ''i'', muc_header = toy_message\<rparr> toy_host = Inr h' \<and>
     IBFT2_getClientState h' ''i'' = Inr (toy_cs\<lparr>bcs_LatestHeight := 7\<rparr>, True) \<and>
     IBFT2_getConsensusState h' ''i'' 7 =
       Inr (\<lparr>bcons_Timestamp = 100, bcons_Root = replicate 32 7, bcons_Validators = [toy_val]\<rparr>, True)"
proof -
  have e: "keccak256 toy_env = toy_K" "msg_sender toy_env = ibcModule toy_host"
    "getClient toy_env ''i'' toy_host = Inr (ibft2_client (keccak256 toy_env) toy_ec (\<lambda>_ _. 0))"
    by (simp_all add: toy_env_def toy_host_def getClient_Inr)
  have h: "clientStates toy_host ''i'' = IBFT2_marshalClientState toy_cs"
    "consensusStates toy_host ''i'' 5 = IBFT2_marshalConsensusState toy_cons" by (simp_all add: toy_host_def)
  have c: "bcons_Validators toy_cons = [toy_val]" "bcs_IbcStoreAddress toy_cs = replicate 20 0"
    "bcs_LatestHeight toy_cs = 5" "bcs_ChainId toy_cs = ''c''" by (simp_all add: toy_cons_def toy_cs_def)
  have "\<exists>h'. updateClient toy_env \<lparr>muc_clientId = ''i'', muc_header = toy_message\<rparr> toy_host = Inr h' \<and>
    IBFT2_getClientState h' ''i'' = Inr (toy_cs\<lparr>bcs_LatestHeight := max 5 7\<rparr>, True) \<and>
    IBFT2_getConsensusState h' ''i'' 7 =
      Inr (\<lparr>bcons_Timestamp = 100, bcons_Root = replicate 32 7, bcons_Validators = [toy_val]\<rparr>, True) \<and>
    (\<forall>j. j \<noteq> 7 \<longrightarrow> IBFT2_getConsensusState h' ''i'' j = IBFT2_getConsensusState toy_host ''i'' j)"
    by (rule ibft2_updateClient [OF e(2,3), where cs = toy_cs and c = toy_cons and m = 5 and fs = toy_fields
          and accounts = toy_accounts and seals = "[toy_seal]", unfolded e(1) h c])
      (use toy_reads toy_besu_fields toy_has_account toy_hash32 toy_sizes(4) toy_signed in
        \<open>simp_all add: ibft2_marshal_nonempty toy_update_def toy_val_def [THEN arg_cong, of length, simplified] del: rlp_enc.simps\<close>)
  then show ?thesis by (auto simp: max_def)
qed









text \<open>
  C24: the first check lets a header pass that no correct validator need have sealed. IBFT 2.0
  tolerates \<open>(n - 1) div 3\<close> faulty validators among \<open>n\<close>, and the seals of as many trusted ones suffice,
  unless three divides \<open>n\<close>; with one or two trusted validators none is needed. The second check is
  against the validators that the header itself lists, so whoever has these seals makes the client
  follow a header of their own.
\<close>

theorem ibft2_takeover:
  assumes "list_all2 item_of (map Str vals) (pbh_validators p)" and "list_all (\<lambda>v. length v = 20) vals"
    and "length (bhdr_Seals (pbh_base p)) = length vals" and "length vals < 256"
    and "2 * length vals < 3 * own_signers ec (K (bhdr_BesuHeaderRlp (pbh_base p))) (bhdr_Seals (pbh_base p)) vals"
    and "list_all (\<lambda>v. length v = 20) (bcons_Validators c)" and "length (bcons_Validators c) < 256"
    and "length (bcons_Validators c) mod 3 \<noteq> 0"
    and "trusted_signers ec (K (bhdr_BesuHeaderRlp (pbh_base p))) (bhdr_Seals (pbh_base p)) (bcons_Validators c) =
      (length (bcons_Validators c) - 1) div 3"
  shows "IBFT2_verify K ec c p = Inr (vals, True)"
proof -
  have "length (bcons_Validators c) div 3 = (length (bcons_Validators c) - 1) div 3"
    using assms(8) by presburger
  then show ?thesis by (intro IBFT2_verify_accepts) (use assms(1-7,9) in simp_all)
qed

lemma ibft2_takeover_witness:
  "\<exists>p. IBFT2_verify toy_K toy_ec \<lparr>bcons_Timestamp = 0, bcons_Root = [], bcons_Validators = [replicate 20 2, replicate 20 3]\<rparr> p =
     Inr ([toy_val], True)"
proof -
  let ?c = "\<lparr>bcons_Timestamp = 0, bcons_Root = [], bcons_Validators = [replicate 20 2, replicate 20 3]\<rparr>"
  obtain its where its: "list_all2 item_of (map Str [toy_val]) its" using toy_parsed by blast
  let ?p = "\<lparr>pbh_base = toy_update, pbh_height = 7, pbh_stateRoot = [], pbh_time = 100, pbh_validators = its\<rparr>"
  have "trusted_signers toy_ec hash [toy_seal] [replicate 20 2, replicate 20 3] = 0" for hash
    by (simp add: trusted_signers_def sealed_by_def toy_recover val_address_inject toy_val_def)
  then have "IBFT2_verify toy_K toy_ec ?c ?p = Inr ([toy_val], True)"
    by (intro ibft2_takeover) (use its toy_signed in \<open>simp_all add: toy_update_def toy_val_def del: rlp_enc.simps\<close>)
  then show ?thesis by blast
qed



text \<open>
  The counter of seals has eight bits, so a header that lists 383 validators or more is never
  accepted, whoever sealed it.
\<close>

theorem IBFT2_verify_too_many:
  assumes "383 \<le> length (pbh_validators p)"
  shows "IBFT2_verify K ec c p \<noteq> Inr (vals, True)"
proof
  assume "IBFT2_verify K ec c p = Inr (vals, True)"
  then have o: "verifyCommitSeals ec (pbh_validators p) (bhdr_Seals (pbh_base p)) (K (bhdr_BesuHeaderRlp (pbh_base p))) =
      Inr (vals, True)"
    by (auto simp: IBFT2_verify_def result_simps Let_def split: if_splits)
  from verifyCommitSeals_True(2) [OF o] assms show False by linarith
qed

lemma IBFT2_verify_too_many_witness:
  "IBFT2_verify toy_K toy_ec toy_cons \<lparr>pbh_base = toy_update, pbh_height = 7, pbh_stateRoot = [], pbh_time = 1,
     pbh_validators = replicate 400 (toRLPItem (\<lambda>_. 0) toy_val)\<rparr> \<noteq> Inr (replicate 400 toy_val, True)"
  by (rule IBFT2_verify_too_many) simp

end
