(* ===== verification/IBFT2_Membership.thy ===== *)
theory IBFT2_Membership
  imports IBFT2_Properties
begin

text \<open>
  Proofs of membership with the IBFT 2.0 client: what a genuine proof of the storage of the other chain
  shows, what any proof shows, and where the check can be misled.
\<close>

subsection \<open>Storage\<close>

text \<open>
  The storage trie of a contract maps the hash of a slot to the RLP of its word, without leading
  zeros. A word of zeros is not in the trie.
\<close>

definition stores :: "(byte list \<Rightarrow> byte list) \<Rightarrow> mpt \<Rightarrow> byte list \<Rightarrow> byte list \<Rightarrow> bool" where
  "stores K t slot w \<longleftrightarrow> wf_trie 64 t \<and> length w = 32 \<and>
     trie_lookup t (nibbles (K slot)) = Some (rlp_enc (Str (dropWhile (\<lambda>b. b = 0) w))) \<and>
     length (rlp_enc (Lst (trie_proof K t (nibbles (K slot))))) < 2 ^ 32"

definition storage_proof :: "(byte list \<Rightarrow> byte list) \<Rightarrow> mpt \<Rightarrow> byte list \<Rightarrow> byte list" where
  "storage_proof K t slot = rlp_enc (Lst (trie_proof K t (nibbles (K slot))))"

definition storage_trie :: "mpt \<Rightarrow> bool" where
  "storage_trie t \<longleftrightarrow> wf_trie 64 t \<and> list_all (\<lambda>s. case s of
       Leaf ns v \<Rightarrow> \<exists>x. v = rlp_enc (Str x) \<and> x \<noteq> [] \<and> hd x \<noteq> 0 \<and> length x \<le> 32
     | Ext _ _ \<Rightarrow> True | Branch _ \<Rightarrow> True) (subtries t)"

lemma trie_lookup_leaf: "trie_lookup t ks = Some v \<Longrightarrow> \<exists>ns. Leaf ns v \<in> set (subtries t)"
proof (induction t ks rule: trie_lookup.induct)
  case (4 cs k ks)
  then obtain t where t: "cs ! unat k = Some t" "unat k < length cs" "trie_lookup t ks = Some v"
    by (auto split: if_splits option.splits)
  with "4.IH" obtain ns where "Leaf ns v \<in> set (subtries t)" by auto
  moreover have "Some t \<in> set cs" using t by (metis nth_mem)
  ultimately show ?case using subtries_child by blast
qed (auto split: if_splits)

lemma rlp_toBytes_encoded:
  assumes "length (rlp_enc (Str x)) < 2 ^ 32"
  shows "rlp_toBytes (toRLPItem rest (rlp_enc (Str x))) = Inr x"
  by (rule rlp_toBytes_item [OF item_of_toRLPItem [OF assms]])

lemma dropWhile_zero: "length w = 32 \<Longrightarrow> length (dropWhile (\<lambda>b. b = 0) w) = 32 \<longleftrightarrow> hd w \<noteq> (0 :: byte)"
  using length_dropWhile_le [of "\<lambda>b. b = 0" "tl w"] by (cases w) auto

lemma IBFT2_verifyMembership_genuine:
  assumes "stores K t slot w" and "hash32 K"
  shows "IBFT2_verifyMembership K J (storage_proof K t slot) (trie_root K t) prefix slot expected =
    (if hd w = 0 then Inl (Revert ''cannot convert into address'') else Inr (expected = w))"
proof -
  let ?x = "dropWhile (\<lambda>b. b = 0) w"
  from assms(1) have s: "wf_trie 64 t" "length w = 32" "trie_lookup t (nibbles (K slot)) = Some (rlp_enc (Str ?x))"
    "length (rlp_enc (Lst (trie_proof K t (nibbles (K slot))))) < 2 ^ 32" by (auto simp: stores_def)
  have "length ?x \<le> 32" using length_dropWhile_le [of "\<lambda>b. b = 0" w] s(2) by simp
  then have "rlp_toBytes (toRLPItem (J 1) (rlp_enc (Str ?x))) = Inr ?x"
    using length_rlp_enc_Str [of ?x] by (intro rlp_toBytes_encoded) simp
  moreover have "hd w \<noteq> 0 \<Longrightarrow> ?x = w" using s(2) by (cases w) auto
  ultimately show ?thesis
    using verify_genuine [OF s(1) assms(2) s(3,4), of "J 0"] dropWhile_zero [OF s(2)]
    by (auto simp: IBFT2_verifyMembership_def storage_proof_def toBytes32_def require_def s(2) simp del: rlp_enc.simps)
qed

text \<open>A client that has a consensus state with the root at the height, asked within its height.\<close>

definition ibft2_knows :: "host \<Rightarrow> string \<Rightarrow> 64 word \<Rightarrow> byte list \<Rightarrow> bool" where
  "ibft2_knows h i n root \<longleftrightarrow> (\<exists>cs c. clientStates h i \<noteq> [] \<and> ibft2_reads_client (clientStates h i) cs \<and>
     n \<le> bcs_LatestHeight cs \<and> consensusStates h i n \<noteq> [] \<and> ibft2_reads_consensus (consensusStates h i n) c \<and>
     bcons_Root c = root \<and> length root = 32)"

lemma IBFT2_verify_at_known:
  assumes "ibft2_knows h i n root" and "prefix \<noteq> []" and "prf \<noteq> []"
  shows "IBFT2_verify_at K J h i n prefix prf slot expected = IBFT2_verifyMembership K J prf root prefix slot expected"
  using assms
  by (auto simp: ibft2_knows_def IBFT2_verify_at_def IBFT2_getClientState_reads IBFT2_getConsensusState_reads
      IBFT2_validateArgs_def toBytes32_Inr)

subsection \<open>An example\<close>

definition toy_store :: mpt where
  "toy_store = Leaf (replicate 64 0) (rlp_enc (Str (replicate 32 7)))"

lemma toy_K_Nil: "nibbles (toy_K []) = replicate 64 0"
  by (simp add: toy_K_def nibbles_replicate)

lemma toy_store_proof: "trie_proof toy_K toy_store (replicate 64 0) = [node_rlp toy_K toy_store]"
  by (simp add: trie_proof_def toy_store_def)

lemma toy_store_size:
  "length (rlp_enc (node_rlp toy_K toy_store)) < 100" "length (rlp_enc (Lst [node_rlp toy_K toy_store])) < 110"
proof -
  show n: "length (rlp_enc (node_rlp toy_K toy_store)) < 100"
    using length_rlp_enc_Str [of "replicate 32 7"] length_hex_prefix [of True "replicate 64 0"]
      length_rlp_enc_Str [of "hex_prefix True (replicate 64 0)"]
      length_rlp_enc_Str [of "rlp_enc (Str (replicate 32 7))"]
      length_rlp_enc_Lst [of "[Str (hex_prefix True (replicate 64 0)), Str (rlp_enc (Str (replicate 32 7)))]"]
    unfolding toy_store_def by (simp del: rlp_enc.simps)
  show "length (rlp_enc (Lst [node_rlp toy_K toy_store])) < 110"
    using n length_rlp_enc_Lst [of "[node_rlp toy_K toy_store]"] by (simp del: rlp_enc.simps)
qed

lemma toy_stores: "stores toy_K toy_store [] (replicate 32 7)"
  using toy_store_size(2) unfolding stores_def toy_K_Nil toy_store_proof
  by (simp add: toy_store_def is_nibbles_def list_all_iff del: rlp_enc.simps node_rlp.simps)

text \<open>A hash whose values all look like the encoding of 31 bytes.\<close>

definition toy_K31 :: "byte list \<Rightarrow> byte list" where
  "toy_K31 bs = 0x9f # take 31 (bs @ replicate 31 0)"

definition toy_fake :: mpt where
  "toy_fake = Leaf (9 # 0xf # replicate 62 0) (rlp_enc (Str (replicate 32 8)))"

lemma hd_rlp_prefix:
  assumes "n < 2 ^ 32"
  shows "hd (rlp_prefix 0xc0 n @ xs) \<noteq> 0"
proof -
  have "unat (of_nat (0xc0 + m) :: byte) = 0xc0 + m" if "m < 64" for m
    unfolding unat_byte_of_nat using that by simp
  from this [of n] this [of "55 + byte_count n"] byte_count_small [OF assms]
  have "n \<le> 55 \<Longrightarrow> unat (of_nat (0xc0 + n) :: byte) \<noteq> 0" "unat (of_nat (0xc0 + (55 + byte_count n)) :: byte) \<noteq> 0" by simp_all
  then show ?thesis by (auto simp: rlp_prefix_def add.assoc)
qed

subsection \<open>Properties\<close>

text \<open>
  C6: a genuine proof of the storage of the other chain. Whichever of the values of the protocol is
  asked for, the client answers whether the word in the slot is the expected one, provided that the
  first byte of the word is not zero. Otherwise the trie holds fewer than 32 bytes, which are not
  padded, and the call reverts: one in 256 commitments cannot be proved at all.
\<close>

theorem ibft2_membership:
  assumes "ibft2_knows h i n (trie_root K t)" and "prefix \<noteq> []" and "hash32 K" and "stores K t slot w"
  shows "IBFT2_verify_at K J h i n prefix (storage_proof K t slot) slot expected =
    (if hd w = 0 then Inl (Revert ''cannot convert into address'') else Inr (expected = w))"
proof -
  have "storage_proof K t slot \<noteq> []" using length_rlp_enc_pos by (auto simp: storage_proof_def simp del: rlp_enc.simps)
  from IBFT2_verify_at_known [OF assms(1,2) this] IBFT2_verifyMembership_genuine [OF assms(4,3)]
  show ?thesis by simp
qed

lemma ibft2_membership_witness:
  "\<exists>h. IBFT2_verify_at toy_K (\<lambda>_ _. 0) h ''i'' 5 [1] (storage_proof toy_K toy_store []) [] (replicate 32 7) = Inr True"
proof -
  let ?c = "\<lparr>bcons_Timestamp = 0, bcons_Root = trie_root toy_K toy_store, bcons_Validators = []\<rparr>"
  let ?h = "toy_host\<lparr>consensusStates := \<lambda>_ _. IBFT2_marshalConsensusState ?c\<rparr>"
  have r: "length (trie_root toy_K toy_store) = 32" using toy_hash32 by (simp add: hash32_def trie_root_def)
  have "ibft2_reads_consensus (IBFT2_marshalConsensusState ?c) ?c"
    by (rule ibft2_reads_sol) (rule consensus_small; simp add: r)
  then have "ibft2_knows ?h ''i'' 5 (trie_root toy_K toy_store)"
    using toy_reads(1) r unfolding ibft2_knows_def
    by (intro exI [of _ toy_cs] exI [of _ ?c]) (simp add: toy_host_def ibft2_marshal_nonempty, simp add: toy_cs_def)
  from ibft2_membership [OF this _ toy_hash32 toy_stores, of "[1]" "\<lambda>_ _. 0" "replicate 32 7"] show ?thesis
    by (intro exI [of _ ?h]) simp
qed

text \<open>
  C5: what an accepted proof shows, whoever made it. If no string of the proof collides with a node
  of the storage trie, and no word of the storage has exactly 31 significant bytes, then the expected
  value is the word in the slot.
\<close>

theorem ibft2_membership_sound:
  assumes "IBFT2_verifyMembership K J prf (trie_root K t) prefix slot expected = Inr True"
    and "storage_trie t" and "hash32 K"
    and "\<forall>items. rlp_toList (toRLPItem (J 0) prf) = Inr items \<longrightarrow> list_all (no_collision K t) items"
    and "length prf < 2 ^ 31" and "\<forall>s \<in> set (subtries t). length (rlp_enc (node_rlp K s)) < 2 ^ 31"
    and "no_hash_values t"
  shows "trie_lookup t (nibbles (K slot)) = Some (rlp_enc (Str expected))"
proof -
  from assms(1) obtain v where v: "trie_verify K (J 0) prf (trie_root K t) (K slot) = Inr v"
    and b: "rlp_toBytes (toRLPItem (J 1) v) = Inr expected" and l: "length expected = 32"
    by (auto simp: IBFT2_verifyMembership_def toBytes32_def result_simps)
  have "v \<noteq> []"
    using b l by (auto simp: rlp_toBytes_def toRLPItem_def rlp_copy_def Let_def split: if_splits)
  moreover have "length (K slot) = 32" "wf_trie 64 t" using assms(2,3) by (simp_all add: hash32_def storage_trie_def)
  ultimately have look: "trie_lookup t (nibbles (K slot)) = Some v"
    using trie_verify_binds [OF v _ _ _ assms(3-7)] by blast
  then obtain ns where "Leaf ns v \<in> set (subtries t)" using trie_lookup_leaf by blast
  then obtain x where x: "v = rlp_enc (Str x)" "length x \<le> 32"
    using assms(2) by (fastforce simp: storage_trie_def list_all_iff)
  then have "rlp_toBytes (toRLPItem (J 1) v) = Inr x"
    using length_rlp_enc_Str [of x] by (auto intro!: rlp_toBytes_encoded simp del: rlp_enc.simps)
  with b look x show ?thesis by simp
qed

lemma ibft2_membership_sound_witness:
  "trie_lookup toy_store (nibbles (toy_K [])) = Some (rlp_enc (Str (replicate 32 7)))"
proof -
  let ?pf = "rlp_enc (Lst [node_rlp toy_K toy_store])"
  have "storage_proof toy_K toy_store [] = ?pf" by (simp add: storage_proof_def toy_K_Nil toy_store_proof)
  with IBFT2_verifyMembership_genuine [OF toy_stores toy_hash32, of "\<lambda>_ _. 0" "[1]" "replicate 32 7"]
  have v: "IBFT2_verifyMembership toy_K (\<lambda>_ _. 0) ?pf (trie_root toy_K toy_store) [1] [] (replicate 32 7) = Inr True"
    by simp
  have t: "storage_trie toy_store"
    by (auto simp: storage_trie_def toy_store_def is_nibbles_def list_all_iff
        intro!: exI [of _ "replicate 32 7"] simp del: rlp_enc.simps)
  have l: "length ?pf < 2 ^ 31" using toy_store_size(2) by simp
  then have "length ?pf < 2 ^ 32" by simp
  from rlp_toList_item [OF item_of_toRLPItem [OF this, of "\<lambda>_. 0"]] obtain item
    where "rlp_toList (toRLPItem (\<lambda>_. 0) ?pf) = Inr [item]" "item_of (node_rlp toy_K toy_store) item"
    by (auto simp: list_all2_Cons1 simp del: rlp_enc.simps)
  then have c: "\<forall>items. rlp_toList (toRLPItem (\<lambda>_. 0) ?pf) = Inr items \<longrightarrow> list_all (no_collision toy_K toy_store) items"
    using rlp_toRLPBytes_item by (auto simp: no_collision_def toy_store_def simp del: rlp_enc.simps node_rlp.simps)
  have s: "\<forall>s \<in> set (subtries toy_store). length (rlp_enc (node_rlp toy_K s)) < 2 ^ 31"
    using toy_store_size(1) by (simp add: toy_store_def del: rlp_enc.simps node_rlp.simps)
  have "no_hash_values toy_store" by (simp add: no_hash_values_def toy_store_def rlp_prefix_def)
  from ibft2_membership_sound [OF v t toy_hash32 c l s this] show ?thesis .
qed

text \<open>
  C23: how the check is misled. The check does not tell leaves from extensions, nor whether the path of
  a node is the path of the key. So if a key leads to the leaf of a stored word whose encoding is the
  hash of another node, that node may follow in the proof, and it may be a made-up leaf with the rest
  of the key and any value: the client accepts it although the trie has nothing under the key.
\<close>

theorem ibft2_membership_forged:
  assumes "storage_trie t" and "hash32 K" and "length expected = 32"
    and "walk t (nibbles (K slot)) = (us, Leaf ns v, r)" and "ns \<noteq> r"
    and "v = trie_root K (Leaf (drop (shared_loop r ns) r) (rlp_enc (Str expected)))"
    and "prf = rlp_enc (Lst (map (node_rlp K) (us @ [Leaf ns v, Leaf (drop (shared_loop r ns) r) (rlp_enc (Str expected))])))"
    and "length prf < 2 ^ 32"
  shows "IBFT2_verifyMembership K J prf (trie_root K t) prefix slot expected = Inr True \<and>
    trie_lookup t (nibbles (K slot)) = None"
proof -
  have "trie_verify K (J 0) prf (trie_root K t) (K slot) = Inr (rlp_enc (Str expected))"
    unfolding assms(7)
    by (rule trie_verify_leaf_as_extension [OF _ _ assms(2,4,6) assms(8) [unfolded assms(7)]])
      (use assms(1,2) in \<open>simp_all add: storage_trie_def hash32_def\<close>)
  moreover have "rlp_toBytes (toRLPItem (J 1) (rlp_enc (Str expected))) = Inr expected"
    using length_rlp_enc_Str [of expected] assms(3) by (intro rlp_toBytes_encoded) simp
  ultimately show ?thesis
    using trie_lookup_walk [OF assms(4)] assms(3,5)
    by (auto simp: IBFT2_verifyMembership_def toBytes32_Inr simp del: rlp_enc.simps)
qed

lemma ibft2_membership_forged_witness:
  "\<exists>t prf. storage_trie t \<and> IBFT2_verifyMembership toy_K31 (\<lambda>_ _. 0) prf (trie_root toy_K31 t) [1] [] (replicate 32 8) = Inr True \<and>
    trie_lookup t (nibbles (toy_K31 [])) = None"
proof -
  let ?path = "9 # 0xf # replicate 62 0" and ?enc = "rlp_enc (node_rlp toy_K31 toy_fake)"
  let ?x = "take 31 (?enc @ replicate 31 0)"
  let ?v = "toy_K31 ?enc"
  let ?t = "Leaf (replicate 64 0) ?v"
  have h: "hash32 toy_K31" by (auto simp: hash32_def toy_K31_def min_def)
  have p: "nibbles (toy_K31 []) = ?path" by (simp add: toy_K31_def nibbles_replicate)
  have z: "replicate 64 0 = 0 # replicate 63 (0 :: byte)" by (simp only: replicate_Suc [symmetric]) simp
  have sh: "shared_loop ?path (replicate 64 0) = 0" unfolding z by simp
  have lx: "length ?x = 31" by (simp add: min_def)
  have v: "?v = rlp_enc (Str ?x)" using lx by (simp add: toy_K31_def rlp_prefix_def del: take_append)
  have "length (concat (map rlp_enc [Str (hex_prefix True ?path), Str (rlp_enc (Str (replicate 32 8)))])) < 100"
    using length_rlp_enc_Str [of "hex_prefix True ?path"] length_hex_prefix [of True ?path]
      length_rlp_enc_Str [of "rlp_enc (Str (replicate 32 8))"] length_rlp_enc_Str [of "replicate 32 8"]
    by (simp del: rlp_enc.simps)
  then have e: "length ?enc < 110" "hd ?enc \<noteq> 0"
    using length_rlp_enc_Lst [of "[Str (hex_prefix True ?path), Str (rlp_enc (Str (replicate 32 8)))]"]
      hd_rlp_prefix [of "length (concat (map rlp_enc [Str (hex_prefix True ?path), Str (rlp_enc (Str (replicate 32 8)))]))"]
    by (simp_all add: toy_fake_def)
  have "hd ?x \<noteq> 0" using e(2) length_rlp_enc_pos [of "node_rlp toy_K31 toy_fake"] by (cases ?enc) simp_all
  then have st: "storage_trie ?t"
    unfolding storage_trie_def v using lx
    by (auto simp: is_nibbles_def list_all_iff intro!: exI [of _ ?x] simp del: rlp_enc.simps take_append)
  have "length (rlp_enc (node_rlp toy_K31 ?t)) < 110"
    using length_rlp_enc_Str [of "hex_prefix True (replicate 64 0)"] length_hex_prefix [of True "replicate 64 0"]
      length_rlp_enc_Str [of ?v] h length_rlp_enc_Lst [of "[Str (hex_prefix True (replicate 64 0)), Str ?v]"]
    by (simp add: hash32_def del: rlp_enc.simps node_rlp.simps(2-))
  then have l: "length (rlp_enc (Lst (map (node_rlp toy_K31) ([] @ [?t, toy_fake])))) < 2 ^ 32"
    using e(1) length_rlp_enc_Lst [of "map (node_rlp toy_K31) [?t, toy_fake]"] by (simp del: rlp_enc.simps node_rlp.simps)
  have f: "Leaf (drop (shared_loop ?path (replicate 64 0)) ?path) (rlp_enc (Str (replicate 32 8))) = toy_fake"
    by (simp add: sh toy_fake_def)
  have w: "walk ?t (nibbles (toy_K31 [])) = ([], ?t, ?path)" unfolding p by simp
  have "?v = trie_root toy_K31 (Leaf (drop (shared_loop ?path (replicate 64 0)) ?path) (rlp_enc (Str (replicate 32 8))))"
    unfolding f trie_root_def ..
  from ibft2_membership_forged [OF st h _ w _ this refl, of "\<lambda>_ _. 0" "[1]"] l
  show ?thesis using st unfolding f by (intro exI [of _ ?t] exI) (auto simp: z)
qed

end
