(* ===== verification/Ibchandler_Go.thy ===== *)
theory Ibchandler_Go
  imports Go_Bind
begin

text \<open>
  The binding \<^verbatim>\<open>pkg/contract/ibchandler\<close> of the entry point \<^verbatim>\<open>IBCHandler\<close> (one transaction per IBC message, the packet events): one
  definition for every type and function of the file, over the shared definitions of
  \<^verbatim>\<open>Go_Bind\<close>. The ABI text the file holds as a constant is an argument of the constructors.
\<close>

subsection \<open>Types\<close>

type_synonym 'c Ibchandler = "'c binding"

type_synonym 'c IbchandlerCaller = "'c binding_part"

type_synonym 'c IbchandlerTransactor = "'c binding_part"

type_synonym 'c IbchandlerFilterer = "'c binding_part"

type_synonym ('c, 'co, 'to) IbchandlerSession = "('c, 'co, 'to) binding_session"

type_synonym ('c, 'co) IbchandlerCallerSession = "('c, 'co) caller_session"

type_synonym ('c, 'to) IbchandlerTransactorSession = "('c, 'to) transactor_session"

type_synonym 'c IbchandlerRaw = "'c binding_raw"

type_synonym 'c IbchandlerCallerRaw = "'c part_raw"

type_synonym 'c IbchandlerTransactorRaw = "'c part_raw"

subsection \<open>Constructors\<close>

definition bindIbchandler ::
  "('abi, 'b, 'c, 'e) bind_lib \<Rightarrow> string \<Rightarrow> address \<Rightarrow> 'b option \<Rightarrow> 'b option \<Rightarrow> 'b option \<Rightarrow> 'e + 'c"
where
  "bindIbchandler L abi_text addr caller transactor filterer =
     bind_contract L abi_text addr caller transactor filterer"

definition NewIbchandler ::
  "('abi, 'b, 'c, 'e) bind_lib \<Rightarrow> string \<Rightarrow> address \<Rightarrow> 'b \<Rightarrow> 'e + 'c Ibchandler"
where
  "NewIbchandler L abi_text addr backend =
     bindr (bindIbchandler L abi_text addr (Some backend) (Some backend) (Some backend)) (\<lambda>c.
     Inr \<lparr>Caller = \<lparr>contract = c\<rparr>, Transactor = \<lparr>contract = c\<rparr>, Filterer = \<lparr>contract = c\<rparr>\<rparr>)"

definition NewIbchandlerCaller ::
  "('abi, 'b, 'c, 'e) bind_lib \<Rightarrow> string \<Rightarrow> address \<Rightarrow> 'b \<Rightarrow> 'e + 'c IbchandlerCaller"
where
  "NewIbchandlerCaller L abi_text addr caller =
     bindr (bindIbchandler L abi_text addr (Some caller) None None) (\<lambda>c. Inr \<lparr>contract = c\<rparr>)"

definition NewIbchandlerTransactor ::
  "('abi, 'b, 'c, 'e) bind_lib \<Rightarrow> string \<Rightarrow> address \<Rightarrow> 'b \<Rightarrow> 'e + 'c IbchandlerTransactor"
where
  "NewIbchandlerTransactor L abi_text addr transactor =
     bindr (bindIbchandler L abi_text addr None (Some transactor) None) (\<lambda>c. Inr \<lparr>contract = c\<rparr>)"

definition NewIbchandlerFilterer ::
  "('abi, 'b, 'c, 'e) bind_lib \<Rightarrow> string \<Rightarrow> address \<Rightarrow> 'b \<Rightarrow> 'e + 'c IbchandlerFilterer"
where
  "NewIbchandlerFilterer L abi_text addr filterer =
     bindr (bindIbchandler L abi_text addr None None (Some filterer)) (\<lambda>c. Inr \<lparr>contract = c\<rparr>)"

subsection \<open>Raw calls and transactions\<close>

definition IbchandlerRaw_Call ::
  "('w, 'co, 'to, 'fo, 'wo, 'e, 'tx, 'l) bound_contract IbchandlerRaw \<Rightarrow> 'co \<Rightarrow> string \<Rightarrow> iface list \<Rightarrow> 'w \<Rightarrow> 'e + iface list"
where
  "IbchandlerRaw_Call C opts method params w =
     bc_Call (contract (Caller (raw_Contract C))) opts method params w"

definition IbchandlerRaw_Transfer ::
  "('w, 'co, 'to, 'fo, 'wo, 'e, 'tx, 'l) bound_contract IbchandlerRaw \<Rightarrow> 'to \<Rightarrow> 'w \<Rightarrow> ('e + 'tx) \<times> 'w"
where
  "IbchandlerRaw_Transfer C opts w =
     bc_Transfer (contract (Transactor (raw_Contract C))) opts w"

definition IbchandlerRaw_Transact ::
  "('w, 'co, 'to, 'fo, 'wo, 'e, 'tx, 'l) bound_contract IbchandlerRaw \<Rightarrow> 'to \<Rightarrow> string \<Rightarrow> iface list \<Rightarrow> 'w \<Rightarrow> ('e + 'tx) \<times> 'w"
where
  "IbchandlerRaw_Transact C opts method params w =
     contract_transact (contract (Transactor (raw_Contract C))) opts method params w"

definition IbchandlerCallerRaw_Call ::
  "('w, 'co, 'to, 'fo, 'wo, 'e, 'tx, 'l) bound_contract IbchandlerCallerRaw \<Rightarrow> 'co \<Rightarrow> string \<Rightarrow> iface list \<Rightarrow> 'w \<Rightarrow> 'e + iface list"
where
  "IbchandlerCallerRaw_Call C opts method params w =
     bc_Call (contract (raw_part C)) opts method params w"

definition IbchandlerTransactorRaw_Transfer ::
  "('w, 'co, 'to, 'fo, 'wo, 'e, 'tx, 'l) bound_contract IbchandlerTransactorRaw \<Rightarrow> 'to \<Rightarrow> 'w \<Rightarrow> ('e + 'tx) \<times> 'w"
where
  "IbchandlerTransactorRaw_Transfer C opts w =
     bc_Transfer (contract (raw_part C)) opts w"

definition IbchandlerTransactorRaw_Transact ::
  "('w, 'co, 'to, 'fo, 'wo, 'e, 'tx, 'l) bound_contract IbchandlerTransactorRaw \<Rightarrow> 'to \<Rightarrow> string \<Rightarrow> iface list \<Rightarrow> 'w \<Rightarrow> ('e + 'tx) \<times> 'w"
where
  "IbchandlerTransactorRaw_Transact C opts method params w =
     contract_transact (contract (raw_part C)) opts method params w"

subsection \<open>Calls\<close>

definition IbchandlerCaller_GetHostAddress ::
  "('w, 'co, 'to, 'fo, 'wo, 'e, 'tx, 'l) bound_contract IbchandlerCaller \<Rightarrow> 'co \<Rightarrow> 'w \<Rightarrow> 'e go_fail + address"
where
  "IbchandlerCaller_GetHostAddress C opts w =
     bindr (contract_call (contract C) opts ''getHostAddress'' [] w) (\<lambda>out.
     out_at (contract C) as_address out 0)"

subsection \<open>Transactions\<close>

definition IbchandlerTransactor_AcknowledgePacket ::
  "('w, 'co, 'to, 'fo, 'wo, 'e, 'tx, 'l) bound_contract IbchandlerTransactor \<Rightarrow> 'to \<Rightarrow> MsgPacketAcknowledgement \<Rightarrow> 'w \<Rightarrow> ('e + 'tx) \<times> 'w"
where
  "IbchandlerTransactor_AcknowledgePacket T opts m w =
     contract_transact (contract T) opts ''acknowledgePacket'' [I_MsgPacketAcknowledgement m] w"

definition IbchandlerTransactor_BindPort ::
  "('w, 'co, 'to, 'fo, 'wo, 'e, 'tx, 'l) bound_contract IbchandlerTransactor \<Rightarrow> 'to \<Rightarrow> string \<Rightarrow> address \<Rightarrow> 'w \<Rightarrow> ('e + 'tx) \<times> 'w"
where
  "IbchandlerTransactor_BindPort T opts portId moduleAddress w =
     contract_transact (contract T) opts ''bindPort'' [I_string portId, I_address moduleAddress] w"

definition IbchandlerTransactor_ChannelOpenAck ::
  "('w, 'co, 'to, 'fo, 'wo, 'e, 'tx, 'l) bound_contract IbchandlerTransactor \<Rightarrow> 'to \<Rightarrow> MsgChannelOpenAck \<Rightarrow> 'w \<Rightarrow> ('e + 'tx) \<times> 'w"
where
  "IbchandlerTransactor_ChannelOpenAck T opts m w =
     contract_transact (contract T) opts ''channelOpenAck'' [I_MsgChannelOpenAck m] w"

definition IbchandlerTransactor_ChannelOpenConfirm ::
  "('w, 'co, 'to, 'fo, 'wo, 'e, 'tx, 'l) bound_contract IbchandlerTransactor \<Rightarrow> 'to \<Rightarrow> MsgChannelOpenConfirm \<Rightarrow> 'w \<Rightarrow> ('e + 'tx) \<times> 'w"
where
  "IbchandlerTransactor_ChannelOpenConfirm T opts m w =
     contract_transact (contract T) opts ''channelOpenConfirm'' [I_MsgChannelOpenConfirm m] w"

definition IbchandlerTransactor_ChannelOpenInit ::
  "('w, 'co, 'to, 'fo, 'wo, 'e, 'tx, 'l) bound_contract IbchandlerTransactor \<Rightarrow> 'to \<Rightarrow> MsgChannelOpenInit \<Rightarrow> 'w \<Rightarrow> ('e + 'tx) \<times> 'w"
where
  "IbchandlerTransactor_ChannelOpenInit T opts m w =
     contract_transact (contract T) opts ''channelOpenInit'' [I_MsgChannelOpenInit m] w"

definition IbchandlerTransactor_ChannelOpenTry ::
  "('w, 'co, 'to, 'fo, 'wo, 'e, 'tx, 'l) bound_contract IbchandlerTransactor \<Rightarrow> 'to \<Rightarrow> MsgChannelOpenTry \<Rightarrow> 'w \<Rightarrow> ('e + 'tx) \<times> 'w"
where
  "IbchandlerTransactor_ChannelOpenTry T opts m w =
     contract_transact (contract T) opts ''channelOpenTry'' [I_MsgChannelOpenTry m] w"

definition IbchandlerTransactor_ConnectionOpenAck ::
  "('w, 'co, 'to, 'fo, 'wo, 'e, 'tx, 'l) bound_contract IbchandlerTransactor \<Rightarrow> 'to \<Rightarrow> MsgConnectionOpenAck \<Rightarrow> 'w \<Rightarrow> ('e + 'tx) \<times> 'w"
where
  "IbchandlerTransactor_ConnectionOpenAck T opts m w =
     contract_transact (contract T) opts ''connectionOpenAck'' [I_MsgConnectionOpenAck m] w"

definition IbchandlerTransactor_ConnectionOpenConfirm ::
  "('w, 'co, 'to, 'fo, 'wo, 'e, 'tx, 'l) bound_contract IbchandlerTransactor \<Rightarrow> 'to \<Rightarrow> MsgConnectionOpenConfirm \<Rightarrow> 'w \<Rightarrow> ('e + 'tx) \<times> 'w"
where
  "IbchandlerTransactor_ConnectionOpenConfirm T opts m w =
     contract_transact (contract T) opts ''connectionOpenConfirm'' [I_MsgConnectionOpenConfirm m] w"

definition IbchandlerTransactor_ConnectionOpenInit ::
  "('w, 'co, 'to, 'fo, 'wo, 'e, 'tx, 'l) bound_contract IbchandlerTransactor \<Rightarrow> 'to \<Rightarrow> MsgConnectionOpenInit \<Rightarrow> 'w \<Rightarrow> ('e + 'tx) \<times> 'w"
where
  "IbchandlerTransactor_ConnectionOpenInit T opts m w =
     contract_transact (contract T) opts ''connectionOpenInit'' [I_MsgConnectionOpenInit m] w"

definition IbchandlerTransactor_ConnectionOpenTry ::
  "('w, 'co, 'to, 'fo, 'wo, 'e, 'tx, 'l) bound_contract IbchandlerTransactor \<Rightarrow> 'to \<Rightarrow> MsgConnectionOpenTry \<Rightarrow> 'w \<Rightarrow> ('e + 'tx) \<times> 'w"
where
  "IbchandlerTransactor_ConnectionOpenTry T opts m w =
     contract_transact (contract T) opts ''connectionOpenTry'' [I_MsgConnectionOpenTry m] w"

definition IbchandlerTransactor_CreateClient ::
  "('w, 'co, 'to, 'fo, 'wo, 'e, 'tx, 'l) bound_contract IbchandlerTransactor \<Rightarrow> 'to \<Rightarrow> MsgCreateClient \<Rightarrow> 'w \<Rightarrow> ('e + 'tx) \<times> 'w"
where
  "IbchandlerTransactor_CreateClient T opts m w =
     contract_transact (contract T) opts ''createClient'' [I_MsgCreateClient m] w"

definition IbchandlerTransactor_RecvPacket ::
  "('w, 'co, 'to, 'fo, 'wo, 'e, 'tx, 'l) bound_contract IbchandlerTransactor \<Rightarrow> 'to \<Rightarrow> MsgPacketRecv \<Rightarrow> 'w \<Rightarrow> ('e + 'tx) \<times> 'w"
where
  "IbchandlerTransactor_RecvPacket T opts m w =
     contract_transact (contract T) opts ''recvPacket'' [I_MsgPacketRecv m] w"

definition IbchandlerTransactor_RegisterClient ::
  "('w, 'co, 'to, 'fo, 'wo, 'e, 'tx, 'l) bound_contract IbchandlerTransactor \<Rightarrow> 'to \<Rightarrow> string \<Rightarrow> address \<Rightarrow> 'w \<Rightarrow> ('e + 'tx) \<times> 'w"
where
  "IbchandlerTransactor_RegisterClient T opts clientType client w =
     contract_transact (contract T) opts ''registerClient'' [I_string clientType, I_address client] w"

definition IbchandlerTransactor_SendPacket ::
  "('w, 'co, 'to, 'fo, 'wo, 'e, 'tx, 'l) bound_contract IbchandlerTransactor \<Rightarrow> 'to \<Rightarrow> PacketData \<Rightarrow> 'w \<Rightarrow> ('e + 'tx) \<times> 'w"
where
  "IbchandlerTransactor_SendPacket T opts packet w =
     contract_transact (contract T) opts ''sendPacket'' [I_PacketData packet] w"

definition IbchandlerTransactor_UpdateClient ::
  "('w, 'co, 'to, 'fo, 'wo, 'e, 'tx, 'l) bound_contract IbchandlerTransactor \<Rightarrow> 'to \<Rightarrow> MsgUpdateClient \<Rightarrow> 'w \<Rightarrow> ('e + 'tx) \<times> 'w"
where
  "IbchandlerTransactor_UpdateClient T opts m w =
     contract_transact (contract T) opts ''updateClient'' [I_MsgUpdateClient m] w"

definition IbchandlerTransactor_WriteAcknowledgement ::
  "('w, 'co, 'to, 'fo, 'wo, 'e, 'tx, 'l) bound_contract IbchandlerTransactor \<Rightarrow> 'to \<Rightarrow> string \<Rightarrow> string \<Rightarrow> 64 word \<Rightarrow> byte list \<Rightarrow> 'w \<Rightarrow> ('e + 'tx) \<times> 'w"
where
  "IbchandlerTransactor_WriteAcknowledgement T opts destinationPortId destinationChannel sequence acknowledgement w =
     contract_transact (contract T) opts ''writeAcknowledgement'' [I_string destinationPortId, I_string destinationChannel, I_uint64 sequence, I_bytes acknowledgement] w"

subsection \<open>Sessions\<close>

definition IbchandlerSession_GetHostAddress ::
  "(('w, 'co, 'to, 'fo, 'wo, 'e, 'tx, 'l) bound_contract, 'co, 'to) IbchandlerSession \<Rightarrow> 'w \<Rightarrow> 'e go_fail + address"
where
  "IbchandlerSession_GetHostAddress S w =
     IbchandlerCaller_GetHostAddress (Caller (session_Contract S)) (session_CallOpts S) w"

definition IbchandlerCallerSession_GetHostAddress ::
  "(('w, 'co, 'to, 'fo, 'wo, 'e, 'tx, 'l) bound_contract, 'co) IbchandlerCallerSession \<Rightarrow> 'w \<Rightarrow> 'e go_fail + address"
where
  "IbchandlerCallerSession_GetHostAddress S w =
     IbchandlerCaller_GetHostAddress (caller_Contract S) (caller_CallOpts S) w"

definition IbchandlerSession_AcknowledgePacket ::
  "(('w, 'co, 'to, 'fo, 'wo, 'e, 'tx, 'l) bound_contract, 'co, 'to) IbchandlerSession \<Rightarrow> MsgPacketAcknowledgement \<Rightarrow> 'w \<Rightarrow> ('e + 'tx) \<times> 'w"
where
  "IbchandlerSession_AcknowledgePacket S m w =
     IbchandlerTransactor_AcknowledgePacket (Transactor (session_Contract S)) (session_TransactOpts S) m w"

definition IbchandlerTransactorSession_AcknowledgePacket ::
  "(('w, 'co, 'to, 'fo, 'wo, 'e, 'tx, 'l) bound_contract, 'to) IbchandlerTransactorSession \<Rightarrow> MsgPacketAcknowledgement \<Rightarrow> 'w \<Rightarrow> ('e + 'tx) \<times> 'w"
where
  "IbchandlerTransactorSession_AcknowledgePacket S m w =
     IbchandlerTransactor_AcknowledgePacket (transactor_Contract S) (transactor_TransactOpts S) m w"

definition IbchandlerSession_BindPort ::
  "(('w, 'co, 'to, 'fo, 'wo, 'e, 'tx, 'l) bound_contract, 'co, 'to) IbchandlerSession \<Rightarrow> string \<Rightarrow> address \<Rightarrow> 'w \<Rightarrow> ('e + 'tx) \<times> 'w"
where
  "IbchandlerSession_BindPort S portId moduleAddress w =
     IbchandlerTransactor_BindPort (Transactor (session_Contract S)) (session_TransactOpts S) portId moduleAddress w"

definition IbchandlerTransactorSession_BindPort ::
  "(('w, 'co, 'to, 'fo, 'wo, 'e, 'tx, 'l) bound_contract, 'to) IbchandlerTransactorSession \<Rightarrow> string \<Rightarrow> address \<Rightarrow> 'w \<Rightarrow> ('e + 'tx) \<times> 'w"
where
  "IbchandlerTransactorSession_BindPort S portId moduleAddress w =
     IbchandlerTransactor_BindPort (transactor_Contract S) (transactor_TransactOpts S) portId moduleAddress w"

definition IbchandlerSession_ChannelOpenAck ::
  "(('w, 'co, 'to, 'fo, 'wo, 'e, 'tx, 'l) bound_contract, 'co, 'to) IbchandlerSession \<Rightarrow> MsgChannelOpenAck \<Rightarrow> 'w \<Rightarrow> ('e + 'tx) \<times> 'w"
where
  "IbchandlerSession_ChannelOpenAck S m w =
     IbchandlerTransactor_ChannelOpenAck (Transactor (session_Contract S)) (session_TransactOpts S) m w"

definition IbchandlerTransactorSession_ChannelOpenAck ::
  "(('w, 'co, 'to, 'fo, 'wo, 'e, 'tx, 'l) bound_contract, 'to) IbchandlerTransactorSession \<Rightarrow> MsgChannelOpenAck \<Rightarrow> 'w \<Rightarrow> ('e + 'tx) \<times> 'w"
where
  "IbchandlerTransactorSession_ChannelOpenAck S m w =
     IbchandlerTransactor_ChannelOpenAck (transactor_Contract S) (transactor_TransactOpts S) m w"

definition IbchandlerSession_ChannelOpenConfirm ::
  "(('w, 'co, 'to, 'fo, 'wo, 'e, 'tx, 'l) bound_contract, 'co, 'to) IbchandlerSession \<Rightarrow> MsgChannelOpenConfirm \<Rightarrow> 'w \<Rightarrow> ('e + 'tx) \<times> 'w"
where
  "IbchandlerSession_ChannelOpenConfirm S m w =
     IbchandlerTransactor_ChannelOpenConfirm (Transactor (session_Contract S)) (session_TransactOpts S) m w"

definition IbchandlerTransactorSession_ChannelOpenConfirm ::
  "(('w, 'co, 'to, 'fo, 'wo, 'e, 'tx, 'l) bound_contract, 'to) IbchandlerTransactorSession \<Rightarrow> MsgChannelOpenConfirm \<Rightarrow> 'w \<Rightarrow> ('e + 'tx) \<times> 'w"
where
  "IbchandlerTransactorSession_ChannelOpenConfirm S m w =
     IbchandlerTransactor_ChannelOpenConfirm (transactor_Contract S) (transactor_TransactOpts S) m w"

definition IbchandlerSession_ChannelOpenInit ::
  "(('w, 'co, 'to, 'fo, 'wo, 'e, 'tx, 'l) bound_contract, 'co, 'to) IbchandlerSession \<Rightarrow> MsgChannelOpenInit \<Rightarrow> 'w \<Rightarrow> ('e + 'tx) \<times> 'w"
where
  "IbchandlerSession_ChannelOpenInit S m w =
     IbchandlerTransactor_ChannelOpenInit (Transactor (session_Contract S)) (session_TransactOpts S) m w"

definition IbchandlerTransactorSession_ChannelOpenInit ::
  "(('w, 'co, 'to, 'fo, 'wo, 'e, 'tx, 'l) bound_contract, 'to) IbchandlerTransactorSession \<Rightarrow> MsgChannelOpenInit \<Rightarrow> 'w \<Rightarrow> ('e + 'tx) \<times> 'w"
where
  "IbchandlerTransactorSession_ChannelOpenInit S m w =
     IbchandlerTransactor_ChannelOpenInit (transactor_Contract S) (transactor_TransactOpts S) m w"

definition IbchandlerSession_ChannelOpenTry ::
  "(('w, 'co, 'to, 'fo, 'wo, 'e, 'tx, 'l) bound_contract, 'co, 'to) IbchandlerSession \<Rightarrow> MsgChannelOpenTry \<Rightarrow> 'w \<Rightarrow> ('e + 'tx) \<times> 'w"
where
  "IbchandlerSession_ChannelOpenTry S m w =
     IbchandlerTransactor_ChannelOpenTry (Transactor (session_Contract S)) (session_TransactOpts S) m w"

definition IbchandlerTransactorSession_ChannelOpenTry ::
  "(('w, 'co, 'to, 'fo, 'wo, 'e, 'tx, 'l) bound_contract, 'to) IbchandlerTransactorSession \<Rightarrow> MsgChannelOpenTry \<Rightarrow> 'w \<Rightarrow> ('e + 'tx) \<times> 'w"
where
  "IbchandlerTransactorSession_ChannelOpenTry S m w =
     IbchandlerTransactor_ChannelOpenTry (transactor_Contract S) (transactor_TransactOpts S) m w"

definition IbchandlerSession_ConnectionOpenAck ::
  "(('w, 'co, 'to, 'fo, 'wo, 'e, 'tx, 'l) bound_contract, 'co, 'to) IbchandlerSession \<Rightarrow> MsgConnectionOpenAck \<Rightarrow> 'w \<Rightarrow> ('e + 'tx) \<times> 'w"
where
  "IbchandlerSession_ConnectionOpenAck S m w =
     IbchandlerTransactor_ConnectionOpenAck (Transactor (session_Contract S)) (session_TransactOpts S) m w"

definition IbchandlerTransactorSession_ConnectionOpenAck ::
  "(('w, 'co, 'to, 'fo, 'wo, 'e, 'tx, 'l) bound_contract, 'to) IbchandlerTransactorSession \<Rightarrow> MsgConnectionOpenAck \<Rightarrow> 'w \<Rightarrow> ('e + 'tx) \<times> 'w"
where
  "IbchandlerTransactorSession_ConnectionOpenAck S m w =
     IbchandlerTransactor_ConnectionOpenAck (transactor_Contract S) (transactor_TransactOpts S) m w"

definition IbchandlerSession_ConnectionOpenConfirm ::
  "(('w, 'co, 'to, 'fo, 'wo, 'e, 'tx, 'l) bound_contract, 'co, 'to) IbchandlerSession \<Rightarrow> MsgConnectionOpenConfirm \<Rightarrow> 'w \<Rightarrow> ('e + 'tx) \<times> 'w"
where
  "IbchandlerSession_ConnectionOpenConfirm S m w =
     IbchandlerTransactor_ConnectionOpenConfirm (Transactor (session_Contract S)) (session_TransactOpts S) m w"

definition IbchandlerTransactorSession_ConnectionOpenConfirm ::
  "(('w, 'co, 'to, 'fo, 'wo, 'e, 'tx, 'l) bound_contract, 'to) IbchandlerTransactorSession \<Rightarrow> MsgConnectionOpenConfirm \<Rightarrow> 'w \<Rightarrow> ('e + 'tx) \<times> 'w"
where
  "IbchandlerTransactorSession_ConnectionOpenConfirm S m w =
     IbchandlerTransactor_ConnectionOpenConfirm (transactor_Contract S) (transactor_TransactOpts S) m w"

definition IbchandlerSession_ConnectionOpenInit ::
  "(('w, 'co, 'to, 'fo, 'wo, 'e, 'tx, 'l) bound_contract, 'co, 'to) IbchandlerSession \<Rightarrow> MsgConnectionOpenInit \<Rightarrow> 'w \<Rightarrow> ('e + 'tx) \<times> 'w"
where
  "IbchandlerSession_ConnectionOpenInit S m w =
     IbchandlerTransactor_ConnectionOpenInit (Transactor (session_Contract S)) (session_TransactOpts S) m w"

definition IbchandlerTransactorSession_ConnectionOpenInit ::
  "(('w, 'co, 'to, 'fo, 'wo, 'e, 'tx, 'l) bound_contract, 'to) IbchandlerTransactorSession \<Rightarrow> MsgConnectionOpenInit \<Rightarrow> 'w \<Rightarrow> ('e + 'tx) \<times> 'w"
where
  "IbchandlerTransactorSession_ConnectionOpenInit S m w =
     IbchandlerTransactor_ConnectionOpenInit (transactor_Contract S) (transactor_TransactOpts S) m w"

definition IbchandlerSession_ConnectionOpenTry ::
  "(('w, 'co, 'to, 'fo, 'wo, 'e, 'tx, 'l) bound_contract, 'co, 'to) IbchandlerSession \<Rightarrow> MsgConnectionOpenTry \<Rightarrow> 'w \<Rightarrow> ('e + 'tx) \<times> 'w"
where
  "IbchandlerSession_ConnectionOpenTry S m w =
     IbchandlerTransactor_ConnectionOpenTry (Transactor (session_Contract S)) (session_TransactOpts S) m w"

definition IbchandlerTransactorSession_ConnectionOpenTry ::
  "(('w, 'co, 'to, 'fo, 'wo, 'e, 'tx, 'l) bound_contract, 'to) IbchandlerTransactorSession \<Rightarrow> MsgConnectionOpenTry \<Rightarrow> 'w \<Rightarrow> ('e + 'tx) \<times> 'w"
where
  "IbchandlerTransactorSession_ConnectionOpenTry S m w =
     IbchandlerTransactor_ConnectionOpenTry (transactor_Contract S) (transactor_TransactOpts S) m w"

definition IbchandlerSession_CreateClient ::
  "(('w, 'co, 'to, 'fo, 'wo, 'e, 'tx, 'l) bound_contract, 'co, 'to) IbchandlerSession \<Rightarrow> MsgCreateClient \<Rightarrow> 'w \<Rightarrow> ('e + 'tx) \<times> 'w"
where
  "IbchandlerSession_CreateClient S m w =
     IbchandlerTransactor_CreateClient (Transactor (session_Contract S)) (session_TransactOpts S) m w"

definition IbchandlerTransactorSession_CreateClient ::
  "(('w, 'co, 'to, 'fo, 'wo, 'e, 'tx, 'l) bound_contract, 'to) IbchandlerTransactorSession \<Rightarrow> MsgCreateClient \<Rightarrow> 'w \<Rightarrow> ('e + 'tx) \<times> 'w"
where
  "IbchandlerTransactorSession_CreateClient S m w =
     IbchandlerTransactor_CreateClient (transactor_Contract S) (transactor_TransactOpts S) m w"

definition IbchandlerSession_RecvPacket ::
  "(('w, 'co, 'to, 'fo, 'wo, 'e, 'tx, 'l) bound_contract, 'co, 'to) IbchandlerSession \<Rightarrow> MsgPacketRecv \<Rightarrow> 'w \<Rightarrow> ('e + 'tx) \<times> 'w"
where
  "IbchandlerSession_RecvPacket S m w =
     IbchandlerTransactor_RecvPacket (Transactor (session_Contract S)) (session_TransactOpts S) m w"

definition IbchandlerTransactorSession_RecvPacket ::
  "(('w, 'co, 'to, 'fo, 'wo, 'e, 'tx, 'l) bound_contract, 'to) IbchandlerTransactorSession \<Rightarrow> MsgPacketRecv \<Rightarrow> 'w \<Rightarrow> ('e + 'tx) \<times> 'w"
where
  "IbchandlerTransactorSession_RecvPacket S m w =
     IbchandlerTransactor_RecvPacket (transactor_Contract S) (transactor_TransactOpts S) m w"

definition IbchandlerSession_RegisterClient ::
  "(('w, 'co, 'to, 'fo, 'wo, 'e, 'tx, 'l) bound_contract, 'co, 'to) IbchandlerSession \<Rightarrow> string \<Rightarrow> address \<Rightarrow> 'w \<Rightarrow> ('e + 'tx) \<times> 'w"
where
  "IbchandlerSession_RegisterClient S clientType client w =
     IbchandlerTransactor_RegisterClient (Transactor (session_Contract S)) (session_TransactOpts S) clientType client w"

definition IbchandlerTransactorSession_RegisterClient ::
  "(('w, 'co, 'to, 'fo, 'wo, 'e, 'tx, 'l) bound_contract, 'to) IbchandlerTransactorSession \<Rightarrow> string \<Rightarrow> address \<Rightarrow> 'w \<Rightarrow> ('e + 'tx) \<times> 'w"
where
  "IbchandlerTransactorSession_RegisterClient S clientType client w =
     IbchandlerTransactor_RegisterClient (transactor_Contract S) (transactor_TransactOpts S) clientType client w"

definition IbchandlerSession_SendPacket ::
  "(('w, 'co, 'to, 'fo, 'wo, 'e, 'tx, 'l) bound_contract, 'co, 'to) IbchandlerSession \<Rightarrow> PacketData \<Rightarrow> 'w \<Rightarrow> ('e + 'tx) \<times> 'w"
where
  "IbchandlerSession_SendPacket S packet w =
     IbchandlerTransactor_SendPacket (Transactor (session_Contract S)) (session_TransactOpts S) packet w"

definition IbchandlerTransactorSession_SendPacket ::
  "(('w, 'co, 'to, 'fo, 'wo, 'e, 'tx, 'l) bound_contract, 'to) IbchandlerTransactorSession \<Rightarrow> PacketData \<Rightarrow> 'w \<Rightarrow> ('e + 'tx) \<times> 'w"
where
  "IbchandlerTransactorSession_SendPacket S packet w =
     IbchandlerTransactor_SendPacket (transactor_Contract S) (transactor_TransactOpts S) packet w"

definition IbchandlerSession_UpdateClient ::
  "(('w, 'co, 'to, 'fo, 'wo, 'e, 'tx, 'l) bound_contract, 'co, 'to) IbchandlerSession \<Rightarrow> MsgUpdateClient \<Rightarrow> 'w \<Rightarrow> ('e + 'tx) \<times> 'w"
where
  "IbchandlerSession_UpdateClient S m w =
     IbchandlerTransactor_UpdateClient (Transactor (session_Contract S)) (session_TransactOpts S) m w"

definition IbchandlerTransactorSession_UpdateClient ::
  "(('w, 'co, 'to, 'fo, 'wo, 'e, 'tx, 'l) bound_contract, 'to) IbchandlerTransactorSession \<Rightarrow> MsgUpdateClient \<Rightarrow> 'w \<Rightarrow> ('e + 'tx) \<times> 'w"
where
  "IbchandlerTransactorSession_UpdateClient S m w =
     IbchandlerTransactor_UpdateClient (transactor_Contract S) (transactor_TransactOpts S) m w"

definition IbchandlerSession_WriteAcknowledgement ::
  "(('w, 'co, 'to, 'fo, 'wo, 'e, 'tx, 'l) bound_contract, 'co, 'to) IbchandlerSession \<Rightarrow> string \<Rightarrow> string \<Rightarrow> 64 word \<Rightarrow> byte list \<Rightarrow> 'w \<Rightarrow> ('e + 'tx) \<times> 'w"
where
  "IbchandlerSession_WriteAcknowledgement S destinationPortId destinationChannel sequence acknowledgement w =
     IbchandlerTransactor_WriteAcknowledgement (Transactor (session_Contract S)) (session_TransactOpts S) destinationPortId destinationChannel sequence acknowledgement w"

definition IbchandlerTransactorSession_WriteAcknowledgement ::
  "(('w, 'co, 'to, 'fo, 'wo, 'e, 'tx, 'l) bound_contract, 'to) IbchandlerTransactorSession \<Rightarrow> string \<Rightarrow> string \<Rightarrow> 64 word \<Rightarrow> byte list \<Rightarrow> 'w \<Rightarrow> ('e + 'tx) \<times> 'w"
where
  "IbchandlerTransactorSession_WriteAcknowledgement S destinationPortId destinationChannel sequence acknowledgement w =
     IbchandlerTransactor_WriteAcknowledgement (transactor_Contract S) (transactor_TransactOpts S) destinationPortId destinationChannel sequence acknowledgement w"

subsection \<open>Event AcknowledgePacket\<close>

record 'l IbchandlerAcknowledgePacket =
  IbchandlerAcknowledgePacket_Packet :: "PacketData"
  IbchandlerAcknowledgePacket_Acknowledgement :: "byte list"
  IbchandlerAcknowledgePacket_Raw :: 'l

definition IbchandlerAcknowledgePacket_fill :: "iface list \<Rightarrow> 'l \<Rightarrow> 'l IbchandlerAcknowledgePacket option" where
  "IbchandlerAcknowledgePacket_fill vs log =
     (case vs of
        [v0, v1] \<Rightarrow> Option.bind (as_PacketData v0) (\<lambda>x0.
          Option.bind (as_bytes v1) (\<lambda>x1.
          Some \<lparr>IbchandlerAcknowledgePacket_Packet = x0, IbchandlerAcknowledgePacket_Acknowledgement = x1, IbchandlerAcknowledgePacket_Raw = log\<rparr>))
      | _ \<Rightarrow> None)"

type_synonym ('l, 'e) IbchandlerAcknowledgePacketIterator = "('l IbchandlerAcknowledgePacket, 'l, 'e) event_iterator"

definition IbchandlerAcknowledgePacketIterator_Next ::
  "('w, 'co, 'to, 'fo, 'wo, 'e, 'tx, 'l) bound_contract \<Rightarrow> ('l, 'e) IbchandlerAcknowledgePacketIterator \<Rightarrow> (bool \<times> ('l, 'e) IbchandlerAcknowledgePacketIterator) option"
where
  "IbchandlerAcknowledgePacketIterator_Next c it =
     iterator_Next c IbchandlerAcknowledgePacket_fill it"

definition IbchandlerAcknowledgePacketIterator_Error ::
  "('l, 'e) IbchandlerAcknowledgePacketIterator \<Rightarrow> 'e option"
where
  "IbchandlerAcknowledgePacketIterator_Error it =
     iterator_Error it"

definition IbchandlerAcknowledgePacketIterator_Close ::
  "('w, 'co, 'to, 'fo, 'wo, 'e, 'tx, 'l) bound_contract \<Rightarrow> ('l, 'e) IbchandlerAcknowledgePacketIterator \<Rightarrow> 'e option \<times> ('l, 'e) IbchandlerAcknowledgePacketIterator"
where
  "IbchandlerAcknowledgePacketIterator_Close c it =
     iterator_Close c it"

definition IbchandlerFilterer_FilterAcknowledgePacket ::
  "('w, 'co, 'to, 'fo, 'wo, 'e, 'tx, 'l) bound_contract IbchandlerFilterer \<Rightarrow> 'fo \<Rightarrow> 'w \<Rightarrow> 'e + ('l, 'e) IbchandlerAcknowledgePacketIterator"
where
  "IbchandlerFilterer_FilterAcknowledgePacket F opts w =
     filter_logs (contract F) opts ''AcknowledgePacket'' [] w"

definition IbchandlerFilterer_WatchAcknowledgePacket ::
  "('w, 'co, 'to, 'fo, 'wo, 'e, 'tx, 'l) bound_contract IbchandlerFilterer \<Rightarrow> 'wo \<Rightarrow> 'w \<Rightarrow>
   'e + (('l, 'e) watch_input list \<Rightarrow> 'l IbchandlerAcknowledgePacket list \<times> 'e option option)"
where
  "IbchandlerFilterer_WatchAcknowledgePacket F opts w =
     watch_logs (contract F) opts ''AcknowledgePacket'' IbchandlerAcknowledgePacket_fill [] w"

definition IbchandlerFilterer_ParseAcknowledgePacket ::
  "('w, 'co, 'to, 'fo, 'wo, 'e, 'tx, 'l) bound_contract IbchandlerFilterer \<Rightarrow> 'l \<Rightarrow> 'e + 'l IbchandlerAcknowledgePacket"
where
  "IbchandlerFilterer_ParseAcknowledgePacket F log =
     unpack_event (contract F) ''AcknowledgePacket'' IbchandlerAcknowledgePacket_fill log"

subsection \<open>Event RecvPacket\<close>

record 'l IbchandlerRecvPacket =
  IbchandlerRecvPacket_Packet :: "PacketData"
  IbchandlerRecvPacket_Raw :: 'l

definition IbchandlerRecvPacket_fill :: "iface list \<Rightarrow> 'l \<Rightarrow> 'l IbchandlerRecvPacket option" where
  "IbchandlerRecvPacket_fill vs log =
     (case vs of
        [v0] \<Rightarrow> Option.bind (as_PacketData v0) (\<lambda>x0.
          Some \<lparr>IbchandlerRecvPacket_Packet = x0, IbchandlerRecvPacket_Raw = log\<rparr>)
      | _ \<Rightarrow> None)"

type_synonym ('l, 'e) IbchandlerRecvPacketIterator = "('l IbchandlerRecvPacket, 'l, 'e) event_iterator"

definition IbchandlerRecvPacketIterator_Next ::
  "('w, 'co, 'to, 'fo, 'wo, 'e, 'tx, 'l) bound_contract \<Rightarrow> ('l, 'e) IbchandlerRecvPacketIterator \<Rightarrow> (bool \<times> ('l, 'e) IbchandlerRecvPacketIterator) option"
where
  "IbchandlerRecvPacketIterator_Next c it =
     iterator_Next c IbchandlerRecvPacket_fill it"

definition IbchandlerRecvPacketIterator_Error ::
  "('l, 'e) IbchandlerRecvPacketIterator \<Rightarrow> 'e option"
where
  "IbchandlerRecvPacketIterator_Error it =
     iterator_Error it"

definition IbchandlerRecvPacketIterator_Close ::
  "('w, 'co, 'to, 'fo, 'wo, 'e, 'tx, 'l) bound_contract \<Rightarrow> ('l, 'e) IbchandlerRecvPacketIterator \<Rightarrow> 'e option \<times> ('l, 'e) IbchandlerRecvPacketIterator"
where
  "IbchandlerRecvPacketIterator_Close c it =
     iterator_Close c it"

definition IbchandlerFilterer_FilterRecvPacket ::
  "('w, 'co, 'to, 'fo, 'wo, 'e, 'tx, 'l) bound_contract IbchandlerFilterer \<Rightarrow> 'fo \<Rightarrow> 'w \<Rightarrow> 'e + ('l, 'e) IbchandlerRecvPacketIterator"
where
  "IbchandlerFilterer_FilterRecvPacket F opts w =
     filter_logs (contract F) opts ''RecvPacket'' [] w"

definition IbchandlerFilterer_WatchRecvPacket ::
  "('w, 'co, 'to, 'fo, 'wo, 'e, 'tx, 'l) bound_contract IbchandlerFilterer \<Rightarrow> 'wo \<Rightarrow> 'w \<Rightarrow>
   'e + (('l, 'e) watch_input list \<Rightarrow> 'l IbchandlerRecvPacket list \<times> 'e option option)"
where
  "IbchandlerFilterer_WatchRecvPacket F opts w =
     watch_logs (contract F) opts ''RecvPacket'' IbchandlerRecvPacket_fill [] w"

definition IbchandlerFilterer_ParseRecvPacket ::
  "('w, 'co, 'to, 'fo, 'wo, 'e, 'tx, 'l) bound_contract IbchandlerFilterer \<Rightarrow> 'l \<Rightarrow> 'e + 'l IbchandlerRecvPacket"
where
  "IbchandlerFilterer_ParseRecvPacket F log =
     unpack_event (contract F) ''RecvPacket'' IbchandlerRecvPacket_fill log"

subsection \<open>Event SendPacket\<close>

record 'l IbchandlerSendPacket =
  IbchandlerSendPacket_Packet :: "PacketData"
  IbchandlerSendPacket_Raw :: 'l

definition IbchandlerSendPacket_fill :: "iface list \<Rightarrow> 'l \<Rightarrow> 'l IbchandlerSendPacket option" where
  "IbchandlerSendPacket_fill vs log =
     (case vs of
        [v0] \<Rightarrow> Option.bind (as_PacketData v0) (\<lambda>x0.
          Some \<lparr>IbchandlerSendPacket_Packet = x0, IbchandlerSendPacket_Raw = log\<rparr>)
      | _ \<Rightarrow> None)"

type_synonym ('l, 'e) IbchandlerSendPacketIterator = "('l IbchandlerSendPacket, 'l, 'e) event_iterator"

definition IbchandlerSendPacketIterator_Next ::
  "('w, 'co, 'to, 'fo, 'wo, 'e, 'tx, 'l) bound_contract \<Rightarrow> ('l, 'e) IbchandlerSendPacketIterator \<Rightarrow> (bool \<times> ('l, 'e) IbchandlerSendPacketIterator) option"
where
  "IbchandlerSendPacketIterator_Next c it =
     iterator_Next c IbchandlerSendPacket_fill it"

definition IbchandlerSendPacketIterator_Error ::
  "('l, 'e) IbchandlerSendPacketIterator \<Rightarrow> 'e option"
where
  "IbchandlerSendPacketIterator_Error it =
     iterator_Error it"

definition IbchandlerSendPacketIterator_Close ::
  "('w, 'co, 'to, 'fo, 'wo, 'e, 'tx, 'l) bound_contract \<Rightarrow> ('l, 'e) IbchandlerSendPacketIterator \<Rightarrow> 'e option \<times> ('l, 'e) IbchandlerSendPacketIterator"
where
  "IbchandlerSendPacketIterator_Close c it =
     iterator_Close c it"

definition IbchandlerFilterer_FilterSendPacket ::
  "('w, 'co, 'to, 'fo, 'wo, 'e, 'tx, 'l) bound_contract IbchandlerFilterer \<Rightarrow> 'fo \<Rightarrow> 'w \<Rightarrow> 'e + ('l, 'e) IbchandlerSendPacketIterator"
where
  "IbchandlerFilterer_FilterSendPacket F opts w =
     filter_logs (contract F) opts ''SendPacket'' [] w"

definition IbchandlerFilterer_WatchSendPacket ::
  "('w, 'co, 'to, 'fo, 'wo, 'e, 'tx, 'l) bound_contract IbchandlerFilterer \<Rightarrow> 'wo \<Rightarrow> 'w \<Rightarrow>
   'e + (('l, 'e) watch_input list \<Rightarrow> 'l IbchandlerSendPacket list \<times> 'e option option)"
where
  "IbchandlerFilterer_WatchSendPacket F opts w =
     watch_logs (contract F) opts ''SendPacket'' IbchandlerSendPacket_fill [] w"

definition IbchandlerFilterer_ParseSendPacket ::
  "('w, 'co, 'to, 'fo, 'wo, 'e, 'tx, 'l) bound_contract IbchandlerFilterer \<Rightarrow> 'l \<Rightarrow> 'e + 'l IbchandlerSendPacket"
where
  "IbchandlerFilterer_ParseSendPacket F log =
     unpack_event (contract F) ''SendPacket'' IbchandlerSendPacket_fill log"

subsection \<open>Event WriteAcknowledgement\<close>

record 'l IbchandlerWriteAcknowledgement =
  IbchandlerWriteAcknowledgement_DestinationPortId :: "string"
  IbchandlerWriteAcknowledgement_DestinationChannel :: "string"
  IbchandlerWriteAcknowledgement_Sequence :: "64 word"
  IbchandlerWriteAcknowledgement_Acknowledgement :: "byte list"
  IbchandlerWriteAcknowledgement_Raw :: 'l

definition IbchandlerWriteAcknowledgement_fill :: "iface list \<Rightarrow> 'l \<Rightarrow> 'l IbchandlerWriteAcknowledgement option" where
  "IbchandlerWriteAcknowledgement_fill vs log =
     (case vs of
        [v0, v1, v2, v3] \<Rightarrow> Option.bind (as_string v0) (\<lambda>x0.
          Option.bind (as_string v1) (\<lambda>x1.
          Option.bind (as_uint64 v2) (\<lambda>x2.
          Option.bind (as_bytes v3) (\<lambda>x3.
          Some \<lparr>IbchandlerWriteAcknowledgement_DestinationPortId = x0, IbchandlerWriteAcknowledgement_DestinationChannel = x1, IbchandlerWriteAcknowledgement_Sequence = x2, IbchandlerWriteAcknowledgement_Acknowledgement = x3, IbchandlerWriteAcknowledgement_Raw = log\<rparr>))))
      | _ \<Rightarrow> None)"

type_synonym ('l, 'e) IbchandlerWriteAcknowledgementIterator = "('l IbchandlerWriteAcknowledgement, 'l, 'e) event_iterator"

definition IbchandlerWriteAcknowledgementIterator_Next ::
  "('w, 'co, 'to, 'fo, 'wo, 'e, 'tx, 'l) bound_contract \<Rightarrow> ('l, 'e) IbchandlerWriteAcknowledgementIterator \<Rightarrow> (bool \<times> ('l, 'e) IbchandlerWriteAcknowledgementIterator) option"
where
  "IbchandlerWriteAcknowledgementIterator_Next c it =
     iterator_Next c IbchandlerWriteAcknowledgement_fill it"

definition IbchandlerWriteAcknowledgementIterator_Error ::
  "('l, 'e) IbchandlerWriteAcknowledgementIterator \<Rightarrow> 'e option"
where
  "IbchandlerWriteAcknowledgementIterator_Error it =
     iterator_Error it"

definition IbchandlerWriteAcknowledgementIterator_Close ::
  "('w, 'co, 'to, 'fo, 'wo, 'e, 'tx, 'l) bound_contract \<Rightarrow> ('l, 'e) IbchandlerWriteAcknowledgementIterator \<Rightarrow> 'e option \<times> ('l, 'e) IbchandlerWriteAcknowledgementIterator"
where
  "IbchandlerWriteAcknowledgementIterator_Close c it =
     iterator_Close c it"

definition IbchandlerFilterer_FilterWriteAcknowledgement ::
  "('w, 'co, 'to, 'fo, 'wo, 'e, 'tx, 'l) bound_contract IbchandlerFilterer \<Rightarrow> 'fo \<Rightarrow> 'w \<Rightarrow> 'e + ('l, 'e) IbchandlerWriteAcknowledgementIterator"
where
  "IbchandlerFilterer_FilterWriteAcknowledgement F opts w =
     filter_logs (contract F) opts ''WriteAcknowledgement'' [] w"

definition IbchandlerFilterer_WatchWriteAcknowledgement ::
  "('w, 'co, 'to, 'fo, 'wo, 'e, 'tx, 'l) bound_contract IbchandlerFilterer \<Rightarrow> 'wo \<Rightarrow> 'w \<Rightarrow>
   'e + (('l, 'e) watch_input list \<Rightarrow> 'l IbchandlerWriteAcknowledgement list \<times> 'e option option)"
where
  "IbchandlerFilterer_WatchWriteAcknowledgement F opts w =
     watch_logs (contract F) opts ''WriteAcknowledgement'' IbchandlerWriteAcknowledgement_fill [] w"

definition IbchandlerFilterer_ParseWriteAcknowledgement ::
  "('w, 'co, 'to, 'fo, 'wo, 'e, 'tx, 'l) bound_contract IbchandlerFilterer \<Rightarrow> 'l \<Rightarrow> 'e + 'l IbchandlerWriteAcknowledgement"
where
  "IbchandlerFilterer_ParseWriteAcknowledgement F log =
     unpack_event (contract F) ''WriteAcknowledgement'' IbchandlerWriteAcknowledgement_fill log"

end
