(* ===== verification/Ics20bank_Go.thy ===== *)
theory Ics20bank_Go
  imports Go_Bind
begin

text \<open>
  The binding \<^verbatim>\<open>pkg/contract/ics20bank\<close> of the token bank \<^verbatim>\<open>ICS20Bank\<close> (balances, roles and the role events): one
  definition for every type and function of the file, over the shared definitions of
  \<^verbatim>\<open>Go_Bind\<close>. The ABI text the file holds as a constant is an argument of the constructors.
\<close>

subsection \<open>Types\<close>

type_synonym 'c Ics20bank = "'c binding"

type_synonym 'c Ics20bankCaller = "'c binding_part"

type_synonym 'c Ics20bankTransactor = "'c binding_part"

type_synonym 'c Ics20bankFilterer = "'c binding_part"

type_synonym ('c, 'co, 'to) Ics20bankSession = "('c, 'co, 'to) binding_session"

type_synonym ('c, 'co) Ics20bankCallerSession = "('c, 'co) caller_session"

type_synonym ('c, 'to) Ics20bankTransactorSession = "('c, 'to) transactor_session"

type_synonym 'c Ics20bankRaw = "'c binding_raw"

type_synonym 'c Ics20bankCallerRaw = "'c part_raw"

type_synonym 'c Ics20bankTransactorRaw = "'c part_raw"

subsection \<open>Constructors\<close>

definition bindIcs20bank ::
  "('abi, 'b, 'c, 'e) bind_lib \<Rightarrow> string \<Rightarrow> address \<Rightarrow> 'b option \<Rightarrow> 'b option \<Rightarrow> 'b option \<Rightarrow> 'e + 'c"
where
  "bindIcs20bank L abi_text addr caller transactor filterer =
     bind_contract L abi_text addr caller transactor filterer"

definition NewIcs20bank ::
  "('abi, 'b, 'c, 'e) bind_lib \<Rightarrow> string \<Rightarrow> address \<Rightarrow> 'b \<Rightarrow> 'e + 'c Ics20bank"
where
  "NewIcs20bank L abi_text addr backend =
     bindr (bindIcs20bank L abi_text addr (Some backend) (Some backend) (Some backend)) (\<lambda>c.
     Inr \<lparr>Caller = \<lparr>contract = c\<rparr>, Transactor = \<lparr>contract = c\<rparr>, Filterer = \<lparr>contract = c\<rparr>\<rparr>)"

definition NewIcs20bankCaller ::
  "('abi, 'b, 'c, 'e) bind_lib \<Rightarrow> string \<Rightarrow> address \<Rightarrow> 'b \<Rightarrow> 'e + 'c Ics20bankCaller"
where
  "NewIcs20bankCaller L abi_text addr caller =
     bindr (bindIcs20bank L abi_text addr (Some caller) None None) (\<lambda>c. Inr \<lparr>contract = c\<rparr>)"

definition NewIcs20bankTransactor ::
  "('abi, 'b, 'c, 'e) bind_lib \<Rightarrow> string \<Rightarrow> address \<Rightarrow> 'b \<Rightarrow> 'e + 'c Ics20bankTransactor"
where
  "NewIcs20bankTransactor L abi_text addr transactor =
     bindr (bindIcs20bank L abi_text addr None (Some transactor) None) (\<lambda>c. Inr \<lparr>contract = c\<rparr>)"

definition NewIcs20bankFilterer ::
  "('abi, 'b, 'c, 'e) bind_lib \<Rightarrow> string \<Rightarrow> address \<Rightarrow> 'b \<Rightarrow> 'e + 'c Ics20bankFilterer"
where
  "NewIcs20bankFilterer L abi_text addr filterer =
     bindr (bindIcs20bank L abi_text addr None None (Some filterer)) (\<lambda>c. Inr \<lparr>contract = c\<rparr>)"

subsection \<open>Raw calls and transactions\<close>

definition Ics20bankRaw_Call ::
  "('w, 'co, 'to, 'fo, 'wo, 'e, 'tx, 'l) bound_contract Ics20bankRaw \<Rightarrow> 'co \<Rightarrow> string \<Rightarrow> iface list \<Rightarrow> 'w \<Rightarrow> 'e + iface list"
where
  "Ics20bankRaw_Call C opts method params w =
     bc_Call (contract (Caller (raw_Contract C))) opts method params w"

definition Ics20bankRaw_Transfer ::
  "('w, 'co, 'to, 'fo, 'wo, 'e, 'tx, 'l) bound_contract Ics20bankRaw \<Rightarrow> 'to \<Rightarrow> 'w \<Rightarrow> ('e + 'tx) \<times> 'w"
where
  "Ics20bankRaw_Transfer C opts w =
     bc_Transfer (contract (Transactor (raw_Contract C))) opts w"

definition Ics20bankRaw_Transact ::
  "('w, 'co, 'to, 'fo, 'wo, 'e, 'tx, 'l) bound_contract Ics20bankRaw \<Rightarrow> 'to \<Rightarrow> string \<Rightarrow> iface list \<Rightarrow> 'w \<Rightarrow> ('e + 'tx) \<times> 'w"
where
  "Ics20bankRaw_Transact C opts method params w =
     contract_transact (contract (Transactor (raw_Contract C))) opts method params w"

definition Ics20bankCallerRaw_Call ::
  "('w, 'co, 'to, 'fo, 'wo, 'e, 'tx, 'l) bound_contract Ics20bankCallerRaw \<Rightarrow> 'co \<Rightarrow> string \<Rightarrow> iface list \<Rightarrow> 'w \<Rightarrow> 'e + iface list"
where
  "Ics20bankCallerRaw_Call C opts method params w =
     bc_Call (contract (raw_part C)) opts method params w"

definition Ics20bankTransactorRaw_Transfer ::
  "('w, 'co, 'to, 'fo, 'wo, 'e, 'tx, 'l) bound_contract Ics20bankTransactorRaw \<Rightarrow> 'to \<Rightarrow> 'w \<Rightarrow> ('e + 'tx) \<times> 'w"
where
  "Ics20bankTransactorRaw_Transfer C opts w =
     bc_Transfer (contract (raw_part C)) opts w"

definition Ics20bankTransactorRaw_Transact ::
  "('w, 'co, 'to, 'fo, 'wo, 'e, 'tx, 'l) bound_contract Ics20bankTransactorRaw \<Rightarrow> 'to \<Rightarrow> string \<Rightarrow> iface list \<Rightarrow> 'w \<Rightarrow> ('e + 'tx) \<times> 'w"
where
  "Ics20bankTransactorRaw_Transact C opts method params w =
     contract_transact (contract (raw_part C)) opts method params w"

subsection \<open>Calls\<close>

definition Ics20bankCaller_ADMINROLE ::
  "('w, 'co, 'to, 'fo, 'wo, 'e, 'tx, 'l) bound_contract Ics20bankCaller \<Rightarrow> 'co \<Rightarrow> 'w \<Rightarrow> 'e go_fail + byte list"
where
  "Ics20bankCaller_ADMINROLE C opts w =
     bindr (contract_call (contract C) opts ''ADMIN_ROLE'' [] w) (\<lambda>out.
     out_at (contract C) as_bytes32 out 0)"

definition Ics20bankCaller_DEFAULTADMINROLE ::
  "('w, 'co, 'to, 'fo, 'wo, 'e, 'tx, 'l) bound_contract Ics20bankCaller \<Rightarrow> 'co \<Rightarrow> 'w \<Rightarrow> 'e go_fail + byte list"
where
  "Ics20bankCaller_DEFAULTADMINROLE C opts w =
     bindr (contract_call (contract C) opts ''DEFAULT_ADMIN_ROLE'' [] w) (\<lambda>out.
     out_at (contract C) as_bytes32 out 0)"

definition Ics20bankCaller_OPERATORROLE ::
  "('w, 'co, 'to, 'fo, 'wo, 'e, 'tx, 'l) bound_contract Ics20bankCaller \<Rightarrow> 'co \<Rightarrow> 'w \<Rightarrow> 'e go_fail + byte list"
where
  "Ics20bankCaller_OPERATORROLE C opts w =
     bindr (contract_call (contract C) opts ''OPERATOR_ROLE'' [] w) (\<lambda>out.
     out_at (contract C) as_bytes32 out 0)"

definition Ics20bankCaller_BalanceOf ::
  "('w, 'co, 'to, 'fo, 'wo, 'e, 'tx, 'l) bound_contract Ics20bankCaller \<Rightarrow> 'co \<Rightarrow> address \<Rightarrow> string \<Rightarrow> 'w \<Rightarrow> 'e go_fail + int"
where
  "Ics20bankCaller_BalanceOf C opts account ident w =
     bindr (contract_call (contract C) opts ''balanceOf'' [I_address account, I_string ident] w) (\<lambda>out.
     out_at (contract C) as_big out 0)"

definition Ics20bankCaller_GetRoleAdmin ::
  "('w, 'co, 'to, 'fo, 'wo, 'e, 'tx, 'l) bound_contract Ics20bankCaller \<Rightarrow> 'co \<Rightarrow> byte list \<Rightarrow> 'w \<Rightarrow> 'e go_fail + byte list"
where
  "Ics20bankCaller_GetRoleAdmin C opts role w =
     bindr (contract_call (contract C) opts ''getRoleAdmin'' [I_bytes32 role] w) (\<lambda>out.
     out_at (contract C) as_bytes32 out 0)"

definition Ics20bankCaller_GetRoleMember ::
  "('w, 'co, 'to, 'fo, 'wo, 'e, 'tx, 'l) bound_contract Ics20bankCaller \<Rightarrow> 'co \<Rightarrow> byte list \<Rightarrow> int \<Rightarrow> 'w \<Rightarrow> 'e go_fail + address"
where
  "Ics20bankCaller_GetRoleMember C opts role idx w =
     bindr (contract_call (contract C) opts ''getRoleMember'' [I_bytes32 role, I_big idx] w) (\<lambda>out.
     out_at (contract C) as_address out 0)"

definition Ics20bankCaller_GetRoleMemberCount ::
  "('w, 'co, 'to, 'fo, 'wo, 'e, 'tx, 'l) bound_contract Ics20bankCaller \<Rightarrow> 'co \<Rightarrow> byte list \<Rightarrow> 'w \<Rightarrow> 'e go_fail + int"
where
  "Ics20bankCaller_GetRoleMemberCount C opts role w =
     bindr (contract_call (contract C) opts ''getRoleMemberCount'' [I_bytes32 role] w) (\<lambda>out.
     out_at (contract C) as_big out 0)"

definition Ics20bankCaller_HasRole ::
  "('w, 'co, 'to, 'fo, 'wo, 'e, 'tx, 'l) bound_contract Ics20bankCaller \<Rightarrow> 'co \<Rightarrow> byte list \<Rightarrow> address \<Rightarrow> 'w \<Rightarrow> 'e go_fail + bool"
where
  "Ics20bankCaller_HasRole C opts role account w =
     bindr (contract_call (contract C) opts ''hasRole'' [I_bytes32 role, I_address account] w) (\<lambda>out.
     out_at (contract C) as_bool out 0)"

subsection \<open>Transactions\<close>

definition Ics20bankTransactor_Burn ::
  "('w, 'co, 'to, 'fo, 'wo, 'e, 'tx, 'l) bound_contract Ics20bankTransactor \<Rightarrow> 'to \<Rightarrow> address \<Rightarrow> string \<Rightarrow> int \<Rightarrow> 'w \<Rightarrow> ('e + 'tx) \<times> 'w"
where
  "Ics20bankTransactor_Burn T opts account ident amount w =
     contract_transact (contract T) opts ''burn'' [I_address account, I_string ident, I_big amount] w"

definition Ics20bankTransactor_Deposit ::
  "('w, 'co, 'to, 'fo, 'wo, 'e, 'tx, 'l) bound_contract Ics20bankTransactor \<Rightarrow> 'to \<Rightarrow> address \<Rightarrow> int \<Rightarrow> address \<Rightarrow> 'w \<Rightarrow> ('e + 'tx) \<times> 'w"
where
  "Ics20bankTransactor_Deposit T opts tokenContract amount receiver w =
     contract_transact (contract T) opts ''deposit'' [I_address tokenContract, I_big amount, I_address receiver] w"

definition Ics20bankTransactor_GrantRole ::
  "('w, 'co, 'to, 'fo, 'wo, 'e, 'tx, 'l) bound_contract Ics20bankTransactor \<Rightarrow> 'to \<Rightarrow> byte list \<Rightarrow> address \<Rightarrow> 'w \<Rightarrow> ('e + 'tx) \<times> 'w"
where
  "Ics20bankTransactor_GrantRole T opts role account w =
     contract_transact (contract T) opts ''grantRole'' [I_bytes32 role, I_address account] w"

definition Ics20bankTransactor_Mint ::
  "('w, 'co, 'to, 'fo, 'wo, 'e, 'tx, 'l) bound_contract Ics20bankTransactor \<Rightarrow> 'to \<Rightarrow> address \<Rightarrow> string \<Rightarrow> int \<Rightarrow> 'w \<Rightarrow> ('e + 'tx) \<times> 'w"
where
  "Ics20bankTransactor_Mint T opts account ident amount w =
     contract_transact (contract T) opts ''mint'' [I_address account, I_string ident, I_big amount] w"

definition Ics20bankTransactor_RenounceRole ::
  "('w, 'co, 'to, 'fo, 'wo, 'e, 'tx, 'l) bound_contract Ics20bankTransactor \<Rightarrow> 'to \<Rightarrow> byte list \<Rightarrow> address \<Rightarrow> 'w \<Rightarrow> ('e + 'tx) \<times> 'w"
where
  "Ics20bankTransactor_RenounceRole T opts role account w =
     contract_transact (contract T) opts ''renounceRole'' [I_bytes32 role, I_address account] w"

definition Ics20bankTransactor_RevokeRole ::
  "('w, 'co, 'to, 'fo, 'wo, 'e, 'tx, 'l) bound_contract Ics20bankTransactor \<Rightarrow> 'to \<Rightarrow> byte list \<Rightarrow> address \<Rightarrow> 'w \<Rightarrow> ('e + 'tx) \<times> 'w"
where
  "Ics20bankTransactor_RevokeRole T opts role account w =
     contract_transact (contract T) opts ''revokeRole'' [I_bytes32 role, I_address account] w"

definition Ics20bankTransactor_SetOperator ::
  "('w, 'co, 'to, 'fo, 'wo, 'e, 'tx, 'l) bound_contract Ics20bankTransactor \<Rightarrow> 'to \<Rightarrow> address \<Rightarrow> 'w \<Rightarrow> ('e + 'tx) \<times> 'w"
where
  "Ics20bankTransactor_SetOperator T opts operator w =
     contract_transact (contract T) opts ''setOperator'' [I_address operator] w"

definition Ics20bankTransactor_TransferFrom ::
  "('w, 'co, 'to, 'fo, 'wo, 'e, 'tx, 'l) bound_contract Ics20bankTransactor \<Rightarrow> 'to \<Rightarrow> address \<Rightarrow> address \<Rightarrow> string \<Rightarrow> int \<Rightarrow> 'w \<Rightarrow> ('e + 'tx) \<times> 'w"
where
  "Ics20bankTransactor_TransferFrom T opts src dst ident amount w =
     contract_transact (contract T) opts ''transferFrom'' [I_address src, I_address dst, I_string ident, I_big amount] w"

definition Ics20bankTransactor_Withdraw ::
  "('w, 'co, 'to, 'fo, 'wo, 'e, 'tx, 'l) bound_contract Ics20bankTransactor \<Rightarrow> 'to \<Rightarrow> address \<Rightarrow> int \<Rightarrow> address \<Rightarrow> 'w \<Rightarrow> ('e + 'tx) \<times> 'w"
where
  "Ics20bankTransactor_Withdraw T opts tokenContract amount receiver w =
     contract_transact (contract T) opts ''withdraw'' [I_address tokenContract, I_big amount, I_address receiver] w"

subsection \<open>Sessions\<close>

definition Ics20bankSession_ADMINROLE ::
  "(('w, 'co, 'to, 'fo, 'wo, 'e, 'tx, 'l) bound_contract, 'co, 'to) Ics20bankSession \<Rightarrow> 'w \<Rightarrow> 'e go_fail + byte list"
where
  "Ics20bankSession_ADMINROLE S w =
     Ics20bankCaller_ADMINROLE (Caller (session_Contract S)) (session_CallOpts S) w"

definition Ics20bankCallerSession_ADMINROLE ::
  "(('w, 'co, 'to, 'fo, 'wo, 'e, 'tx, 'l) bound_contract, 'co) Ics20bankCallerSession \<Rightarrow> 'w \<Rightarrow> 'e go_fail + byte list"
where
  "Ics20bankCallerSession_ADMINROLE S w =
     Ics20bankCaller_ADMINROLE (caller_Contract S) (caller_CallOpts S) w"

definition Ics20bankSession_DEFAULTADMINROLE ::
  "(('w, 'co, 'to, 'fo, 'wo, 'e, 'tx, 'l) bound_contract, 'co, 'to) Ics20bankSession \<Rightarrow> 'w \<Rightarrow> 'e go_fail + byte list"
where
  "Ics20bankSession_DEFAULTADMINROLE S w =
     Ics20bankCaller_DEFAULTADMINROLE (Caller (session_Contract S)) (session_CallOpts S) w"

definition Ics20bankCallerSession_DEFAULTADMINROLE ::
  "(('w, 'co, 'to, 'fo, 'wo, 'e, 'tx, 'l) bound_contract, 'co) Ics20bankCallerSession \<Rightarrow> 'w \<Rightarrow> 'e go_fail + byte list"
where
  "Ics20bankCallerSession_DEFAULTADMINROLE S w =
     Ics20bankCaller_DEFAULTADMINROLE (caller_Contract S) (caller_CallOpts S) w"

definition Ics20bankSession_OPERATORROLE ::
  "(('w, 'co, 'to, 'fo, 'wo, 'e, 'tx, 'l) bound_contract, 'co, 'to) Ics20bankSession \<Rightarrow> 'w \<Rightarrow> 'e go_fail + byte list"
where
  "Ics20bankSession_OPERATORROLE S w =
     Ics20bankCaller_OPERATORROLE (Caller (session_Contract S)) (session_CallOpts S) w"

definition Ics20bankCallerSession_OPERATORROLE ::
  "(('w, 'co, 'to, 'fo, 'wo, 'e, 'tx, 'l) bound_contract, 'co) Ics20bankCallerSession \<Rightarrow> 'w \<Rightarrow> 'e go_fail + byte list"
where
  "Ics20bankCallerSession_OPERATORROLE S w =
     Ics20bankCaller_OPERATORROLE (caller_Contract S) (caller_CallOpts S) w"

definition Ics20bankSession_BalanceOf ::
  "(('w, 'co, 'to, 'fo, 'wo, 'e, 'tx, 'l) bound_contract, 'co, 'to) Ics20bankSession \<Rightarrow> address \<Rightarrow> string \<Rightarrow> 'w \<Rightarrow> 'e go_fail + int"
where
  "Ics20bankSession_BalanceOf S account ident w =
     Ics20bankCaller_BalanceOf (Caller (session_Contract S)) (session_CallOpts S) account ident w"

definition Ics20bankCallerSession_BalanceOf ::
  "(('w, 'co, 'to, 'fo, 'wo, 'e, 'tx, 'l) bound_contract, 'co) Ics20bankCallerSession \<Rightarrow> address \<Rightarrow> string \<Rightarrow> 'w \<Rightarrow> 'e go_fail + int"
where
  "Ics20bankCallerSession_BalanceOf S account ident w =
     Ics20bankCaller_BalanceOf (caller_Contract S) (caller_CallOpts S) account ident w"

definition Ics20bankSession_GetRoleAdmin ::
  "(('w, 'co, 'to, 'fo, 'wo, 'e, 'tx, 'l) bound_contract, 'co, 'to) Ics20bankSession \<Rightarrow> byte list \<Rightarrow> 'w \<Rightarrow> 'e go_fail + byte list"
where
  "Ics20bankSession_GetRoleAdmin S role w =
     Ics20bankCaller_GetRoleAdmin (Caller (session_Contract S)) (session_CallOpts S) role w"

definition Ics20bankCallerSession_GetRoleAdmin ::
  "(('w, 'co, 'to, 'fo, 'wo, 'e, 'tx, 'l) bound_contract, 'co) Ics20bankCallerSession \<Rightarrow> byte list \<Rightarrow> 'w \<Rightarrow> 'e go_fail + byte list"
where
  "Ics20bankCallerSession_GetRoleAdmin S role w =
     Ics20bankCaller_GetRoleAdmin (caller_Contract S) (caller_CallOpts S) role w"

definition Ics20bankSession_GetRoleMember ::
  "(('w, 'co, 'to, 'fo, 'wo, 'e, 'tx, 'l) bound_contract, 'co, 'to) Ics20bankSession \<Rightarrow> byte list \<Rightarrow> int \<Rightarrow> 'w \<Rightarrow> 'e go_fail + address"
where
  "Ics20bankSession_GetRoleMember S role idx w =
     Ics20bankCaller_GetRoleMember (Caller (session_Contract S)) (session_CallOpts S) role idx w"

definition Ics20bankCallerSession_GetRoleMember ::
  "(('w, 'co, 'to, 'fo, 'wo, 'e, 'tx, 'l) bound_contract, 'co) Ics20bankCallerSession \<Rightarrow> byte list \<Rightarrow> int \<Rightarrow> 'w \<Rightarrow> 'e go_fail + address"
where
  "Ics20bankCallerSession_GetRoleMember S role idx w =
     Ics20bankCaller_GetRoleMember (caller_Contract S) (caller_CallOpts S) role idx w"

definition Ics20bankSession_GetRoleMemberCount ::
  "(('w, 'co, 'to, 'fo, 'wo, 'e, 'tx, 'l) bound_contract, 'co, 'to) Ics20bankSession \<Rightarrow> byte list \<Rightarrow> 'w \<Rightarrow> 'e go_fail + int"
where
  "Ics20bankSession_GetRoleMemberCount S role w =
     Ics20bankCaller_GetRoleMemberCount (Caller (session_Contract S)) (session_CallOpts S) role w"

definition Ics20bankCallerSession_GetRoleMemberCount ::
  "(('w, 'co, 'to, 'fo, 'wo, 'e, 'tx, 'l) bound_contract, 'co) Ics20bankCallerSession \<Rightarrow> byte list \<Rightarrow> 'w \<Rightarrow> 'e go_fail + int"
where
  "Ics20bankCallerSession_GetRoleMemberCount S role w =
     Ics20bankCaller_GetRoleMemberCount (caller_Contract S) (caller_CallOpts S) role w"

definition Ics20bankSession_HasRole ::
  "(('w, 'co, 'to, 'fo, 'wo, 'e, 'tx, 'l) bound_contract, 'co, 'to) Ics20bankSession \<Rightarrow> byte list \<Rightarrow> address \<Rightarrow> 'w \<Rightarrow> 'e go_fail + bool"
where
  "Ics20bankSession_HasRole S role account w =
     Ics20bankCaller_HasRole (Caller (session_Contract S)) (session_CallOpts S) role account w"

definition Ics20bankCallerSession_HasRole ::
  "(('w, 'co, 'to, 'fo, 'wo, 'e, 'tx, 'l) bound_contract, 'co) Ics20bankCallerSession \<Rightarrow> byte list \<Rightarrow> address \<Rightarrow> 'w \<Rightarrow> 'e go_fail + bool"
where
  "Ics20bankCallerSession_HasRole S role account w =
     Ics20bankCaller_HasRole (caller_Contract S) (caller_CallOpts S) role account w"

definition Ics20bankSession_Burn ::
  "(('w, 'co, 'to, 'fo, 'wo, 'e, 'tx, 'l) bound_contract, 'co, 'to) Ics20bankSession \<Rightarrow> address \<Rightarrow> string \<Rightarrow> int \<Rightarrow> 'w \<Rightarrow> ('e + 'tx) \<times> 'w"
where
  "Ics20bankSession_Burn S account ident amount w =
     Ics20bankTransactor_Burn (Transactor (session_Contract S)) (session_TransactOpts S) account ident amount w"

definition Ics20bankTransactorSession_Burn ::
  "(('w, 'co, 'to, 'fo, 'wo, 'e, 'tx, 'l) bound_contract, 'to) Ics20bankTransactorSession \<Rightarrow> address \<Rightarrow> string \<Rightarrow> int \<Rightarrow> 'w \<Rightarrow> ('e + 'tx) \<times> 'w"
where
  "Ics20bankTransactorSession_Burn S account ident amount w =
     Ics20bankTransactor_Burn (transactor_Contract S) (transactor_TransactOpts S) account ident amount w"

definition Ics20bankSession_Deposit ::
  "(('w, 'co, 'to, 'fo, 'wo, 'e, 'tx, 'l) bound_contract, 'co, 'to) Ics20bankSession \<Rightarrow> address \<Rightarrow> int \<Rightarrow> address \<Rightarrow> 'w \<Rightarrow> ('e + 'tx) \<times> 'w"
where
  "Ics20bankSession_Deposit S tokenContract amount receiver w =
     Ics20bankTransactor_Deposit (Transactor (session_Contract S)) (session_TransactOpts S) tokenContract amount receiver w"

definition Ics20bankTransactorSession_Deposit ::
  "(('w, 'co, 'to, 'fo, 'wo, 'e, 'tx, 'l) bound_contract, 'to) Ics20bankTransactorSession \<Rightarrow> address \<Rightarrow> int \<Rightarrow> address \<Rightarrow> 'w \<Rightarrow> ('e + 'tx) \<times> 'w"
where
  "Ics20bankTransactorSession_Deposit S tokenContract amount receiver w =
     Ics20bankTransactor_Deposit (transactor_Contract S) (transactor_TransactOpts S) tokenContract amount receiver w"

definition Ics20bankSession_GrantRole ::
  "(('w, 'co, 'to, 'fo, 'wo, 'e, 'tx, 'l) bound_contract, 'co, 'to) Ics20bankSession \<Rightarrow> byte list \<Rightarrow> address \<Rightarrow> 'w \<Rightarrow> ('e + 'tx) \<times> 'w"
where
  "Ics20bankSession_GrantRole S role account w =
     Ics20bankTransactor_GrantRole (Transactor (session_Contract S)) (session_TransactOpts S) role account w"

definition Ics20bankTransactorSession_GrantRole ::
  "(('w, 'co, 'to, 'fo, 'wo, 'e, 'tx, 'l) bound_contract, 'to) Ics20bankTransactorSession \<Rightarrow> byte list \<Rightarrow> address \<Rightarrow> 'w \<Rightarrow> ('e + 'tx) \<times> 'w"
where
  "Ics20bankTransactorSession_GrantRole S role account w =
     Ics20bankTransactor_GrantRole (transactor_Contract S) (transactor_TransactOpts S) role account w"

definition Ics20bankSession_Mint ::
  "(('w, 'co, 'to, 'fo, 'wo, 'e, 'tx, 'l) bound_contract, 'co, 'to) Ics20bankSession \<Rightarrow> address \<Rightarrow> string \<Rightarrow> int \<Rightarrow> 'w \<Rightarrow> ('e + 'tx) \<times> 'w"
where
  "Ics20bankSession_Mint S account ident amount w =
     Ics20bankTransactor_Mint (Transactor (session_Contract S)) (session_TransactOpts S) account ident amount w"

definition Ics20bankTransactorSession_Mint ::
  "(('w, 'co, 'to, 'fo, 'wo, 'e, 'tx, 'l) bound_contract, 'to) Ics20bankTransactorSession \<Rightarrow> address \<Rightarrow> string \<Rightarrow> int \<Rightarrow> 'w \<Rightarrow> ('e + 'tx) \<times> 'w"
where
  "Ics20bankTransactorSession_Mint S account ident amount w =
     Ics20bankTransactor_Mint (transactor_Contract S) (transactor_TransactOpts S) account ident amount w"

definition Ics20bankSession_RenounceRole ::
  "(('w, 'co, 'to, 'fo, 'wo, 'e, 'tx, 'l) bound_contract, 'co, 'to) Ics20bankSession \<Rightarrow> byte list \<Rightarrow> address \<Rightarrow> 'w \<Rightarrow> ('e + 'tx) \<times> 'w"
where
  "Ics20bankSession_RenounceRole S role account w =
     Ics20bankTransactor_RenounceRole (Transactor (session_Contract S)) (session_TransactOpts S) role account w"

definition Ics20bankTransactorSession_RenounceRole ::
  "(('w, 'co, 'to, 'fo, 'wo, 'e, 'tx, 'l) bound_contract, 'to) Ics20bankTransactorSession \<Rightarrow> byte list \<Rightarrow> address \<Rightarrow> 'w \<Rightarrow> ('e + 'tx) \<times> 'w"
where
  "Ics20bankTransactorSession_RenounceRole S role account w =
     Ics20bankTransactor_RenounceRole (transactor_Contract S) (transactor_TransactOpts S) role account w"

definition Ics20bankSession_RevokeRole ::
  "(('w, 'co, 'to, 'fo, 'wo, 'e, 'tx, 'l) bound_contract, 'co, 'to) Ics20bankSession \<Rightarrow> byte list \<Rightarrow> address \<Rightarrow> 'w \<Rightarrow> ('e + 'tx) \<times> 'w"
where
  "Ics20bankSession_RevokeRole S role account w =
     Ics20bankTransactor_RevokeRole (Transactor (session_Contract S)) (session_TransactOpts S) role account w"

definition Ics20bankTransactorSession_RevokeRole ::
  "(('w, 'co, 'to, 'fo, 'wo, 'e, 'tx, 'l) bound_contract, 'to) Ics20bankTransactorSession \<Rightarrow> byte list \<Rightarrow> address \<Rightarrow> 'w \<Rightarrow> ('e + 'tx) \<times> 'w"
where
  "Ics20bankTransactorSession_RevokeRole S role account w =
     Ics20bankTransactor_RevokeRole (transactor_Contract S) (transactor_TransactOpts S) role account w"

definition Ics20bankSession_SetOperator ::
  "(('w, 'co, 'to, 'fo, 'wo, 'e, 'tx, 'l) bound_contract, 'co, 'to) Ics20bankSession \<Rightarrow> address \<Rightarrow> 'w \<Rightarrow> ('e + 'tx) \<times> 'w"
where
  "Ics20bankSession_SetOperator S operator w =
     Ics20bankTransactor_SetOperator (Transactor (session_Contract S)) (session_TransactOpts S) operator w"

definition Ics20bankTransactorSession_SetOperator ::
  "(('w, 'co, 'to, 'fo, 'wo, 'e, 'tx, 'l) bound_contract, 'to) Ics20bankTransactorSession \<Rightarrow> address \<Rightarrow> 'w \<Rightarrow> ('e + 'tx) \<times> 'w"
where
  "Ics20bankTransactorSession_SetOperator S operator w =
     Ics20bankTransactor_SetOperator (transactor_Contract S) (transactor_TransactOpts S) operator w"

definition Ics20bankSession_TransferFrom ::
  "(('w, 'co, 'to, 'fo, 'wo, 'e, 'tx, 'l) bound_contract, 'co, 'to) Ics20bankSession \<Rightarrow> address \<Rightarrow> address \<Rightarrow> string \<Rightarrow> int \<Rightarrow> 'w \<Rightarrow> ('e + 'tx) \<times> 'w"
where
  "Ics20bankSession_TransferFrom S src dst ident amount w =
     Ics20bankTransactor_TransferFrom (Transactor (session_Contract S)) (session_TransactOpts S) src dst ident amount w"

definition Ics20bankTransactorSession_TransferFrom ::
  "(('w, 'co, 'to, 'fo, 'wo, 'e, 'tx, 'l) bound_contract, 'to) Ics20bankTransactorSession \<Rightarrow> address \<Rightarrow> address \<Rightarrow> string \<Rightarrow> int \<Rightarrow> 'w \<Rightarrow> ('e + 'tx) \<times> 'w"
where
  "Ics20bankTransactorSession_TransferFrom S src dst ident amount w =
     Ics20bankTransactor_TransferFrom (transactor_Contract S) (transactor_TransactOpts S) src dst ident amount w"

definition Ics20bankSession_Withdraw ::
  "(('w, 'co, 'to, 'fo, 'wo, 'e, 'tx, 'l) bound_contract, 'co, 'to) Ics20bankSession \<Rightarrow> address \<Rightarrow> int \<Rightarrow> address \<Rightarrow> 'w \<Rightarrow> ('e + 'tx) \<times> 'w"
where
  "Ics20bankSession_Withdraw S tokenContract amount receiver w =
     Ics20bankTransactor_Withdraw (Transactor (session_Contract S)) (session_TransactOpts S) tokenContract amount receiver w"

definition Ics20bankTransactorSession_Withdraw ::
  "(('w, 'co, 'to, 'fo, 'wo, 'e, 'tx, 'l) bound_contract, 'to) Ics20bankTransactorSession \<Rightarrow> address \<Rightarrow> int \<Rightarrow> address \<Rightarrow> 'w \<Rightarrow> ('e + 'tx) \<times> 'w"
where
  "Ics20bankTransactorSession_Withdraw S tokenContract amount receiver w =
     Ics20bankTransactor_Withdraw (transactor_Contract S) (transactor_TransactOpts S) tokenContract amount receiver w"

subsection \<open>Event RoleAdminChanged\<close>

record 'l Ics20bankRoleAdminChanged =
  Ics20bankRoleAdminChanged_Role :: "byte list"
  Ics20bankRoleAdminChanged_PreviousAdminRole :: "byte list"
  Ics20bankRoleAdminChanged_NewAdminRole :: "byte list"
  Ics20bankRoleAdminChanged_Raw :: 'l

definition Ics20bankRoleAdminChanged_fill :: "iface list \<Rightarrow> 'l \<Rightarrow> 'l Ics20bankRoleAdminChanged option" where
  "Ics20bankRoleAdminChanged_fill vs log =
     (case vs of
        [v0, v1, v2] \<Rightarrow> Option.bind (as_bytes32 v0) (\<lambda>x0.
          Option.bind (as_bytes32 v1) (\<lambda>x1.
          Option.bind (as_bytes32 v2) (\<lambda>x2.
          Some \<lparr>Ics20bankRoleAdminChanged_Role = x0, Ics20bankRoleAdminChanged_PreviousAdminRole = x1, Ics20bankRoleAdminChanged_NewAdminRole = x2, Ics20bankRoleAdminChanged_Raw = log\<rparr>)))
      | _ \<Rightarrow> None)"

type_synonym ('l, 'e) Ics20bankRoleAdminChangedIterator = "('l Ics20bankRoleAdminChanged, 'l, 'e) event_iterator"

definition Ics20bankRoleAdminChangedIterator_Next ::
  "('w, 'co, 'to, 'fo, 'wo, 'e, 'tx, 'l) bound_contract \<Rightarrow> ('l, 'e) Ics20bankRoleAdminChangedIterator \<Rightarrow> (bool \<times> ('l, 'e) Ics20bankRoleAdminChangedIterator) option"
where
  "Ics20bankRoleAdminChangedIterator_Next c it =
     iterator_Next c Ics20bankRoleAdminChanged_fill it"

definition Ics20bankRoleAdminChangedIterator_Error ::
  "('l, 'e) Ics20bankRoleAdminChangedIterator \<Rightarrow> 'e option"
where
  "Ics20bankRoleAdminChangedIterator_Error it =
     iterator_Error it"

definition Ics20bankRoleAdminChangedIterator_Close ::
  "('w, 'co, 'to, 'fo, 'wo, 'e, 'tx, 'l) bound_contract \<Rightarrow> ('l, 'e) Ics20bankRoleAdminChangedIterator \<Rightarrow> 'e option \<times> ('l, 'e) Ics20bankRoleAdminChangedIterator"
where
  "Ics20bankRoleAdminChangedIterator_Close c it =
     iterator_Close c it"

definition Ics20bankFilterer_FilterRoleAdminChanged ::
  "('w, 'co, 'to, 'fo, 'wo, 'e, 'tx, 'l) bound_contract Ics20bankFilterer \<Rightarrow> 'fo \<Rightarrow> byte list list \<Rightarrow> byte list list \<Rightarrow> byte list list \<Rightarrow> 'w \<Rightarrow> 'e + ('l, 'e) Ics20bankRoleAdminChangedIterator"
where
  "Ics20bankFilterer_FilterRoleAdminChanged F opts role previousAdminRole newAdminRole w =
     filter_logs (contract F) opts ''RoleAdminChanged'' [map I_bytes32 role, map I_bytes32 previousAdminRole, map I_bytes32 newAdminRole] w"

definition Ics20bankFilterer_WatchRoleAdminChanged ::
  "('w, 'co, 'to, 'fo, 'wo, 'e, 'tx, 'l) bound_contract Ics20bankFilterer \<Rightarrow> 'wo \<Rightarrow> byte list list \<Rightarrow> byte list list \<Rightarrow> byte list list \<Rightarrow> 'w \<Rightarrow>
   'e + (('l, 'e) watch_input list \<Rightarrow> 'l Ics20bankRoleAdminChanged list \<times> 'e option option)"
where
  "Ics20bankFilterer_WatchRoleAdminChanged F opts role previousAdminRole newAdminRole w =
     watch_logs (contract F) opts ''RoleAdminChanged'' Ics20bankRoleAdminChanged_fill [map I_bytes32 role, map I_bytes32 previousAdminRole, map I_bytes32 newAdminRole] w"

definition Ics20bankFilterer_ParseRoleAdminChanged ::
  "('w, 'co, 'to, 'fo, 'wo, 'e, 'tx, 'l) bound_contract Ics20bankFilterer \<Rightarrow> 'l \<Rightarrow> 'e + 'l Ics20bankRoleAdminChanged"
where
  "Ics20bankFilterer_ParseRoleAdminChanged F log =
     unpack_event (contract F) ''RoleAdminChanged'' Ics20bankRoleAdminChanged_fill log"

subsection \<open>Event RoleGranted\<close>

record 'l Ics20bankRoleGranted =
  Ics20bankRoleGranted_Role :: "byte list"
  Ics20bankRoleGranted_Account :: "address"
  Ics20bankRoleGranted_Sender :: "address"
  Ics20bankRoleGranted_Raw :: 'l

definition Ics20bankRoleGranted_fill :: "iface list \<Rightarrow> 'l \<Rightarrow> 'l Ics20bankRoleGranted option" where
  "Ics20bankRoleGranted_fill vs log =
     (case vs of
        [v0, v1, v2] \<Rightarrow> Option.bind (as_bytes32 v0) (\<lambda>x0.
          Option.bind (as_address v1) (\<lambda>x1.
          Option.bind (as_address v2) (\<lambda>x2.
          Some \<lparr>Ics20bankRoleGranted_Role = x0, Ics20bankRoleGranted_Account = x1, Ics20bankRoleGranted_Sender = x2, Ics20bankRoleGranted_Raw = log\<rparr>)))
      | _ \<Rightarrow> None)"

type_synonym ('l, 'e) Ics20bankRoleGrantedIterator = "('l Ics20bankRoleGranted, 'l, 'e) event_iterator"

definition Ics20bankRoleGrantedIterator_Next ::
  "('w, 'co, 'to, 'fo, 'wo, 'e, 'tx, 'l) bound_contract \<Rightarrow> ('l, 'e) Ics20bankRoleGrantedIterator \<Rightarrow> (bool \<times> ('l, 'e) Ics20bankRoleGrantedIterator) option"
where
  "Ics20bankRoleGrantedIterator_Next c it =
     iterator_Next c Ics20bankRoleGranted_fill it"

definition Ics20bankRoleGrantedIterator_Error ::
  "('l, 'e) Ics20bankRoleGrantedIterator \<Rightarrow> 'e option"
where
  "Ics20bankRoleGrantedIterator_Error it =
     iterator_Error it"

definition Ics20bankRoleGrantedIterator_Close ::
  "('w, 'co, 'to, 'fo, 'wo, 'e, 'tx, 'l) bound_contract \<Rightarrow> ('l, 'e) Ics20bankRoleGrantedIterator \<Rightarrow> 'e option \<times> ('l, 'e) Ics20bankRoleGrantedIterator"
where
  "Ics20bankRoleGrantedIterator_Close c it =
     iterator_Close c it"

definition Ics20bankFilterer_FilterRoleGranted ::
  "('w, 'co, 'to, 'fo, 'wo, 'e, 'tx, 'l) bound_contract Ics20bankFilterer \<Rightarrow> 'fo \<Rightarrow> byte list list \<Rightarrow> address list \<Rightarrow> address list \<Rightarrow> 'w \<Rightarrow> 'e + ('l, 'e) Ics20bankRoleGrantedIterator"
where
  "Ics20bankFilterer_FilterRoleGranted F opts role account sender w =
     filter_logs (contract F) opts ''RoleGranted'' [map I_bytes32 role, map I_address account, map I_address sender] w"

definition Ics20bankFilterer_WatchRoleGranted ::
  "('w, 'co, 'to, 'fo, 'wo, 'e, 'tx, 'l) bound_contract Ics20bankFilterer \<Rightarrow> 'wo \<Rightarrow> byte list list \<Rightarrow> address list \<Rightarrow> address list \<Rightarrow> 'w \<Rightarrow>
   'e + (('l, 'e) watch_input list \<Rightarrow> 'l Ics20bankRoleGranted list \<times> 'e option option)"
where
  "Ics20bankFilterer_WatchRoleGranted F opts role account sender w =
     watch_logs (contract F) opts ''RoleGranted'' Ics20bankRoleGranted_fill [map I_bytes32 role, map I_address account, map I_address sender] w"

definition Ics20bankFilterer_ParseRoleGranted ::
  "('w, 'co, 'to, 'fo, 'wo, 'e, 'tx, 'l) bound_contract Ics20bankFilterer \<Rightarrow> 'l \<Rightarrow> 'e + 'l Ics20bankRoleGranted"
where
  "Ics20bankFilterer_ParseRoleGranted F log =
     unpack_event (contract F) ''RoleGranted'' Ics20bankRoleGranted_fill log"

subsection \<open>Event RoleRevoked\<close>

record 'l Ics20bankRoleRevoked =
  Ics20bankRoleRevoked_Role :: "byte list"
  Ics20bankRoleRevoked_Account :: "address"
  Ics20bankRoleRevoked_Sender :: "address"
  Ics20bankRoleRevoked_Raw :: 'l

definition Ics20bankRoleRevoked_fill :: "iface list \<Rightarrow> 'l \<Rightarrow> 'l Ics20bankRoleRevoked option" where
  "Ics20bankRoleRevoked_fill vs log =
     (case vs of
        [v0, v1, v2] \<Rightarrow> Option.bind (as_bytes32 v0) (\<lambda>x0.
          Option.bind (as_address v1) (\<lambda>x1.
          Option.bind (as_address v2) (\<lambda>x2.
          Some \<lparr>Ics20bankRoleRevoked_Role = x0, Ics20bankRoleRevoked_Account = x1, Ics20bankRoleRevoked_Sender = x2, Ics20bankRoleRevoked_Raw = log\<rparr>)))
      | _ \<Rightarrow> None)"

type_synonym ('l, 'e) Ics20bankRoleRevokedIterator = "('l Ics20bankRoleRevoked, 'l, 'e) event_iterator"

definition Ics20bankRoleRevokedIterator_Next ::
  "('w, 'co, 'to, 'fo, 'wo, 'e, 'tx, 'l) bound_contract \<Rightarrow> ('l, 'e) Ics20bankRoleRevokedIterator \<Rightarrow> (bool \<times> ('l, 'e) Ics20bankRoleRevokedIterator) option"
where
  "Ics20bankRoleRevokedIterator_Next c it =
     iterator_Next c Ics20bankRoleRevoked_fill it"

definition Ics20bankRoleRevokedIterator_Error ::
  "('l, 'e) Ics20bankRoleRevokedIterator \<Rightarrow> 'e option"
where
  "Ics20bankRoleRevokedIterator_Error it =
     iterator_Error it"

definition Ics20bankRoleRevokedIterator_Close ::
  "('w, 'co, 'to, 'fo, 'wo, 'e, 'tx, 'l) bound_contract \<Rightarrow> ('l, 'e) Ics20bankRoleRevokedIterator \<Rightarrow> 'e option \<times> ('l, 'e) Ics20bankRoleRevokedIterator"
where
  "Ics20bankRoleRevokedIterator_Close c it =
     iterator_Close c it"

definition Ics20bankFilterer_FilterRoleRevoked ::
  "('w, 'co, 'to, 'fo, 'wo, 'e, 'tx, 'l) bound_contract Ics20bankFilterer \<Rightarrow> 'fo \<Rightarrow> byte list list \<Rightarrow> address list \<Rightarrow> address list \<Rightarrow> 'w \<Rightarrow> 'e + ('l, 'e) Ics20bankRoleRevokedIterator"
where
  "Ics20bankFilterer_FilterRoleRevoked F opts role account sender w =
     filter_logs (contract F) opts ''RoleRevoked'' [map I_bytes32 role, map I_address account, map I_address sender] w"

definition Ics20bankFilterer_WatchRoleRevoked ::
  "('w, 'co, 'to, 'fo, 'wo, 'e, 'tx, 'l) bound_contract Ics20bankFilterer \<Rightarrow> 'wo \<Rightarrow> byte list list \<Rightarrow> address list \<Rightarrow> address list \<Rightarrow> 'w \<Rightarrow>
   'e + (('l, 'e) watch_input list \<Rightarrow> 'l Ics20bankRoleRevoked list \<times> 'e option option)"
where
  "Ics20bankFilterer_WatchRoleRevoked F opts role account sender w =
     watch_logs (contract F) opts ''RoleRevoked'' Ics20bankRoleRevoked_fill [map I_bytes32 role, map I_address account, map I_address sender] w"

definition Ics20bankFilterer_ParseRoleRevoked ::
  "('w, 'co, 'to, 'fo, 'wo, 'e, 'tx, 'l) bound_contract Ics20bankFilterer \<Rightarrow> 'l \<Rightarrow> 'e + 'l Ics20bankRoleRevoked"
where
  "Ics20bankFilterer_ParseRoleRevoked F log =
     unpack_event (contract F) ''RoleRevoked'' Ics20bankRoleRevoked_fill log"

end
