(* ===== verification/Ics20transferbank_Go.thy ===== *)
theory Ics20transferbank_Go
  imports Go_Bind
begin

text \<open>
  The binding \<^verbatim>\<open>pkg/contract/ics20transferbank\<close> of the transfer application \<^verbatim>\<open>ICS20TransferBank\<close>: one
  definition for every type and function of the file, over the shared definitions of
  \<^verbatim>\<open>Go_Bind\<close>. The ABI text the file holds as a constant is an argument of the constructors.
\<close>

subsection \<open>Types\<close>

type_synonym 'c Ics20transferbank = "'c binding"

type_synonym 'c Ics20transferbankCaller = "'c binding_part"

type_synonym 'c Ics20transferbankTransactor = "'c binding_part"

type_synonym 'c Ics20transferbankFilterer = "'c binding_part"

type_synonym ('c, 'co, 'to) Ics20transferbankSession = "('c, 'co, 'to) binding_session"

type_synonym ('c, 'co) Ics20transferbankCallerSession = "('c, 'co) caller_session"

type_synonym ('c, 'to) Ics20transferbankTransactorSession = "('c, 'to) transactor_session"

type_synonym 'c Ics20transferbankRaw = "'c binding_raw"

type_synonym 'c Ics20transferbankCallerRaw = "'c part_raw"

type_synonym 'c Ics20transferbankTransactorRaw = "'c part_raw"

subsection \<open>Constructors\<close>

definition bindIcs20transferbank ::
  "('abi, 'b, 'c, 'e) bind_lib \<Rightarrow> string \<Rightarrow> address \<Rightarrow> 'b option \<Rightarrow> 'b option \<Rightarrow> 'b option \<Rightarrow> 'e + 'c"
where
  "bindIcs20transferbank L abi_text addr caller transactor filterer =
     bind_contract L abi_text addr caller transactor filterer"

definition NewIcs20transferbank ::
  "('abi, 'b, 'c, 'e) bind_lib \<Rightarrow> string \<Rightarrow> address \<Rightarrow> 'b \<Rightarrow> 'e + 'c Ics20transferbank"
where
  "NewIcs20transferbank L abi_text addr backend =
     bindr (bindIcs20transferbank L abi_text addr (Some backend) (Some backend) (Some backend)) (\<lambda>c.
     Inr \<lparr>Caller = \<lparr>contract = c\<rparr>, Transactor = \<lparr>contract = c\<rparr>, Filterer = \<lparr>contract = c\<rparr>\<rparr>)"

definition NewIcs20transferbankCaller ::
  "('abi, 'b, 'c, 'e) bind_lib \<Rightarrow> string \<Rightarrow> address \<Rightarrow> 'b \<Rightarrow> 'e + 'c Ics20transferbankCaller"
where
  "NewIcs20transferbankCaller L abi_text addr caller =
     bindr (bindIcs20transferbank L abi_text addr (Some caller) None None) (\<lambda>c. Inr \<lparr>contract = c\<rparr>)"

definition NewIcs20transferbankTransactor ::
  "('abi, 'b, 'c, 'e) bind_lib \<Rightarrow> string \<Rightarrow> address \<Rightarrow> 'b \<Rightarrow> 'e + 'c Ics20transferbankTransactor"
where
  "NewIcs20transferbankTransactor L abi_text addr transactor =
     bindr (bindIcs20transferbank L abi_text addr None (Some transactor) None) (\<lambda>c. Inr \<lparr>contract = c\<rparr>)"

definition NewIcs20transferbankFilterer ::
  "('abi, 'b, 'c, 'e) bind_lib \<Rightarrow> string \<Rightarrow> address \<Rightarrow> 'b \<Rightarrow> 'e + 'c Ics20transferbankFilterer"
where
  "NewIcs20transferbankFilterer L abi_text addr filterer =
     bindr (bindIcs20transferbank L abi_text addr None None (Some filterer)) (\<lambda>c. Inr \<lparr>contract = c\<rparr>)"

subsection \<open>Raw calls and transactions\<close>

definition Ics20transferbankRaw_Call ::
  "('w, 'co, 'to, 'fo, 'wo, 'e, 'tx, 'l) bound_contract Ics20transferbankRaw \<Rightarrow> 'co \<Rightarrow> string \<Rightarrow> iface list \<Rightarrow> 'w \<Rightarrow> 'e + iface list"
where
  "Ics20transferbankRaw_Call C opts method params w =
     bc_Call (contract (Caller (raw_Contract C))) opts method params w"

definition Ics20transferbankRaw_Transfer ::
  "('w, 'co, 'to, 'fo, 'wo, 'e, 'tx, 'l) bound_contract Ics20transferbankRaw \<Rightarrow> 'to \<Rightarrow> 'w \<Rightarrow> ('e + 'tx) \<times> 'w"
where
  "Ics20transferbankRaw_Transfer C opts w =
     bc_Transfer (contract (Transactor (raw_Contract C))) opts w"

definition Ics20transferbankRaw_Transact ::
  "('w, 'co, 'to, 'fo, 'wo, 'e, 'tx, 'l) bound_contract Ics20transferbankRaw \<Rightarrow> 'to \<Rightarrow> string \<Rightarrow> iface list \<Rightarrow> 'w \<Rightarrow> ('e + 'tx) \<times> 'w"
where
  "Ics20transferbankRaw_Transact C opts method params w =
     contract_transact (contract (Transactor (raw_Contract C))) opts method params w"

definition Ics20transferbankCallerRaw_Call ::
  "('w, 'co, 'to, 'fo, 'wo, 'e, 'tx, 'l) bound_contract Ics20transferbankCallerRaw \<Rightarrow> 'co \<Rightarrow> string \<Rightarrow> iface list \<Rightarrow> 'w \<Rightarrow> 'e + iface list"
where
  "Ics20transferbankCallerRaw_Call C opts method params w =
     bc_Call (contract (raw_part C)) opts method params w"

definition Ics20transferbankTransactorRaw_Transfer ::
  "('w, 'co, 'to, 'fo, 'wo, 'e, 'tx, 'l) bound_contract Ics20transferbankTransactorRaw \<Rightarrow> 'to \<Rightarrow> 'w \<Rightarrow> ('e + 'tx) \<times> 'w"
where
  "Ics20transferbankTransactorRaw_Transfer C opts w =
     bc_Transfer (contract (raw_part C)) opts w"

definition Ics20transferbankTransactorRaw_Transact ::
  "('w, 'co, 'to, 'fo, 'wo, 'e, 'tx, 'l) bound_contract Ics20transferbankTransactorRaw \<Rightarrow> 'to \<Rightarrow> string \<Rightarrow> iface list \<Rightarrow> 'w \<Rightarrow> ('e + 'tx) \<times> 'w"
where
  "Ics20transferbankTransactorRaw_Transact C opts method params w =
     contract_transact (contract (raw_part C)) opts method params w"

subsection \<open>Transactions\<close>

definition Ics20transferbankTransactor_OnAcknowledgementPacket ::
  "('w, 'co, 'to, 'fo, 'wo, 'e, 'tx, 'l) bound_contract Ics20transferbankTransactor \<Rightarrow> 'to \<Rightarrow> PacketData \<Rightarrow> byte list \<Rightarrow> 'w \<Rightarrow> ('e + 'tx) \<times> 'w"
where
  "Ics20transferbankTransactor_OnAcknowledgementPacket T opts packet acknowledgement w =
     contract_transact (contract T) opts ''onAcknowledgementPacket'' [I_PacketData packet, I_bytes acknowledgement] w"

definition Ics20transferbankTransactor_OnChanOpenAck ::
  "('w, 'co, 'to, 'fo, 'wo, 'e, 'tx, 'l) bound_contract Ics20transferbankTransactor \<Rightarrow> 'to \<Rightarrow> string \<Rightarrow> string \<Rightarrow> string \<Rightarrow> 'w \<Rightarrow> ('e + 'tx) \<times> 'w"
where
  "Ics20transferbankTransactor_OnChanOpenAck T opts portId channelId counterpartyVersion w =
     contract_transact (contract T) opts ''onChanOpenAck'' [I_string portId, I_string channelId, I_string counterpartyVersion] w"

definition Ics20transferbankTransactor_OnChanOpenConfirm ::
  "('w, 'co, 'to, 'fo, 'wo, 'e, 'tx, 'l) bound_contract Ics20transferbankTransactor \<Rightarrow> 'to \<Rightarrow> string \<Rightarrow> string \<Rightarrow> 'w \<Rightarrow> ('e + 'tx) \<times> 'w"
where
  "Ics20transferbankTransactor_OnChanOpenConfirm T opts portId channelId w =
     contract_transact (contract T) opts ''onChanOpenConfirm'' [I_string portId, I_string channelId] w"

definition Ics20transferbankTransactor_OnChanOpenInit ::
  "('w, 'co, 'to, 'fo, 'wo, 'e, 'tx, 'l) bound_contract Ics20transferbankTransactor \<Rightarrow> 'to \<Rightarrow> 8 word \<Rightarrow> string list \<Rightarrow> string \<Rightarrow> string \<Rightarrow> ChannelCounterpartyData \<Rightarrow> string \<Rightarrow> 'w \<Rightarrow> ('e + 'tx) \<times> 'w"
where
  "Ics20transferbankTransactor_OnChanOpenInit T opts arg0 connectionHops portId channelId counterparty vers w =
     contract_transact (contract T) opts ''onChanOpenInit'' [I_uint8 arg0, I_strings connectionHops, I_string portId, I_string channelId, I_ChannelCounterpartyData counterparty, I_string vers] w"

definition Ics20transferbankTransactor_OnChanOpenTry ::
  "('w, 'co, 'to, 'fo, 'wo, 'e, 'tx, 'l) bound_contract Ics20transferbankTransactor \<Rightarrow> 'to \<Rightarrow> 8 word \<Rightarrow> string list \<Rightarrow> string \<Rightarrow> string \<Rightarrow> ChannelCounterpartyData \<Rightarrow> string \<Rightarrow> string \<Rightarrow> 'w \<Rightarrow> ('e + 'tx) \<times> 'w"
where
  "Ics20transferbankTransactor_OnChanOpenTry T opts arg0 connectionHops portId channelId counterparty vers counterpartyVersion w =
     contract_transact (contract T) opts ''onChanOpenTry'' [I_uint8 arg0, I_strings connectionHops, I_string portId, I_string channelId, I_ChannelCounterpartyData counterparty, I_string vers, I_string counterpartyVersion] w"

definition Ics20transferbankTransactor_OnRecvPacket ::
  "('w, 'co, 'to, 'fo, 'wo, 'e, 'tx, 'l) bound_contract Ics20transferbankTransactor \<Rightarrow> 'to \<Rightarrow> PacketData \<Rightarrow> 'w \<Rightarrow> ('e + 'tx) \<times> 'w"
where
  "Ics20transferbankTransactor_OnRecvPacket T opts packet w =
     contract_transact (contract T) opts ''onRecvPacket'' [I_PacketData packet] w"

definition Ics20transferbankTransactor_SendTransfer ::
  "('w, 'co, 'to, 'fo, 'wo, 'e, 'tx, 'l) bound_contract Ics20transferbankTransactor \<Rightarrow> 'to \<Rightarrow> string \<Rightarrow> 64 word \<Rightarrow> address \<Rightarrow> string \<Rightarrow> string \<Rightarrow> 64 word \<Rightarrow> 'w \<Rightarrow> ('e + 'tx) \<times> 'w"
where
  "Ics20transferbankTransactor_SendTransfer T opts denom amount receiver sourcePort sourceChannel timeoutHeight w =
     contract_transact (contract T) opts ''sendTransfer'' [I_string denom, I_uint64 amount, I_address receiver, I_string sourcePort, I_string sourceChannel, I_uint64 timeoutHeight] w"

subsection \<open>Sessions\<close>

definition Ics20transferbankSession_OnAcknowledgementPacket ::
  "(('w, 'co, 'to, 'fo, 'wo, 'e, 'tx, 'l) bound_contract, 'co, 'to) Ics20transferbankSession \<Rightarrow> PacketData \<Rightarrow> byte list \<Rightarrow> 'w \<Rightarrow> ('e + 'tx) \<times> 'w"
where
  "Ics20transferbankSession_OnAcknowledgementPacket S packet acknowledgement w =
     Ics20transferbankTransactor_OnAcknowledgementPacket (Transactor (session_Contract S)) (session_TransactOpts S) packet acknowledgement w"

definition Ics20transferbankTransactorSession_OnAcknowledgementPacket ::
  "(('w, 'co, 'to, 'fo, 'wo, 'e, 'tx, 'l) bound_contract, 'to) Ics20transferbankTransactorSession \<Rightarrow> PacketData \<Rightarrow> byte list \<Rightarrow> 'w \<Rightarrow> ('e + 'tx) \<times> 'w"
where
  "Ics20transferbankTransactorSession_OnAcknowledgementPacket S packet acknowledgement w =
     Ics20transferbankTransactor_OnAcknowledgementPacket (transactor_Contract S) (transactor_TransactOpts S) packet acknowledgement w"

definition Ics20transferbankSession_OnChanOpenAck ::
  "(('w, 'co, 'to, 'fo, 'wo, 'e, 'tx, 'l) bound_contract, 'co, 'to) Ics20transferbankSession \<Rightarrow> string \<Rightarrow> string \<Rightarrow> string \<Rightarrow> 'w \<Rightarrow> ('e + 'tx) \<times> 'w"
where
  "Ics20transferbankSession_OnChanOpenAck S portId channelId counterpartyVersion w =
     Ics20transferbankTransactor_OnChanOpenAck (Transactor (session_Contract S)) (session_TransactOpts S) portId channelId counterpartyVersion w"

definition Ics20transferbankTransactorSession_OnChanOpenAck ::
  "(('w, 'co, 'to, 'fo, 'wo, 'e, 'tx, 'l) bound_contract, 'to) Ics20transferbankTransactorSession \<Rightarrow> string \<Rightarrow> string \<Rightarrow> string \<Rightarrow> 'w \<Rightarrow> ('e + 'tx) \<times> 'w"
where
  "Ics20transferbankTransactorSession_OnChanOpenAck S portId channelId counterpartyVersion w =
     Ics20transferbankTransactor_OnChanOpenAck (transactor_Contract S) (transactor_TransactOpts S) portId channelId counterpartyVersion w"

definition Ics20transferbankSession_OnChanOpenConfirm ::
  "(('w, 'co, 'to, 'fo, 'wo, 'e, 'tx, 'l) bound_contract, 'co, 'to) Ics20transferbankSession \<Rightarrow> string \<Rightarrow> string \<Rightarrow> 'w \<Rightarrow> ('e + 'tx) \<times> 'w"
where
  "Ics20transferbankSession_OnChanOpenConfirm S portId channelId w =
     Ics20transferbankTransactor_OnChanOpenConfirm (Transactor (session_Contract S)) (session_TransactOpts S) portId channelId w"

definition Ics20transferbankTransactorSession_OnChanOpenConfirm ::
  "(('w, 'co, 'to, 'fo, 'wo, 'e, 'tx, 'l) bound_contract, 'to) Ics20transferbankTransactorSession \<Rightarrow> string \<Rightarrow> string \<Rightarrow> 'w \<Rightarrow> ('e + 'tx) \<times> 'w"
where
  "Ics20transferbankTransactorSession_OnChanOpenConfirm S portId channelId w =
     Ics20transferbankTransactor_OnChanOpenConfirm (transactor_Contract S) (transactor_TransactOpts S) portId channelId w"

definition Ics20transferbankSession_OnChanOpenInit ::
  "(('w, 'co, 'to, 'fo, 'wo, 'e, 'tx, 'l) bound_contract, 'co, 'to) Ics20transferbankSession \<Rightarrow> 8 word \<Rightarrow> string list \<Rightarrow> string \<Rightarrow> string \<Rightarrow> ChannelCounterpartyData \<Rightarrow> string \<Rightarrow> 'w \<Rightarrow> ('e + 'tx) \<times> 'w"
where
  "Ics20transferbankSession_OnChanOpenInit S arg0 connectionHops portId channelId counterparty vers w =
     Ics20transferbankTransactor_OnChanOpenInit (Transactor (session_Contract S)) (session_TransactOpts S) arg0 connectionHops portId channelId counterparty vers w"

definition Ics20transferbankTransactorSession_OnChanOpenInit ::
  "(('w, 'co, 'to, 'fo, 'wo, 'e, 'tx, 'l) bound_contract, 'to) Ics20transferbankTransactorSession \<Rightarrow> 8 word \<Rightarrow> string list \<Rightarrow> string \<Rightarrow> string \<Rightarrow> ChannelCounterpartyData \<Rightarrow> string \<Rightarrow> 'w \<Rightarrow> ('e + 'tx) \<times> 'w"
where
  "Ics20transferbankTransactorSession_OnChanOpenInit S arg0 connectionHops portId channelId counterparty vers w =
     Ics20transferbankTransactor_OnChanOpenInit (transactor_Contract S) (transactor_TransactOpts S) arg0 connectionHops portId channelId counterparty vers w"

definition Ics20transferbankSession_OnChanOpenTry ::
  "(('w, 'co, 'to, 'fo, 'wo, 'e, 'tx, 'l) bound_contract, 'co, 'to) Ics20transferbankSession \<Rightarrow> 8 word \<Rightarrow> string list \<Rightarrow> string \<Rightarrow> string \<Rightarrow> ChannelCounterpartyData \<Rightarrow> string \<Rightarrow> string \<Rightarrow> 'w \<Rightarrow> ('e + 'tx) \<times> 'w"
where
  "Ics20transferbankSession_OnChanOpenTry S arg0 connectionHops portId channelId counterparty vers counterpartyVersion w =
     Ics20transferbankTransactor_OnChanOpenTry (Transactor (session_Contract S)) (session_TransactOpts S) arg0 connectionHops portId channelId counterparty vers counterpartyVersion w"

definition Ics20transferbankTransactorSession_OnChanOpenTry ::
  "(('w, 'co, 'to, 'fo, 'wo, 'e, 'tx, 'l) bound_contract, 'to) Ics20transferbankTransactorSession \<Rightarrow> 8 word \<Rightarrow> string list \<Rightarrow> string \<Rightarrow> string \<Rightarrow> ChannelCounterpartyData \<Rightarrow> string \<Rightarrow> string \<Rightarrow> 'w \<Rightarrow> ('e + 'tx) \<times> 'w"
where
  "Ics20transferbankTransactorSession_OnChanOpenTry S arg0 connectionHops portId channelId counterparty vers counterpartyVersion w =
     Ics20transferbankTransactor_OnChanOpenTry (transactor_Contract S) (transactor_TransactOpts S) arg0 connectionHops portId channelId counterparty vers counterpartyVersion w"

definition Ics20transferbankSession_OnRecvPacket ::
  "(('w, 'co, 'to, 'fo, 'wo, 'e, 'tx, 'l) bound_contract, 'co, 'to) Ics20transferbankSession \<Rightarrow> PacketData \<Rightarrow> 'w \<Rightarrow> ('e + 'tx) \<times> 'w"
where
  "Ics20transferbankSession_OnRecvPacket S packet w =
     Ics20transferbankTransactor_OnRecvPacket (Transactor (session_Contract S)) (session_TransactOpts S) packet w"

definition Ics20transferbankTransactorSession_OnRecvPacket ::
  "(('w, 'co, 'to, 'fo, 'wo, 'e, 'tx, 'l) bound_contract, 'to) Ics20transferbankTransactorSession \<Rightarrow> PacketData \<Rightarrow> 'w \<Rightarrow> ('e + 'tx) \<times> 'w"
where
  "Ics20transferbankTransactorSession_OnRecvPacket S packet w =
     Ics20transferbankTransactor_OnRecvPacket (transactor_Contract S) (transactor_TransactOpts S) packet w"

definition Ics20transferbankSession_SendTransfer ::
  "(('w, 'co, 'to, 'fo, 'wo, 'e, 'tx, 'l) bound_contract, 'co, 'to) Ics20transferbankSession \<Rightarrow> string \<Rightarrow> 64 word \<Rightarrow> address \<Rightarrow> string \<Rightarrow> string \<Rightarrow> 64 word \<Rightarrow> 'w \<Rightarrow> ('e + 'tx) \<times> 'w"
where
  "Ics20transferbankSession_SendTransfer S denom amount receiver sourcePort sourceChannel timeoutHeight w =
     Ics20transferbankTransactor_SendTransfer (Transactor (session_Contract S)) (session_TransactOpts S) denom amount receiver sourcePort sourceChannel timeoutHeight w"

definition Ics20transferbankTransactorSession_SendTransfer ::
  "(('w, 'co, 'to, 'fo, 'wo, 'e, 'tx, 'l) bound_contract, 'to) Ics20transferbankTransactorSession \<Rightarrow> string \<Rightarrow> 64 word \<Rightarrow> address \<Rightarrow> string \<Rightarrow> string \<Rightarrow> 64 word \<Rightarrow> 'w \<Rightarrow> ('e + 'tx) \<times> 'w"
where
  "Ics20transferbankTransactorSession_SendTransfer S denom amount receiver sourcePort sourceChannel timeoutHeight w =
     Ics20transferbankTransactor_SendTransfer (transactor_Contract S) (transactor_TransactOpts S) denom amount receiver sourcePort sourceChannel timeoutHeight w"

end
