(* ===== verification/Simpletoken_Go.thy ===== *)
theory Simpletoken_Go
  imports Go_Bind
begin

text \<open>
  The binding \<^verbatim>\<open>pkg/contract/simpletoken\<close> of the ERC-20 token \<^verbatim>\<open>SimpleToken\<close>: one
  definition for every type and function of the file, over the shared definitions of
  \<^verbatim>\<open>Go_Bind\<close>. The ABI text the file holds as a constant is an argument of the constructors.
\<close>

subsection \<open>Types\<close>

type_synonym 'c Simpletoken = "'c binding"

type_synonym 'c SimpletokenCaller = "'c binding_part"

type_synonym 'c SimpletokenTransactor = "'c binding_part"

type_synonym 'c SimpletokenFilterer = "'c binding_part"

type_synonym ('c, 'co, 'to) SimpletokenSession = "('c, 'co, 'to) binding_session"

type_synonym ('c, 'co) SimpletokenCallerSession = "('c, 'co) caller_session"

type_synonym ('c, 'to) SimpletokenTransactorSession = "('c, 'to) transactor_session"

type_synonym 'c SimpletokenRaw = "'c binding_raw"

type_synonym 'c SimpletokenCallerRaw = "'c part_raw"

type_synonym 'c SimpletokenTransactorRaw = "'c part_raw"

subsection \<open>Constructors\<close>

definition bindSimpletoken ::
  "('abi, 'b, 'c, 'e) bind_lib \<Rightarrow> string \<Rightarrow> address \<Rightarrow> 'b option \<Rightarrow> 'b option \<Rightarrow> 'b option \<Rightarrow> 'e + 'c"
where
  "bindSimpletoken L abi_text addr caller transactor filterer =
     bind_contract L abi_text addr caller transactor filterer"

definition NewSimpletoken ::
  "('abi, 'b, 'c, 'e) bind_lib \<Rightarrow> string \<Rightarrow> address \<Rightarrow> 'b \<Rightarrow> 'e + 'c Simpletoken"
where
  "NewSimpletoken L abi_text addr backend =
     bindr (bindSimpletoken L abi_text addr (Some backend) (Some backend) (Some backend)) (\<lambda>c.
     Inr \<lparr>Caller = \<lparr>contract = c\<rparr>, Transactor = \<lparr>contract = c\<rparr>, Filterer = \<lparr>contract = c\<rparr>\<rparr>)"

definition NewSimpletokenCaller ::
  "('abi, 'b, 'c, 'e) bind_lib \<Rightarrow> string \<Rightarrow> address \<Rightarrow> 'b \<Rightarrow> 'e + 'c SimpletokenCaller"
where
  "NewSimpletokenCaller L abi_text addr caller =
     bindr (bindSimpletoken L abi_text addr (Some caller) None None) (\<lambda>c. Inr \<lparr>contract = c\<rparr>)"

definition NewSimpletokenTransactor ::
  "('abi, 'b, 'c, 'e) bind_lib \<Rightarrow> string \<Rightarrow> address \<Rightarrow> 'b \<Rightarrow> 'e + 'c SimpletokenTransactor"
where
  "NewSimpletokenTransactor L abi_text addr transactor =
     bindr (bindSimpletoken L abi_text addr None (Some transactor) None) (\<lambda>c. Inr \<lparr>contract = c\<rparr>)"

definition NewSimpletokenFilterer ::
  "('abi, 'b, 'c, 'e) bind_lib \<Rightarrow> string \<Rightarrow> address \<Rightarrow> 'b \<Rightarrow> 'e + 'c SimpletokenFilterer"
where
  "NewSimpletokenFilterer L abi_text addr filterer =
     bindr (bindSimpletoken L abi_text addr None None (Some filterer)) (\<lambda>c. Inr \<lparr>contract = c\<rparr>)"

subsection \<open>Raw calls and transactions\<close>

definition SimpletokenRaw_Call ::
  "('w, 'co, 'to, 'fo, 'wo, 'e, 'tx, 'l) bound_contract SimpletokenRaw \<Rightarrow> 'co \<Rightarrow> string \<Rightarrow> iface list \<Rightarrow> 'w \<Rightarrow> 'e + iface list"
where
  "SimpletokenRaw_Call C opts method params w =
     bc_Call (contract (Caller (raw_Contract C))) opts method params w"

definition SimpletokenRaw_Transfer ::
  "('w, 'co, 'to, 'fo, 'wo, 'e, 'tx, 'l) bound_contract SimpletokenRaw \<Rightarrow> 'to \<Rightarrow> 'w \<Rightarrow> ('e + 'tx) \<times> 'w"
where
  "SimpletokenRaw_Transfer C opts w =
     bc_Transfer (contract (Transactor (raw_Contract C))) opts w"

definition SimpletokenRaw_Transact ::
  "('w, 'co, 'to, 'fo, 'wo, 'e, 'tx, 'l) bound_contract SimpletokenRaw \<Rightarrow> 'to \<Rightarrow> string \<Rightarrow> iface list \<Rightarrow> 'w \<Rightarrow> ('e + 'tx) \<times> 'w"
where
  "SimpletokenRaw_Transact C opts method params w =
     contract_transact (contract (Transactor (raw_Contract C))) opts method params w"

definition SimpletokenCallerRaw_Call ::
  "('w, 'co, 'to, 'fo, 'wo, 'e, 'tx, 'l) bound_contract SimpletokenCallerRaw \<Rightarrow> 'co \<Rightarrow> string \<Rightarrow> iface list \<Rightarrow> 'w \<Rightarrow> 'e + iface list"
where
  "SimpletokenCallerRaw_Call C opts method params w =
     bc_Call (contract (raw_part C)) opts method params w"

definition SimpletokenTransactorRaw_Transfer ::
  "('w, 'co, 'to, 'fo, 'wo, 'e, 'tx, 'l) bound_contract SimpletokenTransactorRaw \<Rightarrow> 'to \<Rightarrow> 'w \<Rightarrow> ('e + 'tx) \<times> 'w"
where
  "SimpletokenTransactorRaw_Transfer C opts w =
     bc_Transfer (contract (raw_part C)) opts w"

definition SimpletokenTransactorRaw_Transact ::
  "('w, 'co, 'to, 'fo, 'wo, 'e, 'tx, 'l) bound_contract SimpletokenTransactorRaw \<Rightarrow> 'to \<Rightarrow> string \<Rightarrow> iface list \<Rightarrow> 'w \<Rightarrow> ('e + 'tx) \<times> 'w"
where
  "SimpletokenTransactorRaw_Transact C opts method params w =
     contract_transact (contract (raw_part C)) opts method params w"

subsection \<open>Calls\<close>

definition SimpletokenCaller_Allowance ::
  "('w, 'co, 'to, 'fo, 'wo, 'e, 'tx, 'l) bound_contract SimpletokenCaller \<Rightarrow> 'co \<Rightarrow> address \<Rightarrow> address \<Rightarrow> 'w \<Rightarrow> 'e go_fail + int"
where
  "SimpletokenCaller_Allowance C opts owner spender w =
     bindr (contract_call (contract C) opts ''allowance'' [I_address owner, I_address spender] w) (\<lambda>out.
     out_at (contract C) as_big out 0)"

definition SimpletokenCaller_BalanceOf ::
  "('w, 'co, 'to, 'fo, 'wo, 'e, 'tx, 'l) bound_contract SimpletokenCaller \<Rightarrow> 'co \<Rightarrow> address \<Rightarrow> 'w \<Rightarrow> 'e go_fail + int"
where
  "SimpletokenCaller_BalanceOf C opts account w =
     bindr (contract_call (contract C) opts ''balanceOf'' [I_address account] w) (\<lambda>out.
     out_at (contract C) as_big out 0)"

definition SimpletokenCaller_Decimals ::
  "('w, 'co, 'to, 'fo, 'wo, 'e, 'tx, 'l) bound_contract SimpletokenCaller \<Rightarrow> 'co \<Rightarrow> 'w \<Rightarrow> 'e go_fail + 8 word"
where
  "SimpletokenCaller_Decimals C opts w =
     bindr (contract_call (contract C) opts ''decimals'' [] w) (\<lambda>out.
     out_at (contract C) as_uint8 out 0)"

definition SimpletokenCaller_Name ::
  "('w, 'co, 'to, 'fo, 'wo, 'e, 'tx, 'l) bound_contract SimpletokenCaller \<Rightarrow> 'co \<Rightarrow> 'w \<Rightarrow> 'e go_fail + string"
where
  "SimpletokenCaller_Name C opts w =
     bindr (contract_call (contract C) opts ''name'' [] w) (\<lambda>out.
     out_at (contract C) as_string out 0)"

definition SimpletokenCaller_Symbol ::
  "('w, 'co, 'to, 'fo, 'wo, 'e, 'tx, 'l) bound_contract SimpletokenCaller \<Rightarrow> 'co \<Rightarrow> 'w \<Rightarrow> 'e go_fail + string"
where
  "SimpletokenCaller_Symbol C opts w =
     bindr (contract_call (contract C) opts ''symbol'' [] w) (\<lambda>out.
     out_at (contract C) as_string out 0)"

definition SimpletokenCaller_TotalSupply ::
  "('w, 'co, 'to, 'fo, 'wo, 'e, 'tx, 'l) bound_contract SimpletokenCaller \<Rightarrow> 'co \<Rightarrow> 'w \<Rightarrow> 'e go_fail + int"
where
  "SimpletokenCaller_TotalSupply C opts w =
     bindr (contract_call (contract C) opts ''totalSupply'' [] w) (\<lambda>out.
     out_at (contract C) as_big out 0)"

subsection \<open>Transactions\<close>

definition SimpletokenTransactor_Approve ::
  "('w, 'co, 'to, 'fo, 'wo, 'e, 'tx, 'l) bound_contract SimpletokenTransactor \<Rightarrow> 'to \<Rightarrow> address \<Rightarrow> int \<Rightarrow> 'w \<Rightarrow> ('e + 'tx) \<times> 'w"
where
  "SimpletokenTransactor_Approve T opts spender amount w =
     contract_transact (contract T) opts ''approve'' [I_address spender, I_big amount] w"

definition SimpletokenTransactor_DecreaseAllowance ::
  "('w, 'co, 'to, 'fo, 'wo, 'e, 'tx, 'l) bound_contract SimpletokenTransactor \<Rightarrow> 'to \<Rightarrow> address \<Rightarrow> int \<Rightarrow> 'w \<Rightarrow> ('e + 'tx) \<times> 'w"
where
  "SimpletokenTransactor_DecreaseAllowance T opts spender subtractedValue w =
     contract_transact (contract T) opts ''decreaseAllowance'' [I_address spender, I_big subtractedValue] w"

definition SimpletokenTransactor_IncreaseAllowance ::
  "('w, 'co, 'to, 'fo, 'wo, 'e, 'tx, 'l) bound_contract SimpletokenTransactor \<Rightarrow> 'to \<Rightarrow> address \<Rightarrow> int \<Rightarrow> 'w \<Rightarrow> ('e + 'tx) \<times> 'w"
where
  "SimpletokenTransactor_IncreaseAllowance T opts spender addedValue w =
     contract_transact (contract T) opts ''increaseAllowance'' [I_address spender, I_big addedValue] w"

definition SimpletokenTransactor_Transfer ::
  "('w, 'co, 'to, 'fo, 'wo, 'e, 'tx, 'l) bound_contract SimpletokenTransactor \<Rightarrow> 'to \<Rightarrow> address \<Rightarrow> int \<Rightarrow> 'w \<Rightarrow> ('e + 'tx) \<times> 'w"
where
  "SimpletokenTransactor_Transfer T opts recipient amount w =
     contract_transact (contract T) opts ''transfer'' [I_address recipient, I_big amount] w"

definition SimpletokenTransactor_TransferFrom ::
  "('w, 'co, 'to, 'fo, 'wo, 'e, 'tx, 'l) bound_contract SimpletokenTransactor \<Rightarrow> 'to \<Rightarrow> address \<Rightarrow> address \<Rightarrow> int \<Rightarrow> 'w \<Rightarrow> ('e + 'tx) \<times> 'w"
where
  "SimpletokenTransactor_TransferFrom T opts sender recipient amount w =
     contract_transact (contract T) opts ''transferFrom'' [I_address sender, I_address recipient, I_big amount] w"

subsection \<open>Sessions\<close>

definition SimpletokenSession_Allowance ::
  "(('w, 'co, 'to, 'fo, 'wo, 'e, 'tx, 'l) bound_contract, 'co, 'to) SimpletokenSession \<Rightarrow> address \<Rightarrow> address \<Rightarrow> 'w \<Rightarrow> 'e go_fail + int"
where
  "SimpletokenSession_Allowance S owner spender w =
     SimpletokenCaller_Allowance (Caller (session_Contract S)) (session_CallOpts S) owner spender w"

definition SimpletokenCallerSession_Allowance ::
  "(('w, 'co, 'to, 'fo, 'wo, 'e, 'tx, 'l) bound_contract, 'co) SimpletokenCallerSession \<Rightarrow> address \<Rightarrow> address \<Rightarrow> 'w \<Rightarrow> 'e go_fail + int"
where
  "SimpletokenCallerSession_Allowance S owner spender w =
     SimpletokenCaller_Allowance (caller_Contract S) (caller_CallOpts S) owner spender w"

definition SimpletokenSession_BalanceOf ::
  "(('w, 'co, 'to, 'fo, 'wo, 'e, 'tx, 'l) bound_contract, 'co, 'to) SimpletokenSession \<Rightarrow> address \<Rightarrow> 'w \<Rightarrow> 'e go_fail + int"
where
  "SimpletokenSession_BalanceOf S account w =
     SimpletokenCaller_BalanceOf (Caller (session_Contract S)) (session_CallOpts S) account w"

definition SimpletokenCallerSession_BalanceOf ::
  "(('w, 'co, 'to, 'fo, 'wo, 'e, 'tx, 'l) bound_contract, 'co) SimpletokenCallerSession \<Rightarrow> address \<Rightarrow> 'w \<Rightarrow> 'e go_fail + int"
where
  "SimpletokenCallerSession_BalanceOf S account w =
     SimpletokenCaller_BalanceOf (caller_Contract S) (caller_CallOpts S) account w"

definition SimpletokenSession_Decimals ::
  "(('w, 'co, 'to, 'fo, 'wo, 'e, 'tx, 'l) bound_contract, 'co, 'to) SimpletokenSession \<Rightarrow> 'w \<Rightarrow> 'e go_fail + 8 word"
where
  "SimpletokenSession_Decimals S w =
     SimpletokenCaller_Decimals (Caller (session_Contract S)) (session_CallOpts S) w"

definition SimpletokenCallerSession_Decimals ::
  "(('w, 'co, 'to, 'fo, 'wo, 'e, 'tx, 'l) bound_contract, 'co) SimpletokenCallerSession \<Rightarrow> 'w \<Rightarrow> 'e go_fail + 8 word"
where
  "SimpletokenCallerSession_Decimals S w =
     SimpletokenCaller_Decimals (caller_Contract S) (caller_CallOpts S) w"

definition SimpletokenSession_Name ::
  "(('w, 'co, 'to, 'fo, 'wo, 'e, 'tx, 'l) bound_contract, 'co, 'to) SimpletokenSession \<Rightarrow> 'w \<Rightarrow> 'e go_fail + string"
where
  "SimpletokenSession_Name S w =
     SimpletokenCaller_Name (Caller (session_Contract S)) (session_CallOpts S) w"

definition SimpletokenCallerSession_Name ::
  "(('w, 'co, 'to, 'fo, 'wo, 'e, 'tx, 'l) bound_contract, 'co) SimpletokenCallerSession \<Rightarrow> 'w \<Rightarrow> 'e go_fail + string"
where
  "SimpletokenCallerSession_Name S w =
     SimpletokenCaller_Name (caller_Contract S) (caller_CallOpts S) w"

definition SimpletokenSession_Symbol ::
  "(('w, 'co, 'to, 'fo, 'wo, 'e, 'tx, 'l) bound_contract, 'co, 'to) SimpletokenSession \<Rightarrow> 'w \<Rightarrow> 'e go_fail + string"
where
  "SimpletokenSession_Symbol S w =
     SimpletokenCaller_Symbol (Caller (session_Contract S)) (session_CallOpts S) w"

definition SimpletokenCallerSession_Symbol ::
  "(('w, 'co, 'to, 'fo, 'wo, 'e, 'tx, 'l) bound_contract, 'co) SimpletokenCallerSession \<Rightarrow> 'w \<Rightarrow> 'e go_fail + string"
where
  "SimpletokenCallerSession_Symbol S w =
     SimpletokenCaller_Symbol (caller_Contract S) (caller_CallOpts S) w"

definition SimpletokenSession_TotalSupply ::
  "(('w, 'co, 'to, 'fo, 'wo, 'e, 'tx, 'l) bound_contract, 'co, 'to) SimpletokenSession \<Rightarrow> 'w \<Rightarrow> 'e go_fail + int"
where
  "SimpletokenSession_TotalSupply S w =
     SimpletokenCaller_TotalSupply (Caller (session_Contract S)) (session_CallOpts S) w"

definition SimpletokenCallerSession_TotalSupply ::
  "(('w, 'co, 'to, 'fo, 'wo, 'e, 'tx, 'l) bound_contract, 'co) SimpletokenCallerSession \<Rightarrow> 'w \<Rightarrow> 'e go_fail + int"
where
  "SimpletokenCallerSession_TotalSupply S w =
     SimpletokenCaller_TotalSupply (caller_Contract S) (caller_CallOpts S) w"

definition SimpletokenSession_Approve ::
  "(('w, 'co, 'to, 'fo, 'wo, 'e, 'tx, 'l) bound_contract, 'co, 'to) SimpletokenSession \<Rightarrow> address \<Rightarrow> int \<Rightarrow> 'w \<Rightarrow> ('e + 'tx) \<times> 'w"
where
  "SimpletokenSession_Approve S spender amount w =
     SimpletokenTransactor_Approve (Transactor (session_Contract S)) (session_TransactOpts S) spender amount w"

definition SimpletokenTransactorSession_Approve ::
  "(('w, 'co, 'to, 'fo, 'wo, 'e, 'tx, 'l) bound_contract, 'to) SimpletokenTransactorSession \<Rightarrow> address \<Rightarrow> int \<Rightarrow> 'w \<Rightarrow> ('e + 'tx) \<times> 'w"
where
  "SimpletokenTransactorSession_Approve S spender amount w =
     SimpletokenTransactor_Approve (transactor_Contract S) (transactor_TransactOpts S) spender amount w"

definition SimpletokenSession_DecreaseAllowance ::
  "(('w, 'co, 'to, 'fo, 'wo, 'e, 'tx, 'l) bound_contract, 'co, 'to) SimpletokenSession \<Rightarrow> address \<Rightarrow> int \<Rightarrow> 'w \<Rightarrow> ('e + 'tx) \<times> 'w"
where
  "SimpletokenSession_DecreaseAllowance S spender subtractedValue w =
     SimpletokenTransactor_DecreaseAllowance (Transactor (session_Contract S)) (session_TransactOpts S) spender subtractedValue w"

definition SimpletokenTransactorSession_DecreaseAllowance ::
  "(('w, 'co, 'to, 'fo, 'wo, 'e, 'tx, 'l) bound_contract, 'to) SimpletokenTransactorSession \<Rightarrow> address \<Rightarrow> int \<Rightarrow> 'w \<Rightarrow> ('e + 'tx) \<times> 'w"
where
  "SimpletokenTransactorSession_DecreaseAllowance S spender subtractedValue w =
     SimpletokenTransactor_DecreaseAllowance (transactor_Contract S) (transactor_TransactOpts S) spender subtractedValue w"

definition SimpletokenSession_IncreaseAllowance ::
  "(('w, 'co, 'to, 'fo, 'wo, 'e, 'tx, 'l) bound_contract, 'co, 'to) SimpletokenSession \<Rightarrow> address \<Rightarrow> int \<Rightarrow> 'w \<Rightarrow> ('e + 'tx) \<times> 'w"
where
  "SimpletokenSession_IncreaseAllowance S spender addedValue w =
     SimpletokenTransactor_IncreaseAllowance (Transactor (session_Contract S)) (session_TransactOpts S) spender addedValue w"

definition SimpletokenTransactorSession_IncreaseAllowance ::
  "(('w, 'co, 'to, 'fo, 'wo, 'e, 'tx, 'l) bound_contract, 'to) SimpletokenTransactorSession \<Rightarrow> address \<Rightarrow> int \<Rightarrow> 'w \<Rightarrow> ('e + 'tx) \<times> 'w"
where
  "SimpletokenTransactorSession_IncreaseAllowance S spender addedValue w =
     SimpletokenTransactor_IncreaseAllowance (transactor_Contract S) (transactor_TransactOpts S) spender addedValue w"

definition SimpletokenSession_Transfer ::
  "(('w, 'co, 'to, 'fo, 'wo, 'e, 'tx, 'l) bound_contract, 'co, 'to) SimpletokenSession \<Rightarrow> address \<Rightarrow> int \<Rightarrow> 'w \<Rightarrow> ('e + 'tx) \<times> 'w"
where
  "SimpletokenSession_Transfer S recipient amount w =
     SimpletokenTransactor_Transfer (Transactor (session_Contract S)) (session_TransactOpts S) recipient amount w"

definition SimpletokenTransactorSession_Transfer ::
  "(('w, 'co, 'to, 'fo, 'wo, 'e, 'tx, 'l) bound_contract, 'to) SimpletokenTransactorSession \<Rightarrow> address \<Rightarrow> int \<Rightarrow> 'w \<Rightarrow> ('e + 'tx) \<times> 'w"
where
  "SimpletokenTransactorSession_Transfer S recipient amount w =
     SimpletokenTransactor_Transfer (transactor_Contract S) (transactor_TransactOpts S) recipient amount w"

definition SimpletokenSession_TransferFrom ::
  "(('w, 'co, 'to, 'fo, 'wo, 'e, 'tx, 'l) bound_contract, 'co, 'to) SimpletokenSession \<Rightarrow> address \<Rightarrow> address \<Rightarrow> int \<Rightarrow> 'w \<Rightarrow> ('e + 'tx) \<times> 'w"
where
  "SimpletokenSession_TransferFrom S sender recipient amount w =
     SimpletokenTransactor_TransferFrom (Transactor (session_Contract S)) (session_TransactOpts S) sender recipient amount w"

definition SimpletokenTransactorSession_TransferFrom ::
  "(('w, 'co, 'to, 'fo, 'wo, 'e, 'tx, 'l) bound_contract, 'to) SimpletokenTransactorSession \<Rightarrow> address \<Rightarrow> address \<Rightarrow> int \<Rightarrow> 'w \<Rightarrow> ('e + 'tx) \<times> 'w"
where
  "SimpletokenTransactorSession_TransferFrom S sender recipient amount w =
     SimpletokenTransactor_TransferFrom (transactor_Contract S) (transactor_TransactOpts S) sender recipient amount w"

subsection \<open>Event Approval\<close>

record 'l SimpletokenApproval =
  SimpletokenApproval_Owner :: "address"
  SimpletokenApproval_Spender :: "address"
  SimpletokenApproval_Value :: "int"
  SimpletokenApproval_Raw :: 'l

definition SimpletokenApproval_fill :: "iface list \<Rightarrow> 'l \<Rightarrow> 'l SimpletokenApproval option" where
  "SimpletokenApproval_fill vs log =
     (case vs of
        [v0, v1, v2] \<Rightarrow> Option.bind (as_address v0) (\<lambda>x0.
          Option.bind (as_address v1) (\<lambda>x1.
          Option.bind (as_big v2) (\<lambda>x2.
          Some \<lparr>SimpletokenApproval_Owner = x0, SimpletokenApproval_Spender = x1, SimpletokenApproval_Value = x2, SimpletokenApproval_Raw = log\<rparr>)))
      | _ \<Rightarrow> None)"

type_synonym ('l, 'e) SimpletokenApprovalIterator = "('l SimpletokenApproval, 'l, 'e) event_iterator"

definition SimpletokenApprovalIterator_Next ::
  "('w, 'co, 'to, 'fo, 'wo, 'e, 'tx, 'l) bound_contract \<Rightarrow> ('l, 'e) SimpletokenApprovalIterator \<Rightarrow> (bool \<times> ('l, 'e) SimpletokenApprovalIterator) option"
where
  "SimpletokenApprovalIterator_Next c it =
     iterator_Next c SimpletokenApproval_fill it"

definition SimpletokenApprovalIterator_Error ::
  "('l, 'e) SimpletokenApprovalIterator \<Rightarrow> 'e option"
where
  "SimpletokenApprovalIterator_Error it =
     iterator_Error it"

definition SimpletokenApprovalIterator_Close ::
  "('w, 'co, 'to, 'fo, 'wo, 'e, 'tx, 'l) bound_contract \<Rightarrow> ('l, 'e) SimpletokenApprovalIterator \<Rightarrow> 'e option \<times> ('l, 'e) SimpletokenApprovalIterator"
where
  "SimpletokenApprovalIterator_Close c it =
     iterator_Close c it"

definition SimpletokenFilterer_FilterApproval ::
  "('w, 'co, 'to, 'fo, 'wo, 'e, 'tx, 'l) bound_contract SimpletokenFilterer \<Rightarrow> 'fo \<Rightarrow> address list \<Rightarrow> address list \<Rightarrow> 'w \<Rightarrow> 'e + ('l, 'e) SimpletokenApprovalIterator"
where
  "SimpletokenFilterer_FilterApproval F opts owner spender w =
     filter_logs (contract F) opts ''Approval'' [map I_address owner, map I_address spender] w"

definition SimpletokenFilterer_WatchApproval ::
  "('w, 'co, 'to, 'fo, 'wo, 'e, 'tx, 'l) bound_contract SimpletokenFilterer \<Rightarrow> 'wo \<Rightarrow> address list \<Rightarrow> address list \<Rightarrow> 'w \<Rightarrow>
   'e + (('l, 'e) watch_input list \<Rightarrow> 'l SimpletokenApproval list \<times> 'e option option)"
where
  "SimpletokenFilterer_WatchApproval F opts owner spender w =
     watch_logs (contract F) opts ''Approval'' SimpletokenApproval_fill [map I_address owner, map I_address spender] w"

definition SimpletokenFilterer_ParseApproval ::
  "('w, 'co, 'to, 'fo, 'wo, 'e, 'tx, 'l) bound_contract SimpletokenFilterer \<Rightarrow> 'l \<Rightarrow> 'e + 'l SimpletokenApproval"
where
  "SimpletokenFilterer_ParseApproval F log =
     unpack_event (contract F) ''Approval'' SimpletokenApproval_fill log"

subsection \<open>Event Transfer\<close>

record 'l SimpletokenTransfer =
  SimpletokenTransfer_From :: "address"
  SimpletokenTransfer_To :: "address"
  SimpletokenTransfer_Value :: "int"
  SimpletokenTransfer_Raw :: 'l

definition SimpletokenTransfer_fill :: "iface list \<Rightarrow> 'l \<Rightarrow> 'l SimpletokenTransfer option" where
  "SimpletokenTransfer_fill vs log =
     (case vs of
        [v0, v1, v2] \<Rightarrow> Option.bind (as_address v0) (\<lambda>x0.
          Option.bind (as_address v1) (\<lambda>x1.
          Option.bind (as_big v2) (\<lambda>x2.
          Some \<lparr>SimpletokenTransfer_From = x0, SimpletokenTransfer_To = x1, SimpletokenTransfer_Value = x2, SimpletokenTransfer_Raw = log\<rparr>)))
      | _ \<Rightarrow> None)"

type_synonym ('l, 'e) SimpletokenTransferIterator = "('l SimpletokenTransfer, 'l, 'e) event_iterator"

definition SimpletokenTransferIterator_Next ::
  "('w, 'co, 'to, 'fo, 'wo, 'e, 'tx, 'l) bound_contract \<Rightarrow> ('l, 'e) SimpletokenTransferIterator \<Rightarrow> (bool \<times> ('l, 'e) SimpletokenTransferIterator) option"
where
  "SimpletokenTransferIterator_Next c it =
     iterator_Next c SimpletokenTransfer_fill it"

definition SimpletokenTransferIterator_Error ::
  "('l, 'e) SimpletokenTransferIterator \<Rightarrow> 'e option"
where
  "SimpletokenTransferIterator_Error it =
     iterator_Error it"

definition SimpletokenTransferIterator_Close ::
  "('w, 'co, 'to, 'fo, 'wo, 'e, 'tx, 'l) bound_contract \<Rightarrow> ('l, 'e) SimpletokenTransferIterator \<Rightarrow> 'e option \<times> ('l, 'e) SimpletokenTransferIterator"
where
  "SimpletokenTransferIterator_Close c it =
     iterator_Close c it"

definition SimpletokenFilterer_FilterTransfer ::
  "('w, 'co, 'to, 'fo, 'wo, 'e, 'tx, 'l) bound_contract SimpletokenFilterer \<Rightarrow> 'fo \<Rightarrow> address list \<Rightarrow> address list \<Rightarrow> 'w \<Rightarrow> 'e + ('l, 'e) SimpletokenTransferIterator"
where
  "SimpletokenFilterer_FilterTransfer F opts src dst w =
     filter_logs (contract F) opts ''Transfer'' [map I_address src, map I_address dst] w"

definition SimpletokenFilterer_WatchTransfer ::
  "('w, 'co, 'to, 'fo, 'wo, 'e, 'tx, 'l) bound_contract SimpletokenFilterer \<Rightarrow> 'wo \<Rightarrow> address list \<Rightarrow> address list \<Rightarrow> 'w \<Rightarrow>
   'e + (('l, 'e) watch_input list \<Rightarrow> 'l SimpletokenTransfer list \<times> 'e option option)"
where
  "SimpletokenFilterer_WatchTransfer F opts src dst w =
     watch_logs (contract F) opts ''Transfer'' SimpletokenTransfer_fill [map I_address src, map I_address dst] w"

definition SimpletokenFilterer_ParseTransfer ::
  "('w, 'co, 'to, 'fo, 'wo, 'e, 'tx, 'l) bound_contract SimpletokenFilterer \<Rightarrow> 'l \<Rightarrow> 'e + 'l SimpletokenTransfer"
where
  "SimpletokenFilterer_ParseTransfer F log =
     unpack_event (contract F) ''Transfer'' SimpletokenTransfer_fill log"

end
