(* ===== verification/Spec2Isabelle.thy ===== *)
theory Spec2Isabelle
  imports App_PB IBC_Properties Bind_Properties Relay_Properties Client_Messages Wallet
    Eth_Client ICS20_Solvency Packet_Search Coordinator_Properties IBFT2_Membership
    Ibcidentifier_Go Ibchost_Go Ibchandler_Go Ics20bank_Go Ics20transferbank_Go Simpletoken_Go
begin

text \<open>
  A verification of the IBC implementation for Ethereum-compatible chains: the Go code under
  \<^verbatim>\<open>pkg\<close> (protobuf codecs, chain clients, header validation, contract bindings, wallet, the
  relayer of the tests) and the Solidity contracts under \<^verbatim>\<open>contracts\<close> that it talks to.

  \<^bold>\<open>The program.\<close> A relayer drives two chains. It reads one chain through a client of its node
  (\<^verbatim>\<open>pkg/client\<close>), which for a Besu chain checks the commit seals of the header (\<^verbatim>\<open>pkg/chains\<close>), and
  through generated bindings of the contracts (\<^verbatim>\<open>pkg/contract\<close>); it encodes what it read with the
  generated protobuf codecs (\<^verbatim>\<open>pkg/ibc\<close>), turns it into proofs and messages (\<^verbatim>\<open>pkg/testing\<close>) and sends
  them to the handler of the other chain (\<^verbatim>\<open>IBCHandler.sol\<close>). The handler calls the IBC libraries, which
  verify the proofs with a light client contract and change the store (\<^verbatim>\<open>IBCHost.sol\<close>), and the module
  that owns the port, here the token transfer application (\<^verbatim>\<open>ICS20Transfer.sol\<close>) with its bank.

  \<^bold>\<open>Conventions.\<close> Go and Solidity integers are words of their width, byte slices are lists of bytes,
  Go strings and Solidity strings are lists of characters that stand for their bytes. A fallible Go
  function returns \<open>error + 'a\<close>, panics being errors of their own (\<open>Prelude\<close>). A contract call returns
  \<open>sol_error + 'a\<close>; a failing call has no effect, so an error carries no state (\<open>Sol_Base\<close>). State is
  passed and returned. A definition has the name of the source's function, with a prefix where the
  name is taken or where one function exists for several types.

  \<^bold>\<open>Codecs.\<close> \<open>Varint\<close>, \<open>Proto_Writer\<close> and \<open>Proto_Reader\<close> hold the code that the generator repeats in
  every \<^verbatim>\<open>.pb.go\<close> file (varints, backward writing, field cases, skipping), \<open>Proto_Codec\<close> the contract of
  a message type as the locale \<open>pb_codec\<close>, which every message interprets: \<open>App_PB\<close>, \<open>Channel_PB\<close>,
  \<open>Connection_PB\<close>, \<open>MockClient_PB\<close>, \<open>IBFT2_PB\<close> (the \<^verbatim>\<open>.pb.go\<close> files under \<^verbatim>\<open>pkg/ibc\<close>). The readers recurse with a fuel
  of one step per byte of input and one; every field consumes a byte, so the fuel is never used up
  (\<open>ConnectionEnd_Unmarshal_returns\<close>). The lemmas show sizes, frames, round trips and totality.
  \<open>Sol_Proto\<close>, \<open>Sol_Decode\<close> and \<open>Sol_IBFT2\<close> are the codecs of the contracts (\<^verbatim>\<open>contracts/core/types\<close>); they
  and the Go codecs write the same bytes and read each other's (\<open>ConnectionEnd_encode_Marshal\<close>,
  \<open>ftpd_codecs_agree\<close>, \<open>IBFT2_codecs_agree\<close>), which is what lets a proof made by one side verify on the
  other. A repeated field is read in two passes on chain; the locale \<open>sol_repeated\<close> shows they are one.
  \<open>Testing_Types\<close> and \<open>Client_Messages\<close> are the conversions, commitments and \<^verbatim>\<open>Any\<close> wrappers of
  \<^verbatim>\<open>pkg/testing/types.go\<close> and \<^verbatim>\<open>pkg/ibc/channel/types.go\<close>. \<open>Sha256\<close> is an executable SHA-256.

  \<^bold>\<open>Chain access.\<close> \<open>Besu_Header\<close> (\<^verbatim>\<open>pkg/chains\<close>) parses headers and collects commit seals: two accepted
  headers over the same validators share more than a third of them. \<open>Besu_Client\<close> and \<open>Eth_Client\<close> are
  \<^verbatim>\<open>pkg/client\<close> and \<^verbatim>\<open>pkg/consts\<close>: contract states and proofs, receipts with their JSON form, revert
  reasons, the two node clients. \<open>Wallet\<close> is \<^verbatim>\<open>pkg/wallet\<close>. \<open>Go_Bind\<close> holds what the six bindings have in
  common, \<open>Ibchost_Go\<close>, \<open>Ibchandler_Go\<close>, \<open>Ibcidentifier_Go\<close>, \<open>Ics20bank_Go\<close>, \<open>Ics20transferbank_Go\<close> and
  \<open>Simpletoken_Go\<close> one definition per method, and \<open>Bind_Properties\<close> shows what the getters return
  against the modelled contracts and how event iteration and watching behave.

  \<^bold>\<open>Contracts.\<close> \<open>IBC_Identifier\<close> and \<open>IBC_Host\<close> are the store with its paths, commitments and access
  control; \<open>IBC_Msgs\<close>, \<open>IBC_Client\<close>, \<open>IBC_Connection\<close> and \<open>IBC_Channel\<close> the libraries over the interface
  \<open>iclient\<close> of a light client; \<open>Mock_Client\<close> is the light client of the tests. \<open>IBFT2_Client\<close> is the light
  client of an IBFT 2.0 chain, over \<open>Sol_RLP\<close> (\<^verbatim>\<open>RLP.sol\<close>) and \<open>Trie_Proofs\<close> (\<^verbatim>\<open>TrieProofs.sol\<close>): against the
  values and tries themselves (\<open>rlp\<close>, \<open>mpt\<close>) these show that genuine encodings and proofs are read and
  accepted, and what an accepted proof binds. \<open>IBFT2_Headers\<close> counts seals and reads headers;
  \<open>IBFT2_Properties\<close> shows that honest updates succeed, that an accepted header carries its quorum of
  seals, that the seals the relayer collects are those the contract accepts, and where the checks of
  seals are weaker than meant; \<open>IBFT2_Membership\<close> shows what the proofs of values show. \<open>IBC_Steps\<close> states the host as
  a step relation with an abstract specification of its effects, \<open>IBC_Invariants\<close> the invariants of
  reachable hosts, \<open>IBC_Properties\<close> the life cycles: connections and channels open once, packets are
  received and acknowledged once, commitments are hashes of what is stored. \<open>IBC_Handler\<close> is the
  handler with module callbacks and events; \<open>Packet_Ledger\<close> abstracts it to lists of packets sent,
  received and acknowledged, \<open>Handler_Steps\<close> is the refinement for any modules (locale \<open>ibc_modules\<close>),
  \<open>Handler_Properties\<close> its consequences for the transfer application. \<open>Sol_Strings\<close>, \<open>ICS20_Bank\<close> and
  \<open>ICS20_Transfer\<close> are the application; \<open>ICS20_Properties\<close> shows refunds and return trips,
  \<open>ICS20_Solvency\<close> that deposits stay backed by tokens over all calls by anyone.

  \<^bold>\<open>Relayer.\<close> \<open>Relayer\<close> is \<^verbatim>\<open>pkg/testing/chains.go\<close>, \<open>Coordinator\<close> \<^verbatim>\<open>coordinator.go\<close>, \<open>Packet_Search\<close> the lookup of
  packets in the handler's events. \<open>Relay_Properties\<close> shows that each message the relayer builds is
  accepted by the contracts of the other chain, \<open>Coordinator_Properties\<close> that from two chains with
  nothing but a registered mock client the coordinator arrives at an open channel.

  \<^bold>\<open>Parameters.\<close> What is not in the repository is an argument with its documented behaviour as a
  named hypothesis, each with a concrete instance in a witness: go-ethereum's RPC, RLP and signature
  functions (\<open>rpc_lib\<close>, \<open>besu_lib\<close>), the precompiled contract \<^verbatim>\<open>ecrecover\<close>, the bound contract of the bindings, the protobuf library's \<^verbatim>\<open>Any\<close>
  (\<open>codec_ok\<close>, \<open>any_wire\<close>), the BIP-32/39 library, OpenZeppelin's roles and ERC-20 tokens (\<open>roles_ok\<close>,
  \<open>erc20_ok\<close>), and Keccak-256, of which only the absence of collisions between the store's paths is
  assumed, where it is (\<open>keys_distinct\<close>; \<open>no_collision\<close> between the strings of a proof and the nodes of a
  trie), and its length of 32 bytes (\<open>hash32\<close>). What lies in memory behind an array is an argument \<open>J\<close> of
  the code that may read there, and every property holds for all of it. Sequence counters are 64-bit words that wrap; the properties
  over histories bound the number of operations by \<open>2^64\<close>. A node that the relayer polls for headers
  is a list of answers per call, those it gives before the 30 seconds are over.

  \<^bold>\<open>Not modelled.\<close> The unused decoders of connections and channels among the Solidity codecs and the unused
  \<^verbatim>\<open>Bytes.toUint64\<close>;
  \<^verbatim>\<open>Chain.Init\<close>, \<^verbatim>\<open>NewChain\<close> and \<^verbatim>\<open>NewCoordinator\<close>, which wire up deployed contracts; descriptors and
  \<^verbatim>\<open>String\<close> methods of the generated Go code, its reflection and the binaries of the contracts in the
  bindings; timeouts of contexts other than the one of \<^verbatim>\<open>UpdateHeader\<close>; gas, except that what must run
  out of it fails; test drivers, scripts, migrations.

  \<^bold>\<open>Plan.\<close> The packet messages of the coordinator over the handler with its callbacks, so that a token
  transfer runs end to end between two chains.
\<close>

end
